(* ===== verification/Prelude.thy ===== *)
theory Prelude
  imports Complex_Main "HOL-Library.AList" "HOL-Library.Char_ord" "HOL-Library.List_Lexorder"
begin

text \<open>
  What the components share: the parts of the JavaScript language and standard library the
  sources use. A string is a list of characters, one per code unit; a \<open>null\<close> or
  \<open>undefined\<close> value is \<open>None\<close>; a \<open>Map\<close>, and an object used as a record, is an association
  list in insertion order without duplicate keys; a \<open>Set\<close> is the list of its members in
  insertion order. The interface the components use of a map is the locale \<open>dict\<close>, interpreted
  below on the association lists; grouping and indexing loops are proved once inside it.
\<close>

named_theorems js_simps \<open>characteristic equations of the JavaScript library model\<close>

subsection \<open>Nullish and truthy values\<close>

text \<open>\<open>a ?? b\<close>\<close>

definition nullish :: "'a option \<Rightarrow> 'a \<Rightarrow> 'a" where
  "nullish a b = (case a of None \<Rightarrow> b | Some x \<Rightarrow> x)"

lemma nullish_simps [simp, js_simps]:
  "nullish None b = b"
  "nullish (Some x) b = x"
  by (simp_all add: nullish_def)

text \<open>A string is truthy when it is not empty; an absent one is not truthy.\<close>

definition truthy :: "string option \<Rightarrow> bool" where
  "truthy s = (case s of None \<Rightarrow> False | Some t \<Rightarrow> t \<noteq> [])"

lemma truthy_simps [simp, js_simps]:
  "\<not> truthy None"
  "truthy (Some t) \<longleftrightarrow> t \<noteq> []"
  by (simp_all add: truthy_def)

lemma truthyE: "truthy s \<Longrightarrow> (\<And>t. s = Some t \<Longrightarrow> t \<noteq> [] \<Longrightarrow> P) \<Longrightarrow> P"
  by (cases s) auto

subsection \<open>Strings\<close>

definition startsWith :: "string \<Rightarrow> string \<Rightarrow> bool" where
  "startsWith s p = (take (length p) s = p)"

definition endsWith :: "string \<Rightarrow> string \<Rightarrow> bool" where
  "endsWith s p = (length p \<le> length s \<and> drop (length s - length p) s = p)"

fun includes_str :: "string \<Rightarrow> string \<Rightarrow> bool" where
  "includes_str [] p = (p = [])"
| "includes_str (c # s) p = (startsWith (c # s) p \<or> includes_str s p)"

text \<open>\<open>s.slice(i, j)\<close> for indices that are not negative.\<close>

definition slice :: "'a list \<Rightarrow> nat \<Rightarrow> nat \<Rightarrow> 'a list" where
  "slice s i j = take (j - i) (drop i s)"

definition char_to_lower :: "char \<Rightarrow> char" where
  "char_to_lower c = (let n = of_char c :: nat in
     if (65 \<le> n \<and> n \<le> 90) \<or> (192 \<le> n \<and> n \<le> 222 \<and> n \<noteq> 215) then char_of (n + 32) else c)"

definition toLowerCase :: "string \<Rightarrow> string" where
  "toLowerCase s = map char_to_lower s"

definition is_space :: "char \<Rightarrow> bool" where
  "is_space c = (of_char c \<in> {9, 10, 11, 12, 13, 32, 160 :: nat})"

definition trimStart :: "string \<Rightarrow> string" where
  "trimStart s = dropWhile is_space s"

definition trimEnd :: "string \<Rightarrow> string" where
  "trimEnd s = rev (dropWhile is_space (rev s))"

definition trim_str :: "string \<Rightarrow> string" where
  "trim_str s = trimEnd (trimStart s)"

lemma startsWith_append [simp]: "startsWith (p @ s) p"
  by (simp add: startsWith_def)

lemma startsWithD: "startsWith s p \<Longrightarrow> \<exists>r. s = p @ r"
  by (metis startsWith_def append_take_drop_id)

lemma startsWith_iff: "startsWith s p \<longleftrightarrow> (\<exists>r. s = p @ r)"
  using startsWithD startsWith_append by blast

lemma endsWith_iff: "endsWith s p \<longleftrightarrow> (\<exists>r. s = r @ p)"
  by (metis endsWith_def append_take_drop_id append_eq_conv_conj diff_add_inverse2
      length_append le_add2)

lemma length_slice_le: "length (slice s i j) \<le> j - i"
  by (simp add: slice_def)

lemma trimStart_id: "s \<noteq> [] \<Longrightarrow> \<not> is_space (hd s) \<Longrightarrow> trimStart s = s"
  by (cases s) (auto simp: trimStart_def)

lemma trimEnd_id: "s \<noteq> [] \<Longrightarrow> \<not> is_space (last s) \<Longrightarrow> trimEnd s = s"
  by (cases s rule: rev_cases) (auto simp: trimEnd_def)

lemma trim_str_id:
  "s \<noteq> [] \<Longrightarrow> \<not> is_space (hd s) \<Longrightarrow> \<not> is_space (last s) \<Longrightarrow> trim_str s = s"
  by (simp add: trim_str_def trimStart_id trimEnd_id)

text \<open>Joining with a separator: \<open>xs.join(sep)\<close>.\<close>

fun join :: "string \<Rightarrow> string list \<Rightarrow> string" where
  "join sep [] = []"
| "join sep [x] = x"
| "join sep (x # xs) = x @ sep @ join sep xs"

text \<open>
  Splitting at a separator is unambiguous when the separator does not occur on the left:
  the composite keys of the sources (\<open>name|name\<close>, \<open>id\0name\<close>) rest on this.
\<close>

lemma sep_key_inject:
  assumes "c \<notin> set a" and "c \<notin> set a'"
  shows "a @ c # b = a' @ c # b' \<longleftrightarrow> a = a' \<and> b = b'"
proof
  assume eq: "a @ c # b = a' @ c # b'"
  have "a = a'"
  proof -
    have "a = takeWhile (\<lambda>x. x \<noteq> c) (a @ c # b)"
      using assms(1) by (subst takeWhile_append2) auto
    also have "\<dots> = takeWhile (\<lambda>x. x \<noteq> c) (a' @ c # b')"
      by (simp only: eq)
    also have "\<dots> = a'"
      using assms(2) by (subst takeWhile_append2) auto
    finally show ?thesis .
  qed
  with eq show "a = a' \<and> b = b'" by simp
qed simp

subsection \<open>Decimal digits\<close>

definition digit :: "nat \<Rightarrow> char" where
  "digit n = char_of (48 + n)"

definition is_digit :: "char \<Rightarrow> bool" where
  "is_digit c = (48 \<le> (of_char c :: nat) \<and> (of_char c :: nat) \<le> 57)"

definition digit_val :: "char \<Rightarrow> nat" where
  "digit_val c = of_char c - 48"

lemma of_char_digit [simp]: "n < 10 \<Longrightarrow> (of_char (digit n) :: nat) = 48 + n"
  by (simp add: digit_def)

lemma is_digit_digit [simp]: "n < 10 \<Longrightarrow> is_digit (digit n)"
  by (simp add: is_digit_def)

lemma digit_val_digit [simp]: "n < 10 \<Longrightarrow> digit_val (digit n) = n"
  by (simp add: digit_val_def)

lemma digit_val_less: "is_digit c \<Longrightarrow> digit_val c < 10"
  by (auto simp: is_digit_def digit_val_def)

lemma digit_not_space: "is_digit c \<Longrightarrow> \<not> is_space c"
  by (auto simp: is_digit_def is_space_def)

text \<open>\<open>String(n)\<close> for a natural number, and the value of a digit string.\<close>

fun show_nat :: "nat \<Rightarrow> string" where
  "show_nat n = (if n < 10 then [digit n] else show_nat (n div 10) @ [digit (n mod 10)])"

declare show_nat.simps [simp del]

definition nat_of_digits :: "string \<Rightarrow> nat" where
  "nat_of_digits s = foldl (\<lambda>a c. a * 10 + digit_val c) 0 s"

definition show_int :: "int \<Rightarrow> string" where
  "show_int i = (if i < 0 then CHR ''-'' # show_nat (nat (- i)) else show_nat (nat i))"

text \<open>\<open>String(n).padStart(k, '0')\<close>\<close>

definition pad_nat :: "nat \<Rightarrow> nat \<Rightarrow> string" where
  "pad_nat k n = replicate (k - length (show_nat n)) (CHR ''0'') @ show_nat n"

lemma nat_of_digits_snoc [simp]: "nat_of_digits (s @ [c]) = nat_of_digits s * 10 + digit_val c"
  by (simp add: nat_of_digits_def)

lemma nat_of_digits_Nil [simp]: "nat_of_digits [] = 0"
  by (simp add: nat_of_digits_def)

lemma show_nat_nonempty [simp]: "show_nat n \<noteq> []"
  by (subst show_nat.simps) simp

lemma show_nat_digits: "list_all is_digit (show_nat n)"
proof (induction n rule: show_nat.induct)
  case (1 n)
  then show ?case
    by (subst show_nat.simps) auto
qed

lemma show_nat_is_digit: "c \<in> set (show_nat n) \<Longrightarrow> is_digit c"
  using show_nat_digits [of n] by (simp add: list_all_iff)

text \<open>Conditional equations, to evaluate on numerals.\<close>

lemma show_nat_eval:
  "n < 10 \<Longrightarrow> show_nat n = [digit n]"
  "\<not> n < 10 \<Longrightarrow> show_nat n = show_nat (n div 10) @ [digit (n mod 10)]"
  by (subst show_nat.simps, simp)+

lemma nat_of_digits_show [simp]: "nat_of_digits (show_nat n) = n"
proof (induction n rule: show_nat.induct)
  case (1 n)
  show ?case
  proof (cases "n < 10")
    case True
    then have "show_nat n = [] @ [digit n]" by (subst show_nat.simps) simp
    with True show ?thesis by (simp only: nat_of_digits_snoc) simp
  next
    case False
    then have "show_nat n = show_nat (n div 10) @ [digit (n mod 10)]"
      by (subst show_nat.simps) simp
    with 1 False show ?thesis by simp
  qed
qed

lemma show_nat_inject [simp]: "show_nat m = show_nat n \<longleftrightarrow> m = n"
  by (metis nat_of_digits_show)

lemma length_show_nat: "n < 10 ^ k \<Longrightarrow> 0 < k \<Longrightarrow> length (show_nat n) \<le> k"
proof (induction n arbitrary: k rule: show_nat.induct)
  case (1 n)
  show ?case
  proof (cases "n < 10")
    case True
    with 1(3) show ?thesis by (subst show_nat.simps) simp
  next
    case False
    with 1(2,3) obtain j where k: "k = Suc j" and j: "0 < j"
      by (cases k; cases "k - 1") auto
    from 1(2) k have "n div 10 < 10 ^ j" by (simp add: less_mult_imp_div_less mult.commute)
    with 1(1) [OF False this j] False k show ?thesis
      by (subst show_nat.simps) simp
  qed
qed

lemma nat_of_digits_zeros [simp]: "nat_of_digits (replicate k (CHR ''0'') @ s) = nat_of_digits s"
proof (induction k)
  case (Suc k)
  have "nat_of_digits (CHR ''0'' # t) = nat_of_digits t" for t
    by (simp add: nat_of_digits_def digit_val_def)
  with Suc show ?case by simp
qed simp

lemma nat_of_digits_pad [simp]: "nat_of_digits (pad_nat k n) = n"
  by (simp add: pad_nat_def)

lemma length_pad_nat: "n < 10 ^ k \<Longrightarrow> 0 < k \<Longrightarrow> length (pad_nat k n) = k"
  using length_show_nat [of n k] by (simp add: pad_nat_def)

lemma pad_nat_digits: "list_all is_digit (pad_nat k n)"
  using show_nat_digits [of n] by (auto simp: pad_nat_def list_all_iff is_digit_def)

lemma pad_nat_is_digit: "c \<in> set (pad_nat k n) \<Longrightarrow> is_digit c"
  using pad_nat_digits [of k n] by (simp add: list_all_iff)

subsection \<open>Maps: the interface and its two representations\<close>

text \<open>
  What the sources rely on when they use a \<open>Map\<close> or an object as a dictionary: an empty one holds
  nothing, and after storing under a key exactly that key has changed.
\<close>

locale dict =
  fixes dempty :: "'m"
    and dget :: "'m \<Rightarrow> 'k \<Rightarrow> 'v option"
    and dset :: "'k \<Rightarrow> 'v \<Rightarrow> 'm \<Rightarrow> 'm"
  assumes get_empty: "dget dempty k = None"
    and get_set: "dget (dset k v m) k' = (if k' = k then Some v else dget m k')"
begin

lemma get_set_same: "dget (dset k v m) k = Some v"
  by (simp add: get_set)

lemma get_set_other: "k' \<noteq> k \<Longrightarrow> dget (dset k v m) k' = dget m k'"
  by (simp add: get_set)

text \<open>A loop that stores one entry per element: the last element with the key wins.\<close>

lemma get_index_fold:
  "dget (foldl (\<lambda>m x. dset (f x) (g x) m) m0 xs) k =
    (case filter (\<lambda>x. f x = k) (rev xs) of [] \<Rightarrow> dget m0 k | x # _ \<Rightarrow> Some (g x))"
proof (induction xs rule: rev_induct)
  case (snoc x xs)
  then show ?case by (simp add: get_set)
qed simp

lemma get_index_distinct:
  assumes "distinct (map f xs)" and "x \<in> set xs"
  shows "dget (foldl (\<lambda>m x. dset (f x) (g x) m) m0 xs) (f x) = Some (g x)"
proof -
  have "filter (\<lambda>y. f y = f x) (rev xs) = [x]"
    using assms
  proof (induction xs)
    case (Cons y ys)
    then have none: "f y \<notin> f ` set ys" by simp
    show ?case
    proof (cases "x = y")
      case True
      with none have "filter (\<lambda>z. f z = f x) (rev ys) = []"
        by (auto simp: filter_empty_conv image_iff)
      with True show ?thesis by simp
    next
      case False
      with Cons.prems have "x \<in> set ys" by simp
      with none have "f y \<noteq> f x" by auto
      with Cons \<open>x \<in> set ys\<close> show ?thesis by simp
    qed
  qed simp
  then show ?thesis by (simp add: get_index_fold)
qed

lemma get_index_none:
  "k \<notin> f ` set xs \<Longrightarrow> dget (foldl (\<lambda>m x. dset (f x) (g x) m) m0 xs) k = dget m0 k"
  by (induction xs rule: rev_induct) (auto simp: get_set)

end

text \<open>A dictionary of lists: the grouping loops.\<close>

locale list_dict = dict dempty dget dset
  for dempty :: "'m" and dget :: "'m \<Rightarrow> 'k \<Rightarrow> 'v list option" and dset
begin

lemma get_push:
  "dget (dset k (nullish (dget m k) [] @ [v]) m) k' =
    (if k' = k then Some (nullish (dget m k) [] @ [v]) else dget m k')"
  by (rule get_set)

lemma get_group_fold:
  "nullish (dget (foldl (\<lambda>m x. dset (f x) (nullish (dget m (f x)) [] @ [g x]) m) m0 xs) k) [] =
    nullish (dget m0 k) [] @ map g (filter (\<lambda>x. f x = k) xs)"
proof (induction xs rule: rev_induct)
  case (snoc x xs)
  then show ?case by (auto simp: get_set)
qed simp

lemma get_group_dom:
  "dget (foldl (\<lambda>m x. dset (f x) (nullish (dget m (f x)) [] @ [g x]) m) m0 xs) k = None \<longleftrightarrow>
    dget m0 k = None \<and> k \<notin> f ` set xs"
proof (induction xs rule: rev_induct)
  case (snoc x xs)
  then show ?case by (auto simp: get_set)
qed simp

end

lemma find_mem: "find P xs = Some x \<Longrightarrow> x \<in> set xs \<and> P x"
  by (auto simp: find_Some_iff)

text \<open>The JavaScript \<open>Map\<close>: entries in insertion order, an update keeps the position.\<close>

type_synonym ('k, 'v) jsmap = "('k \<times> 'v) list"

definition js_get :: "('k, 'v) jsmap \<Rightarrow> 'k \<Rightarrow> 'v option" where
  "js_get m k = map_of m k"

fun js_set :: "'k \<Rightarrow> 'v \<Rightarrow> ('k, 'v) jsmap \<Rightarrow> ('k, 'v) jsmap" where
  "js_set k v [] = [(k, v)]"
| "js_set k v ((k', v') # m) = (if k' = k then (k, v) # m else (k', v') # js_set k v m)"

definition js_keys :: "('k, 'v) jsmap \<Rightarrow> 'k list" where
  "js_keys m = map fst m"

definition js_map_ok :: "('k, 'v) jsmap \<Rightarrow> bool" where
  "js_map_ok m = distinct (js_keys m)"

lemma js_get_set: "js_get (js_set k v m) k' = (if k' = k then Some v else js_get m k')"
  by (induction k v m rule: js_set.induct) (auto simp: js_get_def)

lemma js_get_Nil [simp]: "js_get [] k = None"
  by (simp add: js_get_def)

interpretation jm: dict "[]" js_get js_set
  by unfold_locales (simp_all add: js_get_set)

interpretation jl: list_dict "[]" js_get js_set
  by unfold_locales

lemma set_js_keys_set: "set (js_keys (js_set k v m)) = insert k (set (js_keys m))"
  by (induction k v m rule: js_set.induct) (auto simp: js_keys_def)

lemma js_map_ok_set [simp]: "js_map_ok m \<Longrightarrow> js_map_ok (js_set k v m)"
  by (induction k v m rule: js_set.induct)
    (auto simp: js_map_ok_def js_keys_def set_js_keys_set [unfolded js_keys_def set_map])

lemma js_map_ok_Nil [simp]: "js_map_ok []"
  by (simp add: js_map_ok_def js_keys_def)

lemma js_get_None_iff: "js_get m k = None \<longleftrightarrow> k \<notin> set (js_keys m)"
  by (auto simp: js_get_def js_keys_def map_of_eq_None_iff)

lemma js_keys_set:
  "js_keys (js_set k v m) = (if k \<in> set (js_keys m) then js_keys m else js_keys m @ [k])"
  by (induction k v m rule: js_set.induct) (auto simp: js_keys_def)

lemma js_get_mem: "js_map_ok m \<Longrightarrow> (k, v) \<in> set m \<longleftrightarrow> js_get m k = Some v"
  by (simp add: js_map_ok_def js_get_def js_keys_def)

text \<open>An object used as a dictionary of which only the lookups are read.\<close>

definition rec_get :: "('k \<rightharpoonup> 'v) \<Rightarrow> 'k \<Rightarrow> 'v option" where
  "rec_get m k = m k"

definition rec_set :: "'k \<Rightarrow> 'v \<Rightarrow> ('k \<rightharpoonup> 'v) \<Rightarrow> ('k \<rightharpoonup> 'v)" where
  "rec_set k v m = m(k \<mapsto> v)"

interpretation ro: dict "\<lambda>_. None" rec_get rec_set
  by unfold_locales (simp_all add: rec_get_def rec_set_def)

text \<open>\<open>new Map(xs.map(x => [f(x), x]))\<close>, and the loop that groups elements by a key.\<close>

definition index_by :: "('a \<Rightarrow> 'k) \<Rightarrow> 'a list \<Rightarrow> ('k, 'a) jsmap" where
  "index_by f xs = foldl (\<lambda>m x. js_set (f x) x m) [] xs"

definition group_by :: "('a \<Rightarrow> 'k) \<Rightarrow> ('a \<Rightarrow> 'b) \<Rightarrow> 'a list \<Rightarrow> ('k, 'b list) jsmap" where
  "group_by f g xs = foldl (\<lambda>m x. js_set (f x) (nullish (js_get m (f x)) [] @ [g x]) m) [] xs"

lemma index_by_get: "distinct (map f xs) \<Longrightarrow> x \<in> set xs \<Longrightarrow> js_get (index_by f xs) (f x) = Some x"
  unfolding index_by_def by (rule jm.get_index_distinct)

lemma index_by_last:
  "js_get (index_by f xs) k =
    (case filter (\<lambda>x. f x = k) (rev xs) of [] \<Rightarrow> None | x # _ \<Rightarrow> Some x)"
  unfolding index_by_def by (simp add: jm.get_index_fold split: list.split)

lemma index_by_Some: "js_get (index_by f xs) k = Some x \<Longrightarrow> x \<in> set xs \<and> f x = k"
  unfolding index_by_def
  by (induction xs rule: rev_induct) (auto simp: js_get_set split: if_splits)

lemma index_by_None: "js_get (index_by f xs) k = None \<longleftrightarrow> k \<notin> f ` set xs"
  unfolding index_by_def by (induction xs rule: rev_induct) (auto simp: js_get_set)

lemma group_by_get:
  "nullish (js_get (group_by f g xs) k) [] = map g (filter (\<lambda>x. f x = k) xs)"
  unfolding group_by_def by (simp add: jl.get_group_fold jm.get_empty)

lemma group_by_None: "js_get (group_by f g xs) k = None \<longleftrightarrow> k \<notin> f ` set xs"
  unfolding group_by_def by (simp add: jl.get_group_dom jm.get_empty)

lemma js_map_ok_group_by [simp]: "js_map_ok (group_by f g xs)"
  unfolding group_by_def by (induction xs rule: rev_induct) auto

subsection \<open>Sets in insertion order, and the deduplication loop\<close>

text \<open>
  The loop \<open>xs.filter(x => \<dots> seen.has(key) \<dots> seen.add(key))\<close>: the first element of each key is
  kept. With the identity as key it is \<open>[...new Set(xs)]\<close>.
\<close>

fun dedup_by :: "('a \<Rightarrow> 'k) \<Rightarrow> 'k list \<Rightarrow> 'a list \<Rightarrow> 'a list" where
  "dedup_by f seen [] = []"
| "dedup_by f seen (x # xs) =
    (if f x \<in> set seen then dedup_by f seen xs else x # dedup_by f (f x # seen) xs)"

definition uniq :: "'a list \<Rightarrow> 'a list" where
  "uniq xs = dedup_by (\<lambda>x. x) [] xs"

lemma dedup_by_subset: "set (dedup_by f seen xs) \<subseteq> set xs"
  by (induction f seen xs rule: dedup_by.induct) auto

lemma dedup_by_keys: "f ` set (dedup_by f seen xs) = f ` set xs - set seen"
  by (induction f seen xs rule: dedup_by.induct) auto

lemma dedup_by_distinct: "distinct (map f (dedup_by f seen xs))"
  by (induction f seen xs rule: dedup_by.induct) (auto simp: dedup_by_keys)

lemma dedup_by_id: "distinct (map f xs) \<Longrightarrow> f ` set xs \<inter> set seen = {} \<Longrightarrow> dedup_by f seen xs = xs"
  by (induction f seen xs rule: dedup_by.induct) auto

lemma dedup_by_unseen: "y \<in> set (dedup_by f seen xs) \<Longrightarrow> f y \<notin> set seen"
  using dedup_by_keys [of f seen xs] by blast

lemma dedup_by_first:
  "y \<in> set (dedup_by f seen xs) \<Longrightarrow> find (\<lambda>x. f x = f y) xs = Some y"
proof (induction f seen xs rule: dedup_by.induct)
  case (2 f seen x xs)
  then show ?case using dedup_by_unseen [of y f] by (fastforce split: if_splits)
qed simp

lemma set_uniq [simp]: "set (uniq xs) = set xs"
  using dedup_by_keys [of "\<lambda>x. x" "[]" xs] by (simp add: uniq_def)

lemma distinct_uniq [simp]: "distinct (uniq xs)"
  using dedup_by_distinct [of "\<lambda>x. x" "[]" xs] by (simp add: uniq_def)

lemma uniq_id: "distinct xs \<Longrightarrow> uniq xs = xs"
  by (simp add: uniq_def dedup_by_id)

lemma length_uniq_le: "length (uniq xs) \<le> length xs"
  by (metis card_length distinct_card distinct_uniq set_uniq)

subsection \<open>Sorting with a comparator\<close>

text \<open>
  \<open>xs.sort(cmp)\<close> is stable, so for a consistent comparator every stable algorithm gives the
  same list; the model inserts from the right.
\<close>

fun insert_cmp :: "('a \<Rightarrow> 'a \<Rightarrow> int) \<Rightarrow> 'a \<Rightarrow> 'a list \<Rightarrow> 'a list" where
  "insert_cmp cmp x [] = [x]"
| "insert_cmp cmp x (y # ys) = (if cmp x y \<le> 0 then x # y # ys else y # insert_cmp cmp x ys)"

definition sort_cmp :: "('a \<Rightarrow> 'a \<Rightarrow> int) \<Rightarrow> 'a list \<Rightarrow> 'a list" where
  "sort_cmp cmp xs = foldr (insert_cmp cmp) xs []"

text \<open>What \<open>Array.prototype.sort\<close> asks of a comparator: a total preorder.\<close>

definition cmp_ok :: "('a \<Rightarrow> 'a \<Rightarrow> int) \<Rightarrow> bool" where
  "cmp_ok cmp \<longleftrightarrow> (\<forall>x y. cmp x y \<le> 0 \<or> cmp y x \<le> 0) \<and>
    (\<forall>x y z. cmp x y \<le> 0 \<longrightarrow> cmp y z \<le> 0 \<longrightarrow> cmp x z \<le> 0)"

lemma insert_cmp_cong:
  "(\<And>y. y \<in> set ys \<Longrightarrow> f x y = g x y) \<Longrightarrow> insert_cmp f x ys = insert_cmp g x ys"
  by (induction ys) auto

lemma set_insert_cmp [simp]: "set (insert_cmp cmp x ys) = insert x (set ys)"
  by (induction ys) auto

lemma set_sort_cmp [simp]: "set (sort_cmp cmp xs) = set xs"
  by (induction xs) (auto simp: sort_cmp_def)

lemma sort_cmp_cong:
  "(\<And>x y. x \<in> set xs \<Longrightarrow> y \<in> set xs \<Longrightarrow> f x y = g x y) \<Longrightarrow> sort_cmp f xs = sort_cmp g xs"
proof (induction xs)
  case (Cons x xs)
  then have "insert_cmp f x (sort_cmp g xs) = insert_cmp g x (sort_cmp g xs)"
    by (intro insert_cmp_cong) simp
  then show ?case using Cons by (simp add: sort_cmp_def)
qed (simp add: sort_cmp_def)

lemma length_insert_cmp [simp]: "length (insert_cmp cmp x ys) = Suc (length ys)"
  by (induction ys) auto

lemma length_sort_cmp [simp]: "length (sort_cmp cmp xs) = length xs"
  by (induction xs) (auto simp: sort_cmp_def)

lemma distinct_insert_cmp [simp]:
  "distinct (insert_cmp cmp x ys) \<longleftrightarrow> x \<notin> set ys \<and> distinct ys"
  by (induction ys) auto

lemma distinct_sort_cmp [simp]: "distinct (sort_cmp cmp xs) \<longleftrightarrow> distinct xs"
proof (induction xs)
  case (Cons x xs)
  then show ?case using set_sort_cmp [of cmp xs] by (simp add: sort_cmp_def)
qed (simp add: sort_cmp_def)

lemma sorted_insert_cmp:
  "cmp_ok cmp \<Longrightarrow> sorted_wrt (\<lambda>a b. cmp a b \<le> 0) ys \<Longrightarrow>
    sorted_wrt (\<lambda>a b. cmp a b \<le> 0) (insert_cmp cmp x ys)"
proof (induction ys)
  case (Cons y ys)
  show ?case
  proof (cases "cmp x y \<le> 0")
    case True
    with Cons.prems have "\<forall>z \<in> set (y # ys). cmp x z \<le> 0"
      unfolding cmp_ok_def by (metis set_ConsD sorted_wrt.simps(2))
    with True Cons.prems show ?thesis by simp
  next
    case False
    with Cons.prems have "cmp y x \<le> 0" by (auto simp: cmp_ok_def)
    with False Cons show ?thesis by simp
  qed
qed simp

lemma sorted_sort_cmp: "cmp_ok cmp \<Longrightarrow> sorted_wrt (\<lambda>a b. cmp a b \<le> 0) (sort_cmp cmp xs)"
  by (induction xs) (auto simp: sort_cmp_def intro: sorted_insert_cmp)

end
