(* ===== verification/Dates.thy ===== *)
theory Dates
  imports Prelude "HOL-Library.Monad_Syntax"
begin

text \<open>
  The part of JavaScript's \<open>Date\<close> the sources use: time values in milliseconds, the proleptic
  Gregorian calendar of the language standard, \<open>toISOString\<close>, and parsing of the ISO format. An
  invalid date is \<open>None\<close>. The local zone is a constant offset in minutes, a parameter of the
  functions that read local fields.
\<close>

type_synonym jsdate = "int option"

definition ms_per_day :: int where
  "ms_per_day = 86400000"

definition max_time :: int where
  "max_time = 8640000000000000"

subsection \<open>Years and months\<close>

definition leap_year :: "int \<Rightarrow> bool" where
  "leap_year y = (4 dvd y \<and> (\<not> 100 dvd y \<or> 400 dvd y))"

definition leap_day :: "int \<Rightarrow> int" where
  "leap_day y = (if leap_year y then 1 else 0)"

definition day_from_year :: "int \<Rightarrow> int" where
  "day_from_year y = 365 * (y - 1970) + (y - 1969) div 4 - (y - 1901) div 100 + (y - 1601) div 400"

definition year_of_day :: "int \<Rightarrow> int" where
  "year_of_day d = (let g = 1970 + d * 400 div 146097 in
     if d < day_from_year g then g - 1
     else if day_from_year (g + 1) \<le> d then g + 1 else g)"

definition month_start :: "int \<Rightarrow> int \<Rightarrow> int" where
  "month_start l m =
    (if m = 0 then 0 else if m = 1 then 31 else if m = 2 then 59 + l else if m = 3 then 90 + l
     else if m = 4 then 120 + l else if m = 5 then 151 + l else if m = 6 then 181 + l
     else if m = 7 then 212 + l else if m = 8 then 243 + l else if m = 9 then 273 + l
     else if m = 10 then 304 + l else if m = 11 then 334 + l else 365 + l)"

definition month_of_yday :: "int \<Rightarrow> int \<Rightarrow> int" where
  "month_of_yday l n =
    (if n < 31 then 0 else if n < 59 + l then 1 else if n < 90 + l then 2 else if n < 120 + l then 3
     else if n < 151 + l then 4 else if n < 181 + l then 5 else if n < 212 + l then 6
     else if n < 243 + l then 7 else if n < 273 + l then 8 else if n < 304 + l then 9
     else if n < 334 + l then 10 else 11)"

definition days_in_month :: "int \<Rightarrow> int \<Rightarrow> int" where
  "days_in_month y m = month_start (leap_day y) (m + 1) - month_start (leap_day y) m"

text \<open>The day number of a date (month from 0, day of the month from 1).\<close>

definition make_day :: "int \<Rightarrow> int \<Rightarrow> int \<Rightarrow> int" where
  "make_day y m d = day_from_year y + month_start (leap_day y) m + d - 1"

definition month_of_day :: "int \<Rightarrow> int" where
  "month_of_day d = (let y = year_of_day d in month_of_yday (leap_day y) (d - day_from_year y))"

definition date_of_day :: "int \<Rightarrow> int" where
  "date_of_day d = (let y = year_of_day d; l = leap_day y; n = d - day_from_year y in
     n - month_start l (month_of_yday l n) + 1)"

lemma leap_day_cases: "leap_day y = 0 \<or> leap_day y = 1"
  by (simp add: leap_day_def)

lemma div_step: "0 < k \<Longrightarrow> (x + 1) div k = x div k + (if k dvd (x + 1) then 1 else (0::int))"
proof (cases "k dvd (x + 1)")
  case True
  assume "0 < k"
  from True obtain q where q: "x + 1 = k * q" by blast
  then have "x = k * (q - 1) + (k - 1)" by (simp add: algebra_simps)
  then have "x div k = (k * (q - 1) + (k - 1)) div k" by simp
  also have "\<dots> = q - 1" using \<open>0 < k\<close> by (simp add: div_pos_pos_trivial)
  finally show ?thesis using q \<open>0 < k\<close> True by simp
next
  case False
  assume k: "0 < k"
  have "x mod k + 1 \<noteq> k"
  proof
    assume "x mod k + 1 = k"
    then have "x + 1 = x div k * k + k" using div_mult_mod_eq [of x k] by linarith
    then have "x + 1 = k * (x div k) + k" by (simp add: mult.commute)
    with False show False by (metis dvd_add dvd_refl dvd_triv_left)
  qed
  with k have "0 \<le> x mod k + 1" "x mod k + 1 < k"
    using pos_mod_bound [of k x] pos_mod_sign [of k x] by linarith+
  moreover have "x + 1 = k * (x div k) + (x mod k + 1)"
    using div_mult_mod_eq [of x k] by (simp add: algebra_simps)
  ultimately have "(x + 1) div k = x div k"
    by (metis div_pos_pos_trivial add.right_neutral div_mult_self4 k less_irrefl)
  with False show ?thesis by simp
qed

lemma leap_day_sum:
  assumes "400 dvd y \<Longrightarrow> 100 dvd y" and "100 dvd y \<Longrightarrow> 4 dvd (y::int)"
  shows "365 * (y - 1970) + 365 + (a + (if 4 dvd y then 1 else 0)) - (b + (if 100 dvd y then 1 else 0))
      + (c + (if 400 dvd y then 1 else 0))
    = 365 * (y - 1970) + a - b + c + 365 + (if 4 dvd y \<and> (\<not> 100 dvd y \<or> 400 dvd y) then 1 else (0::int))"
  using assms by (cases "400 dvd y"; cases "100 dvd y"; cases "4 dvd y") simp_all

lemma day_from_year_Suc: "day_from_year (y + 1) = day_from_year y + 365 + leap_day y"
proof -
  have a: "(y + 1 - 1969) div 4 = (y - 1969) div 4 + (if 4 dvd y then 1 else 0)"
  proof -
    have "y - 1969 + 1 = y + (- 492) * 4" by simp
    then have "(4 dvd (y - 1969 + 1)) = (4 dvd y)"
      by (simp only: dvd_add_times_triv_right_iff)
    with div_step [of 4 "y - 1969"] show ?thesis by (simp add: algebra_simps)
  qed
  have b: "(y + 1 - 1901) div 100 = (y - 1901) div 100 + (if 100 dvd y then 1 else 0)"
  proof -
    have "y - 1901 + 1 = y + (- 19) * 100" by simp
    then have "(100 dvd (y - 1901 + 1)) = (100 dvd y)"
      by (simp only: dvd_add_times_triv_right_iff)
    with div_step [of 100 "y - 1901"] show ?thesis by (simp add: algebra_simps)
  qed
  have c: "(y + 1 - 1601) div 400 = (y - 1601) div 400 + (if 400 dvd y then 1 else 0)"
  proof -
    have "y - 1601 + 1 = y + (- 4) * 400" by simp
    then have "(400 dvd (y - 1601 + 1)) = (400 dvd y)"
      by (simp only: dvd_add_times_triv_right_iff)
    with div_step [of 400 "y - 1601"] show ?thesis by (simp add: algebra_simps)
  qed
  have d: "400 dvd y \<Longrightarrow> 100 dvd y" "100 dvd y \<Longrightarrow> 4 dvd y"
    by (auto elim: dvd_trans [rotated])
  have "day_from_year (y + 1) = 365 * (y - 1970) + 365 + (y + 1 - 1969) div 4
      - (y + 1 - 1901) div 100 + (y + 1 - 1601) div 400"
    by (simp add: day_from_year_def)
  also have "\<dots> = 365 * (y - 1970) + (y - 1969) div 4 - (y - 1901) div 100 + (y - 1601) div 400
      + 365 + leap_day y"
    unfolding a b c leap_day_def leap_year_def using d by (rule leap_day_sum)
  finally show ?thesis by (simp only: day_from_year_def)
qed

lemma div_bounds: "0 < k \<Longrightarrow> k * (x div k) \<le> x \<and> x \<le> k * (x div k) + k - (1::int)"
  using pos_mod_bound [of k x] pos_mod_sign [of k x] div_mult_mod_eq [of x k]
  unfolding mult.commute [of k] by linarith

text \<open>The estimate of the year is off by at most one.\<close>

lemma day_from_year_bounds:
  "146097 * (y - 1970) - 700 \<le> 400 * day_from_year y"
  "400 * day_from_year y \<le> 146097 * (y - 1970) + 700"
proof -
  define z where "z = y - 1970"
  define a b c where "a = (z + 1) div 4" and "b = (z + 69) div 100" and "c = (z + 369) div 400"
  have a: "4 * a \<le> z + 1" "z + 1 \<le> 4 * a + 3"
    using div_bounds [of 4 "z + 1"] by (auto simp: a_def)
  have b: "100 * b \<le> z + 69" "z + 69 \<le> 100 * b + 99"
    using div_bounds [of 100 "z + 69"] by (auto simp: b_def)
  have c: "400 * c \<le> z + 369" "z + 369 \<le> 400 * c + 399"
    using div_bounds [of 400 "z + 369"] by (auto simp: c_def)
  have d: "day_from_year y = 365 * z + a - b + c"
    by (simp add: day_from_year_def a_def b_def c_def z_def)
  have "146097 * z - 700 \<le> 400 * day_from_year y"
    using a b c d by linarith
  then show "146097 * (y - 1970) - 700 \<le> 400 * day_from_year y"
    by (simp add: z_def)
  have "400 * day_from_year y \<le> 146097 * z + 700"
    using a b c d by linarith
  then show "400 * day_from_year y \<le> 146097 * (y - 1970) + 700"
    by (simp add: z_def)
qed

lemma year_of_day_bounds: "day_from_year (year_of_day d) \<le> d \<and> d < day_from_year (year_of_day d + 1)"
proof -
  define q where "q = d * 400 div 146097"
  have q: "146097 * q \<le> d * 400" "d * 400 \<le> 146097 * q + 146096"
    using div_bounds [of 146097 "d * 400"] by (auto simp: q_def)
  have lo: "day_from_year (1970 + q - 1) \<le> d"
    using day_from_year_bounds(2) [of "1970 + q - 1"] q(1) by simp
  have hi: "d < day_from_year (1970 + q + 1 + 1)"
    using day_from_year_bounds(1) [of "1970 + q + 1 + 1"] q(2) by simp
  have "year_of_day d = (if d < day_from_year (1970 + q) then 1970 + q - 1
     else if day_from_year (1970 + q + 1) \<le> d then 1970 + q + 1 else 1970 + q)"
    by (simp add: year_of_day_def q_def)
  then show ?thesis using lo hi by (simp split: if_splits)
qed

lemma day_from_year_mono: "y \<le> z \<Longrightarrow> day_from_year y \<le> day_from_year z"
proof (induction z rule: int_ge_induct)
  case (step z)
  then show ?case using day_from_year_Suc [of z] leap_day_cases [of z] by auto
qed simp

lemma year_of_day_unique:
  assumes "day_from_year y \<le> d" and "d < day_from_year (y + 1)"
  shows "year_of_day d = y"
proof (rule ccontr)
  assume "year_of_day d \<noteq> y"
  then consider "year_of_day d + 1 \<le> y" | "y + 1 \<le> year_of_day d" by linarith
  then show False
  proof cases
    case 1
    with day_from_year_mono [OF 1] year_of_day_bounds [of d] assms show ?thesis by linarith
  next
    case 2
    with day_from_year_mono [OF 2] year_of_day_bounds [of d] assms show ?thesis by linarith
  qed
qed

lemma month_of_yday_bounds:
  assumes "l = 0 \<or> l = 1" and "0 \<le> n" and "n < 365 + l"
  shows "0 \<le> month_of_yday l n \<and> month_of_yday l n \<le> 11 \<and>
    month_start l (month_of_yday l n) \<le> n \<and> n < month_start l (month_of_yday l n + 1)"
  using assms by (auto simp: month_of_yday_def month_start_def)

lemma month_of_yday_unique:
  assumes "l = 0 \<or> l = 1" and "0 \<le> m" and "m \<le> 11"
    and "month_start l m \<le> n" and "n < month_start l (m + 1)"
  shows "month_of_yday l n = m"
proof -
  from assms(2,3) have "m = 0 \<or> m = 1 \<or> m = 2 \<or> m = 3 \<or> m = 4 \<or> m = 5 \<or>
      m = 6 \<or> m = 7 \<or> m = 8 \<or> m = 9 \<or> m = 10 \<or> m = 11" by presburger
  then show ?thesis
    using assms(1,4,5) by (elim disjE; simp add: month_of_yday_def month_start_def)
qed

lemma yday_bounds:
  "0 \<le> d - day_from_year (year_of_day d) \<and>
    d - day_from_year (year_of_day d) < 365 + leap_day (year_of_day d)"
  using year_of_day_bounds [of d] day_from_year_Suc [of "year_of_day d"] by linarith

lemma month_of_day_bounds: "0 \<le> month_of_day d \<and> month_of_day d \<le> 11"
  using month_of_yday_bounds [OF leap_day_cases, of "d - day_from_year (year_of_day d)" "year_of_day d"]
    yday_bounds [of d]
  by (simp add: month_of_day_def Let_def)

lemma date_of_day_bounds:
  "1 \<le> date_of_day d \<and> date_of_day d \<le> days_in_month (year_of_day d) (month_of_day d)"
  using month_of_yday_bounds [OF leap_day_cases, of "d - day_from_year (year_of_day d)" "year_of_day d"]
    yday_bounds [of d]
  by (simp add: month_of_day_def date_of_day_def days_in_month_def Let_def)

lemma days_in_month_le: "0 \<le> m \<Longrightarrow> m \<le> 11 \<Longrightarrow> days_in_month y m \<le> 31"
  using leap_day_cases [of y] by (auto simp: days_in_month_def month_start_def)

text \<open>The calendar fields of a day determine the day.\<close>

lemma make_day_of_day: "make_day (year_of_day d) (month_of_day d) (date_of_day d) = d"
  by (simp add: make_day_def month_of_day_def date_of_day_def Let_def)

text \<open>A valid date has itself as the fields of its day.\<close>

lemma of_make_day:
  assumes "0 \<le> m" and "m \<le> 11" and "1 \<le> d" and "d \<le> days_in_month y m"
  shows "year_of_day (make_day y m d) = y" and "month_of_day (make_day y m d) = m"
    and "date_of_day (make_day y m d) = d"
proof -
  let ?n = "month_start (leap_day y) m + d - 1"
  have ms: "0 \<le> month_start (leap_day y) m" "month_start (leap_day y) (m + 1) \<le> 365 + leap_day y"
    using assms(1,2) leap_day_cases [of y] by (auto simp: month_start_def)
  have n: "month_start (leap_day y) m \<le> ?n" "?n < month_start (leap_day y) (m + 1)"
    using assms(3,4) by (simp_all add: days_in_month_def)
  have md: "make_day y m d = day_from_year y + ?n" by (simp add: make_day_def)
  have "day_from_year y \<le> make_day y m d" "make_day y m d < day_from_year (y + 1)"
    using ms n day_from_year_Suc [of y] md by linarith+
  then show y: "year_of_day (make_day y m d) = y" by (rule year_of_day_unique)
  have mm: "month_of_yday (leap_day y) ?n = m"
    using month_of_yday_unique [OF leap_day_cases assms(1,2) n] .
  then show "month_of_day (make_day y m d) = m"
    by (simp add: month_of_day_def y [unfolded md] md)
  show "date_of_day (make_day y m d) = d"
    using mm by (simp add: date_of_day_def y [unfolded md] Let_def md)
qed

subsection \<open>ISO strings\<close>

definition iso_year :: "int \<Rightarrow> string" where
  "iso_year y = (if 0 \<le> y \<and> y \<le> 9999 then pad_nat 4 (nat y)
     else if y < 0 then CHR ''-'' # pad_nat 6 (nat (- y)) else CHR ''+'' # pad_nat 6 (nat y))"

definition iso_date :: "int \<Rightarrow> string" where
  "iso_date d = iso_year (year_of_day d) @ ''-'' @ pad_nat 2 (nat (month_of_day d + 1)) @ ''-''
     @ pad_nat 2 (nat (date_of_day d))"

definition iso_time :: "int \<Rightarrow> string" where
  "iso_time n = pad_nat 2 (nat (n div 3600000)) @ '':'' @ pad_nat 2 (nat (n div 60000 mod 60)) @ '':''
     @ pad_nat 2 (nat (n div 1000 mod 60)) @ ''.'' @ pad_nat 3 (nat (n mod 1000)) @ ''Z''"

text \<open>\<open>d.toISOString()\<close>: \<open>None\<close> is the \<open>RangeError\<close> of an invalid date.\<close>

definition iso_string :: "int \<Rightarrow> string" where
  "iso_string t = iso_date (t div ms_per_day) @ ''T'' @ iso_time (t mod ms_per_day)"

definition toISOString :: "jsdate \<Rightarrow> string option" where
  "toISOString d = map_option iso_string d"

text \<open>A time value beyond the range of the language is invalid.\<close>

definition time_clip :: "int \<Rightarrow> jsdate" where
  "time_clip t = (if \<bar>t\<bar> \<le> max_time then Some t else None)"

text \<open>Parsing: exactly \<open>k\<close> digits, one given character.\<close>

definition take_num :: "nat \<Rightarrow> string \<Rightarrow> (nat \<times> string) option" where
  "take_num k s = (if k \<le> length s \<and> list_all is_digit (take k s)
     then Some (nat_of_digits (take k s), drop k s) else None)"

definition expect :: "char \<Rightarrow> string \<Rightarrow> string option" where
  "expect c s = (case s of [] \<Rightarrow> None | x # r \<Rightarrow> if x = c then Some r else None)"

definition parse_year :: "string \<Rightarrow> (int \<times> string) option" where
  "parse_year s = (case s of [] \<Rightarrow> None | c # r \<Rightarrow>
     if c = CHR ''+'' then do { (n, r') \<leftarrow> take_num 6 r; Some (int n, r') }
     else if c = CHR ''-'' then do { (n, r') \<leftarrow> take_num 6 r; if n = 0 then None else Some (- int n, r') }
     else do { (n, r') \<leftarrow> take_num 4 s; Some (int n, r') })"

text \<open>The seconds, with an optional fraction of which three digits count.\<close>

definition parse_frac :: "string \<Rightarrow> (nat \<times> string) option" where
  "parse_frac s = (case s of [] \<Rightarrow> Some (0, s) | c # r \<Rightarrow>
     if c = CHR ''.'' then
       (let ds = takeWhile is_digit r in
        if ds = [] then None
        else Some (nat_of_digits (take 3 (ds @ ''00'')), dropWhile is_digit r))
     else Some (0, s))"

definition parse_secs :: "string \<Rightarrow> (nat \<times> nat \<times> string) option" where
  "parse_secs s = (case s of [] \<Rightarrow> Some (0, 0, s) | c # r \<Rightarrow>
     if c = CHR '':'' then do { (ss, r1) \<leftarrow> take_num 2 r; (ms, r2) \<leftarrow> parse_frac r1; Some (ss, ms, r2) }
     else Some (0, 0, s))"

text \<open>The offset in minutes: of the zone given, or of the local zone when none is given.\<close>

definition parse_zone :: "int \<Rightarrow> string \<Rightarrow> int option" where
  "parse_zone tz s = (case s of [] \<Rightarrow> Some tz | c # r \<Rightarrow>
     if c = CHR ''Z'' then (if r = [] then Some 0 else None)
     else if c = CHR ''+'' \<or> c = CHR ''-'' then do {
       (hh, r1) \<leftarrow> take_num 2 r; r2 \<leftarrow> expect (CHR '':'') r1; (mm, r3) \<leftarrow> take_num 2 r2;
       if r3 = [] \<and> hh \<le> 23 \<and> mm \<le> 59
       then Some ((if c = CHR ''-'' then - 1 else 1) * (int hh * 60 + int mm)) else None }
     else None)"

definition date_valid :: "int \<Rightarrow> nat \<Rightarrow> nat \<Rightarrow> bool" where
  "date_valid y m d = (1 \<le> m \<and> m \<le> 12 \<and> 1 \<le> d \<and> int d \<le> days_in_month y (int m - 1))"

definition time_valid :: "nat \<Rightarrow> nat \<Rightarrow> nat \<Rightarrow> nat \<Rightarrow> bool" where
  "time_valid hh mm ss ms =
     (mm \<le> 59 \<and> ss \<le> 59 \<and> (hh \<le> 23 \<or> (hh = 24 \<and> mm = 0 \<and> ss = 0 \<and> ms = 0)))"

definition parse_time :: "int \<Rightarrow> int \<Rightarrow> string \<Rightarrow> jsdate" where
  "parse_time tz day s = do {
     (hh, r1) \<leftarrow> take_num 2 s; r2 \<leftarrow> expect (CHR '':'') r1; (mm, r3) \<leftarrow> take_num 2 r2;
     (ss, ms, r4) \<leftarrow> parse_secs r3;
     off \<leftarrow> parse_zone tz r4;
     if time_valid hh mm ss ms
     then time_clip (day * ms_per_day + int hh * 3600000 + int mm * 60000 + int ss * 1000 + int ms
       - off * 60000)
     else None }"

text \<open>
  \<open>new Date(s)\<close> for a string in the ISO date or date-time format; anything else is invalid. A date
  alone is read as UTC, a date-time without a zone as local time.
\<close>

definition Date_parse :: "int \<Rightarrow> string \<Rightarrow> jsdate" where
  "Date_parse tz s = do {
     (y, r1) \<leftarrow> parse_year s; r2 \<leftarrow> expect (CHR ''-'') r1; (m, r3) \<leftarrow> take_num 2 r2;
     r4 \<leftarrow> expect (CHR ''-'') r3; (d, r5) \<leftarrow> take_num 2 r4;
     if date_valid y m d then
       (let day = make_day y (int m - 1) (int d) in
        case r5 of [] \<Rightarrow> time_clip (day * ms_per_day)
        | c # r6 \<Rightarrow> if c = CHR ''T'' then parse_time tz day r6 else None)
     else None }"

lemma take_num_pad [simp]: "n < 10 ^ k \<Longrightarrow> 0 < k \<Longrightarrow> take_num k (pad_nat k n @ s) = Some (n, s)"
  using length_pad_nat [of n k] pad_nat_digits [of k n] by (simp add: take_num_def)

lemma expect_Cons [simp]: "expect c (c # s) = Some s"
  by (simp add: expect_def)

lemma pad_nat_cases:
  assumes "n < 10 ^ k" and "0 < k"
  obtains c r where "pad_nat k n = c # r" and "is_digit c"
  using length_pad_nat [OF assms] pad_nat_digits [of k n] assms(2) by (cases "pad_nat k n") auto

lemma parse_year_iso:
  assumes "\<bar>y\<bar> < 1000000"
  shows "parse_year (iso_year y @ s) = Some (y, s)"
proof -
  consider "0 \<le> y" "y \<le> 9999" | "y < 0" | "9999 < y" by linarith
  then show ?thesis
  proof cases
    case 1
    then have n: "nat y < 10 ^ 4" by simp
    obtain c r where p: "pad_nat 4 (nat y) = c # r" and c: "is_digit c"
      using pad_nat_cases [OF n] by auto
    from c have "c \<noteq> CHR ''+''" "c \<noteq> CHR ''-''" by (auto simp: is_digit_def)
    moreover have "take_num 4 (c # r @ s) = Some (nat y, s)"
      using take_num_pad [OF n, of s] p by simp
    ultimately show ?thesis using 1 p by (simp add: iso_year_def parse_year_def)
  next
    case 2
    with assms have "nat (- y) < 10 ^ 6" by simp
    with 2 show ?thesis by (simp add: iso_year_def parse_year_def)
  next
    case 3
    with assms have "nat y < 10 ^ 6" by simp
    with 3 show ?thesis by (simp add: iso_year_def parse_year_def)
  qed
qed

lemma parse_frac_iso:
  assumes "n < 1000"
  shows "parse_frac (CHR ''.'' # pad_nat 3 n @ ''Z'') = Some (n, ''Z'')"
proof -
  have d: "list_all is_digit (pad_nat 3 n)" by (rule pad_nat_digits)
  have l: "length (pad_nat 3 n) = 3" using assms length_pad_nat [of n 3] by simp
  have "takeWhile is_digit (pad_nat 3 n @ ''Z'') = pad_nat 3 n"
    using d by (subst takeWhile_append2) (auto simp: list_all_iff is_digit_def)
  moreover have "dropWhile is_digit (pad_nat 3 n @ ''Z'') = ''Z''"
    using d by (subst dropWhile_append2) (auto simp: list_all_iff is_digit_def)
  moreover have "pad_nat 3 n \<noteq> []" using l by auto
  ultimately show ?thesis using l by (simp add: parse_frac_def)
qed

lemma iso_time_fields:
  assumes "0 \<le> n" and "n < ms_per_day"
  shows "n div 3600000 \<le> 23" and "n div 60000 mod 60 \<le> 59" and "n div 1000 mod 60 \<le> 59"
    and "n div 3600000 * 3600000 + n div 60000 mod 60 * 60000 + n div 1000 mod 60 * 1000 + n mod 1000 = n"
proof -
  from assms show "n div 3600000 \<le> 23" by (simp add: ms_per_day_def)
  show "n div 60000 mod 60 \<le> 59" "n div 1000 mod 60 \<le> 59"
    using pos_mod_bound [of 60 "n div 60000"] pos_mod_bound [of 60 "n div 1000"] by linarith+
  have a: "n div 60000 = n div 1000 div 60" by (simp add: zdiv_zmult2_eq [symmetric])
  have b: "n div 3600000 = n div 1000 div 60 div 60" by (simp add: zdiv_zmult2_eq [symmetric])
  define s where "s = n div 1000"
  have "n = s * 1000 + n mod 1000" by (simp add: s_def)
  moreover have "s = s div 60 * 60 + s mod 60" by simp
  moreover have "s div 60 = s div 60 div 60 * 60 + s div 60 mod 60" by simp
  ultimately show "n div 3600000 * 3600000 + n div 60000 mod 60 * 60000 + n div 1000 mod 60 * 1000
      + n mod 1000 = n"
    unfolding a b s_def [symmetric] by linarith
qed

lemma parse_time_iso:
  assumes "0 \<le> n" and "n < ms_per_day"
  shows "parse_time tz day (iso_time n) = time_clip (day * ms_per_day + n)"
proof -
  let ?hh = "nat (n div 3600000)" and ?mm = "nat (n div 60000 mod 60)"
    and ?ss = "nat (n div 1000 mod 60)" and ?ms = "nat (n mod 1000)"
  note f = iso_time_fields [OF assms]
  have nn: "0 \<le> n div 3600000" "0 \<le> n div 60000 mod 60" "0 \<le> n div 1000 mod 60" "0 \<le> n mod 1000"
    using assms(1) by (simp_all add: pos_imp_zdiv_nonneg_iff)
  have b: "?hh < 10 ^ 2" "?mm < 10 ^ 2" "?ss < 10 ^ 2" "?ms < 1000"
    using f(1-3) pos_mod_bound [of 1000 n] by (simp_all add: nat_less_iff [OF nn(1)]
        nat_less_iff [OF nn(2)] nat_less_iff [OF nn(3)] nat_less_iff [OF nn(4)])
  have "time_valid ?hh ?mm ?ss ?ms" using f(1-3) by (simp add: time_valid_def nat_le_iff)
  moreover have "int ?hh * 3600000 + int ?mm * 60000 + int ?ss * 1000 + int ?ms = n"
    by (simp only: int_nat_eq nn if_True f(4))
  moreover have "parse_secs (CHR '':'' # pad_nat 2 ?ss @ CHR ''.'' # pad_nat 3 ?ms @ ''Z'')
      = Some (?ss, ?ms, ''Z'')"
    using take_num_pad [OF b(3)] parse_frac_iso [OF b(4)] by (simp add: parse_secs_def)
  moreover have "parse_zone tz ''Z'' = Some 0" by (simp add: parse_zone_def)
  moreover have "day * ms_per_day + int ?hh * 3600000 + int ?mm * 60000 + int ?ss * 1000 + int ?ms
      - 0 * 60000 = day * ms_per_day + (int ?hh * 3600000 + int ?mm * 60000 + int ?ss * 1000 + int ?ms)"
    by simp
  ultimately show ?thesis
    unfolding parse_time_def iso_time_def append_Cons append_Nil
    by (simp only: take_num_pad [OF b(1) zero_less_numeral] take_num_pad [OF b(2) zero_less_numeral]
        expect_Cons Option.bind.simps prod.case if_True)
qed

lemma year_of_day_range:
  assumes "\<bar>d\<bar> \<le> 100000000"
  shows "\<bar>year_of_day d\<bar> < 1000000"
proof -
  have lo: "146097 * (year_of_day d - 1970) - 700 \<le> 400 * d"
    using day_from_year_bounds(1) [of "year_of_day d"] year_of_day_bounds [of d] by linarith
  have hi: "400 * d \<le> 146097 * (year_of_day d + 1 - 1970) + 700"
    using day_from_year_bounds(2) [of "year_of_day d + 1"] year_of_day_bounds [of d] by linarith
  define z where "z = year_of_day d - 1970"
  have "146097 * z \<le> 400 * d + 700" "400 * d \<le> 146097 * z + 146797"
    using lo hi by (simp_all add: z_def algebra_simps)
  with assms have "\<bar>z\<bar> < 900000" by linarith
  then show ?thesis unfolding z_def by linarith
qed

lemma max_time_day: "\<bar>t\<bar> \<le> max_time \<Longrightarrow> \<bar>t div ms_per_day\<bar> \<le> 100000000"
  unfolding max_time_def ms_per_day_def by linarith

text \<open>Printing a time value and parsing it gives the time value back, in any local zone.\<close>

lemma Date_parse_iso:
  assumes "\<bar>t\<bar> \<le> max_time"
  shows "Date_parse tz (iso_string t) = Some t"
proof -
  let ?d = "t div ms_per_day"
  let ?y = "year_of_day ?d" and ?m = "nat (month_of_day ?d + 1)" and ?dd = "nat (date_of_day ?d)"
  note mb = month_of_day_bounds [of ?d] and db = date_of_day_bounds [of ?d]
  have dm: "date_of_day ?d \<le> 31"
    using db days_in_month_le [of "month_of_day ?d" ?y] mb by linarith
  have b: "?m < 10 ^ 2" "?dd < 10 ^ 2" using mb db dm by auto
  have y: "parse_year (iso_year ?y @ s) = Some (?y, s)" for s
    using parse_year_iso year_of_day_range [OF max_time_day [OF assms]] .
  have "1 \<le> ?m" "?m \<le> 12" "1 \<le> ?dd" using mb db by linarith+
  then have v: "date_valid ?y ?m ?dd" using mb db by (simp add: date_valid_def)
  have md: "make_day ?y (int ?m - 1) (int ?dd) = ?d" using mb db make_day_of_day [of ?d] by simp
  have n: "0 \<le> t mod ms_per_day" "t mod ms_per_day < ms_per_day" by (simp_all add: ms_per_day_def)
  have "time_clip (?d * ms_per_day + t mod ms_per_day) = Some t"
    using assms by (simp add: time_clip_def)
  then have "parse_time tz ?d (iso_time (t mod ms_per_day)) = Some t"
    using parse_time_iso [OF n] by simp
  then show ?thesis
    using take_num_pad [OF b(1)] take_num_pad [OF b(2)] v md
    by (simp add: Date_parse_def iso_string_def iso_date_def y)
qed

lemma Date_parse_max: "Date_parse tz s = Some t \<Longrightarrow> \<bar>t\<bar> \<le> max_time"
  by (auto simp: Date_parse_def parse_time_def time_clip_def Let_def
      split: Option.bind_splits prod.splits if_splits list.splits)

subsection \<open>Local fields\<close>

text \<open>
  \<open>new Date(y, m, d)\<close> in the local zone, \<open>Date.UTC\<close> for a whole day, and the local and UTC fields
  of a time value.
\<close>

definition local_ms :: "int \<Rightarrow> int" where
  "local_ms tz = tz * 60000"

definition local_midnight :: "int \<Rightarrow> int \<Rightarrow> int" where
  "local_midnight tz d = d * ms_per_day - local_ms tz"

definition local_day :: "int \<Rightarrow> int \<Rightarrow> int" where
  "local_day tz t = (t + local_ms tz) div ms_per_day"

definition utc_day :: "int \<Rightarrow> int" where
  "utc_day t = t div ms_per_day"

lemma local_day_midnight [simp]: "local_day tz (local_midnight tz d) = d"
  by (simp add: local_day_def local_midnight_def ms_per_day_def)

lemma utc_day_start [simp]: "utc_day (d * ms_per_day) = d"
  by (simp add: utc_day_def ms_per_day_def)

lemma utc_day_end [simp]: "utc_day (d * ms_per_day + 86399999) = d"
  by (simp add: utc_day_def ms_per_day_def)

end
