(* ===== verification/TimeRange.thy ===== *)
theory TimeRange
  imports Dates
begin

text \<open>
  The time range of the UI (\<open>ui/src/lib/time-range-context.tsx\<close>, \<open>ui/src/lib/search-params.ts\<close>):
  presets, the Grafana-style URL tokens, and the provider that keeps the URL and the browser's
  storage in step. \<open>tz\<close> is the local zone's offset in minutes and \<open>now\<close> the current time value.
\<close>

subsection \<open>Search parameters\<close>

text \<open>\<open>URLSearchParams\<close>: a list of pairs, a key may occur several times.\<close>

type_synonym search_params = "(string \<times> string) list"

definition sp_get :: "search_params \<Rightarrow> string \<Rightarrow> string option" where
  "sp_get ps k = map_of ps k"

definition sp_delete :: "string \<Rightarrow> search_params \<Rightarrow> search_params" where
  "sp_delete k ps = filter (\<lambda>(k', _). k' \<noteq> k) ps"

definition sp_append :: "string \<Rightarrow> string \<Rightarrow> search_params \<Rightarrow> search_params" where
  "sp_append k v ps = ps @ [(k, v)]"

fun sp_set :: "string \<Rightarrow> string \<Rightarrow> search_params \<Rightarrow> search_params" where
  "sp_set k v [] = [(k, v)]"
| "sp_set k v ((k', v') # ps) =
    (if k' = k then (k, v) # sp_delete k ps else (k', v') # sp_set k v ps)"

definition withTimeParamsLast :: "search_params \<Rightarrow> search_params" where
  "withTimeParamsLast search =
     (let ordered = filter (\<lambda>(k, _). k \<noteq> ''from'' \<and> k \<noteq> ''to'') search;
          ordered1 = (case sp_get search ''from'' of None \<Rightarrow> ordered | Some v \<Rightarrow> sp_set ''from'' v ordered)
      in case sp_get search ''to'' of None \<Rightarrow> ordered1 | Some v \<Rightarrow> sp_set ''to'' v ordered1)"

lemma sp_get_delete: "sp_get (sp_delete k ps) k' = (if k' = k then None else sp_get ps k')"
  by (induction ps) (auto simp: sp_get_def sp_delete_def)

lemma sp_get_set: "sp_get (sp_set k v ps) k' = (if k' = k then Some v else sp_get ps k')"
proof (induction k v ps rule: sp_set.induct)
  case (2 k v k1 v1 ps)
  then show ?case
    using sp_get_delete [of k ps k'] by (auto simp: sp_get_def)
qed (simp add: sp_get_def)

interpretation usp: dict "[]" sp_get sp_set
  by unfold_locales (simp_all add: sp_get_def [of "[]"] sp_get_set)

lemma sp_set_absent: "k \<notin> fst ` set ps \<Longrightarrow> sp_set k v ps = ps @ [(k, v)]"
  by (induction k v ps rule: sp_set.induct) auto

lemma sp_get_filter_other:
  "P k \<Longrightarrow> sp_get (filter (\<lambda>(k', _). P k') ps) k = sp_get ps k"
  by (induction ps) (auto simp: sp_get_def)

definition other_params :: "search_params \<Rightarrow> search_params" where
  "other_params ps = filter (\<lambda>(k, _). k \<noteq> ''from'' \<and> k \<noteq> ''to'') ps"

definition param_list :: "string \<Rightarrow> string option \<Rightarrow> search_params" where
  "param_list k v = (case v of None \<Rightarrow> [] | Some x \<Rightarrow> [(k, x)])"

lemma withTimeParamsLast_eq:
  "withTimeParamsLast ps =
    other_params ps @ param_list ''from'' (sp_get ps ''from'') @ param_list ''to'' (sp_get ps ''to'')"
proof -
  have a: "''from'' \<notin> fst ` set (other_params ps)" "''to'' \<notin> fst ` set (other_params ps)"
    by (auto simp: other_params_def)
  then show ?thesis
    by (auto simp: withTimeParamsLast_def Let_def other_params_def [symmetric] param_list_def
        sp_set_absent image_Un split: option.split)
qed

subsection \<open>Presets and stored ranges\<close>

record TimePreset =
  tp_label :: string
  tp_days :: int

definition PRESETS :: "TimePreset list" where
  "PRESETS =
    [\<lparr>tp_label = ''Last 7 days'', tp_days = 7\<rparr>, \<lparr>tp_label = ''Last 14 days'', tp_days = 14\<rparr>,
     \<lparr>tp_label = ''Last 30 days'', tp_days = 30\<rparr>, \<lparr>tp_label = ''Last 60 days'', tp_days = 60\<rparr>,
     \<lparr>tp_label = ''Last 90 days'', tp_days = 90\<rparr>, \<lparr>tp_label = ''Last 6 months'', tp_days = 180\<rparr>,
     \<lparr>tp_label = ''Last 1 year'', tp_days = 365\<rparr>]"

definition DEFAULT_DAYS :: int where
  "DEFAULT_DAYS = 30"

datatype RangeMode = Preset | Absolute

record StoredRange =
  sr_mode :: RangeMode
  sr_days :: "int option"
  sr_from :: "string option"
  sr_to :: "string option"

definition preset_range :: "int \<Rightarrow> StoredRange" where
  "preset_range n = \<lparr>sr_mode = Preset, sr_days = Some n, sr_from = None, sr_to = None\<rparr>"

definition absolute_range :: "string \<Rightarrow> string option \<Rightarrow> StoredRange" where
  "absolute_range f t = \<lparr>sr_mode = Absolute, sr_days = None, sr_from = Some f, sr_to = t\<rparr>"

subsection \<open>Calendar dates\<close>

text \<open>
  \<open>Date.UTC\<close> and the constructor with fields read a year from 0 to 99 as 1900 to 1999; a result out
  of range is an invalid date.
\<close>

definition full_year :: "int \<Rightarrow> int" where
  "full_year y = (if 0 \<le> y \<and> y \<le> 99 then 1900 + y else y)"

definition date_utc :: "int \<Rightarrow> int \<Rightarrow> int \<Rightarrow> int \<Rightarrow> jsdate" where
  "date_utc y m d ms = time_clip (make_day (full_year y) m d * ms_per_day + ms)"

definition new_local_date :: "int \<Rightarrow> int \<Rightarrow> int \<Rightarrow> int \<Rightarrow> jsdate" where
  "new_local_date tz y m d = time_clip (local_midnight tz (make_day (full_year y) m d))"

text \<open>Midnight of the local day that many days ago; \<open>None\<close> is a \<open>RangeError\<close>.\<close>

definition computeFromDate :: "int \<Rightarrow> int \<Rightarrow> int \<Rightarrow> string option" where
  "computeFromDate tz now days = toISOString (time_clip (local_midnight tz (local_day tz now - days)))"

definition toDateInputValue :: "int \<Rightarrow> int \<Rightarrow> string" where
  "toDateInputValue tz t = (let d = local_day tz t in
     show_int (year_of_day d) @ ''-'' @ pad_nat 2 (nat (month_of_day d + 1)) @ ''-''
       @ pad_nat 2 (nat (date_of_day d)))"

definition calendarDateToIso :: "int \<Rightarrow> int \<Rightarrow> bool \<Rightarrow> string option" where
  "calendarDateToIso tz t endOfDay = (let d = local_day tz t in
     toISOString (date_utc (year_of_day d) (month_of_day d) (date_of_day d)
       (if endOfDay then 23 * 3600000 + 59 * 60000 + 59 * 1000 + 999 else 0)))"

definition isoToCalendarDate :: "int \<Rightarrow> string \<Rightarrow> jsdate" where
  "isoToCalendarDate tz iso_text = do {
     t \<leftarrow> Date_parse tz iso_text;
     let d = utc_day t;
     new_local_date tz (year_of_day d) (month_of_day d) (date_of_day d) }"

subsection \<open>URL tokens\<close>

definition isoOrNull :: "int \<Rightarrow> string \<Rightarrow> string option" where
  "isoOrNull tz iso_text = toISOString (Date_parse tz iso_text)"

definition date_only_token :: "string \<Rightarrow> bool" where
  "date_only_token s = (length s = 8 \<and> list_all is_digit s)"

definition date_time_token :: "string \<Rightarrow> bool" where
  "date_time_token s = (length s = 15 \<and> list_all is_digit (take 8 s) \<and> s ! 8 = CHR ''T''
     \<and> list_all is_digit (drop 9 s))"

definition epoch_token :: "string \<Rightarrow> bool" where
  "epoch_token s = (s \<noteq> [] \<and> list_all is_digit s)"

definition parseAbsoluteToken :: "int \<Rightarrow> string \<Rightarrow> bool \<Rightarrow> string option" where
  "parseAbsoluteToken tz token endOfDay =
    (if date_time_token token then
       isoOrNull tz (slice token 0 4 @ ''-'' @ slice token 4 6 @ ''-'' @ slice token 6 8 @ ''T''
         @ slice token 9 11 @ '':'' @ slice token 11 13 @ '':'' @ slice token 13 15 @ ''.000Z'')
     else if date_only_token token then
       isoOrNull tz (slice token 0 4 @ ''-'' @ slice token 4 6 @ ''-'' @ slice token 6 8
         @ (if endOfDay then ''T23:59:59.999Z'' else ''T00:00:00.000Z''))
     else if epoch_token token then toISOString (time_clip (int (nat_of_digits token)))
     else None)"

text \<open>The pattern \<open>now-(digits)d\<close>.\<close>

definition parse_preset :: "string \<Rightarrow> nat option" where
  "parse_preset s = (let r = drop 4 s; ds = butlast r in
     if startsWith s ''now-'' \<and> r \<noteq> [] \<and> last r = CHR ''d'' \<and> ds \<noteq> [] \<and> list_all is_digit ds
     then Some (nat_of_digits ds) else None)"

definition parseTimeParams :: "int \<Rightarrow> string option \<Rightarrow> string option \<Rightarrow> StoredRange option" where
  "parseTimeParams tz from to =
    (if \<not> truthy from then None
     else case parse_preset (the from) of
       Some n \<Rightarrow> Some (preset_range (int n))
     | None \<Rightarrow> (case parseAbsoluteToken tz (the from) False of
         None \<Rightarrow> None
       | Some fromIso \<Rightarrow>
           (let toIso = (if truthy to then parseAbsoluteToken tz (the to) True else None)
            in Some (absolute_range fromIso toIso))))"

text \<open>\<open>String(new Date(iso).getTime())\<close>\<close>

definition epoch_string :: "jsdate \<Rightarrow> string" where
  "epoch_string d = (case d of None \<Rightarrow> ''NaN'' | Some t \<Rightarrow> show_int t)"

definition rangeToParams :: "int \<Rightarrow> int \<Rightarrow> StoredRange \<Rightarrow> (string \<times> string option) option" where
  "rangeToParams tz now rng =
    (case sr_mode rng of
       Preset \<Rightarrow> Some (''now-'' @ show_int (nullish (sr_days rng) DEFAULT_DAYS) @ ''d'', None)
     | Absolute \<Rightarrow> do {
         fromIso \<leftarrow> (case sr_from rng of Some f \<Rightarrow> Some f | None \<Rightarrow> computeFromDate tz now DEFAULT_DAYS);
         let toEpoch = (if truthy (sr_to rng)
           then Some (epoch_string (Date_parse tz (the (sr_to rng)))) else None);
         Some (epoch_string (Date_parse tz fromIso), toEpoch) })"

subsection \<open>The provider\<close>

text \<open>What the storage holds under the range's key: nothing, a range, or text that does not parse.\<close>

datatype stored_item = Stored StoredRange | Unparseable

record provider =
  pv_url :: search_params
  pv_storage :: "stored_item option"

definition loadRange :: "stored_item option \<Rightarrow> StoredRange" where
  "loadRange st = (case st of Some (Stored r) \<Rightarrow> r | _ \<Rightarrow> preset_range DEFAULT_DAYS)"

definition saveRange :: "StoredRange \<Rightarrow> provider \<Rightarrow> provider" where
  "saveRange r p = p\<lparr>pv_storage := Some (Stored r)\<rparr>"

definition active_range :: "int \<Rightarrow> provider \<Rightarrow> StoredRange" where
  "active_range tz p =
    nullish (parseTimeParams tz (sp_get (pv_url p) ''from'') (sp_get (pv_url p) ''to''))
      (loadRange (pv_storage p))"

text \<open>\<open>None\<close> is the \<open>RangeError\<close> that formatting an out-of-range date throws.\<close>

definition writeRange :: "int \<Rightarrow> int \<Rightarrow> StoredRange \<Rightarrow> provider \<Rightarrow> provider option" where
  "writeRange tz now r p = do {
     (f, t) \<leftarrow> rangeToParams tz now r;
     let search = sp_set ''from'' f (pv_url p);
     let search1 = (case t of None \<Rightarrow> sp_delete ''to'' search
       | Some x \<Rightarrow> if x = [] then sp_delete ''to'' search else sp_set ''to'' x search);
     Some (p\<lparr>pv_url := withTimeParamsLast search1\<rparr>) }"

text \<open>The effect that runs when the URL or the range has changed.\<close>

definition sync_effect :: "int \<Rightarrow> int \<Rightarrow> provider \<Rightarrow> provider option" where
  "sync_effect tz now p =
    (if truthy (sp_get (pv_url p) ''from'') then Some (saveRange (active_range tz p) p)
     else writeRange tz now (active_range tz p) p)"

definition setDays :: "int \<Rightarrow> int \<Rightarrow> int \<Rightarrow> provider \<Rightarrow> provider option" where
  "setDays tz now days p = (let next = preset_range days in writeRange tz now next (saveRange next p))"

definition setAbsoluteRange ::
    "int \<Rightarrow> int \<Rightarrow> string \<Rightarrow> string option \<Rightarrow> provider \<Rightarrow> provider option" where
  "setAbsoluteRange tz now from to p =
    (let next = absolute_range from to in writeRange tz now next (saveRange next p))"

text \<open>The values the context hands out.\<close>

definition ctx_preset :: "StoredRange \<Rightarrow> TimePreset" where
  "ctx_preset r = nullish (find (\<lambda>c. Some (tp_days c) = sr_days r) PRESETS) (PRESETS ! 2)"

definition ctx_from :: "int \<Rightarrow> int \<Rightarrow> StoredRange \<Rightarrow> string option" where
  "ctx_from tz now r = (if sr_mode r = Absolute \<and> truthy (sr_from r) then sr_from r
     else computeFromDate tz now (nullish (sr_days r) DEFAULT_DAYS))"

definition ctx_to :: "StoredRange \<Rightarrow> string option" where
  "ctx_to r = (if sr_mode r = Absolute then sr_to r else None)"

definition ctx_label :: "StoredRange \<Rightarrow> string" where
  "ctx_label r =
    (if sr_mode r = Absolute \<and> truthy (sr_from r) then
       slice (the (sr_from r)) 0 10 @ '' to ''
         @ (if truthy (sr_to r) then slice (the (sr_to r)) 0 10 else ''now'')
     else let days = nullish (sr_days r) DEFAULT_DAYS in
       case find (\<lambda>c. tp_days c = days) PRESETS of
         Some c \<Rightarrow> tp_label c
       | None \<Rightarrow> ''Last '' @ show_int days @ '' days'')"

subsection \<open>Lemmas\<close>

lemma show_int_nat [simp]: "0 \<le> i \<Longrightarrow> show_int i = show_nat (nat i)"
  by (simp add: show_int_def)

lemma parse_preset_now [simp]: "parse_preset (''now-'' @ show_nat n @ ''d'') = Some n"
  using show_nat_digits [of n] by (simp add: parse_preset_def startsWith_def butlast_append)

lemmas parse_preset_now_cons [simp] = parse_preset_now [unfolded append_Cons append_Nil]

lemma show_nat_hd_digit: "show_nat n = c # r \<Longrightarrow> is_digit c"
  using show_nat_digits [of n] by simp

lemma parse_preset_digits [simp]: "parse_preset (show_nat n) = None"
proof -
  have "\<not> startsWith (show_nat n) ''now-''"
  proof
    assume "startsWith (show_nat n) ''now-''"
    then obtain r where "show_nat n = ''now-'' @ r" by (auto dest!: startsWithD)
    then have "show_nat n = CHR ''n'' # ''ow-'' @ r" by simp
    then have "is_digit (CHR ''n'')" by (rule show_nat_hd_digit)
    then show False by (simp add: is_digit_def)
  qed
  then show ?thesis by (simp add: parse_preset_def Let_def)
qed

lemma length_show_nat_ge: "10 ^ k \<le> n \<Longrightarrow> k < length (show_nat n)"
proof (induction k arbitrary: n)
  case (Suc k)
  have "(10::nat) * 1 \<le> 10 * 10 ^ k" by (intro mult_le_mono2) simp
  with Suc.prems have "10 \<le> n" by (simp only: power_Suc mult_1_right)
  then have sn: "show_nat n = show_nat (n div 10) @ [digit (n mod 10)]"
    by (subst show_nat.simps) simp
  from Suc.prems have "10 ^ k \<le> n div 10" by (simp add: less_eq_div_iff_mult_less_eq mult.commute)
  from Suc.IH [OF this] show ?case by (simp add: sn)
next
  case 0
  show ?case by simp
qed

text \<open>A time value of nine digits or more is read back as epoch milliseconds.\<close>

lemma parseAbsoluteToken_epoch:
  assumes "10 ^ 8 \<le> t" and "t \<le> max_time"
  shows "parseAbsoluteToken tz (show_int t) b = Some (iso_string t)"
proof -
  have t: "0 \<le> t" "nat t \<ge> 10 ^ 8" using assms by simp_all
  from length_show_nat_ge [OF t(2)] have len: "length (show_nat (nat t)) \<noteq> 8" by simp
  have d: "list_all is_digit (show_nat (nat t))" by (rule show_nat_digits)
  have "\<not> date_time_token (show_nat (nat t))"
  proof
    assume a: "date_time_token (show_nat (nat t))"
    then have "8 < length (show_nat (nat t))" "show_nat (nat t) ! 8 = CHR ''T''"
      by (simp_all only: date_time_token_def)
    then have "CHR ''T'' \<in> set (show_nat (nat t))" by (metis nth_mem)
    then have "is_digit (CHR ''T'')" by (rule show_nat_is_digit)
    then show False by (simp add: is_digit_def)
  qed
  moreover have "time_clip t = Some t" using assms by (simp add: time_clip_def)
  ultimately show ?thesis
    using len d t by (simp add: parseAbsoluteToken_def date_only_token_def epoch_token_def toISOString_def)
qed

lemma iso_year_nonempty: "\<exists>c r. iso_year y = c # r"
proof -
  have "pad_nat k n \<noteq> []" for k n by (simp add: pad_nat_def)
  then show ?thesis by (cases "pad_nat 4 (nat y)") (auto simp: iso_year_def)
qed

lemma iso_string_nonempty [simp]: "iso_string t \<noteq> []"
  using iso_year_nonempty [of "year_of_day (t div ms_per_day)"] by (auto simp: iso_string_def iso_date_def)

lemma rangeToParams_from_nonempty: "rangeToParams tz now r = Some (f, t) \<Longrightarrow> f \<noteq> []"
  by (auto simp: rangeToParams_def epoch_string_def show_int_def Let_def
      split: RangeMode.splits option.splits Option.bind_splits if_splits)

lemma sp_get_withTimeParamsLast [simp]: "sp_get (withTimeParamsLast ps) k = sp_get ps k"
proof -
  have "sp_get (other_params ps) k = (if k = ''from'' \<or> k = ''to'' then None else sp_get ps k)"
    unfolding other_params_def by (induction ps) (auto simp: sp_get_def)
  then show ?thesis
    by (auto simp: withTimeParamsLast_eq sp_get_def param_list_def map_add_def split: option.splits)
qed

lemma other_params_set [simp]: "k = ''from'' \<or> k = ''to'' \<Longrightarrow> other_params (sp_set k v ps) = other_params ps"
  by (induction k v ps rule: sp_set.induct)
    (auto simp: other_params_def sp_delete_def intro: filter_cong)

lemma other_params_delete [simp]:
  "k = ''from'' \<or> k = ''to'' \<Longrightarrow> other_params (sp_delete k ps) = other_params ps"
  by (auto simp: other_params_def sp_delete_def intro: filter_cong)

text \<open>The ranges the provider can put into a URL and read back.\<close>

definition url_safe_time :: "int \<Rightarrow> bool" where
  "url_safe_time t = (10 ^ 8 \<le> t \<and> t \<le> max_time)"

definition url_safe :: "StoredRange \<Rightarrow> bool" where
  "url_safe r \<longleftrightarrow> (\<exists>n. 0 \<le> n \<and> r = preset_range n)
     \<or> (\<exists>a b. url_safe_time a \<and> (\<forall>t. b = Some t \<longrightarrow> url_safe_time t)
         \<and> r = absolute_range (iso_string a) (map_option iso_string b))"

lemma url_safeE:
  assumes "url_safe r"
  obtains (preset) n where "0 \<le> n" "r = preset_range n"
  | (open_end) a where "url_safe_time a" "r = absolute_range (iso_string a) None"
  | (closed) a b where "url_safe_time a" "url_safe_time b"
      "r = absolute_range (iso_string a) (Some (iso_string b))"
  using assms unfolding url_safe_def by (metis option.exhaust option.map(1) option.map(2))

lemma show_int_nonempty [simp]: "show_int i \<noteq> []"
  by (simp add: show_int_def)

lemma url_safe_time_epoch:
  assumes "url_safe_time t"
  shows "epoch_string (Date_parse tz (iso_string t)) = show_int t"
    and "parseAbsoluteToken tz (show_int t) b = Some (iso_string t)"
    and "parse_preset (show_int t) = None"
  using assms parseAbsoluteToken_epoch [of t] Date_parse_iso [of t tz]
  by (simp_all add: url_safe_time_def epoch_string_def)

lemma params_parse:
  assumes "url_safe r"
  shows "\<exists>f t. rangeToParams tz now r = Some (f, t) \<and> f \<noteq> [] \<and> t \<noteq> Some [] \<and>
    parseTimeParams tz (Some f) t = Some r"
  using assms
proof (cases rule: url_safeE)
  case (preset n)
  then show ?thesis
    by (simp add: rangeToParams_def preset_range_def parseTimeParams_def)
next
  case (open_end a)
  with url_safe_time_epoch [OF open_end(1)] show ?thesis
    by (simp add: rangeToParams_def absolute_range_def parseTimeParams_def)
next
  case (closed a b)
  with url_safe_time_epoch [OF closed(1)] url_safe_time_epoch [OF closed(2)] show ?thesis
    by (simp add: rangeToParams_def absolute_range_def parseTimeParams_def)
qed

text \<open>What writing a range does to the URL, from the parameters it is written as.\<close>

lemma writeRange_url:
  assumes "rangeToParams tz now r = Some (f, t)" and "t \<noteq> Some []"
  shows "\<exists>p1. writeRange tz now r p = Some p1 \<and> pv_storage p1 = pv_storage p \<and>
    pv_url p1 = other_params (pv_url p) @ param_list ''from'' (Some f) @ param_list ''to'' t"
  using assms
  by (cases t) (auto simp: writeRange_def withTimeParamsLast_eq sp_get_set sp_get_delete)

lemma sp_get_written:
  "sp_get (other_params ps @ param_list ''from'' (Some f) @ param_list ''to'' t) ''from'' = Some f"
  "sp_get (other_params ps @ param_list ''from'' (Some f) @ param_list ''to'' t) ''to'' = t"
proof -
  have "sp_get (other_params ps) k = None" if "k = ''from'' \<or> k = ''to''" for k
    unfolding other_params_def using that by (induction ps) (auto simp: sp_get_def)
  then show "sp_get (other_params ps @ param_list ''from'' (Some f) @ param_list ''to'' t) ''from'' = Some f"
    and "sp_get (other_params ps @ param_list ''from'' (Some f) @ param_list ''to'' t) ''to'' = t"
    by (auto simp: sp_get_def param_list_def map_add_def split: option.splits)
qed

lemma writeRange_active:
  assumes "url_safe r"
  shows "\<exists>p1. writeRange tz now r p = Some p1 \<and> pv_storage p1 = pv_storage p \<and>
    active_range tz p1 = r \<and> truthy (sp_get (pv_url p1) ''from'') \<and>
    other_params (pv_url p1) = other_params (pv_url p)"
proof -
  obtain f t where ft: "rangeToParams tz now r = Some (f, t)" "f \<noteq> []" "t \<noteq> Some []"
    and parse: "parseTimeParams tz (Some f) t = Some r"
    using params_parse [OF assms] by blast
  obtain p1 where p1: "writeRange tz now r p = Some p1" "pv_storage p1 = pv_storage p"
    and url: "pv_url p1 = other_params (pv_url p) @ param_list ''from'' (Some f) @ param_list ''to'' t"
    using writeRange_url [OF ft(1,3)] by blast
  have "other_params (param_list ''from'' (Some f) @ param_list ''to'' t) = []"
    by (auto simp: other_params_def param_list_def split: option.split)
  then have "other_params (pv_url p1) = other_params (pv_url p)"
    by (simp add: url other_params_def)
  then show ?thesis
    using p1 ft(2) parse by (auto simp: active_range_def url sp_get_written)
qed

subsection \<open>Properties\<close>

text \<open>
  Formatting an ISO instant and parsing the result gives the same instant back, for every time
  value in the range of the language and whatever the local zone is; so the ISO strings the UI keeps
  as range ends and map keys identify instants.
\<close>

lemma iso_roundtrip:
  assumes "\<bar>t\<bar> \<le> max_time"
  shows "toISOString (Some t) = Some (iso_string t) \<and> Date_parse tz (iso_string t) = Some t"
  using Date_parse_iso [OF assms] by (simp add: toISOString_def)

text \<open>
  C9. Every range a user can set, a preset of days or an absolute range of instants that are at least
  nine digits of epoch milliseconds, survives the URL: serialising it to search parameters and
  parsing those gives the same range.
\<close>

theorem range_params_roundtrip:
  assumes "url_safe r"
  shows "\<exists>f t. rangeToParams tz now r = Some (f, t) \<and> parseTimeParams tz (Some f) t = Some r"
  using params_parse [OF assms] by blast

theorem range_params_roundtrip_witness:
  "\<exists>f t. rangeToParams 60 0 (absolute_range (iso_string 1704067200000) (Some (iso_string 1706745599999)))
      = Some (f, t) \<and>
    parseTimeParams 60 (Some f) t
      = Some (absolute_range (iso_string 1704067200000) (Some (iso_string 1706745599999)))"
proof (rule range_params_roundtrip)
  have "url_safe_time 1704067200000" "url_safe_time 1706745599999"
    by (simp_all add: url_safe_time_def max_time_def)
  then show "url_safe (absolute_range (iso_string 1704067200000) (Some (iso_string 1706745599999)))"
    unfolding url_safe_def by (metis option.inject option.map(2))
qed

text \<open>
  The provider settles: with no range in the URL, the effect seeds the URL with the active range,
  the active range stays the same, the other parameters keep their order, and the next run of the
  effect only mirrors the range into the storage, so it does not loop.
\<close>

lemma sync_effect_settles:
  assumes "\<not> truthy (sp_get (pv_url p) ''from'')" and "url_safe (active_range tz p)"
  shows "\<exists>p1. sync_effect tz now p = Some p1 \<and> active_range tz p1 = active_range tz p \<and>
    other_params (pv_url p1) = other_params (pv_url p) \<and>
    sync_effect tz now p1 = Some (saveRange (active_range tz p) p1)"
proof -
  obtain p1 where p1: "writeRange tz now (active_range tz p) p = Some p1"
    "active_range tz p1 = active_range tz p" "truthy (sp_get (pv_url p1) ''from'')"
    "other_params (pv_url p1) = other_params (pv_url p)"
    using writeRange_active [OF assms(2)] by blast
  with assms(1) show ?thesis by (auto simp: sync_effect_def)
qed

theorem sync_effect_settles_witness:
  "\<exists>p1. sync_effect 0 0 \<lparr>pv_url = [(''tab'', ''slo'')], pv_storage = None\<rparr> = Some p1 \<and>
    active_range 0 p1 = preset_range 30 \<and> other_params (pv_url p1) = [(''tab'', ''slo'')] \<and>
    sync_effect 0 0 p1 = Some (saveRange (preset_range 30) p1)"
proof -
  let ?p = "\<lparr>pv_url = [(''tab'', ''slo'')], pv_storage = None\<rparr>"
  have a: "active_range 0 ?p = preset_range 30"
    by (simp add: active_range_def sp_get_def parseTimeParams_def loadRange_def DEFAULT_DAYS_def)
  moreover have "url_safe (preset_range 30)"
    unfolding url_safe_def by (intro disjI1 exI [of _ 30]) simp
  moreover have "other_params (pv_url ?p) = [(''tab'', ''slo'')]" by (simp add: other_params_def)
  ultimately show ?thesis
    using sync_effect_settles [of ?p 0 0] by (simp add: sp_get_def)
qed

text \<open>
  Choosing a range makes it the active one, in the URL and in the storage, and leaves every other
  search parameter in place; this holds for a preset and for an absolute range.
\<close>

lemma chosen_range_active:
  assumes "0 \<le> days" and "url_safe_time a" and "url_safe_time b"
  shows "(\<exists>p1. setDays tz now days p = Some p1 \<and> active_range tz p1 = preset_range days \<and>
      pv_storage p1 = Some (Stored (preset_range days)) \<and>
      other_params (pv_url p1) = other_params (pv_url p)) \<and>
    (\<exists>p1. setAbsoluteRange tz now (iso_string a) (Some (iso_string b)) p = Some p1 \<and>
      active_range tz p1 = absolute_range (iso_string a) (Some (iso_string b)) \<and>
      pv_storage p1 = Some (Stored (absolute_range (iso_string a) (Some (iso_string b)))) \<and>
      other_params (pv_url p1) = other_params (pv_url p))"
proof -
  have "url_safe (preset_range days)" using assms(1) by (auto simp: url_safe_def)
  moreover have "url_safe (absolute_range (iso_string a) (Some (iso_string b)))"
    using assms(2,3) unfolding url_safe_def by (metis option.inject option.map(2))
  ultimately show ?thesis
    using writeRange_active [of "preset_range days" tz now "saveRange (preset_range days) p"]
      writeRange_active [of "absolute_range (iso_string a) (Some (iso_string b))" tz now
        "saveRange (absolute_range (iso_string a) (Some (iso_string b))) p"]
    by (auto simp: setDays_def setAbsoluteRange_def saveRange_def)
qed

theorem chosen_range_active_witness:
  "\<exists>p1. setDays 0 0 7 \<lparr>pv_url = [], pv_storage = None\<rparr> = Some p1 \<and> active_range 0 p1 = preset_range 7"
  using chosen_range_active [of 7 1704067200000 1706745599999 0 0 "\<lparr>pv_url = [], pv_storage = None\<rparr>"]
  by (auto simp: url_safe_time_def max_time_def)

text \<open>
  The picker's day survives the trip through a local calendar date: for an instant of the year
  100 or later, reading its UTC day as a calendar date and converting that date back gives the first
  and the last millisecond of that UTC day, in every local zone.
\<close>

lemma calendar_day_roundtrip:
  assumes "Date_parse tz txt = Some t" and "100 \<le> year_of_day (utc_day t)"
    and "\<bar>local_midnight tz (utc_day t)\<bar> \<le> max_time" and "\<bar>utc_day t * ms_per_day + 86399999\<bar> \<le> max_time"
  shows "\<exists>c. isoToCalendarDate tz txt = Some c \<and>
    calendarDateToIso tz c False = Some (iso_string (utc_day t * ms_per_day)) \<and>
    calendarDateToIso tz c True = Some (iso_string (utc_day t * ms_per_day + 86399999))"
proof -
  let ?d = "utc_day t"
  have fy: "full_year (year_of_day ?d) = year_of_day ?d" using assms(2) by (simp add: full_year_def)
  have c: "isoToCalendarDate tz txt = Some (local_midnight tz ?d)"
    using assms(1,3) by (simp add: isoToCalendarDate_def new_local_date_def fy make_day_of_day time_clip_def)
  have "\<bar>?d * ms_per_day\<bar> \<le> max_time"
    using max_time_day [OF Date_parse_max [OF assms(1)]]
    by (simp add: utc_day_def ms_per_day_def max_time_def abs_mult)
  then show ?thesis
    using c assms(4)
    by (simp add: calendarDateToIso_def date_utc_def fy make_day_of_day time_clip_def toISOString_def)
qed

theorem calendar_day_roundtrip_witness:
  "\<exists>c. isoToCalendarDate (- 330) (iso_string 1704150000000) = Some c \<and>
    calendarDateToIso (- 330) c False = Some (iso_string 1704067200000) \<and>
    calendarDateToIso (- 330) c True = Some (iso_string (1704067200000 + 86399999))"
proof -
  have p: "Date_parse (- 330) (iso_string 1704150000000) = Some 1704150000000"
    by (rule Date_parse_iso) (simp add: max_time_def)
  have "utc_day 1704150000000 = 19723" by (simp add: utc_day_def ms_per_day_def)
  moreover have "year_of_day 19723 = 2024" by (simp add: year_of_day_def day_from_year_def)
  ultimately show ?thesis
    using calendar_day_roundtrip [OF p] by (simp add: local_midnight_def local_ms_def ms_per_day_def max_time_def)
qed

text \<open>
  Moving the time parameters last changes no lookup, keeps the other parameters in their order,
  puts \<open>from\<close> before \<open>to\<close> at the end, and doing it twice changes nothing more.
\<close>

lemma withTimeParamsLast_correct:
  "withTimeParamsLast ps =
      other_params ps @ param_list ''from'' (sp_get ps ''from'') @ param_list ''to'' (sp_get ps ''to'')
    \<and> (\<forall>k. sp_get (withTimeParamsLast ps) k = sp_get ps k)
    \<and> withTimeParamsLast (withTimeParamsLast ps) = withTimeParamsLast ps"
proof -
  have "other_params (withTimeParamsLast ps) = other_params ps"
    by (auto simp: withTimeParamsLast_eq other_params_def param_list_def split: option.split)
  then have "withTimeParamsLast (withTimeParamsLast ps) = withTimeParamsLast ps"
    by (subst (1 2) withTimeParamsLast_eq) simp
  then show ?thesis by (simp add: withTimeParamsLast_eq [symmetric])
qed

end
