(* ===== verification/Format.thy ===== *)
theory Format
  imports Prelude "HOL-Library.Multiset"
begin

text \<open>
  Formatting and parsing of numbers and names: \<open>ui/src/lib/format.ts\<close>, \<open>ui/src/utils/metrics.ts\<close>,
  \<open>ui/src/lib/validation.ts\<close>, \<open>ui/src/features/registry/forms/criteriaUtils.ts\<close>,
  \<open>\<dots>/tagUtils.ts\<close> and \<open>escapeHtml\<close> of \<open>ui/src/lib/chartAnnotations.ts\<close>. A JavaScript number is an
  exact rational; \<open>toFixed\<close> is exact on it as in the language standard, other roundings of binary
  floating point are not modelled. The one-character strings \<open>em_dash\<close>, \<open>en_dash\<close>,
  \<open>bullet\<close> and \<open>middle_dot\<close> stand for U+2014, U+2013, U+25CF and U+00B7.
\<close>

definition em_dash :: string where
  "em_dash = [CHR 0x97]"

definition en_dash :: string where
  "en_dash = [CHR 0x96]"

definition bullet :: string where
  "bullet = [CHR 0x95]"

definition middle_dot :: string where
  "middle_dot = [CHR 0xB7]"

subsection \<open>Numbers and decimal strings\<close>

datatype jsnum = Fin rat | PosInf | NegInf | NaN

text \<open>The decimal with \<open>p\<close> places of \<open>n\<close> units of the last place.\<close>

definition decimal_string :: "nat \<Rightarrow> nat \<Rightarrow> string" where
  "decimal_string n p = show_nat (n div 10 ^ p)
     @ (if p = 0 then [] else CHR ''.'' # pad_nat p (n mod 10 ^ p))"

text \<open>\<open>x.toFixed(f)\<close>, for numbers below \<open>10 ^ 21\<close>: rounds half up in absolute value.\<close>

definition fixed_units :: "nat \<Rightarrow> rat \<Rightarrow> nat" where
  "fixed_units f x = nat \<lfloor>\<bar>x\<bar> * 10 ^ f + 1 / 2\<rfloor>"

definition toFixed :: "nat \<Rightarrow> rat \<Rightarrow> string" where
  "toFixed f x = (if x < 0 then ''-'' else []) @ decimal_string (fixed_units f x) f"

text \<open>\<open>Math.round\<close>: halves go up.\<close>

definition js_round :: "rat \<Rightarrow> int" where
  "js_round x = \<lfloor>x + 1 / 2\<rfloor>"

text \<open>\<open>parseFloat\<close>: the longest decimal prefix after leading white space.\<close>

definition split_sign :: "string \<Rightarrow> bool \<times> string" where
  "split_sign s = (case s of [] \<Rightarrow> (False, s) | c # r \<Rightarrow>
     if c = CHR ''-'' then (True, r) else if c = CHR ''+'' then (False, r) else (False, s))"

definition exp_part :: "string \<Rightarrow> int" where
  "exp_part s = (case s of [] \<Rightarrow> 0 | c # r \<Rightarrow>
     if c = CHR ''e'' \<or> c = CHR ''E'' then
       (let (neg, u) = split_sign r; ds = takeWhile is_digit u in
        if ds = [] then 0 else if neg then - int (nat_of_digits ds) else int (nat_of_digits ds))
     else 0)"

definition scale10 :: "rat \<Rightarrow> int \<Rightarrow> rat" where
  "scale10 x e = (if 0 \<le> e then x * 10 ^ nat e else x / 10 ^ nat (- e))"

definition frac_part :: "string \<Rightarrow> string \<times> string" where
  "frac_part s = (case s of [] \<Rightarrow> ([], s) | c # r \<Rightarrow>
     if c = CHR ''.'' then (takeWhile is_digit r, dropWhile is_digit r) else ([], s))"

definition parse_unsigned :: "string \<Rightarrow> rat option" where
  "parse_unsigned u = (let ds = takeWhile is_digit u; (fs, r) = frac_part (dropWhile is_digit u) in
     if ds = [] \<and> fs = [] then None
     else Some (scale10 (of_nat (nat_of_digits (ds @ fs)) / 10 ^ length fs) (exp_part r)))"

definition parseFloat :: "string \<Rightarrow> jsnum" where
  "parseFloat s = (let (neg, u) = split_sign (trimStart s) in
     if startsWith u ''Infinity'' then (if neg then NegInf else PosInf)
     else case parse_unsigned u of None \<Rightarrow> NaN | Some x \<Rightarrow> Fin (if neg then - x else x))"

text \<open>
  \<open>String(x)\<close>: the number of decimal places (at most thirty), and the plain format, used from
  \<open>10 ^ -6\<close> up to \<open>10 ^ 21\<close> and for zero; outside that range the exponent format.
\<close>

fun dec_places :: "nat \<Rightarrow> rat \<Rightarrow> nat" where
  "dec_places 0 x = 0"
| "dec_places (Suc k) x = (if of_int \<lfloor>x\<rfloor> = x then 0 else Suc (dec_places k (x * 10)))"

definition plain_number :: "rat \<Rightarrow> bool" where
  "plain_number x = (x = 0 \<or> (1 / 1000000 \<le> \<bar>x\<bar> \<and> \<bar>x\<bar> < 10 ^ 21))"

definition plain_string :: "rat \<Rightarrow> string" where
  "plain_string x = (let p = dec_places 30 \<bar>x\<bar> in
     (if x < 0 then ''-'' else []) @ decimal_string (nat \<lfloor>\<bar>x\<bar> * 10 ^ p\<rfloor>) p)"

fun strip_zeros :: "nat \<Rightarrow> nat \<Rightarrow> nat" where
  "strip_zeros 0 n = n"
| "strip_zeros (Suc k) n = (if n mod 10 = 0 then strip_zeros k (n div 10) else n)"

definition exponent_string :: "rat \<Rightarrow> string" where
  "exponent_string x = (let p = dec_places 400 \<bar>x\<bar>; u = nat \<lfloor>\<bar>x\<bar> * 10 ^ p\<rfloor>;
     ds = show_nat (strip_zeros 400 u); e = int (length (show_nat u)) - 1 - int p in
     (if x < 0 then ''-'' else []) @ [hd ds] @ (if tl ds = [] then [] else CHR ''.'' # tl ds)
       @ ''e'' @ (if 0 \<le> e then ''+'' else []) @ show_int e)"

definition num_string :: "jsnum \<Rightarrow> string" where
  "num_string v = (case v of
     Fin x \<Rightarrow> if plain_number x then plain_string x else exponent_string x
   | PosInf \<Rightarrow> ''Infinity'' | NegInf \<Rightarrow> ''-Infinity'' | NaN \<Rightarrow> ''NaN'')"

subsection \<open>Number and date formatters\<close>

text \<open>
  \<open>-Math.floor(Math.log10(abs))\<close> for \<open>abs\<close> below 1, saturated at 4: the only use caps the sum with
  two at six digits.
\<close>

definition neg_log10_floor :: "rat \<Rightarrow> nat" where
  "neg_log10_floor a = (if 1 / 10 \<le> a then 1 else if 1 / 100 \<le> a then 2 else if 1 / 1000 \<le> a then 3 else 4)"

definition strip_trailing :: "char \<Rightarrow> string \<Rightarrow> string" where
  "strip_trailing c s = rev (dropWhile (\<lambda>x. x = c) (rev s))"

definition strip_dot :: "string \<Rightarrow> string" where
  "strip_dot s = (if s \<noteq> [] \<and> last s = CHR ''.'' then butlast s else s)"

definition fmt :: "rat option \<Rightarrow> string" where
  "fmt v = (case v of None \<Rightarrow> em_dash | Some x \<Rightarrow>
     if x = 0 then ''0''
     else let a = \<bar>x\<bar> in
       if a \<ge> 1000000 then toFixed 2 (x / 1000000) @ ''M''
       else if a \<ge> 1000 then toFixed 2 (x / 1000) @ ''K''
       else if a \<ge> 1 / 100 then toFixed 2 x
       else let digits = min 6 (neg_log10_floor a + 2) in
         strip_dot (strip_trailing (CHR ''0'') (toFixed digits x)))"

definition fmtPct :: "rat option \<Rightarrow> string" where
  "fmtPct v = (case v of None \<Rightarrow> em_dash | Some x \<Rightarrow> toFixed 1 x @ ''%'')"

definition fmtSignedAbs :: "rat option \<Rightarrow> string" where
  "fmtSignedAbs v = (case v of None \<Rightarrow> em_dash
     | Some x \<Rightarrow> (if x \<ge> 0 then ''+'' else []) @ fmt (Some x))"

datatype Transition = Appeared | Vanished

fun transition_str :: "Transition \<Rightarrow> string" where
  "transition_str Appeared = ''appeared''"
| "transition_str Vanished = ''vanished''"

definition formatChangePointPct :: "rat option \<Rightarrow> Transition option \<Rightarrow> rat option \<Rightarrow> string" where
  "formatChangePointPct changeRelativePct transition changeAbsolute =
    (let primary = (case transition of
           Some t \<Rightarrow> Some (transition_str t)
         | None \<Rightarrow> (case changeRelativePct of None \<Rightarrow> None
             | Some p \<Rightarrow> Some ((if p > 0 then ''+'' else []) @ toFixed 1 p @ ''%'')))
     in case primary of None \<Rightarrow> em_dash
        | Some s \<Rightarrow> (case changeAbsolute of None \<Rightarrow> s
            | Some a \<Rightarrow> s @ '', '' @ fmtSignedAbs (Some a)))"

definition fmtSlot :: "string \<Rightarrow> string" where
  "fmtSlot s = (if s = [] then em_dash
     else slice s 5 7 @ ''-'' @ slice s 8 10 @ '' '' @ slice s 11 16)"

definition fmtDateTime :: "string \<Rightarrow> string" where
  "fmtDateTime s = (if s = [] then em_dash else slice s 0 10 @ '' '' @ slice s 11 16)"

definition fmtDate :: "string \<Rightarrow> string" where
  "fmtDate s = (if s = [] then em_dash else slice s 0 10)"

text \<open>\<open>+x.toFixed(2)\<close>: the string read back as a number.\<close>

definition fixed_value :: "nat \<Rightarrow> rat \<Rightarrow> rat" where
  "fixed_value f x = (case parseFloat (toFixed f x) of Fin y \<Rightarrow> y | _ \<Rightarrow> 0)"

definition computeChangePct :: "rat \<Rightarrow> rat option \<Rightarrow> rat option" where
  "computeChangePct v baseline = (case baseline of None \<Rightarrow> None
     | Some b \<Rightarrow> (let denominator = (if b = 0 then 1 else \<bar>b\<bar>)
         in Some (fixed_value 2 ((v - b) / denominator * 100))))"

subsection \<open>Criteria\<close>

datatype Operator = OpLt | OpLe | OpGt | OpGe | OpEq
datatype Sign = Plus | Minus

record CriteriaParts =
  cp_operator :: Operator
  cp_sign :: "Sign option"
  cp_value :: jsnum
  cp_percent :: bool

fun op_str :: "Operator \<Rightarrow> string" where
  "op_str OpLt = ''<''"
| "op_str OpLe = ''<=''"
| "op_str OpGt = ''>''"
| "op_str OpGe = ''>=''"
| "op_str OpEq = ''=''"

fun sign_str :: "Sign \<Rightarrow> string" where
  "sign_str Plus = ''+''"
| "sign_str Minus = ''-''"

definition OPERATORS :: "Operator list" where
  "OPERATORS = [OpLe, OpGe, OpLt, OpGt, OpEq]"

definition criteria_sign :: "string \<Rightarrow> Sign option \<times> string" where
  "criteria_sign rest = (if startsWith rest ''+'' then (Some Plus, drop 1 rest)
     else if startsWith rest ''-'' then (Some Minus, drop 1 rest) else (None, rest))"

definition parseCriteria :: "string \<Rightarrow> CriteriaParts option" where
  "parseCriteria raw = (let s = trim_str raw in
     if s = [] then None
     else case find (\<lambda>op. startsWith s (op_str op)) OPERATORS of
       None \<Rightarrow> None
     | Some operator \<Rightarrow>
         (let (sign, rest) = criteria_sign (drop (length (op_str operator)) s);
              percent = endsWith rest ''%'';
              rest1 = (if percent then butlast rest else rest);
              val = parseFloat rest1
          in if val = NaN then None
             else Some \<lparr>cp_operator = operator, cp_sign = sign, cp_value = val, cp_percent = percent\<rparr>))"

definition DEFAULT_CRITERIA :: CriteriaParts where
  "DEFAULT_CRITERIA = \<lparr>cp_operator = OpLt, cp_sign = None, cp_value = Fin 0, cp_percent = False\<rparr>"

definition serializeCriteria :: "CriteriaParts \<Rightarrow> string" where
  "serializeCriteria parts = op_str (cp_operator parts)
     @ (case cp_sign parts of None \<Rightarrow> [] | Some sg \<Rightarrow> sign_str sg)
     @ num_string (cp_value parts) @ (if cp_percent parts then ''%'' else [])"

subsection \<open>Names, tags and escaping\<close>

definition entity_char :: "char \<Rightarrow> bool" where
  "entity_char c = (let n = of_char c :: nat in (97 \<le> n \<and> n \<le> 122) \<or> is_digit c \<or> c = CHR ''-'')"

definition isValidEntityName :: "string \<Rightarrow> bool" where
  "isValidEntityName name = (0 < length name \<and> name \<noteq> [] \<and> list_all entity_char name)"

text \<open>
  An object used as a map: its own properties in insertion order. Assigning to \<open>__proto__\<close> creates no
  own property, and listing the entries gives the array indices first, ascending. \<open>obj_map\<close> is the loop
  that fills a new object from the entries of another.
\<close>

type_synonym str_obj = "(string, string) jsmap"

definition obj_set :: "string \<Rightarrow> 'v \<Rightarrow> (string, 'v) jsmap \<Rightarrow> (string, 'v) jsmap" where
  "obj_set k v ob = (if k = ''__proto__'' then ob else js_set k v ob)"

definition array_index :: "string \<Rightarrow> bool" where
  "array_index k = (k \<noteq> [] \<and> list_all is_digit k \<and> k = show_nat (nat_of_digits k)
     \<and> nat_of_digits k < 2 ^ 32 - 1)"

definition Object_entries :: "(string, 'v) jsmap \<Rightarrow> (string \<times> 'v) list" where
  "Object_entries ob = sort_key (\<lambda>(k, _). nat_of_digits k) (filter (\<lambda>(k, _). array_index k) ob)
     @ filter (\<lambda>(k, _). \<not> array_index k) ob"

definition obj_map :: "('a \<Rightarrow> 'b) \<Rightarrow> (string, 'a) jsmap \<Rightarrow> (string, 'b) jsmap" where
  "obj_map f ob = foldl (\<lambda>out (k, v). obj_set k (f v) out) [] (Object_entries ob)"

record TagRow =
  tr_key :: string
  tr_value :: string

definition tagsToRows :: "str_obj \<Rightarrow> TagRow list" where
  "tagsToRows tags = map (\<lambda>(k, v). \<lparr>tr_key = k, tr_value = v\<rparr>) (Object_entries tags)"

definition rowsToTags :: "TagRow list \<Rightarrow> str_obj" where
  "rowsToTags rows = foldl (\<lambda>result row.
     if trim_str (tr_key row) \<noteq> [] then obj_set (trim_str (tr_key row)) (tr_value row) result else result)
     [] rows"

definition escape_char :: "char \<Rightarrow> string" where
  "escape_char c = (if c = CHR ''&'' then ''&amp;'' else if c = CHR ''<'' then ''&lt;''
     else if c = CHR ''>'' then ''&gt;'' else if c = CHR 0x22 then ''&quot;''
     else if c = CHR 0x27 then ''&#39;'' else [c])"

definition escapeHtml :: "string \<Rightarrow> string" where
  "escapeHtml s = concat (map escape_char s)"

subsection \<open>Reading decimals back\<close>

lemma nat_of_digits_append: "nat_of_digits (s @ t) = nat_of_digits s * 10 ^ length t + nat_of_digits t"
proof (induction t rule: rev_induct)
  case (snoc c t)
  then show ?case by (simp flip: append_assoc add: algebra_simps)
qed simp

text \<open>Text after a number that the parser of numbers leaves alone.\<close>

definition num_end :: "string \<Rightarrow> bool" where
  "num_end r = (r = [] \<or> (\<not> is_digit (hd r) \<and> hd r \<noteq> CHR ''.'' \<and> hd r \<noteq> CHR ''e'' \<and> hd r \<noteq> CHR ''E''))"

lemma num_end_simps [simp]: "num_end []" "num_end ''%''" "num_end (c # r) \<Longrightarrow> num_end [c]"
  by (simp_all add: num_end_def is_digit_def)

lemma digit_run:
  assumes "list_all is_digit ds" and "r = [] \<or> \<not> is_digit (hd r)"
  shows "takeWhile is_digit (ds @ r) = ds" and "dropWhile is_digit (ds @ r) = r"
proof -
  have "takeWhile is_digit r = []" "dropWhile is_digit r = r"
    using assms(2) by (cases r; simp)+
  with assms(1) show "takeWhile is_digit (ds @ r) = ds" "dropWhile is_digit (ds @ r) = r"
    by (simp_all add: takeWhile_append dropWhile_append list_all_iff)
qed

lemma exp_part_end: "num_end r \<Longrightarrow> exp_part r = 0"
  by (cases r) (auto simp: exp_part_def num_end_def)

lemma frac_part_end: "num_end r \<Longrightarrow> frac_part r = ([], r)"
  by (cases r) (auto simp: frac_part_def num_end_def)

lemma parse_unsigned_decimal:
  assumes "num_end r"
  shows "parse_unsigned (decimal_string n p @ r) = Some (of_nat n / 10 ^ p)"
proof (cases "p = 0")
  case True
  have "r = [] \<or> \<not> is_digit (hd r)" using assms by (auto simp: num_end_def)
  note d = digit_run [OF show_nat_digits this]
  from True show ?thesis
    by (simp add: parse_unsigned_def decimal_string_def d frac_part_end [OF assms]
        exp_part_end [OF assms] scale10_def)
next
  case False
  let ?a = "show_nat (n div 10 ^ p)" and ?b = "pad_nat p (n mod 10 ^ p)"
  have r: "r = [] \<or> \<not> is_digit (hd r)" using assms by (auto simp: num_end_def)
  have len: "length ?b = p" using False by (simp add: length_pad_nat)
  have dot: "CHR ''.'' # ?b @ r = [] \<or> \<not> is_digit (hd (CHR ''.'' # ?b @ r))" by (simp add: is_digit_def)
  note d1 = digit_run [OF show_nat_digits [of "n div 10 ^ p"] dot]
  note d2 = digit_run [OF pad_nat_digits [of p "n mod 10 ^ p"] r]
  have "nat_of_digits (?a @ ?b) = n" by (simp add: nat_of_digits_append len div_mult_mod_eq)
  then show ?thesis
    using False by (simp add: parse_unsigned_def decimal_string_def d1 frac_part_def d2
        exp_part_end [OF assms] scale10_def len)
qed

lemma decimal_string_hd: "\<exists>c t. decimal_string n p = c # t \<and> is_digit c"
proof -
  obtain c t where ct: "show_nat (n div 10 ^ p) = c # t"
    by (cases "show_nat (n div 10 ^ p)") auto
  then have "is_digit c" using show_nat_is_digit [of c "n div 10 ^ p"] by simp
  with ct show ?thesis by (simp add: decimal_string_def)
qed

lemma decimal_string_last: "is_digit (last (decimal_string n p))"
proof (cases "p = 0")
  case True
  then show ?thesis
    using show_nat_is_digit [OF last_in_set [OF show_nat_nonempty]] by (simp add: decimal_string_def)
next
  case False
  then have "length (pad_nat p (n mod 10 ^ p)) = p" by (simp add: length_pad_nat)
  with False have "pad_nat p (n mod 10 ^ p) \<noteq> []" by auto
  with False pad_nat_is_digit [OF last_in_set] show ?thesis by (simp add: decimal_string_def)
qed

lemma digit_not_sign: "is_digit c \<Longrightarrow> c \<noteq> CHR ''-'' \<and> c \<noteq> CHR ''+'' \<and> c \<noteq> CHR ''I'' \<and> c \<noteq> CHR ''%''
    \<and> c \<noteq> CHR ''=''"
  by (auto simp: is_digit_def)

lemma parseFloat_decimal:
  assumes "num_end r"
  shows "parseFloat (decimal_string n p @ r) = Fin (of_nat n / 10 ^ p)"
    and "parseFloat (CHR ''-'' # decimal_string n p @ r) = Fin (- (of_nat n / 10 ^ p))"
proof -
  obtain c t where ct: "decimal_string n p = c # t" and c: "is_digit c"
    using decimal_string_hd by blast
  note pu = parse_unsigned_decimal [OF assms, of n p, unfolded ct]
  have "\<not> is_space c" using c by (rule digit_not_space)
  moreover have "\<not> is_space (CHR ''-'')" by (simp add: is_space_def)
  moreover have "\<not> startsWith (c # t @ r) ''Infinity''"
    using digit_not_sign [OF c] by (auto dest: startsWithD)
  ultimately show "parseFloat (decimal_string n p @ r) = Fin (of_nat n / 10 ^ p)"
    and "parseFloat (CHR ''-'' # decimal_string n p @ r) = Fin (- (of_nat n / 10 ^ p))"
    using pu digit_not_sign [OF c]
    by (simp_all add: parseFloat_def ct trimStart_def split_sign_def)
qed

lemma fixed_value_eq:
  "fixed_value f x = (if x < 0 then - 1 else 1) * (of_nat (fixed_units f x) / 10 ^ f)"
  using parseFloat_decimal [of "[]" "fixed_units f x" f] by (simp add: fixed_value_def toFixed_def)

text \<open>\<open>toFixed\<close> is off by at most half a unit of the last place.\<close>

lemma fixed_value_error: "\<bar>fixed_value f x - x\<bar> \<le> 1 / (2 * 10 ^ f)"
proof -
  let ?y = "\<bar>x\<bar> * 10 ^ f"
  have y: "0 \<le> ?y" by simp
  have fu: "of_nat (fixed_units f x) = (of_int \<lfloor>?y + 1 / 2\<rfloor> :: rat)"
    using y by (simp add: fixed_units_def)
  have "\<bar>of_int \<lfloor>?y + 1 / 2\<rfloor> - ?y\<bar> \<le> 1 / 2"
    using of_int_floor_le [of "?y + 1 / 2"] floor_correct [of "?y + 1 / 2"] by linarith
  then have "\<bar>of_nat (fixed_units f x) / 10 ^ f - \<bar>x\<bar>\<bar> \<le> 1 / 2 / 10 ^ f"
    unfolding fu by (simp add: field_simps abs_le_iff)
  then show ?thesis
    by (cases "x < 0") (simp_all add: fixed_value_eq abs_minus_commute)
qed

lemma dec_places_exact:
  "of_int \<lfloor>x * 10 ^ k\<rfloor> = x * 10 ^ k \<Longrightarrow> of_int \<lfloor>x * 10 ^ dec_places k x\<rfloor> = x * (10 ^ dec_places k x :: rat)"
proof (induction k arbitrary: x)
  case (Suc k)
  then have "of_int \<lfloor>x * 10 * 10 ^ k\<rfloor> = x * 10 * (10 ^ k :: rat)" by (simp add: algebra_simps)
  from Suc.IH [OF this] show ?case by (simp add: algebra_simps)
qed simp

text \<open>The decimals a criterion can hold: not negative, in the plain format, at most thirty places.\<close>

definition plain_decimal :: "rat \<Rightarrow> bool" where
  "plain_decimal x = (0 \<le> x \<and> plain_number x \<and> of_int \<lfloor>x * 10 ^ 30\<rfloor> = x * 10 ^ 30)"

lemma plain_decimal_string:
  assumes "plain_decimal x"
  shows "\<exists>n p. num_string (Fin x) = decimal_string n p \<and> of_nat n / 10 ^ p = x"
proof -
  let ?p = "dec_places 30 x"
  have x: "0 \<le> x" "plain_number x" and e: "of_int \<lfloor>x * 10 ^ ?p\<rfloor> = x * 10 ^ ?p"
    using assms dec_places_exact [of x 30] by (simp_all add: plain_decimal_def)
  have "of_nat (nat \<lfloor>x * 10 ^ ?p\<rfloor>) = x * 10 ^ ?p" using x(1) e by simp
  then have "of_nat (nat \<lfloor>x * 10 ^ ?p\<rfloor>) / 10 ^ ?p = x" by simp
  moreover have "num_string (Fin x) = decimal_string (nat \<lfloor>x * 10 ^ ?p\<rfloor>) ?p"
    using x by (simp add: num_string_def plain_string_def Let_def)
  ultimately show ?thesis by blast
qed

lemma sign_str_hd: "sign_str g \<noteq> [] \<and> hd (sign_str g) \<noteq> CHR ''=''"
  by (cases g) simp_all

lemma op_found:
  assumes "r \<noteq> []" and "hd r \<noteq> CHR ''=''"
  shows "find (\<lambda>op. startsWith (op_str operator @ r) (op_str op)) OPERATORS = Some operator"
  using assms by (cases operator; cases r) (auto simp: OPERATORS_def startsWith_def)

lemma endsWith_singleton: "endsWith s [c] \<longleftrightarrow> s \<noteq> [] \<and> last s = c"
  by (cases s rule: rev_cases) (auto simp: endsWith_def)

lemma parse_serialized:
  assumes n: "num_string v = decimal_string n p" and v: "v = Fin (of_nat n / 10 ^ p)"
  shows "parseCriteria (serializeCriteria \<lparr>cp_operator = op, cp_sign = sg, cp_value = v, cp_percent = pc\<rparr>)
    = Some \<lparr>cp_operator = op, cp_sign = sg, cp_value = v, cp_percent = pc\<rparr>"
proof -
  let ?ss = "case sg of None \<Rightarrow> [] | Some g \<Rightarrow> sign_str g"
  let ?ps = "if pc then ''%'' else []"
  let ?num = "decimal_string n p @ ?ps"
  let ?s = "op_str op @ ?ss @ ?num"
  obtain c t where ct: "decimal_string n p = c # t" and c: "is_digit c"
    using decimal_string_hd by blast
  have lastd: "is_digit (last (decimal_string n p))" by (rule decimal_string_last)
  have ne: "decimal_string n p \<noteq> []" using ct by simp
  have hd_s: "?s \<noteq> []" "\<not> is_space (hd ?s)" by (cases op; simp add: is_space_def)+
  have "last ?s = (if pc then CHR ''%'' else last (decimal_string n p))"
    using ne by (simp add: last_append)
  then have "\<not> is_space (last ?s)"
    using lastd digit_not_space by (auto simp: is_space_def)
  then have trim: "trim_str ?s = ?s" using hd_s by (intro trim_str_id)
  have rest: "?ss @ ?num \<noteq> []" "hd (?ss @ ?num) \<noteq> CHR ''=''"
    using ct digit_not_sign [OF c] sign_str_hd
    by (auto split: option.split simp: hd_append)
  have sign: "criteria_sign (?ss @ ?num) = (sg, ?num)"
    using ct digit_not_sign [OF c]
  proof (cases sg)
    case (Some g)
    then show ?thesis by (cases g) (simp_all add: criteria_sign_def startsWith_def)
  qed (auto simp: criteria_sign_def startsWith_def)
  have pct: "endsWith ?num ''%'' = pc"
    using ne lastd digit_not_sign by (auto simp: endsWith_singleton last_append)
  have body: "(if pc then butlast ?num else ?num) = decimal_string n p"
    using ne by (simp add: butlast_append)
  have pf: "parseFloat (decimal_string n p) = v"
    using parseFloat_decimal(1) [of "[]" n p] v by simp
  have drop: "drop (length (op_str op)) ?s = ?ss @ ?num" by simp
  have "serializeCriteria \<lparr>cp_operator = op, cp_sign = sg, cp_value = v, cp_percent = pc\<rparr> = ?s"
    using n by (simp add: serializeCriteria_def)
  moreover have "parseCriteria ?s = Some \<lparr>cp_operator = op, cp_sign = sg, cp_value = v, cp_percent = pc\<rparr>"
    by (simp only: parseCriteria_def Let_def trim hd_s(1) if_False op_found [OF rest] option.case
        drop sign prod.case pct body pf v jsnum.distinct)
  ultimately show ?thesis by simp
qed

lemma obj_set_get: "k \<noteq> ''__proto__'' \<Longrightarrow> js_get (obj_set k v ob) k' = (if k' = k then Some v else js_get ob k')"
  by (simp add: obj_set_def js_get_set)

lemma mset_Object_entries: "mset (Object_entries ob) = mset ob"
proof -
  have "mset (filter P ob) + mset (filter (\<lambda>x. \<not> P x) ob) = mset ob" for P
    by (induction ob) auto
  from this [of "\<lambda>(k, _). array_index k"] show ?thesis
    by (simp add: Object_entries_def case_prod_unfold)
qed

lemma Object_entries_perm:
  assumes "js_map_ok ob"
  shows "distinct (map fst (Object_entries ob))" and "set (Object_entries ob) = set ob"
proof -
  have "mset (map fst (Object_entries ob)) = mset (map fst ob)"
    by (simp only: mset_map mset_Object_entries)
  then show "distinct (map fst (Object_entries ob))"
    using assms unfolding js_map_ok_def js_keys_def by (metis mset_eq_imp_distinct_iff)
  show "set (Object_entries ob) = set ob"
    using mset_Object_entries by (rule mset_eq_setD)
qed

lemma map_of_Object_entries:
  assumes "js_map_ok ob"
  shows "map_of (Object_entries ob) = map_of ob"
  using Object_entries_perm [OF assms] assms
  by (simp add: map_of_inject_set js_map_ok_def js_keys_def)

lemma obj_fold_get:
  assumes "distinct (map fst es)" and "\<And>k. k \<in> fst ` set es \<Longrightarrow> js_get acc k = None"
  shows "js_get (foldl (\<lambda>out (k, v). obj_set k (f v) out) acc es) k =
    (if k \<noteq> ''__proto__'' \<and> k \<in> fst ` set es then map_option f (map_of es k) else js_get acc k)"
  using assms
proof (induction es arbitrary: acc)
  case (Cons e es)
  obtain j v where e: "e = (j, v)" by (cases e)
  have "js_get (obj_set j (f v) acc) k' = None" if "k' \<in> fst ` set es" for k'
    using Cons.prems that e by (auto simp: obj_set_def js_get_set)
  then have "js_get (foldl (\<lambda>out (k, v). obj_set k (f v) out) (obj_set j (f v) acc) es) k =
    (if k \<noteq> ''__proto__'' \<and> k \<in> fst ` set es then map_option f (map_of es k) else js_get (obj_set j (f v) acc) k)"
    using Cons.prems e by (intro Cons.IH) auto
  then show ?case using e Cons.prems by (auto simp: obj_set_def js_get_set)
qed simp

lemma obj_map_get:
  assumes "js_map_ok ob"
  shows "js_get (obj_map f ob) k = (if k = ''__proto__'' then None else map_option f (js_get ob k))"
proof -
  have "map_of ob k = None" if "k \<notin> fst ` set ob" using that by (simp add: map_of_eq_None_iff)
  then show ?thesis
    using obj_fold_get [OF Object_entries_perm(1) [OF assms], of "[]" f k] map_of_Object_entries [OF assms]
      Object_entries_perm(2) [OF assms]
    by (auto simp: obj_map_def js_get_def)
qed

text \<open>The lookups of the object built from rows: the last row with the trimmed key.\<close>

lemma rowsToTags_get:
  assumes "k \<noteq> []" and "k \<noteq> ''__proto__''"
  shows "js_get (rowsToTags rows) k =
    map_of (rev (map (\<lambda>r. (trim_str (tr_key r), tr_value r)) rows)) k"
proof (induction rows rule: rev_induct)
  case Nil
  show ?case by (simp add: rowsToTags_def)
next
  case (snoc r rows)
  have "rowsToTags (rows @ [r]) = (if trim_str (tr_key r) \<noteq> []
      then obj_set (trim_str (tr_key r)) (tr_value r) (rowsToTags rows) else rowsToTags rows)"
    by (simp add: rowsToTags_def)
  then show ?case
    using snoc assms by (auto simp: obj_set_def js_get_set)
qed

lemma entity_char_not: "entity_char c \<Longrightarrow> c \<noteq> CHR ''|'' \<and> c \<noteq> CHR 0x00 \<and> c \<noteq> CHR '':'' \<and> c \<noteq> CHR '','' \<and> c \<noteq> CHR ''/''"
  by (auto simp: entity_char_def is_digit_def Let_def)

text \<open>The separators of the composite keys do not occur in a valid entity name.\<close>

lemma valid_name_no_sep:
  assumes "isValidEntityName a"
  shows "CHR ''|'' \<notin> set a" and "CHR 0x00 \<notin> set a" and "CHR '':'' \<notin> set a"
  using assms entity_char_not by (fastforce simp: isValidEntityName_def list_all_iff)+

text \<open>A decoder for the five entities, to state what escaping keeps.\<close>

definition entities :: "(string \<times> char) list" where
  "entities = [(''&amp;'', CHR ''&''), (''&lt;'', CHR ''<''), (''&gt;'', CHR ''>''),
     (''&quot;'', CHR 0x22), (''&#39;'', CHR 0x27)]"

fun unescape :: "nat \<Rightarrow> string \<Rightarrow> string" where
  "unescape 0 s = []"
| "unescape (Suc n) [] = []"
| "unescape (Suc n) (c # s) = (case find (\<lambda>(e, _). startsWith (c # s) e) entities of
     Some (e, x) \<Rightarrow> x # unescape n (drop (length e) (c # s))
   | None \<Rightarrow> c # unescape n s)"

lemma unescape_escape_char:
  "unescape (Suc n) (escape_char c @ s) = c # unescape n s"
proof -
  consider "c = CHR ''&''" | "c = CHR ''<''" | "c = CHR ''>''" | "c = CHR 0x22" | "c = CHR 0x27"
    | "c \<notin> {CHR ''&'', CHR ''<'', CHR ''>'', CHR 0x22, CHR 0x27}" by blast
  then show ?thesis
    by cases (simp_all add: escape_char_def entities_def startsWith_def)
qed

subsection \<open>Properties\<close>

text \<open>
  C15. Parsing a serialised criterion gives it back, for every operator, sign and percent flag, when
  its value is a plain decimal that is not negative: the structured criteria editor does not change a
  criterion it only displays.
\<close>

theorem criteria_roundtrip:
  assumes "cp_value parts = Fin x" and "plain_decimal x"
  shows "parseCriteria (serializeCriteria parts) = Some parts"
proof -
  obtain n p where ns: "num_string (Fin x) = decimal_string n p" and "of_nat n / 10 ^ p = x"
    using plain_decimal_string [OF assms(2)] by blast
  then have "Fin x = Fin (of_nat n / 10 ^ p)" by (simp only:)
  then have "parseCriteria (serializeCriteria
      \<lparr>cp_operator = op, cp_sign = sg, cp_value = Fin x, cp_percent = pc\<rparr>) =
      Some \<lparr>cp_operator = op, cp_sign = sg, cp_value = Fin x, cp_percent = pc\<rparr>" for op sg pc
    by (rule parse_serialized [OF ns])
  then show ?thesis using assms(1) by (cases parts) simp
qed

theorem criteria_roundtrip_witness:
  "parseCriteria (serializeCriteria
      \<lparr>cp_operator = OpLe, cp_sign = Some Plus, cp_value = Fin (5 / 2), cp_percent = True\<rparr>)
    = Some \<lparr>cp_operator = OpLe, cp_sign = Some Plus, cp_value = Fin (5 / 2), cp_percent = True\<rparr>"
proof (rule criteria_roundtrip [where x = "5 / 2"])
  have "\<lfloor>(5 / 2 :: rat) * 10 ^ 30\<rfloor> = 25 * 10 ^ 29" by simp
  then show "plain_decimal (5 / 2)" by (simp add: plain_decimal_def plain_number_def)
qed simp

text \<open>
  A limit of the round trip: blank space after the operator hides the minus sign from the parser, so
  the value is negative with no sign, and the serialised criterion parses differently.
\<close>

lemma criteria_space_minus:
  "parseCriteria ''< -5'' =
    Some \<lparr>cp_operator = OpLt, cp_sign = None, cp_value = Fin (- 5), cp_percent = False\<rparr>"
  "parseCriteria ''<-5'' =
    Some \<lparr>cp_operator = OpLt, cp_sign = Some Minus, cp_value = Fin 5, cp_percent = False\<rparr>"
  by code_simp+

text \<open>
  The relative change: without a baseline there is none; otherwise it is the difference to the
  baseline in percent of the baseline's absolute value (of 1 for a zero baseline), rounded to two
  decimals, so it is off by at most half a hundredth and zero exactly when the rounded difference is.
\<close>

lemma computeChangePct_correct:
  "computeChangePct v None = None \<and>
   computeChangePct v (Some 0) = Some (fixed_value 2 (v * 100)) \<and>
   (\<exists>r. computeChangePct v (Some b) = Some r \<and>
      \<bar>r - (v - b) / (if b = 0 then 1 else \<bar>b\<bar>) * 100\<bar> \<le> 1 / 200 \<and>
      (\<exists>k::int. r = of_int k / 100))"
proof -
  let ?x = "(v - b) / (if b = 0 then 1 else \<bar>b\<bar>) * 100"
  let ?r = "fixed_value 2 ?x"
  have "\<exists>k::int. ?r = of_int k / 100"
    by (intro exI [of _ "(if ?x < 0 then - 1 else 1) * int (fixed_units 2 ?x)"])
      (simp add: fixed_value_eq)
  then show ?thesis
    using fixed_value_error [of 2 ?x] by (auto simp: computeChangePct_def Let_def)
qed

text \<open>
  Escaping leaves no markup character and no quote in the text, and loses nothing: decoding the
  five entities gives the original text back, so different texts stay different.
\<close>

lemma escapeHtml_correct:
  "set (escapeHtml s) \<inter> {CHR ''<'', CHR ''>'', CHR 0x22, CHR 0x27} = {} \<and>
   unescape (length s) (escapeHtml s) = s"
proof
  show "set (escapeHtml s) \<inter> {CHR ''<'', CHR ''>'', CHR 0x22, CHR 0x27} = {}"
    by (induction s) (auto simp: escapeHtml_def escape_char_def split: if_splits)
  show "unescape (length s) (escapeHtml s) = s"
    by (induction s) (simp_all add: escapeHtml_def unescape_escape_char)
qed

text \<open>
  The tag editor keeps the tags: turning an object with trimmed, non-empty keys into rows and the
  rows back into an object gives the same value under every key.
\<close>

lemma tags_roundtrip:
  assumes "js_map_ok tags" and "\<forall>k \<in> set (js_keys tags). trim_str k = k \<and> k \<noteq> [] \<and> k \<noteq> ''__proto__''"
    and "k \<noteq> []" and "k \<noteq> ''__proto__''"
  shows "js_get (rowsToTags (tagsToRows tags)) k = js_get tags k"
proof -
  let ?es = "Object_entries tags"
  have es: "set ?es = set tags" using Object_entries_perm(2) [OF assms(1)] .
  have "map (\<lambda>r. (trim_str (tr_key r), tr_value r)) (tagsToRows tags) = ?es"
    using assms(2) es by (fastforce simp: tagsToRows_def js_keys_def intro!: map_idI)
  then have "js_get (rowsToTags (tagsToRows tags)) k = map_of (rev ?es) k"
    using rowsToTags_get [OF assms(3,4)] by simp
  also have "map_of (rev ?es) = map_of ?es"
    using Object_entries_perm(1) [OF assms(1)] by (intro map_of_inject_set [THEN iffD2]) (simp_all add: rev_map [symmetric])
  finally show ?thesis
    using map_of_Object_entries [OF assms(1)] by (simp add: js_get_def)
qed

theorem tags_roundtrip_witness:
  "js_get (rowsToTags (tagsToRows [(''team'', ''perf''), (''7'', ''x'')])) ''7'' = Some ''x''"
proof -
  have "js_get (rowsToTags (tagsToRows [(''team'', ''perf''), (''7'', ''x'')])) ''7''
      = js_get [(''team'', ''perf''), (''7'', ''x'')] ''7''"
    by (rule tags_roundtrip) (simp_all add: js_map_ok_def js_keys_def trim_str_def trimStart_def
        trimEnd_def is_space_def)
  then show ?thesis by (simp add: js_get_def)
qed

text \<open>A tag named \<open>__proto__\<close> is lost: the assignment creates no property.\<close>

lemma proto_tag_dropped: "rowsToTags [\<lparr>tr_key = ''__proto__'', tr_value = ''x''\<rparr>] = []"
  by (simp add: rowsToTags_def obj_set_def trim_str_def trimStart_def trimEnd_def is_space_def)

text \<open>A small number that is not zero can be shown as zero: six decimal places, not six digits.\<close>

lemma digit_zero: "char_of (48 :: nat) = CHR ''0''"
  by code_simp

lemma fmt_small_is_zero: "fmt (Some (1 / 10000000)) = ''0''"
proof -
  have "replicate 5 (CHR ''0'') = ''00000''" by code_simp
  then have "toFixed 6 (1 / 10000000) = ''0.000000''"
    by (simp add: digit_zero toFixed_def fixed_units_def decimal_string_def show_nat_eval digit_def
        pad_nat_def)
  then show ?thesis
    by (simp add: fmt_def neg_log10_floor_def strip_trailing_def strip_dot_def)
qed

end
