(* ===== verification/Domain.thy ===== *)
theory Domain
  imports Format Dates
begin

text \<open>
  The domain types of the features (\<open>features/*/domain.ts\<close>, the UI types of the navigator and the
  registry, \<open>lib/dateRange.ts\<close>): one record per interface, one datatype per closed union. A union the
  mappers only assert with an unchecked cast (\<open>dto.status as ...\<close>) stays a string. \<open>T | null\<close> and an
  optional field are \<open>'a option\<close>; a \<open>Date\<close> is a \<open>jsdate\<close>, an object used as a map an association
  list in insertion order, \<open>unknown\<close> a JSON value.
\<close>

subsection \<open>JSON values\<close>

datatype json = JNull | JBool bool | JNum rat | JStr string | JArr "json list"
  | JObj "(string \<times> json) list"

text \<open>\<open>JSON.stringify\<close> leaves out the fields whose value is \<open>undefined\<close>.\<close>

definition json_object :: "(string \<times> json option) list \<Rightarrow> json" where
  "json_object fs = JObj (List.map_filter (\<lambda>(k, v). map_option (Pair k) v) fs)"

definition json_nullable :: "('a \<Rightarrow> json) \<Rightarrow> 'a option \<Rightarrow> json" where
  "json_nullable f v = (case v of None \<Rightarrow> JNull | Some x \<Rightarrow> f x)"

definition json_field :: "json \<Rightarrow> string \<Rightarrow> json option" where
  "json_field j k = (case j of JObj fs \<Rightarrow> map_of fs k | _ \<Rightarrow> None)"

lemma json_field_object:
  assumes "distinct (map fst fs)" and "(k, v) \<in> set fs"
  shows "json_field (json_object fs) k = v"
proof -
  have "map_of (List.map_filter (\<lambda>(k, v). map_option (Pair k) v) fs) k = Option.bind (map_of fs k) id"
    if "distinct (map fst fs)" for fs :: "(string \<times> json option) list"
    using that
  proof (induction fs)
    case Nil
    then show ?case by (simp add: map_filter_simps)
  next
    case (Cons p fs)
    obtain k' v' where p: "p = (k', v')" by (cases p)
    have "map_of fs k = None" if "k = k'" using Cons.prems that p
      by (auto simp: map_of_eq_None_iff)
    then show ?case using Cons p by (cases v') (auto simp: map_filter_simps)
  qed
  then show ?thesis using assms by (simp add: json_field_def json_object_def)
qed

subsection \<open>Date ranges\<close>

record DateRange =
  dr_from :: string
  dr_to :: string

definition makeDateRange :: "string \<Rightarrow> string \<Rightarrow> DateRange" where
  "makeDateRange from to = \<lparr>dr_from = from, dr_to = to\<rparr>"

subsection \<open>Note categories\<close>

datatype CategoryColor = Sky | Green | Amber | Red | Purple | Pink | Slate | Gray

record NoteCategory =
  nc_id :: string
  nc_name :: string
  nc_label :: string
  nc_color :: CategoryColor
  nc_showOnGraph :: bool
  nc_isSystem :: bool
  nc_createdAt :: jsdate
  nc_updatedAt :: "jsdate option"

record NoteCategoryInput =
  nci_name :: string
  nci_label :: string
  nci_color :: CategoryColor
  nci_showOnGraph :: bool

record NoteCategoryPatch =
  ncp_name :: "string option"
  ncp_label :: "string option"
  ncp_color :: "CategoryColor option"
  ncp_showOnGraph :: "bool option"

fun color_str :: "CategoryColor \<Rightarrow> string" where
  "color_str Sky = ''sky''"
| "color_str Green = ''green''"
| "color_str Amber = ''amber''"
| "color_str Red = ''red''"
| "color_str Purple = ''purple''"
| "color_str Pink = ''pink''"
| "color_str Slate = ''slate''"
| "color_str Gray = ''gray''"

record Palette =
  pal_bg :: string
  pal_fg :: string

definition palette_var :: "string \<Rightarrow> string \<Rightarrow> string" where
  "palette_var c g = ''var(--color-category-'' @ c @ ''-'' @ g @ '')''"

definition paletteOf :: "CategoryColor \<Rightarrow> Palette" where
  "paletteOf c = \<lparr>pal_bg = palette_var (color_str c) ''bg'', pal_fg = palette_var (color_str c) ''fg''\<rparr>"

definition DEFAULT_CATEGORY_COLOR :: CategoryColor where
  "DEFAULT_CATEGORY_COLOR = Sky"

definition PALETTE_OPTIONS :: "CategoryColor list" where
  "PALETTE_OPTIONS = [Sky, Green, Amber, Red, Purple, Pink, Slate, Gray]"

instantiation CategoryColor :: enum
begin

definition enum_CategoryColor :: "CategoryColor list" where
  "enum_CategoryColor = PALETTE_OPTIONS"

definition enum_all_CategoryColor :: "(CategoryColor \<Rightarrow> bool) \<Rightarrow> bool" where
  "enum_all_CategoryColor P = list_all P PALETTE_OPTIONS"

definition enum_ex_CategoryColor :: "(CategoryColor \<Rightarrow> bool) \<Rightarrow> bool" where
  "enum_ex_CategoryColor P = list_ex P PALETTE_OPTIONS"

instance
proof
  have all: "c \<in> set PALETTE_OPTIONS" for c by (cases c) (simp_all add: PALETTE_OPTIONS_def)
  then show "(UNIV :: CategoryColor set) = set Enum.enum" by (auto simp: enum_CategoryColor_def)
  show "distinct (Enum.enum :: CategoryColor list)"
    by (simp add: enum_CategoryColor_def PALETTE_OPTIONS_def)
  show "Enum.enum_all P = Ball UNIV P" "Enum.enum_ex P = Bex UNIV P" for P :: "CategoryColor \<Rightarrow> bool"
    using all by (auto simp: enum_all_CategoryColor_def enum_ex_CategoryColor_def list_all_iff list_ex_iff)
qed

end

lemma color_str_inject [simp]: "color_str a = color_str b \<longleftrightarrow> a = b"
  by (cases a; cases b) simp_all

lemma paletteOf_inject [simp]: "paletteOf a = paletteOf b \<longleftrightarrow> a = b"
  by (simp add: paletteOf_def palette_var_def)

subsection \<open>Evaluations\<close>

datatype Outcome = Pass | Warning | Fail | Error | Invalidated

datatype OverridableOutcome = OvPass | OvWarning | OvFail

record AssetSnapshot =
  as_assetId :: "string option"
  as_name :: string
  as_displayName :: "string option"
  as_tags :: str_obj
  as_primaryVersion :: "string option"
  as_buildRef :: "string option"

record BaselinePin =
  bp_author :: string
  bp_reason :: string
  bp_pinnedAt :: jsdate
  bp_unpinnedAt :: "jsdate option"

record Annotation =
  an_id :: string
  an_sloEvaluationId :: "string option"
  an_evaluationRunId :: "string option"
  an_content :: string
  an_author :: "string option"
  an_categoryId :: string
  an_category :: NoteCategory
  an_tags :: "(string, json) jsmap"
  an_noteGroupId :: "string option"
  an_noteGroupName :: "string option"
  an_hiddenAt :: "jsdate option"
  an_hiddenBy :: "string option"
  an_hiddenReason :: "string option"
  an_createdAt :: jsdate
  an_updatedAt :: "jsdate option"

record FailingIndicator =
  fi_metric :: string
  fi_displayName :: string
  fi_value :: "rat option"
  fi_threshold :: string

record PassTarget =
  pt_criteria :: string
  pt_targetValue :: rat
  pt_violated :: bool

record ChangePointMarker =
  cpm_direction :: string
  cpm_changeRelativePct :: "rat option"
  cpm_transition :: "Transition option"
  cpm_changeAbsolute :: "rat option"

record Indicator =
  in_metric :: string
  in_displayName :: string
  in_tabGroup :: "string option"
  in_value :: "rat option"
  in_comparedValue :: "rat option"
  in_changeAbsolute :: "rat option"
  in_changeRelativePct :: "rat option"
  in_aggregation :: "string option"
  in_status :: string
  in_score :: rat
  in_weight :: rat
  in_keySli :: bool
  in_passTargets :: "PassTarget list"
  in_warningTargets :: "PassTarget list"
  in_changePoint :: "ChangePointMarker option"

record SliMetadata =
  sm_mode :: string
  sm_expectedSamples :: int
  sm_actualSamples :: int
  sm_missingPct :: rat
  sm_chunksFailed :: int

record Evaluation =
  ev_id :: string
  ev_evaluationId :: string
  ev_evaluationName :: string
  ev_status :: string
  ev_outcome :: Outcome
  ev_score :: "rat option"
  ev_period :: DateRange
  ev_sloName :: "string option"
  ev_sloVersion :: "int option"
  ev_sliName :: "string option"
  ev_sliVersion :: "int option"
  ev_dataSourceName :: "string option"
  ev_ingestionMode :: string
  ev_adapterUsed :: "string option"
  ev_invalidated :: bool
  ev_originalOutcome :: "Outcome option"
  ev_originalScore :: "rat option"
  ev_overrideReason :: "string option"
  ev_overrideAuthor :: "string option"
  ev_assetSnapshot :: AssetSnapshot
  ev_variables :: str_obj
  ev_baselinePin :: "BaselinePin option"
  ev_latestAnnotation :: "Annotation option"
  ev_annotationCount :: int
  ev_createdAt :: jsdate
  ev_topFailures :: "FailingIndicator list"

record EvaluationDetail = Evaluation +
  ed_invalidationNote :: "string option"
  ed_comparedEvaluationIds :: "string list"
  ed_annotations :: "Annotation list"
  ed_indicators :: "Indicator list"
  ed_totalScorePassThreshold :: "rat option"
  ed_totalScoreWarningThreshold :: "rat option"
  ed_sliMetadata :: "(string, SliMetadata) jsmap"

record EvaluationList =
  el_items :: "Evaluation list"
  el_total :: int
  el_truncated :: bool

record TrendTargetEntry =
  te_criteria :: string
  te_targetValue :: rat
  te_violated :: bool

record TrendTargets =
  tt_pass :: "TrendTargetEntry list"
  tt_warn :: "TrendTargetEntry list"

record TrendPoint =
  tp_timestamp :: jsdate
  tp_value :: rat
  tp_score :: rat
  tp_evalId :: string
  tp_outcome :: Outcome
  tp_baseline :: "rat option"
  tp_evaluationName :: "string option"
  tp_targets :: "TrendTargets option"
  tp_overridden :: bool
  tp_changePoint :: "ChangePointMarker option"

datatype ReEvaluateMode = FromBaseline | FromDate string | FromEvaluation string

datatype PinStrategy = SkipToPin | IgnorePin

record ReEvaluateInput =
  ri_assetName :: string
  ri_sloName :: "string option"
  ri_sloNames :: "string list option"
  ri_mode :: ReEvaluateMode
  ri_sloVersion :: "int option"
  ri_dryRun :: bool
  ri_pinStrategy :: "PinStrategy option"

record ReEvaluateResultItem =
  rr_id :: string
  rr_evaluationName :: string
  rr_sloName :: string
  rr_sloVersion :: int
  rr_period :: DateRange
  rr_oldOutcome :: Outcome
  rr_newOutcome :: Outcome
  rr_oldScore :: rat
  rr_newScore :: rat

record ReEvaluateResponse =
  re_affectedEvaluations :: int
  re_sloVersionUsed :: "int option"
  re_results :: "ReEvaluateResultItem list"

record PinConflictInfo =
  pc_pinDate :: string
  pc_pinEvaluationId :: string

record TriggerEvaluationInput =
  ti_assetName :: string
  ti_evalName :: string
  ti_period :: DateRange
  ti_variables :: str_obj

record OverrideStatusInput =
  os_outcome :: OverridableOutcome
  os_reason :: string
  os_author :: string

record BulkActionOutcome =
  ba_succeeded :: "string list"
  ba_notFound :: "string list"
  ba_updated :: int

record AnnotationCreateInput =
  ac_content :: string
  ac_categoryId :: string
  ac_author :: "string option"

record EvaluationNameEntry =
  ne_name :: string
  ne_count :: int
  ne_lastRun :: jsdate

record EvaluationFilters =
  ef_groupName :: "string option"
  ef_assetName :: "string option"
  ef_evaluationName :: "string list option"
  ef_date :: "string option"
  ef_from :: "string option"
  ef_to :: "string option"

subsection \<open>Assets\<close>

record Asset =
  at_id :: string
  at_name :: string
  at_displayName :: "string option"
  at_typeName :: string
  at_color :: "string option"
  at_tags :: str_obj
  at_variables :: str_obj
  at_heatmapConfig :: "json option"
  at_createdAt :: jsdate
  at_updatedAt :: jsdate

record AssetType =
  aty_id :: string
  aty_name :: string
  aty_isDefault :: bool
  aty_assetCount :: int

record AssetGroupMember =
  gm_assetId :: string
  gm_assetName :: string
  gm_assetDisplayName :: "string option"
  gm_assetTypeName :: string
  gm_weight :: rat

record AssetGroupSubgroup =
  gs_groupId :: string
  gs_groupName :: string
  gs_weight :: rat

record AssetGroup =
  ag_id :: string
  ag_name :: string
  ag_displayName :: "string option"
  ag_description :: "string option"
  ag_color :: "string option"
  ag_members :: "AssetGroupMember list"
  ag_subgroups :: "AssetGroupSubgroup list"
  ag_createdAt :: jsdate
  ag_updatedAt :: jsdate

record AssetGroupTree =
  agt_topLevel :: "AssetGroup list"
  agt_allGroups :: "AssetGroup list"

record TagKeyCount =
  tkc_key :: string
  tkc_count :: int

record TagValueCount =
  tvc_value :: string
  tvc_count :: int

subsection \<open>SLOs, SLIs, data sources\<close>

record MethodCriteriaOverride =
  mco_method :: "string option"
  mco_aggregation :: "string option"
  mco_passThreshold :: "string list option"
  mco_warningThreshold :: "string list option"
  mco_weight :: "rat option"
  mco_keySli :: "bool option"

record SloObjective =
  so_sli :: string
  so_displayName :: string
  so_passThreshold :: "string list"
  so_warningThreshold :: "string list"
  so_weight :: rat
  so_keySli :: bool
  so_sortOrder :: int

record SloComparisonConfig =
  sc_compareWith :: "string option"
  sc_includeResultWithScore :: "string option"
  sc_numberOfComparisonResults :: "int option"
  sc_aggregateFunction :: "string option"
  sc_scopeTags :: "string list option"

record Slo =
  slo_id :: string
  slo_name :: string
  slo_version :: int
  slo_comparableFromVersion :: int
  slo_displayName :: "string option"
  slo_author :: "string option"
  slo_notes :: "string option"
  slo_tags :: str_obj
  slo_variables :: str_obj
  slo_kind :: string
  slo_sliDefinitionId :: "string option"
  slo_sliName :: "string option"
  slo_sliVersion :: "int option"
  slo_createdAt :: jsdate
  slo_active :: bool
  slo_objectives :: "SloObjective list"
  slo_totalScorePassThreshold :: rat
  slo_totalScoreWarningThreshold :: rat
  slo_comparison :: SloComparisonConfig
  slo_methodCriteria :: "(string, MethodCriteriaOverride) jsmap option"

record SloValidationError =
  sve_field :: string
  sve_message :: string

record SloValidationObjective =
  svo_sli :: string
  svo_displayName :: string
  svo_passThreshold :: "string list"
  svo_warningThreshold :: "string list"
  svo_weight :: rat
  svo_keySli :: bool

record SloValidationResult =
  svr_valid :: bool
  svr_errors :: "SloValidationError list"
  svr_objectives :: "SloValidationObjective list option"

record SloAssignment =
  sa_id :: string
  sa_assetId :: "string option"
  sa_assetGroupId :: "string option"
  sa_sloDefinitionId :: string
  sa_sloName :: string
  sa_sloVersion :: int
  sa_dataSourceId :: string
  sa_dataSourceName :: string
  sa_comparisonRules :: "json list option"
  sa_createdAt :: jsdate

record SloGroupAssignment =
  ga_id :: string
  ga_assetId :: "string option"
  ga_assetGroupId :: "string option"
  ga_sloGroupId :: string
  ga_sloGroupName :: string
  ga_dataSourceId :: string
  ga_dataSourceName :: string
  ga_createdAt :: jsdate

record Sli =
  sli_id :: string
  sli_name :: string
  sli_displayName :: "string option"
  sli_adapterType :: string
  sli_version :: int
  sli_comparableFromVersion :: int
  sli_indicators :: str_obj
  sli_mode :: string
  sli_queryTemplate :: "string option"
  sli_interval :: "string option"
  sli_methods :: "string list option"
  sli_notes :: "string option"
  sli_author :: "string option"
  sli_tags :: str_obj
  sli_active :: bool
  sli_createdAt :: jsdate

record Datasource =
  ds_id :: string
  ds_name :: string
  ds_displayName :: "string option"
  ds_adapterType :: string
  ds_adapterUrl :: string
  ds_tags :: str_obj
  ds_hasToken :: bool
  ds_createdAt :: jsdate
  ds_updatedAt :: jsdate

record SloGroup =
  sg_id :: string
  sg_name :: string
  sg_displayName :: "string option"
  sg_templateSloName :: string
  sg_templateSloVersion :: int
  sg_genVariables :: "(string, string list) jsmap"
  sg_tags :: str_obj
  sg_author :: "string option"
  sg_version :: int
  sg_active :: bool
  sg_createdAt :: jsdate
  sg_updatedAt :: jsdate
  sg_generatedSloCount :: int

subsection \<open>Change points and the meta timeline\<close>

record ChangePoint =
  chp_id :: string
  chp_assetId :: string
  chp_sloName :: string
  chp_metricName :: string
  chp_periodStart :: jsdate
  chp_direction :: string
  chp_changeRelativePct :: "rat option"
  chp_transition :: "Transition option"
  chp_changeAbsolute :: rat
  chp_preSegmentMean :: rat
  chp_postSegmentMean :: rat
  chp_pvalue :: rat
  chp_status :: string
  chp_triageAuthor :: "string option"
  chp_triageNote :: "string option"
  chp_triageAt :: "jsdate option"
  chp_linkedTicket :: "string option"
  chp_foundByEvaluationId :: "string option"
  chp_createdAt :: jsdate

record ChangePointFilters =
  cf_status :: "string option"
  cf_direction :: "string option"
  cf_assetId :: "string option"
  cf_sloName :: "string option"
  cf_metric :: "string option"
  cf_limit :: "int option"
  cf_offset :: "int option"

record TriageInput =
  tri_status :: string
  tri_triageAuthor :: "string option"
  tri_triageNote :: "string option"

record BulkTriageInput =
  bti_ids :: "string list"
  bti_status :: string
  bti_triageAuthor :: "string option"
  bti_triageNote :: "string option"

record MetaTimelineGroup =
  mg_id :: string
  mg_content :: string
  mg_nestedGroups :: "string list option"
  mg_showNested :: "bool option"

record MetaTimelineItem =
  mi_id :: string
  mi_group :: string
  mi_content :: string
  mi_start :: jsdate
  mi_end :: jsdate
  mi_type :: string
  mi_className :: string
  mi_source :: string

record MetaTimelineResponse =
  mr_groups :: "MetaTimelineGroup list"
  mr_items :: "MetaTimelineItem list"

record MetaTimelineSummary =
  ms_itemCount :: int

end
