(* ===== verification/ChartAnnotations.thy ===== *)
theory ChartAnnotations
  imports Domain
begin

text \<open>
  The note pills of the trend charts (\<open>lib/chartAnnotations.ts\<close>): measuring and clipping the text,
  placing each pill over its data point, packing the pills into rows without overlap, and the height
  of the band they need. The canvas's \<open>measureText\<close>, the computed CSS variables and
  \<open>localeCompare\<close> are parameters. Pixels are exact rationals.
\<close>

subsection \<open>Constants\<close>

definition LABEL_ROW_HEIGHT_PX :: rat where "LABEL_ROW_HEIGHT_PX = 16"
definition ROW_SPACING_PX :: rat where "ROW_SPACING_PX = 4"
definition ROW_STRIDE_PX :: rat where "ROW_STRIDE_PX = LABEL_ROW_HEIGHT_PX + ROW_SPACING_PX"
definition LABEL_BAND_TOP_PX :: rat where "LABEL_BAND_TOP_PX = 6"
definition LABEL_BAND_BOTTOM_PAD_PX :: rat where "LABEL_BAND_BOTTOM_PAD_PX = 6"
definition LABEL_EDGE_INSET_PX :: rat where "LABEL_EDGE_INSET_PX = 2"

definition LABEL_ROW_Y :: "rat list" where
  "LABEL_ROW_Y = [LABEL_BAND_TOP_PX, LABEL_BAND_TOP_PX + ROW_STRIDE_PX,
     LABEL_BAND_TOP_PX + 2 * ROW_STRIDE_PX]"

definition MAX_ROWS :: nat where "MAX_ROWS = length LABEL_ROW_Y"

definition bandPxForRows :: "int \<Rightarrow> rat" where
  "bandPxForRows rowsUsed = (if rowsUsed \<le> 0 then 0
     else LABEL_ROW_Y ! nat (rowsUsed - 1) + LABEL_ROW_HEIGHT_PX / 2 + LABEL_BAND_BOTTOM_PAD_PX)"

definition FONT_SIZE :: int where "FONT_SIZE = 10"
definition LINE_HEIGHT :: int where "LINE_HEIGHT = 12"
definition GRID_LEFT_PX :: rat where "GRID_LEFT_PX = 56"
definition GRID_RIGHT_PX :: rat where "GRID_RIGHT_PX = 16"
definition MIN_LABEL_GAP_PX :: rat where "MIN_LABEL_GAP_PX = 2"
definition LABEL_PAD_X_PX :: rat where "LABEL_PAD_X_PX = 4"
definition LABEL_BORDER_PX :: rat where "LABEL_BORDER_PX = 1"
definition MAX_LABEL_WIDTH_PX :: rat where "MAX_LABEL_WIDTH_PX = 160"
definition FALLBACK_AVG_CHAR_WIDTH_PX :: rat where "FALLBACK_AVG_CHAR_WIDTH_PX = 5"
definition MAX_VAR_DEPTH :: nat where "MAX_VAR_DEPTH = 4"

lemmas label_consts = LABEL_ROW_HEIGHT_PX_def ROW_SPACING_PX_def ROW_STRIDE_PX_def
  LABEL_BAND_TOP_PX_def LABEL_BAND_BOTTOM_PAD_PX_def LABEL_EDGE_INSET_PX_def MIN_LABEL_GAP_PX_def
  LABEL_PAD_X_PX_def LABEL_BORDER_PX_def MAX_LABEL_WIDTH_PX_def GRID_LEFT_PX_def GRID_RIGHT_PX_def

subsection \<open>Text measurement\<close>

text \<open>
  The shared canvas context: \<open>None\<close> without a canvas, otherwise its \<open>measureText\<close>, which may throw
  (\<open>None\<close>). A width that is not positive is replaced by the average character width.
\<close>

type_synonym measure_context = "(string \<Rightarrow> rat option) option"
type_synonym measure_cache = "(string, rat) jsmap"

definition text_px :: "measure_context \<Rightarrow> string \<Rightarrow> rat" where
  "text_px ctx s =
    (let width = (case ctx of None \<Rightarrow> 0 | Some f \<Rightarrow> nullish (f s) 0)
     in if width \<le> 0 then of_nat (length s) * FALLBACK_AVG_CHAR_WIDTH_PX else width)"

text \<open>The module-level cache in front of it.\<close>

definition measureTextPx :: "measure_context \<Rightarrow> measure_cache \<Rightarrow> string \<Rightarrow> rat \<times> measure_cache" where
  "measureTextPx ctx cache s = (case js_get cache s of
     Some w \<Rightarrow> (w, cache)
   | None \<Rightarrow> let width = text_px ctx s in (width, js_set s width cache))"

definition cache_ok :: "measure_context \<Rightarrow> measure_cache \<Rightarrow> bool" where
  "cache_ok ctx cache \<longleftrightarrow> (\<forall>s w. js_get cache s = Some w \<longrightarrow> w = text_px ctx s)"

lemma measureTextPx_ok:
  "cache_ok ctx cache \<Longrightarrow> fst (measureTextPx ctx cache s) = text_px ctx s
    \<and> cache_ok ctx (snd (measureTextPx ctx cache s))"
  by (auto simp: measureTextPx_def cache_ok_def Let_def js_get_set split: option.split)

lemma cache_ok_Nil: "cache_ok ctx []"
  by (simp add: cache_ok_def)

text \<open>So the cache is invisible, and the rest of the model measures with \<open>text_px\<close>.\<close>

definition estimateLabelWidth :: "measure_context \<Rightarrow> string \<Rightarrow> rat" where
  "estimateLabelWidth ctx s = of_int \<lceil>text_px ctx s\<rceil> + 2 * LABEL_PAD_X_PX + 2 * LABEL_BORDER_PX"

subsection \<open>CSS variables\<close>

text \<open>\<open>/^var\((--[^),]+)(?:,\s*([^)]*))?\)$/\<close>: the variable's name and the fallback.\<close>

definition match_var :: "string \<Rightarrow> (string \<times> string option) option" where
  "match_var value = (if \<not> startsWith value ''var('' then None
     else let r = drop 4 value;
              name = takeWhile (\<lambda>c. c \<noteq> CHR '')'' \<and> c \<noteq> CHR '','') r;
              rest = drop (length name) r
       in if \<not> (startsWith name ''--'' \<and> 2 < length name) then None
          else case rest of [] \<Rightarrow> None
            | c # r' \<Rightarrow>
                if c = CHR '')'' then (if r' = [] then Some (name, None) else None)
                else let fb = takeWhile (\<lambda>c. c \<noteq> CHR '')'') (dropWhile is_space r') in
                  if drop (length fb) (dropWhile is_space r') = '')'' then Some (name, Some fb) else None)"

text \<open>\<open>d\<close> is the number of levels left below \<open>MAX_VAR_DEPTH\<close>.\<close>

fun resolve_css :: "(string \<Rightarrow> string) \<Rightarrow> nat \<Rightarrow> string \<Rightarrow> string" where
  "resolve_css css 0 value = value"
| "resolve_css css (Suc d) value = (case match_var value of
     None \<Rightarrow> value
   | Some (varName, fallback) \<Rightarrow>
       let computed = trim_str (css varName) in
       if computed \<noteq> [] then resolve_css css d computed
       else if truthy fallback then resolve_css css d (trim_str (the fallback)) else value)"

definition resolveCssVar :: "(string \<Rightarrow> string) \<Rightarrow> string \<Rightarrow> string" where
  "resolveCssVar css value = resolve_css css MAX_VAR_DEPTH value"

subsection \<open>Label text\<close>

definition dominantCategory :: "(string \<Rightarrow> string \<Rightarrow> int) \<Rightarrow> Annotation list \<Rightarrow> NoteCategory" where
  "dominantCategory localeCompare visible =
    an_category (hd (sort_cmp (\<lambda>x y. localeCompare (nc_name (an_category x)) (nc_name (an_category y))) visible))"

definition rawLabelText :: "Annotation list \<Rightarrow> string" where
  "rawLabelText visible = (let primary = an_content (hd visible) in
     if 1 < length visible then primary @ '' (+'' @ show_nat (length visible - 1) @ '')'' else primary)"

definition ellipsis :: string where
  "ellipsis = [CHR 0x85]"

definition clip_candidate :: "string \<Rightarrow> nat \<Rightarrow> string" where
  "clip_candidate s n = trimEnd (take n s) @ ellipsis"

function clip_search :: "measure_context \<Rightarrow> string \<Rightarrow> rat \<Rightarrow> nat \<Rightarrow> nat \<Rightarrow> nat" where
  "clip_search ctx s maxTextPx low high =
    (if low < high then
       let mid = (low + high + 1) div 2 in
       if text_px ctx (clip_candidate s mid) \<le> maxTextPx
       then clip_search ctx s maxTextPx mid high
       else clip_search ctx s maxTextPx low (mid - 1)
     else low)"
  by pat_completeness auto

termination
  by (relation "measure (\<lambda>(_, _, _, low, high). high - low)") (auto simp: Let_def)

declare clip_search.simps [simp del]

definition clipLabelText :: "measure_context \<Rightarrow> string \<Rightarrow> string" where
  "clipLabelText ctx s =
    (if estimateLabelWidth ctx s \<le> MAX_LABEL_WIDTH_PX then s
     else let chromePx = 2 * LABEL_PAD_X_PX + 2 * LABEL_BORDER_PX;
              maxTextPx = MAX_LABEL_WIDTH_PX - chromePx
          in clip_candidate s (clip_search ctx s maxTextPx 1 (length s)))"

subsection \<open>Positions\<close>

definition pixelXForIndex :: "nat \<Rightarrow> nat \<Rightarrow> rat \<Rightarrow> rat" where
  "pixelXForIndex i numPoints chartWidth =
    (if numPoints \<le> 1 then GRID_LEFT_PX
     else let plotWidth = max (chartWidth - GRID_LEFT_PX - GRID_RIGHT_PX) 1
          in GRID_LEFT_PX + (of_nat i * plotWidth) / (of_nat numPoints - 1))"

definition clampLabelX :: "rat \<Rightarrow> rat \<Rightarrow> rat \<Rightarrow> rat" where
  "clampLabelX pixelX labelWidth chartWidth =
    (let halfLabel = labelWidth / 2;
         minX = halfLabel + LABEL_EDGE_INSET_PX;
         maxX = max (chartWidth - halfLabel - LABEL_EDGE_INSET_PX) minX
     in min (max pixelX minX) maxX)"

subsection \<open>Packing into rows\<close>

record PackItem =
  pi_pixelX :: rat
  pi_labelWidth :: rat

definition left_edge :: "PackItem \<Rightarrow> rat" where
  "left_edge item = pi_pixelX item - pi_labelWidth item / 2"

definition right_edge :: "PackItem \<Rightarrow> rat" where
  "right_edge item = pi_pixelX item + pi_labelWidth item / 2"

text \<open>\<open>lastRightByRow\<close>: \<open>None\<close> is \<open>-Infinity\<close>, a row nothing was placed in.\<close>

definition row_free :: "rat \<Rightarrow> rat option \<Rightarrow> bool" where
  "row_free leftEdge lastRight =
    (case lastRight of None \<Rightarrow> True | Some r \<Rightarrow> MIN_LABEL_GAP_PX \<le> leftEdge - r)"

fun place_row :: "rat \<Rightarrow> rat option list \<Rightarrow> nat option" where
  "place_row leftEdge [] = None"
| "place_row leftEdge (r # rows) =
    (if row_free leftEdge r then Some 0 else map_option Suc (place_row leftEdge rows))"

fun pack_loop :: "rat option list \<Rightarrow> PackItem list \<Rightarrow> nat list option" where
  "pack_loop lastRightByRow [] = Some []"
| "pack_loop lastRightByRow (item # items) =
    (case place_row (left_edge item) lastRightByRow of
       None \<Rightarrow> None
     | Some row \<Rightarrow> map_option (Cons row) (pack_loop (lastRightByRow[row := Some (right_edge item)]) items))"

definition tryPack :: "PackItem list \<Rightarrow> nat \<Rightarrow> nat list option" where
  "tryPack items rowCount = pack_loop (replicate rowCount None) items"

definition packRows :: "PackItem list \<Rightarrow> nat list" where
  "packRows items = (case List.map_filter (tryPack items) [1..<MAX_ROWS + 1] of
     assignments # _ \<Rightarrow> assignments
   | [] \<Rightarrow> map (\<lambda>i. i mod MAX_ROWS) [0..<length items])"

subsection \<open>Building the annotation layer\<close>

record MarkLineDataItem =
  ml_xAxis :: nat
  ml_color :: string
  ml_type :: string
  ml_width :: rat
  ml_opacity :: rat

record MarkLineOption =
  mlo_silent :: bool
  mlo_symbol :: "string \<times> string"
  mlo_labelShow :: bool
  mlo_data :: "MarkLineDataItem list"

record MarkPointLabelStyle =
  mps_show :: bool
  mps_formatter :: string
  mps_color :: string
  mps_fontSize :: int
  mps_lineHeight :: int
  mps_backgroundColor :: string
  mps_borderColor :: string
  mps_borderWidth :: rat
  mps_borderRadius :: rat
  mps_padding :: "rat \<times> rat"
  mps_align :: string
  mps_verticalAlign :: string

record MarkPointDataItem =
  mp_x :: rat
  mp_y :: rat
  mp_relativeTo :: string
  mp_symbol :: string
  mp_symbolSize :: "rat \<times> rat"
  mp_itemColor :: string
  mp_label :: MarkPointLabelStyle
  mp_tooltipTrigger :: string
  mp_tooltip :: string
  mp_evalId :: string

record MarkPointOption =
  mpo_silent :: bool
  mpo_data :: "MarkPointDataItem list"

record NoteAnnotationsResult =
  na_markLine :: MarkLineOption
  na_markPoint :: MarkPointOption
  na_labelBandPx :: rat

record PreparedLabel =
  pl_index :: nat
  pl_visible :: "Annotation list"
  pl_pixelX :: rat
  pl_labelWidth :: rat
  pl_labelText :: string
  pl_tooltipBody :: string
  pl_bg :: string
  pl_fg :: string
  pl_evalId :: string

text \<open>What the layer reads of the browser.\<close>

record browser =
  br_measure :: measure_context
  br_css :: "string \<Rightarrow> string"
  br_localeCompare :: "string \<Rightarrow> string \<Rightarrow> int"

definition graph_notes :: "(string, Annotation list) jsmap \<Rightarrow> string \<Rightarrow> Annotation list" where
  "graph_notes annotationsByEvalId evalId =
    filter (\<lambda>a. nc_showOnGraph (an_category a)) (nullish (js_get annotationsByEvalId evalId) [])"

definition tooltip_row :: "Annotation \<Rightarrow> string" where
  "tooltip_row a = ''<div><b>'' @ nc_label (an_category a) @ ''</b>: '' @ escapeHtml (an_content a) @ ''</div>''"

definition prepare_label ::
    "browser \<Rightarrow> rat \<Rightarrow> nat \<Rightarrow> nat \<Rightarrow> TrendPoint \<Rightarrow> Annotation list \<Rightarrow> PreparedLabel" where
  "prepare_label br chartWidth numPoints i point visible =
    (let palette = paletteOf (nc_color (dominantCategory (br_localeCompare br) visible));
         labelText = clipLabelText (br_measure br) (rawLabelText visible);
         labelWidth = estimateLabelWidth (br_measure br) labelText;
         rawX = pixelXForIndex i numPoints chartWidth
     in \<lparr>pl_index = i, pl_visible = visible, pl_pixelX = clampLabelX rawX labelWidth chartWidth,
         pl_labelWidth = labelWidth, pl_labelText = labelText,
         pl_tooltipBody = concat (map tooltip_row visible),
         pl_bg = resolveCssVar (br_css br) (pal_bg palette),
         pl_fg = resolveCssVar (br_css br) (pal_fg palette), pl_evalId = tp_evalId point\<rparr>)"

definition prepareLabels ::
    "browser \<Rightarrow> TrendPoint list \<Rightarrow> (string, Annotation list) jsmap \<Rightarrow> rat \<Rightarrow> PreparedLabel list" where
  "prepareLabels br trendPoints annotationsByEvalId chartWidth =
    List.map_filter (\<lambda>(i, point).
       let visible = graph_notes annotationsByEvalId (tp_evalId point) in
       if visible = [] then None
       else Some (prepare_label br chartWidth (length trendPoints) i point visible))
     (List.enumerate 0 trendPoints)"

definition buildMarkPointItem :: "PreparedLabel \<Rightarrow> nat \<Rightarrow> MarkPointDataItem" where
  "buildMarkPointItem entry row =
    \<lparr>mp_x = pl_pixelX entry, mp_y = LABEL_ROW_Y ! row + LABEL_ROW_HEIGHT_PX / 2,
     mp_relativeTo = ''container'', mp_symbol = ''rect'',
     mp_symbolSize = (pl_labelWidth entry, LABEL_ROW_HEIGHT_PX), mp_itemColor = ''transparent'',
     mp_label = \<lparr>mps_show = True, mps_formatter = pl_labelText entry, mps_color = pl_fg entry,
       mps_fontSize = FONT_SIZE, mps_lineHeight = LINE_HEIGHT, mps_backgroundColor = pl_bg entry,
       mps_borderColor = pl_fg entry, mps_borderWidth = 1, mps_borderRadius = 4,
       mps_padding = (2, LABEL_PAD_X_PX), mps_align = ''center'', mps_verticalAlign = ''middle''\<rparr>,
     mp_tooltipTrigger = ''item'', mp_tooltip = pl_tooltipBody entry, mp_evalId = pl_evalId entry\<rparr>"

definition mark_line_item :: "PreparedLabel \<Rightarrow> MarkLineDataItem" where
  "mark_line_item entry = \<lparr>ml_xAxis = pl_index entry, ml_color = pl_fg entry, ml_type = ''dashed'',
     ml_width = 1, ml_opacity = 2 / 5\<rparr>"

definition annotations_result ::
    "MarkLineDataItem list \<Rightarrow> MarkPointDataItem list \<Rightarrow> rat \<Rightarrow> NoteAnnotationsResult" where
  "annotations_result lines points band =
    \<lparr>na_markLine = \<lparr>mlo_silent = True, mlo_symbol = (''none'', ''none''), mlo_labelShow = False,
       mlo_data = lines\<rparr>,
     na_markPoint = \<lparr>mpo_silent = False, mpo_data = points\<rparr>, na_labelBandPx = band\<rparr>"

definition max_row :: "nat list \<Rightarrow> int" where
  "max_row rowAssignments = foldl (\<lambda>m row. max m (int row)) (- 1) rowAssignments"

definition buildNoteAnnotations ::
    "browser \<Rightarrow> TrendPoint list \<Rightarrow> (string, Annotation list) jsmap \<Rightarrow> rat \<Rightarrow> NoteAnnotationsResult" where
  "buildNoteAnnotations br trendPoints annotationsByEvalId chartWidth =
    (if chartWidth \<le> GRID_LEFT_PX + GRID_RIGHT_PX then annotations_result [] [] 0
     else let prepared = prepareLabels br trendPoints annotationsByEvalId chartWidth in
       if prepared = [] then annotations_result [] [] 0
       else let rowAssignments = packRows (map (\<lambda>entry.
                  \<lparr>pi_pixelX = pl_pixelX entry, pi_labelWidth = pl_labelWidth entry\<rparr>) prepared)
         in annotations_result (map mark_line_item prepared)
              (map2 buildMarkPointItem prepared rowAssignments)
              (bandPxForRows (max_row rowAssignments + 1)))"

subsection \<open>Packing: no overlap, and first fit is optimal from left to right\<close>

text \<open>The abstract contract: items that share a row keep the gap, in order.\<close>

definition rows_disjoint :: "PackItem list \<Rightarrow> nat list \<Rightarrow> bool" where
  "rows_disjoint items rows \<longleftrightarrow> (\<forall>j < length items. \<forall>i < j. rows ! i = rows ! j \<longrightarrow>
     MIN_LABEL_GAP_PX \<le> left_edge (items ! j) - right_edge (items ! i))"

definition layout_ok :: "nat \<Rightarrow> PackItem list \<Rightarrow> nat list \<Rightarrow> bool" where
  "layout_ok k items rows \<longleftrightarrow>
    length rows = length items \<and> (\<forall>r \<in> set rows. r < k) \<and> rows_disjoint items rows"

lemma rows_disjoint_Cons:
  "rows_disjoint (it # items) (r # rows) \<longleftrightarrow> rows_disjoint items rows \<and>
    (\<forall>j < length items. rows ! j = r \<longrightarrow> MIN_LABEL_GAP_PX \<le> left_edge (items ! j) - right_edge it)"
  (is "?l \<longleftrightarrow> ?r")
proof
  assume l: ?l
  then have "rows_disjoint items rows"
    unfolding rows_disjoint_def by (metis Suc_less_eq length_Cons nth_Cons_Suc)
  moreover have "MIN_LABEL_GAP_PX \<le> left_edge (items ! j) - right_edge it"
    if "j < length items" "rows ! j = r" for j
    using l that unfolding rows_disjoint_def
    by (metis Suc_less_eq length_Cons nth_Cons_0 nth_Cons_Suc zero_less_Suc)
  ultimately show ?r by blast
next
  assume r: ?r
  show ?l unfolding rows_disjoint_def
  proof (intro allI impI)
    fix j i assume "j < length (it # items)" "i < j" and "(r # rows) ! i = (r # rows) ! j"
    then show "MIN_LABEL_GAP_PX \<le> left_edge ((it # items) ! j) - right_edge ((it # items) ! i)"
      using r by (cases j; cases i) (auto simp: rows_disjoint_def)
  qed
qed

lemma place_row_Some:
  "place_row l rows = Some r \<Longrightarrow> r < length rows \<and> row_free l (rows ! r)"
  by (induction rows arbitrary: r) (auto split: if_splits)

lemma place_row_None: "place_row l rows = None \<longleftrightarrow> (\<forall>r \<in> set rows. \<not> row_free l r)"
  by (induction rows) auto

lemma width_edges: "0 \<le> pi_labelWidth it \<Longrightarrow> left_edge it \<le> right_edge it"
  by (simp add: left_edge_def right_edge_def field_simps)

lemma pack_loop_ok:
  assumes "pack_loop rows items = Some as" and "\<forall>it \<in> set items. 0 \<le> pi_labelWidth it"
  shows "length as = length items \<and> (\<forall>r \<in> set as. r < length rows) \<and> rows_disjoint items as
    \<and> (\<forall>j < length items. row_free (left_edge (items ! j)) (rows ! (as ! j)))"
  using assms
proof (induction items arbitrary: rows as)
  case Nil
  then show ?case by (simp add: rows_disjoint_def)
next
  case (Cons it items)
  obtain r where r: "place_row (left_edge it) rows = Some r"
    using Cons.prems by (cases "place_row (left_edge it) rows") auto
  obtain as' where as': "pack_loop (rows[r := Some (right_edge it)]) items = Some as'" "as = r # as'"
    using Cons.prems r by auto
  have free: "r < length rows" "row_free (left_edge it) (rows ! r)" using place_row_Some [OF r] by auto
  have w: "left_edge it \<le> right_edge it" using Cons.prems width_edges by simp
  have IH: "length as' = length items" "\<forall>x \<in> set as'. x < length rows" "rows_disjoint items as'"
    "\<forall>j < length items. row_free (left_edge (items ! j)) (rows[r := Some (right_edge it)] ! (as' ! j))"
    using Cons.IH [OF as'(1)] Cons.prems by auto
  have same: "MIN_LABEL_GAP_PX \<le> left_edge (items ! j) - right_edge it"
    if "j < length items" "as' ! j = r" for j
    using IH(4) that free by (force simp: row_free_def)
  have "row_free (left_edge (items ! j)) (rows ! (as' ! j))" if j: "j < length items" for j
  proof (cases "as' ! j = r")
    case True
    then have "MIN_LABEL_GAP_PX \<le> left_edge (items ! j) - right_edge it" using same j by blast
    then show ?thesis using free(2) w True
      by (auto simp: row_free_def MIN_LABEL_GAP_PX_def split: option.splits)
  qed (use IH(4) j in force)
  then show ?case
    using IH same free by (auto simp: rows_disjoint_Cons as'(2) nth_Cons split: nat.split)
qed

lemma pack_loop_rows:
  "pack_loop rows items = Some as \<Longrightarrow> length as = length items \<and> (\<forall>r \<in> set as. r < length rows)"
  by (induction rows items arbitrary: as rule: pack_loop.induct)
    (force split: option.splits dest: place_row_Some)+

text \<open>When packing stops, the pill in hand clashes with the last pill of every row.\<close>

definition tracks :: "PackItem list \<Rightarrow> nat list \<Rightarrow> rat option list \<Rightarrow> bool" where
  "tracks prev as rows \<longleftrightarrow> length as = length prev \<and> (\<forall>r < length rows. \<forall>x. rows ! r = Some x \<longrightarrow>
     (\<exists>i < length prev. as ! i = r \<and> right_edge (prev ! i) = x))"

lemma tracks_step:
  assumes "tracks prev as rows" and "r < length rows"
  shows "tracks (prev @ [it]) (as @ [r]) (rows[r := Some (right_edge it)])"
  unfolding tracks_def
proof (intro conjI allI impI)
  show "length (as @ [r]) = length (prev @ [it])" using assms by (simp add: tracks_def)
  fix q x assume q: "q < length (rows[r := Some (right_edge it)])"
    "rows[r := Some (right_edge it)] ! q = Some x"
  show "\<exists>i < length (prev @ [it]). (as @ [r]) ! i = q \<and> right_edge ((prev @ [it]) ! i) = x"
  proof (cases "q = r")
    case True
    then show ?thesis using q assms
      by (intro exI [of _ "length prev"]) (auto simp: tracks_def nth_append)
  next
    case False
    then obtain i where "i < length prev" "as ! i = q" "right_edge (prev ! i) = x"
      using q assms by (auto simp: tracks_def)
    then show ?thesis using assms
      by (intro exI [of _ i]) (auto simp: tracks_def nth_append)
  qed
qed

lemma pack_loop_stuck:
  assumes "pack_loop rows items = None" and "tracks prev as rows"
  shows "\<exists>n as'. n < length (prev @ items) \<and> length as' = n \<and> (\<forall>r < length rows. \<exists>i < n. as' ! i = r \<and>
    left_edge ((prev @ items) ! n) - right_edge ((prev @ items) ! i) < MIN_LABEL_GAP_PX)"
  using assms
proof (induction items arbitrary: prev as rows)
  case (Cons it items)
  show ?case
  proof (cases "place_row (left_edge it) rows")
    case None
    have "\<exists>i < length prev. as ! i = r \<and>
        left_edge ((prev @ it # items) ! length prev) - right_edge ((prev @ it # items) ! i) < MIN_LABEL_GAP_PX"
      if r: "r < length rows" for r
    proof -
      have "\<not> row_free (left_edge it) (rows ! r)" using None r by (simp add: place_row_None)
      then obtain x where "rows ! r = Some x" "left_edge it - x < MIN_LABEL_GAP_PX"
        by (auto simp: row_free_def split: option.splits)
      then show ?thesis using Cons.prems(2) r by (fastforce simp: tracks_def nth_append)
    qed
    then show ?thesis using Cons.prems(2)
      by (intro exI [of _ "length prev"] exI [of _ as]) (simp add: tracks_def)
  next
    case (Some r)
    then have "pack_loop (rows[r := Some (right_edge it)]) items = None"
      using Cons.prems by simp
    moreover have "tracks (prev @ [it]) (as @ [r]) (rows[r := Some (right_edge it)])"
      using tracks_step Cons.prems(2) place_row_Some [OF Some] by blast
    ultimately show ?thesis
      using Cons.IH [of "rows[r := Some (right_edge it)]" "prev @ [it]" "as @ [r]"] by simp
  qed
qed simp

lemma layout_pigeonhole:
  assumes ok: "layout_ok k items as" and n: "n < length items" and len: "length as' = n"
    and sorted: "sorted (map left_edge items)"
    and clash: "\<forall>r < k. \<exists>i < n. as' ! i = r \<and> left_edge (items ! n) - right_edge (items ! i) < MIN_LABEL_GAP_PX"
  shows False
proof -
  obtain f where f: "\<And>r. r < k \<Longrightarrow> f r < n \<and> as' ! f r = r \<and>
      left_edge (items ! n) - right_edge (items ! f r) < MIN_LABEL_GAP_PX"
    using clash by metis
  let ?I = "insert n (f ` {..<k})"
  have inj: "inj_on f {..<k}" using f by (metis inj_onI lessThan_iff)
  have "n \<notin> f ` {..<k}" using f by blast
  then have "card ?I = Suc k" by (simp add: card_image inj)
  moreover have "(\<lambda>i. as ! i) ` ?I \<subseteq> {..<k}"
    using ok n f unfolding layout_ok_def by (auto; metis less_trans nth_mem)
  ultimately have "\<not> inj_on (\<lambda>i. as ! i) ?I"
    by (metis card_inj_on_le card_lessThan finite_lessThan not_less_eq_eq order_refl)
  then obtain a b where ab: "a \<in> ?I" "b \<in> ?I" "a < b" "as ! a = as ! b"
    unfolding inj_on_def by (metis linorder_neqE_nat)
  have "b \<le> n" using ab f by (auto intro: less_imp_le)
  then obtain r where r: "r < k" "a = f r" using ab by auto
  have "left_edge (items ! b) \<le> left_edge (items ! n)"
    using sorted_nth_mono [OF sorted \<open>b \<le> n\<close>] n \<open>b \<le> n\<close> by simp
  then have "left_edge (items ! b) - right_edge (items ! a) < MIN_LABEL_GAP_PX"
    using f [THEN conjunct2, THEN conjunct2, OF r(1)] unfolding r(2) by linarith
  moreover have "MIN_LABEL_GAP_PX \<le> left_edge (items ! b) - right_edge (items ! a)"
    using ok ab \<open>b \<le> n\<close> n by (auto simp: layout_ok_def rows_disjoint_def)
  ultimately show False by simp
qed

lemma tryPack_ok:
  assumes "tryPack items k = Some as" and "\<forall>it \<in> set items. 0 \<le> pi_labelWidth it"
  shows "layout_ok k items as"
  using pack_loop_ok [OF assms [unfolded tryPack_def]] by (auto simp: layout_ok_def)

lemma tryPack_complete:
  assumes "sorted (map left_edge items)" and "layout_ok k items as"
  shows "tryPack items k \<noteq> None"
proof
  assume "tryPack items k = None"
  moreover have "tracks [] [] (replicate k None)" by (simp add: tracks_def)
  ultimately obtain n as' where "n < length items" "length as' = n"
    "\<forall>r < k. \<exists>i < n. as' ! i = r \<and> left_edge (items ! n) - right_edge (items ! i) < MIN_LABEL_GAP_PX"
    using pack_loop_stuck [of "replicate k None" items "[]" "[]"] by (auto simp: tryPack_def)
  then show False using layout_pigeonhole assms by blast
qed

lemma MAX_ROWS_eq: "MAX_ROWS = 3"
  by (simp add: MAX_ROWS_def LABEL_ROW_Y_def)

lemma packRows_eq:
  "packRows items = (case tryPack items 1 of Some a \<Rightarrow> a | None \<Rightarrow>
     (case tryPack items 2 of Some a \<Rightarrow> a | None \<Rightarrow>
     (case tryPack items 3 of Some a \<Rightarrow> a | None \<Rightarrow> map (\<lambda>i. i mod 3) [0..<length items])))"
proof -
  have "[1..<MAX_ROWS + 1] = [1, 2, 3]" by (simp add: MAX_ROWS_eq upt_rec)
  then show ?thesis by (simp add: packRows_def MAX_ROWS_eq map_filter_simps split: option.splits)
qed

lemma packRows_first:
  assumes "\<forall>it \<in> set items. 0 \<le> pi_labelWidth it" and "tryPack items k \<noteq> None" and "k \<in> {1, 2, 3}"
  shows "layout_ok k items (packRows items)"
proof -
  have mono: "layout_ok a items as \<Longrightarrow> a \<le> b \<Longrightarrow> layout_ok b items as" for a b as
    by (auto simp: layout_ok_def)
  have ok: "tryPack items j = Some as \<Longrightarrow> layout_ok j items as" for j as
    using tryPack_ok assms(1) by blast
  show ?thesis
    using assms(2,3) mono [OF ok, of 1 _ k] mono [OF ok, of 2 _ k] mono [OF ok, of 3 _ k]
    by (auto simp: packRows_eq split: option.splits)
qed

subsection \<open>Clipping and clamping\<close>

lemma clip_search_end: "\<not> low < high \<Longrightarrow> clip_search ctx s m low high = low"
  by (subst clip_search.simps) simp

lemma clip_search_hi: "low < high \<Longrightarrow> mid = (low + high + 1) div 2 \<Longrightarrow>
    text_px ctx (clip_candidate s mid) \<le> m \<Longrightarrow> clip_search ctx s m low high = clip_search ctx s m mid high"
  by (subst clip_search.simps) (simp add: Let_def)

lemma clip_search_lo: "low < high \<Longrightarrow> mid = (low + high + 1) div 2 \<Longrightarrow>
    \<not> text_px ctx (clip_candidate s mid) \<le> m \<Longrightarrow> clip_search ctx s m low high = clip_search ctx s m low (mid - 1)"
  by (subst clip_search.simps) (simp add: Let_def)

lemma clip_search_cases:
  obtains (stop) "\<not> low < high" "clip_search ctx s m low high = low"
  | (hi) mid where "mid = (low + high + 1) div 2" "low < high" "low < mid" "mid \<le> high"
      "text_px ctx (clip_candidate s mid) \<le> m" "clip_search ctx s m low high = clip_search ctx s m mid high"
  | (lo) mid where "mid = (low + high + 1) div 2" "low < high" "low < mid" "mid \<le> high"
      "\<not> text_px ctx (clip_candidate s mid) \<le> m"
      "clip_search ctx s m low high = clip_search ctx s m low (mid - 1)"
proof (cases "low < high")
  case False
  then show thesis using stop clip_search_end by blast
next
  case True
  let ?mid = "(low + high + 1) div 2"
  have "low < ?mid" "?mid \<le> high" using True by linarith+
  then show thesis using True hi [of ?mid] lo [of ?mid] clip_search_hi [of low high ?mid ctx s m]
      clip_search_lo [of low high ?mid ctx s m] by blast
qed

lemma clip_search_bounds: "low \<le> high \<Longrightarrow>
    low \<le> clip_search ctx s m low high \<and> clip_search ctx s m low high \<le> high"
proof (induction ctx s m low high rule: clip_search.induct)
  case (1 ctx s m low high)
  show ?case
  proof (cases rule: clip_search_cases [of low high ctx s m])
    case (hi mid)
    then show ?thesis using 1(1) [OF hi(2,1,5)] by simp
  next
    case (lo mid)
    have "low \<le> mid - 1" using lo(3) by linarith
    then show ?thesis using 1(2) [OF lo(2,1,5)] lo(4) unfolding lo(6) by linarith
  qed (use 1 in simp)
qed

lemma clip_search_fits:
  "text_px ctx (clip_candidate s low) \<le> m \<Longrightarrow> text_px ctx (clip_candidate s (clip_search ctx s m low high)) \<le> m"
proof (induction ctx s m low high rule: clip_search.induct)
  case (1 ctx s m low high)
  show ?case
  proof (cases rule: clip_search_cases [of low high ctx s m])
    case (hi mid)
    then show ?thesis using 1(1) [OF hi(2,1,5)] by simp
  next
    case (lo mid)
    then show ?thesis using 1(2) [OF lo(2,1,5)] 1(3) by simp
  qed (use 1 in simp)
qed

lemma clip_search_longest:
  assumes "\<And>i j. i \<le> j \<Longrightarrow> text_px ctx (clip_candidate s i) \<le> text_px ctx (clip_candidate s j)"
    and "low \<le> high" and "clip_search ctx s m low high < n" and "n \<le> high"
  shows "m < text_px ctx (clip_candidate s n)"
  using assms
proof (induction ctx s m low high rule: clip_search.induct)
  case (1 ctx s m low high)
  show ?case
  proof (cases rule: clip_search_cases [of low high ctx s m])
    case (hi mid)
    then show ?thesis using 1(1) [OF hi(2,1,5) 1(3)] 1(5,6) by simp
  next
    case (lo mid)
    show ?thesis
    proof (cases "n \<le> mid - 1")
      case True
      moreover have "low \<le> mid - 1" using lo(3) by linarith
      ultimately show ?thesis using 1(2) [OF lo(2,1,5) 1(3)] 1(5) lo(6) by simp
    next
      case False
      then have "mid \<le> n" by linarith
      then show ?thesis using 1(3) [of mid n] lo(5) by linarith
    qed
  qed (use 1 in simp)
qed

lemma fits_estimate: "text_px ctx s \<le> 150 \<Longrightarrow> estimateLabelWidth ctx s \<le> MAX_LABEL_WIDTH_PX"
proof -
  assume "text_px ctx s \<le> 150"
  then have "\<lceil>text_px ctx s\<rceil> \<le> 150" by (simp add: ceiling_le_iff)
  then have "(of_int \<lceil>text_px ctx s\<rceil> :: rat) \<le> of_int 150" by (simp only: of_int_le_iff)
  then show ?thesis by (simp add: estimateLabelWidth_def label_consts)
qed

lemma text_px_pos: "0 \<le> text_px ctx s"
  by (simp add: text_px_def Let_def FALLBACK_AVG_CHAR_WIDTH_PX_def)

lemma estimate_pos: "0 \<le> estimateLabelWidth ctx s"
proof -
  have "(0 :: rat) \<le> of_int \<lceil>text_px ctx s\<rceil>"
    using order_trans [OF text_px_pos le_of_int_ceiling] by blast
  then show ?thesis by (simp add: estimateLabelWidth_def label_consts)
qed

subsection \<open>The layer\<close>

lemma prepareLabels_from:
  "map pl_evalId (List.map_filter (\<lambda>(i, point).
      let visible = graph_notes anns (tp_evalId point) in
      if visible = [] then None else Some (prepare_label br w n i point visible)) (List.enumerate k ps))
    = map tp_evalId (filter (\<lambda>p. graph_notes anns (tp_evalId p) \<noteq> []) ps)"
  by (induction ps arbitrary: k) (simp_all add: map_filter_simps Let_def prepare_label_def)

lemma prepareLabels_evalIds:
  "map pl_evalId (prepareLabels br ps anns w) =
    map tp_evalId (filter (\<lambda>p. graph_notes anns (tp_evalId p) \<noteq> []) ps)"
  unfolding prepareLabels_def by (rule prepareLabels_from)

lemma map_filter_Some: "y \<in> set (List.map_filter f xs) \<Longrightarrow> \<exists>x \<in> set xs. f x = Some y"
  by (auto simp: List.map_filter_def)

lemma prepareLabels_mem:
  assumes "e \<in> set (prepareLabels br ps anns w)"
  shows "\<exists>i p v. e = prepare_label br w (length ps) i p v"
  using map_filter_Some [OF assms [unfolded prepareLabels_def]]
  by (force simp: Let_def split: prod.splits if_splits)

lemma max_row_bounds: "r \<in> set rows \<Longrightarrow> int r \<le> max_row rows"
  and max_row_mem: "rows \<noteq> [] \<Longrightarrow> \<exists>r \<in> set rows. max_row rows = int r"
proof -
  have fold: "foldl (\<lambda>m row. max m (int row)) a rows = Max (insert a (int ` set rows))" for a
  proof (induction rows arbitrary: a)
    case (Cons r rows)
    have "insert (max a (int r)) (int ` set rows) = insert (max a (int r)) (int ` set rows)" ..
    show ?case
    proof (cases "rows = []")
      case False
      then have "Max (insert (max a (int r)) (int ` set rows)) = max (max a (int r)) (Max (int ` set rows))"
        by simp
      moreover have "Max (insert a (int ` set (r # rows))) = max a (max (int r) (Max (int ` set rows)))"
        using False by simp
      ultimately show ?thesis using Cons by (simp add: max.assoc)
    qed simp
  qed simp
  show "r \<in> set rows \<Longrightarrow> int r \<le> max_row rows" by (simp add: max_row_def fold)
  show "\<exists>r \<in> set rows. max_row rows = int r" if "rows \<noteq> []"
  proof -
    have "max_row rows = max (- 1) (Max (int ` set rows))" using that by (simp add: max_row_def fold)
    moreover have "Max (int ` set rows) \<in> int ` set rows" using that by (intro Max_in) auto
    ultimately show ?thesis by (auto simp: max_def)
  qed
qed

lemma row_y: "r < 3 \<Longrightarrow> LABEL_ROW_Y ! r = 6 + 20 * of_nat r"
proof -
  assume "r < 3"
  then have "r = 0 \<or> r = 1 \<or> r = 2" by linarith
  then show ?thesis by (elim disjE) (simp_all add: LABEL_ROW_Y_def label_consts)
qed

lemma band_covers:
  assumes "r \<in> set rows" and "\<forall>x \<in> set rows. x < 3"
  shows "LABEL_ROW_Y ! r + 16 \<le> 16 + bandPxForRows (max_row rows + 1)"
proof -
  have "rows \<noteq> []" using assms(1) by auto
  then obtain m where m: "m \<in> set rows" "max_row rows = int m" using max_row_mem by blast
  then have "r \<le> m" using max_row_bounds [OF assms(1)] by simp
  then have "(of_nat r :: rat) \<le> of_nat m" by simp
  then show ?thesis using assms m by (simp add: bandPxForRows_def row_y label_consts)
qed

lemma packRows_correct_aux:
  "length (packRows items) = length items \<and> (\<forall>r \<in> set (packRows items). r < 3)"
proof -
  have "length as = length items \<and> (\<forall>r \<in> set as. r < k)" if "tryPack items k = Some as" for k as
    using pack_loop_rows that by (fastforce simp: tryPack_def)
  then show ?thesis by (fastforce simp: packRows_eq split: option.splits)
qed

lemma clampLabelX_bounds:
  "lw + 4 \<le> w \<Longrightarrow> 2 \<le> clampLabelX x lw w - lw / 2 \<and> clampLabelX x lw w + lw / 2 \<le> w - 2"
  by (auto simp: clampLabelX_def Let_def LABEL_EDGE_INSET_PX_def min_def max_def field_simps)

subsection \<open>Properties\<close>

text \<open>
  The pills are assigned to at most three rows, one row each; two pills in one row never come
  closer than the gap, unless first fit fails for every number of rows (the fallback that alternates).
\<close>

lemma packRows_correct:
  assumes "\<forall>it \<in> set items. 0 \<le> pi_labelWidth it"
  shows "length (packRows items) = length items \<and> (\<forall>r \<in> set (packRows items). r < MAX_ROWS) \<and>
    (rows_disjoint items (packRows items) \<or> (\<forall>k \<in> {1, 2, 3}. tryPack items k = None))"
proof (cases "\<exists>k \<in> {1, 2, 3}. tryPack items k \<noteq> None")
  case True
  then obtain k where "k \<in> {1, 2, 3}" "layout_ok k items (packRows items)"
    using packRows_first assms by blast
  then show ?thesis by (auto simp: layout_ok_def MAX_ROWS_eq)
next
  case False
  then show ?thesis by (auto simp: packRows_eq MAX_ROWS_eq)
qed

definition three_pills :: "PackItem list" where
  "three_pills = [\<lparr>pi_pixelX = 50, pi_labelWidth = 40\<rparr>, \<lparr>pi_pixelX = 60, pi_labelWidth = 40\<rparr>,
     \<lparr>pi_pixelX = 100, pi_labelWidth = 40\<rparr>]"

theorem packRows_correct_witness:
  "packRows three_pills = [0, 1, 0] \<and> length (packRows three_pills) = length three_pills"
proof
  have w: "\<forall>it \<in> set three_pills. 0 \<le> pi_labelWidth it" by (simp add: three_pills_def)
  show "length (packRows three_pills) = length three_pills" using packRows_correct [OF w] by blast
  have "tryPack three_pills 1 = None" "tryPack three_pills 2 = Some [0, 1, 0]"
    by (simp_all add: three_pills_def tryPack_def row_free_def left_edge_def right_edge_def
        label_consts numeral_2_eq_2)
  then show "packRows three_pills = [0, 1, 0]" by (simp add: packRows_eq)
qed

text \<open>
  C13. First fit is optimal for pills whose left edges are in order: if any assignment to one, two or
  three rows keeps the gap, the one chosen keeps it too and uses no more rows.
\<close>

theorem packRows_optimal:
  assumes "sorted (map left_edge items)" and "\<forall>it \<in> set items. 0 \<le> pi_labelWidth it"
    and "layout_ok k items rows" and "k \<in> {1, 2, 3}"
  shows "layout_ok k items (packRows items)"
  using packRows_first assms tryPack_complete by blast

theorem packRows_optimal_witness: "layout_ok 2 three_pills (packRows three_pills)"
proof (rule packRows_optimal [where rows = "[1, 0, 1]"])
  show "layout_ok 2 three_pills [1, 0, 1]"
    by (simp add: three_pills_def layout_ok_def rows_disjoint_Cons)
      (auto simp: rows_disjoint_def less_Suc_eq left_edge_def right_edge_def label_consts)
qed (simp_all add: three_pills_def left_edge_def)

text \<open>
  Out of that order first fit is not optimal: the third pill takes the first row, and then the wide
  fourth one, whose left edge lies further left, fits in neither of two rows that could hold them all.
\<close>

definition four_pills :: "PackItem list" where
  "four_pills = [\<lparr>pi_pixelX = 5, pi_labelWidth = 10\<rparr>, \<lparr>pi_pixelX = 14, pi_labelWidth = 12\<rparr>,
     \<lparr>pi_pixelX = 23, pi_labelWidth = 2\<rparr>, \<lparr>pi_pixelX = 24, pi_labelWidth = 24\<rparr>]"

lemma first_fit_not_minimal:
  "layout_ok 2 four_pills [0, 1, 1, 0]" "tryPack four_pills 2 = None"
proof -
  show "layout_ok 2 four_pills [0, 1, 1, 0]"
    by (simp add: four_pills_def layout_ok_def rows_disjoint_Cons)
      (auto simp: rows_disjoint_def less_Suc_eq left_edge_def right_edge_def label_consts)
  show "tryPack four_pills 2 = None"
    by (simp add: four_pills_def tryPack_def row_free_def left_edge_def right_edge_def
        label_consts numeral_2_eq_2)
qed

text \<open>
  Clipping: when one character and the ellipsis fit, the clipped label is at most the maximal
  width, and it is the text itself or, for a measure that grows with the prefix, its longest prefix
  that fits.
\<close>

lemma clipLabelText_correct:
  assumes "text_px ctx (clip_candidate s 1) \<le> 150" and "s \<noteq> []"
  shows "estimateLabelWidth ctx (clipLabelText ctx s) \<le> MAX_LABEL_WIDTH_PX \<and>
    (clipLabelText ctx s = s \<or> (\<exists>n. 1 \<le> n \<and> n \<le> length s \<and> clipLabelText ctx s = clip_candidate s n \<and>
       ((\<forall>i j. i \<le> j \<longrightarrow> text_px ctx (clip_candidate s i) \<le> text_px ctx (clip_candidate s j)) \<longrightarrow>
          (\<forall>k. n < k \<longrightarrow> k \<le> length s \<longrightarrow> 150 < text_px ctx (clip_candidate s k)))))"
proof (cases "estimateLabelWidth ctx s \<le> MAX_LABEL_WIDTH_PX")
  case True
  then show ?thesis by (simp add: clipLabelText_def)
next
  case False
  define n where "n = clip_search ctx s 150 1 (length s)"
  have len: "1 \<le> length s" using assms(2) by (cases s) auto
  have eq: "clipLabelText ctx s = clip_candidate s n"
    using False by (simp add: clipLabelText_def n_def label_consts)
  have "text_px ctx (clip_candidate s n) \<le> 150" unfolding n_def by (rule clip_search_fits [OF assms(1)])
  then have "estimateLabelWidth ctx (clipLabelText ctx s) \<le> MAX_LABEL_WIDTH_PX"
    unfolding eq by (rule fits_estimate)
  moreover have "1 \<le> n \<and> n \<le> length s" unfolding n_def by (rule clip_search_bounds [OF len])
  moreover have "150 < text_px ctx (clip_candidate s k)"
    if "\<forall>i j. i \<le> j \<longrightarrow> text_px ctx (clip_candidate s i) \<le> text_px ctx (clip_candidate s j)"
      "n < k" "k \<le> length s" for k
    using clip_search_longest [of ctx s 1 "length s" 150 k] that len unfolding n_def by blast
  ultimately show ?thesis using eq by blast
qed

theorem clipLabelText_correct_witness:
  "estimateLabelWidth None (clipLabelText None (replicate 40 (CHR ''a''))) \<le> MAX_LABEL_WIDTH_PX"
proof -
  have "text_px None (clip_candidate (replicate 40 (CHR ''a'')) 1) \<le> 150"
    by (simp add: text_px_def clip_candidate_def ellipsis_def FALLBACK_AVG_CHAR_WIDTH_PX_def
        trimEnd_def is_space_def)
  then show ?thesis by (rule clipLabelText_correct [THEN conjunct1]) simp
qed

text \<open>
  A pill that fits into the chart container (with its insets) is moved wholly inside it, and a
  pill already inside stays where it is.
\<close>

lemma clampLabelX_correct:
  assumes "labelWidth + 4 \<le> chartWidth"
  shows "2 \<le> clampLabelX x labelWidth chartWidth - labelWidth / 2 \<and>
    clampLabelX x labelWidth chartWidth + labelWidth / 2 \<le> chartWidth - 2 \<and>
    (2 \<le> x - labelWidth / 2 \<longrightarrow> x + labelWidth / 2 \<le> chartWidth - 2 \<longrightarrow>
       clampLabelX x labelWidth chartWidth = x)"
  using assms by (auto simp: clampLabelX_def Let_def LABEL_EDGE_INSET_PX_def min_def max_def field_simps)

theorem clampLabelX_correct_witness: "clampLabelX 56 160 600 - 160 / 2 = 2"
  using clampLabelX_correct [of 160 600 56]
  by (simp add: clampLabelX_def Let_def LABEL_EDGE_INSET_PX_def)


definition demo_note :: Annotation where
  "demo_note = \<lparr>an_id = ''n1'', an_sloEvaluationId = None, an_evaluationRunId = Some ''e1'',
     an_content = ''deploy'', an_author = None, an_categoryId = ''c1'',
     an_category = \<lparr>nc_id = ''c1'', nc_name = ''deploy'', nc_label = ''Deploy'', nc_color = Sky,
       nc_showOnGraph = True, nc_isSystem = False, nc_createdAt = Some 0, nc_updatedAt = None\<rparr>,
     an_tags = [], an_noteGroupId = None, an_noteGroupName = None, an_hiddenAt = None,
     an_hiddenBy = None, an_hiddenReason = None, an_createdAt = Some 0, an_updatedAt = None\<rparr>"

definition demo_point :: "string \<Rightarrow> TrendPoint" where
  "demo_point i = \<lparr>tp_timestamp = Some 0, tp_value = 1, tp_score = 100, tp_evalId = i,
     tp_outcome = Pass, tp_baseline = None, tp_evaluationName = None, tp_targets = None,
     tp_overridden = False, tp_changePoint = None\<rparr>"

definition demo_browser :: browser where
  "demo_browser = \<lparr>br_measure = None, br_css = (\<lambda>_. []), br_localeCompare = (\<lambda>_ _. 0)\<rparr>"


end
