(* ===== verification/MetricTrend.thy ===== *)
theory MetricTrend
  imports ChartAnnotations
begin

text \<open>
  The metric trend chart (\<open>features/evaluations/hooks/useMetricTrendState.ts\<close>, colours from
  \<open>lib/theme.ts\<close>): the threshold lines discovered in the trend, their toggles, the framing of the y
  axis, and the chart option handed to ECharts. An option object is a record with the code's fields; a
  callback in it is a function. Numbers are exact rationals, so the rounding of floating-point
  arithmetic is not modelled, while \<open>toPrecision\<close> is. The diamond character of the tooltip, outside
  Latin-1, is written as code 4.
\<close>

subsection \<open>Themes\<close>

datatype Theme = Current | Dark | Light

record ResultColours =
  rc_pass :: string
  rc_warning :: string
  rc_fail :: string
  rc_error :: string
  rc_invalidated :: string

record ChartTheme =
  ct_bg :: string
  ct_border :: string
  ct_line :: string
  ct_axisLabel :: string
  ct_grid :: string
  ct_selectionRing :: string
  ct_baseline :: string

fun RESULT_COLOUR :: "Theme \<Rightarrow> ResultColours" where
  "RESULT_COLOUR Current = \<lparr>rc_pass = ''#7dc540'', rc_warning = ''#e6be00'', rc_fail = ''#dc172a'',
     rc_error = ''#888888'', rc_invalidated = ''#b0b0b0''\<rparr>"
| "RESULT_COLOUR Dark = \<lparr>rc_pass = ''#46a758'', rc_warning = ''#ffe629'', rc_fail = ''#e5484d'',
     rc_error = ''#696e77'', rc_invalidated = ''#777b84''\<rparr>"
| "RESULT_COLOUR Light = \<lparr>rc_pass = ''#46a758'', rc_warning = ''#ffe629'', rc_fail = ''#e5484d'',
     rc_error = ''#696e77'', rc_invalidated = ''#777b84''\<rparr>"

fun CHART_THEME :: "Theme \<Rightarrow> ChartTheme" where
  "CHART_THEME Current = \<lparr>ct_bg = ''#1a2030'', ct_border = ''#374151'', ct_line = ''#374151'',
     ct_axisLabel = ''#c0c8d0'', ct_grid = ''#2a3040'', ct_selectionRing = ''#ffffff'',
     ct_baseline = ''#58a6ff''\<rparr>"
| "CHART_THEME Dark = \<lparr>ct_bg = ''#18191b'', ct_border = ''#363a3f'', ct_line = ''#363a3f'',
     ct_axisLabel = ''#b0b4ba'', ct_grid = ''#212225'', ct_selectionRing = ''#ffffff'',
     ct_baseline = ''#70b8ff''\<rparr>"
| "CHART_THEME Light = \<lparr>ct_bg = ''#ffffff'', ct_border = ''#e0e0e0'', ct_line = ''#e0e0e0'',
     ct_axisLabel = ''#595959'', ct_grid = ''#f5f5f5'', ct_selectionRing = ''#ffffff'',
     ct_baseline = ''#3b82f6''\<rparr>"

definition DEFAULT_OS_COLOUR_MAP :: str_obj where
  "DEFAULT_OS_COLOUR_MAP = [(''linux'', ''#7dc540''), (''windows'', ''#6495ed''),
     (''macos'', ''#e6be00''), (''unknown'', ''#888888'')]"

fun outcome_colour :: "ResultColours \<Rightarrow> Outcome \<Rightarrow> string" where
  "outcome_colour colours Pass = rc_pass colours"
| "outcome_colour colours Warning = rc_warning colours"
| "outcome_colour colours Fail = rc_fail colours"
| "outcome_colour colours Error = rc_error colours"
| "outcome_colour colours Invalidated = rc_invalidated colours"

fun outcome_upper :: "Outcome \<Rightarrow> string" where
  "outcome_upper Pass = ''PASS''"
| "outcome_upper Warning = ''WARNING''"
| "outcome_upper Fail = ''FAIL''"
| "outcome_upper Error = ''ERROR''"
| "outcome_upper Invalidated = ''INVALIDATED''"

subsection \<open>Helpers\<close>

text \<open>\<open>/[%]/\<close> or \<open>/^[<>=]+=?\s*[+-]/\<close>.\<close>

definition cmp_char :: "char \<Rightarrow> bool" where
  "cmp_char c = (c \<in> {CHR ''<'', CHR ''>'', CHR ''=''})"

definition isRelative :: "string \<Rightarrow> bool" where
  "isRelative criteria = (CHR ''%'' \<in> set criteria \<or>
     (criteria \<noteq> [] \<and> cmp_char (hd criteria) \<and>
      (case dropWhile is_space (dropWhile cmp_char criteria) of
         c # _ \<Rightarrow> c = CHR ''+'' \<or> c = CHR ''-''
       | [] \<Rightarrow> False)))"

definition Y_AXIS_PAD :: rat where
  "Y_AXIS_PAD = 1 / 10"

text \<open>\<open>Math.floor(Math.log10(x))\<close> for a positive number, from the number of decimal digits.\<close>

definition ilog10 :: "rat \<Rightarrow> int" where
  "ilog10 x = (if 1 \<le> x then int (length (show_nat (nat \<lfloor>x\<rfloor>))) - 1
     else - int (length (show_nat (nat (\<lceil>1 / x\<rceil> - 1)))))"

definition niceStep :: "rat \<Rightarrow> rat" where
  "niceStep w = (if w \<le> 0 then 1
     else let rawStep = w / 5;
              magnitude = 10 powi (ilog10 rawStep);
              normalized = rawStep / magnitude;
              niceNormalized = (if 5 \<le> normalized then 5 else if 5 / 2 \<le> normalized then 5 / 2
                else if 2 \<le> normalized then 2 else 1)
          in niceNormalized * magnitude)"

text \<open>\<open>Number(value.toPrecision(12))\<close>: twelve significant digits, halves away from zero.\<close>

definition roundBound :: "rat \<Rightarrow> rat" where
  "roundBound v = (if v = 0 then 0
     else let u = 10 powi (ilog10 \<bar>v\<bar> - 11)
          in (if v < 0 then - 1 else 1) * of_int \<lfloor>\<bar>v\<bar> / u + 1 / 2\<rfloor> * u)"

datatype side = MinSide | MaxSide

definition effective_span :: "rat \<Rightarrow> rat \<Rightarrow> rat" where
  "effective_span dataMin dataMax = (let span = dataMax - dataMin in
     if span \<le> 0 then (let s = \<bar>dataMax\<bar> * Y_AXIS_PAD in if s = 0 then 1 else s) else span)"

definition paddedAxisBound :: "rat \<Rightarrow> rat \<Rightarrow> side \<Rightarrow> rat" where
  "paddedAxisBound dataMin dataMax sd =
    (let span = effective_span dataMin dataMax;
         step = niceStep (span * (1 + 2 * Y_AXIS_PAD))
     in if sd = MinSide then roundBound (of_int \<lfloor>(dataMin - span * Y_AXIS_PAD) / step\<rfloor> * step)
        else roundBound (of_int \<lceil>(dataMax + span * Y_AXIS_PAD) / step\<rceil> * step))"

definition resolveManualBound :: "string \<Rightarrow> rat option" where
  "resolveManualBound raw = (if raw = [] then None
     else case parseFloat raw of Fin x \<Rightarrow> Some x | _ \<Rightarrow> None)"

subsection \<open>Discovering the threshold lines\<close>

datatype TargetLevel = PassLevel | WarnLevel | BaselineLevel

fun level_str :: "TargetLevel \<Rightarrow> string" where
  "level_str PassLevel = ''pass''"
| "level_str WarnLevel = ''warn''"
| "level_str BaselineLevel = ''baseline''"

record TargetInfo =
  tin_level :: TargetLevel
  tin_criteria :: string
  tin_hasNonZero :: bool

record DiscoveredTarget =
  dt_key :: string
  dt_level :: TargetLevel
  dt_criteria :: string
  dt_alwaysZero :: bool

definition target_key :: "TargetLevel \<Rightarrow> string \<Rightarrow> string" where
  "target_key level criteria = level_str level @ '':'' @ criteria"

definition add_target ::
    "TargetLevel \<Rightarrow> TrendTargetEntry \<Rightarrow> (string, TargetInfo) jsmap \<Rightarrow> (string, TargetInfo) jsmap" where
  "add_target level e m =
    (let key = target_key level (te_criteria e) in
     case js_get m key of
       Some existing \<Rightarrow> if te_targetValue e \<noteq> 0
         then js_set key (existing\<lparr>tin_hasNonZero := True\<rparr>) m else m
     | None \<Rightarrow> js_set key \<lparr>tin_level = level, tin_criteria = te_criteria e,
         tin_hasNonZero = (te_targetValue e \<noteq> 0)\<rparr> m)"

definition add_point :: "TrendPoint \<Rightarrow> (string, TargetInfo) jsmap \<Rightarrow> (string, TargetInfo) jsmap" where
  "add_point p m = (case tp_targets p of None \<Rightarrow> m
     | Some t \<Rightarrow> fold (add_target WarnLevel) (tt_warn t) (fold (add_target PassLevel) (tt_pass t) m))"

definition target_order ::
    "(string \<Rightarrow> string \<Rightarrow> int) \<Rightarrow> DiscoveredTarget \<Rightarrow> DiscoveredTarget \<Rightarrow> int" where
  "target_order localeCompare a b =
    (if dt_level a \<noteq> dt_level b then (if dt_level a = PassLevel then - 1 else 1)
     else let aRel = isRelative (dt_criteria a); bRel = isRelative (dt_criteria b) in
       if aRel \<noteq> bRel then (if aRel then 1 else - 1)
       else localeCompare (dt_criteria a) (dt_criteria b))"

definition discoverTargets ::
    "(string \<Rightarrow> string \<Rightarrow> int) \<Rightarrow> TrendPoint list \<Rightarrow> DiscoveredTarget list" where
  "discoverTargets localeCompare trend =
    sort_cmp (target_order localeCompare)
      (map (\<lambda>(key, info). \<lparr>dt_key = key, dt_level = tin_level info, dt_criteria = tin_criteria info,
            dt_alwaysZero = (\<not> tin_hasNonZero info)\<rparr>) (fold add_point trend []))"

definition level_entries :: "TrendTargets \<Rightarrow> TargetLevel \<Rightarrow> TrendTargetEntry list" where
  "level_entries t level =
    (case level of PassLevel \<Rightarrow> tt_pass t | WarnLevel \<Rightarrow> tt_warn t | BaselineLevel \<Rightarrow> [])"

definition getTargetValue :: "TrendPoint \<Rightarrow> TargetLevel \<Rightarrow> string \<Rightarrow> rat option" where
  "getTargetValue point level criteria = (case tp_targets point of None \<Rightarrow> None
     | Some t \<Rightarrow> map_option te_targetValue (find (\<lambda>e. te_criteria e = criteria) (level_entries t level)))"

subsection \<open>The hook's state and its toggles\<close>

record ChartTarget =
  cht_key :: string
  cht_level :: TargetLevel
  cht_criteria :: string
  cht_visible :: bool

record TrendHook =
  th_yMin :: string
  th_yMax :: string
  th_visibility :: "(string, bool) jsmap"

definition initial_hook :: TrendHook where
  "initial_hook = \<lparr>th_yMin = [], th_yMax = [], th_visibility = []\<rparr>"

definition setYMin :: "string \<Rightarrow> TrendHook \<Rightarrow> TrendHook" where
  "setYMin v st = st\<lparr>th_yMin := v\<rparr>"

definition setYMax :: "string \<Rightarrow> TrendHook \<Rightarrow> TrendHook" where
  "setYMax v st = st\<lparr>th_yMax := v\<rparr>"

definition toggle_criteria :: "string \<Rightarrow> TrendHook \<Rightarrow> TrendHook" where
  "toggle_criteria key st = st\<lparr>th_visibility :=
     js_set key (\<not> nullish (js_get (th_visibility st) key) True) (th_visibility st)\<rparr>"

definition toggle_baseline :: "TrendHook \<Rightarrow> TrendHook" where
  "toggle_baseline st = st\<lparr>th_visibility :=
     js_set ''baseline'' (\<not> nullish (js_get (th_visibility st) ''baseline'') False) (th_visibility st)\<rparr>"

text \<open>The toggle of a target shown in the list.\<close>

definition toggle_target :: "ChartTarget \<Rightarrow> TrendHook \<Rightarrow> TrendHook" where
  "toggle_target t st = (if cht_level t = BaselineLevel then toggle_baseline st else toggle_criteria (cht_key t) st)"

definition hook_targets ::
    "(string \<Rightarrow> string \<Rightarrow> int) \<Rightarrow> TrendPoint list \<Rightarrow> (string, bool) jsmap \<Rightarrow> ChartTarget list" where
  "hook_targets localeCompare trendData visibility =
    map (\<lambda>d. \<lparr>cht_key = dt_key d, cht_level = dt_level d, cht_criteria = dt_criteria d,
           cht_visible = nullish (js_get visibility (dt_key d)) True\<rparr>)
      (filter (\<lambda>d. \<not> dt_alwaysZero d) (discoverTargets localeCompare trendData))
    @ (if list_ex (\<lambda>p. tp_baseline p \<noteq> None) trendData
       then [\<lparr>cht_key = ''baseline'', cht_level = BaselineLevel, cht_criteria = ''baseline'',
              cht_visible = nullish (js_get visibility ''baseline'') False\<rparr>]
       else [])"

subsection \<open>The chart option\<close>

record ChartOptionInput =
  ci_trend :: "TrendPoint list"
  ci_evalId :: string
  ci_selectedEvalIds :: "string list option"
  ci_selectedPeriodStart :: "string option"
  ci_colours :: ResultColours
  ci_ct :: ChartTheme
  ci_fontSize :: rat
  ci_yMin :: string
  ci_yMax :: string
  ci_targets :: "ChartTarget list"
  ci_onEvalSelect :: bool
  ci_annotations :: "(string, Annotation list) jsmap option"
  ci_categories :: "NoteCategory list option"
  ci_chartWidth :: "rat option"
  ci_notesVisible :: bool
  ci_barChart :: bool

text \<open>A line series: a threshold (solid or dashed) or the baseline (dotted).\<close>

record TargetSeries =
  ts_type :: string
  ts_data :: "rat option list"
  ts_symbol :: string
  ts_silent :: bool
  ts_color :: string
  ts_lineType :: string
  ts_width :: rat
  ts_opacity :: "rat option"
  ts_tooltipShow :: bool

definition target_series :: "TrendPoint list \<Rightarrow> ResultColours \<Rightarrow> ChartTheme \<Rightarrow> ChartTarget \<Rightarrow> TargetSeries" where
  "target_series trend colours ct target =
    (if cht_level target = BaselineLevel then
       \<lparr>ts_type = ''line'', ts_data = map tp_baseline trend, ts_symbol = ''none'', ts_silent = True,
        ts_color = ct_baseline ct, ts_lineType = ''dotted'', ts_width = 1, ts_opacity = Some (6 / 10),
        ts_tooltipShow = False\<rparr>
     else
       \<lparr>ts_type = ''line'', ts_data = map (\<lambda>p. getTargetValue p (cht_level target) (cht_criteria target)) trend,
        ts_symbol = ''none'', ts_silent = True,
        ts_color = (if cht_level target = PassLevel then rc_pass colours else rc_warning colours),
        ts_lineType = (if isRelative (cht_criteria target) then ''dashed'' else ''solid''),
        ts_width = 3 / 2, ts_opacity = None, ts_tooltipShow = False\<rparr>)"

definition buildTargetSeries ::
    "TrendPoint list \<Rightarrow> ChartTarget list \<Rightarrow> ResultColours \<Rightarrow> ChartTheme \<Rightarrow> TargetSeries list" where
  "buildTargetSeries trend targets colours ct =
    map (target_series trend colours ct) (filter cht_visible targets)"

record AnnotationLayer =
  al_markLine :: "MarkLineOption option"
  al_markPoint :: "MarkPointOption option"
  al_labelBandPx :: rat

definition buildAnnotationLayer ::
    "browser \<Rightarrow> TrendPoint list \<Rightarrow> (string, Annotation list) jsmap option \<Rightarrow> NoteCategory list option
      \<Rightarrow> rat option \<Rightarrow> bool \<Rightarrow> AnnotationLayer" where
  "buildAnnotationLayer br trend annotations categories chartWidth notesVisible =
    (if \<not> notesVisible \<or> annotations = None \<or> the annotations = [] \<or> categories = None
     then \<lparr>al_markLine = None, al_markPoint = None, al_labelBandPx = 0\<rparr>
     else let built = buildNoteAnnotations br trend (the annotations) (nullish chartWidth 0)
          in \<lparr>al_markLine = Some (na_markLine built), al_markPoint = Some (na_markPoint built),
              al_labelBandPx = na_labelBandPx built\<rparr>)"

text \<open>Which points are highlighted: by evaluation id, or else by the start of the selected period.\<close>

definition id_match :: "ChartOptionInput \<Rightarrow> TrendPoint \<Rightarrow> bool" where
  "id_match input p = (tp_evalId p \<in> set (nullish (ci_selectedEvalIds input) []) \<or> tp_evalId p = ci_evalId input)"

definition isSelected :: "ChartOptionInput \<Rightarrow> TrendPoint \<Rightarrow> bool" where
  "isSelected input p = (id_match input p \<or>
     (\<not> list_ex (id_match input) (ci_trend input) \<and> truthy (ci_selectedPeriodStart input)
       \<and> toISOString (tp_timestamp p) = ci_selectedPeriodStart input))"

text \<open>\<open>s.replace('T', ' ')\<close>: the first one.\<close>

fun replace_T :: "string \<Rightarrow> string" where
  "replace_T [] = []"
| "replace_T (c # s) = (if c = CHR ''T'' then CHR '' '' # s else c # replace_T s)"

definition axis_time :: "TrendPoint \<Rightarrow> string option" where
  "axis_time p = map_option (\<lambda>s. replace_T (slice s 0 16)) (toISOString (tp_timestamp p))"

text \<open>\<open>None\<close> when a timestamp is invalid: \<open>toISOString\<close> throws.\<close>

fun all_times :: "TrendPoint list \<Rightarrow> string list option" where
  "all_times [] = Some []"
| "all_times (p # ps) = (case axis_time p of None \<Rightarrow> None
     | Some t \<Rightarrow> map_option (Cons t) (all_times ps))"

record ChartDatum =
  cd_value :: rat
  cd_color :: string
  cd_borderColor :: string
  cd_borderWidth :: int

definition chart_datum :: "ChartOptionInput \<Rightarrow> TrendPoint \<Rightarrow> ChartDatum" where
  "chart_datum input p =
    \<lparr>cd_value = tp_value p, cd_color = outcome_colour (ci_colours input) (tp_outcome p),
     cd_borderColor = (if isSelected input p then ''#ffffff''
       else if tp_overridden p then ct_axisLabel (ci_ct input) else ''transparent''),
     cd_borderWidth = (if tp_overridden p \<or> isSelected input p then 2 else 0)\<rparr>"

definition change_colour :: "ChangePointMarker \<Rightarrow> string" where
  "change_colour cp = (if cpm_direction cp = ''regression'' then ''var(--change-point-regression)''
     else ''var(--change-point-improvement)'')"

record ChangePointDatum =
  cpd_value :: "nat \<times> rat"
  cpd_color :: string
  cpd_borderColor :: string
  cpd_borderWidth :: int

record ChangePointSeries =
  cps_type :: string
  cps_data :: "ChangePointDatum list"
  cps_symbol :: string
  cps_symbolSize :: int
  cps_silent :: bool
  cps_tooltipShow :: bool
  cps_z :: int

definition change_point_data :: "ChartTheme \<Rightarrow> TrendPoint list \<Rightarrow> ChangePointDatum list" where
  "change_point_data ct trend = List.map_filter (\<lambda>(i, p). map_option (\<lambda>cp.
       \<lparr>cpd_value = (i, tp_value p), cpd_color = change_colour cp, cpd_borderColor = ct_bg ct,
        cpd_borderWidth = 1\<rparr>) (tp_changePoint p)) (List.enumerate 0 trend)"

definition changePointSeries :: "ChartTheme \<Rightarrow> TrendPoint list \<Rightarrow> ChangePointSeries list" where
  "changePointSeries ct trend = (let d = change_point_data ct trend in
     if d = [] then [] else
       [\<lparr>cps_type = ''scatter'', cps_data = d, cps_symbol = ''diamond'', cps_symbolSize = 14,
         cps_silent = True, cps_tooltipShow = False, cps_z = 10\<rparr>])"

text \<open>Manual bounds that are inverted or equal are both dropped.\<close>

definition manual_bounds :: "string \<Rightarrow> string \<Rightarrow> rat option \<times> rat option" where
  "manual_bounds yMin yMax =
    (case (resolveManualBound yMin, resolveManualBound yMax) of
       (Some a, Some b) \<Rightarrow> if b \<le> a then (None, None) else (Some a, Some b)
     | m \<Rightarrow> m)"

text \<open>An axis bound of the option: a number, or a function of the data's extent.\<close>

datatype AxisBound = Manual rat | AutoFrame side

definition axis_bound :: "side \<Rightarrow> rat option \<Rightarrow> AxisBound" where
  "axis_bound sd m = (case m of Some x \<Rightarrow> Manual x | None \<Rightarrow> AutoFrame sd)"

fun bound_value :: "AxisBound \<Rightarrow> rat \<Rightarrow> rat \<Rightarrow> rat" where
  "bound_value (Manual x) dataMin dataMax = x"
| "bound_value (AutoFrame sd) dataMin dataMax = paddedAxisBound dataMin dataMax sd"

text \<open>The axis tooltip of the point with the given index; an index outside the trend shows nothing.\<close>

definition diamond :: string where
  "diamond = [CHR 0x04]"

definition note_line :: "Annotation \<Rightarrow> string" where
  "note_line note = ''<div><b style='' @ [CHR 0x22] @ ''color:'' @ pal_fg (paletteOf (nc_color (an_category note)))
     @ [CHR 0x22] @ ''>'' @ escapeHtml (nc_label (an_category note)) @ ''</b>: ''
     @ escapeHtml (an_content note) @ ''</div>''"

definition styled :: "string \<Rightarrow> string \<Rightarrow> string \<Rightarrow> string" where
  "styled tag style body =
    ''<'' @ tag @ '' style='' @ [CHR 0x22] @ style @ [CHR 0x22] @ ''>'' @ body @ ''</'' @ tag @ ''>''"

definition tooltip_lines :: "ChartOptionInput \<Rightarrow> string \<Rightarrow> TrendPoint \<Rightarrow> string list" where
  "tooltip_lines input time point =
    (let pointNotes = (case ci_annotations input of None \<Rightarrow> [] | Some m \<Rightarrow> graph_notes m (tp_evalId point)) in
     [styled ''b'' ''color:#58a6ff'' (nullish (tp_evaluationName point) ''(no evaluation_name)''),
      ''<b>'' @ time @ ''</b>'',
      ''value: <b>'' @ num_string (Fin (tp_value point)) @ ''</b>'',
      ''result: '' @ styled ''b'' (''color:'' @ outcome_colour (ci_colours input) (tp_outcome point))
        (outcome_upper (tp_outcome point))]
     @ (if tp_overridden point then [styled ''span'' (''color:'' @ ct_axisLabel (ci_ct input)) ''(override)''] else [])
     @ (case tp_changePoint point of None \<Rightarrow> [] | Some cp \<Rightarrow>
         [styled ''span'' (''color:'' @ change_colour cp) (diamond @ '' '' @ cpm_direction cp @ '' (''
            @ formatChangePointPct (cpm_changeRelativePct cp) (cpm_transition cp) (cpm_changeAbsolute cp) @ '')'')])
     @ (if pointNotes = [] then []
        else styled ''div'' (''margin-top:4px;border-top:1px solid '' @ ct_border (ci_ct input)) []
          # map note_line pointNotes))"

definition tooltip_formatter :: "ChartOptionInput \<Rightarrow> string list \<Rightarrow> nat option \<Rightarrow> string" where
  "tooltip_formatter input ticks dataIndex = (case dataIndex of None \<Rightarrow> []
     | Some i \<Rightarrow> if i < length (ci_trend input)
         then join ''<br/>'' (tooltip_lines input (ticks ! i) (ci_trend input ! i)) else [])"

record MainSeries =
  mse_type :: string
  mse_data :: "ChartDatum list"
  mse_cursor :: string
  mse_symbol :: "string option"
  mse_symbolSize :: "(nat \<Rightarrow> int) option"
  mse_lineStyle :: "(string \<times> rat) option"
  mse_barMaxWidth :: "int option"
  mse_markLine :: "MarkLineOption option"
  mse_markPoint :: "MarkPointOption option"

record AxisStyle =
  axs_color :: string
  axs_fontSize :: int
  axs_rotate :: "int option"
  axs_axisLine :: "string option"
  axs_splitLine :: "string option"

record ChartOption =
  co_animation :: bool
  co_backgroundColor :: string
  co_gridTop :: rat
  co_gridBottom :: rat
  co_gridLeft :: rat
  co_gridRight :: rat
  co_tooltipTrigger :: string
  co_tooltipBackground :: string
  co_tooltipBorder :: string
  co_tooltipColor :: string
  co_tooltipFontSize :: int
  co_tooltipFormatter :: "nat option \<Rightarrow> string"
  co_xAxisType :: string
  co_xAxisData :: "string list"
  co_xAxisStyle :: AxisStyle
  co_yAxisType :: string
  co_yAxisMin :: AxisBound
  co_yAxisMax :: AxisBound
  co_yAxisStyle :: AxisStyle
  co_main :: MainSeries
  co_targetSeries :: "TargetSeries list"
  co_changePointSeries :: "ChangePointSeries list"

definition main_series :: "ChartOptionInput \<Rightarrow> AnnotationLayer \<Rightarrow> MainSeries" where
  "main_series input layer =
    \<lparr>mse_type = (if ci_barChart input then ''bar'' else ''line''),
     mse_data = map (chart_datum input) (ci_trend input),
     mse_cursor = (if ci_onEvalSelect input then ''pointer'' else ''default''),
     mse_symbol = (if ci_barChart input then None else Some ''circle''),
     mse_symbolSize = (if ci_barChart input then None else Some (\<lambda>i.
       if i < length (ci_trend input) \<and> isSelected input (ci_trend input ! i) then 10 else 6)),
     mse_lineStyle = (if ci_barChart input then None else Some (ct_line (ci_ct input), 3 / 2)),
     mse_barMaxWidth = (if ci_barChart input then Some 32 else None),
     mse_markLine = al_markLine layer, mse_markPoint = al_markPoint layer\<rparr>"

definition chart_option :: "ChartOptionInput \<Rightarrow> string list \<Rightarrow> AnnotationLayer \<Rightarrow> ChartOption" where
  "chart_option input ticks layer =
    (let ct = ci_ct input; fontScale = ci_fontSize input / 14;
         (manualYMin, manualYMax) = manual_bounds (ci_yMin input) (ci_yMax input)
     in \<lparr>co_animation = False, co_backgroundColor = ''transparent'',
         co_gridTop = 16 + al_labelBandPx layer, co_gridBottom = 52, co_gridLeft = 56, co_gridRight = 16,
         co_tooltipTrigger = ''axis'', co_tooltipBackground = ct_bg ct, co_tooltipBorder = ct_border ct,
         co_tooltipColor = ct_axisLabel ct, co_tooltipFontSize = js_round (12 * fontScale),
         co_tooltipFormatter = tooltip_formatter input ticks,
         co_xAxisType = ''category'', co_xAxisData = ticks,
         co_xAxisStyle = \<lparr>axs_color = ct_axisLabel ct, axs_fontSize = js_round (9 * fontScale),
           axs_rotate = Some 35, axs_axisLine = Some (ct_grid ct), axs_splitLine = None\<rparr>,
         co_yAxisType = ''value'',
         co_yAxisMin = axis_bound MinSide manualYMin, co_yAxisMax = axis_bound MaxSide manualYMax,
         co_yAxisStyle = \<lparr>axs_color = ct_axisLabel ct, axs_fontSize = js_round (10 * fontScale),
           axs_rotate = None, axs_axisLine = None, axs_splitLine = Some (ct_grid ct)\<rparr>,
         co_main = main_series input layer,
         co_targetSeries = buildTargetSeries (ci_trend input) (ci_targets input) (ci_colours input) ct,
         co_changePointSeries = changePointSeries ct (ci_trend input)\<rparr>)"

definition buildChartRender :: "browser \<Rightarrow> ChartOptionInput \<Rightarrow> (ChartOption \<times> rat) option" where
  "buildChartRender br input = (case all_times (ci_trend input) of None \<Rightarrow> None
     | Some ticks \<Rightarrow>
         let layer = buildAnnotationLayer br (ci_trend input) (ci_annotations input) (ci_categories input)
               (ci_chartWidth input) (ci_notesVisible input)
         in Some (chart_option input ticks layer, al_labelBandPx layer))"

text \<open>What the hook returns: the toggles and the chart for the current state.\<close>

record TrendView =
  tv_yMin :: string
  tv_yMax :: string
  tv_targets :: "ChartTarget list"
  tv_chartOption :: ChartOption
  tv_labelBandPx :: rat

text \<open>
  The arguments of the hook come as a chart input whose bounds, targets and colours are the hook's own:
  it fills them in from its state and the theme.
\<close>

definition useMetricTrendState ::
    "browser \<Rightarrow> Theme \<Rightarrow> rat \<Rightarrow> ChartOptionInput \<Rightarrow> TrendHook \<Rightarrow> TrendView option" where
  "useMetricTrendState br theme fontSize args st =
    (let targets = hook_targets (br_localeCompare br) (ci_trend args) (th_visibility st);
         input = args\<lparr>ci_colours := RESULT_COLOUR theme, ci_ct := CHART_THEME theme,
           ci_fontSize := fontSize, ci_yMin := th_yMin st, ci_yMax := th_yMax st, ci_targets := targets\<rparr>
     in map_option (\<lambda>(opt, band). \<lparr>tv_yMin = th_yMin st, tv_yMax = th_yMax st, tv_targets = targets,
          tv_chartOption = opt, tv_labelBandPx = band\<rparr>) (buildChartRender br input))"

subsection \<open>Framing the y axis\<close>

lemma show_nat_magnitude:
  "0 < n \<Longrightarrow> 10 ^ (length (show_nat n) - 1) \<le> n \<and> n < 10 ^ length (show_nat n)"
proof (induction n rule: show_nat.induct)
  case (1 n)
  show ?case
  proof (cases "n < 10")
    case True
    then show ?thesis using 1 by (subst (1 2) show_nat.simps) simp
  next
    case False
    let ?L = "length (show_nat (n div 10))"
    have L: "length (show_nat n) = Suc ?L" using False by (subst show_nat.simps) simp
    have IH: "10 ^ (?L - 1) \<le> n div 10" "n div 10 < 10 ^ ?L" using 1 False by auto
    have "?L \<noteq> 0" by simp
    then have "(10 :: nat) ^ ?L = 10 * 10 ^ (?L - 1)" by (metis Suc_pred' not_gr0 power_Suc)
    then have "10 ^ ?L \<le> n" using IH(1) by linarith
    moreover have "n < 10 ^ Suc ?L" using IH(2) by simp
    ultimately show ?thesis using L by simp
  qed
qed

lemma ilog10_bounds:
  assumes "0 < x"
  shows "10 powi (ilog10 x) \<le> x \<and> x < 10 powi (ilog10 x + 1)"
proof (cases "1 \<le> x")
  case True
  let ?n = "nat \<lfloor>x\<rfloor>"
  let ?L = "length (show_nat ?n)"
  have "0 < ?n" using True by simp
  note mag = show_nat_magnitude [OF this]
  have m: "10 ^ (?L - 1) \<le> ?n" using mag by (rule conjunct1)
  have m2: "?n + 1 \<le> 10 ^ ?L" using mag by linarith
  have fl: "of_nat ?n \<le> x" "x < of_nat (?n + 1)" using True by linarith+
  have L: "ilog10 x = int (?L - 1)" "ilog10 x + 1 = int ?L"
    using True by (simp_all add: ilog10_def Suc_leI of_nat_diff)
  have "(of_nat (10 ^ (?L - 1)) :: rat) \<le> of_nat ?n" using m by (simp only: of_nat_le_iff)
  moreover have "(of_nat (?n + 1) :: rat) \<le> of_nat (10 ^ ?L)" using m2 by (simp only: of_nat_le_iff)
  ultimately have "10 ^ (?L - 1) \<le> x" "x < 10 ^ ?L"
    using fl unfolding of_nat_power of_nat_numeral by linarith+
  then show ?thesis unfolding L(2) unfolding L(1) by simp
next
  case False
  let ?m = "nat (\<lceil>1 / x\<rceil> - 1)"
  let ?L = "length (show_nat ?m)"
  have y: "1 < 1 / x" using assms False by simp
  then have c: "2 \<le> \<lceil>1 / x\<rceil>" by linarith
  then have "0 < ?m" by simp
  note mag = show_nat_magnitude [OF this]
  have m: "10 ^ (?L - 1) \<le> ?m" using mag by (rule conjunct1)
  have m2: "?m + 1 \<le> 10 ^ ?L" using mag by linarith
  have ml: "of_nat ?m < 1 / x" "1 / x \<le> of_nat (?m + 1)" using c by linarith+
  have "(of_nat (10 ^ (?L - 1)) :: rat) \<le> of_nat ?m" using m by (simp only: of_nat_le_iff)
  then have a: "10 ^ (?L - 1) < 1 / x" using ml(1) unfolding of_nat_power of_nat_numeral by linarith
  have "(of_nat (?m + 1) :: rat) \<le> of_nat (10 ^ ?L)" using m2 by (simp only: of_nat_le_iff)
  then have b: "1 / x \<le> 10 ^ ?L" using ml(2) unfolding of_nat_power of_nat_numeral by linarith
  have L: "ilog10 x = - int ?L" "ilog10 x + 1 = - int (?L - 1)"
    using False by (simp_all add: ilog10_def Suc_leI of_nat_diff)
  have "1 / 10 ^ ?L \<le> x" using b assms by (simp add: field_simps)
  moreover have "x < 1 / 10 ^ (?L - 1)" using a assms by (simp add: field_simps)
  ultimately show ?thesis unfolding L(2) unfolding L(1)
    by (simp add: power_int_minus inverse_eq_divide)
qed

lemma powi10_pos: "0 < (10 :: rat) powi e"
  by simp

lemma powi10_less: "(10 :: rat) powi a < 10 powi b \<Longrightarrow> a < b"
  by (metis (no_types, opaque_lifting) linorder_not_less numeral_One one_le_numeral power_int_increasing)

lemma niceStep_eq:
  assumes "0 < w"
  shows "\<exists>c \<in> {1, 2, 5 / 2, 5}. niceStep w = c * 10 powi (ilog10 (w / 5)) \<and>
    niceStep w \<le> w / 5 \<and> w / 5 < 2 * niceStep w"
proof -
  define m :: rat where "m = 10 powi (ilog10 (w / 5))"
  have b: "m \<le> w / 5" "w / 5 < 10 * m"
    using ilog10_bounds [of "w / 5"] assms by (simp_all add: power_int_add m_def)
  have pos: "0 < m" by (simp add: m_def)
  define z where "z = w / 5 / m"
  have w: "w / 5 = z * m" using pos by (simp add: z_def)
  have z: "1 \<le> z" "z < 10" using b pos unfolding w by simp_all
  define c where "c = (if 5 \<le> z then 5 else if 5 / 2 \<le> z then 5 / 2 else if 2 \<le> z then 2 else (1 :: rat))"
  have step: "niceStep w = c * m" using assms by (simp add: niceStep_def Let_def c_def z_def m_def)
  have "c \<le> z" "z < 2 * c" using z by (auto simp: c_def)
  then have "c * m \<le> z * m" "z * m < (2 * c) * m" using pos by simp_all
  then have "c * m \<le> w / 5" "w / 5 < 2 * (c * m)" unfolding w by (simp_all only: mult.assoc)
  moreover have "c \<in> {1, 2, 5 / 2, 5}" by (simp add: c_def)
  ultimately show ?thesis unfolding m_def [symmetric] step
    by (intro bexI [of _ c] conjI refl)
qed

lemma roundBound_exact:
  assumes "v = of_int j * 10 powi f" and "\<bar>v\<bar> < 10 powi (f + 12)"
  shows "roundBound v = v"
proof (cases "v = 0")
  case False
  let ?e = "ilog10 \<bar>v\<bar>"
  have "10 powi ?e \<le> \<bar>v\<bar>" using ilog10_bounds [of "\<bar>v\<bar>"] False by simp
  then have "?e < f + 12" using assms(2) by (intro powi10_less) linarith
  then have d: "f = (?e - 11) + int d" if "d = nat (f - (?e - 11))" for d using that by simp
  define d where "d = nat (f - (?e - 11))"
  define u :: rat where "u = 10 powi (?e - 11)"
  define k where "k = j * 10 ^ d"
  have pos: "0 < u" by (simp add: u_def)
  have v: "v = of_int k * u"
    using assms(1) by (subst (asm) d [OF d_def]) (simp add: power_int_add mult_ac u_def k_def)
  have abs: "\<bar>v\<bar> / u = of_int \<bar>k\<bar>" using pos by (subst v) (simp add: abs_mult)
  have "\<lfloor>of_int \<bar>k\<bar> + (1 / 2 :: rat)\<rfloor> = \<bar>k\<bar>" by linarith
  then have "roundBound v = (if v < 0 then - 1 else 1) * of_int \<bar>k\<bar> * u"
    using False by (simp only: roundBound_def Let_def abs if_False u_def [symmetric])
  moreover have "v < 0 \<longleftrightarrow> k < 0" using pos by (subst v) (simp add: mult_less_0_iff)
  ultimately show ?thesis using v by (cases "k < 0") simp_all
qed (simp add: roundBound_def)

lemma round_step:
  assumes "c \<in> {1, 2, 5 / 2, 5}" and "s = c * 10 powi e" and "\<bar>of_int k * s\<bar> \<le> 10 ^ 10 * s"
  shows "roundBound (of_int k * s) = of_int k * s"
proof -
  define m :: rat where "m = 10 powi (e - 1)"
  have e: "10 powi e = 10 * m" "10 powi (e - 1 + 12) = 10 ^ 12 * m"
    by (simp_all add: m_def power_int_diff power_int_add power_int_numeral)
  have pos: "0 < m" by (simp add: m_def)
  obtain j where j: "of_int j = 10 * c" "0 < j" "j \<le> 50"
  proof -
    from assms(1) consider "c = 1" | "c = 2" | "c = 5 / 2" | "c = 5" by auto
    then show thesis by cases (use that [of 10] that [of 20] that [of 25] that [of 50] in simp_all)
  qed
  have s: "s = of_int j * m" using assms(2) j e by simp
  have "10 ^ 10 * s \<le> 10 ^ 10 * (50 * m)" unfolding s using j pos by simp
  also have "\<dots> < 10 ^ 12 * m" using pos by simp
  finally have "\<bar>of_int k * s\<bar> < 10 powi (e - 1 + 12)" using assms(3) unfolding e by linarith
  moreover have "of_int k * s = of_int (k * j) * 10 powi (e - 1)" by (simp add: s m_def)
  ultimately show ?thesis by (intro roundBound_exact)
qed

lemma effective_span_pos: "0 < effective_span a b"
  by (auto simp: effective_span_def Let_def Y_AXIS_PAD_def)

lemma step_below:
  fixes a s :: rat
  assumes "0 < s" shows "of_int \<lfloor>a / s\<rfloor> * s \<le> a" and "a - s < of_int \<lfloor>a / s\<rfloor> * s"
proof -
  have "of_int \<lfloor>a / s\<rfloor> \<le> a / s" "a / s < of_int \<lfloor>a / s\<rfloor> + 1" by linarith+
  then have "of_int \<lfloor>a / s\<rfloor> * s \<le> a" "a < (of_int \<lfloor>a / s\<rfloor> + 1) * s"
    using assms by (simp_all only: pos_le_divide_eq pos_divide_less_eq)
  then show "of_int \<lfloor>a / s\<rfloor> * s \<le> a" "a - s < of_int \<lfloor>a / s\<rfloor> * s" by (simp_all add: distrib_right)
qed

lemma step_above:
  fixes a s :: rat
  assumes "0 < s" shows "a \<le> of_int \<lceil>a / s\<rceil> * s" and "of_int \<lceil>a / s\<rceil> * s < a + s"
  using step_below [OF assms, of "- a"] by (simp_all add: ceiling_def)

lemma powers10 [simp]: "(10 :: rat) ^ 8 = 100000000" "(10 :: rat) ^ 9 = 1000000000"
    "(10 :: rat) ^ 10 = 10000000000"
  by simp_all

lemma abs_le_rat: "\<bar>x :: rat\<bar> \<le> b \<longleftrightarrow> - b \<le> x \<and> x \<le> b"
  by auto

lemma axis_step:
  fixes w :: rat
  assumes "0 < w" and "s = niceStep (w * (1 + 2 * Y_AXIS_PAD))"
  shows "0 < s" and "s \<le> w * 24 / 100" and "w < 9 * s"
    and "\<bar>of_int k * s\<bar> \<le> 10 ^ 9 * w \<Longrightarrow> roundBound (of_int k * s) = of_int k * s"
proof -
  have "0 < w * (1 + 2 * Y_AXIS_PAD)" using assms by (simp add: Y_AXIS_PAD_def)
  then obtain c where c: "c \<in> {1, 2, 5 / 2, 5}" "s = c * 10 powi (ilog10 (w * (1 + 2 * Y_AXIS_PAD) / 5))"
    "s \<le> w * (1 + 2 * Y_AXIS_PAD) / 5" "w * (1 + 2 * Y_AXIS_PAD) / 5 < 2 * s"
    unfolding assms(2) using niceStep_eq by blast
  have s: "s \<le> w * 24 / 100" "w * 24 / 100 < 2 * s" using c(3,4) by (simp_all add: Y_AXIS_PAD_def)
  show "0 < s" "s \<le> w * 24 / 100" "w < 9 * s" using s assms(1) by linarith+
  show "roundBound (of_int k * s) = of_int k * s" if "\<bar>of_int k * s\<bar> \<le> 10 ^ 9 * w"
  proof (rule round_step [OF c(1,2)])
    have "10 ^ 9 * w \<le> 10 ^ 10 * s" using \<open>w < 9 * s\<close> \<open>0 < s\<close> by simp
    then show "\<bar>of_int k * s\<bar> \<le> 10 ^ 10 * s" using that by (rule order_trans [rotated])
  qed
qed

subsection \<open>Properties\<close>

text \<open>
  C11. Automatic framing: when the values are at most a hundred million times the data's span, the lower
  bound is at least a tenth of the span below the data and the upper bound as far above, each by less
  than 0.34 of the span, so the axis encloses the data and never collapses.
\<close>

theorem paddedAxisBound_encloses:
  assumes "dataMin \<le> dataMax" and "w = effective_span dataMin dataMax"
    and "\<bar>dataMin\<bar> \<le> 10 ^ 8 * w" and "\<bar>dataMax\<bar> \<le> 10 ^ 8 * w"
  shows "dataMin - w * 34 / 100 < paddedAxisBound dataMin dataMax MinSide \<and>
    paddedAxisBound dataMin dataMax MinSide \<le> dataMin - w / 10 \<and>
    dataMax + w / 10 \<le> paddedAxisBound dataMin dataMax MaxSide \<and>
    paddedAxisBound dataMin dataMax MaxSide < dataMax + w * 34 / 100"
proof -
  define s where "s = niceStep (w * (1 + 2 * Y_AXIS_PAD))"
  have w: "0 < w" using effective_span_pos assms(2) by simp
  note st = axis_step [OF w s_def]
  let ?a = "dataMin - w / 10" and ?b = "dataMax + w / 10"
  note lo = step_below [OF st(1), of ?a] and hi = step_above [OF st(1), of ?b]
  have "\<bar>of_int \<lfloor>?a / s\<rfloor> * s\<bar> \<le> 10 ^ 9 * w"
    using lo assms(3) st(2) w unfolding abs_le_rat powers10 by linarith
  note rlo = st(4) [OF this]
  have "\<bar>of_int \<lceil>?b / s\<rceil> * s\<bar> \<le> 10 ^ 9 * w"
    using hi assms(4) st(2) w unfolding abs_le_rat powers10 by linarith
  note rhi = st(4) [OF this]
  have "paddedAxisBound dataMin dataMax MinSide = of_int \<lfloor>?a / s\<rfloor> * s"
    "paddedAxisBound dataMin dataMax MaxSide = of_int \<lceil>?b / s\<rceil> * s"
    using rlo rhi assms(2) by (simp_all add: paddedAxisBound_def Let_def s_def Y_AXIS_PAD_def)
  then show ?thesis using lo hi st(2) by auto
qed

theorem paddedAxisBound_encloses_witness:
  "paddedAxisBound 3 13 MinSide \<le> 2 \<and> 14 \<le> paddedAxisBound 3 13 MaxSide"
  using paddedAxisBound_encloses [of 3 13 10] by (simp add: effective_span_def)

text \<open>
  Beyond that ratio the twelve digits kept by \<open>roundBound\<close> can cut the data off: for values near
  \<open>1.7e13\<close> that differ by 4, the automatic upper bound lies below the largest value.
\<close>

lemma paddedAxisBound_cuts:
  "paddedAxisBound 17000000000001 17000000000005 MaxSide < 17000000000005"
proof -
  have "\<lceil>25 / 24 :: rat\<rceil> = 2" by (simp add: ceiling_eq_iff)
  moreover have c: "\<lceil>170000000000054 / 5 :: rat\<rceil> = 34000000000011" by (simp add: ceiling_eq_iff)
  moreover have "\<lfloor>34000000000011 / 2 :: rat\<rfloor> = 17000000000005" by (simp add: floor_eq_iff)
  ultimately have l: "ilog10 (24 / 25) = - 1" "ilog10 (34000000000011 / 2) = 13"
    by (simp_all add: ilog10_def show_nat_eval)
  have f: "\<lfloor>34000000000111 / 200 :: rat\<rfloor> = 170000000000" by (simp add: floor_eq_iff)
  show ?thesis
    by (simp add: paddedAxisBound_def effective_span_def Y_AXIS_PAD_def niceStep_def Let_def l c f
        roundBound_def power_int_minus power_int_numeral)
qed

text \<open>
  The y axis of the rendered chart: two manual numbers are used only when they are in order;
  a bound is manual exactly when its text parses to a number (and the pair is not inverted), and
  automatic otherwise.
\<close>

lemma manual_bounds_correct:
  "(\<forall>a b. manual_bounds lo hi = (Some a, Some b) \<longrightarrow> a < b) \<and>
   (manual_bounds lo hi = (resolveManualBound lo, resolveManualBound hi) \<or>
    manual_bounds lo hi = (None, None) \<and>
      (\<exists>a b. resolveManualBound lo = Some a \<and> resolveManualBound hi = Some b \<and> b \<le> a))"
  by (cases "resolveManualBound lo"; cases "resolveManualBound hi")
    (auto simp: manual_bounds_def)

theorem manual_bounds_correct_witness: "manual_bounds ''5'' ''2'' = (None, None)"
proof -
  have p: "resolveManualBound ''5'' = Some 5" "resolveManualBound ''2'' = Some 2" by code_simp+
  then show ?thesis using manual_bounds_correct [of "''5''" "''2''"] by auto
qed

subsection \<open>Discovered targets\<close>

lemma target_key_inject [simp]: "target_key a x = target_key b y \<longleftrightarrow> a = b \<and> x = y"
  by (cases a; cases b) (auto simp: target_key_def)

text \<open>The entries of a trend, with their level, in the order they are scanned.\<close>

definition point_entries :: "TrendPoint \<Rightarrow> (TargetLevel \<times> TrendTargetEntry) list" where
  "point_entries p = (case tp_targets p of None \<Rightarrow> []
     | Some t \<Rightarrow> map (Pair PassLevel) (tt_pass t) @ map (Pair WarnLevel) (tt_warn t))"

definition trend_entries :: "TrendPoint list \<Rightarrow> (TargetLevel \<times> TrendTargetEntry) list" where
  "trend_entries trend = concat (map point_entries trend)"

definition entry_for :: "(TargetLevel \<times> TrendTargetEntry) list \<Rightarrow> TargetLevel \<Rightarrow> string \<Rightarrow> TrendTargetEntry \<Rightarrow> bool" where
  "entry_for es l c e \<longleftrightarrow> (l, e) \<in> set es \<and> te_criteria e = c"

lemma fold_add_point: "fold add_point trend m = fold (\<lambda>(l, e). add_target l e) (trend_entries trend) m"
proof (induction trend arbitrary: m)
  case (Cons p trend)
  have "add_point p m = fold (\<lambda>(l, e). add_target l e) (point_entries p) m"
    by (simp add: add_point_def point_entries_def fold_map comp_def split: option.split)
  then show ?case using Cons by (simp add: trend_entries_def)
qed (simp add: trend_entries_def)

text \<open>The map after scanning entries: one record per level and criteria, non-zero if any entry is.\<close>

definition scan_info :: "(TargetLevel \<times> TrendTargetEntry) list \<Rightarrow> TargetLevel \<Rightarrow> string \<Rightarrow> TargetInfo option" where
  "scan_info es l c = (if \<exists>e. entry_for es l c e
     then Some \<lparr>tin_level = l, tin_criteria = c,
       tin_hasNonZero = (\<exists>e. entry_for es l c e \<and> te_targetValue e \<noteq> 0)\<rparr> else None)"

lemma scan_info_other: "(k, c) \<noteq> (l, te_criteria e) \<Longrightarrow> scan_info (es @ [(l, e)]) k c = scan_info es k c"
proof -
  assume "(k, c) \<noteq> (l, te_criteria e)"
  then have "entry_for (es @ [(l, e)]) k c = entry_for es k c" by (auto simp: entry_for_def fun_eq_iff)
  then show ?thesis by (simp add: scan_info_def)
qed

lemma scan_info_same: "scan_info (es @ [(l, e)]) l (te_criteria e) = Some (case scan_info es l (te_criteria e) of
    None \<Rightarrow> \<lparr>tin_level = l, tin_criteria = te_criteria e, tin_hasNonZero = (te_targetValue e \<noteq> 0)\<rparr>
  | Some i \<Rightarrow> if te_targetValue e \<noteq> 0 then i\<lparr>tin_hasNonZero := True\<rparr> else i)"
proof -
  have "entry_for (es @ [(l, e)]) l (te_criteria e) x \<longleftrightarrow> x = e \<or> entry_for es l (te_criteria e) x" for x
    by (auto simp: entry_for_def)
  then show ?thesis by (auto simp: scan_info_def)
qed

definition scanned :: "(TargetLevel \<times> TrendTargetEntry) list \<Rightarrow> (string, TargetInfo) jsmap \<Rightarrow> bool" where
  "scanned es m \<longleftrightarrow> js_map_ok m \<and> (\<forall>l c. js_get m (target_key l c) = scan_info es l c)
     \<and> set (js_keys m) = (\<lambda>(l, e). target_key l (te_criteria e)) ` set es"

lemma scanned_step:
  assumes "scanned es m"
  shows "scanned (es @ [(l, e)]) (add_target l e m)"
proof -
  have get: "js_get m (target_key k c) = scan_info es k c" for k c using assms by (simp add: scanned_def)
  have keys: "set (js_keys (add_target l e m)) = insert (target_key l (te_criteria e)) (set (js_keys m))"
    using js_get_None_iff [of m "target_key l (te_criteria e)"]
    by (auto simp: add_target_def Let_def set_js_keys_set split: option.splits)
  have "js_get (add_target l e m) (target_key k c) = scan_info (es @ [(l, e)]) k c" for k c
  proof (cases "(k, c) = (l, te_criteria e)")
    case True
    then show ?thesis using get [of l "te_criteria e"]
      by (auto simp: add_target_def Let_def js_get_set scan_info_same split: option.splits)
  next
    case False
    then show ?thesis using get
      by (auto simp: add_target_def Let_def js_get_set scan_info_other split: option.splits)
  qed
  moreover have "js_map_ok (add_target l e m)"
    using assms by (auto simp: add_target_def Let_def scanned_def split: option.split)
  ultimately show ?thesis using keys assms by (simp add: scanned_def)
qed

lemma scanned_all: "scanned (trend_entries trend) (fold add_point trend [])"
proof -
  have "scanned es (fold (\<lambda>(l, e). add_target l e) es [])" for es
  proof (induction es rule: rev_induct)
    case Nil
    then show ?case by (simp add: scanned_def js_keys_def scan_info_def entry_for_def)
  next
    case (snoc le es)
    then show ?case by (cases le) (simp add: scanned_step)
  qed
  then show ?thesis by (simp add: fold_add_point)
qed

definition discovered :: "string \<Rightarrow> TargetInfo \<Rightarrow> DiscoveredTarget" where
  "discovered k i = \<lparr>dt_key = k, dt_level = tin_level i, dt_criteria = tin_criteria i,
     dt_alwaysZero = (\<not> tin_hasNonZero i)\<rparr>"

lemma discoverTargets_map:
  "discoverTargets lc trend = sort_cmp (target_order lc) (map (\<lambda>(k, i). discovered k i) (fold add_point trend []))"
  by (simp add: discoverTargets_def discovered_def case_prod_beta)

lemma discoverTargets_mem:
  "d \<in> set (discoverTargets lc trend) \<longleftrightarrow>
    (\<exists>l c i. scan_info (trend_entries trend) l c = Some i \<and> d = discovered (target_key l c) i)"
proof -
  let ?m = "fold add_point trend []" and ?es = "trend_entries trend"
  have sc: "js_map_ok ?m" "\<And>l c. js_get ?m (target_key l c) = scan_info ?es l c"
    "set (js_keys ?m) = (\<lambda>(l, e). target_key l (te_criteria e)) ` set ?es"
    using scanned_all [of trend] by (auto simp: scanned_def)
  have "d \<in> set (discoverTargets lc trend) \<longleftrightarrow> (\<exists>k i. js_get ?m k = Some i \<and> d = discovered k i)"
    using js_get_mem [OF sc(1)] by (auto simp: discoverTargets_map)
  also have "\<dots> \<longleftrightarrow> (\<exists>l c i. scan_info ?es l c = Some i \<and> d = discovered (target_key l c) i)"
  proof
    assume "\<exists>k i. js_get ?m k = Some i \<and> d = discovered k i"
    then obtain k i where ki: "js_get ?m k = Some i" "d = discovered k i" by blast
    then have "k \<in> set (js_keys ?m)" using js_get_None_iff by (metis option.discI)
    then obtain l c where "k = target_key l c" using sc(3) by auto
    then show "\<exists>l c i. scan_info ?es l c = Some i \<and> d = discovered (target_key l c) i"
      using ki sc(2) by metis
  qed (metis sc(2))
  finally show ?thesis .
qed

lemma discoverTargets_distinct: "distinct (map dt_key (discoverTargets lc trend))"
proof -
  have ok: "js_map_ok (fold add_point trend [])" using scanned_all [of trend] by (simp add: scanned_def)
  let ?xs = "map (\<lambda>(k, i). discovered k i) (fold add_point trend [])"
  have "map dt_key ?xs = map fst (fold add_point trend [])"
    by (simp add: discovered_def comp_def case_prod_beta)
  then have "distinct (map dt_key ?xs)" using ok by (simp only: js_map_ok_def js_keys_def)
  then show ?thesis
    unfolding discoverTargets_map by (simp only: distinct_map [of dt_key] set_sort_cmp distinct_sort_cmp)
qed

lemma discoverTargets_iff:
  "d \<in> set (discoverTargets lc trend) \<longleftrightarrow>
    (\<exists>e. entry_for (trend_entries trend) (dt_level d) (dt_criteria d) e) \<and>
    dt_key d = target_key (dt_level d) (dt_criteria d) \<and>
    (dt_alwaysZero d \<longleftrightarrow> (\<forall>e. entry_for (trend_entries trend) (dt_level d) (dt_criteria d) e \<longrightarrow> te_targetValue e = 0))"
  by (cases d) (auto simp: discoverTargets_mem scan_info_def discovered_def split: if_splits)

lemma discovered_level: "d \<in> set (discoverTargets lc trend) \<Longrightarrow> dt_level d \<noteq> BaselineLevel"
  by (auto simp: discoverTargets_iff entry_for_def trend_entries_def point_entries_def split: option.splits)

lemma discovered_key: "d \<in> set (discoverTargets lc trend) \<Longrightarrow> dt_key d \<noteq> ''baseline''"
  using discovered_level [of d lc trend]
  by (cases "dt_level d") (auto simp: discoverTargets_iff target_key_def)

text \<open>The comparator is a total preorder on the targets that are sorted, none of which is a baseline.\<close>

fun level_rank :: "TargetLevel \<Rightarrow> int" where
  "level_rank PassLevel = 0"
| "level_rank WarnLevel = 1"
| "level_rank BaselineLevel = 2"

definition ranked_order :: "(string \<Rightarrow> string \<Rightarrow> int) \<Rightarrow> DiscoveredTarget \<Rightarrow> DiscoveredTarget \<Rightarrow> int" where
  "ranked_order lc a b = (let ra = level_rank (dt_level a); rb = level_rank (dt_level b);
       ia = isRelative (dt_criteria a); ib = isRelative (dt_criteria b) in
     if ra \<noteq> rb then ra - rb else if ia \<noteq> ib then (if ia then 1 else - 1)
     else lc (dt_criteria a) (dt_criteria b))"

lemma ranked_order_ok: "cmp_ok lc \<Longrightarrow> cmp_ok (ranked_order lc)"
  unfolding cmp_ok_def ranked_order_def Let_def by (auto split: if_splits)

lemma ranked_order_eq:
  "dt_level a \<noteq> BaselineLevel \<Longrightarrow> dt_level b \<noteq> BaselineLevel \<Longrightarrow> target_order lc a b = ranked_order lc a b"
  by (cases "dt_level a"; cases "dt_level b") (simp_all add: target_order_def ranked_order_def Let_def)

lemma discoverTargets_sorted:
  assumes "cmp_ok lc"
  shows "sorted_wrt (\<lambda>a b. ranked_order lc a b \<le> 0) (discoverTargets lc trend)"
proof -
  let ?xs = "map (\<lambda>(k, i). discovered k i) (fold add_point trend [])"
  have "dt_level d \<noteq> BaselineLevel" if "d \<in> set ?xs" for d
    using discovered_level [of d lc trend] that by (simp add: discoverTargets_map)
  then have "sort_cmp (target_order lc) ?xs = sort_cmp (ranked_order lc) ?xs"
    by (intro sort_cmp_cong) (simp add: ranked_order_eq)
  then show ?thesis using sorted_sort_cmp [OF ranked_order_ok [OF assms]] by (simp add: discoverTargets_map)
qed

text \<open>
  C10. The threshold lines offered for a trend: one per distinct pair of level and criteria that occurs in
  any point, keyed without collisions, flagged as always zero exactly when every occurrence is zero;
  pass lines come before warning lines and fixed thresholds before relative ones.
\<close>

theorem discoverTargets_correct:
  assumes "cmp_ok lc" and "ts = discoverTargets lc trend"
  shows "distinct (map dt_key ts) \<and>
    (\<forall>l c. (\<exists>d \<in> set ts. dt_level d = l \<and> dt_criteria d = c) \<longleftrightarrow> (\<exists>e. entry_for (trend_entries trend) l c e)) \<and>
    (\<forall>d \<in> set ts. dt_key d = target_key (dt_level d) (dt_criteria d) \<and> (dt_alwaysZero d \<longleftrightarrow>
       (\<forall>e. entry_for (trend_entries trend) (dt_level d) (dt_criteria d) e \<longrightarrow> te_targetValue e = 0))) \<and>
    sorted_wrt (\<lambda>a b. level_rank (dt_level a) < level_rank (dt_level b) \<or>
       level_rank (dt_level a) = level_rank (dt_level b) \<and>
       (isRelative (dt_criteria a) \<longrightarrow> isRelative (dt_criteria b))) ts"
proof (intro conjI)
  show "distinct (map dt_key ts)" unfolding assms(2) by (rule discoverTargets_distinct)
  show "\<forall>l c. (\<exists>d \<in> set ts. dt_level d = l \<and> dt_criteria d = c) \<longleftrightarrow> (\<exists>e. entry_for (trend_entries trend) l c e)"
  proof (intro allI iffI)
    fix l c assume e: "\<exists>e. entry_for (trend_entries trend) l c e"
    show "\<exists>d \<in> set ts. dt_level d = l \<and> dt_criteria d = c"
      unfolding assms(2) by (rule bexI [of _ "\<lparr>dt_key = target_key l c, dt_level = l, dt_criteria = c,
          dt_alwaysZero = (\<forall>e. entry_for (trend_entries trend) l c e \<longrightarrow> te_targetValue e = 0)\<rparr>"])
        (use e in \<open>simp_all add: discoverTargets_iff\<close>)
  qed (auto simp: assms(2) discoverTargets_iff)
  show "\<forall>d \<in> set ts. dt_key d = target_key (dt_level d) (dt_criteria d) \<and> (dt_alwaysZero d \<longleftrightarrow>
       (\<forall>e. entry_for (trend_entries trend) (dt_level d) (dt_criteria d) e \<longrightarrow> te_targetValue e = 0))"
    by (simp add: assms(2) discoverTargets_iff)
  show "sorted_wrt (\<lambda>a b. level_rank (dt_level a) < level_rank (dt_level b) \<or>
       level_rank (dt_level a) = level_rank (dt_level b) \<and>
       (isRelative (dt_criteria a) \<longrightarrow> isRelative (dt_criteria b))) ts"
    unfolding assms(2) by (rule sorted_wrt_mono_rel [OF _ discoverTargets_sorted [OF assms(1)]])
      (auto simp: ranked_order_def Let_def split: if_splits)
qed

theorem discoverTargets_correct_witness:
  "\<exists>d \<in> set (discoverTargets (\<lambda>_ _. 0)
     [(demo_point ''e1'')\<lparr>tp_targets := Some \<lparr>tt_pass = [\<lparr>te_criteria = ''<=+10%'', te_targetValue = 0,
        te_violated = False\<rparr>], tt_warn = []\<rparr>\<rparr>]). dt_level d = PassLevel \<and> dt_criteria d = ''<=+10%''"
proof -
  have "cmp_ok (\<lambda>_ _. 0 :: int)" by (simp add: cmp_ok_def)
  note c = discoverTargets_correct [OF this refl, THEN conjunct2, THEN conjunct1]
  show ?thesis
    unfolding c [rule_format] by (simp add: entry_for_def [abs_def] trend_entries_def point_entries_def)
qed

subsection \<open>Toggles\<close>

lemma hook_target_cases:
  assumes "t \<in> set (hook_targets lc trend v)"
  obtains (baseline) "cht_level t = BaselineLevel" "cht_key t = ''baseline''" "cht_visible t = nullish (js_get v ''baseline'') False"
  | (criteria) "cht_level t \<noteq> BaselineLevel" "cht_key t \<noteq> ''baseline''" "cht_visible t = nullish (js_get v (cht_key t)) True"
  using assms discovered_level discovered_key by (force simp: hook_targets_def split: if_splits)

text \<open>
  The toggle of a listed line flips the visibility of that line and changes nothing else of the
  list; used twice, it restores the list.
\<close>

lemma toggle_target_correct:
  assumes "t \<in> set (hook_targets lc trend (th_visibility st))"
  shows "hook_targets lc trend (th_visibility (toggle_target t st)) =
      map (\<lambda>u. if cht_key u = cht_key t then u\<lparr>cht_visible := \<not> cht_visible u\<rparr> else u)
        (hook_targets lc trend (th_visibility st)) \<and>
    hook_targets lc trend (th_visibility (toggle_target t (toggle_target t st))) =
      hook_targets lc trend (th_visibility st)"
  using assms
proof (cases rule: hook_target_cases)
  case baseline
  then show ?thesis using discovered_key [of _ lc trend]
    by (auto simp: hook_targets_def toggle_target_def toggle_baseline_def js_get_set)
next
  case criteria
  then show ?thesis
    by (auto simp: hook_targets_def toggle_target_def toggle_criteria_def js_get_set)
qed

definition demo_trend :: "TrendPoint list" where
  "demo_trend = [(demo_point ''e1'')\<lparr>tp_baseline := Some 4\<rparr>]"

theorem toggle_target_correct_witness:
  "hook_targets (\<lambda>_ _. 0) demo_trend (th_visibility (toggle_baseline initial_hook)) =
    [\<lparr>cht_key = ''baseline'', cht_level = BaselineLevel, cht_criteria = ''baseline'', cht_visible = True\<rparr>]"
proof -
  let ?t = "\<lparr>cht_key = ''baseline'', cht_level = BaselineLevel, cht_criteria = ''baseline'', cht_visible = False\<rparr>"
  have h: "hook_targets (\<lambda>_ _. 0) demo_trend (th_visibility initial_hook) = [?t]"
    by (simp add: hook_targets_def discoverTargets_def demo_trend_def demo_point_def add_point_def
        sort_cmp_def initial_hook_def)
  have "?t \<in> set (hook_targets (\<lambda>_ _. 0) demo_trend (th_visibility initial_hook))" by (simp add: h)
  from toggle_target_correct [OF this, THEN conjunct1] show ?thesis
    by (simp add: h toggle_target_def)
qed

subsection \<open>The rendered chart\<close>

lemma all_times_None: "all_times ps = None \<longleftrightarrow> (\<exists>p \<in> set ps. toISOString (tp_timestamp p) = None)"
  by (induction ps) (auto simp: axis_time_def split: option.split)

lemma all_times_length: "all_times ps = Some ticks \<Longrightarrow> length ticks = length ps"
  by (induction ps arbitrary: ticks) (auto split: option.splits)

lemma change_point_data_mem:
  "d \<in> set (change_point_data ct trend) \<Longrightarrow> fst (cpd_value d) < length trend \<and>
    tp_changePoint (trend ! fst (cpd_value d)) \<noteq> None \<and> snd (cpd_value d) = tp_value (trend ! fst (cpd_value d))"
  unfolding change_point_data_def
  by (drule map_filter_Some) (auto simp: in_set_enumerate_eq)

lemma all_change_points:
  assumes "i < length trend" and "tp_changePoint (trend ! i) = Some cp"
  shows "\<exists>d \<in> set (change_point_data ct trend). fst (cpd_value d) = i"
proof -
  have "(i, trend ! i) \<in> set (List.enumerate 0 trend)" using assms by (simp add: in_set_enumerate_eq)
  then show ?thesis using assms(2) by (force simp: change_point_data_def List.map_filter_def)
qed

lemma changePointSeries_data:
  "(\<exists>s \<in> set (changePointSeries ct trend). \<exists>d \<in> set (cps_data s). fst (cpd_value d) = i) \<longleftrightarrow>
    i < length trend \<and> tp_changePoint (trend ! i) \<noteq> None"
proof -
  have "(\<exists>s \<in> set (changePointSeries ct trend). \<exists>d \<in> set (cps_data s). fst (cpd_value d) = i) \<longleftrightarrow>
      (\<exists>d \<in> set (change_point_data ct trend). fst (cpd_value d) = i)"
    by (auto simp: changePointSeries_def Let_def)
  also have "\<dots> \<longleftrightarrow> i < length trend \<and> tp_changePoint (trend ! i) \<noteq> None"
    using all_change_points [of i trend _ ct] change_point_data_mem [of _ ct trend] by blast
  finally show ?thesis .
qed


definition demo_input :: "string \<Rightarrow> TrendPoint list \<Rightarrow> ChartOptionInput" where
  "demo_input sel trend = \<lparr>ci_trend = trend, ci_evalId = sel, ci_selectedEvalIds = None,
     ci_selectedPeriodStart = None, ci_colours = RESULT_COLOUR Dark, ci_ct = CHART_THEME Dark,
     ci_fontSize = 14, ci_yMin = [], ci_yMax = [], ci_targets = [], ci_onEvalSelect = False,
     ci_annotations = None, ci_categories = None, ci_chartWidth = None, ci_notesVisible = True,
     ci_barChart = False\<rparr>"


end
