(* ===== verification/Unfold.thy ===== *)
theory Unfold
  imports Prelude
begin

text \<open>
  Recursion over a graph of nodes that may be cyclic, as in the group trees: every recursive function
  of the program that follows the subgroups of a group has the same shape, computes its result from
  those of the successors, and overflows the stack on a cycle. The locale states that shape once, with
  fuel for the depth of the stack, and proves when the recursion returns.
\<close>

lemma those_Some_iff: "those xs = Some ys \<longleftrightarrow> xs = map Some ys"
  by (induction xs arbitrary: ys) (auto split: option.splits)

lemma those_None_iff: "those xs = None \<longleftrightarrow> None \<in> set xs"
  by (induction xs) (auto split: option.splits)

lemma those_map_None: "those (map f xs) = None \<longleftrightarrow> (\<exists>x \<in> set xs. f x = None)"
  by (induction xs) (auto split: option.splits)

lemma those_map_cong: "(\<And>x. x \<in> set xs \<Longrightarrow> f x = g x) \<Longrightarrow> those (map f xs) = those (map g xs)"
  by (induction xs) (auto split: option.splits)

text \<open>The nodes from which following successors always ends.\<close>

inductive unfolds :: "('a \<Rightarrow> 'a list) \<Rightarrow> 'a \<Rightarrow> bool" for succ where
  unfolds_step: "\<forall>s \<in> set (succ g). unfolds succ s \<Longrightarrow> unfolds succ g"

inductive_simps unfolds_iff: "unfolds succ g"

lemma unfolds_rank:
  assumes "\<And>g s. s \<in> set (succ g) \<Longrightarrow> rank s < (rank g :: nat)"
  shows "unfolds succ g"
  by (induction "rank g" arbitrary: g rule: less_induct) (auto intro: unfolds_step dest: assms)

lemma unfolds_no_loop: "unfolds succ g \<Longrightarrow> g \<notin> set (succ g)"
  by (induction rule: unfolds.induct) blast

text \<open>The nodes reached from one, itself included.\<close>

inductive reaches :: "('a \<Rightarrow> 'a list) \<Rightarrow> 'a \<Rightarrow> 'a \<Rightarrow> bool" for succ where
  reaches_refl: "reaches succ g g"
| reaches_step: "s \<in> set (succ g) \<Longrightarrow> reaches succ s h \<Longrightarrow> reaches succ g h"

inductive_cases reachesE: "reaches succ g h"

lemma reaches_unfold: "reaches succ g h \<longleftrightarrow> h = g \<or> (\<exists>s \<in> set (succ g). reaches succ s h)"
  by (auto elim: reachesE intro: reaches.intros)

locale unfold_rec =
  fixes succ :: "'a \<Rightarrow> 'a list"
    and node :: "'a \<Rightarrow> 'b list \<Rightarrow> 'b"
    and run :: "nat \<Rightarrow> 'a \<Rightarrow> 'b option"
  assumes run_0: "run 0 g = None"
    and run_Suc: "run (Suc n) g = map_option (node g) (those (map (run n) (succ g)))"
begin

lemma run_mono: "run n g = Some t \<Longrightarrow> n \<le> m \<Longrightarrow> run m g = Some t"
proof (induction n arbitrary: g t m)
  case (Suc n)
  obtain k where k: "m = Suc k" "n \<le> k" using Suc.prems(2) by (cases m) auto
  obtain ts where ts: "those (map (run n) (succ g)) = Some ts" "t = node g ts"
    using Suc.prems(1) by (auto simp: run_Suc)
  have "run k s = run n s" if s: "s \<in> set (succ g)" for s
  proof -
    have "run n s \<noteq> None" using ts(1) s those_map_None [of "run n" "succ g"] by auto
    then obtain x where x: "run n s = Some x" by blast
    show ?thesis using Suc.IH [OF x k(2)] x by simp
  qed
  then have "those (map (run k) (succ g)) = Some ts" using ts(1) those_map_cong [of "succ g" "run k" "run n"] by simp
  then show ?case using ts(2) by (simp add: k(1) run_Suc)
qed (simp add: run_0)

lemma run_unfolds: "run n g \<noteq> None \<Longrightarrow> unfolds succ g"
proof (induction n arbitrary: g)
  case (Suc n)
  then have "\<forall>s \<in> set (succ g). run n s \<noteq> None" by (auto simp: run_Suc those_map_None)
  then show ?case using Suc.IH by (intro unfolds_step) blast
qed (simp add: run_0)

lemma common_fuel:
  assumes "\<forall>s \<in> set ss. \<exists>n. run n s \<noteq> None"
  shows "\<exists>n. \<forall>s \<in> set ss. run n s \<noteq> None"
  using assms
proof (induction ss)
  case (Cons s ss)
  then obtain n m where nm: "run n s \<noteq> None" "\<forall>s \<in> set ss. run m s \<noteq> None" by auto
  have "run (max n m) x \<noteq> None" if "run k x \<noteq> None" "k \<le> max n m" for k x
    using run_mono that by blast
  note mono = this
  have "run (max n m) x \<noteq> None" if "x \<in> set (s # ss)" for x
    using that nm mono [of n s] mono [of m x] by (cases "x = s") auto
  then show ?case by blast
qed simp

lemma unfolds_run: "unfolds succ g \<Longrightarrow> \<exists>n. run n g \<noteq> None"
proof (induction rule: unfolds.induct)
  case (unfolds_step g)
  then obtain n where "\<forall>s \<in> set (succ g). run n s \<noteq> None" using common_fuel by blast
  then have "run (Suc n) g \<noteq> None" by (simp add: run_Suc those_map_None)
  then show ?case by blast
qed

lemma run_returns: "(\<exists>n. run n g \<noteq> None) \<longleftrightarrow> unfolds succ g"
  using run_unfolds unfolds_run by blast

lemma run_unique: "run n g = Some t \<Longrightarrow> run m g = Some u \<Longrightarrow> t = u"
  using run_mono [of n g t m] run_mono [of m g u n] by (cases "n \<le> m") auto

lemma run_all_returns: "(\<exists>n. those (map (run n) gs) \<noteq> None) \<longleftrightarrow> (\<forall>g \<in> set gs. unfolds succ g)"
proof
  show "\<forall>g \<in> set gs. unfolds succ g" if "\<exists>n. those (map (run n) gs) \<noteq> None"
    using that run_unfolds unfolding those_map_None by blast
  show "\<exists>n. those (map (run n) gs) \<noteq> None" if "\<forall>g \<in> set gs. unfolds succ g"
    using that unfolds_run common_fuel [of gs] by (simp add: those_map_None)
qed

lemma run_all_mono:
  assumes "those (map (run n) gs) = Some ts" and "n \<le> m"
  shows "those (map (run m) gs) = Some ts"
proof -
  have "run m g = run n g" if "g \<in> set gs" for g
  proof -
    have "run n g \<noteq> None" using assms(1) that those_map_None [of "run n" gs] by auto
    then obtain x where x: "run n g = Some x" by blast
    show ?thesis using run_mono [OF x assms(2)] x by simp
  qed
  then show ?thesis using assms(1) those_map_cong [of gs "run m" "run n"] by simp
qed

text \<open>The result is an unfolding: it satisfies every property that passes from successors to nodes.\<close>

lemma run_induct:
  assumes "\<And>g ts. length ts = length (succ g) \<Longrightarrow> (\<And>i. i < length ts \<Longrightarrow> P (succ g ! i) (ts ! i)) \<Longrightarrow> P g (node g ts)"
  shows "run n g = Some t \<Longrightarrow> P g t"
proof (induction n arbitrary: g t)
  case (Suc n)
  obtain ts where ts: "map (run n) (succ g) = map Some ts" "t = node g ts"
    using Suc.prems by (auto simp: run_Suc those_Some_iff)
  have len: "length ts = length (succ g)" using arg_cong [OF ts(1), of length] by simp
  have "run n (succ g ! i) = Some (ts ! i)" if "i < length ts" for i
    using arg_cong [OF ts(1), of "\<lambda>xs. xs ! i"] that len by simp
  then show ?case unfolding ts(2) using Suc.IH len by (intro assms) auto
qed (simp add: run_0)

end

end
