(* ===== verification/RegistryTree.thy ===== *)
theory RegistryTree
  imports Domain Unfold
begin

text \<open>
  The trees of the registry (\<open>features/registry/useRegistryTree.ts\<close>, \<open>useAllGroupLinks.ts\<close>,
  \<open>ui-types.ts\<close>): SLOs with their SLI and data sources, data sources with their SLOs, asset groups with
  their members and inherited bindings, the merged bindings, and the search filter. The recursion over
  subgroups runs on fuel: no fuel left, \<open>None\<close>, is the stack overflow of a cyclic group graph.
\<close>

subsection \<open>Tree nodes and the minimal inputs\<close>

datatype RegistryMode = AssetMode | SloMode | DatasourceMode

datatype NodeType = NGroup | NAsset | NSlo | NSli | NDatasource | NBinding | NTemplate | NSloGroup

record BindingChain =
  bc_sloName :: string
  bc_sliName :: string
  bc_dsName :: string

datatype TreeNode = TreeNode
  (tn_id: string) (tn_name: string) (tn_displayName: "string option") (tn_type: NodeType)
  (tn_badge: "string option") (tn_subtitle: "string option") (tn_children: "TreeNode list option")
  (tn_bindingChain: "BindingChain option") (tn_groupName: "string option")
  (tn_assetTypeName: "string option")

record SelectedNode =
  sn_type :: NodeType
  sn_name :: string
  sn_groupName :: "string option"

record TagFilter =
  tf_key :: string
  tf_value :: string

record MinSlo =
  ms_name :: string
  ms_displayName :: "string option"
  ms_version :: int
  ms_active :: bool
  ms_sliName :: "string option"
  ms_sliVersion :: "int option"
  ms_kind :: "string option"
  ms_tags :: "str_obj option"

record MinSli =
  mi_name :: string
  mi_displayName :: "string option"
  mi_adapterType :: string
  mi_active :: bool
  mi_indicators :: "str_obj option"

record MinDs =
  md_name :: string
  md_displayName :: "string option"
  md_adapterType :: string

record MinBinding =
  mb_sloName :: string
  mb_dataSourceName :: string

record MinMember =
  mm_assetName :: string
  mm_assetTypeName :: "string option"

record MinSubgroup =
  msg_groupId :: string
  msg_groupName :: string

record MinGroup =
  mg_name :: string
  mg_displayName :: "string option"
  mg_members :: "MinMember list option"
  mg_subgroups :: "MinSubgroup list option"

record MinGroupAssignment =
  mga_sloGroupName :: string
  mga_dataSourceName :: string

subsection \<open>The SLO tree\<close>

definition indicator_count :: "MinSli option \<Rightarrow> nat" where
  "indicator_count sli = (case Option.bind sli mi_indicators of None \<Rightarrow> 0 | Some ind \<Rightarrow> length ind)"

text \<open>The badge of an SLI node: its number of indicators, none when there is none.\<close>

definition count_badge :: "MinSli option \<Rightarrow> string option" where
  "count_badge sli = (if 0 < indicator_count sli then Some (show_nat (indicator_count sli)) else None)"

definition version_badge :: "MinSlo \<Rightarrow> string" where
  "version_badge slo = ''v'' @ show_int (ms_version slo)"

definition bound_datasources :: "MinBinding list \<Rightarrow> string \<Rightarrow> string list" where
  "bound_datasources bindings nm =
    uniq (map mb_dataSourceName (filter (\<lambda>b. mb_sloName b = nm) bindings))"

definition ds_node :: "MinDs list \<Rightarrow> string \<Rightarrow> TreeNode" where
  "ds_node datasources dsName = TreeNode (''ds:'' @ dsName) dsName
     (Option.bind (js_get (index_by md_name datasources) dsName) md_displayName) NDatasource
     None None None None None None"

definition slo_node ::
    "(MinSli option \<Rightarrow> string option) \<Rightarrow> MinSli list \<Rightarrow> MinDs list \<Rightarrow> MinBinding list \<Rightarrow> MinSlo \<Rightarrow> TreeNode" where
  "slo_node badge slis datasources bindings slo =
    (let dsChildren = map (ds_node datasources) (bound_datasources bindings (ms_name slo));
         sliChildren = (if truthy (ms_sliName slo) then
           let sliName = the (ms_sliName slo); sli = js_get (index_by mi_name slis) sliName in
           [TreeNode (''sli:'' @ sliName) sliName (Option.bind sli mi_displayName) NSli
              (badge sli) None (Some dsChildren) None None None]
           else [])
     in TreeNode (''slo:'' @ ms_name slo) (ms_name slo) (ms_displayName slo) NSlo
          (Some (version_badge slo)) None
          (Some (if sliChildren \<noteq> [] then sliChildren else dsChildren)) None None None)"

definition buildSloTree :: "MinSlo list \<Rightarrow> MinSli list \<Rightarrow> MinDs list \<Rightarrow> MinBinding list \<Rightarrow> TreeNode list" where
  "buildSloTree slos slis datasources bindings =
    map (slo_node count_badge slis datasources bindings) (filter ms_active slos)"

subsection \<open>The data source tree\<close>

definition no_sli :: string where
  "no_sli = ''__none__''"

definition bound_slos :: "MinBinding list \<Rightarrow> string \<Rightarrow> string list" where
  "bound_slos bindings nm =
    uniq (map mb_sloName (filter (\<lambda>b. mb_dataSourceName b = nm) bindings))"

definition slo_leaf :: "MinSlo list \<Rightarrow> string \<Rightarrow> TreeNode" where
  "slo_leaf slos sloName = (let slo = js_get (index_by ms_name slos) sloName in
     TreeNode (''slo:'' @ sloName) sloName (Option.bind slo ms_displayName) NSlo
       (map_option version_badge slo) None None None None None)"

definition sli_of_slo :: "MinSlo list \<Rightarrow> string \<Rightarrow> string" where
  "sli_of_slo slos sloName =
    nullish (Option.bind (js_get (index_by ms_name slos) sloName) ms_sliName) no_sli"

definition sli_group_node :: "MinSlo list \<Rightarrow> MinSli list \<Rightarrow> string \<times> string list \<Rightarrow> TreeNode" where
  "sli_group_node slos slis entry = (case entry of (sliName, sloNames) \<Rightarrow>
     let sli = js_get (index_by mi_name slis) sliName in
     TreeNode (''sli:'' @ sliName) sliName (Option.bind sli mi_displayName) NSli
       (count_badge sli) None (Some (map (slo_leaf slos) sloNames)) None None None)"

definition datasource_node ::
    "MinSli list \<Rightarrow> MinSlo list \<Rightarrow> MinBinding list \<Rightarrow> MinDs \<Rightarrow> TreeNode" where
  "datasource_node slis slos bindings ds =
    (let sliToSlos = group_by (sli_of_slo slos) id (bound_slos bindings (md_name ds));
         sliChildren = map (sli_group_node slos slis) (filter (\<lambda>(sliName, _). sliName \<noteq> no_sli) sliToSlos);
         orphanChildren = map (slo_leaf slos) (nullish (js_get sliToSlos no_sli) [])
     in TreeNode (''ds:'' @ md_name ds) (md_name ds) (md_displayName ds) NDatasource
          (Some (''['' @ md_adapterType ds @ '']'')) None (Some (sliChildren @ orphanChildren)) None None None)"

definition buildDatasourceTree ::
    "MinDs list \<Rightarrow> MinSli list \<Rightarrow> MinSlo list \<Rightarrow> MinBinding list \<Rightarrow> TreeNode list" where
  "buildDatasourceTree datasources slis slos bindings =
    map (datasource_node slis slos bindings) datasources"

subsection \<open>The asset tree\<close>

definition binding_key :: "MinBinding \<Rightarrow> string" where
  "binding_key b = mb_sloName b @ ''|'' @ mb_dataSourceName b"

text \<open>Bindings of the asset first, then those of the group that the asset does not have itself.\<close>

definition merged_bindings :: "MinBinding list \<Rightarrow> MinBinding list \<Rightarrow> MinBinding list" where
  "merged_bindings assetBindings groupBindings =
    (let seen = map binding_key assetBindings
     in assetBindings @ filter (\<lambda>b. binding_key b \<notin> set seen) groupBindings)"

definition binding_node ::
    "MinSlo list \<Rightarrow> MinSli list \<Rightarrow> string \<Rightarrow> string \<Rightarrow> MinBinding \<Rightarrow> TreeNode" where
  "binding_node slos slis groupName assetName binding =
    (let slo = js_get (index_by ms_name slos) (mb_sloName binding);
         dsNode = TreeNode (''binding-ds:'' @ assetName @ '':'' @ mb_dataSourceName binding)
           (mb_dataSourceName binding) None NDatasource None None None None (Some groupName) None;
         sloLeaf = (if truthy (Option.bind slo ms_sliName) then
           let sliName = the (Option.bind slo ms_sliName); sli = js_get (index_by mi_name slis) sliName in
           TreeNode (''binding-sli:'' @ assetName @ '':'' @ sliName) sliName
             (Option.bind sli mi_displayName) NSli (count_badge sli) None (Some [dsNode]) None
             (Some groupName) None
           else dsNode)
     in TreeNode (''binding-slo:'' @ assetName @ '':'' @ mb_sloName binding) (mb_sloName binding)
          (Option.bind slo ms_displayName) NSlo (map_option version_badge slo) None (Some [sloLeaf]) None
          (Some groupName) None)"

definition nonempty_children :: "TreeNode list \<Rightarrow> TreeNode list option" where
  "nonempty_children cs = (if cs = [] then None else Some cs)"

definition member_node ::
    "MinSlo list \<Rightarrow> MinSli list \<Rightarrow> (string, MinBinding list) jsmap \<Rightarrow> string \<Rightarrow> MinBinding list
      \<Rightarrow> MinMember \<Rightarrow> TreeNode" where
  "member_node slos slis assetBindingsMap groupName groupBindings member =
    (let assetBindings = nullish (js_get assetBindingsMap (mm_assetName member)) []
     in TreeNode (''asset:'' @ mm_assetName member) (mm_assetName member) None NAsset None None
          (nonempty_children (map (binding_node slos slis groupName (mm_assetName member))
             (merged_bindings assetBindings groupBindings)))
          None (Some groupName) (mm_assetTypeName member))"

definition subgroups_of :: "MinGroup list \<Rightarrow> MinGroup \<Rightarrow> MinGroup list" where
  "subgroups_of allGroups grp =
    List.map_filter (\<lambda>sg. js_get (index_by mg_name allGroups) (msg_groupName sg)) (nullish (mg_subgroups grp) [])"

record asset_tree_input =
  ati_allGroups :: "MinGroup list"
  ati_groupBindings :: "(string, MinBinding list) jsmap"
  ati_assetBindings :: "(string, MinBinding list) jsmap"
  ati_slos :: "MinSlo list option"
  ati_slis :: "MinSli list option"

definition group_node :: "asset_tree_input \<Rightarrow> MinGroup \<Rightarrow> TreeNode list \<Rightarrow> TreeNode" where
  "group_node inp grp subgroupChildren =
    (let groupBindings = nullish (js_get (ati_groupBindings inp) (mg_name grp)) [];
         members = nullish (mg_members grp) [];
         memberChildren = map (member_node (nullish (ati_slos inp) []) (nullish (ati_slis inp) [])
           (ati_assetBindings inp) (mg_name grp) groupBindings) members
     in TreeNode (''group:'' @ mg_name grp) (mg_name grp) (mg_displayName grp) NGroup
          (if members \<noteq> [] then Some (show_nat (length members)) else None) None
          (nonempty_children (subgroupChildren @ memberChildren)) None None None)"

fun buildGroupNode :: "asset_tree_input \<Rightarrow> nat \<Rightarrow> MinGroup \<Rightarrow> TreeNode option" where
  "buildGroupNode inp 0 grp = None"
| "buildGroupNode inp (Suc fuel) grp =
    map_option (group_node inp grp)
      (those (map (buildGroupNode inp fuel) (subgroups_of (ati_allGroups inp) grp)))"

definition buildAssetTree :: "asset_tree_input \<Rightarrow> nat \<Rightarrow> MinGroup list \<Rightarrow> TreeNode list option" where
  "buildAssetTree inp fuel topLevelGroups = those (map (buildGroupNode inp fuel) topLevelGroups)"

subsection \<open>SLO sections\<close>

record SloSections =
  ss_standard :: "TreeNode list"
  ss_templates :: "TreeNode list"
  ss_groupNodes :: "TreeNode list"

definition indicators_badge :: "MinSli option \<Rightarrow> string option" where
  "indicators_badge sli = Some (show_nat (indicator_count sli) @ '' indicators'')"

definition template_node :: "SloGroup list \<Rightarrow> MinSlo \<Rightarrow> TreeNode" where
  "template_node groups slo = (let refGroups = filter (\<lambda>g. sg_templateSloName g = ms_name slo) groups in
     TreeNode (''template:'' @ ms_name slo) (ms_name slo) (ms_displayName slo) NTemplate
       (Some (version_badge slo))
       (Some (show_nat (length refGroups) @ '' group'' @ (if length refGroups \<noteq> 1 then ''s'' else [])))
       None None None None)"

definition slo_group_node :: "SloGroup \<Rightarrow> TreeNode" where
  "slo_group_node g = TreeNode (''slo-group:'' @ sg_name g) (sg_name g) (sg_displayName g) NSloGroup
     (Some (show_int (sg_generatedSloCount g) @ '' SLOs'')) (Some (''via '' @ sg_templateSloName g))
     None None None None"

definition standard_slos :: "MinSlo list \<Rightarrow> MinSlo list" where
  "standard_slos slos = filter (\<lambda>s. nullish (ms_kind s) ''standard'' = ''standard'') (filter ms_active slos)"

definition template_slos :: "MinSlo list \<Rightarrow> MinSlo list" where
  "template_slos slos = filter (\<lambda>s. ms_kind s = Some ''template'') (filter ms_active slos)"

definition buildSloSections ::
    "MinSlo list \<Rightarrow> MinSli list \<Rightarrow> MinDs list \<Rightarrow> MinBinding list \<Rightarrow> SloGroup list \<Rightarrow> SloSections" where
  "buildSloSections slos slis datasources bindings groups =
    \<lparr>ss_standard = map (slo_node indicators_badge slis datasources bindings) (standard_slos slos),
     ss_templates = map (template_node groups) (template_slos slos),
     ss_groupNodes = map slo_group_node (filter sg_active groups)\<rparr>"

subsection \<open>Bindings\<close>

definition slo_group_tag :: "MinSlo \<Rightarrow> string option" where
  "slo_group_tag slo = Option.bind (ms_tags slo) (\<lambda>t. js_get t ''slo_group'')"

definition buildSloGroupMap :: "MinSlo list \<Rightarrow> (string, string list) jsmap" where
  "buildSloGroupMap slos =
    group_by (\<lambda>s. the (slo_group_tag s)) ms_name (filter (\<lambda>s. truthy (slo_group_tag s)) slos)"

text \<open>\<open>xs[i] ?? []\<close>: the list at an index of a list of lists, empty beyond its end.\<close>

definition nth_or_empty :: "'a list list \<Rightarrow> nat \<Rightarrow> 'a list" where
  "nth_or_empty xs i = (if i < length xs then xs ! i else [])"

definition expand_assignment :: "(string, string list) jsmap \<Rightarrow> MinGroupAssignment \<Rightarrow> MinBinding list" where
  "expand_assignment sloGroupMap ga =
    map (\<lambda>n. \<lparr>mb_sloName = n, mb_dataSourceName = mga_dataSourceName ga\<rparr>)
      (nullish (js_get sloGroupMap (mga_sloGroupName ga)) [mga_sloGroupName ga])"

record MergedBindings =
  mrg_allBindings :: "MinBinding list"
  mrg_groupBindingsMap :: "(string, MinBinding list) jsmap"
  mrg_assetBindingsMap :: "(string, MinBinding list) jsmap"

text \<open>\<open>byName[names[i]] = rows[i]\<close> for each index in turn.\<close>

definition by_name :: "string list \<Rightarrow> (nat \<Rightarrow> MinBinding list) \<Rightarrow> (string, MinBinding list) jsmap" where
  "by_name names rows = foldl (\<lambda>m i. js_set (names ! i) (rows i) m) [] [0..<length names]"

definition asset_rows ::
    "MinBinding list list \<Rightarrow> MinGroupAssignment list list \<Rightarrow> (string, string list) jsmap \<Rightarrow> nat \<Rightarrow> MinBinding list" where
  "asset_rows direct viaGroup sloGroupMap i =
    nth_or_empty direct i @ concat (map (expand_assignment sloGroupMap) (nth_or_empty viaGroup i))"

definition mergeBindings ::
    "string list \<Rightarrow> string list \<Rightarrow> MinBinding list list \<Rightarrow> MinBinding list list
      \<Rightarrow> MinGroupAssignment list list \<Rightarrow> (string, string list) jsmap \<Rightarrow> MergedBindings" where
  "mergeBindings groupNames assetNames groupAssignments directAssetAssignments assetGroupAssignments sloGroupMap =
    (let assetRows = asset_rows directAssetAssignments assetGroupAssignments sloGroupMap;
         flat = concat (map (nth_or_empty groupAssignments) [0..<length groupNames])
           @ concat (map assetRows [0..<length assetNames])
     in \<lparr>mrg_allBindings = dedup_by binding_key [] flat,
         mrg_groupBindingsMap = by_name groupNames (nth_or_empty groupAssignments),
         mrg_assetBindingsMap = by_name assetNames assetRows\<rparr>)"

text \<open>
  \<open>useAllGroupLinks\<close>: the queries of all named groups; \<open>data\<close> gives the assignments loaded for a
  group, \<open>None\<close> while they are not.
\<close>

definition useAllGroupLinks ::
    "string list \<Rightarrow> (string \<Rightarrow> MinBinding list option) \<Rightarrow> MinBinding list \<times> (string, MinBinding list) jsmap" where
  "useAllGroupLinks groupNames data =
    (let filtered = filter (\<lambda>n. n \<noteq> ''__ungrouped__'') groupNames;
         rows = (\<lambda>i. nullish (data (filtered ! i)) [])
     in (dedup_by binding_key [] (concat (map rows [0..<length filtered])), by_name filtered rows))"

subsection \<open>Searching\<close>

definition text_matches :: "string \<Rightarrow> string \<Rightarrow> string option \<Rightarrow> bool" where
  "text_matches lower nm dn = (includes_str (toLowerCase nm) lower \<or>
     (case dn of None \<Rightarrow> False | Some d \<Rightarrow> includes_str (toLowerCase d) lower))"

text \<open>The node kept in the result, if any, as a list.\<close>

fun filter_node :: "string \<Rightarrow> TreeNode \<Rightarrow> TreeNode list" where
  "filter_node lower (TreeNode i nm dn ty bd st children bch gn atn) =
    (let nameMatch = text_matches lower nm dn;
         filteredChildren = (case children of None \<Rightarrow> []
           | Some cs \<Rightarrow> concat (map (filter_node lower) cs))
     in if nameMatch \<or> filteredChildren \<noteq> []
        then [TreeNode i nm dn ty bd st
          (if nameMatch then children else if filteredChildren \<noteq> [] then Some filteredChildren else None)
          bch gn atn]
        else [])"

definition filterTree :: "TreeNode list \<Rightarrow> string \<Rightarrow> TreeNode list" where
  "filterTree nodes search = (if search = [] then nodes
     else concat (map (filter_node (toLowerCase search)) nodes))"

subsection \<open>Searching keeps exactly the matches\<close>

text \<open>The ids of the matching nodes of a tree, in preorder.\<close>

fun match_ids :: "string \<Rightarrow> TreeNode \<Rightarrow> string list" where
  "match_ids lower (TreeNode i nm dn ty bd st children bch gn atn) =
    (if text_matches lower nm dn then [i] else [])
    @ (case children of None \<Rightarrow> [] | Some cs \<Rightarrow> concat (map (match_ids lower) cs))"

lemma concat_map_concat:
  "(\<And>x. x \<in> set xs \<Longrightarrow> concat (map g (f x)) = h x) \<Longrightarrow> concat (map g (concat (map f xs))) = concat (map h xs)"
  by (induction xs) auto

lemma filter_node_props:
  "(filter_node l n = [] \<longleftrightarrow> match_ids l n = []) \<and>
   concat (map (match_ids l) (filter_node l n)) = match_ids l n \<and>
   concat (map (filter_node l) (filter_node l n)) = filter_node l n"
proof (induction n)
  case (TreeNode i nm dn ty bd st children bch gn atn)
  let ?cs = "case children of None \<Rightarrow> [] | Some cs \<Rightarrow> cs"
  have IH: "filter_node l c = [] \<longleftrightarrow> match_ids l c = []"
    "concat (map (match_ids l) (filter_node l c)) = match_ids l c"
    "concat (map (filter_node l) (filter_node l c)) = filter_node l c" if "c \<in> set ?cs" for c
    using TreeNode that by (cases children; force)+
  have e: "concat (map (filter_node l) ?cs) = [] \<longleftrightarrow> concat (map (match_ids l) ?cs) = []"
    using IH(1) by (auto simp: concat_eq_Nil_conv)
  have m: "concat (map (match_ids l) (concat (map (filter_node l) ?cs))) = concat (map (match_ids l) ?cs)"
    using IH(2) by (rule concat_map_concat)
  have f: "concat (map (filter_node l) (concat (map (filter_node l) ?cs))) = concat (map (filter_node l) ?cs)"
    using IH(3) by (rule concat_map_concat)
  show ?case
    using e m f by (cases children) (auto simp: Let_def)
qed


definition leaf_node :: "string \<Rightarrow> TreeNode list option \<Rightarrow> TreeNode" where
  "leaf_node nm cs = TreeNode nm nm None NGroup None None cs None None None"


subsection \<open>When the asset tree can be built\<close>

interpretation group_tree: unfold_rec "subgroups_of (ati_allGroups inp)" "group_node inp" "buildGroupNode inp"
  for inp
  by unfold_locales simp_all

text \<open>
  C16. The asset tree is built, with the same result for every sufficient fuel, exactly when following
  the subgroups of each top-level group ends; a group that contains itself, at any depth, overflows
  the stack.
\<close>

theorem buildAssetTree_returns:
  "((\<exists>fuel. buildAssetTree inp fuel tops \<noteq> None) \<longleftrightarrow>
      (\<forall>g \<in> set tops. unfolds (subgroups_of (ati_allGroups inp)) g)) \<and>
   (buildAssetTree inp n tops = Some t \<longrightarrow> n \<le> m \<longrightarrow> buildAssetTree inp m tops = Some t)"
  unfolding buildAssetTree_def
  using group_tree.run_all_returns [of inp tops] group_tree.run_all_mono [of inp n tops t m] by blast

definition demo_group :: "string \<Rightarrow> string list \<Rightarrow> MinGroup" where
  "demo_group nm subs = \<lparr>mg_name = nm, mg_displayName = None, mg_members = None,
     mg_subgroups = Some (map (\<lambda>s. \<lparr>msg_groupId = s, msg_groupName = s\<rparr>) subs)\<rparr>"

definition demo_tree :: "MinGroup list \<Rightarrow> asset_tree_input" where
  "demo_tree gs = \<lparr>ati_allGroups = gs, ati_groupBindings = [], ati_assetBindings = [],
     ati_slos = None, ati_slis = None\<rparr>"

theorem buildAssetTree_returns_witness:
  "buildAssetTree (demo_tree [demo_group ''a'' [''a'']]) 100 [demo_group ''a'' [''a'']] = None \<and>
   buildAssetTree (demo_tree [demo_group ''a'' []]) 7 [demo_group ''a'' []] \<noteq> None"
proof
  let ?g = "demo_group ''a'' [''a'']"
  have sub: "subgroups_of [?g] ?g = [?g]"
    by (simp add: subgroups_of_def demo_group_def index_by_def js_get_def map_filter_simps)
  have "\<not> unfolds (subgroups_of [?g]) ?g" using unfolds_no_loop sub by fastforce
  then show "buildAssetTree (demo_tree [?g]) 100 [?g] = None"
    using buildAssetTree_returns [of "demo_tree [?g]" "[?g]"] by (auto simp: demo_tree_def)
  let ?h = "demo_group ''a'' []"
  have "buildAssetTree (demo_tree [?h]) 1 [?h] \<noteq> None"
    by (simp add: buildAssetTree_def demo_tree_def demo_group_def subgroups_of_def map_filter_simps)
  then show "buildAssetTree (demo_tree [?h]) 7 [?h] \<noteq> None"
    using buildAssetTree_returns [of "demo_tree [?h]" "[?h]" 1 _ 7] by auto
qed

subsection \<open>Bindings and the SLOs of a data source\<close>

lemma binding_key_inject:
  assumes "CHR ''|'' \<notin> set (mb_sloName a)" and "CHR ''|'' \<notin> set (mb_sloName b)"
  shows "binding_key a = binding_key b \<longleftrightarrow> a = b"
proof
  assume "binding_key a = binding_key b"
  then have "mb_sloName a = mb_sloName b \<and> mb_dataSourceName a = mb_dataSourceName b"
    using assms sep_key_inject [of "CHR ''|''" "mb_sloName a" "mb_sloName b" "mb_dataSourceName a" "mb_dataSourceName b"]
    by (simp add: binding_key_def)
  then show "a = b" by (cases a; cases b) simp
qed simp

lemma dedup_bindings:
  assumes "\<forall>b \<in> set bs. CHR ''|'' \<notin> set (mb_sloName b)"
  shows "distinct (dedup_by binding_key [] bs) \<and> set (dedup_by binding_key [] bs) = set bs"
proof
  show "distinct (dedup_by binding_key [] bs)" using dedup_by_distinct [of binding_key "[]" bs] by (simp add: distinct_map)
  have sub: "set (dedup_by binding_key [] bs) \<subseteq> set bs" by (rule dedup_by_subset)
  moreover have "b \<in> set (dedup_by binding_key [] bs)" if b: "b \<in> set bs" for b
  proof -
    have "binding_key b \<in> binding_key ` set (dedup_by binding_key [] bs)" using b dedup_by_keys [of binding_key "[]" bs] by simp
    then obtain c where c: "c \<in> set (dedup_by binding_key [] bs)" "binding_key b = binding_key c" by blast
    then show ?thesis using binding_key_inject [of b c] assms b sub by auto
  qed
  ultimately show "set (dedup_by binding_key [] bs) = set bs" by blast
qed

lemma by_name_get: "distinct names \<Longrightarrow> i < length names \<Longrightarrow> js_get (by_name names rows) (names ! i) = Some (rows i)"
proof -
  assume d: "distinct names" and i: "i < length names"
  have gen: "js_get (foldl (\<lambda>m i. js_set (names ! i) (rows i) m) m [0..<n]) (names ! i) = Some (rows i)"
    if "i < n" "n \<le> length names" for m n
    using that
  proof (induction n)
    case (Suc n)
    then show ?case using d i by (cases "i = n") (auto simp: js_get_set nth_eq_iff_index_eq)
  qed simp
  show ?thesis unfolding by_name_def using gen [of "length names" "[]"] i by simp
qed

text \<open>
  C5. Merging bindings: every group and asset keeps exactly its own list, an asset's SLO-group
  assignments expanded to the SLOs of the group; and the overall list has every binding of those
  lists once, when no SLO name contains the separator, which entity names never do.
\<close>

theorem mergeBindings_correct:
  assumes "m = mergeBindings gs as ga da aga sgm" and "distinct gs" and "distinct as"
    and "\<forall>b \<in> set (concat (map (nth_or_empty ga) [0..<length gs])) \<union>
        set (concat (map (asset_rows da aga sgm) [0..<length as])). isValidEntityName (mb_sloName b)"
  shows "(\<forall>i < length gs. js_get (mrg_groupBindingsMap m) (gs ! i) = Some (nth_or_empty ga i)) \<and>
    (\<forall>i < length as. js_get (mrg_assetBindingsMap m) (as ! i) =
       Some (nth_or_empty da i @ concat (map (expand_assignment sgm) (nth_or_empty aga i)))) \<and>
    distinct (mrg_allBindings m) \<and>
    set (mrg_allBindings m) = (\<Union>i < length gs. set (nth_or_empty ga i)) \<union> (\<Union>i < length as. set (asset_rows da aga sgm i))"
proof -
  let ?flat = "concat (map (nth_or_empty ga) [0..<length gs]) @ concat (map (asset_rows da aga sgm) [0..<length as])"
  have "\<forall>b \<in> set ?flat. CHR ''|'' \<notin> set (mb_sloName b)" using assms(4) valid_name_no_sep(1) by (metis set_append)
  note d = dedup_bindings [OF this]
  have "set ?flat = (\<Union>i < length gs. set (nth_or_empty ga i)) \<union> (\<Union>i < length as. set (asset_rows da aga sgm i))"
    by (simp add: atLeast0LessThan)
  then show ?thesis using d assms(2,3)
    by (simp add: assms(1) mergeBindings_def Let_def by_name_get asset_rows_def)
qed

definition demo_binding :: "string \<Rightarrow> MinBinding" where
  "demo_binding s = \<lparr>mb_sloName = s, mb_dataSourceName = ''prom''\<rparr>"

theorem mergeBindings_correct_witness:
  "set (mrg_allBindings (mergeBindings [''g''] [''a''] [[demo_binding ''s'']] [[demo_binding ''s'']] [] []))
    = {demo_binding ''s''}"
proof -
  have v: "isValidEntityName ''s''" by code_simp
  show ?thesis
    by (subst mergeBindings_correct [OF refl, THEN conjunct2, THEN conjunct2, THEN conjunct2])
      (use v in \<open>simp_all add: nth_or_empty_def asset_rows_def demo_binding_def lessThan_Suc\<close>)
qed

text \<open>
  The links of all groups are the bindings that merging gives for those groups alone, without the
  pseudo group of ungrouped assets.
\<close>

lemma useAllGroupLinks_merge:
  "useAllGroupLinks names loaded =
    (let filtered = filter (\<lambda>n. n \<noteq> ''__ungrouped__'') names;
         m = mergeBindings filtered [] (map (\<lambda>n. nullish (loaded n) []) filtered) [] [] []
     in (mrg_allBindings m, mrg_groupBindingsMap m))"
proof -
  define f where "f = filter (\<lambda>n. n \<noteq> ''__ungrouped__'') names"
  define rows where "rows = map (\<lambda>n. nullish (loaded n) []) f"
  have eq: "nullish (loaded (f ! i)) [] = nth_or_empty rows i" if "i < length f" for i
    using that by (simp add: nth_or_empty_def rows_def)
  have m: "map (\<lambda>i. nullish (loaded (f ! i)) []) [0..<length f] = map (nth_or_empty rows) [0..<length f]"
    using eq by (intro map_cong) auto
  have fd: "foldl (\<lambda>m i. js_set (f ! i) (nullish (loaded (f ! i)) []) m) [] [0..<length f] =
      foldl (\<lambda>m i. js_set (f ! i) (nth_or_empty rows i) m) [] [0..<length f]"
    using eq by (intro foldl_cong) auto
  show ?thesis
    unfolding useAllGroupLinks_def mergeBindings_def by_name_def Let_def f_def [symmetric] rows_def [symmetric]
      m fd by simp
qed

text \<open>
  The SLOs of a group map: under each group's name, the SLOs tagged with it, in order.
\<close>

lemma buildSloGroupMap_correct:
  "nullish (js_get (buildSloGroupMap slos) g) [] =
    (if g = [] then [] else map ms_name (filter (\<lambda>s. slo_group_tag s = Some g) slos))"
proof -
  have "filter (\<lambda>s. the (slo_group_tag s) = g) (filter (\<lambda>s. truthy (slo_group_tag s)) slos) =
      (if g = [] then [] else filter (\<lambda>s. slo_group_tag s = Some g) slos)"
    by (induction slos) (auto elim!: truthyE split: if_splits)
  then show ?thesis by (simp add: buildSloGroupMap_def group_by_get)
qed

text \<open>The names of the SLO leaves below a data source: under an SLI node or directly.\<close>

definition kids :: "TreeNode \<Rightarrow> TreeNode list" where
  "kids n = nullish (tn_children n) []"

definition leaf_slos :: "TreeNode \<Rightarrow> string list" where
  "leaf_slos ds = concat (map (\<lambda>c. if tn_type c = NSli then map tn_name (kids c) else [tn_name c]) (kids ds))"

lemma group_by_concat:
  "js_map_ok m \<Longrightarrow> mset (concat (map snd m)) = (\<Sum>k \<in> set (js_keys m). mset (nullish (js_get m k) []))"
proof (induction m)
  case (Cons p m)
  obtain k v where p: "p = (k, v)" by (cases p)
  have k: "k \<notin> set (js_keys m)" using Cons.prems p by (simp add: js_map_ok_def js_keys_def)
  have "js_get (p # m) x = js_get m x" if "x \<in> set (js_keys m)" for x using that k p by (auto simp: js_get_def)
  then have "(\<Sum>x \<in> set (js_keys m). mset (nullish (js_get (p # m) x) [])) =
      (\<Sum>x \<in> set (js_keys m). mset (nullish (js_get m x) []))" by simp
  moreover have "js_map_ok m" using Cons.prems p by (simp add: js_map_ok_def js_keys_def)
  ultimately show ?case using Cons.IH k p by (simp add: js_keys_def js_get_def)
qed (simp add: js_keys_def)

lemma group_by_partition:
  "mset (concat (map snd (group_by f id xs))) = mset xs"
proof -
  let ?m = "group_by f id xs"
  have keys: "set (js_keys ?m) = f ` set xs"
    using js_get_None_iff [of ?m] group_by_None [of f id xs] by blast
  have "mset (concat (map snd ?m)) = (\<Sum>k \<in> f ` set xs. mset (filter (\<lambda>x. f x = k) xs))"
    using group_by_concat [of ?m] group_by_get [of f id xs] by (simp add: keys)
  also have "\<dots> = (\<Sum>k \<in> f ` set xs. filter_mset (\<lambda>x. f x = k) (mset xs))" by simp
  also have "\<dots> = mset xs"
  proof -
    have "(\<Sum>k \<in> K. filter_mset (\<lambda>x. f x = k) M) = filter_mset (\<lambda>x. f x \<in> K) M" if "finite K" for K and M :: "'a multiset"
      using that by (induction K) (auto intro!: multiset_eqI)
    then have "(\<Sum>k \<in> f ` set xs. filter_mset (\<lambda>x. f x = k) (mset xs)) = filter_mset (\<lambda>x. f x \<in> f ` set xs) (mset xs)"
      by simp
    also have "\<dots> = mset xs" by (intro multiset_eqI) (auto simp: count_eq_zero_iff)
    finally show ?thesis .
  qed
  finally show ?thesis .
qed

lemma datasource_children:
  "kids (datasource_node slis slos bindings ds) =
    (let m = group_by (sli_of_slo slos) id (bound_slos bindings (md_name ds)) in
     map (sli_group_node slos slis) (filter (\<lambda>(k, _). k \<noteq> no_sli) m)
     @ map (slo_leaf slos) (nullish (js_get m no_sli) []))"
  by (simp add: kids_def datasource_node_def Let_def)

lemma js_get_split:
  "js_map_ok m \<Longrightarrow> mset (concat (map snd (filter (\<lambda>(k, _). k \<noteq> x) m))) + mset (nullish (js_get m x) [])
    = mset (concat (map snd m))"
proof (induction m)
  case (Cons p m)
  obtain k v where p: "p = (k, v)" by (cases p)
  have ok: "js_map_ok m" "k \<notin> set (js_keys m)" using Cons.prems p by (simp_all add: js_map_ok_def js_keys_def)
  have f: "filter (\<lambda>(k', _). k' \<noteq> k) m = m" using ok(2) by (force simp: js_keys_def filter_id_conv)
  show ?case
  proof (cases "k = x")
    case True
    then show ?thesis using f p by (simp add: js_get_def)
  next
    case False
    then have "js_get (p # m) x = js_get m x" using p by (simp add: js_get_def)
    then show ?thesis using Cons.IH [OF ok(1)] False p by (simp add: add.assoc)
  qed
qed (simp add: js_get_def)

text \<open>
  The data source tree shows every SLO bound to a data source exactly once below it: grouped under
  the SLI it names, or directly when it has none.
\<close>

lemma buildDatasourceTree_complete:
  "map (\<lambda>n. mset (leaf_slos n)) (buildDatasourceTree dss slis slos bindings) =
    map (\<lambda>ds. mset (uniq (map mb_sloName (filter (\<lambda>b. mb_dataSourceName b = md_name ds) bindings)))) dss"
proof -
  have "mset (leaf_slos (datasource_node slis slos bindings ds)) = mset (bound_slos bindings (md_name ds))" for ds
  proof -
    let ?m = "group_by (sli_of_slo slos) id (bound_slos bindings (md_name ds))"
    have sli: "tn_type (sli_group_node slos slis e) = NSli \<and> map tn_name (kids (sli_group_node slos slis e)) = snd e" for e
      by (cases e) (simp add: sli_group_node_def slo_leaf_def kids_def Let_def comp_def)
    have leaf: "tn_type (slo_leaf slos n) = NSlo \<and> tn_name (slo_leaf slos n) = n" for n
      by (simp add: slo_leaf_def Let_def)
    have "leaf_slos (datasource_node slis slos bindings ds) =
        concat (map snd (filter (\<lambda>(k, _). k \<noteq> no_sli) ?m)) @ nullish (js_get ?m no_sli) []"
      unfolding leaf_slos_def datasource_children Let_def using sli leaf by (simp add: comp_def)
    then show ?thesis using js_get_split [of ?m no_sli] group_by_partition by simp
  qed
  then show ?thesis by (simp add: buildDatasourceTree_def bound_slos_def)
qed

text \<open>The tree without the badges of its SLI nodes.\<close>

fun unbadge :: "TreeNode \<Rightarrow> TreeNode" where
  "unbadge (TreeNode i nm dn ty bd st children bch gn atn) =
    TreeNode i nm dn ty (if ty = NSli then None else bd) st (map_option (map unbadge) children) bch gn atn"

text \<open>
  The SLO sections split the active SLOs by kind, without overlap; the standard section is the SLO
  tree of the standard SLOs up to the badges of the SLI nodes.
\<close>

lemma buildSloSections_correct:
  "map unbadge (ss_standard (buildSloSections slos slis dss bs groups)) =
     map unbadge (buildSloTree (standard_slos slos) slis dss bs) \<and>
   map tn_name (ss_templates (buildSloSections slos slis dss bs groups)) = map ms_name (template_slos slos) \<and>
   set (standard_slos slos) \<inter> set (template_slos slos) = {} \<and>
   set (standard_slos slos) \<union> set (template_slos slos) =
     {s \<in> set slos. ms_active s \<and> ms_kind s \<in> {None, Some ''standard'', Some ''template''}}"
proof (intro conjI)
  have "filter ms_active (standard_slos slos) = standard_slos slos" unfolding standard_slos_def filter_filter by (rule filter_cong) auto
  then show "map unbadge (ss_standard (buildSloSections slos slis dss bs groups)) =
     map unbadge (buildSloTree (standard_slos slos) slis dss bs)"
    by (simp add: buildSloSections_def buildSloTree_def slo_node_def Let_def)
  show "map tn_name (ss_templates (buildSloSections slos slis dss bs groups)) = map ms_name (template_slos slos)"
    by (simp add: buildSloSections_def template_node_def Let_def)
  show "set (standard_slos slos) \<inter> set (template_slos slos) = {}"
    by (auto simp: standard_slos_def template_slos_def)
  show "set (standard_slos slos) \<union> set (template_slos slos) =
     {s \<in> set slos. ms_active s \<and> ms_kind s \<in> {None, Some ''standard'', Some ''template''}}"
    by (auto simp: standard_slos_def template_slos_def nullish_def split: option.splits)
qed

text \<open>The badges themselves always differ: a bare number or nothing, against a phrase.\<close>

lemma sli_badges_differ: "count_badge sli \<noteq> indicators_badge sli"
proof
  assume "count_badge sli = indicators_badge sli"
  then have "length (show_nat (indicator_count sli)) = length (show_nat (indicator_count sli) @ '' indicators'')"
    by (simp add: count_badge_def indicators_badge_def split: if_splits)
  then show False by simp
qed

end
