(* ===== verification/NavigatorView.thy ===== *)
theory NavigatorView
  imports Domain Unfold "HOL-Library.List_Lexorder" "HOL-Library.Char_ord"
begin

text \<open>
  The navigator: the mini heatmaps of an asset (\<open>features/navigator/mappers.ts\<close>), the heatmap and the
  score chart of a group (\<open>utils.ts\<close>), counting and collecting the assets of a group
  (\<open>components/treeUtils.ts\<close>, \<open>features/assets/utils.ts\<close>), and the lazy-loading hook
  (\<open>hooks/useInViewport.ts\<close>). The wire types are records with the fields the mappers read. The
  default \<open>sort()\<close> of strings is the lexicographic order of their code units.
\<close>

subsection \<open>Wire and view types\<close>

datatype HeatmapResult = ResPass | ResWarning | ResFail | ResError | ResInvalidated | ResNone

record ChangePointMarkerDto =
  cpmd_direction :: string
  cpmd_change_relative_pct :: "rat option"
  cpmd_transition :: "Transition option"
  cpmd_change_absolute :: "rat option"

record EvaluationColumnDto =
  ecd_evaluation_id :: string
  ecd_period_start :: string
  ecd_period_end :: string
  ecd_eval_name :: string
  ecd_has_notes :: bool

record HeatmapSummaryCellDto =
  hsd_evaluation_id :: string
  hsd_period_start :: string
  hsd_result :: string
  hsd_score :: rat
  hsd_invalidated :: bool
  hsd_invalidation_note :: "string option"
  hsd_total_score_pass_threshold :: "rat option"
  hsd_total_score_warning_threshold :: "rat option"

record HeatmapCellGroupedDto =
  hcd_evaluation_id :: string
  hcd_slo_evaluation_id :: string
  hcd_period_start :: string
  hcd_metric :: string
  hcd_display_name :: string
  hcd_result :: string
  hcd_score :: rat
  hcd_change_point :: "ChangePointMarkerDto option"

record HeatmapMetric =
  hm_name :: string
  hm_displayName :: string

record SloGroupDto =
  sgd_slo_name :: string
  sgd_slo_display_name :: "string option"
  sgd_metrics :: "HeatmapMetric list"
  sgd_cells :: "HeatmapCellGroupedDto list"
  sgd_summary :: "HeatmapSummaryCellDto list"

record HeatmapEChartsCell =
  hc_value :: "nat \<times> nat"
  hc_result :: HeatmapResult
  hc_score :: int
  hc_slot :: string
  hc_periodStart :: string
  hc_rowLabel :: string
  hc_evalId :: "string option"
  hc_columnKey :: "string option"
  hc_evaluation_name :: "string option"
  hc_hasNote :: "bool option"
  hc_noteContent :: "string option"
  hc_isSloHeader :: bool
  hc_sloName :: "string option"
  hc_metricName :: "string option"
  hc_changePoint :: "ChangePointMarker option"

record TimeSlotSelection =
  tss_periodStart :: string
  tss_evalIds :: "string list"
  tss_columnEvalId :: "string option"
  tss_specificSloEvalId :: "string option"

record MiniHeatmapView =
  mv_rows :: "string list"
  mv_cells :: "HeatmapEChartsCell list"
  mv_headerRowIndices :: "nat list"

record GroupHeatmapData =
  gh_slots :: "string list"
  gh_rows :: "string list"
  gh_cells :: "HeatmapEChartsCell list"

record AssetScorePoint =
  asp_slot :: string
  asp_assetName :: string
  asp_score :: rat
  asp_result :: HeatmapResult
  asp_maxScore :: rat

record SlotScoreData =
  ssd_slot :: string
  ssd_assets :: "AssetScorePoint list"
  ssd_totalAchieved :: rat
  ssd_totalMax :: rat

subsection \<open>Results and scores\<close>

definition normalizeResult :: "string option \<Rightarrow> HeatmapResult" where
  "normalizeResult raw =
    (if raw = Some ''pass'' then ResPass
     else if raw = Some ''warning'' then ResWarning
     else if raw = Some ''fail'' then ResFail
     else if raw = Some ''error'' then ResError
     else if raw = Some ''invalidated'' then ResInvalidated
     else if raw = None \<or> raw = Some [] then ResNone
     else ResError)"

definition canonicalSummaryResult :: "HeatmapSummaryCellDto \<Rightarrow> HeatmapResult" where
  "canonicalSummaryResult summary =
    (if hsd_invalidated summary then ResInvalidated else normalizeResult (Some (hsd_result summary)))"

definition scoreToDisplay :: "rat option \<Rightarrow> int" where
  "scoreToDisplay raw = (case raw of None \<Rightarrow> 0 | Some x \<Rightarrow> js_round x)"

definition changePointToMarker :: "ChangePointMarkerDto option \<Rightarrow> ChangePointMarker option" where
  "changePointToMarker dto = map_option (\<lambda>d.
     \<lparr>cpm_direction = cpmd_direction d, cpm_changeRelativePct = cpmd_change_relative_pct d,
      cpm_transition = cpmd_transition d, cpm_changeAbsolute = cpmd_change_absolute d\<rparr>) dto"

text \<open>A cell without the optional fields.\<close>

definition base_cell ::
    "nat \<times> nat \<Rightarrow> HeatmapResult \<Rightarrow> int \<Rightarrow> string \<Rightarrow> string \<Rightarrow> string \<Rightarrow> HeatmapEChartsCell" where
  "base_cell v res score slot periodStart rowLabel =
    \<lparr>hc_value = v, hc_result = res, hc_score = score, hc_slot = slot, hc_periodStart = periodStart,
     hc_rowLabel = rowLabel, hc_evalId = None, hc_columnKey = None, hc_evaluation_name = None, hc_hasNote = None, hc_noteContent = None,
     hc_isSloHeader = False, hc_sloName = None, hc_metricName = None, hc_changePoint = None\<rparr>"

subsection \<open>Mini heatmaps\<close>

definition summary_lookup :: "HeatmapSummaryCellDto list \<Rightarrow> string \<Rightarrow> HeatmapSummaryCellDto option" where
  "summary_lookup summary i = js_get (index_by hsd_evaluation_id summary) i"

definition summary_cell ::
    "HeatmapSummaryCellDto option \<Rightarrow> nat \<Rightarrow> nat \<Rightarrow> string \<Rightarrow> EvaluationColumnDto \<Rightarrow> HeatmapEChartsCell" where
  "summary_cell found xi yi rowLabel column =
    (base_cell (xi, yi)
       (case found of None \<Rightarrow> ResNone | Some s \<Rightarrow> canonicalSummaryResult s)
       (scoreToDisplay (map_option hsd_score found))
       (ecd_evaluation_id column) (ecd_period_start column) rowLabel)
     \<lparr>hc_columnKey := Some (ecd_evaluation_id column), hc_evaluation_name := Some (ecd_eval_name column)\<rparr>"

definition overallScoreToMiniView ::
    "EvaluationColumnDto list \<Rightarrow> HeatmapSummaryCellDto list \<Rightarrow> MiniHeatmapView" where
  "overallScoreToMiniView columns composite =
    \<lparr>mv_rows = [''Overall Score''],
     mv_cells = map (\<lambda>(xi, column).
         summary_cell (summary_lookup composite (ecd_evaluation_id column)) xi 0 ''Overall Score'' column)
       (List.enumerate 0 columns),
     mv_headerRowIndices = []\<rparr>"

datatype DisplayRow = SloHeader (dr_label: string) | IndicatorRow (dr_label: string) (dr_metricName: string)

definition displayRows :: "SloGroupDto \<Rightarrow> bool \<Rightarrow> DisplayRow list" where
  "displayRows grp isExpanded =
    SloHeader (nullish (sgd_slo_display_name grp) (sgd_slo_name grp))
    # (if isExpanded then map (\<lambda>m. IndicatorRow (hm_displayName m) (hm_name m)) (sgd_metrics grp) else [])"

definition indicator_key :: "string \<Rightarrow> string \<Rightarrow> string" where
  "indicator_key evalId metric = evalId @ CHR 0x00 # metric"

definition indicator_lookup :: "HeatmapCellGroupedDto list \<Rightarrow> string \<Rightarrow> string \<Rightarrow> HeatmapCellGroupedDto option" where
  "indicator_lookup cells evalId metric =
    js_get (index_by (\<lambda>c. indicator_key (hcd_evaluation_id c) (hcd_metric c)) cells) (indicator_key evalId metric)"

definition indicator_cell ::
    "SloGroupDto \<Rightarrow> nat \<Rightarrow> nat \<Rightarrow> string \<Rightarrow> string \<Rightarrow> EvaluationColumnDto \<Rightarrow> HeatmapEChartsCell" where
  "indicator_cell grp xi yi label metricName column =
    (let found = indicator_lookup (sgd_cells grp) (ecd_evaluation_id column) metricName
     in (base_cell (xi, yi)
           (case found of None \<Rightarrow> ResNone | Some c \<Rightarrow> normalizeResult (Some (hcd_result c)))
           (scoreToDisplay (map_option hcd_score found))
           (ecd_evaluation_id column) (ecd_period_start column) label)
        \<lparr>hc_columnKey := Some (ecd_evaluation_id column), hc_evaluation_name := Some (ecd_eval_name column),
         hc_evalId := map_option hcd_slo_evaluation_id found, hc_sloName := Some (sgd_slo_name grp),
         hc_metricName := Some metricName,
         hc_changePoint := changePointToMarker (Option.bind found hcd_change_point)\<rparr>)"

fun row_cells :: "SloGroupDto \<Rightarrow> EvaluationColumnDto list \<Rightarrow> nat \<Rightarrow> DisplayRow \<Rightarrow> HeatmapEChartsCell list" where
  "row_cells grp columns yi (SloHeader label) = map (\<lambda>(xi, column).
     (summary_cell (summary_lookup (sgd_summary grp) (ecd_evaluation_id column)) xi yi label column)
       \<lparr>hc_isSloHeader := True, hc_sloName := Some (sgd_slo_name grp)\<rparr>) (List.enumerate 0 columns)"
| "row_cells grp columns yi (IndicatorRow label metricName) = map (\<lambda>(xi, column).
     indicator_cell grp xi yi label metricName column) (List.enumerate 0 columns)"

definition sloGroupToMiniView :: "SloGroupDto \<Rightarrow> EvaluationColumnDto list \<Rightarrow> bool \<Rightarrow> MiniHeatmapView" where
  "sloGroupToMiniView grp columns isExpanded =
    (let drows = displayRows grp isExpanded;
         rowCount = length drows;
         yIndexFor = (\<lambda>i. rowCount - 1 - i)
     in \<lparr>mv_rows = map dr_label (rev drows),
         mv_cells = concat (map (\<lambda>(i, r). row_cells grp columns (yIndexFor i) r) (List.enumerate 0 drows)),
         mv_headerRowIndices = map (\<lambda>(i, r). yIndexFor i)
           (filter (\<lambda>(i, r). is_SloHeader r) (List.enumerate 0 drows))\<rparr>)"

subsection \<open>The group heatmap and score chart\<close>

fun outcome_result :: "Outcome \<Rightarrow> HeatmapResult" where
  "outcome_result Pass = ResPass"
| "outcome_result Warning = ResWarning"
| "outcome_result Fail = ResFail"
| "outcome_result Error = ResError"
| "outcome_result Invalidated = ResInvalidated"

text \<open>\<open>RESULT_RANK[r] ?? 0\<close>.\<close>

fun result_rank :: "HeatmapResult \<Rightarrow> int" where
  "result_rank ResPass = 0"
| "result_rank ResWarning = 1"
| "result_rank ResFail = 2"
| "result_rank ResError = 3"
| "result_rank ResInvalidated = 4"
| "result_rank ResNone = 0"

definition effective_result :: "Evaluation \<Rightarrow> HeatmapResult" where
  "effective_result e = (if ev_invalidated e then ResInvalidated else outcome_result (ev_outcome e))"

definition ev_slot :: "Evaluation \<Rightarrow> string" where
  "ev_slot e = dr_from (ev_period e)"

definition ev_asset :: "Evaluation \<Rightarrow> string" where
  "ev_asset e = as_name (ev_assetSnapshot e)"

definition score_or_0 :: "Evaluation \<Rightarrow> rat" where
  "score_or_0 e = nullish (ev_score e) 0"

record CellInfo =
  cin_result :: HeatmapResult
  cin_score :: rat
  cin_count :: nat
  cin_evalName :: string

definition cell_prefix :: "string \<Rightarrow> string \<Rightarrow> string" where
  "cell_prefix asset slot = asset @ CHR 0x00 # slot @ [CHR 0x00]"

definition cell_key :: "Evaluation \<Rightarrow> string" where
  "cell_key e = cell_prefix (ev_asset e) (ev_slot e) @ ev_evaluationName e"

definition merge_cell :: "Evaluation \<Rightarrow> CellInfo option \<Rightarrow> CellInfo" where
  "merge_cell e found = (case found of
     None \<Rightarrow> \<lparr>cin_result = effective_result e, cin_score = score_or_0 e, cin_count = 1,
       cin_evalName = ev_evaluationName e\<rparr>
   | Some c \<Rightarrow> \<lparr>cin_result = (if result_rank (cin_result c) < result_rank (effective_result e)
         then effective_result e else cin_result c),
       cin_score = (cin_score c * of_nat (cin_count c) + score_or_0 e) / (of_nat (cin_count c) + 1),
       cin_count = cin_count c + 1, cin_evalName = cin_evalName c\<rparr>)"

definition cell_map :: "Evaluation list \<Rightarrow> (string, CellInfo) jsmap" where
  "cell_map evals = foldl (\<lambda>m e. js_set (cell_key e) (merge_cell e (js_get m (cell_key e))) m) [] evals"

definition display_names :: "Evaluation list \<Rightarrow> (string, string) jsmap option \<Rightarrow> (string, string) jsmap" where
  "display_names evals fallbackNames = foldl (\<lambda>m e.
     if js_get m (ev_asset e) \<noteq> None then m
     else let dn = (case as_displayName (ev_assetSnapshot e) of Some d \<Rightarrow> Some d
                | None \<Rightarrow> Option.bind fallbackNames (\<lambda>f. js_get f (ev_asset e)))
          in if truthy dn then js_set (ev_asset e) (the dn) m else m) [] evals"

definition group_cells ::
    "(string, CellInfo) jsmap \<Rightarrow> nat \<Rightarrow> string \<Rightarrow> nat \<Rightarrow> string \<Rightarrow> string \<Rightarrow> HeatmapEChartsCell list" where
  "group_cells cellMap xi slot yi asset row =
    (let matchingKeys = filter (\<lambda>k. startsWith k (cell_prefix asset slot)) (js_keys cellMap)
     in if matchingKeys = [] then [base_cell (xi, yi) ResNone 0 slot slot row]
        else map (\<lambda>mk. let c = the (js_get cellMap mk) in
          (base_cell (xi, yi) (cin_result c) (js_round (cin_score c)) slot slot row)
            \<lparr>hc_evaluation_name := Some (cin_evalName c)\<rparr>) matchingKeys)"

definition slots_of :: "Evaluation list \<Rightarrow> string list" where
  "slots_of evals = sort (uniq (map ev_slot evals))"

definition assets_of :: "Evaluation list \<Rightarrow> string list" where
  "assets_of evals = sort (uniq (map ev_asset evals))"

definition buildGroupHeatmapData ::
    "Evaluation list \<Rightarrow> (string, string) jsmap option \<Rightarrow> GroupHeatmapData" where
  "buildGroupHeatmapData evals fallbackNames =
    (let names = display_names evals fallbackNames;
         rows = map (\<lambda>n. nullish (js_get names n) n) (assets_of evals);
         cellMap = cell_map evals
     in \<lparr>gh_slots = slots_of evals, gh_rows = rows,
         gh_cells = concat (map (\<lambda>(xi, slot). concat (map (\<lambda>(yi, asset).
             group_cells cellMap xi slot yi asset (rows ! yi)) (List.enumerate 0 (assets_of evals))))
           (List.enumerate 0 (slots_of evals)))\<rparr>)"

definition score_point :: "Evaluation \<Rightarrow> AssetScorePoint" where
  "score_point e = \<lparr>asp_slot = ev_slot e, asp_assetName = ev_asset e, asp_score = score_or_0 e,
     asp_result = effective_result e, asp_maxScore = 100\<rparr>"

definition buildGroupScoreData :: "Evaluation list \<Rightarrow> SlotScoreData list" where
  "buildGroupScoreData evals = map (\<lambda>slot.
     let assets = map score_point (filter (\<lambda>e. ev_slot e = slot) evals)
     in \<lparr>ssd_slot = slot, ssd_assets = assets,
         ssd_totalAchieved = foldl (\<lambda>s a. s + asp_score a) 0 assets,
         ssd_totalMax = of_nat (length assets) * 100\<rparr>) (slots_of evals)"

subsection \<open>The assets of a group\<close>

definition resolved_subgroups :: "AssetGroupTree \<Rightarrow> AssetGroup \<Rightarrow> AssetGroup list" where
  "resolved_subgroups tree grp =
    List.map_filter (\<lambda>sg. find (\<lambda>g. ag_id g = gs_groupId sg) (agt_allGroups tree)) (ag_subgroups grp)"

definition collect_node :: "AssetGroup \<Rightarrow> string list list \<Rightarrow> string list" where
  "collect_node grp subs = uniq (map gm_assetName (ag_members grp) @ concat subs)"

fun collectGroupAssetNames :: "AssetGroupTree \<Rightarrow> nat \<Rightarrow> AssetGroup \<Rightarrow> string list option" where
  "collectGroupAssetNames tree 0 grp = None"
| "collectGroupAssetNames tree (Suc fuel) grp =
    map_option (collect_node grp) (those (map (collectGroupAssetNames tree fuel) (resolved_subgroups tree grp)))"

definition count_node :: "AssetGroup \<Rightarrow> nat list \<Rightarrow> nat" where
  "count_node grp subs = foldl (+) (length (ag_members grp)) subs"

fun countLeafMembers :: "AssetGroupTree \<Rightarrow> nat \<Rightarrow> AssetGroup \<Rightarrow> nat option" where
  "countLeafMembers tree 0 grp = None"
| "countLeafMembers tree (Suc fuel) grp =
    map_option (count_node grp) (those (map (countLeafMembers tree fuel) (resolved_subgroups tree grp)))"

subsection \<open>Lazy loading\<close>

text \<open>
  The viewport hook. Its state: the flag, the observer attached by the callback ref (identified by a
  number, \<open>None\<close> when there is none), and the observers connected to an element.
\<close>

record viewport =
  vp_inView :: bool
  vp_observer :: "nat option"
  vp_connected :: "nat list"
  vp_next :: nat

definition initial_viewport :: viewport where
  "initial_viewport = \<lparr>vp_inView = False, vp_observer = None, vp_connected = [], vp_next = 0\<rparr>"

datatype viewport_event = AttachNode | DetachNode | Intersections nat "bool list"

definition disconnect :: "nat option \<Rightarrow> viewport \<Rightarrow> viewport" where
  "disconnect obs v = (case obs of None \<Rightarrow> v | Some n \<Rightarrow> v\<lparr>vp_connected := removeAll n (vp_connected v)\<rparr>)"

definition attach_ref :: "bool \<Rightarrow> viewport \<Rightarrow> viewport" where
  "attach_ref node v =
    (let v1 = (disconnect (vp_observer v) v)\<lparr>vp_observer := None\<rparr>
     in if \<not> node then v1
        else v1\<lparr>vp_connected := vp_next v1 # vp_connected v1, vp_observer := Some (vp_next v1),
               vp_next := vp_next v1 + 1\<rparr>)"

text \<open>The callback of an observer; only a connected one reports.\<close>

definition observe_entries :: "bool \<Rightarrow> nat \<Rightarrow> bool list \<Rightarrow> viewport \<Rightarrow> viewport" where
  "observe_entries once n entries v =
    (if n \<notin> set (vp_connected v) then v
     else if True \<in> set entries then
       (if once then (disconnect (Some n) (v\<lparr>vp_inView := True\<rparr>))\<lparr>vp_observer := None\<rparr>
        else v\<lparr>vp_inView := True\<rparr>)
     else if \<not> once then v\<lparr>vp_inView := False\<rparr> else v)"

fun viewport_step :: "bool \<Rightarrow> viewport_event \<Rightarrow> viewport \<Rightarrow> viewport" where
  "viewport_step once AttachNode v = attach_ref True v"
| "viewport_step once DetachNode v = attach_ref False v"
| "viewport_step once (Intersections n entries) v = observe_entries once n entries v"

definition viewport_run :: "bool \<Rightarrow> viewport_event list \<Rightarrow> viewport" where
  "viewport_run once evs = fold (viewport_step once) evs initial_viewport"

subsection \<open>Properties of the mini heatmaps\<close>

lemma length_row_cells: "length (row_cells grp columns yi r) = length columns"
  by (cases r) simp_all

lemma nth_concat_rows:
  assumes "\<And>x. x \<in> set xss \<Longrightarrow> length x = k" and "i < length xss" and "j < k"
  shows "concat xss ! (i * k + j) = xss ! i ! j"
  using assms
proof (induction xss arbitrary: i)
  case (Cons xs xss)
  then show ?case by (cases i) (auto simp: nth_append)
qed simp

lemma mini_cell:
  assumes "i < length (displayRows grp ex)" and "xi < length columns"
  shows "mv_cells (sloGroupToMiniView grp columns ex) ! (i * length columns + xi) =
    row_cells grp columns (length (displayRows grp ex) - 1 - i) (displayRows grp ex ! i) ! xi"
proof -
  let ?rows = "map (\<lambda>(i, r). row_cells grp columns (length (displayRows grp ex) - 1 - i) r)
      (List.enumerate 0 (displayRows grp ex))"
  have "length x = length columns" if "x \<in> set ?rows" for x using that by (auto simp: length_row_cells)
  then have "concat ?rows ! (i * length columns + xi) = ?rows ! i ! xi"
    using assms by (intro nth_concat_rows) auto
  then show ?thesis using assms by (simp add: sloGroupToMiniView_def Let_def nth_enumerate_eq)
qed

text \<open>
  The mini heatmap of an SLO is a full grid in display order: row by row from the header down, one
  cell per column, drawn at the height whose label is the row's, with the column's run as its slot; an
  indicator cell shows the run's result for that metric, the header the run's summary, and a run
  without data shows none with score 0.
\<close>

lemma sloGroupToMiniView_grid:
  assumes "v = sloGroupToMiniView grp columns ex" and "i < length (displayRows grp ex)"
    and "xi < length columns" and "c = mv_cells v ! (i * length columns + xi)"
  shows "length (mv_cells v) = length (mv_rows v) * length columns \<and>
    fst (hc_value c) = xi \<and> snd (hc_value c) = length (displayRows grp ex) - 1 - i \<and>
    mv_rows v ! snd (hc_value c) = hc_rowLabel c \<and> hc_slot c = ecd_evaluation_id (columns ! xi) \<and>
    (case displayRows grp ex ! i of
       SloHeader _ \<Rightarrow> hc_result c = (case summary_lookup (sgd_summary grp) (hc_slot c) of
           None \<Rightarrow> ResNone | Some s \<Rightarrow> canonicalSummaryResult s)
     | IndicatorRow _ m \<Rightarrow> hc_result c = (case indicator_lookup (sgd_cells grp) (hc_slot c) m of
           None \<Rightarrow> ResNone | Some d \<Rightarrow> normalizeResult (Some (hcd_result d))))"
proof -
  let ?n = "length (displayRows grp ex)"
  have "length (mv_cells v) = ?n * length columns"
    by (simp add: assms(1) sloGroupToMiniView_def Let_def length_concat comp_def case_prod_beta
        length_row_cells sum_list_triv length_enumerate)
  moreover have rows: "mv_rows v = map dr_label (rev (displayRows grp ex))"
    by (simp add: assms(1) sloGroupToMiniView_def Let_def)
  moreover have "mv_rows v ! (?n - 1 - i) = dr_label (displayRows grp ex ! i)"
    using assms(2) by (simp add: rows rev_nth)
  moreover have "c = row_cells grp columns (?n - 1 - i) (displayRows grp ex ! i) ! xi"
    using mini_cell assms by simp
  ultimately show ?thesis using assms(3)
    by (cases "displayRows grp ex ! i")
      (auto simp: nth_enumerate_eq summary_cell_def indicator_cell_def base_cell_def Let_def)
qed

definition demo_column :: EvaluationColumnDto where
  "demo_column = \<lparr>ecd_evaluation_id = ''r1'', ecd_period_start = ''2024-01-01'',
     ecd_period_end = ''2024-01-02'', ecd_eval_name = ''load'', ecd_has_notes = False\<rparr>"

definition demo_slo_group :: SloGroupDto where
  "demo_slo_group = \<lparr>sgd_slo_name = ''slo'', sgd_slo_display_name = None,
     sgd_metrics = [\<lparr>hm_name = ''cpu'', hm_displayName = ''CPU''\<rparr>], sgd_cells = [], sgd_summary = []\<rparr>"

theorem sloGroupToMiniView_grid_witness:
  "hc_result (mv_cells (sloGroupToMiniView demo_slo_group [demo_column] True) ! 1) = ResNone \<and>
   hc_rowLabel (mv_cells (sloGroupToMiniView demo_slo_group [demo_column] True) ! 1) = ''CPU''"
proof -
  have d: "displayRows demo_slo_group True = [SloHeader ''slo'', IndicatorRow ''CPU'' ''cpu'']"
    by (simp add: displayRows_def demo_slo_group_def)
  define v where "v = sloGroupToMiniView demo_slo_group [demo_column] True"
  have rows: "mv_rows v = [''CPU'', ''slo'']" by (simp add: v_def sloGroupToMiniView_def Let_def d)
  have l: "indicator_lookup (sgd_cells demo_slo_group) s m = None" for s m
    by (simp add: indicator_lookup_def demo_slo_group_def index_by_def)
  have "1 < length (displayRows demo_slo_group True)" "0 < length [demo_column]" by (simp_all add: d)
  from sloGroupToMiniView_grid [OF v_def this refl] show ?thesis
    unfolding v_def [symmetric] by (auto simp: d rows l)
qed

text \<open>The lookup key is unambiguous for metrics and runs whose ids have no NUL, such as valid names.\<close>

lemma indicator_key_inject:
  "CHR 0x00 \<notin> set a \<Longrightarrow> CHR 0x00 \<notin> set b \<Longrightarrow> indicator_key a m = indicator_key b n \<longleftrightarrow> a = b \<and> m = n"
  unfolding indicator_key_def by (rule sep_key_inject)

subsection \<open>The group heatmap merges evaluations per asset, slot and name\<close>

text \<open>What the merged cell of some evaluations, oldest first, has to be.\<close>

definition mean_score :: "Evaluation list \<Rightarrow> rat" where
  "mean_score es = sum_list (map score_or_0 es) / of_nat (length es)"

definition worst :: "Evaluation list \<Rightarrow> HeatmapResult \<Rightarrow> bool" where
  "worst es r \<longleftrightarrow> r \<in> effective_result ` set es \<and> (\<forall>e \<in> set es. result_rank (effective_result e) \<le> result_rank r)"

definition nul_free :: "Evaluation list \<Rightarrow> bool" where
  "nul_free evals \<longleftrightarrow> (\<forall>e \<in> set evals. CHR 0x00 \<notin> set (ev_asset e) \<and> CHR 0x00 \<notin> set (ev_slot e))"

definition cell_evals :: "Evaluation list \<Rightarrow> string \<Rightarrow> Evaluation list" where
  "cell_evals evals k = filter (\<lambda>e. cell_key e = k) evals"

definition cell_info_ok :: "Evaluation list \<Rightarrow> CellInfo \<Rightarrow> bool" where
  "cell_info_ok es c \<longleftrightarrow> es \<noteq> [] \<and> worst es (cin_result c) \<and> cin_count c = length es \<and>
     cin_score c = mean_score es \<and> cin_evalName c = ev_evaluationName (hd es)"

lemma cell_info_ok_new: "cell_info_ok [e] (merge_cell e None)"
  by (simp add: cell_info_ok_def merge_cell_def worst_def mean_score_def)

lemma cell_info_ok_merge:
  assumes "cell_info_ok es c"
  shows "cell_info_ok (es @ [e]) (merge_cell e (Some c))"
proof -
  have ne: "es \<noteq> []" and n: "(of_nat (length es) :: rat) \<noteq> 0" using assms by (simp_all add: cell_info_ok_def)
  then have "mean_score es * of_nat (length es) = sum_list (map score_or_0 es)" by (simp add: mean_score_def)
  then have "(mean_score es * of_nat (length es) + score_or_0 e) / (of_nat (length es) + 1) = mean_score (es @ [e])"
    by (simp add: mean_score_def add.commute)
  then show ?thesis using assms ne by (auto simp: cell_info_ok_def merge_cell_def worst_def)
qed

lemma cell_map_ok:
  "js_map_ok (cell_map evals) \<and> set (js_keys (cell_map evals)) = cell_key ` set evals \<and>
    (\<forall>k c. js_get (cell_map evals) k = Some c \<longrightarrow> cell_info_ok (cell_evals evals k) c)"
proof (induction evals rule: rev_induct)
  case Nil
  then show ?case by (simp add: cell_map_def js_keys_def)
next
  case (snoc e evals)
  let ?m = "cell_map evals"
  have m: "cell_map (evals @ [e]) = js_set (cell_key e) (merge_cell e (js_get ?m (cell_key e))) ?m"
    by (simp add: cell_map_def)
  have "cell_info_ok (cell_evals (evals @ [e]) k) c" if "js_get (cell_map (evals @ [e])) k = Some c" for k c
  proof (cases "k = cell_key e")
    case True
    show ?thesis
    proof (cases "js_get ?m k")
      case None
      then have "k \<notin> set (js_keys ?m)" by (rule js_get_None_iff [THEN iffD1])
      moreover have "set (js_keys ?m) = cell_key ` set evals" using snoc by blast
      ultimately have "k \<notin> cell_key ` set evals" by simp
      then have "cell_evals evals k = []" by (auto simp: cell_evals_def filter_empty_conv)
      then have "cell_evals (evals @ [e]) k = [e]" using True by (simp add: cell_evals_def)
      then show ?thesis using that True None cell_info_ok_new [of e] by (auto simp: m js_get_set)
    next
      case (Some d)
      then have "cell_info_ok (cell_evals evals k) d" using snoc by blast
      moreover have "cell_evals (evals @ [e]) k = cell_evals evals k @ [e]" using True by (simp add: cell_evals_def)
      ultimately show ?thesis using that True Some cell_info_ok_merge by (auto simp: m js_get_set)
    qed
  next
    case False
    then show ?thesis using that snoc by (simp add: m js_get_set cell_evals_def)
  qed
  note info = this
  show ?case
  proof (intro conjI)
    show "js_map_ok (cell_map (evals @ [e]))" using snoc by (simp add: m)
    show "set (js_keys (cell_map (evals @ [e]))) = cell_key ` set (evals @ [e])"
      using snoc by (simp add: m set_js_keys_set)
  qed (intro allI impI, rule info)
qed

lemma cell_key_split:
  assumes "nul_free evals" and "e \<in> set evals" and "CHR 0x00 \<notin> set a" and "CHR 0x00 \<notin> set s"
  shows "startsWith (cell_key e) (cell_prefix a s) \<longleftrightarrow> ev_asset e = a \<and> ev_slot e = s"
    and "cell_key e = cell_prefix a s @ n \<longleftrightarrow> ev_asset e = a \<and> ev_slot e = s \<and> ev_evaluationName e = n"
proof -
  have free: "CHR 0x00 \<notin> set (ev_asset e)" "CHR 0x00 \<notin> set (ev_slot e)" using assms by (auto simp: nul_free_def)
  show eq: "cell_key e = cell_prefix a s @ n \<longleftrightarrow> ev_asset e = a \<and> ev_slot e = s \<and> ev_evaluationName e = n" for n
    using sep_key_inject [OF free(1) assms(3)] sep_key_inject [OF free(2) assms(4)]
    by (simp add: cell_key_def cell_prefix_def)
  show "startsWith (cell_key e) (cell_prefix a s) \<longleftrightarrow> ev_asset e = a \<and> ev_slot e = s"
    using eq by (auto simp: startsWith_iff)
qed

lemma group_cells_mem:
  assumes "c \<in> set (group_cells (cell_map evals) xi s yi a row)"
  shows "(hc_evaluation_name c = None \<and> hc_result c = ResNone \<and>
      (\<forall>e \<in> set evals. \<not> startsWith (cell_key e) (cell_prefix a s))) \<or>
    (\<exists>e \<in> set evals. \<exists>i. startsWith (cell_key e) (cell_prefix a s) \<and> cell_info_ok (cell_evals evals (cell_key e)) i \<and>
      hc_evaluation_name c = Some (cin_evalName i) \<and> hc_result c = cin_result i \<and> hc_score c = js_round (cin_score i))"
proof -
  note ok = cell_map_ok [of evals]
  let ?ks = "filter (\<lambda>k. startsWith k (cell_prefix a s)) (js_keys (cell_map evals))"
  show ?thesis
  proof (cases "?ks = []")
    case True
    then have "\<forall>e \<in> set evals. \<not> startsWith (cell_key e) (cell_prefix a s)"
      using ok by (simp add: filter_empty_conv)
    then show ?thesis using assms True by (simp add: group_cells_def Let_def base_cell_def)
  next
    case False
    then obtain k where k: "k \<in> set ?ks" "hc_evaluation_name c = Some (cin_evalName (the (js_get (cell_map evals) k)))"
      "hc_result c = cin_result (the (js_get (cell_map evals) k))"
      "hc_score c = js_round (cin_score (the (js_get (cell_map evals) k)))"
      using assms by (auto simp: group_cells_def Let_def base_cell_def)
    then obtain e where e: "e \<in> set evals" "k = cell_key e" using ok by auto
    have "js_get (cell_map evals) k \<noteq> None" using k(1) by (simp add: js_get_None_iff)
    then obtain i where i: "js_get (cell_map evals) k = Some i" by blast
    then have "cell_info_ok (cell_evals evals (cell_key e)) i" using ok e by blast
    moreover have "startsWith (cell_key e) (cell_prefix a s)" using k(1) e by simp
    ultimately show ?thesis using k(2-4) i e(1) by (intro disjI2 bexI [of _ e] exI [of _ i]) simp_all
  qed
qed

lemma group_cells_complete:
  assumes "e \<in> set evals" and "startsWith (cell_key e) (cell_prefix a s)"
  shows "\<exists>c \<in> set (group_cells (cell_map evals) xi s yi a row). \<exists>i. js_get (cell_map evals) (cell_key e) = Some i \<and>
    hc_evaluation_name c = Some (cin_evalName i)"
proof -
  note ok = cell_map_ok [of evals]
  have k: "cell_key e \<in> set (filter (\<lambda>k. startsWith k (cell_prefix a s)) (js_keys (cell_map evals)))"
    using ok assms by simp
  then have "js_get (cell_map evals) (cell_key e) \<noteq> None" by (simp add: js_get_None_iff)
  then obtain i where i: "js_get (cell_map evals) (cell_key e) = Some i" by blast
  let ?ks = "filter (\<lambda>k. startsWith k (cell_prefix a s)) (js_keys (cell_map evals))"
  have "?ks \<noteq> []" using k by (metis list.set(1) empty_iff)
  then have g: "group_cells (cell_map evals) xi s yi a row = map (\<lambda>mk. let c = the (js_get (cell_map evals) mk) in
      (base_cell (xi, yi) (cin_result c) (js_round (cin_score c)) s s row)\<lparr>hc_evaluation_name := Some (cin_evalName c)\<rparr>) ?ks"
    by (simp add: group_cells_def Let_def)
  show ?thesis unfolding g using k i by (intro bexI [OF _ imageI [OF k, simplified set_map [symmetric]]]) (simp add: Let_def)
qed

lemma set_concat_enumerate:
  "c \<in> set (concat (map (\<lambda>(i, x). f i x) (List.enumerate 0 xs))) \<longleftrightarrow> (\<exists>i < length xs. c \<in> set (f i (xs ! i)))"
proof
  assume "\<exists>i < length xs. c \<in> set (f i (xs ! i))"
  then obtain i where "i < length xs" "c \<in> set (f i (xs ! i))" by blast
  then show "c \<in> set (concat (map (\<lambda>(i, x). f i x) (List.enumerate 0 xs)))"
    by (auto simp: in_set_enumerate_eq intro!: bexI [of _ "(i, xs ! i)"])
qed (auto simp: in_set_enumerate_eq)

text \<open>Where the cells of the group heatmap come from.\<close>

lemma gh_cells_mem:
  "c \<in> set (gh_cells (buildGroupHeatmapData evals fb)) \<longleftrightarrow>
    (\<exists>xi < length (slots_of evals). \<exists>yi < length (assets_of evals).
      c \<in> set (group_cells (cell_map evals) xi (slots_of evals ! xi) yi (assets_of evals ! yi)
        (gh_rows (buildGroupHeatmapData evals fb) ! yi)))"
  unfolding buildGroupHeatmapData_def Let_def GroupHeatmapData.simps set_concat_enumerate ..

lemma group_cells_base:
  "c \<in> set (group_cells m xi s yi a row) \<Longrightarrow> hc_value c = (xi, yi) \<and> hc_slot c = s \<and> hc_rowLabel c = row"
  by (auto simp: group_cells_def Let_def base_cell_def split: if_splits)

lemma nul_free_names:
  assumes "nul_free evals"
  shows "a \<in> set (assets_of evals) \<Longrightarrow> CHR 0x00 \<notin> set a" and "s \<in> set (slots_of evals) \<Longrightarrow> CHR 0x00 \<notin> set s"
  using assms by (auto simp: nul_free_def assets_of_def slots_of_def)

text \<open>What a cell shows of the evaluations of an asset in a slot: nothing, or the merged ones of its name.\<close>

definition cell_shows :: "Evaluation list \<Rightarrow> string \<Rightarrow> string \<Rightarrow> HeatmapEChartsCell \<Rightarrow> bool" where
  "cell_shows evals a s c = (case hc_evaluation_name c of
      None \<Rightarrow> hc_result c = ResNone \<and> (\<forall>e \<in> set evals. \<not> (ev_asset e = a \<and> ev_slot e = s))
    | Some n \<Rightarrow> (let es = filter (\<lambda>e. ev_asset e = a \<and> ev_slot e = s \<and> ev_evaluationName e = n) evals in
        es \<noteq> [] \<and> worst es (hc_result c) \<and> hc_score c = js_round (mean_score es)))"

lemma gh_cell_sound:
  assumes nf: "nul_free evals" and a: "CHR 0x00 \<notin> set a" and s: "CHR 0x00 \<notin> set s"
    and c: "c \<in> set (group_cells (cell_map evals) xi s yi a row)"
  shows "cell_shows evals a s c"
  using group_cells_mem [OF c]
proof (elim disjE conjE bexE exE)
  assume "hc_evaluation_name c = None" "hc_result c = ResNone"
    "\<forall>e \<in> set evals. \<not> startsWith (cell_key e) (cell_prefix a s)"
  then show ?thesis using cell_key_split(1) [OF nf _ a s] by (simp add: cell_shows_def)
next
  fix e i
  assume e: "e \<in> set evals" "startsWith (cell_key e) (cell_prefix a s)" "cell_info_ok (cell_evals evals (cell_key e)) i"
    and h: "hc_evaluation_name c = Some (cin_evalName i)" "hc_result c = cin_result i" "hc_score c = js_round (cin_score i)"
  have k: "ev_asset e = a" "ev_slot e = s" using cell_key_split(1) [OF nf e(1) a s] e(2) by auto
  have key: "cell_key e = cell_prefix a s @ ev_evaluationName e" using k by (simp add: cell_key_def)
  have es: "cell_evals evals (cell_key e) =
      filter (\<lambda>x. ev_asset x = a \<and> ev_slot x = s \<and> ev_evaluationName x = ev_evaluationName e) evals"
    unfolding cell_evals_def key using cell_key_split(2) [OF nf _ a s] by (rule filter_cong [OF refl])
  have "hd (cell_evals evals (cell_key e)) \<in> set (cell_evals evals (cell_key e))"
    using e(3) by (intro hd_in_set) (simp add: cell_info_ok_def)
  then have "cin_evalName i = ev_evaluationName e" using e(3) by (simp add: cell_info_ok_def es)
  then show ?thesis using e(3) h es by (simp add: cell_shows_def cell_info_ok_def Let_def)
qed

lemma gh_cell_complete:
  assumes nf: "nul_free evals" and e: "e \<in> set evals"
  shows "\<exists>c \<in> set (gh_cells (buildGroupHeatmapData evals fb)). hc_slot c = ev_slot e \<and>
      hc_evaluation_name c = Some (ev_evaluationName e) \<and> assets_of evals ! snd (hc_value c) = ev_asset e"
proof -
  obtain xi where xi: "xi < length (slots_of evals)" "slots_of evals ! xi = ev_slot e"
    using e by (metis (no_types, lifting) image_eqI in_set_conv_nth list.set_map set_sort set_uniq slots_of_def)
  obtain yi where yi: "yi < length (assets_of evals)" "assets_of evals ! yi = ev_asset e"
    using e by (metis (no_types, lifting) image_eqI in_set_conv_nth list.set_map set_sort set_uniq assets_of_def)
  have "startsWith (cell_key e) (cell_prefix (ev_asset e) (ev_slot e))" by (simp add: cell_key_def)
  from group_cells_complete [OF e this] obtain c i where
    c: "c \<in> set (group_cells (cell_map evals) xi (ev_slot e) yi (ev_asset e) (gh_rows (buildGroupHeatmapData evals fb) ! yi))"
    "js_get (cell_map evals) (cell_key e) = Some i" "hc_evaluation_name c = Some (cin_evalName i)" by blast
  have "cell_info_ok (cell_evals evals (cell_key e)) i" using cell_map_ok [of evals] c(2) by blast
  then have "cin_evalName i = ev_evaluationName (hd (cell_evals evals (cell_key e)))"
    "hd (cell_evals evals (cell_key e)) \<in> set (cell_evals evals (cell_key e))"
    by (simp_all add: cell_info_ok_def)
  moreover have "ev_evaluationName x = ev_evaluationName e" if "x \<in> set (cell_evals evals (cell_key e))" for x
  proof -
    have x: "x \<in> set evals" "cell_key x = cell_prefix (ev_asset e) (ev_slot e) @ ev_evaluationName e"
      using that by (simp_all add: cell_evals_def cell_key_def)
    have "CHR 0x00 \<notin> set (ev_asset e)" "CHR 0x00 \<notin> set (ev_slot e)" using nf e by (simp_all add: nul_free_def)
    then show ?thesis using cell_key_split(2) [OF nf x(1)] x(2) by blast
  qed
  ultimately have "hc_evaluation_name c = Some (ev_evaluationName e)" using c(3) by simp
  moreover have "c \<in> set (gh_cells (buildGroupHeatmapData evals fb))"
    unfolding gh_cells_mem using c(1) unfolding xi(2) [symmetric] yi(2) [symmetric] using xi(1) yi(1) by blast
  ultimately show ?thesis using group_cells_base [OF c(1)] yi(2) by (intro bexI [of _ c]) simp_all
qed

text \<open>
  C4. The group heatmap merges evaluations per asset, slot and name and loses none: a cell stands at the
  position of its slot and asset; it is empty only where there is no evaluation, and otherwise shows the
  worst result and the rounded mean score of exactly the evaluations of its asset, slot and name; and
  every evaluation has such a cell.
\<close>

theorem buildGroupHeatmapData_correct:
  assumes "nul_free evals" and "d = buildGroupHeatmapData evals fb"
  shows "(\<forall>c \<in> set (gh_cells d). \<exists>xi yi. hc_value c = (xi, yi) \<and> xi < length (gh_slots d) \<and> yi < length (gh_rows d) \<and>
      hc_slot c = gh_slots d ! xi \<and> hc_rowLabel c = gh_rows d ! yi \<and>
cell_shows evals (assets_of evals ! yi) (gh_slots d ! xi) c) \<and>
    (\<forall>e \<in> set evals. \<exists>c \<in> set (gh_cells d). hc_slot c = ev_slot e \<and>
      hc_evaluation_name c = Some (ev_evaluationName e) \<and> assets_of evals ! snd (hc_value c) = ev_asset e)"
proof (intro conjI ballI)
  fix c assume "c \<in> set (gh_cells d)"
  then obtain xi yi where xy: "xi < length (slots_of evals)" "yi < length (assets_of evals)"
    "c \<in> set (group_cells (cell_map evals) xi (slots_of evals ! xi) yi (assets_of evals ! yi) (gh_rows d ! yi))"
    unfolding assms(2) gh_cells_mem by blast
  note free = nul_free_names [OF assms(1)]
  note sound = gh_cell_sound [OF assms(1) free(1) [OF nth_mem [OF xy(2)]] free(2) [OF nth_mem [OF xy(1)]] xy(3)]
  have len: "gh_slots d = slots_of evals" "length (gh_rows d) = length (assets_of evals)"
    by (simp_all add: assms(2) buildGroupHeatmapData_def Let_def)
  show "\<exists>xi yi. hc_value c = (xi, yi) \<and> xi < length (gh_slots d) \<and> yi < length (gh_rows d) \<and>
      hc_slot c = gh_slots d ! xi \<and> hc_rowLabel c = gh_rows d ! yi \<and>
      cell_shows evals (assets_of evals ! yi) (gh_slots d ! xi) c"
    using sound group_cells_base [OF xy(3)] xy(1,2) len
    by - (rule exI [of _ xi], rule exI [of _ yi], simp)
qed (use gh_cell_complete [OF assms(1)] assms(2) in simp)

definition demo_eval :: "string \<Rightarrow> Outcome \<Rightarrow> rat \<Rightarrow> Evaluation" where
  "demo_eval i res sc = \<lparr>ev_id = i, ev_evaluationId = i, ev_evaluationName = ''load'', ev_status = ''completed'',
     ev_outcome = res, ev_score = Some sc, ev_period = makeDateRange ''2024-01-01'' ''2024-01-02'',
     ev_sloName = None, ev_sloVersion = None, ev_sliName = None, ev_sliVersion = None,
     ev_dataSourceName = None, ev_ingestionMode = ''pull'', ev_adapterUsed = None, ev_invalidated = False,
     ev_originalOutcome = None, ev_originalScore = None, ev_overrideReason = None, ev_overrideAuthor = None,
     ev_assetSnapshot = \<lparr>as_assetId = None, as_name = ''web'', as_displayName = None, as_tags = [],
       as_primaryVersion = None, as_buildRef = None\<rparr>,
     ev_variables = [], ev_baselinePin = None, ev_latestAnnotation = None, ev_annotationCount = 0,
     ev_createdAt = Some 0, ev_topFailures = []\<rparr>"

theorem buildGroupHeatmapData_correct_witness:
  "\<exists>c \<in> set (gh_cells (buildGroupHeatmapData [demo_eval ''1'' Pass 100, demo_eval ''2'' Fail 51] None)).
    hc_evaluation_name c = Some ''load'' \<and> hc_result c = ResFail \<and> hc_score c = 76"
proof -
  let ?es = "[demo_eval ''1'' Pass 100, demo_eval ''2'' Fail 51]"
  let ?d = "buildGroupHeatmapData ?es None"
  have f: "ev_asset (demo_eval i r x) = ''web''" "ev_slot (demo_eval i r x) = ''2024-01-01''"
    "ev_evaluationName (demo_eval i r x) = ''load''" "score_or_0 (demo_eval i r x) = x"
    "effective_result (demo_eval i r x) = outcome_result r" for i r x
    by (simp_all add: demo_eval_def ev_asset_def ev_slot_def makeDateRange_def score_or_0_def effective_result_def)
  have "nul_free ?es" by (simp add: nul_free_def f)
  note g = buildGroupHeatmapData_correct [OF this refl, of None]
  obtain c where c: "c \<in> set (gh_cells ?d)" "hc_evaluation_name c = Some ''load''"
    using g by (auto simp: f)
  have as: "assets_of ?es = [''web'']" "slots_of ?es = [''2024-01-01'']"
    by (simp_all add: assets_of_def slots_of_def f uniq_def)
  have "cell_shows ?es ''web'' ''2024-01-01'' c"
    using g [THEN conjunct1, rule_format, OF c(1)] as
    by (auto simp: buildGroupHeatmapData_def Let_def)
  then have "worst ?es (hc_result c)" "hc_score c = js_round (mean_score ?es)"
    using c(2) by (simp_all add: cell_shows_def f Let_def)
  moreover have "\<lfloor>76 :: rat\<rfloor> = 76" by simp
  ultimately show ?thesis using c
    by (intro bexI [of _ c]) (auto simp: worst_def f mean_score_def js_round_def)
qed

text \<open>
  The group score chart has one bar per slot of any evaluation, in order, and together its bars
  contain every evaluation once; a bar's total is the sum of its scores out of 100 per evaluation.
\<close>

lemma buildGroupScoreData_correct:
  "map ssd_slot (buildGroupScoreData evals) = slots_of evals \<and> sorted (slots_of evals) \<and>
   distinct (slots_of evals) \<and>
   mset (concat (map ssd_assets (buildGroupScoreData evals))) = mset (map score_point evals) \<and>
   (\<forall>d \<in> set (buildGroupScoreData evals).
      ssd_totalAchieved d = sum_list (map asp_score (ssd_assets d)) \<and>
      ssd_totalMax d = of_nat (length (ssd_assets d)) * 100)"
proof (intro conjI)
  have part: "mset (concat (map (\<lambda>s. filter (\<lambda>e. ev_slot e = s) es) ss)) = mset (filter (\<lambda>e. ev_slot e \<in> set ss) es)"
    if "distinct ss" for ss es
    using that
  proof (induction ss)
    case (Cons s ss)
    have "mset (filter (\<lambda>e. ev_slot e \<in> set (s # ss)) es) =
        mset (filter (\<lambda>e. ev_slot e = s) es) + mset (filter (\<lambda>e. ev_slot e \<in> set ss) es)"
      using Cons.prems by (intro multiset_eqI) auto
    then show ?case using Cons by simp
  qed simp
  have d: "distinct (slots_of evals)" by (simp add: slots_of_def)
  have all: "concat (map ssd_assets (buildGroupScoreData evals)) =
      map score_point (concat (map (\<lambda>s. filter (\<lambda>e. ev_slot e = s) evals) (slots_of evals)))"
    by (simp add: buildGroupScoreData_def Let_def comp_def map_concat)
  have id: "filter (\<lambda>e. ev_slot e \<in> set (slots_of evals)) evals = evals"
    by (auto simp: slots_of_def filter_id_conv)
  have "mset (map score_point xs) = mset (map score_point ys)" if "mset xs = mset ys" for xs ys
    using that by simp
  then show "mset (concat (map ssd_assets (buildGroupScoreData evals))) = mset (map score_point evals)"
    unfolding all using part [OF d, of evals] unfolding id by blast
  have fold: "foldl (\<lambda>s a. s + asp_score a) x as = x + sum_list (map asp_score as)" for x as
    by (induction as arbitrary: x) (simp_all add: add.assoc)
  show "\<forall>d \<in> set (buildGroupScoreData evals). ssd_totalAchieved d = sum_list (map asp_score (ssd_assets d)) \<and>
      ssd_totalMax d = of_nat (length (ssd_assets d)) * 100"
    by (auto simp: buildGroupScoreData_def Let_def fold)
qed (simp_all add: buildGroupScoreData_def slots_of_def Let_def comp_def)

subsection \<open>Properties of the group's assets\<close>

interpretation collect: unfold_rec "resolved_subgroups tree" collect_node "collectGroupAssetNames tree"
  for tree
  by unfold_locales simp_all

interpretation leaf_count: unfold_rec "resolved_subgroups tree" count_node "countLeafMembers tree"
  for tree
  by unfold_locales simp_all

lemma collect_spec:
  "collectGroupAssetNames tree n g = Some xs \<Longrightarrow> distinct xs \<and>
    set xs = (\<Union>h \<in> {h. reaches (resolved_subgroups tree) g h}. gm_assetName ` set (ag_members h))"
proof (rule collect.run_induct [where P = "\<lambda>g xs. distinct xs \<and>
    set xs = (\<Union>h \<in> {h. reaches (resolved_subgroups tree) g h}. gm_assetName ` set (ag_members h))"])
  fix g ts assume len: "length ts = length (resolved_subgroups tree g)"
    and IH: "\<And>i. i < length ts \<Longrightarrow> distinct (ts ! i) \<and> set (ts ! i) =
      (\<Union>h \<in> {h. reaches (resolved_subgroups tree) (resolved_subgroups tree g ! i) h}. gm_assetName ` set (ag_members h))"
  have "(\<Union>t \<in> set ts. set t) = (\<Union>s \<in> set (resolved_subgroups tree g).
      \<Union>h \<in> {h. reaches (resolved_subgroups tree) s h}. gm_assetName ` set (ag_members h))"
    using IH len by (fastforce simp: set_conv_nth)
  moreover have "{h. reaches (resolved_subgroups tree) g h} =
      insert g (\<Union>s \<in> set (resolved_subgroups tree g). {h. reaches (resolved_subgroups tree) s h})"
    by (subst reaches_unfold) auto
  ultimately show "distinct (collect_node g ts) \<and> set (collect_node g ts) =
      (\<Union>h \<in> {h. reaches (resolved_subgroups tree) g h}. gm_assetName ` set (ag_members h))"
    by (simp add: collect_node_def)
qed

theorem buildGroupScoreData_correct_witness:
  "ssd_totalAchieved (hd (buildGroupScoreData [demo_eval ''1'' Pass 100, demo_eval ''2'' Fail 51])) =
   sum_list (map asp_score (ssd_assets (hd (buildGroupScoreData [demo_eval ''1'' Pass 100, demo_eval ''2'' Fail 51]))))"
proof -
  let ?es = "[demo_eval ''1'' Pass 100, demo_eval ''2'' Fail 51]"
  have "ev_slot (demo_eval ''1'' Pass 100) \<in> set (slots_of ?es)" by (simp add: slots_of_def)
  then have "slots_of ?es \<noteq> []" by auto
  then have "buildGroupScoreData ?es \<noteq> []" using buildGroupScoreData_correct [of ?es] by auto
  then have "hd (buildGroupScoreData ?es) \<in> set (buildGroupScoreData ?es)" by simp
  then show ?thesis using buildGroupScoreData_correct [of ?es] by blast
qed

lemma foldl_plus: "foldl (+) (a :: nat) xs = a + sum_list xs"
  by (induction xs arbitrary: a) (simp_all add: add.assoc)

lemma length_collect_node: "length (collect_node g ts) \<le> length (ag_members g) + sum_list (map length ts)"
  using length_uniq_le [of "map gm_assetName (ag_members g) @ concat ts"]
  by (simp add: collect_node_def length_concat)

lemma collect_le_count:
  "countLeafMembers tree n g = Some k \<Longrightarrow> \<exists>xs. collectGroupAssetNames tree n g = Some xs \<and> length xs \<le> k"
proof (induction n arbitrary: g k)
  case (Suc n)
  let ?ss = "resolved_subgroups tree g"
  obtain ks where ks: "map (countLeafMembers tree n) ?ss = map Some ks" "k = count_node g ks"
    using Suc.prems by (auto simp: those_Some_iff)
  have "\<exists>ts. map (collectGroupAssetNames tree n) ss = map Some ts \<and> sum_list (map length ts) \<le> sum_list js"
    if "map (countLeafMembers tree n) ss = map Some js" for ss js
    using that
  proof (induction ss arbitrary: js)
    case (Cons s ss)
    then obtain j js' where j: "js = j # js'" "countLeafMembers tree n s = Some j" "map (countLeafMembers tree n) ss = map Some js'"
      by (cases js) auto
    obtain ts where ts: "map (collectGroupAssetNames tree n) ss = map Some ts" "sum_list (map length ts) \<le> sum_list js'"
      using Cons.IH [OF j(3)] by blast
    obtain xs where xs: "collectGroupAssetNames tree n s = Some xs" "length xs \<le> j" using Suc.IH [OF j(2)] by blast
    show ?case using ts xs j(1) by (intro exI [of _ "xs # ts"]) simp
  qed simp
  from this [OF ks(1)] obtain ts where ts: "map (collectGroupAssetNames tree n) ?ss = map Some ts"
    "sum_list (map length ts) \<le> sum_list ks" by blast
  have "length (collect_node g ts) \<le> k" using length_collect_node [of g ts] ts(2) ks(2) by (simp add: count_node_def foldl_plus)
  moreover have "collectGroupAssetNames tree (Suc n) g = Some (collect_node g ts)" using ts(1) by (simp add: those_Some_iff)
  ultimately show ?case by blast
qed simp

text \<open>
  Collecting the assets of a group returns exactly when its subgroups end, and then lists the assets
  of all reachable groups, each once; the leaf count returns in the same cases and is at least the
  number of those assets (an asset reached by two paths is counted twice).
\<close>

lemma collectGroupAssetNames_correct:
  "((\<exists>n. collectGroupAssetNames tree n g \<noteq> None) \<longleftrightarrow> unfolds (resolved_subgroups tree) g) \<and>
   ((\<exists>n. countLeafMembers tree n g \<noteq> None) \<longleftrightarrow> unfolds (resolved_subgroups tree) g) \<and>
   (collectGroupAssetNames tree n g = Some xs \<longrightarrow> distinct xs \<and>
      set xs = (\<Union>h \<in> {h. reaches (resolved_subgroups tree) g h}. gm_assetName ` set (ag_members h))) \<and>
   (collectGroupAssetNames tree n g = Some xs \<longrightarrow> countLeafMembers tree m g = Some k \<longrightarrow> length xs \<le> k)"
proof (intro conjI impI)
  show "length xs \<le> k" if x: "collectGroupAssetNames tree n g = Some xs" and k: "countLeafMembers tree m g = Some k"
    using collect_le_count [OF k] collect.run_unique [OF x] by auto
qed (use collect.run_returns [of tree g] leaf_count.run_returns [of tree g] collect_spec [of tree n g xs] in blast)+

definition demo_members :: "string \<Rightarrow> string list \<Rightarrow> string list \<Rightarrow> AssetGroup" where
  "demo_members i ms subs = \<lparr>ag_id = i, ag_name = i, ag_displayName = None, ag_description = None, ag_color = None,
     ag_members = map (\<lambda>m. \<lparr>gm_assetId = m, gm_assetName = m, gm_assetDisplayName = None,
       gm_assetTypeName = ''vm'', gm_weight = 1\<rparr>) ms,
     ag_subgroups = map (\<lambda>s. \<lparr>gs_groupId = s, gs_groupName = s, gs_weight = 1\<rparr>) subs,
     ag_createdAt = Some 0, ag_updatedAt = Some 0\<rparr>"

definition demo_group_tree :: AssetGroupTree where
  "demo_group_tree = \<lparr>agt_topLevel = [], agt_allGroups =
     [demo_members ''a'' [''x''] [''b''], demo_members ''b'' [''x'', ''y''] []]\<rparr>"

theorem collectGroupAssetNames_correct_witness:
  "collectGroupAssetNames demo_group_tree 3 (demo_members ''a'' [''x''] [''b'']) = Some [''x'', ''y''] \<and>
   countLeafMembers demo_group_tree 3 (demo_members ''a'' [''x''] [''b'']) = Some 3 \<and>
   length [''x'', ''y''] \<le> (3 :: nat)"
proof -
  have r: "collectGroupAssetNames demo_group_tree 3 (demo_members ''a'' [''x''] [''b'']) = Some [''x'', ''y'']"
    "countLeafMembers demo_group_tree 3 (demo_members ''a'' [''x''] [''b'']) = Some 3"
    by (simp_all add: numeral_3_eq_3 demo_group_tree_def demo_members_def resolved_subgroups_def
        map_filter_simps collect_node_def count_node_def uniq_def)
  then show ?thesis
    using collectGroupAssetNames_correct [of demo_group_tree "demo_members ''a'' [''x''] [''b'']" 3 "[''x'', ''y'']" 3 3]
    by blast
qed

subsection \<open>Properties of lazy loading\<close>

definition observers_ok :: "viewport \<Rightarrow> bool" where
  "observers_ok v \<longleftrightarrow> vp_connected v = (case vp_observer v of None \<Rightarrow> [] | Some n \<Rightarrow> [n])"

lemma observers_ok_step: "observers_ok v \<Longrightarrow> observers_ok (viewport_step once ev v)"
  by (cases ev) (auto simp: observers_ok_def attach_ref_def observe_entries_def disconnect_def Let_def
      split: option.splits)

lemma inView_step: "vp_inView v \<Longrightarrow> vp_inView (viewport_step True ev v)"
  by (cases ev) (auto simp: attach_ref_def observe_entries_def disconnect_def Let_def split: option.splits)

lemma fold_keeps: "P v \<Longrightarrow> (\<And>e v. P v \<Longrightarrow> P (f e v)) \<Longrightarrow> P (fold f es v)"
  by (induction es arbitrary: v) auto

text \<open>
  The viewport hook never leaks an observer: after any events exactly the current observer, if any,
  is connected. In the default mode the flag, once set, stays set whatever happens next.
\<close>

lemma viewport_run_correct:
  "observers_ok (viewport_run once evs) \<and>
   (vp_inView (viewport_run True evs) \<longrightarrow> vp_inView (viewport_run True (evs @ later)))"
proof
  show "observers_ok (viewport_run once evs)"
    unfolding viewport_run_def
    by (rule fold_keeps [of observers_ok initial_viewport "viewport_step once" evs])
      (simp_all add: observers_ok_step, simp add: observers_ok_def initial_viewport_def)
  show "vp_inView (viewport_run True evs) \<longrightarrow> vp_inView (viewport_run True (evs @ later))"
    using fold_keeps [of vp_inView "viewport_run True evs" "viewport_step True" later] inView_step
    by (simp add: viewport_run_def)
qed

theorem viewport_run_correct_witness:
  "vp_inView (viewport_run True ([AttachNode, Intersections 0 [False, True]] @ [DetachNode, AttachNode]))"
proof -
  have "vp_inView (viewport_run True [AttachNode, Intersections 0 [False, True]])" by code_simp
  then show ?thesis
    using viewport_run_correct [of True "[AttachNode, Intersections 0 [False, True]]" "[DetachNode, AttachNode]"] by blast
qed

end
