(* ===== verification/Dtos.thy ===== *)
theory Dtos
  imports Domain
begin

text \<open>
  The shapes of the backend's requests and responses, as \<open>generated/api.ts\<close> declares them: one record per
  schema the mappers read or write. A field that is optional or may be \<open>null\<close> is an option. Fields
  the backend types as free-form objects keep JSON values; tags, which the mappers cast to objects with
  string values, are such objects here. The last part lists the field names of the schemas whose mapping
  the sources check for exhaustiveness.
\<close>

subsection \<open>Schemas\<close>

record NoteCategoryDto =
  ncd_color :: CategoryColor
  ncd_created_at :: string
  ncd_id :: string
  ncd_is_system :: bool
  ncd_label :: string
  ncd_name :: string
  ncd_show_on_graph :: bool
  ncd_updated_at :: "string option"

record NoteCategoryCreateDto =
  ncc_color :: CategoryColor
  ncc_label :: string
  ncc_name :: string
  ncc_show_on_graph :: bool

record NoteCategoryUpdateDto =
  ncu_color :: "CategoryColor option"
  ncu_label :: "string option"
  ncu_name :: "string option"
  ncu_show_on_graph :: "bool option"

record AssetSnapshotDto =
  asd_asset_id :: "string option"
  asd_build_ref :: "string option"
  asd_display_name :: "string option"
  asd_name :: string
  asd_primary_version :: "string option"
  asd_tags :: "str_obj option"

record FailingIndicatorDto =
  fid_display_name :: string
  fid_metric :: string
  fid_threshold :: string
  fid_value :: "rat option"

record AnnotationDto =
  ano_author :: "string option"
  ano_category :: NoteCategoryDto
  ano_category_id :: string
  ano_content :: string
  ano_created_at :: string
  ano_evaluation_run_id :: "string option"
  ano_hidden_at :: "string option"
  ano_hidden_by :: "string option"
  ano_hidden_reason :: "string option"
  ano_id :: string
  ano_note_group_id :: "string option"
  ano_note_group_name :: "string option"
  ano_slo_evaluation_id :: "string option"
  ano_tags :: "(string, json) jsmap"
  ano_updated_at :: "string option"

record EvaluationSummaryDto =
  esd_adapter_used :: "string option"
  esd_annotation_count :: int
  esd_asset_snapshot :: AssetSnapshotDto
  esd_baseline_pin_author :: "string option"
  esd_baseline_pin_reason :: "string option"
  esd_baseline_pinned_at :: "string option"
  esd_baseline_unpinned_at :: "string option"
  esd_created_at :: string
  esd_data_source_name :: "string option"
  esd_evaluation_id :: string
  esd_evaluation_name :: string
  esd_id :: string
  esd_ingestion_mode :: string
  esd_invalidated :: bool
  esd_latest_annotation :: "AnnotationDto option"
  esd_original_result :: "string option"
  esd_original_score :: "rat option"
  esd_override_author :: "string option"
  esd_override_reason :: "string option"
  esd_period_end :: string
  esd_period_start :: string
  esd_result :: "string option"
  esd_score :: "rat option"
  esd_sli_name :: "string option"
  esd_sli_version :: "int option"
  esd_slo_name :: "string option"
  esd_slo_version :: "int option"
  esd_status :: string
  esd_top_failures :: "FailingIndicatorDto list"
  esd_variables :: str_obj

record PassTargetDto =
  ptd_criteria :: string
  ptd_target_value :: rat
  ptd_violated :: bool

record ChangePointMarkerDto =
  cmd_change_absolute :: "rat option"
  cmd_change_relative_pct :: "rat option"
  cmd_direction :: string
  cmd_transition :: "Transition option"

record IndicatorResultDto =
  ird_aggregation :: "string option"
  ird_change_absolute :: "rat option"
  ird_change_point :: "ChangePointMarkerDto option"
  ird_change_relative_pct :: "rat option"
  ird_compared_value :: "rat option"
  ird_display_name :: string
  ird_key_sli :: bool
  ird_metric :: string
  ird_pass_targets :: "PassTargetDto list option"
  ird_score :: rat
  ird_status :: string
  ird_tab_group :: "string option"
  ird_value :: "rat option"
  ird_warning_targets :: "PassTargetDto list option"
  ird_weight :: rat

record SliMetadataDto =
  smd_actual_samples :: int
  smd_chunks_failed :: int
  smd_expected_samples :: int
  smd_missing_pct :: rat
  smd_mode :: string

record EvaluationDetailDto = EvaluationSummaryDto +
  edd_annotations :: "AnnotationDto list"
  edd_compared_evaluation_ids :: "string list"
  edd_indicator_results :: "IndicatorResultDto list"
  edd_invalidation_note :: "string option"
  edd_sli_metadata :: "(string, SliMetadataDto) jsmap option"
  edd_total_score_pass_threshold :: "rat option"
  edd_total_score_warning_threshold :: "rat option"

record TrendTargetEntryDto =
  ted_criteria :: string
  ted_target_value :: rat
  ted_violated :: bool

record TrendTargetsDto =
  ttd_pass :: "TrendTargetEntryDto list option"
  ttd_warn :: "TrendTargetEntryDto list option"

record TrendPointDto =
  tpd_baseline :: "rat option"
  tpd_change_point :: "ChangePointMarkerDto option"
  tpd_eval_id :: string
  tpd_evaluation_name :: "string option"
  tpd_result :: string
  tpd_score :: rat
  tpd_targets :: "TrendTargetsDto option"
  tpd_timestamp :: string
  tpd_value :: rat

record EvaluationNameEntryDto =
  ned_count :: int
  ned_last_run :: string
  ned_name :: string

record ReEvalResultItemDto =
  rid_evaluation_name :: string
  rid_id :: string
  rid_new_result :: string
  rid_new_score :: rat
  rid_old_result :: string
  rid_old_score :: rat
  rid_period_end :: string
  rid_period_start :: string
  rid_slo_name :: string
  rid_slo_version :: int

record ReEvaluateResponseDto =
  rrd_affected_evaluations :: int
  rrd_results :: "ReEvalResultItemDto list"
  rrd_slo_version_used :: "int option"

record EvaluateSingleRequestDto =
  esr_asset_name :: string
  esr_compare_to :: "str_obj option"
  esr_eval_name :: string
  esr_period_end :: string
  esr_period_start :: string
  esr_variables :: str_obj

record OverrideStatusRequestDto =
  osr_author :: string
  osr_new_result :: OverridableOutcome
  osr_reason :: string

record EvaluateSingleResponseDto =
  esp_evaluation_id :: string
  esp_slo_evaluation_ids :: "string list"

record AnnotationCreateDto =
  acd_author :: "string option"
  acd_category_id :: string
  acd_content :: string
  acd_tags :: str_obj

record BulkActionResultDto =
  bai_evaluation_id :: string
  bai_status :: string

record BulkActionResponseDto =
  bar_not_found :: "string list"
  bar_results :: "BulkActionResultDto list"
  bar_updated :: int

record AssetDto =
  ard_color :: "string option"
  ard_created_at :: string
  ard_display_name :: "string option"
  ard_heatmap_config :: "(string, json) jsmap option"
  ard_id :: string
  ard_name :: string
  ard_tags :: str_obj
  ard_type_name :: string
  ard_updated_at :: string
  ard_variables :: str_obj

record AssetTypeDto =
  atd_asset_count :: int
  atd_id :: string
  atd_is_default :: bool
  atd_name :: string

record AssetGroupMemberDto =
  amd_asset_display_name :: "string option"
  amd_asset_id :: string
  amd_asset_name :: string
  amd_asset_type_name :: string
  amd_weight :: rat

record AssetGroupSubgroupDto =
  asb_group_id :: string
  asb_group_name :: string
  asb_weight :: rat

record AssetGroupDto =
  agd_color :: "string option"
  agd_created_at :: string
  agd_description :: "string option"
  agd_display_name :: "string option"
  agd_id :: string
  agd_members :: "AssetGroupMemberDto list"
  agd_name :: string
  agd_subgroups :: "AssetGroupSubgroupDto list"
  agd_updated_at :: string

record AssetGroupTreeDto =
  gtd_all_groups :: "AssetGroupDto list"
  gtd_top_level :: "AssetGroupDto list"

record SloObjectiveDto =
  sod_change_point :: "json option"
  sod_display_name :: string
  sod_key_sli :: bool
  sod_pass_threshold :: "string list option"
  sod_sli :: string
  sod_sort_order :: int
  sod_warning_threshold :: "string list option"
  sod_weight :: rat

record SloObjectiveInDto =
  soi_change_point :: "json option"
  soi_display_name :: string
  soi_key_sli :: bool
  soi_pass_threshold :: "string list option"
  soi_sli :: string
  soi_warning_threshold :: "string list option"
  soi_weight :: rat

record SloComparisonConfigDto =
  ccd_aggregate_function :: "string option"
  ccd_compare_with :: "string option"
  ccd_include_result_with_score :: "string option"
  ccd_number_of_comparison_results :: "int option"
  ccd_scope_tags :: "string list option"

record MethodCriteriaOverrideDto =
  mcd_aggregation :: "string option"
  mcd_key_sli :: "bool option"
  mcd_method :: "string option"
  mcd_pass_threshold :: "string list option"
  mcd_warning_threshold :: "string list option"
  mcd_weight :: "rat option"

record SloDto =
  sld_active :: bool
  sld_author :: "string option"
  sld_comparable_from_version :: int
  sld_comparison :: SloComparisonConfigDto
  sld_created_at :: string
  sld_display_name :: "string option"
  sld_id :: string
  sld_kind :: string
  sld_method_criteria :: "(string, MethodCriteriaOverrideDto) jsmap option"
  sld_name :: string
  sld_notes :: "string option"
  sld_objectives :: "SloObjectiveDto list"
  sld_sli_definition_id :: "string option"
  sld_sli_name :: "string option"
  sld_sli_version :: "int option"
  sld_tags :: str_obj
  sld_total_score_pass_threshold :: rat
  sld_total_score_warning_threshold :: rat
  sld_variables :: str_obj
  sld_version :: int

record SloAssignmentDto =
  sad_asset_group_id :: "string option"
  sad_asset_id :: "string option"
  sad_comparison_rules :: "(string, json) jsmap list option"
  sad_created_at :: string
  sad_data_source_id :: string
  sad_data_source_name :: string
  sad_id :: string
  sad_slo_definition_id :: string
  sad_slo_name :: string
  sad_slo_version :: int

record SloGroupAssignmentDto =
  gad_asset_group_id :: "string option"
  gad_asset_id :: "string option"
  gad_created_at :: string
  gad_data_source_id :: string
  gad_data_source_name :: string
  gad_id :: string
  gad_slo_group_id :: string
  gad_slo_group_name :: string

record SloValidationErrorDto =
  sed_field :: string
  sed_message :: string

record SloValidationResultDto =
  svd_errors :: "SloValidationErrorDto list"
  svd_objectives :: "SloObjectiveInDto list option"
  svd_valid :: bool

record SliDto =
  sdd_active :: bool
  sdd_adapter_type :: string
  sdd_author :: "string option"
  sdd_comparable_from_version :: int
  sdd_created_at :: string
  sdd_display_name :: "string option"
  sdd_id :: string
  sdd_indicators :: str_obj
  sdd_interval :: "string option"
  sdd_methods :: "string list option"
  sdd_mode :: string
  sdd_name :: string
  sdd_notes :: "string option"
  sdd_query_template :: "string option"
  sdd_tags :: str_obj
  sdd_version :: int

record DatasourceDto =
  dsd_adapter_type :: string
  dsd_adapter_url :: string
  dsd_created_at :: string
  dsd_display_name :: "string option"
  dsd_has_token :: bool
  dsd_id :: string
  dsd_name :: string
  dsd_tags :: str_obj
  dsd_updated_at :: string

record SloGroupDto =
  sgd_active :: bool
  sgd_author :: "string option"
  sgd_created_at :: string
  sgd_display_name :: "string option"
  sgd_gen_variables :: "(string, string list) jsmap"
  sgd_generated_slo_count :: int
  sgd_id :: string
  sgd_name :: string
  sgd_tags :: str_obj
  sgd_template_slo_definition_id :: string
  sgd_template_slo_name :: string
  sgd_template_slo_version :: int
  sgd_updated_at :: string
  sgd_version :: int

record ChangePointReadDto =
  cpd_asset_id :: string
  cpd_change_absolute :: rat
  cpd_change_relative_pct :: "rat option"
  cpd_created_at :: string
  cpd_detector :: string
  cpd_direction :: string
  cpd_found_by_evaluation_id :: "string option"
  cpd_id :: string
  cpd_linked_ticket :: "string option"
  cpd_metric_name :: string
  cpd_period_end :: "string option"
  cpd_period_start :: string
  cpd_post_segment_mean :: rat
  cpd_post_segment_std :: rat
  cpd_pre_segment_mean :: rat
  cpd_pvalue :: rat
  cpd_slo_name :: string
  cpd_status :: string
  cpd_transition :: "Transition option"
  cpd_triage_at :: "string option"
  cpd_triage_author :: "string option"
  cpd_triage_note :: "string option"
  cpd_updated_at :: string

record TimelineGroupDto =
  tgd_content :: string
  tgd_id :: string
  tgd_nestedGroups :: "string list option"
  tgd_showNested :: "bool option"

record TimelineItemDto =
  tid_className :: string
  tid_content :: string
  tid_end :: string
  tid_group :: string
  tid_id :: string
  tid_source :: string
  tid_start :: string
  tid_type :: string

record TimelineResponseDto =
  trd_groups :: "TimelineGroupDto list"
  trd_items :: "TimelineItemDto list"

record TimelineSummaryDto =
  tsd_itemCount :: int

subsection \<open>Field names\<close>

definition keyof_AssetSnapshotDto :: "string list" where
  "keyof_AssetSnapshotDto = [
  ''asset_id'', ''build_ref'', ''display_name'', ''name'', ''primary_version'', ''tags'']"

definition keyof_FailingIndicatorDto :: "string list" where
  "keyof_FailingIndicatorDto = [
  ''display_name'', ''metric'', ''threshold'', ''value'']"

definition keyof_AnnotationDto :: "string list" where
  "keyof_AnnotationDto = [
  ''author'', ''category'', ''category_id'', ''content'', ''created_at'', ''evaluation_run_id'',
    ''hidden_at'', ''hidden_by'', ''hidden_reason'', ''id'', ''note_group_id'',
    ''note_group_name'', ''slo_evaluation_id'', ''tags'', ''updated_at'']"

definition keyof_EvaluationSummaryDto :: "string list" where
  "keyof_EvaluationSummaryDto = [
  ''adapter_used'', ''annotation_count'', ''asset_snapshot'', ''baseline_pin_author'',
    ''baseline_pin_reason'', ''baseline_pinned_at'', ''baseline_unpinned_at'', ''created_at'',
    ''data_source_name'', ''evaluation_id'', ''evaluation_name'', ''id'', ''ingestion_mode'',
    ''invalidated'', ''latest_annotation'', ''original_result'', ''original_score'',
    ''override_author'', ''override_reason'', ''period_end'', ''period_start'', ''result'',
    ''score'', ''sli_name'', ''sli_version'', ''slo_name'', ''slo_version'', ''status'',
    ''top_failures'', ''variables'']"

definition keyof_PassTargetDto :: "string list" where
  "keyof_PassTargetDto = [
  ''criteria'', ''target_value'', ''violated'']"

definition keyof_IndicatorResultDto :: "string list" where
  "keyof_IndicatorResultDto = [
  ''aggregation'', ''change_absolute'', ''change_point'', ''change_relative_pct'',
    ''compared_value'', ''display_name'', ''key_sli'', ''metric'', ''pass_targets'', ''score'',
    ''status'', ''tab_group'', ''value'', ''warning_targets'', ''weight'']"

definition keyof_SliMetadataDto :: "string list" where
  "keyof_SliMetadataDto = [
  ''actual_samples'', ''chunks_failed'', ''expected_samples'', ''missing_pct'', ''mode'']"

definition keyof_EvaluationDetailDto :: "string list" where
  "keyof_EvaluationDetailDto = [
  ''adapter_used'', ''annotation_count'', ''annotations'', ''asset_snapshot'',
    ''baseline_pin_author'', ''baseline_pin_reason'', ''baseline_pinned_at'',
    ''baseline_unpinned_at'', ''compared_evaluation_ids'', ''created_at'', ''data_source_name'',
    ''evaluation_id'', ''evaluation_name'', ''id'', ''indicator_results'', ''ingestion_mode'',
    ''invalidated'', ''invalidation_note'', ''latest_annotation'', ''original_result'',
    ''original_score'', ''override_author'', ''override_reason'', ''period_end'',
    ''period_start'', ''result'', ''score'', ''sli_metadata'', ''sli_name'', ''sli_version'',
    ''slo_name'', ''slo_version'', ''status'', ''top_failures'', ''total_score_pass_threshold'',
    ''total_score_warning_threshold'', ''variables'']"

definition keyof_TrendTargetEntryDto :: "string list" where
  "keyof_TrendTargetEntryDto = [
  ''criteria'', ''target_value'', ''violated'']"

definition keyof_TrendTargetsDto :: "string list" where
  "keyof_TrendTargetsDto = [
  ''pass'', ''warn'']"

definition keyof_TrendPointDto :: "string list" where
  "keyof_TrendPointDto = [
  ''baseline'', ''change_point'', ''eval_id'', ''evaluation_name'', ''result'', ''score'',
    ''targets'', ''timestamp'', ''value'']"

definition keyof_EvaluationNameEntryDto :: "string list" where
  "keyof_EvaluationNameEntryDto = [
  ''count'', ''last_run'', ''name'']"

definition keyof_ReEvalResultItemDto :: "string list" where
  "keyof_ReEvalResultItemDto = [
  ''evaluation_name'', ''id'', ''new_result'', ''new_score'', ''old_result'', ''old_score'',
    ''period_end'', ''period_start'', ''slo_name'', ''slo_version'']"

definition keyof_ReEvaluateResponseDto :: "string list" where
  "keyof_ReEvaluateResponseDto = [
  ''affected_evaluations'', ''results'', ''slo_version_used'']"

definition keyof_AssetDto :: "string list" where
  "keyof_AssetDto = [
  ''color'', ''created_at'', ''display_name'', ''heatmap_config'', ''id'', ''name'', ''tags'',
    ''type_name'', ''updated_at'', ''variables'']"

definition keyof_AssetTypeDto :: "string list" where
  "keyof_AssetTypeDto = [
  ''asset_count'', ''id'', ''is_default'', ''name'']"

definition keyof_AssetGroupMemberDto :: "string list" where
  "keyof_AssetGroupMemberDto = [
  ''asset_display_name'', ''asset_id'', ''asset_name'', ''asset_type_name'', ''weight'']"

definition keyof_AssetGroupSubgroupDto :: "string list" where
  "keyof_AssetGroupSubgroupDto = [
  ''group_id'', ''group_name'', ''weight'']"

definition keyof_AssetGroupDto :: "string list" where
  "keyof_AssetGroupDto = [
  ''color'', ''created_at'', ''description'', ''display_name'', ''id'', ''members'', ''name'',
    ''subgroups'', ''updated_at'']"

definition keyof_AssetGroupTreeDto :: "string list" where
  "keyof_AssetGroupTreeDto = [
  ''all_groups'', ''top_level'']"

definition keyof_SloObjectiveDto :: "string list" where
  "keyof_SloObjectiveDto = [
  ''change_point'', ''display_name'', ''key_sli'', ''pass_threshold'', ''sli'', ''sort_order'',
    ''warning_threshold'', ''weight'']"

definition keyof_SloDto :: "string list" where
  "keyof_SloDto = [
  ''active'', ''author'', ''comparable_from_version'', ''comparison'', ''created_at'',
    ''display_name'', ''id'', ''kind'', ''method_criteria'', ''name'', ''notes'', ''objectives'',
    ''sli_definition_id'', ''sli_name'', ''sli_version'', ''tags'',
    ''total_score_pass_threshold'', ''total_score_warning_threshold'', ''variables'', ''version'']"

definition keyof_SloAssignmentDto :: "string list" where
  "keyof_SloAssignmentDto = [
  ''asset_group_id'', ''asset_id'', ''comparison_rules'', ''created_at'', ''data_source_id'',
    ''data_source_name'', ''id'', ''slo_definition_id'', ''slo_name'', ''slo_version'']"

definition keyof_SloGroupAssignmentDto :: "string list" where
  "keyof_SloGroupAssignmentDto = [
  ''asset_group_id'', ''asset_id'', ''created_at'', ''data_source_id'', ''data_source_name'',
    ''id'', ''slo_group_id'', ''slo_group_name'']"

definition keyof_SliDto :: "string list" where
  "keyof_SliDto = [
  ''active'', ''adapter_type'', ''author'', ''comparable_from_version'', ''created_at'',
    ''display_name'', ''id'', ''indicators'', ''interval'', ''methods'', ''mode'', ''name'',
    ''notes'', ''query_template'', ''tags'', ''version'']"

definition keyof_DatasourceDto :: "string list" where
  "keyof_DatasourceDto = [
  ''adapter_type'', ''adapter_url'', ''created_at'', ''display_name'', ''has_token'', ''id'',
    ''name'', ''tags'', ''updated_at'']"

definition keyof_SloGroupDto :: "string list" where
  "keyof_SloGroupDto = [
  ''active'', ''author'', ''created_at'', ''display_name'', ''gen_variables'',
    ''generated_slo_count'', ''id'', ''name'', ''tags'', ''template_slo_definition_id'',
    ''template_slo_name'', ''template_slo_version'', ''updated_at'', ''version'']"

end
