(* ===== verification/EvalMappers.thy ===== *)
theory EvalMappers
  imports Dtos
begin

text \<open>
  \<open>features/evaluations/mappers.ts\<close> and the note category mappers it uses
  (\<open>features/note-categories/mappers.ts\<close>): the translation of the backend's evaluation responses to the
  domain types and of the actions' inputs to request bodies. \<open>tz\<close> is the browser's offset from UTC in
  milliseconds, which only matters for time stamps without a zone.
\<close>

subsection \<open>Dates and note categories\<close>

text \<open>\<open>s ? new Date(s) : null\<close>\<close>

definition opt_date :: "int \<Rightarrow> string option \<Rightarrow> jsdate option" where
  "opt_date tz s = (case s of None \<Rightarrow> None | Some t \<Rightarrow> if t = [] then None else Some (Date_parse tz t))"

lemma opt_date_None [simp]: "opt_date tz s = None \<longleftrightarrow> \<not> truthy s"
  by (simp add: opt_date_def split: option.split)

definition dtoToNoteCategory :: "int \<Rightarrow> NoteCategoryDto \<Rightarrow> NoteCategory" where
  "dtoToNoteCategory tz dto =
    \<lparr>nc_id = ncd_id dto, nc_name = ncd_name dto, nc_label = ncd_label dto, nc_color = ncd_color dto,
     nc_showOnGraph = ncd_show_on_graph dto, nc_isSystem = ncd_is_system dto,
     nc_createdAt = Date_parse tz (ncd_created_at dto), nc_updatedAt = opt_date tz (ncd_updated_at dto)\<rparr>"

definition noteCategoryInputToDto :: "NoteCategoryInput \<Rightarrow> NoteCategoryCreateDto" where
  "noteCategoryInputToDto i =
    \<lparr>ncc_color = nci_color i, ncc_label = nci_label i, ncc_name = nci_name i,
     ncc_show_on_graph = nci_showOnGraph i\<rparr>"

definition noteCategoryPatchToDto :: "NoteCategoryPatch \<Rightarrow> NoteCategoryUpdateDto" where
  "noteCategoryPatchToDto p =
    \<lparr>ncu_color = ncp_color p, ncu_label = ncp_label p, ncu_name = ncp_name p,
     ncu_show_on_graph = ncp_showOnGraph p\<rparr>"

subsection \<open>Outcomes\<close>

definition normalizeOutcome :: "string option \<Rightarrow> Outcome" where
  "normalizeOutcome raw =
    (if raw = Some ''pass'' then Pass
     else if raw = Some ''warning'' then Warning
     else if raw = Some ''fail'' then Fail
     else if raw = Some ''error'' then Error
     else if raw = Some ''invalidated'' then Invalidated
     else Error)"

definition collapseOutcome :: "string option \<Rightarrow> bool \<Rightarrow> Outcome" where
  "collapseOutcome result invalidated = (if invalidated then Invalidated else normalizeOutcome result)"

subsection \<open>Parts of an evaluation\<close>

definition dtoToAssetSnapshot :: "AssetSnapshotDto \<Rightarrow> AssetSnapshot" where
  "dtoToAssetSnapshot dto =
    \<lparr>as_assetId = asd_asset_id dto, as_name = asd_name dto, as_displayName = asd_display_name dto,
     as_tags = nullish (asd_tags dto) [], as_primaryVersion = asd_primary_version dto,
     as_buildRef = asd_build_ref dto\<rparr>"

definition dtoToBaselinePin :: "int \<Rightarrow> 'a EvaluationSummaryDto_scheme \<Rightarrow> BaselinePin option" where
  "dtoToBaselinePin tz dto =
    (case opt_date tz (esd_baseline_pinned_at dto) of
       None \<Rightarrow> None
     | Some pinned \<Rightarrow> Some
         \<lparr>bp_author = nullish (esd_baseline_pin_author dto) [],
          bp_reason = nullish (esd_baseline_pin_reason dto) [],
          bp_pinnedAt = pinned,
          bp_unpinnedAt = opt_date tz (esd_baseline_unpinned_at dto)\<rparr>)"

definition dtoToFailingIndicator :: "FailingIndicatorDto \<Rightarrow> FailingIndicator" where
  "dtoToFailingIndicator dto =
    \<lparr>fi_metric = fid_metric dto, fi_displayName = fid_display_name dto, fi_value = fid_value dto,
     fi_threshold = fid_threshold dto\<rparr>"

definition dtoToSliMetadata :: "SliMetadataDto \<Rightarrow> SliMetadata" where
  "dtoToSliMetadata dto =
    \<lparr>sm_mode = smd_mode dto, sm_expectedSamples = smd_expected_samples dto,
     sm_actualSamples = smd_actual_samples dto, sm_missingPct = smd_missing_pct dto,
     sm_chunksFailed = smd_chunks_failed dto\<rparr>"

definition dtoToPassTarget :: "PassTargetDto \<Rightarrow> PassTarget" where
  "dtoToPassTarget dto =
    \<lparr>pt_criteria = ptd_criteria dto, pt_targetValue = ptd_target_value dto, pt_violated = ptd_violated dto\<rparr>"

definition dtoToTrendTargetEntry :: "TrendTargetEntryDto \<Rightarrow> TrendTargetEntry" where
  "dtoToTrendTargetEntry dto =
    \<lparr>te_criteria = ted_criteria dto, te_targetValue = ted_target_value dto, te_violated = ted_violated dto\<rparr>"

definition dtoToTrendTargets :: "TrendTargetsDto \<Rightarrow> TrendTargets" where
  "dtoToTrendTargets dto =
    \<lparr>tt_pass = map dtoToTrendTargetEntry (nullish (ttd_pass dto) []),
     tt_warn = map dtoToTrendTargetEntry (nullish (ttd_warn dto) [])\<rparr>"

definition dtoToReEvaluateResultItem :: "ReEvalResultItemDto \<Rightarrow> ReEvaluateResultItem" where
  "dtoToReEvaluateResultItem dto =
    \<lparr>rr_id = rid_id dto, rr_evaluationName = rid_evaluation_name dto, rr_sloName = rid_slo_name dto,
     rr_sloVersion = rid_slo_version dto,
     rr_period = makeDateRange (rid_period_start dto) (rid_period_end dto),
     rr_oldOutcome = normalizeOutcome (Some (rid_old_result dto)),
     rr_newOutcome = normalizeOutcome (Some (rid_new_result dto)),
     rr_oldScore = rid_old_score dto, rr_newScore = rid_new_score dto\<rparr>"

definition dtoToAnnotation :: "int \<Rightarrow> AnnotationDto \<Rightarrow> Annotation" where
  "dtoToAnnotation tz dto =
    \<lparr>an_id = ano_id dto, an_sloEvaluationId = ano_slo_evaluation_id dto,
     an_evaluationRunId = ano_evaluation_run_id dto, an_content = ano_content dto,
     an_author = ano_author dto, an_categoryId = ano_category_id dto,
     an_category = dtoToNoteCategory tz (ano_category dto), an_tags = ano_tags dto,
     an_noteGroupId = ano_note_group_id dto, an_noteGroupName = ano_note_group_name dto,
     an_hiddenAt = opt_date tz (ano_hidden_at dto), an_hiddenBy = ano_hidden_by dto,
     an_hiddenReason = ano_hidden_reason dto, an_createdAt = Date_parse tz (ano_created_at dto),
     an_updatedAt = opt_date tz (ano_updated_at dto)\<rparr>"

definition dtoToChangePointMarker :: "ChangePointMarkerDto \<Rightarrow> ChangePointMarker" where
  "dtoToChangePointMarker dto =
    \<lparr>cpm_direction = cmd_direction dto, cpm_changeRelativePct = cmd_change_relative_pct dto,
     cpm_transition = cmd_transition dto, cpm_changeAbsolute = cmd_change_absolute dto\<rparr>"

definition dtoToIndicator :: "IndicatorResultDto \<Rightarrow> Indicator" where
  "dtoToIndicator dto =
    \<lparr>in_metric = ird_metric dto, in_displayName = ird_display_name dto, in_tabGroup = ird_tab_group dto,
     in_value = ird_value dto, in_comparedValue = ird_compared_value dto,
     in_changeAbsolute = ird_change_absolute dto, in_changeRelativePct = ird_change_relative_pct dto,
     in_aggregation = ird_aggregation dto, in_status = ird_status dto, in_score = ird_score dto,
     in_weight = ird_weight dto, in_keySli = ird_key_sli dto,
     in_passTargets = map dtoToPassTarget (nullish (ird_pass_targets dto) []),
     in_warningTargets = map dtoToPassTarget (nullish (ird_warning_targets dto) []),
     in_changePoint = map_option dtoToChangePointMarker (ird_change_point dto)\<rparr>"

subsection \<open>Evaluations\<close>

definition dtoToEvaluationSummary :: "int \<Rightarrow> 'a EvaluationSummaryDto_scheme \<Rightarrow> Evaluation" where
  "dtoToEvaluationSummary tz dto =
    \<lparr>ev_id = esd_id dto, ev_evaluationId = esd_evaluation_id dto,
     ev_evaluationName = esd_evaluation_name dto, ev_status = esd_status dto,
     ev_outcome = collapseOutcome (esd_result dto) (esd_invalidated dto), ev_score = esd_score dto,
     ev_period = makeDateRange (esd_period_start dto) (esd_period_end dto),
     ev_sloName = esd_slo_name dto, ev_sloVersion = esd_slo_version dto, ev_sliName = esd_sli_name dto,
     ev_sliVersion = esd_sli_version dto, ev_dataSourceName = esd_data_source_name dto,
     ev_ingestionMode = esd_ingestion_mode dto, ev_adapterUsed = esd_adapter_used dto,
     ev_invalidated = esd_invalidated dto,
     ev_originalOutcome = (if esd_original_result dto = None then None
       else Some (normalizeOutcome (esd_original_result dto))),
     ev_originalScore = esd_original_score dto, ev_overrideReason = esd_override_reason dto,
     ev_overrideAuthor = esd_override_author dto,
     ev_assetSnapshot = dtoToAssetSnapshot (esd_asset_snapshot dto),
     ev_variables = esd_variables dto, ev_baselinePin = dtoToBaselinePin tz dto,
     ev_latestAnnotation = map_option (dtoToAnnotation tz) (esd_latest_annotation dto),
     ev_annotationCount = esd_annotation_count dto, ev_createdAt = Date_parse tz (esd_created_at dto),
     ev_topFailures = map dtoToFailingIndicator (esd_top_failures dto)\<rparr>"

definition dtoToEvaluationDetail :: "int \<Rightarrow> EvaluationDetailDto \<Rightarrow> EvaluationDetail" where
  "dtoToEvaluationDetail tz dto =
    Evaluation.extend (dtoToEvaluationSummary tz dto)
      (EvaluationDetail.fields (edd_invalidation_note dto) (edd_compared_evaluation_ids dto)
        (map (dtoToAnnotation tz) (edd_annotations dto))
        (map dtoToIndicator (edd_indicator_results dto))
        (edd_total_score_pass_threshold dto) (edd_total_score_warning_threshold dto)
        (obj_map dtoToSliMetadata (nullish (edd_sli_metadata dto) [])))"

definition dtoToEvaluationList :: "int \<Rightarrow> EvaluationSummaryDto list \<Rightarrow> int \<Rightarrow> bool \<Rightarrow> EvaluationList" where
  "dtoToEvaluationList tz items totalCount truncated =
    \<lparr>el_items = map (dtoToEvaluationSummary tz) items, el_total = totalCount, el_truncated = truncated\<rparr>"

definition dtoToBulkActionOutcome :: "BulkActionResponseDto \<Rightarrow> BulkActionOutcome" where
  "dtoToBulkActionOutcome dto =
    \<lparr>ba_succeeded = map bai_evaluation_id (bar_results dto), ba_notFound = bar_not_found dto,
     ba_updated = bar_updated dto\<rparr>"

subsection \<open>Trends, names and re-evaluation\<close>

definition dtoToTrendPoint :: "int \<Rightarrow> TrendPointDto \<Rightarrow> TrendPoint" where
  "dtoToTrendPoint tz dto =
    \<lparr>tp_timestamp = Date_parse tz (tpd_timestamp dto), tp_value = tpd_value dto, tp_score = tpd_score dto,
     tp_evalId = tpd_eval_id dto, tp_outcome = normalizeOutcome (Some (tpd_result dto)),
     tp_baseline = tpd_baseline dto, tp_evaluationName = tpd_evaluation_name dto,
     tp_targets = map_option dtoToTrendTargets (tpd_targets dto), tp_overridden = False,
     tp_changePoint = map_option dtoToChangePointMarker (tpd_change_point dto)\<rparr>"

definition dtoToSloTrends :: "int \<Rightarrow> (string, TrendPointDto list) jsmap \<Rightarrow> (string, TrendPoint list) jsmap" where
  "dtoToSloTrends tz dto = obj_map (map (dtoToTrendPoint tz)) dto"

definition dtoToEvaluationNameEntry :: "int \<Rightarrow> EvaluationNameEntryDto \<Rightarrow> EvaluationNameEntry" where
  "dtoToEvaluationNameEntry tz dto =
    \<lparr>ne_name = ned_name dto, ne_count = ned_count dto, ne_lastRun = Date_parse tz (ned_last_run dto)\<rparr>"

definition dtoToReEvaluateResponse :: "ReEvaluateResponseDto \<Rightarrow> ReEvaluateResponse" where
  "dtoToReEvaluateResponse dto =
    \<lparr>re_affectedEvaluations = rrd_affected_evaluations dto, re_sloVersionUsed = rrd_slo_version_used dto,
     re_results = map dtoToReEvaluateResultItem (rrd_results dto)\<rparr>"

subsection \<open>Request bodies\<close>

definition triggerEvaluationInputToDto :: "TriggerEvaluationInput \<Rightarrow> EvaluateSingleRequestDto" where
  "triggerEvaluationInputToDto i =
    \<lparr>esr_asset_name = ti_assetName i, esr_compare_to = None, esr_eval_name = ti_evalName i,
     esr_period_end = dr_to (ti_period i), esr_period_start = dr_from (ti_period i),
     esr_variables = ti_variables i\<rparr>"

record ReEvaluateScope =
  rsc_asset_name :: string

datatype ReEvaluateSelector = SloSelector string | EvaluationNamesSelector "string list"

record ReEvaluateFromDateBody =
  rfd_scope :: ReEvaluateScope
  rfd_selector :: "ReEvaluateSelector option"
  rfd_from_date :: string
  rfd_slo_version :: "int option"
  rfd_dry_run :: bool

record ReEvaluateFromBaselineBody =
  rfb_scope :: ReEvaluateScope
  rfb_selector :: "ReEvaluateSelector option"
  rfb_slo_version :: "int option"
  rfb_dry_run :: bool
  rfb_pin_strategy :: "PinStrategy option"

record ReEvaluateFromEvaluationBody =
  rfe_scope :: ReEvaluateScope
  rfe_selector :: "ReEvaluateSelector option"
  rfe_slo_version :: "int option"
  rfe_dry_run :: bool

datatype ReEvaluateBody =
    DateBody ReEvaluateFromDateBody
  | BaselineBody ReEvaluateFromBaselineBody
  | EvaluationBody ReEvaluateFromEvaluationBody

record ReEvaluateDto =
  red_endpoint :: string
  red_requestBody :: ReEvaluateBody

definition buildScope :: "string \<Rightarrow> ReEvaluateScope" where
  "buildScope assetName = \<lparr>rsc_asset_name = assetName\<rparr>"

definition buildSelector :: "ReEvaluateInput \<Rightarrow> ReEvaluateSelector option" where
  "buildSelector i =
    (case ri_sloName i of
       Some n \<Rightarrow> Some (SloSelector n)
     | None \<Rightarrow>
         (case ri_sloNames i of
            Some ns \<Rightarrow> if 0 < length ns then Some (EvaluationNamesSelector ns) else None
          | None \<Rightarrow> None))"

definition reEvaluateInputToDto :: "ReEvaluateInput \<Rightarrow> ReEvaluateDto" where
  "reEvaluateInputToDto i =
    (let scope = buildScope (ri_assetName i); selector = buildSelector i in
     case ri_mode i of
       FromDate d \<Rightarrow>
         \<lparr>red_endpoint = ''/evaluations/re-evaluate/from-date'',
          red_requestBody = DateBody
            \<lparr>rfd_scope = scope, rfd_selector = selector, rfd_from_date = d,
             rfd_slo_version = ri_sloVersion i, rfd_dry_run = ri_dryRun i\<rparr>\<rparr>
     | FromBaseline \<Rightarrow>
         \<lparr>red_endpoint = ''/evaluations/re-evaluate/from-baseline'',
          red_requestBody = BaselineBody
            \<lparr>rfb_scope = scope, rfb_selector = selector, rfb_slo_version = ri_sloVersion i,
             rfb_dry_run = ri_dryRun i, rfb_pin_strategy = ri_pinStrategy i\<rparr>\<rparr>
     | FromEvaluation e \<Rightarrow>
         \<lparr>red_endpoint = ''/evaluations/re-evaluate/from-evaluation/'' @ e,
          red_requestBody = EvaluationBody
            \<lparr>rfe_scope = scope, rfe_selector = selector, rfe_slo_version = ri_sloVersion i,
             rfe_dry_run = ri_dryRun i\<rparr>\<rparr>)"

definition overrideStatusInputToDto :: "OverrideStatusInput \<Rightarrow> OverrideStatusRequestDto" where
  "overrideStatusInputToDto i =
    \<lparr>osr_author = os_author i, osr_new_result = os_outcome i, osr_reason = os_reason i\<rparr>"

definition annotationCreateInputToDto :: "AnnotationCreateInput \<Rightarrow> AnnotationCreateDto" where
  "annotationCreateInputToDto i =
    \<lparr>acd_author = ac_author i, acd_category_id = ac_categoryId i, acd_content = ac_content i, acd_tags = []\<rparr>"

subsection \<open>Properties of outcomes\<close>

fun outcome_str :: "Outcome \<Rightarrow> string" where
  "outcome_str Pass = ''pass''"
| "outcome_str Warning = ''warning''"
| "outcome_str Fail = ''fail''"
| "outcome_str Error = ''error''"
| "outcome_str Invalidated = ''invalidated''"

lemma outcome_str_inject [simp]: "outcome_str a = outcome_str b \<longleftrightarrow> a = b"
  by (cases a; cases b) simp_all

lemma normalizeOutcome_str [simp]: "normalizeOutcome (Some (outcome_str v)) = v"
  by (cases v) (simp_all add: normalizeOutcome_def)

lemma normalizeOutcome_other:
  assumes "\<And>v. r \<noteq> Some (outcome_str v)"
  shows "normalizeOutcome r = Error"
  using assms [of Pass] assms [of Warning] assms [of Fail] assms [of Error] assms [of Invalidated]
  by (simp add: normalizeOutcome_def)

lemma normalizeOutcome_iff:
  "normalizeOutcome r = v \<longleftrightarrow> r = Some (outcome_str v) \<or> (v = Error \<and> (\<forall>w. r \<noteq> Some (outcome_str w)))"
  using normalizeOutcome_other [of r] normalizeOutcome_str by (cases "\<exists>w. r = Some (outcome_str w)") auto

text \<open>
  An evaluation's outcome is \<open>invalidated\<close> when the response's flag is set, whatever its result;
  without the flag it is the named outcome exactly when the result is that outcome's name, and
  \<open>error\<close> also for a missing, empty or unknown result.
\<close>

lemma dtoToEvaluationSummary_outcome:
  "ev_outcome (dtoToEvaluationSummary tz dto) = v \<longleftrightarrow>
   (if esd_invalidated dto then v = Invalidated
    else esd_result dto = Some (outcome_str v) \<or>
      (v = Error \<and> (\<forall>w. esd_result dto \<noteq> Some (outcome_str w))))"
  by (auto simp: dtoToEvaluationSummary_def collapseOutcome_def normalizeOutcome_iff)

subsection \<open>The detail view refines the list view\<close>

definition demo_snapshot :: AssetSnapshotDto where
  "demo_snapshot = \<lparr>asd_asset_id = None, asd_build_ref = None, asd_display_name = None, asd_name = ''vm'',
     asd_primary_version = None, asd_tags = None\<rparr>"

definition demo_detail :: "(string, SliMetadataDto) jsmap \<Rightarrow> EvaluationDetailDto" where
  "demo_detail m =
    \<lparr>esd_adapter_used = None, esd_annotation_count = 0, esd_asset_snapshot = demo_snapshot,
     esd_baseline_pin_author = None, esd_baseline_pin_reason = None, esd_baseline_pinned_at = None,
     esd_baseline_unpinned_at = None, esd_created_at = ''2026-03-15T10:31:00Z'', esd_data_source_name = None,
     esd_evaluation_id = ''e'', esd_evaluation_name = ''perf'', esd_id = ''i'', esd_ingestion_mode = ''pull'',
     esd_invalidated = False, esd_latest_annotation = None, esd_original_result = None,
     esd_original_score = None, esd_override_author = None, esd_override_reason = None,
     esd_period_end = ''2026-03-15T10:30:00Z'', esd_period_start = ''2026-03-15T10:00:00Z'',
     esd_result = Some ''pass'', esd_score = Some 92, esd_sli_name = None, esd_sli_version = None,
     esd_slo_name = Some ''latency'', esd_slo_version = Some 3, esd_status = ''completed'',
     esd_top_failures = [], esd_variables = [],
     edd_annotations = [], edd_compared_evaluation_ids = [''a'', ''b''], edd_indicator_results = [],
     edd_invalidation_note = None, edd_sli_metadata = Some m, edd_total_score_pass_threshold = Some 90,
     edd_total_score_warning_threshold = Some 75\<rparr>"



subsection \<open>Re-evaluation requests\<close>

lemma reEvaluate_endpoints:
  "''/evaluations/re-evaluate/from-evaluation/'' @ e \<noteq> ''/evaluations/re-evaluate/from-date''"
  "''/evaluations/re-evaluate/from-evaluation/'' @ e \<noteq> ''/evaluations/re-evaluate/from-baseline''"
  by simp_all

text \<open>
  A re-evaluation request determines its input: two inputs give the same endpoint and body exactly
  when they agree on the asset, the mode with its date or evaluation, the SLO version, the dry run, the
  selection of SLOs (a single name wins over a list, an empty list selects nothing) and, for the baseline
  mode only, the pin strategy.
\<close>

lemma reEvaluateInputToDto_determines:
  "reEvaluateInputToDto i = reEvaluateInputToDto j \<longleftrightarrow>
    ri_assetName i = ri_assetName j \<and> ri_mode i = ri_mode j \<and> ri_sloVersion i = ri_sloVersion j \<and>
    ri_dryRun i = ri_dryRun j \<and> buildSelector i = buildSelector j \<and>
    (ri_mode i = FromBaseline \<longrightarrow> ri_pinStrategy i = ri_pinStrategy j)"
  by (cases "ri_mode i"; cases "ri_mode j")
    (auto simp: reEvaluateInputToDto_def buildScope_def Let_def)

definition demo_reeval :: "PinStrategy option \<Rightarrow> ReEvaluateInput" where
  "demo_reeval p = \<lparr>ri_assetName = ''vm'', ri_sloName = None, ri_sloNames = Some [''a''], ri_mode = FromBaseline,
     ri_sloVersion = None, ri_dryRun = True, ri_pinStrategy = p\<rparr>"

theorem reEvaluateInputToDto_determines_witness:
  "reEvaluateInputToDto (demo_reeval None) \<noteq> reEvaluateInputToDto (demo_reeval (Some IgnorePin))"
  using reEvaluateInputToDto_determines [of "demo_reeval None" "demo_reeval (Some IgnorePin)"]
  by (simp add: demo_reeval_def)

end
