(* ===== verification/RegistryMappers.thy ===== *)
theory RegistryMappers
  imports EvalMappers "HOL-Library.Word"
begin

text \<open>
  The mappers of the registry features: \<open>features/{assets,slos,slis,datasources,slo-groups,change-points,
  meta_timeline}/mappers.ts\<close>, and \<open>meta_timeline/components/spanColor.ts\<close>, the 32-bit hash that colours
  a span of the meta timeline by its value.
\<close>

subsection \<open>Assets\<close>

definition dtoToAsset :: "int \<Rightarrow> AssetDto \<Rightarrow> Asset" where
  "dtoToAsset tz dto =
    \<lparr>at_id = ard_id dto, at_name = ard_name dto, at_displayName = ard_display_name dto,
     at_typeName = ard_type_name dto, at_color = ard_color dto, at_tags = ard_tags dto,
     at_variables = ard_variables dto, at_heatmapConfig = map_option (\<lambda>m. JObj m) (ard_heatmap_config dto),
     at_createdAt = Date_parse tz (ard_created_at dto), at_updatedAt = Date_parse tz (ard_updated_at dto)\<rparr>"

definition dtoToAssetType :: "AssetTypeDto \<Rightarrow> AssetType" where
  "dtoToAssetType dto =
    \<lparr>aty_id = atd_id dto, aty_name = atd_name dto, aty_isDefault = atd_is_default dto,
     aty_assetCount = atd_asset_count dto\<rparr>"

definition dtoToAssetGroupMember :: "AssetGroupMemberDto \<Rightarrow> AssetGroupMember" where
  "dtoToAssetGroupMember dto =
    \<lparr>gm_assetId = amd_asset_id dto, gm_assetName = amd_asset_name dto,
     gm_assetDisplayName = amd_asset_display_name dto, gm_assetTypeName = amd_asset_type_name dto,
     gm_weight = amd_weight dto\<rparr>"

definition dtoToAssetGroupSubgroup :: "AssetGroupSubgroupDto \<Rightarrow> AssetGroupSubgroup" where
  "dtoToAssetGroupSubgroup dto =
    \<lparr>gs_groupId = asb_group_id dto, gs_groupName = asb_group_name dto, gs_weight = asb_weight dto\<rparr>"

definition dtoToAssetGroup :: "int \<Rightarrow> AssetGroupDto \<Rightarrow> AssetGroup" where
  "dtoToAssetGroup tz dto =
    \<lparr>ag_id = agd_id dto, ag_name = agd_name dto, ag_displayName = agd_display_name dto,
     ag_description = agd_description dto, ag_color = agd_color dto,
     ag_members = map dtoToAssetGroupMember (agd_members dto),
     ag_subgroups = map dtoToAssetGroupSubgroup (agd_subgroups dto),
     ag_createdAt = Date_parse tz (agd_created_at dto), ag_updatedAt = Date_parse tz (agd_updated_at dto)\<rparr>"

definition dtoToAssetGroupTree :: "int \<Rightarrow> AssetGroupTreeDto \<Rightarrow> AssetGroupTree" where
  "dtoToAssetGroupTree tz dto =
    \<lparr>agt_topLevel = map (dtoToAssetGroup tz) (gtd_top_level dto),
     agt_allGroups = map (dtoToAssetGroup tz) (gtd_all_groups dto)\<rparr>"

subsection \<open>SLOs\<close>

definition dtoToComparison :: "SloComparisonConfigDto option \<Rightarrow> SloComparisonConfig" where
  "dtoToComparison d =
    (case d of
       None \<Rightarrow> \<lparr>sc_compareWith = None, sc_includeResultWithScore = None, sc_numberOfComparisonResults = None,
         sc_aggregateFunction = None, sc_scopeTags = None\<rparr>
     | Some dto \<Rightarrow>
         \<lparr>sc_compareWith = ccd_compare_with dto, sc_includeResultWithScore = ccd_include_result_with_score dto,
          sc_numberOfComparisonResults = ccd_number_of_comparison_results dto,
          sc_aggregateFunction = ccd_aggregate_function dto, sc_scopeTags = ccd_scope_tags dto\<rparr>)"

definition dtoToMethodCriteriaOverride :: "MethodCriteriaOverrideDto \<Rightarrow> MethodCriteriaOverride" where
  "dtoToMethodCriteriaOverride dto =
    \<lparr>mco_method = mcd_method dto, mco_aggregation = mcd_aggregation dto,
     mco_passThreshold = mcd_pass_threshold dto, mco_warningThreshold = mcd_warning_threshold dto,
     mco_weight = mcd_weight dto, mco_keySli = mcd_key_sli dto\<rparr>"

definition dtoToMethodCriteria ::
  "(string, MethodCriteriaOverrideDto) jsmap option \<Rightarrow> (string, MethodCriteriaOverride) jsmap option" where
  "dtoToMethodCriteria d = map_option (obj_map dtoToMethodCriteriaOverride) d"

definition dtoToObjective :: "SloObjectiveDto \<Rightarrow> SloObjective" where
  "dtoToObjective dto =
    \<lparr>so_sli = sod_sli dto, so_displayName = sod_display_name dto,
     so_passThreshold = nullish (sod_pass_threshold dto) [],
     so_warningThreshold = nullish (sod_warning_threshold dto) [],
     so_weight = sod_weight dto, so_keySli = sod_key_sli dto, so_sortOrder = sod_sort_order dto\<rparr>"

definition dtoToValidationObjective :: "SloObjectiveInDto \<Rightarrow> SloValidationObjective" where
  "dtoToValidationObjective dto =
    \<lparr>svo_sli = soi_sli dto, svo_displayName = soi_display_name dto,
     svo_passThreshold = nullish (soi_pass_threshold dto) [],
     svo_warningThreshold = nullish (soi_warning_threshold dto) [],
     svo_weight = soi_weight dto, svo_keySli = soi_key_sli dto\<rparr>"

definition dtoToSlo :: "int \<Rightarrow> SloDto \<Rightarrow> Slo" where
  "dtoToSlo tz dto =
    \<lparr>slo_id = sld_id dto, slo_name = sld_name dto, slo_version = sld_version dto,
     slo_comparableFromVersion = sld_comparable_from_version dto, slo_displayName = sld_display_name dto,
     slo_author = sld_author dto, slo_notes = sld_notes dto, slo_tags = sld_tags dto,
     slo_variables = sld_variables dto, slo_kind = sld_kind dto,
     slo_sliDefinitionId = sld_sli_definition_id dto, slo_sliName = sld_sli_name dto,
     slo_sliVersion = sld_sli_version dto, slo_createdAt = Date_parse tz (sld_created_at dto),
     slo_active = sld_active dto, slo_objectives = map dtoToObjective (sld_objectives dto),
     slo_totalScorePassThreshold = sld_total_score_pass_threshold dto,
     slo_totalScoreWarningThreshold = sld_total_score_warning_threshold dto,
     slo_comparison = dtoToComparison (Some (sld_comparison dto)),
     slo_methodCriteria = dtoToMethodCriteria (sld_method_criteria dto)\<rparr>"

definition dtoToSloAssignment :: "int \<Rightarrow> SloAssignmentDto \<Rightarrow> SloAssignment" where
  "dtoToSloAssignment tz dto =
    \<lparr>sa_id = sad_id dto, sa_assetId = sad_asset_id dto, sa_assetGroupId = sad_asset_group_id dto,
     sa_sloDefinitionId = sad_slo_definition_id dto, sa_sloName = sad_slo_name dto,
     sa_sloVersion = sad_slo_version dto, sa_dataSourceId = sad_data_source_id dto,
     sa_dataSourceName = sad_data_source_name dto,
     sa_comparisonRules = map_option (map (\<lambda>m. JObj m)) (sad_comparison_rules dto),
     sa_createdAt = Date_parse tz (sad_created_at dto)\<rparr>"

definition dtoToSloGroupAssignment :: "int \<Rightarrow> SloGroupAssignmentDto \<Rightarrow> SloGroupAssignment" where
  "dtoToSloGroupAssignment tz dto =
    \<lparr>ga_id = gad_id dto, ga_assetId = gad_asset_id dto, ga_assetGroupId = gad_asset_group_id dto,
     ga_sloGroupId = gad_slo_group_id dto, ga_sloGroupName = gad_slo_group_name dto,
     ga_dataSourceId = gad_data_source_id dto, ga_dataSourceName = gad_data_source_name dto,
     ga_createdAt = Date_parse tz (gad_created_at dto)\<rparr>"

definition dtoToSloValidationResult :: "SloValidationResultDto \<Rightarrow> SloValidationResult" where
  "dtoToSloValidationResult dto =
    \<lparr>svr_valid = svd_valid dto,
     svr_errors = map (\<lambda>e. \<lparr>sve_field = sed_field e, sve_message = sed_message e\<rparr>) (svd_errors dto),
     svr_objectives = map_option (map dtoToValidationObjective) (svd_objectives dto)\<rparr>"

subsection \<open>SLIs, data sources, SLO groups, change points\<close>

definition dtoToSli :: "int \<Rightarrow> SliDto \<Rightarrow> Sli" where
  "dtoToSli tz dto =
    \<lparr>sli_id = sdd_id dto, sli_name = sdd_name dto, sli_displayName = sdd_display_name dto,
     sli_adapterType = sdd_adapter_type dto, sli_version = sdd_version dto,
     sli_comparableFromVersion = sdd_comparable_from_version dto, sli_indicators = sdd_indicators dto,
     sli_mode = sdd_mode dto, sli_queryTemplate = sdd_query_template dto, sli_interval = sdd_interval dto,
     sli_methods = sdd_methods dto, sli_notes = sdd_notes dto, sli_author = sdd_author dto,
     sli_tags = sdd_tags dto, sli_active = sdd_active dto,
     sli_createdAt = Date_parse tz (sdd_created_at dto)\<rparr>"

definition dtoToDatasource :: "int \<Rightarrow> DatasourceDto \<Rightarrow> Datasource" where
  "dtoToDatasource tz dto =
    \<lparr>ds_id = dsd_id dto, ds_name = dsd_name dto, ds_displayName = dsd_display_name dto,
     ds_adapterType = dsd_adapter_type dto, ds_adapterUrl = dsd_adapter_url dto, ds_tags = dsd_tags dto,
     ds_hasToken = dsd_has_token dto, ds_createdAt = Date_parse tz (dsd_created_at dto),
     ds_updatedAt = Date_parse tz (dsd_updated_at dto)\<rparr>"

definition dtoToSloGroup :: "int \<Rightarrow> SloGroupDto \<Rightarrow> SloGroup" where
  "dtoToSloGroup tz dto =
    \<lparr>sg_id = sgd_id dto, sg_name = sgd_name dto, sg_displayName = sgd_display_name dto,
     sg_templateSloName = sgd_template_slo_name dto, sg_templateSloVersion = sgd_template_slo_version dto,
     sg_genVariables = sgd_gen_variables dto, sg_tags = sgd_tags dto, sg_author = sgd_author dto,
     sg_version = sgd_version dto, sg_active = sgd_active dto,
     sg_createdAt = Date_parse tz (sgd_created_at dto), sg_updatedAt = Date_parse tz (sgd_updated_at dto),
     sg_generatedSloCount = sgd_generated_slo_count dto\<rparr>"

definition dtoToChangePoint :: "int \<Rightarrow> ChangePointReadDto \<Rightarrow> ChangePoint" where
  "dtoToChangePoint tz dto =
    \<lparr>chp_id = cpd_id dto, chp_assetId = cpd_asset_id dto, chp_sloName = cpd_slo_name dto,
     chp_metricName = cpd_metric_name dto, chp_periodStart = Date_parse tz (cpd_period_start dto),
     chp_direction = cpd_direction dto, chp_changeRelativePct = cpd_change_relative_pct dto,
     chp_transition = cpd_transition dto, chp_changeAbsolute = cpd_change_absolute dto,
     chp_preSegmentMean = cpd_pre_segment_mean dto, chp_postSegmentMean = cpd_post_segment_mean dto,
     chp_pvalue = cpd_pvalue dto, chp_status = cpd_status dto, chp_triageAuthor = cpd_triage_author dto,
     chp_triageNote = cpd_triage_note dto, chp_triageAt = opt_date tz (cpd_triage_at dto),
     chp_linkedTicket = cpd_linked_ticket dto, chp_foundByEvaluationId = cpd_found_by_evaluation_id dto,
     chp_createdAt = Date_parse tz (cpd_created_at dto)\<rparr>"

subsection \<open>The meta timeline\<close>

definition META_SPAN_PALETTE_SIZE :: int where
  "META_SPAN_PALETTE_SIZE = 8"

text \<open>
  One round of the hash, \<open>((hash << 5) + hash + c) | 0\<close>: the shift and the final truncation work on 32
  bits, and the sum in between is far below the exact range of a double, so wrapping addition is the same.
\<close>

definition span_hash_step :: "char \<Rightarrow> 32 word \<Rightarrow> 32 word" where
  "span_hash_step c hash = push_bit 5 hash + hash + of_nat (of_char c)"

definition span_hash :: "string \<Rightarrow> 32 word" where
  "span_hash v = fold span_hash_step v 5381"

definition getSpanColorIndex :: "string \<Rightarrow> int" where
  "getSpanColorIndex v = \<bar>sint (span_hash v)\<bar> mod META_SPAN_PALETTE_SIZE"

definition dtoToGroup :: "TimelineGroupDto \<Rightarrow> MetaTimelineGroup" where
  "dtoToGroup dto =
    \<lparr>mg_id = tgd_id dto, mg_content = tgd_content dto, mg_nestedGroups = tgd_nestedGroups dto,
     mg_showNested = tgd_showNested dto\<rparr>"

definition dtoToItem :: "int \<Rightarrow> TimelineItemDto \<Rightarrow> MetaTimelineItem" where
  "dtoToItem tz dto =
    (let colorClass = ''meta-span-color-'' @ show_int (getSpanColorIndex (tid_content dto)) in
     \<lparr>mi_id = tid_id dto, mi_group = tid_group dto, mi_content = tid_content dto,
      mi_start = Date_parse tz (tid_start dto), mi_end = Date_parse tz (tid_end dto), mi_type = ''range'',
      mi_className = (if tid_className dto \<noteq> [] then tid_className dto @ '' '' @ colorClass else colorClass),
      mi_source = tid_source dto\<rparr>)"

definition dtoToMetaTimelineResponse :: "int \<Rightarrow> TimelineResponseDto \<Rightarrow> MetaTimelineResponse" where
  "dtoToMetaTimelineResponse tz dto =
    \<lparr>mr_groups = map dtoToGroup (trd_groups dto), mr_items = map (dtoToItem tz) (trd_items dto)\<rparr>"

definition dtoToMetaTimelineSummary :: "TimelineSummaryDto \<Rightarrow> MetaTimelineSummary" where
  "dtoToMetaTimelineSummary dto = \<lparr>ms_itemCount = tsd_itemCount dto\<rparr>"

subsection \<open>Properties of the span colours\<close>

definition code_sum :: "string \<Rightarrow> int" where
  "code_sum v = (\<Sum>c\<leftarrow>v. int (of_char c))"

text \<open>Modulo 32 the hash only adds up the code units, because 33 is 1 modulo 32.\<close>

lemma mod_2_32_8: "x mod 2 ^ 32 mod 8 = x mod (8 :: int)"
  by (rule mod_mod_cancel) simp

lemma mod_33_8: "(a * 33 + b) mod 8 = (a + b) mod (8 :: int)"
proof -
  have "a * 33 + b = (a + b) + (4 * a) * 8" by simp
  then show ?thesis by (simp only: mod_mult_self1)
qed

lemma span_hash_step_uint: "uint (span_hash_step c h) mod 8 = (uint h + int (of_char c)) mod 8"
proof -
  have "push_bit 5 h + h = h * (32 + 1)"
    unfolding distrib_left push_bit_eq_mult by simp
  also have "\<dots> = of_int (uint h) * of_int 33" by simp
  finally have "span_hash_step c h = of_int (uint h * 33 + int (of_char c))"
    unfolding span_hash_step_def of_int_add of_int_mult by simp
  then have "uint (span_hash_step c h) = (uint h * 33 + int (of_char c)) mod 2 ^ 32"
    by (simp only: uint_word_of_int) simp
  then have "uint (span_hash_step c h) mod 8 = (uint h * 33 + int (of_char c)) mod 8"
    by (simp only: mod_2_32_8)
  then show ?thesis by (simp only: mod_33_8)
qed

lemma span_hash_mod: "uint (span_hash v) mod 8 = (5381 + code_sum v) mod 8"
proof -
  have "uint (fold span_hash_step v h) mod 8 = (uint h + code_sum v) mod 8" for h
  proof (induction v arbitrary: h)
    case (Cons c v)
    have "uint (fold span_hash_step (c # v) h) mod 8 = (uint (span_hash_step c h) mod 8 + code_sum v) mod 8"
      using Cons [of "span_hash_step c h"] by (simp add: mod_simps)
    then show ?case by (simp add: span_hash_step_uint code_sum_def mod_simps ac_simps)
  qed (simp add: code_sum_def)
  from this [of 5381] show ?thesis by (simp add: span_hash_def)
qed

lemma sint_mod_8: "sint (w :: 32 word) mod 8 = uint w mod 8"
proof -
  have "uint w = sint w mod 2 ^ 32"
    using uint_sint [of w] by (simp add: take_bit_eq_mod)
  then show ?thesis by (simp only: mod_2_32_8)
qed

lemma abs_mod_8:
  assumes "s mod 8 = k mod (8 :: int)"
  shows "\<bar>s\<bar> mod 8 = k mod 8 \<or> \<bar>s\<bar> mod 8 = (- k) mod 8"
proof (cases "0 \<le> s")
  case True
  then show ?thesis using assms by simp
next
  case False
  then have "\<bar>s\<bar> = - s" by simp
  moreover have "(- s) mod 8 = (- k) mod 8"
    using assms by (metis mod_minus_eq)
  ultimately have "\<bar>s\<bar> mod 8 = (- k) mod 8" by simp
  then show ?thesis by simp
qed

text \<open>
  The colour of a timeline span is one of the eight classes of the palette, and it is decided
  by the sum of the value's character codes alone, up to a reflection that comes from the sign of the 32-bit
  hash: the order of the characters never spreads values over more than those two classes.
\<close>

lemma getSpanColorIndex_correct:
  "0 \<le> getSpanColorIndex v \<and> getSpanColorIndex v < META_SPAN_PALETTE_SIZE \<and>
   (getSpanColorIndex v = (5 + code_sum v) mod 8 \<or> getSpanColorIndex v = (- (5 + code_sum v)) mod 8)"
proof -
  have "(5381 + code_sum v) mod 8 = (5 + code_sum v) mod 8"
    using mod_add_left_eq [of 5381 8 "code_sum v"] mod_add_left_eq [of 5 8 "code_sum v"] by simp
  then have "sint (span_hash v) mod 8 = (5 + code_sum v) mod 8"
    by (simp only: sint_mod_8 span_hash_mod)
  from abs_mod_8 [OF this] show ?thesis
    by (simp add: getSpanColorIndex_def META_SPAN_PALETTE_SIZE_def)
qed

end
