(* ===== verification/Coverage.thy ===== *)
theory Coverage
  imports Dtos
begin

text \<open>
  The exhaustiveness frames of the mapper files: the field names each mapper translates
  (\<open>Mapped...Keys\<close>) and drops on purpose (\<open>Dropped...Keys\<close>), and the names of the schema that are in
  neither (\<open>...Coverage\<close>, the type the sources require to be \<open>never\<close>).
\<close>

text \<open>\<open>Exclude<keyof Dto, Handled>\<close>\<close>

definition exclude_keys :: "string list \<Rightarrow> string list \<Rightarrow> string list" where
  "exclude_keys ks handled = filter (\<lambda>k. k \<notin> set handled) ks"

subsection \<open>Evaluations\<close>

definition DroppedEvaluationSummaryKeys :: "string list" where
  "DroppedEvaluationSummaryKeys = []"

definition MappedEvaluationSummaryKeys :: "string list" where
  "MappedEvaluationSummaryKeys = [
  ''id'', ''evaluation_id'', ''evaluation_name'', ''status'', ''result'', ''score'',
    ''period_start'', ''period_end'', ''slo_name'', ''slo_version'', ''sli_name'',
    ''sli_version'', ''data_source_name'', ''ingestion_mode'', ''adapter_used'', ''invalidated'',
    ''original_result'', ''original_score'', ''override_reason'', ''override_author'',
    ''asset_snapshot'', ''variables'', ''latest_annotation'', ''annotation_count'',
    ''created_at'', ''top_failures'', ''baseline_pin_author'', ''baseline_pin_reason'',
    ''baseline_pinned_at'', ''baseline_unpinned_at'']"

definition DroppedEvaluationDetailKeys :: "string list" where
  "DroppedEvaluationDetailKeys = []"

definition MappedEvaluationDetailKeys :: "string list" where
  "MappedEvaluationDetailKeys = MappedEvaluationSummaryKeys @ [
  ''invalidation_note'', ''compared_evaluation_ids'', ''annotations'', ''indicator_results'',
    ''total_score_pass_threshold'', ''total_score_warning_threshold'', ''sli_metadata'']"

definition DroppedIndicatorKeys :: "string list" where
  "DroppedIndicatorKeys = []"

definition MappedIndicatorKeys :: "string list" where
  "MappedIndicatorKeys = [
  ''metric'', ''display_name'', ''tab_group'', ''value'', ''compared_value'', ''change_absolute'',
    ''change_relative_pct'', ''aggregation'', ''status'', ''score'', ''weight'', ''key_sli'',
    ''pass_targets'', ''warning_targets'', ''change_point'']"

definition DroppedAnnotationKeys :: "string list" where
  "DroppedAnnotationKeys = []"

definition MappedAnnotationKeys :: "string list" where
  "MappedAnnotationKeys = [
  ''id'', ''slo_evaluation_id'', ''evaluation_run_id'', ''content'', ''author'', ''category'',
    ''category_id'', ''tags'', ''note_group_id'', ''note_group_name'', ''hidden_at'',
    ''hidden_by'', ''hidden_reason'', ''created_at'', ''updated_at'']"

definition DroppedAssetSnapshotKeys :: "string list" where
  "DroppedAssetSnapshotKeys = []"

definition MappedAssetSnapshotKeys :: "string list" where
  "MappedAssetSnapshotKeys = [
  ''asset_id'', ''name'', ''display_name'', ''tags'', ''primary_version'', ''build_ref'']"

definition DroppedPassTargetKeys :: "string list" where
  "DroppedPassTargetKeys = []"

definition MappedPassTargetKeys :: "string list" where
  "MappedPassTargetKeys = [
  ''criteria'', ''target_value'', ''violated'']"

definition DroppedFailingIndicatorKeys :: "string list" where
  "DroppedFailingIndicatorKeys = []"

definition MappedFailingIndicatorKeys :: "string list" where
  "MappedFailingIndicatorKeys = [
  ''metric'', ''display_name'', ''value'', ''threshold'']"

definition DroppedSliMetadataKeys :: "string list" where
  "DroppedSliMetadataKeys = []"

definition MappedSliMetadataKeys :: "string list" where
  "MappedSliMetadataKeys = [
  ''mode'', ''expected_samples'', ''actual_samples'', ''missing_pct'', ''chunks_failed'']"

definition DroppedTrendPointKeys :: "string list" where
  "DroppedTrendPointKeys = []"

definition MappedTrendPointKeys :: "string list" where
  "MappedTrendPointKeys = [
  ''timestamp'', ''value'', ''score'', ''eval_id'', ''result'', ''baseline'', ''evaluation_name'',
    ''targets'', ''change_point'']"

definition DroppedTrendTargetsKeys :: "string list" where
  "DroppedTrendTargetsKeys = []"

definition MappedTrendTargetsKeys :: "string list" where
  "MappedTrendTargetsKeys = [
  ''pass'', ''warn'']"

definition DroppedTrendTargetEntryKeys :: "string list" where
  "DroppedTrendTargetEntryKeys = []"

definition MappedTrendTargetEntryKeys :: "string list" where
  "MappedTrendTargetEntryKeys = [
  ''criteria'', ''target_value'', ''violated'']"

definition DroppedEvaluationNameEntryKeys :: "string list" where
  "DroppedEvaluationNameEntryKeys = []"

definition MappedEvaluationNameEntryKeys :: "string list" where
  "MappedEvaluationNameEntryKeys = [
  ''name'', ''count'', ''last_run'']"

definition DroppedReEvalResultItemKeys :: "string list" where
  "DroppedReEvalResultItemKeys = []"

definition MappedReEvalResultItemKeys :: "string list" where
  "MappedReEvalResultItemKeys = [
  ''id'', ''evaluation_name'', ''slo_name'', ''slo_version'', ''period_start'', ''period_end'',
    ''old_result'', ''new_result'', ''old_score'', ''new_score'']"

definition DroppedReEvaluateResponseKeys :: "string list" where
  "DroppedReEvaluateResponseKeys = []"

definition MappedReEvaluateResponseKeys :: "string list" where
  "MappedReEvaluateResponseKeys = [
  ''affected_evaluations'', ''slo_version_used'', ''results'']"

definition EvaluationSummaryCoverage :: "string list" where
  "EvaluationSummaryCoverage = exclude_keys keyof_EvaluationSummaryDto (MappedEvaluationSummaryKeys @ DroppedEvaluationSummaryKeys)"

definition EvaluationDetailCoverage :: "string list" where
  "EvaluationDetailCoverage = exclude_keys keyof_EvaluationDetailDto (MappedEvaluationDetailKeys @ DroppedEvaluationDetailKeys)"

definition IndicatorCoverage :: "string list" where
  "IndicatorCoverage = exclude_keys keyof_IndicatorResultDto (MappedIndicatorKeys @ DroppedIndicatorKeys)"

definition AnnotationCoverage :: "string list" where
  "AnnotationCoverage = exclude_keys keyof_AnnotationDto (MappedAnnotationKeys @ DroppedAnnotationKeys)"

definition AssetSnapshotCoverage :: "string list" where
  "AssetSnapshotCoverage = exclude_keys keyof_AssetSnapshotDto (MappedAssetSnapshotKeys @ DroppedAssetSnapshotKeys)"

definition PassTargetCoverage :: "string list" where
  "PassTargetCoverage = exclude_keys keyof_PassTargetDto (MappedPassTargetKeys @ DroppedPassTargetKeys)"

definition FailingIndicatorCoverage :: "string list" where
  "FailingIndicatorCoverage = exclude_keys keyof_FailingIndicatorDto (MappedFailingIndicatorKeys @ DroppedFailingIndicatorKeys)"

definition SliMetadataCoverage :: "string list" where
  "SliMetadataCoverage = exclude_keys keyof_SliMetadataDto (MappedSliMetadataKeys @ DroppedSliMetadataKeys)"

definition TrendPointCoverage :: "string list" where
  "TrendPointCoverage = exclude_keys keyof_TrendPointDto (MappedTrendPointKeys @ DroppedTrendPointKeys)"

definition TrendTargetsCoverage :: "string list" where
  "TrendTargetsCoverage = exclude_keys keyof_TrendTargetsDto (MappedTrendTargetsKeys @ DroppedTrendTargetsKeys)"

definition TrendTargetEntryCoverage :: "string list" where
  "TrendTargetEntryCoverage = exclude_keys keyof_TrendTargetEntryDto (MappedTrendTargetEntryKeys @ DroppedTrendTargetEntryKeys)"

definition EvaluationNameEntryCoverage :: "string list" where
  "EvaluationNameEntryCoverage = exclude_keys keyof_EvaluationNameEntryDto (MappedEvaluationNameEntryKeys @ DroppedEvaluationNameEntryKeys)"

definition ReEvalResultItemCoverage :: "string list" where
  "ReEvalResultItemCoverage = exclude_keys keyof_ReEvalResultItemDto (MappedReEvalResultItemKeys @ DroppedReEvalResultItemKeys)"

definition ReEvaluateResponseCoverage :: "string list" where
  "ReEvaluateResponseCoverage = exclude_keys keyof_ReEvaluateResponseDto (MappedReEvaluateResponseKeys @ DroppedReEvaluateResponseKeys)"

subsection \<open>Assets\<close>

definition DroppedAssetKeys :: "string list" where
  "DroppedAssetKeys = []"

definition MappedAssetKeys :: "string list" where
  "MappedAssetKeys = [
  ''id'', ''name'', ''display_name'', ''type_name'', ''color'', ''tags'', ''variables'',
    ''heatmap_config'', ''created_at'', ''updated_at'']"

definition DroppedAssetTypeKeys :: "string list" where
  "DroppedAssetTypeKeys = []"

definition MappedAssetTypeKeys :: "string list" where
  "MappedAssetTypeKeys = [
  ''id'', ''name'', ''is_default'', ''asset_count'']"

definition DroppedAssetGroupKeys :: "string list" where
  "DroppedAssetGroupKeys = []"

definition MappedAssetGroupKeys :: "string list" where
  "MappedAssetGroupKeys = [
  ''id'', ''name'', ''display_name'', ''description'', ''color'', ''members'', ''subgroups'',
    ''created_at'', ''updated_at'']"

definition DroppedAssetGroupMemberKeys :: "string list" where
  "DroppedAssetGroupMemberKeys = []"

definition MappedAssetGroupMemberKeys :: "string list" where
  "MappedAssetGroupMemberKeys = [
  ''asset_id'', ''asset_name'', ''asset_display_name'', ''asset_type_name'', ''weight'']"

definition DroppedAssetGroupSubgroupKeys :: "string list" where
  "DroppedAssetGroupSubgroupKeys = []"

definition MappedAssetGroupSubgroupKeys :: "string list" where
  "MappedAssetGroupSubgroupKeys = [
  ''group_id'', ''group_name'', ''weight'']"

definition DroppedAssetGroupTreeKeys :: "string list" where
  "DroppedAssetGroupTreeKeys = []"

definition MappedAssetGroupTreeKeys :: "string list" where
  "MappedAssetGroupTreeKeys = [
  ''top_level'', ''all_groups'']"

definition AssetCoverage :: "string list" where
  "AssetCoverage = exclude_keys keyof_AssetDto (MappedAssetKeys @ DroppedAssetKeys)"

definition AssetTypeCoverage :: "string list" where
  "AssetTypeCoverage = exclude_keys keyof_AssetTypeDto (MappedAssetTypeKeys @ DroppedAssetTypeKeys)"

definition AssetGroupCoverage :: "string list" where
  "AssetGroupCoverage = exclude_keys keyof_AssetGroupDto (MappedAssetGroupKeys @ DroppedAssetGroupKeys)"

definition AssetGroupMemberCoverage :: "string list" where
  "AssetGroupMemberCoverage = exclude_keys keyof_AssetGroupMemberDto (MappedAssetGroupMemberKeys @ DroppedAssetGroupMemberKeys)"

definition AssetGroupSubgroupCoverage :: "string list" where
  "AssetGroupSubgroupCoverage = exclude_keys keyof_AssetGroupSubgroupDto (MappedAssetGroupSubgroupKeys @ DroppedAssetGroupSubgroupKeys)"

definition AssetGroupTreeCoverage :: "string list" where
  "AssetGroupTreeCoverage = exclude_keys keyof_AssetGroupTreeDto (MappedAssetGroupTreeKeys @ DroppedAssetGroupTreeKeys)"

subsection \<open>SLOs\<close>

definition DroppedSloKeys :: "string list" where
  "DroppedSloKeys = []"

definition MappedSloKeys :: "string list" where
  "MappedSloKeys = [
  ''id'', ''name'', ''version'', ''comparable_from_version'', ''display_name'', ''author'',
    ''notes'', ''tags'', ''variables'', ''kind'', ''sli_definition_id'', ''sli_name'',
    ''sli_version'', ''created_at'', ''active'', ''objectives'', ''total_score_pass_threshold'',
    ''total_score_warning_threshold'', ''comparison'', ''method_criteria'']"

definition DroppedSloObjectiveKeys :: "string list" where
  "DroppedSloObjectiveKeys = [
  ''change_point'']"

definition MappedSloObjectiveKeys :: "string list" where
  "MappedSloObjectiveKeys = [
  ''sli'', ''display_name'', ''pass_threshold'', ''warning_threshold'', ''weight'', ''key_sli'',
    ''sort_order'']"

definition DroppedSloAssignmentKeys :: "string list" where
  "DroppedSloAssignmentKeys = []"

definition MappedSloAssignmentKeys :: "string list" where
  "MappedSloAssignmentKeys = [
  ''id'', ''asset_id'', ''asset_group_id'', ''slo_definition_id'', ''slo_name'', ''slo_version'',
    ''data_source_id'', ''data_source_name'', ''comparison_rules'', ''created_at'']"

definition DroppedSloGroupAssignmentKeys :: "string list" where
  "DroppedSloGroupAssignmentKeys = []"

definition MappedSloGroupAssignmentKeys :: "string list" where
  "MappedSloGroupAssignmentKeys = [
  ''id'', ''asset_id'', ''asset_group_id'', ''slo_group_id'', ''slo_group_name'',
    ''data_source_id'', ''data_source_name'', ''created_at'']"

definition SloCoverage :: "string list" where
  "SloCoverage = exclude_keys keyof_SloDto (MappedSloKeys @ DroppedSloKeys)"

definition SloObjectiveCoverage :: "string list" where
  "SloObjectiveCoverage = exclude_keys keyof_SloObjectiveDto (MappedSloObjectiveKeys @ DroppedSloObjectiveKeys)"

definition SloAssignmentCoverage :: "string list" where
  "SloAssignmentCoverage = exclude_keys keyof_SloAssignmentDto (MappedSloAssignmentKeys @ DroppedSloAssignmentKeys)"

definition SloGroupAssignmentCoverage :: "string list" where
  "SloGroupAssignmentCoverage = exclude_keys keyof_SloGroupAssignmentDto (MappedSloGroupAssignmentKeys @ DroppedSloGroupAssignmentKeys)"

subsection \<open>SLIs\<close>

definition DroppedSliKeys :: "string list" where
  "DroppedSliKeys = []"

definition MappedSliKeys :: "string list" where
  "MappedSliKeys = [
  ''id'', ''name'', ''display_name'', ''adapter_type'', ''version'', ''comparable_from_version'',
    ''indicators'', ''mode'', ''query_template'', ''interval'', ''methods'', ''notes'',
    ''author'', ''tags'', ''active'', ''created_at'']"

definition SliCoverage :: "string list" where
  "SliCoverage = exclude_keys keyof_SliDto (MappedSliKeys @ DroppedSliKeys)"

subsection \<open>Data sources\<close>

definition DroppedDatasourceKeys :: "string list" where
  "DroppedDatasourceKeys = []"

definition MappedDatasourceKeys :: "string list" where
  "MappedDatasourceKeys = [
  ''id'', ''name'', ''display_name'', ''adapter_type'', ''adapter_url'', ''tags'', ''has_token'',
    ''created_at'', ''updated_at'']"

definition DatasourceCoverage :: "string list" where
  "DatasourceCoverage = exclude_keys keyof_DatasourceDto (MappedDatasourceKeys @ DroppedDatasourceKeys)"

subsection \<open>SLO groups\<close>

definition DroppedSloGroupKeys :: "string list" where
  "DroppedSloGroupKeys = [
  ''template_slo_definition_id'']"

definition MappedSloGroupKeys :: "string list" where
  "MappedSloGroupKeys = [
  ''id'', ''name'', ''display_name'', ''template_slo_name'', ''template_slo_version'',
    ''gen_variables'', ''tags'', ''author'', ''version'', ''active'', ''created_at'',
    ''updated_at'', ''generated_slo_count'']"

definition SloGroupCoverage :: "string list" where
  "SloGroupCoverage = exclude_keys keyof_SloGroupDto (MappedSloGroupKeys @ DroppedSloGroupKeys)"

subsection \<open>Every field is handled\<close>

text \<open>A mapper is exact when its mapped and dropped fields are exactly the fields of the schema, without overlap.\<close>

definition exact_keys :: "string list \<Rightarrow> string list \<Rightarrow> string list \<Rightarrow> bool" where
  "exact_keys ks mapped dropped \<longleftrightarrow> set ks = set mapped \<union> set dropped \<and> set mapped \<inter> set dropped = {}"

lemma exact_covered: "exact_keys ks mapped dropped \<Longrightarrow> exclude_keys ks (mapped @ dropped) = []"
  by (auto simp: exact_keys_def exclude_keys_def filter_empty_conv)

lemma exact_evaluations:
  "exact_keys keyof_EvaluationSummaryDto
     MappedEvaluationSummaryKeys DroppedEvaluationSummaryKeys"
  "exact_keys keyof_EvaluationDetailDto
     MappedEvaluationDetailKeys DroppedEvaluationDetailKeys"
  "exact_keys keyof_IndicatorResultDto
     MappedIndicatorKeys DroppedIndicatorKeys"
  "exact_keys keyof_AnnotationDto
     MappedAnnotationKeys DroppedAnnotationKeys"
  "exact_keys keyof_AssetSnapshotDto
     MappedAssetSnapshotKeys DroppedAssetSnapshotKeys"
  "exact_keys keyof_PassTargetDto
     MappedPassTargetKeys DroppedPassTargetKeys"
  "exact_keys keyof_FailingIndicatorDto
     MappedFailingIndicatorKeys DroppedFailingIndicatorKeys"
  "exact_keys keyof_SliMetadataDto
     MappedSliMetadataKeys DroppedSliMetadataKeys"
  "exact_keys keyof_TrendPointDto
     MappedTrendPointKeys DroppedTrendPointKeys"
  "exact_keys keyof_TrendTargetsDto
     MappedTrendTargetsKeys DroppedTrendTargetsKeys"
  "exact_keys keyof_TrendTargetEntryDto
     MappedTrendTargetEntryKeys DroppedTrendTargetEntryKeys"
  "exact_keys keyof_EvaluationNameEntryDto
     MappedEvaluationNameEntryKeys DroppedEvaluationNameEntryKeys"
  "exact_keys keyof_ReEvalResultItemDto
     MappedReEvalResultItemKeys DroppedReEvalResultItemKeys"
  "exact_keys keyof_ReEvaluateResponseDto
     MappedReEvaluateResponseKeys DroppedReEvaluateResponseKeys"
  by code_simp+

lemma exact_assets:
  "exact_keys keyof_AssetDto
     MappedAssetKeys DroppedAssetKeys"
  "exact_keys keyof_AssetTypeDto
     MappedAssetTypeKeys DroppedAssetTypeKeys"
  "exact_keys keyof_AssetGroupDto
     MappedAssetGroupKeys DroppedAssetGroupKeys"
  "exact_keys keyof_AssetGroupMemberDto
     MappedAssetGroupMemberKeys DroppedAssetGroupMemberKeys"
  "exact_keys keyof_AssetGroupSubgroupDto
     MappedAssetGroupSubgroupKeys DroppedAssetGroupSubgroupKeys"
  "exact_keys keyof_AssetGroupTreeDto
     MappedAssetGroupTreeKeys DroppedAssetGroupTreeKeys"
  by code_simp+

lemma exact_slos:
  "exact_keys keyof_SloDto
     MappedSloKeys DroppedSloKeys"
  "exact_keys keyof_SloObjectiveDto
     MappedSloObjectiveKeys DroppedSloObjectiveKeys"
  "exact_keys keyof_SloAssignmentDto
     MappedSloAssignmentKeys DroppedSloAssignmentKeys"
  "exact_keys keyof_SloGroupAssignmentDto
     MappedSloGroupAssignmentKeys DroppedSloGroupAssignmentKeys"
  by code_simp+

lemma exact_slis:
  "exact_keys keyof_SliDto
     MappedSliKeys DroppedSliKeys"
  by code_simp+

lemma exact_data_sources:
  "exact_keys keyof_DatasourceDto
     MappedDatasourceKeys DroppedDatasourceKeys"
  by code_simp+

lemma exact_slo_groups:
  "exact_keys keyof_SloGroupDto
     MappedSloGroupKeys DroppedSloGroupKeys"
  by code_simp+

lemmas exact_mappers = exact_evaluations exact_assets exact_slos exact_slis exact_data_sources exact_slo_groups

text \<open>
  Every schema field of the 27 exhaustiveness frames is translated or dropped on purpose, so
  that each frame's coverage type is empty.
\<close>

lemma mappers_exhaustive:
  "concat [
    EvaluationSummaryCoverage,
    EvaluationDetailCoverage,
    IndicatorCoverage,
    AnnotationCoverage,
    AssetSnapshotCoverage,
    PassTargetCoverage,
    FailingIndicatorCoverage,
    SliMetadataCoverage,
    TrendPointCoverage,
    TrendTargetsCoverage,
    TrendTargetEntryCoverage,
    EvaluationNameEntryCoverage,
    ReEvalResultItemCoverage,
    ReEvaluateResponseCoverage,
    AssetCoverage,
    AssetTypeCoverage,
    AssetGroupCoverage,
    AssetGroupMemberCoverage,
    AssetGroupSubgroupCoverage,
    AssetGroupTreeCoverage,
    SloCoverage,
    SloObjectiveCoverage,
    SloAssignmentCoverage,
    SloGroupAssignmentCoverage,
    SliCoverage,
    DatasourceCoverage,
    SloGroupCoverage] = []"
  unfolding EvaluationSummaryCoverage_def EvaluationDetailCoverage_def IndicatorCoverage_def AnnotationCoverage_def AssetSnapshotCoverage_def PassTargetCoverage_def FailingIndicatorCoverage_def SliMetadataCoverage_def TrendPointCoverage_def TrendTargetsCoverage_def TrendTargetEntryCoverage_def EvaluationNameEntryCoverage_def ReEvalResultItemCoverage_def ReEvaluateResponseCoverage_def AssetCoverage_def AssetTypeCoverage_def AssetGroupCoverage_def AssetGroupMemberCoverage_def AssetGroupSubgroupCoverage_def AssetGroupTreeCoverage_def SloCoverage_def SloObjectiveCoverage_def SloAssignmentCoverage_def SloGroupAssignmentCoverage_def SliCoverage_def DatasourceCoverage_def SloGroupCoverage_def
  by (simp add: exact_mappers [THEN exact_covered])

end
