(* ===== verification/Http.thy ===== *)
theory Http
  imports TimeRange Domain
begin

text \<open>
  What the fetch functions use of the browser: percent encoding (\<open>encodeURIComponent\<close> and the
  serialisation of \<open>URLSearchParams\<close>), requests, and the answer of \<open>fetch\<close>: a rejection, or a response with
  a status and a body that may not be JSON. The server is a parameter of every function that calls it. The two
  encodings implement one contract, the locale \<open>codec\<close>: what a server decodes is what the UI encoded.
\<close>

subsection \<open>Percent encoding\<close>

definition utf8 :: "char \<Rightarrow> nat list" where
  "utf8 c = (let n = of_char c :: nat in if n < 128 then [n] else [192 + n div 64, 128 + n mod 64])"

definition hex_char :: "nat \<Rightarrow> char" where
  "hex_char n = (if n < 10 then char_of (48 + n) else char_of (55 + n))"

definition hex_val :: "char \<Rightarrow> nat" where
  "hex_val c = (if is_digit c then of_char c - 48 else of_char c - 55)"

definition pct_byte :: "nat \<Rightarrow> string" where
  "pct_byte b = [CHR ''%'', hex_char (b div 16), hex_char (b mod 16)]"

definition pct_char :: "(char \<Rightarrow> bool) \<Rightarrow> char \<Rightarrow> string" where
  "pct_char keep c = (if keep c then [c] else concat (map pct_byte (utf8 c)))"

definition alnum :: "char \<Rightarrow> bool" where
  "alnum c = (is_digit c \<or> (let n = of_char c :: nat in (65 \<le> n \<and> n \<le> 90) \<or> (97 \<le> n \<and> n \<le> 122)))"

definition uri_safe :: "char \<Rightarrow> bool" where
  "uri_safe c = (alnum c \<or> c \<in> set ''-_.!~*()'' \<or> c = CHR 0x27)"

definition form_safe :: "char \<Rightarrow> bool" where
  "form_safe c = (alnum c \<or> c \<in> set ''*-._'')"

definition encodeURIComponent :: "string \<Rightarrow> string" where
  "encodeURIComponent s = concat (map (pct_char uri_safe) s)"

definition form_encode :: "string \<Rightarrow> string" where
  "form_encode s = concat (map (\<lambda>c. if c = CHR '' '' then ''+'' else pct_char form_safe c) s)"

text \<open>\<open>URLSearchParams.toString()\<close>\<close>

definition query_string :: "search_params \<Rightarrow> string" where
  "query_string ps = join ''&'' (map (\<lambda>(k, v). form_encode k @ ''='' @ form_encode v) ps)"

subsection \<open>Decoding, as the server does it\<close>

fun pct_bytes :: "string \<Rightarrow> nat list" where
  "pct_bytes [] = []"
| "pct_bytes (c # s) =
    (if c = CHR ''%'' then (case s of a # b # r \<Rightarrow> (16 * hex_val a + hex_val b) # pct_bytes r | _ \<Rightarrow> [])
     else of_char c # pct_bytes s)"

fun utf8_decode :: "nat list \<Rightarrow> string" where
  "utf8_decode [] = []"
| "utf8_decode (b # bs) =
    (if b < 128 then char_of b # utf8_decode bs
     else case bs of [] \<Rightarrow> [] | d # r \<Rightarrow> char_of ((b - 192) * 64 + (d - 128)) # utf8_decode r)"

definition decodeURIComponent :: "string \<Rightarrow> string" where
  "decodeURIComponent s = utf8_decode (pct_bytes s)"

definition form_decode :: "string \<Rightarrow> string" where
  "form_decode s = decodeURIComponent (map (\<lambda>c. if c = CHR ''+'' then CHR '' '' else c) s)"

fun split_at :: "char \<Rightarrow> string \<Rightarrow> string list" where
  "split_at d [] = [[]]"
| "split_at d (c # s) = (if c = d then [] # split_at d s
     else case split_at d s of [] \<Rightarrow> [[c]] | p # ps \<Rightarrow> (c # p) # ps)"

definition parse_pair :: "string \<Rightarrow> string \<times> string" where
  "parse_pair p = (form_decode (takeWhile (\<lambda>c. c \<noteq> CHR ''='') p),
     form_decode (drop 1 (dropWhile (\<lambda>c. c \<noteq> CHR ''='') p)))"

definition parse_query :: "string \<Rightarrow> search_params" where
  "parse_query s = (if s = [] then [] else map parse_pair (split_at CHR ''&'' s))"

subsection \<open>The contract of an encoding\<close>

locale codec =
  fixes enc dec :: "string \<Rightarrow> string"
    and safe :: "char \<Rightarrow> bool"
  assumes dec_enc: "dec (enc s) = s"
    and enc_safe: "c \<in> set (enc s) \<Longrightarrow> safe c"
begin

lemma enc_inject: "enc s = enc t \<longleftrightarrow> s = t"
  using dec_enc by metis

text \<open>A separator the encoding never produces splits a text unambiguously.\<close>

lemma enc_prefix_inject:
  assumes "\<not> safe c"
  shows "enc s @ c # r = enc t @ c # r' \<longleftrightarrow> s = t \<and> r = r'"
proof -
  have "c \<notin> set (enc s)" "c \<notin> set (enc t)" using assms enc_safe by blast+
  then show ?thesis by (simp add: sep_key_inject enc_inject)
qed

end

lemma hex_val_char: "n < 16 \<Longrightarrow> hex_val (hex_char n) = n"
  by (auto simp: hex_val_def hex_char_def is_digit_def)

lemma utf8_less: "b \<in> set (utf8 c) \<Longrightarrow> b < 256"
proof -
  have "(of_char c :: nat) < 256" by simp
  then have "(of_char c :: nat) div 64 < 4" by (simp add: less_mult_imp_div_less)
  moreover have "(of_char c :: nat) mod 64 < 64" by simp
  ultimately show "b \<in> set (utf8 c) \<Longrightarrow> b < 256"
    by (auto simp: utf8_def Let_def split: if_splits)
qed

lemma utf8_decode_char: "utf8_decode (utf8 c @ bs) = c # utf8_decode bs"
proof -
  have "(of_char c :: nat) < 256" by simp
  then have "of_char c div 64 * 64 + of_char c mod 64 = (of_char c :: nat)" by simp
  then show ?thesis by (auto simp: utf8_def Let_def)
qed

lemma pct_bytes_byte: "b < 256 \<Longrightarrow> pct_bytes (pct_byte b @ s) = b # pct_bytes s"
  by (simp add: pct_byte_def hex_val_char less_mult_imp_div_less)

lemma pct_bytes_bytes: "\<forall>b \<in> set bs. b < 256 \<Longrightarrow> pct_bytes (concat (map pct_byte bs) @ s) = bs @ pct_bytes s"
  by (induction bs) (simp_all add: pct_bytes_byte)

lemma pct_bytes_char:
  assumes "keep c \<Longrightarrow> c \<noteq> CHR ''%'' \<and> (of_char c :: nat) < 128"
  shows "pct_bytes (pct_char keep c @ s) = utf8 c @ pct_bytes s"
  using assms pct_bytes_bytes [of "utf8 c" s] utf8_less [of _ c]
  by (auto simp: pct_char_def utf8_def Let_def)

lemma safe_ascii:
  "uri_safe c \<Longrightarrow> c \<noteq> CHR ''%'' \<and> (of_char c :: nat) < 128"
  "form_safe c \<Longrightarrow> c \<noteq> CHR ''%'' \<and> (of_char c :: nat) < 128"
  by (auto simp: uri_safe_def form_safe_def alnum_def is_digit_def Let_def)

lemma hex_char_alnum: "n < 16 \<Longrightarrow> alnum (hex_char n)"
  by (auto simp: hex_char_def alnum_def is_digit_def)

lemma set_pct_char: "d \<in> set (pct_char keep c) \<Longrightarrow> keep d \<or> d = CHR ''%'' \<or> alnum d"
  using utf8_less [of _ c]
  by (auto simp: pct_char_def pct_byte_def less_mult_imp_div_less intro!: hex_char_alnum split: if_splits)

interpretation uri: codec encodeURIComponent decodeURIComponent "\<lambda>c. uri_safe c \<or> c = CHR ''%''"
proof
  fix s :: string
  have "utf8_decode (pct_bytes (encodeURIComponent s)) = s"
    by (induction s) (simp_all add: encodeURIComponent_def pct_bytes_char safe_ascii utf8_decode_char)
  then show "decodeURIComponent (encodeURIComponent s) = s" by (simp add: decodeURIComponent_def)
  show "c \<in> set (encodeURIComponent s) \<Longrightarrow> uri_safe c \<or> c = CHR ''%''" for c
    by (auto simp: encodeURIComponent_def uri_safe_def dest!: set_pct_char)
qed

definition unplus :: "char \<Rightarrow> char" where
  "unplus c = (if c = CHR ''+'' then CHR '' '' else c)"

lemma unplus_char:
  "pct_bytes (map unplus (if c = CHR '' '' then ''+'' else pct_char form_safe c) @ s) = utf8 c @ pct_bytes s"
proof -
  have no_plus: "d \<noteq> CHR ''+''" if "d \<in> set (pct_char form_safe c)" for d
    using set_pct_char [OF that] by (auto simp: form_safe_def alnum_def is_digit_def Let_def)
  then have "map unplus (pct_char form_safe c) = pct_char form_safe c"
    by (simp add: unplus_def map_idI)
  then show ?thesis
    using pct_bytes_char [of form_safe c s] safe_ascii(2) [of c] by (auto simp: unplus_def utf8_def)
qed

interpretation form: codec form_encode form_decode "\<lambda>c. form_safe c \<or> c = CHR ''%'' \<or> c = CHR ''+''"
proof
  fix s :: string
  have "utf8_decode (pct_bytes (map unplus (form_encode s))) = s"
  proof (induction s)
    case (Cons c s)
    have "map unplus (form_encode (c # s)) =
        map unplus (if c = CHR '' '' then ''+'' else pct_char form_safe c) @ map unplus (form_encode s)"
      by (simp add: form_encode_def)
    then show ?case using Cons by (simp only: unplus_char utf8_decode_char)
  qed (simp add: form_encode_def)
  then show "form_decode (form_encode s) = s"
    by (simp add: form_decode_def decodeURIComponent_def unplus_def [abs_def])
  show "c \<in> set (form_encode s) \<Longrightarrow> form_safe c \<or> c = CHR ''%'' \<or> c = CHR ''+''" for c
    by (auto simp: form_encode_def form_safe_def dest!: set_pct_char split: if_splits)
qed

subsection \<open>Query strings\<close>

lemma split_at_none: "d \<notin> set p \<Longrightarrow> split_at d p = [p]"
  by (induction p) auto

lemma split_at_append: "d \<notin> set p \<Longrightarrow> split_at d (p @ d # s) = p # split_at d s"
  by (induction p) auto

lemma split_join: "\<forall>p \<in> set ps. d \<notin> set p \<Longrightarrow> ps \<noteq> [] \<Longrightarrow> split_at d (join [d] ps) = ps"
  by (induction "[d]" ps rule: join.induct) (auto simp: split_at_none split_at_append)

lemma form_no_sep: "CHR ''='' \<notin> set (form_encode s)" "CHR ''&'' \<notin> set (form_encode s)"
  using form.enc_safe [of "CHR ''=''" s] form.enc_safe [of "CHR ''&''" s]
  by (auto simp: form_safe_def alnum_def is_digit_def Let_def)

lemma parse_pair_encoded: "parse_pair (form_encode k @ ''='' @ form_encode v) = (k, v)"
proof -
  have "x \<noteq> CHR ''=''" if "x \<in> set (form_encode k)" for x using that form_no_sep by blast
  then have "takeWhile (\<lambda>c. c \<noteq> CHR ''='') (form_encode k @ CHR ''='' # form_encode v) = form_encode k"
    "dropWhile (\<lambda>c. c \<noteq> CHR ''='') (form_encode k @ CHR ''='' # form_encode v) = CHR ''='' # form_encode v"
    by (simp_all add: takeWhile_append2 dropWhile_append2)
  then show ?thesis by (simp add: parse_pair_def form.dec_enc)
qed

text \<open>
  The server reads from a query string exactly the parameters the UI put into it, in order and with
  repetitions, whatever characters they contain.
\<close>

lemma query_string_roundtrip: "parse_query (query_string ps) = ps"
proof (cases "ps = []")
  case False
  let ?e = "\<lambda>(k, v). form_encode k @ ''='' @ form_encode v"
  have no_amp: "\<forall>p \<in> set (map ?e ps). CHR ''&'' \<notin> set p"
    using form_no_sep by auto
  obtain k v r where "ps = (k, v) # r" using False by (metis list.exhaust surj_pair)
  then have "query_string ps \<noteq> []"
    by (cases r) (simp_all add: query_string_def)
  moreover have "split_at CHR ''&'' (query_string ps) = map ?e ps"
    unfolding query_string_def using no_amp False by (intro split_join) auto
  ultimately show ?thesis
    by (simp add: parse_query_def case_prod_unfold map_idI parse_pair_encoded [simplified])
qed (simp add: query_string_def parse_query_def)

text \<open>\<open>if (v) params.set(k, v)\<close>\<close>

definition set_if :: "string \<Rightarrow> string option \<Rightarrow> search_params \<Rightarrow> search_params" where
  "set_if k v ps = (case v of None \<Rightarrow> ps | Some x \<Rightarrow> if x = [] then ps else sp_set k x ps)"

text \<open>\<open>for (const name of names) params.append(k, name)\<close>\<close>

definition append_all :: "string \<Rightarrow> string list \<Rightarrow> search_params \<Rightarrow> search_params" where
  "append_all k names ps = fold (sp_append k) names ps"

lemma set_if_get: "sp_get (set_if k v ps) k' = (if k' = k \<and> truthy v then v else sp_get ps k')"
  by (simp add: set_if_def sp_get_set split: option.split)

lemma append_all_eq: "append_all k names ps = ps @ map (Pair k) names"
  by (induction names arbitrary: ps) (simp_all add: append_all_def sp_append_def)

subsection \<open>Requests and answers\<close>

record Request =
  rq_method :: string
  rq_url :: string
  rq_body :: "json option"

text \<open>
  An answer of \<open>fetch\<close>: a rejected promise, or a response with its status and the decoded body, \<open>None\<close> when
  \<open>res.json()\<close> would reject.
\<close>

datatype 'd reply = Rejected | Reply int "'d option"

datatype api_error = NetworkError | InvalidJson | HttpError string | PinConflict string string

definition status_ok :: "int \<Rightarrow> bool" where
  "status_ok st \<longleftrightarrow> 200 \<le> st \<and> st \<le> 299"

definition BASE :: string where
  "BASE = ''/api''"

definition get_req :: "string \<Rightarrow> Request" where
  "get_req path = \<lparr>rq_method = ''GET'', rq_url = BASE @ path, rq_body = None\<rparr>"

definition send_req :: "string \<Rightarrow> string \<Rightarrow> json option \<Rightarrow> Request" where
  "send_req m path b = \<lparr>rq_method = m, rq_url = BASE @ path, rq_body = b\<rparr>"

text \<open>
  The part every fetch function shares: the error named after the function unless the status is a success,
  then the mapper on the decoded body. \<open>call_void\<close> is the same for functions that ignore the body.
\<close>

definition call :: "string \<Rightarrow> ('d \<Rightarrow> 'a) \<Rightarrow> 'd reply \<Rightarrow> api_error + 'a" where
  "call name f r =
    (case r of
       Rejected \<Rightarrow> Inl NetworkError
     | Reply st body \<Rightarrow>
         if \<not> status_ok st then Inl (HttpError (name @ '': '' @ show_int st))
         else case body of None \<Rightarrow> Inl InvalidJson | Some d \<Rightarrow> Inr (f d))"

definition call_void :: "string \<Rightarrow> 'd reply \<Rightarrow> api_error + unit" where
  "call_void name r =
    (case r of
       Rejected \<Rightarrow> Inl NetworkError
     | Reply st _ \<Rightarrow> if \<not> status_ok st then Inl (HttpError (name @ '': '' @ show_int st)) else Inr ())"

lemma call_Inr: "call name f r = Inr a \<longleftrightarrow> (\<exists>st d. r = Reply st (Some d) \<and> status_ok st \<and> a = f d)"
  by (auto simp: call_def split: reply.split option.split)

lemma call_Inl:
  "call name f r = Inl e \<longleftrightarrow>
    (r = Rejected \<and> e = NetworkError) \<or>
    (\<exists>st b. r = Reply st b \<and> \<not> status_ok st \<and> e = HttpError (name @ '': '' @ show_int st)) \<or>
    (\<exists>st. r = Reply st None \<and> status_ok st \<and> e = InvalidJson)"
  by (auto simp: call_def split: reply.split option.split)

end
