(* ===== verification/Api.thy ===== *)
theory Api
  imports Http EvalMappers RegistryMappers
begin

text \<open>
  The fetch functions of the features (\<open>features/*/api.ts\<close>): for each the request it sends and what it makes
  of the server's answer, which is the parameter \<open>net\<close>. A payload a form passes on as it is (the schema
  aliases such as \<open>SloCreateInput\<close>) is a JSON value. \<open>fetchEvaluations\<close> collects pages until the total, a
  short page or the configured maximum; every page has its own URL, so a function of the request is a
  general model of a server that changes in between.
\<close>

subsection \<open>Bodies\<close>

definition json_int :: "int \<Rightarrow> json" where
  "json_int i = JNum (of_int i)"

definition json_strs :: "string list \<Rightarrow> json" where
  "json_strs xs = JArr (map JStr xs)"

definition json_str_obj :: "str_obj \<Rightarrow> json" where
  "json_str_obj m = JObj (map (\<lambda>(k, v). (k, JStr v)) (Object_entries m))"

definition enc_seg :: "string \<Rightarrow> string" where
  "enc_seg s = ''/'' @ encodeURIComponent s"

text \<open>\<open>qs ? `?${qs}` : ''\<close>\<close>

definition query_suffix :: "search_params \<Rightarrow> string" where
  "query_suffix ps = (let qs = query_string ps in if qs \<noteq> [] then ''?'' @ qs else [])"

subsection \<open>Evaluations: reading\<close>

definition toParams :: "EvaluationFilters \<Rightarrow> string" where
  "toParams f = query_string
    (set_if ''to'' (ef_to f) (set_if ''from'' (ef_from f) (set_if ''date'' (ef_date f)
      (append_all ''evaluation_name'' (nullish (ef_evaluationName f) [])
        (set_if ''asset_name'' (ef_assetName f) (set_if ''group_name'' (ef_groupName f) []))))))"

record EvaluationPageDto =
  pg_items :: "EvaluationSummaryDto list"
  pg_total :: int

definition page_req :: "string \<Rightarrow> int \<Rightarrow> int \<Rightarrow> Request" where
  "page_req base pageSize offset = get_req (''/evaluations?'' @ base @ ''&limit='' @ show_int pageSize
     @ ''&offset='' @ show_int offset)"

partial_function (option) fetch_pages ::
  "(Request \<Rightarrow> EvaluationPageDto reply) \<Rightarrow> string \<Rightarrow> int \<Rightarrow> int \<Rightarrow> EvaluationSummaryDto list \<Rightarrow> int
    \<Rightarrow> (api_error + EvaluationSummaryDto list \<times> int) option" where
  "fetch_pages net base maxEvaluations pageSize allItems offset =
    (case call ''fetchEvaluations'' id (net (page_req base pageSize offset)) of
       Inl e \<Rightarrow> Some (Inl e)
     | Inr page \<Rightarrow>
         if int (length (allItems @ pg_items page)) \<ge> pg_total page \<or> int (length (pg_items page)) < pageSize
         then Some (Inr (allItems @ pg_items page, pg_total page))
         else if int (length (allItems @ pg_items page)) \<ge> maxEvaluations
         then Some (Inr (allItems @ pg_items page, pg_total page))
         else fetch_pages net base maxEvaluations pageSize (allItems @ pg_items page) (offset + pageSize))"

text \<open>\<open>items.slice(0, n)\<close>\<close>

definition slice_to :: "int \<Rightarrow> 'a list \<Rightarrow> 'a list" where
  "slice_to n xs = (if 0 \<le> n then take (nat n) xs else take (length xs - nat (- n)) xs)"

definition fetchEvaluations ::
  "int \<Rightarrow> (Request \<Rightarrow> EvaluationPageDto reply) \<Rightarrow> int \<Rightarrow> int \<Rightarrow> EvaluationFilters
    \<Rightarrow> (api_error + EvaluationList) option" where
  "fetchEvaluations tz net maxEvaluations pageSize filters =
    map_option (\<lambda>r. case r of
        Inl e \<Rightarrow> Inl e
      | Inr (allItems, n) \<Rightarrow>
          Inr (dtoToEvaluationList tz (slice_to maxEvaluations allItems) n (n > maxEvaluations)))
      (fetch_pages net (toParams filters) maxEvaluations pageSize [] 0)"

definition fetchEvaluationDetail ::
  "int \<Rightarrow> (Request \<Rightarrow> EvaluationDetailDto reply) \<Rightarrow> string \<Rightarrow> api_error + EvaluationDetail" where
  "fetchEvaluationDetail tz net i =
    call ''fetchEvaluationDetail'' (dtoToEvaluationDetail tz) (net (get_req (''/evaluation/'' @ i)))"

definition slo_path :: "string \<Rightarrow> string \<Rightarrow> string" where
  "slo_path assetName sloName = ''/assets'' @ enc_seg assetName @ ''/slos'' @ enc_seg sloName"

definition fetchTrend ::
  "int \<Rightarrow> (Request \<Rightarrow> TrendPointDto list reply) \<Rightarrow> string \<Rightarrow> string \<Rightarrow> string \<Rightarrow> string option \<Rightarrow> string option
    \<Rightarrow> api_error + TrendPoint list" where
  "fetchTrend tz net assetName sloName metric dateFrom dateTo =
    call ''fetchTrend'' (map (dtoToTrendPoint tz)) (net (get_req (slo_path assetName sloName @ ''/trend?''
      @ query_string (set_if ''to'' dateTo (set_if ''from'' dateFrom [(''metric'', metric)])))))"

definition fetchSloTrends ::
  "int \<Rightarrow> (Request \<Rightarrow> (string, TrendPointDto list) jsmap reply) \<Rightarrow> string \<Rightarrow> string \<Rightarrow> string option \<Rightarrow> string option
    \<Rightarrow> api_error + (string, TrendPoint list) jsmap" where
  "fetchSloTrends tz net assetName sloName dateFrom dateTo =
    call ''fetchSloTrends'' (dtoToSloTrends tz) (net (get_req (slo_path assetName sloName @ ''/trends?''
      @ query_string (set_if ''to'' dateTo (set_if ''from'' dateFrom [])))))"

definition fetchTrendAnnotations ::
  "int \<Rightarrow> (Request \<Rightarrow> (string, AnnotationDto list) jsmap reply) \<Rightarrow> string \<Rightarrow> string
    \<Rightarrow> api_error + (string, Annotation list) jsmap" where
  "fetchTrendAnnotations tz net asset slo =
    call ''fetchTrendAnnotations''
      (\<lambda>body. foldl (\<lambda>m (evalId, dtos). js_set evalId (map (dtoToAnnotation tz) dtos) m) [] (Object_entries body))
      (net (get_req (''/evaluations/trend-annotations?'' @ query_string [(''asset'', asset), (''slo'', slo)])))"

definition fetchColumnAnnotations ::
  "int \<Rightarrow> (Request \<Rightarrow> AnnotationDto list reply) \<Rightarrow> string \<Rightarrow> api_error + Annotation list" where
  "fetchColumnAnnotations tz net evaluationId =
    call ''fetchColumnAnnotations'' (map (dtoToAnnotation tz))
      (net (get_req (''/evaluations/column-annotations?'' @ query_string [(''evaluation_id'', evaluationId)])))"

definition fetchEvaluationNames ::
  "int \<Rightarrow> (Request \<Rightarrow> EvaluationNameEntryDto list reply) \<Rightarrow> string option \<Rightarrow> string option
    \<Rightarrow> api_error + EvaluationNameEntry list" where
  "fetchEvaluationNames tz net assetName groupName =
    call ''fetchEvaluationNames'' (map (dtoToEvaluationNameEntry tz))
      (net (get_req (''/evaluations/names''
        @ query_suffix (set_if ''group_name'' groupName (set_if ''asset_name'' assetName [])))))"

subsection \<open>Evaluations: actions\<close>

definition trigger_json :: "EvaluateSingleRequestDto \<Rightarrow> json" where
  "trigger_json d = json_object
    [(''asset_name'', Some (JStr (esr_asset_name d))), (''eval_name'', Some (JStr (esr_eval_name d))),
     (''period_start'', Some (JStr (esr_period_start d))), (''period_end'', Some (JStr (esr_period_end d))),
     (''variables'', Some (json_str_obj (esr_variables d)))]"

definition annotation_json :: "AnnotationCreateDto \<Rightarrow> json" where
  "annotation_json d = json_object
    [(''content'', Some (JStr (acd_content d))), (''category_id'', Some (JStr (acd_category_id d))),
     (''author'', map_option JStr (acd_author d)), (''tags'', Some (json_str_obj (acd_tags d)))]"

fun overridable_str :: "OverridableOutcome \<Rightarrow> string" where
  "overridable_str OvPass = ''pass''"
| "overridable_str OvWarning = ''warning''"
| "overridable_str OvFail = ''fail''"

definition override_fields :: "OverrideStatusRequestDto \<Rightarrow> (string \<times> json option) list" where
  "override_fields d =
    [(''new_result'', Some (JStr (overridable_str (osr_new_result d)))), (''reason'', Some (JStr (osr_reason d))),
     (''author'', Some (JStr (osr_author d)))]"

definition pin_fields :: "string \<Rightarrow> string \<Rightarrow> (string \<times> json option) list" where
  "pin_fields reason author = [(''reason'', Some (JStr reason)), (''author'', Some (JStr author))]"

definition triggerEvaluation ::
  "(Request \<Rightarrow> EvaluateSingleResponseDto reply) \<Rightarrow> TriggerEvaluationInput \<Rightarrow> api_error + string \<times> string list" where
  "triggerEvaluation net i =
    call ''triggerEvaluation'' (\<lambda>body. (esp_evaluation_id body, esp_slo_evaluation_ids body))
      (net (send_req ''POST'' ''/evaluations'' (Some (trigger_json (triggerEvaluationInputToDto i)))))"

definition addAnnotation ::
  "int \<Rightarrow> (Request \<Rightarrow> AnnotationDto reply) \<Rightarrow> string \<Rightarrow> AnnotationCreateInput \<Rightarrow> api_error + Annotation" where
  "addAnnotation tz net evalId payload =
    call ''addAnnotation'' (dtoToAnnotation tz)
      (net (send_req ''POST'' (''/evaluation/'' @ evalId @ ''/annotations'')
        (Some (annotation_json (annotationCreateInputToDto payload)))))"

definition addRunAnnotation ::
  "int \<Rightarrow> (Request \<Rightarrow> AnnotationDto reply) \<Rightarrow> string \<Rightarrow> AnnotationCreateInput \<Rightarrow> api_error + Annotation" where
  "addRunAnnotation tz net runId payload =
    call ''addRunAnnotation'' (dtoToAnnotation tz)
      (net (send_req ''POST'' (''/evaluation-run/'' @ runId @ ''/annotations'')
        (Some (annotation_json (annotationCreateInputToDto payload)))))"

definition hideAnnotation ::
  "int \<Rightarrow> (Request \<Rightarrow> AnnotationDto reply) \<Rightarrow> string \<Rightarrow> string \<Rightarrow> string \<Rightarrow> string option \<Rightarrow> api_error + Annotation" where
  "hideAnnotation tz net evalId annotationId reason author =
    call ''hideAnnotation'' (dtoToAnnotation tz)
      (net (send_req ''POST'' (''/evaluation/'' @ evalId @ ''/annotations/'' @ annotationId @ ''/hide'')
        (Some (json_object [(''reason'', Some (JStr reason)), (''author'', map_option JStr author)]))))"

definition invalidateEvaluation ::
  "int \<Rightarrow> (Request \<Rightarrow> EvaluationSummaryDto reply) \<Rightarrow> string \<Rightarrow> string \<Rightarrow> api_error + Evaluation" where
  "invalidateEvaluation tz net evalId note =
    call ''invalidateEvaluation'' (dtoToEvaluationSummary tz)
      (net (send_req ''PATCH'' (''/evaluation/'' @ evalId @ ''/invalidate'')
        (Some (json_object [(''invalidation_note'', Some (JStr note))]))))"

definition restoreEvaluation ::
  "int \<Rightarrow> (Request \<Rightarrow> EvaluationSummaryDto reply) \<Rightarrow> string \<Rightarrow> api_error + Evaluation" where
  "restoreEvaluation tz net evalId =
    call ''restoreEvaluation'' (dtoToEvaluationSummary tz)
      (net (send_req ''PATCH'' (''/evaluation/'' @ evalId @ ''/restore'') None))"

definition overrideStatus ::
  "int \<Rightarrow> (Request \<Rightarrow> EvaluationDetailDto reply) \<Rightarrow> string \<Rightarrow> OverrideStatusInput \<Rightarrow> api_error + EvaluationDetail" where
  "overrideStatus tz net evalId i =
    call ''overrideStatus'' (dtoToEvaluationDetail tz)
      (net (send_req ''PATCH'' (''/evaluation/'' @ evalId @ ''/override-status'')
        (Some (json_object (override_fields (overrideStatusInputToDto i))))))"

definition pinBaseline ::
  "int \<Rightarrow> (Request \<Rightarrow> EvaluationDetailDto reply) \<Rightarrow> string \<Rightarrow> string \<Rightarrow> string \<Rightarrow> api_error + EvaluationDetail" where
  "pinBaseline tz net evalId reason author =
    call ''pinBaseline'' (dtoToEvaluationDetail tz)
      (net (send_req ''PATCH'' (''/evaluation/'' @ evalId @ ''/pin-baseline'')
        (Some (json_object (pin_fields reason author)))))"

subsection \<open>Evaluations: batch actions\<close>

definition bulk :: "string \<Rightarrow> (Request \<Rightarrow> BulkActionResponseDto reply) \<Rightarrow> string \<Rightarrow> string list
    \<Rightarrow> (string \<times> json option) list \<Rightarrow> api_error + BulkActionOutcome" where
  "bulk name net path ids extra = call name dtoToBulkActionOutcome
     (net (send_req ''PATCH'' path (Some (json_object ((''evaluation_ids'', Some (json_strs ids)) # extra)))))"

definition invalidateEvaluations ::
  "(Request \<Rightarrow> BulkActionResponseDto reply) \<Rightarrow> string list \<Rightarrow> string \<Rightarrow> api_error + BulkActionOutcome" where
  "invalidateEvaluations net ids note =
    bulk ''invalidateEvaluations'' net ''/evaluations/invalidate'' ids [(''note'', Some (JStr note))]"

definition restoreEvaluations ::
  "(Request \<Rightarrow> BulkActionResponseDto reply) \<Rightarrow> string list \<Rightarrow> api_error + BulkActionOutcome" where
  "restoreEvaluations net ids = bulk ''restoreEvaluations'' net ''/evaluations/restore'' ids []"

definition overrideStatusMany ::
  "(Request \<Rightarrow> BulkActionResponseDto reply) \<Rightarrow> string list \<Rightarrow> OverrideStatusInput \<Rightarrow> api_error + BulkActionOutcome" where
  "overrideStatusMany net ids i =
    bulk ''overrideStatusMany'' net ''/evaluations/override-status'' ids (override_fields (overrideStatusInputToDto i))"

definition pinBaselineMany ::
  "(Request \<Rightarrow> BulkActionResponseDto reply) \<Rightarrow> string list \<Rightarrow> string \<Rightarrow> string \<Rightarrow> api_error + BulkActionOutcome" where
  "pinBaselineMany net ids reason author =
    bulk ''pinBaselineMany'' net ''/evaluations/pin-baseline'' ids (pin_fields reason author)"

subsection \<open>Re-evaluation\<close>

definition scope_json :: "ReEvaluateScope \<Rightarrow> json" where
  "scope_json s = json_object [(''kind'', Some (JStr ''asset'')), (''asset_name'', Some (JStr (rsc_asset_name s)))]"

fun selector_json :: "ReEvaluateSelector \<Rightarrow> json" where
  "selector_json (SloSelector n) = json_object [(''kind'', Some (JStr ''slo'')), (''slo_name'', Some (JStr n))]"
| "selector_json (EvaluationNamesSelector ns) =
     json_object [(''kind'', Some (JStr ''evaluation_names'')), (''evaluation_names'', Some (json_strs ns))]"

fun pin_strategy_str :: "PinStrategy \<Rightarrow> string" where
  "pin_strategy_str SkipToPin = ''skip_to_pin''"
| "pin_strategy_str IgnorePin = ''ignore_pin''"

fun reeval_json :: "ReEvaluateBody \<Rightarrow> json" where
  "reeval_json (DateBody b) = json_object
     [(''scope'', Some (scope_json (rfd_scope b))),
      (''selector'', Some (json_nullable selector_json (rfd_selector b))),
      (''from_date'', Some (JStr (rfd_from_date b))),
      (''slo_version'', Some (json_nullable json_int (rfd_slo_version b))),
      (''dry_run'', Some (JBool (rfd_dry_run b)))]"
| "reeval_json (BaselineBody b) = json_object
     [(''scope'', Some (scope_json (rfb_scope b))),
      (''selector'', Some (json_nullable selector_json (rfb_selector b))),
      (''slo_version'', Some (json_nullable json_int (rfb_slo_version b))),
      (''dry_run'', Some (JBool (rfb_dry_run b))),
      (''pin_strategy'', Some (json_nullable (\<lambda>p. JStr (pin_strategy_str p)) (rfb_pin_strategy b)))]"
| "reeval_json (EvaluationBody b) = json_object
     [(''scope'', Some (scope_json (rfe_scope b))),
      (''selector'', Some (json_nullable selector_json (rfe_selector b))),
      (''slo_version'', Some (json_nullable json_int (rfe_slo_version b))),
      (''dry_run'', Some (JBool (rfe_dry_run b)))]"

fun json_truthy :: "json \<Rightarrow> bool" where
  "json_truthy JNull = False"
| "json_truthy (JBool b) = b"
| "json_truthy (JNum n) = (n \<noteq> 0)"
| "json_truthy (JStr s) = (s \<noteq> [])"
| "json_truthy _ = True"

text \<open>
  The outcome of \<open>reEvaluate\<close>. A failed response has an arbitrary JSON body, \<open>{}\<close> when it is not JSON; reading
  a field of a \<open>null\<close> body throws.
\<close>

datatype reeval_error = ApiError api_error | PinConflictError json "json option" | TypeError

definition reeval_failure :: "int \<Rightarrow> json option \<Rightarrow> reeval_error" where
  "reeval_failure st b =
    (let body = nullish b (JObj []) in
     if body = JNull then TypeError
     else
       let detail = json_field body ''detail'';
           pin_date = Option.bind detail (\<lambda>d. json_field d ''pin_date'') in
       case pin_date of
         Some p \<Rightarrow>
           if st = 409 \<and> json_truthy p
           then PinConflictError p (Option.bind detail (\<lambda>d. json_field d ''pin_evaluation_id''))
           else ApiError (HttpError (''reEvaluate: '' @ show_int st))
       | None \<Rightarrow>
           (case detail of
              Some (JStr m) \<Rightarrow> ApiError (HttpError m)
            | _ \<Rightarrow> ApiError (HttpError (''reEvaluate: '' @ show_int st))))"

definition reeval_req :: "ReEvaluateInput \<Rightarrow> Request" where
  "reeval_req i = (let dto = reEvaluateInputToDto i in
     send_req ''POST'' (red_endpoint dto) (Some (reeval_json (red_requestBody dto))))"

definition reEvaluate ::
  "(Request \<Rightarrow> ReEvaluateResponseDto reply) \<Rightarrow> (Request \<Rightarrow> json option) \<Rightarrow> ReEvaluateInput
    \<Rightarrow> reeval_error + ReEvaluateResponse" where
  "reEvaluate net errorBody i =
    (let req = reeval_req i in
     case net req of
       Rejected \<Rightarrow> Inl (ApiError NetworkError)
     | Reply st body \<Rightarrow>
         if \<not> status_ok st then Inl (reeval_failure st (errorBody req))
         else case body of
             None \<Rightarrow> Inl (ApiError InvalidJson)
           | Some d \<Rightarrow> Inr (dtoToReEvaluateResponse d))"

subsection \<open>Properties of paging\<close>

lemma fetch_pages_returns:
  assumes "0 < pageSize"
  shows "\<exists>r. fetch_pages net base maxE pageSize acc offset = Some r"
proof (induction "nat (maxE - int (length acc))" arbitrary: acc offset rule: less_induct)
  case less
  show ?case
  proof (cases "call ''fetchEvaluations'' id (net (page_req base pageSize offset))")
    case (Inl e)
    then show ?thesis by (subst fetch_pages.simps) simp
  next
    case (Inr page)
    let ?acc = "acc @ pg_items page"
    show ?thesis
    proof (cases "int (length ?acc) \<ge> pg_total page \<or> int (length (pg_items page)) < pageSize \<or> maxE \<le> int (length ?acc)")
      case True
      then show ?thesis by (subst fetch_pages.simps) (auto simp: Inr)
    next
      case False
      then have "0 < length (pg_items page)" using assms by (cases "pg_items page") auto
      then have "nat (maxE - int (length ?acc)) < nat (maxE - int (length acc))"
        using False by simp
      from less [OF this] False show ?thesis
        by (subst fetch_pages.simps) (simp add: Inr)
    qed
  qed
qed

text \<open>
  C19. With a positive page size loading the evaluations always ends, whatever the server answers: with
  an error or a list of at most the configured maximum of evaluations.
\<close>

theorem fetchEvaluations_returns:
  assumes "0 < pageSize" and "0 \<le> maxEvaluations"
  shows "\<exists>r. fetchEvaluations tz net maxEvaluations pageSize filters = Some r \<and>
    (case r of Inl e \<Rightarrow> True | Inr l \<Rightarrow> int (length (el_items l)) \<le> maxEvaluations)"
proof -
  obtain r where "fetch_pages net (toParams filters) maxEvaluations pageSize [] 0 = Some r"
    using fetch_pages_returns [OF assms(1)] by blast
  then show ?thesis
    using assms(2) by (cases r) (auto simp: fetchEvaluations_def dtoToEvaluationList_def slice_to_def)
qed

definition demo_page :: "EvaluationSummaryDto list \<Rightarrow> int \<Rightarrow> EvaluationPageDto reply" where
  "demo_page items n = Reply 200 (Some \<lparr>pg_items = items, pg_total = n\<rparr>)"

definition demo_filters :: EvaluationFilters where
  "demo_filters = \<lparr>ef_groupName = None, ef_assetName = Some ''vm'', ef_evaluationName = None, ef_date = None,
     ef_from = None, ef_to = None\<rparr>"

theorem fetchEvaluations_returns_witness:
  "\<exists>r. fetchEvaluations 0 (\<lambda>_. demo_page [] 7) 5000 200 demo_filters = Some r"
  using fetchEvaluations_returns [of 200 5000 0 "\<lambda>_. demo_page [] 7" demo_filters] by auto

lemma fetch_pages_all:
  assumes "0 < pageSize" and "0 \<le> maxE"
    and server: "\<And>k. k = 0 \<or> k * pageSize < int (length full) \<Longrightarrow> 0 \<le> k \<Longrightarrow>
      net (page_req base pageSize (k * pageSize)) =
        Reply 200 (Some \<lparr>pg_items = take (nat pageSize) (drop (nat (k * pageSize)) full), pg_total = int (length full)\<rparr>)"
    and k: "0 \<le> k" "k = 0 \<or> k * pageSize < int (length full)"
  shows "\<exists>got. fetch_pages net base maxE pageSize (take (nat (k * pageSize)) full) (k * pageSize) =
      Some (Inr (got, int (length full))) \<and> take (nat maxE) got = take (nat maxE) full"
  using k
proof (induction "nat (int (length full) - k * pageSize)" arbitrary: k rule: less_induct)
  case less
  let ?page = "take (nat pageSize) (drop (nat (k * pageSize)) full)"
  let ?acc = "take (nat ((k + 1) * pageSize)) full"
  have acc: "take (nat (k * pageSize)) full @ ?page = ?acc"
    using assms(1) less.prems(1) by (simp add: take_add [symmetric] nat_add_distrib distrib_right)
  have call: "call ''fetchEvaluations'' id (net (page_req base pageSize (k * pageSize))) =
      Inr \<lparr>pg_items = ?page, pg_total = int (length full)\<rparr>"
    using server [of k] less.prems by (auto simp: call_def status_ok_def)
  have step: "fetch_pages net base maxE pageSize (take (nat (k * pageSize)) full) (k * pageSize) =
      (if int (length full) \<le> int (length ?acc) \<or> int (length ?page) < pageSize
       then Some (Inr (?acc, int (length full)))
       else if maxE \<le> int (length ?acc) then Some (Inr (?acc, int (length full)))
       else fetch_pages net base maxE pageSize ?acc (k * pageSize + pageSize))"
    by (subst fetch_pages.simps) (simp only: call acc sum.case EvaluationPageDto.simps)
  show ?case
  proof (cases "int (length full) \<le> int (length ?acc) \<or> int (length ?page) < pageSize")
    case True
    have "?acc = full"
    proof (cases "int (length full) \<le> (k + 1) * pageSize")
      case False
      moreover have "int (nat (k * pageSize)) = k * pageSize" using assms(1) less.prems(1) by simp
      ultimately have "length ?page = nat pageSize" "length ?acc = nat ((k + 1) * pageSize)"
        using assms(1) unfolding length_take length_drop distrib_right by linarith+
      then show ?thesis using True False assms(1) less.prems(1) by simp
    qed simp
    then show ?thesis using True unfolding step by simp
  next
    case False
    then have lt: "(k + 1) * pageSize < int (length full)" by auto
    show ?thesis
    proof (cases "maxE \<le> int (length ?acc)")
      case True
      then have "take (nat maxE) ?acc = take (nat maxE) full" using assms(2) by (auto simp: min_def split: if_splits)
      then show ?thesis using False True unfolding step by simp
    next
      case not: False
      have eq: "k * pageSize + pageSize = (k + 1) * pageSize" by (simp add: distrib_right)
      have "\<exists>got. fetch_pages net base maxE pageSize ?acc ((k + 1) * pageSize) =
          Some (Inr (got, int (length full))) \<and> take (nat maxE) got = take (nat maxE) full"
        using less.hyps [of "k + 1"] lt less.prems(1) assms(1) by (simp add: distrib_right)
      then show ?thesis
        unfolding step eq if_not_P [OF False] if_not_P [OF not] .
    qed
  qed
qed

text \<open>
  C1. Against a server that cuts one list of evaluations into pages, loading collects the first
  \<open>maxEvaluations\<close> of them in order, without gaps or repetitions, with the true total and the truncation mark
  exactly when some are missing.
\<close>

theorem fetchEvaluations_complete:
  assumes "0 < pageSize" and "0 \<le> maxEvaluations"
    and "\<And>k. k = 0 \<or> k * pageSize < int (length full) \<Longrightarrow> 0 \<le> k \<Longrightarrow>
      net (page_req (toParams filters) pageSize (k * pageSize)) =
        Reply 200 (Some \<lparr>pg_items = take (nat pageSize) (drop (nat (k * pageSize)) full), pg_total = int (length full)\<rparr>)"
  shows "fetchEvaluations tz net maxEvaluations pageSize filters =
    Some (Inr \<lparr>el_items = map (dtoToEvaluationSummary tz) (take (nat maxEvaluations) full),
      el_total = int (length full), el_truncated = (take (nat maxEvaluations) full \<noteq> full)\<rparr>)"
proof -
  obtain got where "fetch_pages net (toParams filters) maxEvaluations pageSize [] 0 =
      Some (Inr (got, int (length full)))" "take (nat maxEvaluations) got = take (nat maxEvaluations) full"
    using fetch_pages_all [where k = 0, OF assms(1,2,3)] by auto
  moreover have "maxEvaluations < int (length full) \<longleftrightarrow> take (nat maxEvaluations) full \<noteq> full"
    using assms(2) by (auto simp: take_all_iff)
  ultimately show ?thesis
    using assms(2) by (simp add: fetchEvaluations_def dtoToEvaluationList_def slice_to_def)
qed

definition demo_items :: "EvaluationSummaryDto list" where
  "demo_items = map (\<lambda>i. (EvaluationSummaryDto.truncate (demo_detail []))\<lparr>esd_id := i\<rparr>) [''1'', ''2'', ''3'']"

definition demo_server :: "Request \<Rightarrow> EvaluationPageDto reply" where
  "demo_server r = (if r = page_req (toParams demo_filters) 2 0 then demo_page (take 2 demo_items) 3
     else demo_page (drop 2 demo_items) 3)"

theorem fetchEvaluations_complete_witness:
  "\<exists>l. fetchEvaluations 0 demo_server 2 2 demo_filters = Some (Inr l) \<and> map ev_id (el_items l) = [''1'', ''2''] \<and>
    el_truncated l"
proof -
  have len: "length demo_items = 3" by (simp add: demo_items_def)
  have "page_req (toParams demo_filters) 2 2 \<noteq> page_req (toParams demo_filters) 2 0"
    by (simp add: page_req_def get_req_def show_int_def show_nat_eval digit_def)
  then have "demo_server (page_req (toParams demo_filters) 2 (k * 2)) =
      Reply 200 (Some \<lparr>pg_items = take (nat 2) (drop (nat (k * 2)) demo_items), pg_total = int (length demo_items)\<rparr>)"
    if "k = 0 \<or> k * 2 < int (length demo_items)" "0 \<le> k" for k
  proof -
    have "k = 0 \<or> k = 1" using that len by auto
    then show ?thesis using \<open>page_req (toParams demo_filters) 2 2 \<noteq> page_req (toParams demo_filters) 2 0\<close>
      by (auto simp: demo_server_def demo_page_def len)
  qed
  from fetchEvaluations_complete [OF _ _ this, of 2 0] show ?thesis
    by (simp add: demo_items_def demo_detail_def dtoToEvaluationSummary_def EvaluationSummaryDto.defs)
qed

subsection \<open>Errors of re-evaluation\<close>

definition error_detail :: "json option \<Rightarrow> json option" where
  "error_detail b = Option.bind b (\<lambda>j. json_field j ''detail'')"

definition pin_conflict :: "int \<Rightarrow> json option \<Rightarrow> json option" where
  "pin_conflict st b = Option.bind (error_detail b)
     (\<lambda>d. case json_field d ''pin_date'' of
        Some p \<Rightarrow> if st = 409 \<and> json_truthy p then Some p else None | None \<Rightarrow> None)"

lemma json_field_not_obj: "json_field JNull k = None" "json_field (JObj []) k = None" "json_field (JStr s) k = None"
  by (simp_all add: json_field_def)

lemma reeval_failure_cases:
  "reeval_failure st b =
    (if b = Some JNull then TypeError
     else case pin_conflict st b of
       Some p \<Rightarrow> PinConflictError p (Option.bind (error_detail b) (\<lambda>d. json_field d ''pin_evaluation_id''))
     | None \<Rightarrow> ApiError (HttpError (case error_detail b of
         Some (JStr m) \<Rightarrow> m | _ \<Rightarrow> ''reEvaluate: '' @ show_int st)))"
  by (auto simp: reeval_failure_def pin_conflict_def error_detail_def Let_def nullish_def json_field_not_obj
      split: option.splits json.splits)

text \<open>
  Every way a re-evaluation can fail has its own error: a pin conflict is reported exactly for a
  409 whose details name a pin date; any other failed response gives the server's own message when it sent
  one as text, else the status; and a success is reported only for a successful response with a body.
\<close>

lemma reEvaluate_errors:
  "(reEvaluate net errorBody i = Inr r \<longleftrightarrow>
      (\<exists>st d. net (reeval_req i) = Reply st (Some d) \<and> status_ok st \<and> r = dtoToReEvaluateResponse d)) \<and>
   (reEvaluate net errorBody i = Inl (PinConflictError p q) \<longleftrightarrow>
      (\<exists>b. net (reeval_req i) = Reply 409 b \<and> pin_conflict 409 (errorBody (reeval_req i)) = Some p \<and>
         q = Option.bind (error_detail (errorBody (reeval_req i))) (\<lambda>d. json_field d ''pin_evaluation_id''))) \<and>
   (reEvaluate net errorBody i = Inl (ApiError (HttpError m)) \<longleftrightarrow>
      (\<exists>st b. net (reeval_req i) = Reply st b \<and> \<not> status_ok st \<and> errorBody (reeval_req i) \<noteq> Some JNull \<and>
         pin_conflict st (errorBody (reeval_req i)) = None \<and>
         m = (case error_detail (errorBody (reeval_req i)) of
            Some (JStr s) \<Rightarrow> s | _ \<Rightarrow> ''reEvaluate: '' @ show_int st)))"
proof -
  have conflict: "pin_conflict st b = Some p' \<Longrightarrow> st = 409 \<and> b \<noteq> Some JNull" for st b p'
  proof -
    assume "pin_conflict st b = Some p'"
    then obtain d where d: "error_detail b = Some d" and
        "(case json_field d ''pin_date'' of Some p \<Rightarrow> if st = 409 \<and> json_truthy p then Some p else None | None \<Rightarrow> None) = Some p'"
      unfolding pin_conflict_def by (auto simp: bind_eq_Some_conv)
    then have "st = 409" by (cases "json_field d ''pin_date''") (simp_all split: if_splits)
    moreover have "b \<noteq> Some JNull" using d by (auto simp: error_detail_def json_field_not_obj)
    ultimately show "st = 409 \<and> b \<noteq> Some JNull" ..
  qed
  show ?thesis
  proof (cases "net (reeval_req i)")
    case Rejected
    then show ?thesis by (simp add: reEvaluate_def Let_def)
  next
    case (Reply st b)
    define e where "e = errorBody (reeval_req i)"
    define msg where "msg = (\<lambda>st. case error_detail e of Some (JStr s) \<Rightarrow> s | _ \<Rightarrow> ''reEvaluate: '' @ show_int st)"
    define pin where "pin = Option.bind (error_detail e) (\<lambda>d. json_field d ''pin_evaluation_id'')"
    have result: "reEvaluate net errorBody i =
        (if \<not> status_ok st
         then Inl (if e = Some JNull then TypeError else
           case pin_conflict st e of Some p' \<Rightarrow> PinConflictError p' pin | None \<Rightarrow> ApiError (HttpError (msg st)))
         else case b of None \<Rightarrow> Inl (ApiError InvalidJson) | Some d \<Rightarrow> Inr (dtoToReEvaluateResponse d))"
      by (cases "pin_conflict st e")
        (simp_all add: reEvaluate_def Reply reeval_failure_cases e_def [symmetric] msg_def pin_def)
    have ok: "\<not> status_ok 409" by (simp add: status_ok_def)
    have msg_eq: "(case error_detail e of Some (JStr s) \<Rightarrow> s | _ \<Rightarrow> ''reEvaluate: '' @ show_int st') = msg st'" for st'
      by (simp add: msg_def)
    show ?thesis
      unfolding result e_def [symmetric] pin_def [symmetric] msg_eq Reply
      using ok conflict [of st e]
      by (cases "status_ok st"; cases "pin_conflict st e"; cases b) auto
  qed
qed

end
