(* ===== verification/RegistryApi.thy ===== *)
theory RegistryApi
  imports Api
begin

text \<open>
  The fetch functions of the registry features: \<open>features/{assets,slos,slis,datasources,slo-groups,
  change-points,note-categories,meta_timeline,navigator}/api.ts\<close>. Lists that come as a page are the \<open>items\<close>
  of the answer; payloads the forms build in the backend's shape are JSON values.
\<close>

subsection \<open>Shared shapes\<close>

record 'd ItemsDto =
  it_items :: "'d list"
  it_total :: int

definition call_items :: "string \<Rightarrow> ('d \<Rightarrow> 'a) \<Rightarrow> 'd ItemsDto reply \<Rightarrow> api_error + 'a list" where
  "call_items name f r = call name (\<lambda>page. map f (it_items page)) r"

definition tag_params :: "string option \<Rightarrow> string option \<Rightarrow> search_params \<Rightarrow> search_params" where
  "tag_params tagKey tagVal ps = set_if ''tag_val'' tagVal (set_if ''tag_key'' tagKey ps)"

subsection \<open>Asset types\<close>

definition fetchAssetTypes :: "(Request \<Rightarrow> AssetTypeDto ItemsDto reply) \<Rightarrow> api_error + AssetType list" where
  "fetchAssetTypes net = call_items ''fetchAssetTypes'' dtoToAssetType (net (get_req ''/asset-types''))"

definition createAssetType :: "(Request \<Rightarrow> AssetTypeDto reply) \<Rightarrow> string \<Rightarrow> bool \<Rightarrow> api_error + AssetType" where
  "createAssetType net name isDefault =
    call ''createAssetType'' dtoToAssetType (net (send_req ''POST'' ''/asset-types''
      (Some (json_object [(''name'', Some (JStr name)), (''is_default'', Some (JBool isDefault))]))))"

definition renameAssetType :: "(Request \<Rightarrow> AssetTypeDto reply) \<Rightarrow> string \<Rightarrow> string \<Rightarrow> api_error + AssetType" where
  "renameAssetType net oldName newName =
    call ''renameAssetType'' dtoToAssetType (net (send_req ''PATCH'' (''/asset-types'' @ enc_seg oldName)
      (Some (json_object [(''name'', Some (JStr newName))]))))"

definition setDefaultAssetType :: "(Request \<Rightarrow> AssetTypeDto reply) \<Rightarrow> string \<Rightarrow> api_error + AssetType" where
  "setDefaultAssetType net name =
    call ''setDefaultAssetType'' dtoToAssetType
      (net (send_req ''PATCH'' (''/asset-types'' @ enc_seg name @ ''/set-default'') None))"

definition deleteAssetType :: "(Request \<Rightarrow> unit reply) \<Rightarrow> string \<Rightarrow> api_error + unit" where
  "deleteAssetType net name =
    call_void ''deleteAssetType'' (net (send_req ''DELETE'' (''/asset-types'' @ enc_seg name) None))"

subsection \<open>Assets\<close>

definition fetchAssets :: "int \<Rightarrow> (Request \<Rightarrow> AssetDto ItemsDto reply) \<Rightarrow> api_error + Asset list" where
  "fetchAssets tz net = call_items ''fetchAssets'' (dtoToAsset tz) (net (get_req ''/assets''))"

definition fetchAsset :: "int \<Rightarrow> (Request \<Rightarrow> AssetDto reply) \<Rightarrow> string \<Rightarrow> api_error + Asset" where
  "fetchAsset tz net name = call ''fetchAsset'' (dtoToAsset tz) (net (get_req (''/assets'' @ enc_seg name)))"

definition createAsset :: "int \<Rightarrow> (Request \<Rightarrow> AssetDto reply) \<Rightarrow> json \<Rightarrow> api_error + Asset" where
  "createAsset tz net body =
    call ''createAsset'' (dtoToAsset tz) (net (send_req ''POST'' ''/assets'' (Some body)))"

definition updateAsset :: "int \<Rightarrow> (Request \<Rightarrow> AssetDto reply) \<Rightarrow> string \<Rightarrow> json \<Rightarrow> api_error + Asset" where
  "updateAsset tz net name body =
    call ''updateAsset'' (dtoToAsset tz) (net (send_req ''PATCH'' (''/assets'' @ enc_seg name) (Some body)))"

definition deleteAsset :: "(Request \<Rightarrow> unit reply) \<Rightarrow> string \<Rightarrow> api_error + unit" where
  "deleteAsset net name = call_void ''deleteAsset'' (net (send_req ''DELETE'' (''/assets'' @ enc_seg name) None))"

text \<open>The tag listings return the decoded body as it is.\<close>

definition fetchTagKeys :: "(Request \<Rightarrow> TagKeyCount list reply) \<Rightarrow> api_error + TagKeyCount list" where
  "fetchTagKeys net = call ''fetchTagKeys'' id (net (get_req ''/assets/tag-keys''))"

definition fetchTagValues :: "(Request \<Rightarrow> TagValueCount list reply) \<Rightarrow> string \<Rightarrow> api_error + TagValueCount list" where
  "fetchTagValues net key =
    call ''fetchTagValues'' id (net (get_req (''/assets/tag-values?key='' @ encodeURIComponent key)))"

subsection \<open>Asset groups\<close>

definition group_path :: "string \<Rightarrow> string" where
  "group_path name = ''/asset-groups'' @ enc_seg name"

definition fetchAssetGroupTree :: "int \<Rightarrow> (Request \<Rightarrow> AssetGroupTreeDto reply) \<Rightarrow> api_error + AssetGroupTree" where
  "fetchAssetGroupTree tz net =
    call ''fetchAssetGroupTree'' (dtoToAssetGroupTree tz) (net (get_req ''/asset-groups/tree''))"

definition fetchAssetGroup :: "int \<Rightarrow> (Request \<Rightarrow> AssetGroupDto reply) \<Rightarrow> string \<Rightarrow> api_error + AssetGroup" where
  "fetchAssetGroup tz net name = call ''fetchAssetGroup'' (dtoToAssetGroup tz) (net (get_req (group_path name)))"

definition addGroupMember ::
  "int \<Rightarrow> (Request \<Rightarrow> AssetGroupDto reply) \<Rightarrow> string \<Rightarrow> string \<Rightarrow> rat option \<Rightarrow> api_error + AssetGroup" where
  "addGroupMember tz net groupName assetId weight =
    call ''addGroupMember'' (dtoToAssetGroup tz) (net (send_req ''POST'' (group_path groupName @ ''/members'')
      (Some (json_object [(''asset_id'', Some (JStr assetId)), (''weight'', Some (JNum (nullish weight 1)))]))))"

definition removeGroupMember :: "(Request \<Rightarrow> unit reply) \<Rightarrow> string \<Rightarrow> string \<Rightarrow> api_error + unit" where
  "removeGroupMember net groupName assetId =
    call_void ''removeGroupMember''
      (net (send_req ''DELETE'' (group_path groupName @ ''/members/'' @ assetId) None))"

definition fetchGroupTree :: "int \<Rightarrow> (Request \<Rightarrow> AssetGroupTreeDto reply) \<Rightarrow> api_error + AssetGroupTree" where
  "fetchGroupTree tz net =
    call ''fetchGroupTree'' (dtoToAssetGroupTree tz) (net (get_req ''/asset-groups/tree''))"

definition createGroup :: "int \<Rightarrow> (Request \<Rightarrow> AssetGroupDto reply) \<Rightarrow> json \<Rightarrow> api_error + AssetGroup" where
  "createGroup tz net body =
    call ''createGroup'' (dtoToAssetGroup tz) (net (send_req ''POST'' ''/asset-groups'' (Some body)))"

definition updateGroup :: "int \<Rightarrow> (Request \<Rightarrow> AssetGroupDto reply) \<Rightarrow> string \<Rightarrow> json \<Rightarrow> api_error + AssetGroup" where
  "updateGroup tz net name body =
    call ''updateGroup'' (dtoToAssetGroup tz) (net (send_req ''PATCH'' (group_path name) (Some body)))"

definition deleteGroup :: "(Request \<Rightarrow> unit reply) \<Rightarrow> string \<Rightarrow> bool \<Rightarrow> api_error + unit" where
  "deleteGroup net name deactivateSlos =
    call_void ''deleteGroup'' (net (send_req ''DELETE''
      (group_path name @ ''?deactivate_slos='' @ (if deactivateSlos then ''true'' else ''false'')) None))"

definition addSubgroup :: "int \<Rightarrow> (Request \<Rightarrow> AssetGroupDto reply) \<Rightarrow> string \<Rightarrow> string \<Rightarrow> api_error + AssetGroup" where
  "addSubgroup tz net parentName childGroupId =
    call ''addSubgroup'' (dtoToAssetGroup tz) (net (send_req ''POST'' (group_path parentName @ ''/subgroups'')
      (Some (json_object [(''child_group_id'', Some (JStr childGroupId)), (''weight'', Some (JNum 1))]))))"

subsection \<open>SLO definitions\<close>

definition fetchSlos :: "int \<Rightarrow> (Request \<Rightarrow> SloDto ItemsDto reply) \<Rightarrow> string option \<Rightarrow> string option \<Rightarrow> api_error + Slo list" where
  "fetchSlos tz net tagKey tagVal = call_items ''fetchSlos'' (dtoToSlo tz)
     (net (get_req (''/slo-definitions'' @ query_suffix (tag_params tagKey tagVal []))))"

definition fetchSloDetail :: "int \<Rightarrow> (Request \<Rightarrow> SloDto reply) \<Rightarrow> string \<Rightarrow> api_error + Slo" where
  "fetchSloDetail tz net name =
    call ''fetchSloDetail'' (dtoToSlo tz) (net (get_req (''/slo-definitions'' @ enc_seg name)))"

definition validateSlo :: "(Request \<Rightarrow> SloValidationResultDto reply) \<Rightarrow> json \<Rightarrow> api_error + SloValidationResult" where
  "validateSlo net payload = call ''validateSlo'' dtoToSloValidationResult
     (net (send_req ''POST'' ''/slo-definitions/validate'' (Some payload)))"

definition createSloDefinition :: "int \<Rightarrow> (Request \<Rightarrow> SloDto reply) \<Rightarrow> json \<Rightarrow> api_error + Slo" where
  "createSloDefinition tz net payload =
    call ''createSloDefinition'' (dtoToSlo tz) (net (send_req ''POST'' ''/slo-definitions'' (Some payload)))"

definition deleteSlo :: "(Request \<Rightarrow> unit reply) \<Rightarrow> string \<Rightarrow> api_error + unit" where
  "deleteSlo net name = call_void ''deleteSlo'' (net (send_req ''DELETE'' (''/slo-definitions'' @ enc_seg name) None))"

definition fetchSloVersions :: "int \<Rightarrow> (Request \<Rightarrow> SloDto list reply) \<Rightarrow> string \<Rightarrow> api_error + Slo list" where
  "fetchSloVersions tz net name = call ''fetchSloVersions'' (map (dtoToSlo tz))
     (net (get_req (''/slo-definitions'' @ enc_seg name @ ''/versions'')))"

definition fetchSloTagKeys :: "(Request \<Rightarrow> TagKeyCount list reply) \<Rightarrow> api_error + TagKeyCount list" where
  "fetchSloTagKeys net = call ''fetchSloTagKeys'' id (net (get_req ''/slo-definitions/tag-keys''))"

definition fetchSloTagValues :: "(Request \<Rightarrow> TagValueCount list reply) \<Rightarrow> string \<Rightarrow> api_error + TagValueCount list" where
  "fetchSloTagValues net key =
    call ''fetchSloTagValues'' id (net (get_req (''/slo-definitions/tag-values?key='' @ encodeURIComponent key)))"

subsection \<open>SLO assignments\<close>

record SloAssignmentCreateInput =
  sai_slo_definition_id :: string
  sai_data_source_name :: string
  sai_comparison_rules :: "json list option option"

definition assignment_json :: "SloAssignmentCreateInput \<Rightarrow> json" where
  "assignment_json b = json_object
    [(''data_source_name'', Some (JStr (sai_data_source_name b))),
     (''comparison_rules'', map_option (json_nullable JArr) (sai_comparison_rules b))]"

definition fetchAssetSloAssignments ::
  "int \<Rightarrow> (Request \<Rightarrow> SloAssignmentDto list reply) \<Rightarrow> string \<Rightarrow> api_error + SloAssignment list" where
  "fetchAssetSloAssignments tz net assetName = call ''fetchAssetSloAssignments'' (map (dtoToSloAssignment tz))
     (net (get_req (''/assets'' @ enc_seg assetName @ ''/slo-assignments'')))"

definition fetchAssetSloGroupAssignments ::
  "int \<Rightarrow> (Request \<Rightarrow> SloGroupAssignmentDto list reply) \<Rightarrow> string \<Rightarrow> api_error + SloGroupAssignment list" where
  "fetchAssetSloGroupAssignments tz net assetName =
    call ''fetchAssetSloGroupAssignments'' (map (dtoToSloGroupAssignment tz))
     (net (get_req (''/assets'' @ enc_seg assetName @ ''/slo-group-assignments'')))"

definition createAssetSloAssignment ::
  "int \<Rightarrow> (Request \<Rightarrow> SloAssignmentDto reply) \<Rightarrow> string \<Rightarrow> SloAssignmentCreateInput \<Rightarrow> api_error + SloAssignment" where
  "createAssetSloAssignment tz net assetName b = call ''createAssetSloAssignment'' (dtoToSloAssignment tz)
     (net (send_req ''PUT''
       (''/assets'' @ enc_seg assetName @ ''/slo-definitions'' @ enc_seg (sai_slo_definition_id b))
       (Some (assignment_json b))))"

definition fetchGroupSloAssignments ::
  "int \<Rightarrow> (Request \<Rightarrow> SloAssignmentDto list reply) \<Rightarrow> string \<Rightarrow> api_error + SloAssignment list" where
  "fetchGroupSloAssignments tz net groupName = call ''fetchGroupSloAssignments'' (map (dtoToSloAssignment tz))
     (net (get_req (group_path groupName @ ''/slo-assignments'')))"

definition createGroupSloAssignment ::
  "int \<Rightarrow> (Request \<Rightarrow> SloAssignmentDto reply) \<Rightarrow> string \<Rightarrow> SloAssignmentCreateInput \<Rightarrow> api_error + SloAssignment" where
  "createGroupSloAssignment tz net groupName b = call ''createGroupSloAssignment'' (dtoToSloAssignment tz)
     (net (send_req ''PUT'' (group_path groupName @ ''/slo-definitions'' @ enc_seg (sai_slo_definition_id b))
       (Some (assignment_json b))))"

definition deleteGroupSloAssignment :: "(Request \<Rightarrow> unit reply) \<Rightarrow> string \<Rightarrow> string \<Rightarrow> api_error + unit" where
  "deleteGroupSloAssignment net groupName sloDefinitionId = call_void ''deleteGroupSloAssignment''
     (net (send_req ''DELETE'' (group_path groupName @ ''/slo-definitions'' @ enc_seg sloDefinitionId) None))"

subsection \<open>SLI definitions\<close>

definition fetchSliDefinitions ::
  "int \<Rightarrow> (Request \<Rightarrow> SliDto ItemsDto reply) \<Rightarrow> string option \<Rightarrow> string option \<Rightarrow> string option \<Rightarrow> api_error + Sli list" where
  "fetchSliDefinitions tz net adapterType tagKey tagVal = call_items ''fetchSliDefinitions'' (dtoToSli tz)
     (net (get_req (''/sli-definitions''
       @ query_suffix (tag_params tagKey tagVal (set_if ''adapter_type'' adapterType [])))))"

definition fetchSliDetail :: "int \<Rightarrow> (Request \<Rightarrow> SliDto reply) \<Rightarrow> string \<Rightarrow> api_error + Sli" where
  "fetchSliDetail tz net name =
    call ''fetchSliDetail'' (dtoToSli tz) (net (get_req (''/sli-definitions'' @ enc_seg name)))"

definition createSliDefinition :: "int \<Rightarrow> (Request \<Rightarrow> SliDto reply) \<Rightarrow> json \<Rightarrow> api_error + Sli" where
  "createSliDefinition tz net payload =
    call ''createSliDefinition'' (dtoToSli tz) (net (send_req ''POST'' ''/sli-definitions'' (Some payload)))"

definition deleteSliDefinition :: "(Request \<Rightarrow> unit reply) \<Rightarrow> string \<Rightarrow> api_error + unit" where
  "deleteSliDefinition net name =
    call_void ''deleteSliDefinition'' (net (send_req ''DELETE'' (''/sli-definitions'' @ enc_seg name) None))"

definition fetchSliVersions :: "int \<Rightarrow> (Request \<Rightarrow> SliDto list reply) \<Rightarrow> string \<Rightarrow> api_error + Sli list" where
  "fetchSliVersions tz net name = call ''fetchSliVersions'' (map (dtoToSli tz))
     (net (get_req (''/sli-definitions'' @ enc_seg name @ ''/versions'')))"

definition fetchSliTagKeys :: "(Request \<Rightarrow> TagKeyCount list reply) \<Rightarrow> api_error + TagKeyCount list" where
  "fetchSliTagKeys net = call ''fetchSliTagKeys'' id (net (get_req ''/sli-definitions/tag-keys''))"

definition fetchSliTagValues :: "(Request \<Rightarrow> TagValueCount list reply) \<Rightarrow> string \<Rightarrow> api_error + TagValueCount list" where
  "fetchSliTagValues net key =
    call ''fetchSliTagValues'' id (net (get_req (''/sli-definitions/tag-values?key='' @ encodeURIComponent key)))"

subsection \<open>Data sources\<close>

definition fetchDatasources ::
  "int \<Rightarrow> (Request \<Rightarrow> DatasourceDto ItemsDto reply) \<Rightarrow> string option \<Rightarrow> string option \<Rightarrow> api_error + Datasource list" where
  "fetchDatasources tz net tagKey tagVal = call_items ''fetchDatasources'' (dtoToDatasource tz)
     (net (get_req (''/datasources'' @ query_suffix (tag_params tagKey tagVal []))))"

definition fetchDatasource :: "int \<Rightarrow> (Request \<Rightarrow> DatasourceDto reply) \<Rightarrow> string \<Rightarrow> api_error + Datasource" where
  "fetchDatasource tz net name =
    call ''fetchDatasource'' (dtoToDatasource tz) (net (get_req (''/datasources'' @ enc_seg name)))"

definition createDatasource :: "int \<Rightarrow> (Request \<Rightarrow> DatasourceDto reply) \<Rightarrow> json \<Rightarrow> api_error + Datasource" where
  "createDatasource tz net payload =
    call ''createDatasource'' (dtoToDatasource tz) (net (send_req ''POST'' ''/datasources'' (Some payload)))"

definition updateDatasource :: "int \<Rightarrow> (Request \<Rightarrow> DatasourceDto reply) \<Rightarrow> string \<Rightarrow> json \<Rightarrow> api_error + Datasource" where
  "updateDatasource tz net name payload = call ''updateDatasource'' (dtoToDatasource tz)
     (net (send_req ''PATCH'' (''/datasources'' @ enc_seg name) (Some payload)))"

definition deleteDatasource :: "(Request \<Rightarrow> unit reply) \<Rightarrow> string \<Rightarrow> api_error + unit" where
  "deleteDatasource net name =
    call_void ''deleteDatasource'' (net (send_req ''DELETE'' (''/datasources'' @ enc_seg name) None))"

definition fetchDatasourceTagKeys :: "(Request \<Rightarrow> TagKeyCount list reply) \<Rightarrow> api_error + TagKeyCount list" where
  "fetchDatasourceTagKeys net = call ''fetchDatasourceTagKeys'' id (net (get_req ''/datasources/tag-keys''))"

definition fetchDatasourceTagValues :: "(Request \<Rightarrow> TagValueCount list reply) \<Rightarrow> string \<Rightarrow> api_error + TagValueCount list" where
  "fetchDatasourceTagValues net key =
    call ''fetchDatasourceTagValues'' id (net (get_req (''/datasources/tag-values?key='' @ encodeURIComponent key)))"

subsection \<open>SLO groups\<close>

definition fetchSloGroups :: "int \<Rightarrow> (Request \<Rightarrow> SloGroupDto ItemsDto reply) \<Rightarrow> api_error + SloGroup list" where
  "fetchSloGroups tz net = call_items ''fetchSloGroups'' (dtoToSloGroup tz) (net (get_req ''/slo-groups''))"

definition fetchSloGroupDetail :: "int \<Rightarrow> (Request \<Rightarrow> SloGroupDto reply) \<Rightarrow> string \<Rightarrow> api_error + SloGroup" where
  "fetchSloGroupDetail tz net name =
    call ''fetchSloGroupDetail'' (dtoToSloGroup tz) (net (get_req (''/slo-groups'' @ enc_seg name)))"

definition createSloGroup :: "int \<Rightarrow> (Request \<Rightarrow> SloGroupDto reply) \<Rightarrow> json \<Rightarrow> api_error + SloGroup" where
  "createSloGroup tz net payload =
    call ''createSloGroup'' (dtoToSloGroup tz) (net (send_req ''POST'' ''/slo-groups'' (Some payload)))"

definition updateSloGroup :: "int \<Rightarrow> (Request \<Rightarrow> SloGroupDto reply) \<Rightarrow> string \<Rightarrow> json \<Rightarrow> api_error + SloGroup" where
  "updateSloGroup tz net name payload = call ''updateSloGroup'' (dtoToSloGroup tz)
     (net (send_req ''PUT'' (''/slo-groups'' @ enc_seg name) (Some payload)))"

definition deleteSloGroup :: "(Request \<Rightarrow> unit reply) \<Rightarrow> string \<Rightarrow> api_error + unit" where
  "deleteSloGroup net name =
    call_void ''deleteSloGroup'' (net (send_req ''DELETE'' (''/slo-groups'' @ enc_seg name) None))"

subsection \<open>Change points\<close>

definition set_num :: "string \<Rightarrow> int option \<Rightarrow> search_params \<Rightarrow> search_params" where
  "set_num k v ps = (case v of None \<Rightarrow> ps | Some n \<Rightarrow> sp_set k (show_int n) ps)"

definition fetchChangePoints ::
  "int \<Rightarrow> (Request \<Rightarrow> ChangePointReadDto list reply) \<Rightarrow> ChangePointFilters \<Rightarrow> api_error + ChangePoint list" where
  "fetchChangePoints tz net f = call ''failed to fetch change points'' (map (dtoToChangePoint tz))
     (net (get_req (''/change-points'' @ query_suffix
       (set_num ''offset'' (cf_offset f) (set_num ''limit'' (cf_limit f) (set_if ''metric_name'' (cf_metric f)
         (set_if ''slo_name'' (cf_sloName f) (set_if ''asset_id'' (cf_assetId f)
           (set_if ''direction'' (cf_direction f) (set_if ''status'' (cf_status f) []))))))))))"

definition triage_fields :: "string \<Rightarrow> string option \<Rightarrow> string option \<Rightarrow> (string \<times> json option) list" where
  "triage_fields st author note =
    [(''status'', Some (JStr st)), (''triage_author'', Some (json_nullable JStr author)),
     (''triage_note'', Some (json_nullable JStr note))]"

definition triageChangePoint ::
  "int \<Rightarrow> (Request \<Rightarrow> ChangePointReadDto reply) \<Rightarrow> string \<Rightarrow> TriageInput \<Rightarrow> api_error + ChangePoint" where
  "triageChangePoint tz net i inp = call ''failed to triage change point'' (dtoToChangePoint tz)
     (net (send_req ''PATCH'' (''/change-points/'' @ i)
       (Some (json_object (triage_fields (tri_status inp) (tri_triageAuthor inp) (tri_triageNote inp))))))"

definition bulkTriageChangePoints :: "(Request \<Rightarrow> unit reply) \<Rightarrow> BulkTriageInput \<Rightarrow> api_error + unit" where
  "bulkTriageChangePoints net inp = call_void ''failed to bulk triage change points''
     (net (send_req ''PATCH'' ''/change-points/bulk-triage''
       (Some (json_object ((''ids'', Some (json_strs (bti_ids inp))) #
         triage_fields (bti_status inp) (bti_triageAuthor inp) (bti_triageNote inp))))))"

subsection \<open>Note categories\<close>

definition category_create_json :: "NoteCategoryCreateDto \<Rightarrow> json" where
  "category_create_json d = json_object
    [(''name'', Some (JStr (ncc_name d))), (''label'', Some (JStr (ncc_label d))),
     (''color'', Some (JStr (color_str (ncc_color d)))), (''show_on_graph'', Some (JBool (ncc_show_on_graph d)))]"

definition category_update_json :: "NoteCategoryUpdateDto \<Rightarrow> json" where
  "category_update_json d = json_object
    [(''name'', map_option JStr (ncu_name d)), (''label'', map_option JStr (ncu_label d)),
     (''color'', map_option (\<lambda>c. JStr (color_str c)) (ncu_color d)),
     (''show_on_graph'', map_option JBool (ncu_show_on_graph d))]"

definition listNoteCategories :: "int \<Rightarrow> (Request \<Rightarrow> NoteCategoryDto list reply) \<Rightarrow> api_error + NoteCategory list" where
  "listNoteCategories tz net =
    call ''listNoteCategories'' (map (dtoToNoteCategory tz)) (net (get_req ''/note-categories''))"

definition createNoteCategory ::
  "int \<Rightarrow> (Request \<Rightarrow> NoteCategoryDto reply) \<Rightarrow> NoteCategoryInput \<Rightarrow> api_error + NoteCategory" where
  "createNoteCategory tz net inp = call ''createNoteCategory'' (dtoToNoteCategory tz)
     (net (send_req ''POST'' ''/note-categories'' (Some (category_create_json (noteCategoryInputToDto inp)))))"

definition updateNoteCategory ::
  "int \<Rightarrow> (Request \<Rightarrow> NoteCategoryDto reply) \<Rightarrow> string \<Rightarrow> NoteCategoryPatch \<Rightarrow> api_error + NoteCategory" where
  "updateNoteCategory tz net i patch = call ''updateNoteCategory'' (dtoToNoteCategory tz)
     (net (send_req ''PATCH'' (''/note-categories/'' @ i) (Some (category_update_json (noteCategoryPatchToDto patch)))))"

subsection \<open>Meta timeline and heatmap\<close>

text \<open>\<open>toISOString\<close> of an invalid date throws, before any request is sent.\<close>

definition iso_window :: "jsdate \<Rightarrow> jsdate \<Rightarrow> search_params option" where
  "iso_window from to = (case (toISOString from, toISOString to) of
     (Some f, Some t) \<Rightarrow> Some [(''from'', f), (''to'', t)] | _ \<Rightarrow> None)"

definition fetchMetaTimeline ::
  "int \<Rightarrow> (Request \<Rightarrow> TimelineResponseDto reply) \<Rightarrow> string \<Rightarrow> jsdate \<Rightarrow> jsdate
    \<Rightarrow> (api_error + MetaTimelineResponse) option" where
  "fetchMetaTimeline tz net assetId from to = map_option (\<lambda>ps.
     call ''fetchMetaTimeline'' (dtoToMetaTimelineResponse tz)
       (net (get_req (''/assets/'' @ assetId @ ''/meta/timeline?'' @ query_string ps)))) (iso_window from to)"

definition fetchMetaTimelineSummary ::
  "(Request \<Rightarrow> TimelineSummaryDto reply) \<Rightarrow> string \<Rightarrow> jsdate \<Rightarrow> jsdate
    \<Rightarrow> (api_error + MetaTimelineSummary) option" where
  "fetchMetaTimelineSummary net assetId from to = map_option (\<lambda>ps.
     call ''fetchMetaTimelineSummary'' dtoToMetaTimelineSummary
       (net (get_req (''/assets/'' @ assetId @ ''/meta/timeline/summary?'' @ query_string ps)))) (iso_window from to)"

definition heatmap_params :: "string \<Rightarrow> string list option \<Rightarrow> string option \<Rightarrow> string option \<Rightarrow> search_params" where
  "heatmap_params assetName names from to =
    set_if ''to'' to (set_if ''from'' from (append_all ''evaluation_name'' (nullish names []) [(''asset_name'', assetName)]))"

definition fetchGroupedMetricHeatmap ::
  "(Request \<Rightarrow> 'd reply) \<Rightarrow> string \<Rightarrow> string list option \<Rightarrow> string option \<Rightarrow> string option \<Rightarrow> api_error + 'd" where
  "fetchGroupedMetricHeatmap net assetName names from to = call ''fetchGroupedMetricHeatmap'' id
     (net (get_req (''/evaluations/heatmap?'' @ query_string (heatmap_params assetName names from to))))"

end
