(* ===== verification/QueryCache.thy ===== *)
theory QueryCache
  imports RegistryApi
begin

text \<open>
  The query keys (\<open>lib/queryKeys.ts\<close>, \<open>changePointKeys\<close>) and what the hooks ask of the query client: a query
  is a key, a fetch and the condition under which it runs; a mutation is a fetch and the keys it invalidates
  when it succeeds. The client itself is third-party code: the test whether a key matches an invalidation
  filter is the parameter \<open>matches\<close>, of which the documented part used here is that a key matches each of its
  prefixes.
\<close>

subsection \<open>Keys\<close>

text \<open>A key is an array of strings and filter objects; an \<open>undefined\<close> element counts as \<open>null\<close>.\<close>

type_synonym key = "json list"

definition opt_str :: "string option \<Rightarrow> json" where
  "opt_str s = json_nullable JStr s"

definition range_json :: "string \<Rightarrow> string option \<Rightarrow> json" where
  "range_json from to = json_object
    [(''from'', Some (JStr from)), (''to'', if truthy to then map_option JStr to else None)]"

definition evaluationKeys_all :: key where
  "evaluationKeys_all = [JStr ''evaluations'']"

definition evaluationKeys_list :: "json \<Rightarrow> key" where
  "evaluationKeys_list filters = evaluationKeys_all @ [filters]"

definition evaluationKeys_detail :: "string \<Rightarrow> key" where
  "evaluationKeys_detail i = evaluationKeys_all @ [JStr i]"

definition evaluationKeys_allTrends :: key where
  "evaluationKeys_allTrends = [JStr ''trend'']"

definition evaluationKeys_trend :: "string \<Rightarrow> string \<Rightarrow> string \<Rightarrow> json \<Rightarrow> key" where
  "evaluationKeys_trend assetName sloName metric dateRange =
    [JStr ''trend'', JStr assetName, JStr sloName, JStr metric, dateRange]"

definition evaluationKeys_allSloTrends :: key where
  "evaluationKeys_allSloTrends = [JStr ''slo-trends'']"

definition evaluationKeys_sloTrends :: "string \<Rightarrow> string \<Rightarrow> json \<Rightarrow> key" where
  "evaluationKeys_sloTrends assetName sloName dateRange = [JStr ''slo-trends'', JStr assetName, JStr sloName, dateRange]"

definition evaluationKeys_allHeatmaps :: key where
  "evaluationKeys_allHeatmaps = [JStr ''metric-heatmap'']"

definition evaluationKeys_heatmap :: "string option \<Rightarrow> json \<Rightarrow> string list option \<Rightarrow> key" where
  "evaluationKeys_heatmap assetName filters evalNames =
    (if nullish evalNames [] \<noteq> []
     then [JStr ''metric-heatmap'', opt_str assetName, filters, json_strs (nullish evalNames [])]
     else [JStr ''metric-heatmap'', opt_str assetName, filters])"

definition evaluationKeys_allNames :: key where
  "evaluationKeys_allNames = [JStr ''evaluation-names'']"

definition evaluationKeys_names :: "string option \<Rightarrow> string option \<Rightarrow> key" where
  "evaluationKeys_names assetName groupName = [JStr ''evaluation-names'', json_object
    [(''asset_name'', map_option JStr assetName), (''group_name'', map_option JStr groupName)]]"

definition evaluationKeys_columnAnnotations :: "string \<Rightarrow> key" where
  "evaluationKeys_columnAnnotations i = evaluationKeys_all @ [JStr ''column-annotations'', JStr i]"

definition assetKeys_all :: key where
  "assetKeys_all = [JStr ''assets'']"

definition assetKeys_groups :: key where
  "assetKeys_groups = assetKeys_all @ [JStr ''groups'']"

definition assetTypeKeys_all :: key where
  "assetTypeKeys_all = [JStr ''asset-types'']"

definition labelKeys_keys :: key where
  "labelKeys_keys = [JStr ''label-keys'']"

definition labelKeys_values :: "string \<Rightarrow> key" where
  "labelKeys_values k = [JStr ''label-values'', JStr k]"

definition sloKeys_all :: key where
  "sloKeys_all = [JStr ''slos'']"

definition sloKeys_detail :: "string \<Rightarrow> key" where
  "sloKeys_detail name = sloKeys_all @ [JStr name]"

definition sloKeys_tagKeys :: key where
  "sloKeys_tagKeys = sloKeys_all @ [JStr ''tag-keys'']"

definition sloKeys_tagValues :: "string \<Rightarrow> key" where
  "sloKeys_tagValues k = sloKeys_all @ [JStr ''tag-values'', JStr k]"

definition sliKeys_all :: key where
  "sliKeys_all = [JStr ''sli-definitions'']"

definition sliKeys_detail :: "string \<Rightarrow> key" where
  "sliKeys_detail name = sliKeys_all @ [JStr name]"

definition sliKeys_versions :: "string \<Rightarrow> key" where
  "sliKeys_versions name = sliKeys_detail name @ [JStr ''versions'']"

definition sliKeys_tagKeys :: key where
  "sliKeys_tagKeys = sliKeys_all @ [JStr ''tag-keys'']"

definition sliKeys_tagValues :: "string \<Rightarrow> key" where
  "sliKeys_tagValues k = sliKeys_all @ [JStr ''tag-values'', JStr k]"

definition groupKeys_all :: key where
  "groupKeys_all = [JStr ''asset-groups'']"

definition groupKeys_tree :: key where
  "groupKeys_tree = groupKeys_all @ [JStr ''tree'']"

definition groupKeys_detail :: "string \<Rightarrow> key" where
  "groupKeys_detail name = groupKeys_all @ [JStr name]"

definition groupKeys_links :: "string \<Rightarrow> key" where
  "groupKeys_links name = groupKeys_detail name @ [JStr ''links'']"

definition groupKeys_assignments :: "string \<Rightarrow> key" where
  "groupKeys_assignments name = groupKeys_detail name @ [JStr ''assignments'']"

definition assignmentKeys_all :: key where
  "assignmentKeys_all = [JStr ''slo-assignments'']"

definition assignmentKeys_asset :: "string \<Rightarrow> key" where
  "assignmentKeys_asset assetName = assignmentKeys_all @ [JStr ''asset'', JStr assetName]"

definition assignmentKeys_group :: "string \<Rightarrow> key" where
  "assignmentKeys_group groupName = assignmentKeys_all @ [JStr ''group'', JStr groupName]"

definition datasourceKeys_all :: key where
  "datasourceKeys_all = [JStr ''datasources'']"

definition datasourceKeys_detail :: "string \<Rightarrow> key" where
  "datasourceKeys_detail name = datasourceKeys_all @ [JStr name]"

definition datasourceKeys_tagKeys :: key where
  "datasourceKeys_tagKeys = datasourceKeys_all @ [JStr ''tag-keys'']"

definition datasourceKeys_tagValues :: "string \<Rightarrow> key" where
  "datasourceKeys_tagValues k = datasourceKeys_all @ [JStr ''tag-values'', JStr k]"

definition sloGroupKeys_all :: key where
  "sloGroupKeys_all = [JStr ''slo-groups'']"

definition sloGroupKeys_detail :: "string \<Rightarrow> key" where
  "sloGroupKeys_detail name = sloGroupKeys_all @ [JStr name]"

definition changePointKeys_all :: key where
  "changePointKeys_all = [JStr ''change-points'']"

definition json_of_int_opt :: "int option \<Rightarrow> json option" where
  "json_of_int_opt n = map_option json_int n"

definition changePointKeys_list :: "ChangePointFilters \<Rightarrow> key" where
  "changePointKeys_list f = changePointKeys_all @ [JStr ''list'', json_object
    [(''status'', map_option JStr (cf_status f)), (''direction'', map_option JStr (cf_direction f)),
     (''assetId'', map_option JStr (cf_assetId f)), (''sloName'', map_option JStr (cf_sloName f)),
     (''metric'', map_option JStr (cf_metric f)), (''limit'', json_of_int_opt (cf_limit f)),
     (''offset'', json_of_int_opt (cf_offset f))]]"

lemmas key_defs = evaluationKeys_all_def evaluationKeys_list_def evaluationKeys_detail_def
  evaluationKeys_allTrends_def evaluationKeys_trend_def evaluationKeys_allSloTrends_def
  evaluationKeys_sloTrends_def evaluationKeys_allHeatmaps_def evaluationKeys_heatmap_def
  evaluationKeys_allNames_def evaluationKeys_names_def evaluationKeys_columnAnnotations_def
  assetKeys_all_def assetKeys_groups_def assetTypeKeys_all_def labelKeys_keys_def labelKeys_values_def
  sloKeys_all_def sloKeys_detail_def sloKeys_tagKeys_def sloKeys_tagValues_def
  sliKeys_all_def sliKeys_detail_def sliKeys_versions_def sliKeys_tagKeys_def sliKeys_tagValues_def
  groupKeys_all_def groupKeys_tree_def groupKeys_detail_def groupKeys_links_def groupKeys_assignments_def
  assignmentKeys_all_def assignmentKeys_asset_def assignmentKeys_group_def
  datasourceKeys_all_def datasourceKeys_detail_def datasourceKeys_tagKeys_def datasourceKeys_tagValues_def
  sloGroupKeys_all_def sloGroupKeys_detail_def changePointKeys_all_def changePointKeys_list_def

subsection \<open>Queries and mutations\<close>

datatype stale_time = DefaultStale | Millis nat | Infinite

record 'o Query =
  qu_key :: key
  qu_fetch :: 'o
  qu_enabled :: bool
  qu_stale :: stale_time

definition query :: "key \<Rightarrow> 'o \<Rightarrow> 'o Query" where
  "query k f = \<lparr>qu_key = k, qu_fetch = f, qu_enabled = True, qu_stale = DefaultStale\<rparr>"

definition query_if :: "bool \<Rightarrow> key \<Rightarrow> 'o \<Rightarrow> 'o Query" where
  "query_if b k f = \<lparr>qu_key = k, qu_fetch = f, qu_enabled = b, qu_stale = DefaultStale\<rparr>"

record ('i, 'e, 'o) Mutation =
  mu_fn :: "'i \<Rightarrow> 'e + 'o"
  mu_invalidates :: "key list"

definition mutation :: "('i \<Rightarrow> 'e + 'o) \<Rightarrow> key list \<Rightarrow> ('i, 'e, 'o) Mutation" where
  "mutation f ks = \<lparr>mu_fn = f, mu_invalidates = ks\<rparr>"

record 'd Entry =
  en_data :: 'd
  en_invalid :: bool

type_synonym 'd cache = "(key, 'd Entry) jsmap"

definition invalidateQueries :: "(key \<Rightarrow> key \<Rightarrow> bool) \<Rightarrow> key \<Rightarrow> 'd cache \<Rightarrow> 'd cache" where
  "invalidateQueries matches q c = map (\<lambda>(k, e). (k, if matches q k then e\<lparr>en_invalid := True\<rparr> else e)) c"

text \<open>Running a mutation: its \<open>onSuccess\<close> invalidates only when the fetch did not throw.\<close>

definition mutate :: "(key \<Rightarrow> key \<Rightarrow> bool) \<Rightarrow> ('i, 'e, 'o) Mutation \<Rightarrow> 'i \<Rightarrow> 'd cache \<Rightarrow> ('e + 'o) \<times> 'd cache" where
  "mutate matches m i c = (case mu_fn m i of
     Inl e \<Rightarrow> (Inl e, c)
   | Inr v \<Rightarrow> (Inr v, fold (invalidateQueries matches) (mu_invalidates m) c))"

lemma fold_invalidate:
  "fold (invalidateQueries matches) qs c =
    map (\<lambda>(k, e). (k, if \<exists>q \<in> set qs. matches q k then e\<lparr>en_invalid := True\<rparr> else e)) c"
proof (induction qs arbitrary: c)
  case (Cons q qs)
  show ?case unfolding fold.simps comp_apply Cons by (auto simp: invalidateQueries_def)
qed (auto simp: case_prod_unfold)

end
