(* ===== verification/Hooks.thy ===== *)
theory Hooks
  imports QueryCache
begin

text \<open>
  The hooks of the features (\<open>features/*/hooks.ts\<close>): which query each component subscribes to and which
  cached queries each mutation invalidates. \<open>useTimeRange()\<close> is passed as its \<open>from\<close> and \<open>to\<close>. A query
  whose argument is missing is not enabled, so it never runs and its fetch is irrelevant; the fetch is then
  given the empty string.
\<close>

subsection \<open>Evaluations\<close>

definition merge_range :: "EvaluationFilters \<Rightarrow> string \<Rightarrow> string option \<Rightarrow> EvaluationFilters" where
  "merge_range f from to = f\<lparr>ef_from := Some from, ef_to := if truthy to then to else ef_to f\<rparr>"

definition filters_json :: "EvaluationFilters \<Rightarrow> json" where
  "filters_json f = json_object
    [(''groupName'', map_option JStr (ef_groupName f)), (''assetName'', map_option JStr (ef_assetName f)),
     (''evaluationName'', map_option json_strs (ef_evaluationName f)), (''date'', map_option JStr (ef_date f)),
     (''from'', map_option JStr (ef_from f)), (''to'', map_option JStr (ef_to f))]"

definition useEvaluations where
  "useEvaluations tz net maxE pageSize from to filters =
    (let merged = merge_range filters from to in
     query (evaluationKeys_list (filters_json merged)) (fetchEvaluations tz net maxE pageSize merged))"

text \<open>What the hooks return of the list: no items while loading, no truncation, a total of 0.\<close>

definition list_view :: "EvaluationList option \<Rightarrow> Evaluation list option \<times> bool \<times> int" where
  "list_view d = (map_option el_items d, nullish (map_option el_truncated d) False, nullish (map_option el_total d) 0)"

definition useEvaluationDetail where
  "useEvaluationDetail tz net i =
    query_if (truthy i) (evaluationKeys_detail (nullish i [])) (fetchEvaluationDetail tz net (nullish i []))"

definition useTrendAnnotations where
  "useTrendAnnotations tz net asset slo =
    (query_if (truthy asset \<and> truthy slo) [JStr ''trend-annotations'', opt_str asset, opt_str slo]
      (fetchTrendAnnotations tz net (nullish asset []) (nullish slo [])))\<lparr>qu_stale := Millis 60000\<rparr>"

definition useColumnAnnotations where
  "useColumnAnnotations tz net i =
    (query_if (truthy i) (evaluationKeys_columnAnnotations (nullish i []))
      (fetchColumnAnnotations tz net (nullish i [])))\<lparr>qu_stale := Infinite\<rparr>"

definition useTrend where
  "useTrend tz net from to assetName sloName metric =
    (query_if (assetName \<noteq> [] \<and> sloName \<noteq> [] \<and> metric \<noteq> [])
      (evaluationKeys_trend assetName sloName metric (range_json from to))
      (fetchTrend tz net assetName sloName metric (Some from) (if truthy to then to else None)))\<lparr>qu_stale := Infinite\<rparr>"

definition useSloTrends where
  "useSloTrends tz net from to assetName sloName enabled =
    (query_if (nullish enabled True \<and> assetName \<noteq> [] \<and> sloName \<noteq> [])
      (evaluationKeys_sloTrends assetName sloName (range_json from to))
      (fetchSloTrends tz net assetName sloName (Some from) (if truthy to then to else None)))\<lparr>qu_stale := Infinite\<rparr>"

definition useAddAnnotation where
  "useAddAnnotation tz net evalId = mutation (addAnnotation tz net evalId)
    [evaluationKeys_detail evalId, evaluationKeys_all @ [JStr ''column-annotations''],
     [JStr ''trend-annotations''], evaluationKeys_allHeatmaps]"

definition useAddRunAnnotation where
  "useAddRunAnnotation tz net runId = mutation (addRunAnnotation tz net runId)
    [evaluationKeys_detail runId, evaluationKeys_all @ [JStr ''column-annotations''],
     [JStr ''trend-annotations''], evaluationKeys_allHeatmaps]"

definition useHideAnnotation where
  "useHideAnnotation tz net evalId =
    mutation (\<lambda>(annotationId, reason, author). hideAnnotation tz net evalId annotationId reason author)
    [evaluationKeys_detail evalId, evaluationKeys_all, evaluationKeys_all @ [JStr ''column-annotations''],
     [JStr ''trend-annotations''], evaluationKeys_allHeatmaps]"

text \<open>The payload's author is not passed on: \<open>invalidateEvaluation\<close> takes the note only.\<close>

definition useInvalidateEvaluation where
  "useInvalidateEvaluation tz net evalId = mutation (\<lambda>(note, author :: string). invalidateEvaluation tz net evalId note)
    [evaluationKeys_detail evalId, evaluationKeys_all, evaluationKeys_allNames, evaluationKeys_allHeatmaps,
     evaluationKeys_allTrends, evaluationKeys_allSloTrends]"

definition useRestoreEvaluation where
  "useRestoreEvaluation tz net evalId = mutation (\<lambda>(_ :: unit). restoreEvaluation tz net evalId)
    [evaluationKeys_detail evalId, evaluationKeys_all, evaluationKeys_allNames, evaluationKeys_allHeatmaps,
     evaluationKeys_allTrends, evaluationKeys_allSloTrends]"

definition useOverrideStatus where
  "useOverrideStatus tz net evalId = mutation (overrideStatus tz net evalId)
    [evaluationKeys_detail evalId, evaluationKeys_all, evaluationKeys_allHeatmaps,
     evaluationKeys_allTrends, evaluationKeys_allSloTrends]"

definition usePinBaseline where
  "usePinBaseline tz net evalId = mutation (\<lambda>(reason, author). pinBaseline tz net evalId reason author)
    [evaluationKeys_detail evalId, evaluationKeys_all, evaluationKeys_allTrends, evaluationKeys_allSloTrends]"

definition useReEvaluate where
  "useReEvaluate net errorBody = mutation (reEvaluate net errorBody)
    [evaluationKeys_all, evaluationKeys_allNames, evaluationKeys_allHeatmaps,
     evaluationKeys_allTrends, evaluationKeys_allSloTrends]"

text \<open>\<open>invalidateColumnQueries\<close>, which the batch forms call with the evaluations they changed.\<close>

definition invalidateColumnQueries :: "string list \<Rightarrow> key list" where
  "invalidateColumnQueries ids = map evaluationKeys_detail ids @
    [evaluationKeys_all, evaluationKeys_allNames, evaluationKeys_allHeatmaps,
     evaluationKeys_allTrends, evaluationKeys_allSloTrends]"

subsection \<open>The navigator\<close>

definition asset_filters :: "string option \<Rightarrow> string list option \<Rightarrow> string \<Rightarrow> string option \<Rightarrow> EvaluationFilters" where
  "asset_filters assetName names from to = \<lparr>ef_groupName = None, ef_assetName = assetName,
     ef_evaluationName = names, ef_date = None, ef_from = Some from, ef_to = (if truthy to then to else None)\<rparr>"

definition asset_filters_json :: "string option \<Rightarrow> string list option \<Rightarrow> string \<Rightarrow> string option \<Rightarrow> json" where
  "asset_filters_json assetName names from to = json_object
    [(''asset_name'', map_option JStr assetName), (''evaluation_name'', map_option json_strs names),
     (''from'', Some (JStr from)), (''to'', if truthy to then map_option JStr to else None)]"

definition useAssetEvaluations where
  "useAssetEvaluations tz net maxE pageSize from to assetName names =
    query_if (truthy assetName) (evaluationKeys_list (asset_filters_json assetName names from to))
      (fetchEvaluations tz net maxE pageSize (asset_filters assetName names from to))"

definition useMetricHeatmap where
  "useMetricHeatmap net from to assetName names =
    query_if (truthy assetName) (evaluationKeys_heatmap assetName (range_json from to) names)
      (fetchGroupedMetricHeatmap net (nullish assetName []) names (Some from) (if truthy to then to else None))"

definition useEvaluationNames where
  "useEvaluationNames tz net assetName groupName =
    query (evaluationKeys_names assetName groupName) (fetchEvaluationNames tz net assetName groupName)"

subsection \<open>Assets, types, groups, tags\<close>

definition useAssets where
  "useAssets tz net = query assetKeys_all (fetchAssets tz net)"

definition useAsset where
  "useAsset tz net name = query_if (name \<noteq> None) (assetKeys_all @ [JStr (nullish name [])])
     (fetchAsset tz net (nullish name []))"

definition useCreateAsset where
  "useCreateAsset tz net = mutation (createAsset tz net) [assetKeys_all, groupKeys_all]"

definition useUpdateAsset where
  "useUpdateAsset tz net = mutation (\<lambda>(name, body). updateAsset tz net name body) [assetKeys_all]"

definition useDeleteAsset where
  "useDeleteAsset net = mutation (deleteAsset net) [assetKeys_all, groupKeys_all]"

definition useAssetGroups where
  "useAssetGroups tz net = query assetKeys_groups (fetchAssetGroupTree tz net)"

definition useAssetGroup where
  "useAssetGroup tz net name = query_if (name \<noteq> None) (groupKeys_detail (nullish name []))
     (fetchAssetGroup tz net (nullish name []))"

definition useAddGroupMember where
  "useAddGroupMember tz net = mutation (\<lambda>(groupName, assetId, weight). addGroupMember tz net groupName assetId weight)
     [groupKeys_all, assetKeys_groups]"

definition useRemoveGroupMember where
  "useRemoveGroupMember net = mutation (\<lambda>(groupName, assetId). removeGroupMember net groupName assetId)
     [groupKeys_all, assetKeys_groups]"

definition useGroupTree where
  "useGroupTree tz net = query groupKeys_tree (fetchGroupTree tz net)"

definition useCreateGroup where
  "useCreateGroup tz net = mutation (createGroup tz net) [groupKeys_all, assetKeys_groups]"

definition useUpdateGroup where
  "useUpdateGroup tz net = mutation (\<lambda>(name, body). updateGroup tz net name body) [groupKeys_all, assetKeys_groups]"

definition useDeleteGroup where
  "useDeleteGroup net = mutation (\<lambda>(name, deactivateSlos). deleteGroup net name deactivateSlos)
     [groupKeys_all, assetKeys_groups, sloKeys_all]"

definition useAddSubgroup where
  "useAddSubgroup tz net = mutation (\<lambda>(parentName, childGroupId). addSubgroup tz net parentName childGroupId)
     [groupKeys_all, assetKeys_groups]"

definition useAssetTypes where
  "useAssetTypes net = query assetTypeKeys_all (fetchAssetTypes net)"

definition useCreateAssetType where
  "useCreateAssetType net = mutation (\<lambda>name. createAssetType net name False) [assetTypeKeys_all]"

definition useRenameAssetType where
  "useRenameAssetType net = mutation (\<lambda>(oldName, newName). renameAssetType net oldName newName)
     [assetTypeKeys_all, assetKeys_all]"

definition useSetDefaultAssetType where
  "useSetDefaultAssetType net = mutation (setDefaultAssetType net) [assetTypeKeys_all]"

definition useDeleteAssetType where
  "useDeleteAssetType net = mutation (deleteAssetType net) [assetTypeKeys_all]"

definition useTagKeys where
  "useTagKeys net = query labelKeys_keys (fetchTagKeys net)"

definition useTagValues where
  "useTagValues net k = query_if (k \<noteq> None) (labelKeys_values (nullish k [])) (fetchTagValues net (nullish k []))"

subsection \<open>SLOs\<close>

definition useSlos where
  "useSlos tz net = query sloKeys_all (fetchSlos tz net None None)"

definition useSloDetail where
  "useSloDetail tz net name = query_if (name \<noteq> []) (sloKeys_detail name) (fetchSloDetail tz net name)"

definition useSloValidation where
  "useSloValidation net = mutation (validateSlo net) []"

definition useCreateSlo where
  "useCreateSlo tz net = mutation (createSloDefinition tz net) [sloKeys_all]"

definition useDeleteSlo where
  "useDeleteSlo net = mutation (deleteSlo net) [sloKeys_all]"

definition useSloVersions where
  "useSloVersions tz net name enabled = query_if (enabled \<and> name \<noteq> [])
     (sloKeys_detail name @ [JStr ''versions'']) (fetchSloVersions tz net name)"

definition useSloTagKeys where
  "useSloTagKeys net = query sloKeys_tagKeys (fetchSloTagKeys net)"

definition useSloTagValues where
  "useSloTagValues net k = query_if (k \<noteq> []) (sloKeys_tagValues k) (fetchSloTagValues net k)"

definition useAssetSloAssignments where
  "useAssetSloAssignments tz net assetName = query_if (assetName \<noteq> []) (assignmentKeys_asset assetName)
     (fetchAssetSloAssignments tz net assetName)"

definition useAssetSloGroupAssignments where
  "useAssetSloGroupAssignments tz net assetName = query_if (assetName \<noteq> [])
     [JStr ''slo-group-assignments'', JStr ''asset'', JStr assetName] (fetchAssetSloGroupAssignments tz net assetName)"

definition useGroupSloAssignments where
  "useGroupSloAssignments tz net groupName = query_if (groupName \<noteq> []) (assignmentKeys_group groupName)
     (fetchGroupSloAssignments tz net groupName)"

definition useCreateGroupSloAssignment where
  "useCreateGroupSloAssignment tz net = mutation (\<lambda>(groupName, body). createGroupSloAssignment tz net groupName body)
     [assignmentKeys_all, groupKeys_all]"

definition useDeleteGroupSloAssignment where
  "useDeleteGroupSloAssignment net =
     mutation (\<lambda>(groupName, sloDefinitionId). deleteGroupSloAssignment net groupName sloDefinitionId)
     [assignmentKeys_all, groupKeys_all]"

subsection \<open>SLIs, data sources, SLO groups\<close>

definition useSliDefinitions where
  "useSliDefinitions tz net adapterType =
     query (sliKeys_all @ [json_object [(''adapterType'', map_option JStr adapterType)]])
       (fetchSliDefinitions tz net adapterType None None)"

definition useSliDetail where
  "useSliDetail tz net name = query_if (name \<noteq> []) (sliKeys_detail name) (fetchSliDetail tz net name)"

definition useSliVersions where
  "useSliVersions tz net name = query_if (name \<noteq> []) (sliKeys_versions name) (fetchSliVersions tz net name)"

definition useCreateSli where
  "useCreateSli tz net = mutation (createSliDefinition tz net) [sliKeys_all]"

definition useDeleteSli where
  "useDeleteSli net = mutation (deleteSliDefinition net) [sliKeys_all]"

definition useSliTagKeys where
  "useSliTagKeys net = query sliKeys_tagKeys (fetchSliTagKeys net)"

definition useSliTagValues where
  "useSliTagValues net k = query_if (k \<noteq> []) (sliKeys_tagValues k) (fetchSliTagValues net k)"

definition useDatasources where
  "useDatasources tz net tagKey tagVal =
     query (datasourceKeys_all @ [json_object [(''tagKey'', map_option JStr tagKey), (''tagVal'', map_option JStr tagVal)]])
       (fetchDatasources tz net tagKey tagVal)"

definition useDatasource where
  "useDatasource tz net name = query_if (name \<noteq> []) (datasourceKeys_detail name) (fetchDatasource tz net name)"

definition useCreateDatasource where
  "useCreateDatasource tz net = mutation (createDatasource tz net) [datasourceKeys_all]"

definition useUpdateDatasource where
  "useUpdateDatasource tz net = mutation (\<lambda>(name, body). updateDatasource tz net name body) [datasourceKeys_all]"

definition useDeleteDatasource where
  "useDeleteDatasource net = mutation (deleteDatasource net) [datasourceKeys_all]"

definition useDatasourceTagKeys where
  "useDatasourceTagKeys net = query datasourceKeys_tagKeys (fetchDatasourceTagKeys net)"

definition useDatasourceTagValues where
  "useDatasourceTagValues net k = query_if (k \<noteq> []) (datasourceKeys_tagValues k) (fetchDatasourceTagValues net k)"

definition useSloGroups where
  "useSloGroups tz net = query sloGroupKeys_all (fetchSloGroups tz net)"

definition useSloGroupDetail where
  "useSloGroupDetail tz net name = query_if (name \<noteq> []) (sloGroupKeys_detail name) (fetchSloGroupDetail tz net name)"

definition useCreateSloGroup where
  "useCreateSloGroup tz net = mutation (createSloGroup tz net) [sloGroupKeys_all, sloKeys_all]"

definition useUpdateSloGroup where
  "useUpdateSloGroup tz net = mutation (\<lambda>(name, body). updateSloGroup tz net name body) [sloGroupKeys_all, sloKeys_all]"

definition useDeleteSloGroup where
  "useDeleteSloGroup net = mutation (deleteSloGroup net) [sloGroupKeys_all, sloKeys_all]"

subsection \<open>Change points, note categories, the meta timeline\<close>

definition useChangePoints where
  "useChangePoints tz net f = query (changePointKeys_list f) (fetchChangePoints tz net f)"

definition useTriageChangePoint where
  "useTriageChangePoint tz net = mutation (\<lambda>(i, inp). triageChangePoint tz net i inp) [changePointKeys_all]"

definition useBulkTriageChangePoints where
  "useBulkTriageChangePoints net = mutation (bulkTriageChangePoints net) [changePointKeys_all]"

definition QK_all :: key where
  "QK_all = [JStr ''note-categories'']"

definition useNoteCategories where
  "useNoteCategories tz net = (query QK_all (listNoteCategories tz net))\<lparr>qu_stale := Millis 300000\<rparr>"

definition useCreateNoteCategory where
  "useCreateNoteCategory tz net = mutation (createNoteCategory tz net) [QK_all]"

definition useUpdateNoteCategory where
  "useUpdateNoteCategory tz net = mutation (\<lambda>(i, patch). updateNoteCategory tz net i patch) [QK_all]"

definition useMetaTimeline where
  "useMetaTimeline tz net assetId from to enabled = map_option (\<lambda>(f, t).
     query_if (nullish enabled True) [JStr ''meta-timeline'', JStr assetId, JStr f, JStr t]
       (fetchMetaTimeline tz net assetId from to))
     (case (toISOString from, toISOString to) of (Some f, Some t) \<Rightarrow> Some (f, t) | _ \<Rightarrow> None)"

definition useMetaTimelineSummary where
  "useMetaTimelineSummary net assetId from to = map_option (\<lambda>(f, t).
     query [JStr ''meta-timeline-summary'', JStr assetId, JStr f, JStr t]
       (fetchMetaTimelineSummary net assetId from to))
     (case (toISOString from, toISOString to) of (Some f, Some t) \<Rightarrow> Some (f, t) | _ \<Rightarrow> None)"

subsection \<open>What a mutation refreshes\<close>

definition key_prefix :: "key \<Rightarrow> key \<Rightarrow> bool" where
  "key_prefix q k = (take (length q) k = q)"

definition refreshes :: "('i, 'e, 'o) Mutation \<Rightarrow> key \<Rightarrow> bool" where
  "refreshes m k = list_ex (\<lambda>q. key_prefix q k) (mu_invalidates m)"

lemma key_prefix_iff: "key_prefix q k \<longleftrightarrow> (\<exists>r. k = q @ r)"
  by (metis key_prefix_def append_eq_conv_conj append_take_drop_id)

lemma js_get_map: "js_get (map (\<lambda>(k, e). (k, f k e)) c) k = map_option (f k) (js_get c k)"
  by (induction c) (auto simp: js_get_def)

text \<open>
  A mutation that succeeds marks every cached query it refreshes as invalid and keeps its data; one
  that fails leaves the cache as it was. Of the client's key matching only the documented behaviour is used,
  that a filter matches the keys it is a prefix of.
\<close>

lemma mutate_correct:
  assumes "\<And>q r. matches q (q @ r)"
  shows "case mu_fn m i of
      Inl e \<Rightarrow> mutate matches m i c = (Inl e, c)
    | Inr v \<Rightarrow> fst (mutate matches m i c) = Inr v \<and>
        js_keys (snd (mutate matches m i c)) = js_keys c \<and>
        map_option en_data (js_get (snd (mutate matches m i c)) k) = map_option en_data (js_get c k) \<and>
        (refreshes m k \<longrightarrow> map_option en_invalid (js_get (snd (mutate matches m i c)) k) =
          map_option (\<lambda>_. True) (js_get c k))"
proof (cases "mu_fn m i")
  case (Inr v)
  have "matches q k" if "key_prefix q k" for q using that assms by (auto simp: key_prefix_iff)
  then have "refreshes m k \<Longrightarrow> \<exists>q \<in> set (mu_invalidates m). matches q k"
    by (auto simp: refreshes_def list_ex_iff)
  moreover have "js_get (fold (invalidateQueries matches) (mu_invalidates m) c) k =
      map_option (\<lambda>e. if \<exists>q \<in> set (mu_invalidates m). matches q k then e\<lparr>en_invalid := True\<rparr> else e) (js_get c k)"
    by (simp only: fold_invalidate js_get_map [of "\<lambda>k e. if \<exists>q \<in> set (mu_invalidates m). matches q k then e\<lparr>en_invalid := True\<rparr> else e"])
  moreover have "js_keys (fold (invalidateQueries matches) (mu_invalidates m) c) = js_keys c"
    by (simp add: fold_invalidate js_keys_def comp_def case_prod_unfold)
  ultimately show ?thesis
    using Inr by (cases "js_get c k") (auto simp: mutate_def)
qed (simp add: mutate_def)

definition demo_cache :: "string cache" where
  "demo_cache = [([JStr ''slos'', JStr ''a''], \<lparr>en_data = ''old'', en_invalid = False\<rparr>),
     ([JStr ''assets''], \<lparr>en_data = ''list'', en_invalid = False\<rparr>)]"

theorem mutate_correct_witness:
  "map_option en_invalid (js_get (snd (mutate key_prefix (useDeleteSlo (\<lambda>_. Reply 204 None)) ''b'' demo_cache))
     [JStr ''slos'', JStr ''a'']) = Some True"
proof -
  have fn: "mu_fn (useDeleteSlo (\<lambda>_. Reply 204 None)) ''b'' = Inr ()"
    by (simp add: useDeleteSlo_def mutation_def deleteSlo_def call_void_def status_ok_def)
  have "refreshes (useDeleteSlo (\<lambda>_. Reply 204 None)) [JStr ''slos'', JStr ''a'']"
    by (simp add: refreshes_def useDeleteSlo_def mutation_def key_prefix_def key_defs)
  then show ?thesis
    using mutate_correct [of key_prefix "useDeleteSlo (\<lambda>_. Reply 204 None)" "''b''" demo_cache "[JStr ''slos'', JStr ''a'']"]
    by (simp add: fn key_prefix_def demo_cache_def js_get_def)
qed

lemmas eval_action_defs = useInvalidateEvaluation_def useRestoreEvaluation_def useReEvaluate_def
  useOverrideStatus_def usePinBaseline_def useAddAnnotation_def useHideAnnotation_def mutation_def

text \<open>
  What each action on an evaluation refreshes, by the first element of the cached keys: a changed
  outcome refetches lists and details, names, heatmaps and trends; an override leaves the names, which it
  does not change; a pinned baseline leaves names and heatmaps; and a new note refetches every heatmap
  and note overlay.
\<close>

lemma evaluation_actions_refresh:
  "refreshes (useInvalidateEvaluation tz net e) (JStr h # r) =
     (h \<in> {''evaluations'', ''evaluation-names'', ''metric-heatmap'', ''trend'', ''slo-trends''}) \<and>
   refreshes (useRestoreEvaluation tz net e) (JStr h # r) = refreshes (useInvalidateEvaluation tz net e) (JStr h # r) \<and>
   refreshes (useReEvaluate net' eb) (JStr h # r) = refreshes (useInvalidateEvaluation tz net e) (JStr h # r) \<and>
   refreshes (useOverrideStatus tz net'' e) (JStr h # r) =
     (h \<in> {''evaluations'', ''metric-heatmap'', ''trend'', ''slo-trends''}) \<and>
   refreshes (usePinBaseline tz net'' e) (JStr h # r) = (h \<in> {''evaluations'', ''trend'', ''slo-trends''}) \<and>
   refreshes (useHideAnnotation tz net3 e) (JStr h # r) =
     (h \<in> {''evaluations'', ''trend-annotations'', ''metric-heatmap''}) \<and>
   refreshes (useAddAnnotation tz net3 e) (JStr h # r) =
     (h \<in> {''trend-annotations'', ''metric-heatmap''} \<or>
      h = ''evaluations'' \<and> key_prefix [JStr e] r \<or> h = ''evaluations'' \<and> key_prefix [JStr ''column-annotations''] r)"
  by (auto simp: refreshes_def eval_action_defs key_defs key_prefix_def)

text \<open>
  The notes of a column are cached for ever and carry their category; changing or recolouring a
  category refreshes the category list only.
\<close>

lemma category_update_keeps_notes:
  "\<not> refreshes (useUpdateNoteCategory tz net) (evaluationKeys_columnAnnotations e)"
  "qu_stale (useColumnAnnotations tz net' i) = Infinite"
  by (simp_all add: refreshes_def useUpdateNoteCategory_def QK_all_def mutation_def key_defs key_prefix_def
      useColumnAnnotations_def query_if_def)

subsection \<open>Which queries share a cache entry\<close>

text \<open>The queries keyed by names: one constructor per hook, with the arguments that enter its key.\<close>

datatype query_use =
    UAssets | UAsset string | UAssetGroups | UAssetGroup string | UGroupTree | UAssetTypes
  | UTagKeys | UTagValues string
  | USlos | USloDetail string | USloVersions string | USloTagKeys | USloTagValues string
  | UAssetSloAssignments string | UAssetSloGroupAssignments string | UGroupSloAssignments string
  | USliDetail string | USliVersions string | USliTagKeys | USliTagValues string
  | UDatasource string | UDatasourceTagKeys | UDatasourceTagValues string
  | USloGroups | USloGroupDetail string | UNoteCategories
  | UEvaluationDetail string | UColumnAnnotations string | UTrendAnnotations string string

primrec use_key :: "query_use \<Rightarrow> key" where
  "use_key UAssets = qu_key (useAssets 0 (\<lambda>_. Rejected))"
| "use_key (UAsset n) = qu_key (useAsset 0 (\<lambda>_. Rejected) (Some n))"
| "use_key UAssetGroups = qu_key (useAssetGroups 0 (\<lambda>_. Rejected))"
| "use_key (UAssetGroup n) = qu_key (useAssetGroup 0 (\<lambda>_. Rejected) (Some n))"
| "use_key UGroupTree = qu_key (useGroupTree 0 (\<lambda>_. Rejected))"
| "use_key UAssetTypes = qu_key (useAssetTypes (\<lambda>_. Rejected))"
| "use_key UTagKeys = qu_key (useTagKeys (\<lambda>_. Rejected))"
| "use_key (UTagValues k) = qu_key (useTagValues (\<lambda>_. Rejected) (Some k))"
| "use_key USlos = qu_key (useSlos 0 (\<lambda>_. Rejected))"
| "use_key (USloDetail n) = qu_key (useSloDetail 0 (\<lambda>_. Rejected) n)"
| "use_key (USloVersions n) = qu_key (useSloVersions 0 (\<lambda>_. Rejected) n True)"
| "use_key USloTagKeys = qu_key (useSloTagKeys (\<lambda>_. Rejected))"
| "use_key (USloTagValues k) = qu_key (useSloTagValues (\<lambda>_. Rejected) k)"
| "use_key (UAssetSloAssignments n) = qu_key (useAssetSloAssignments 0 (\<lambda>_. Rejected) n)"
| "use_key (UAssetSloGroupAssignments n) = qu_key (useAssetSloGroupAssignments 0 (\<lambda>_. Rejected) n)"
| "use_key (UGroupSloAssignments n) = qu_key (useGroupSloAssignments 0 (\<lambda>_. Rejected) n)"
| "use_key (USliDetail n) = qu_key (useSliDetail 0 (\<lambda>_. Rejected) n)"
| "use_key (USliVersions n) = qu_key (useSliVersions 0 (\<lambda>_. Rejected) n)"
| "use_key USliTagKeys = qu_key (useSliTagKeys (\<lambda>_. Rejected))"
| "use_key (USliTagValues k) = qu_key (useSliTagValues (\<lambda>_. Rejected) k)"
| "use_key (UDatasource n) = qu_key (useDatasource 0 (\<lambda>_. Rejected) n)"
| "use_key UDatasourceTagKeys = qu_key (useDatasourceTagKeys (\<lambda>_. Rejected))"
| "use_key (UDatasourceTagValues k) = qu_key (useDatasourceTagValues (\<lambda>_. Rejected) k)"
| "use_key USloGroups = qu_key (useSloGroups 0 (\<lambda>_. Rejected))"
| "use_key (USloGroupDetail n) = qu_key (useSloGroupDetail 0 (\<lambda>_. Rejected) n)"
| "use_key UNoteCategories = qu_key (useNoteCategories 0 (\<lambda>_. Rejected))"
| "use_key (UEvaluationDetail i) = qu_key (useEvaluationDetail 0 (\<lambda>_. Rejected) (Some i))"
| "use_key (UColumnAnnotations i) = qu_key (useColumnAnnotations 0 (\<lambda>_. Rejected) (Some i))"
| "use_key (UTrendAnnotations a s) = qu_key (useTrendAnnotations 0 (\<lambda>_. Rejected) (Some a) (Some s))"

definition collisions :: "(query_use \<times> query_use) list" where
  "collisions =
    [(UAsset ''groups'', UAssetGroups), (UAssetGroup ''tree'', UGroupTree),
     (USloDetail ''tag-keys'', USloTagKeys), (USloVersions ''tag-values'', USloTagValues ''versions''),
     (USliDetail ''tag-keys'', USliTagKeys), (USliVersions ''tag-values'', USliTagValues ''versions''),
     (UDatasource ''tag-keys'', UDatasourceTagKeys)]"

lemmas use_query_defs = query_def query_if_def useAssets_def useAsset_def useAssetGroups_def useAssetGroup_def
  useGroupTree_def useAssetTypes_def useTagKeys_def useTagValues_def useSlos_def useSloDetail_def useSloVersions_def
  useSloTagKeys_def useSloTagValues_def useAssetSloAssignments_def useAssetSloGroupAssignments_def
  useGroupSloAssignments_def useSliDetail_def useSliVersions_def useSliTagKeys_def useSliTagValues_def
  useDatasource_def useDatasourceTagKeys_def useDatasourceTagValues_def useSloGroups_def useSloGroupDetail_def
  useNoteCategories_def QK_all_def useEvaluationDetail_def useColumnAnnotations_def useTrendAnnotations_def
  opt_str_def json_nullable_def

lemma use_key_eval:
  "use_key UAssets = [JStr ''assets'']"
  "use_key (UAsset n) = [JStr ''assets'', JStr n]"
  "use_key UAssetGroups = [JStr ''assets'', JStr ''groups'']"
  "use_key (UAssetGroup n) = [JStr ''asset-groups'', JStr n]"
  "use_key UGroupTree = [JStr ''asset-groups'', JStr ''tree'']"
  "use_key UAssetTypes = [JStr ''asset-types'']"
  "use_key UTagKeys = [JStr ''label-keys'']"
  "use_key (UTagValues k) = [JStr ''label-values'', JStr k]"
  "use_key USlos = [JStr ''slos'']"
  "use_key (USloDetail n) = [JStr ''slos'', JStr n]"
  "use_key (USloVersions n) = [JStr ''slos'', JStr n, JStr ''versions'']"
  "use_key USloTagKeys = [JStr ''slos'', JStr ''tag-keys'']"
  "use_key (USloTagValues k) = [JStr ''slos'', JStr ''tag-values'', JStr k]"
  "use_key (UAssetSloAssignments n) = [JStr ''slo-assignments'', JStr ''asset'', JStr n]"
  "use_key (UAssetSloGroupAssignments n) = [JStr ''slo-group-assignments'', JStr ''asset'', JStr n]"
  "use_key (UGroupSloAssignments n) = [JStr ''slo-assignments'', JStr ''group'', JStr n]"
  "use_key (USliDetail n) = [JStr ''sli-definitions'', JStr n]"
  "use_key (USliVersions n) = [JStr ''sli-definitions'', JStr n, JStr ''versions'']"
  "use_key USliTagKeys = [JStr ''sli-definitions'', JStr ''tag-keys'']"
  "use_key (USliTagValues k) = [JStr ''sli-definitions'', JStr ''tag-values'', JStr k]"
  "use_key (UDatasource n) = [JStr ''datasources'', JStr n]"
  "use_key UDatasourceTagKeys = [JStr ''datasources'', JStr ''tag-keys'']"
  "use_key (UDatasourceTagValues k) = [JStr ''datasources'', JStr ''tag-values'', JStr k]"
  "use_key USloGroups = [JStr ''slo-groups'']"
  "use_key (USloGroupDetail n) = [JStr ''slo-groups'', JStr n]"
  "use_key UNoteCategories = [JStr ''note-categories'']"
  "use_key (UEvaluationDetail i) = [JStr ''evaluations'', JStr i]"
  "use_key (UColumnAnnotations i) = [JStr ''evaluations'', JStr ''column-annotations'', JStr i]"
  "use_key (UTrendAnnotations a s) = [JStr ''trend-annotations'', JStr a, JStr s]"
  by (simp_all add: use_query_defs key_defs)

text \<open>
  Two subscriptions share a cache entry exactly when they are the same query, but for seven pairs
  in which an entity has a reserved name: an asset called \<open>groups\<close>, a group \<open>tree\<close>, an SLO, SLI or data source
  \<open>tag-keys\<close>, and the versions of an SLO or SLI \<open>tag-values\<close>.
\<close>

lemma use_key_collisions:
  "use_key a = use_key b \<longleftrightarrow> a = b \<or> (a, b) \<in> set collisions \<or> (b, a) \<in> set collisions"
  by (cases a; cases b) (auto simp: use_key_eval collisions_def simp del: use_key.simps)

end
