(* ===== verification/SloScope.thy ===== *)
theory SloScope
  imports Hooks NavigatorView
begin

text \<open>
  The scope of a bulk action: which SLOs of the selected heatmap column it applies to
  (\<open>features/evaluations/components/actions/slo-scope\<close>), with the heatmap shape it reads
  (\<open>features/navigator/domain.ts\<close>) and the mapping to it (\<open>AssetPanel.tsx\<close>). A component with \<open>useState\<close> is a
  record of its state and a function per event; what React does between two events (the render that adjusts
  the state, the effects of the commit) is part of the event. A \<open>Set\<close> is the list of its elements in
  insertion order.
\<close>

subsection \<open>Sets in insertion order\<close>

text \<open>What the sources rely on when they copy, add to and delete from a \<open>Set\<close>.\<close>

locale set_ops =
  fixes mem :: "'s \<Rightarrow> 'a \<Rightarrow> bool"
    and add :: "'a \<Rightarrow> 's \<Rightarrow> 's"
    and del :: "'a \<Rightarrow> 's \<Rightarrow> 's"
  assumes mem_add: "mem (add x s) y \<longleftrightarrow> y = x \<or> mem s y"
    and mem_del: "mem (del x s) y \<longleftrightarrow> y \<noteq> x \<and> mem s y"
begin

text \<open>The toggle of every check list: delete the element if it is there, add it otherwise.\<close>

lemma mem_toggle:
  "mem (if mem s x then del x s else add x s) y \<longleftrightarrow> (if y = x then \<not> mem s x else mem s y)"
  by (auto simp: mem_add mem_del)

lemma mem_toggle_twice:
  assumes "t = (if mem s x then del x s else add x s)"
  shows "mem (if mem t x then del x t else add x t) y \<longleftrightarrow> mem s y"
  unfolding mem_toggle using mem_toggle [of s x] by (auto simp: assms)

lemma mem_add_all: "mem (fold add xs s) y \<longleftrightarrow> y \<in> set xs \<or> mem s y"
  by (induction xs arbitrary: s) (auto simp: mem_add)

end

definition set_has :: "'a list \<Rightarrow> 'a \<Rightarrow> bool" where
  "set_has s x = (x \<in> set s)"

definition set_add :: "'a \<Rightarrow> 'a list \<Rightarrow> 'a list" where
  "set_add x s = (if x \<in> set s then s else s @ [x])"

definition set_delete :: "'a \<Rightarrow> 'a list \<Rightarrow> 'a list" where
  "set_delete x s = filter (\<lambda>y. y \<noteq> x) s"

definition set_toggle :: "'a \<Rightarrow> 'a list \<Rightarrow> 'a list" where
  "set_toggle x s = (if set_has s x then set_delete x s else set_add x s)"

interpretation ss: set_ops set_has set_add set_delete
  by unfold_locales (auto simp: set_has_def set_add_def set_delete_def)

lemma distinct_set_add [simp]: "distinct s \<Longrightarrow> distinct (set_add x s)"
  by (simp add: set_add_def)

lemma distinct_set_delete [simp]: "distinct s \<Longrightarrow> distinct (set_delete x s)"
  by (simp add: set_delete_def)

lemma distinct_set_toggle [simp]: "distinct s \<Longrightarrow> distinct (set_toggle x s)"
  by (simp add: set_toggle_def)

lemma set_toggle_mem: "y \<in> set (set_toggle x s) \<longleftrightarrow> (if y = x then x \<notin> set s else y \<in> set s)"
  using ss.mem_toggle [of s x y] by (simp add: set_toggle_def set_has_def)

lemma set_toggle_subset: "x \<in> A \<Longrightarrow> set s \<subseteq> A \<Longrightarrow> set (set_toggle x s) \<subseteq> A"
  by (auto simp: set_toggle_mem split: if_splits)

subsection \<open>The heatmap on the wire and in the domain\<close>

record HeatmapCellWire = HeatmapCellGroupedDto +
  hcw_value :: "rat option"
  hcw_compared_value :: "rat option"
  hcw_change_absolute :: "rat option"
  hcw_change_relative_pct :: "rat option"
  hcw_weight :: "rat option"
  hcw_key_sli :: "bool option"
  hcw_pass_targets :: "PassTargetDto list option"
  hcw_warning_targets :: "PassTargetDto list option"
  hcw_tab_group :: "string option"
  hcw_aggregation :: "string option"

record HeatmapSummaryWire = HeatmapSummaryCellDto +
  hsw_sli_metadata :: "(string, SliMetadataDto) jsmap option"
  hsw_slo_version :: "int option"
  hsw_sli_version :: "int option"

record HeatmapSloGroupWire =
  hgw_slo_name :: string
  hgw_slo_display_name :: "string option"
  hgw_metrics :: "HeatmapMetric list"
  hgw_cells :: "HeatmapCellWire list"
  hgw_summary :: "HeatmapSummaryWire list"

record GroupedHeatmapWire =
  ghw_asset_name :: string
  ghw_columns :: "EvaluationColumnDto list"
  ghw_groups :: "HeatmapSloGroupWire list"
  ghw_composite :: "HeatmapSummaryWire list"

record EvaluationColumn =
  ec_evaluationId :: string
  ec_periodStart :: string
  ec_periodEnd :: string
  ec_evalName :: string
  ec_hasNotes :: bool

record HeatmapIndicatorCell =
  hi_evaluationId :: string
  hi_sloEvaluationId :: string
  hi_periodStart :: string
  hi_metric :: string
  hi_displayName :: string
  hi_result :: HeatmapResult
  hi_score :: rat
  hi_value :: "rat option"
  hi_comparedValue :: "rat option"
  hi_changeRelativePct :: "rat option"
  hi_weight :: rat
  hi_keySli :: bool
  hi_passTargets :: "PassTargetDto list option"
  hi_warningTargets :: "PassTargetDto list option"
  hi_tabGroup :: "string option"
  hi_aggregation :: "string option"
  hi_changePoint :: "ChangePointMarker option"

record HeatmapSummaryCell =
  hs_evaluationId :: string
  hs_periodStart :: string
  hs_result :: HeatmapResult
  hs_score :: rat
  hs_totalScorePassThreshold :: "rat option"
  hs_totalScoreWarningThreshold :: "rat option"
  hs_sliMetadata :: "(string, SliMetadataDto) jsmap option"
  hs_invalidationNote :: "string option"

record HeatmapSloGroup =
  hg_sloName :: string
  hg_sloDisplayName :: "string option"
  hg_metrics :: "HeatmapMetric list"
  hg_cells :: "HeatmapIndicatorCell list"
  hg_summary :: "HeatmapSummaryCell list"

record GroupedMetricHeatmap =
  gm_assetName :: string
  gm_columns :: "EvaluationColumn list"
  gm_groups :: "HeatmapSloGroup list"
  gm_composite :: "HeatmapSummaryCell list"

definition normaliseResult :: "string option \<Rightarrow> bool \<Rightarrow> HeatmapResult" where
  "normaliseResult raw invalidated =
    (if invalidated then ResInvalidated
     else if raw = Some ''pass'' then ResPass
     else if raw = Some ''warning'' then ResWarning
     else if raw = Some ''fail'' then ResFail
     else if raw = Some ''error'' then ResError
     else if raw = Some ''invalidated'' then ResInvalidated
     else if raw = None \<or> raw = Some [] then ResNone
     else ResError)"

definition scope_column :: "EvaluationColumnDto \<Rightarrow> EvaluationColumn" where
  "scope_column c = \<lparr>ec_evaluationId = ecd_evaluation_id c, ec_periodStart = ecd_period_start c,
     ec_periodEnd = ecd_period_end c, ec_evalName = ecd_eval_name c, ec_hasNotes = ecd_has_notes c\<rparr>"

definition scope_cell :: "HeatmapCellWire \<Rightarrow> HeatmapIndicatorCell" where
  "scope_cell c =
    \<lparr>hi_evaluationId = hcd_evaluation_id c, hi_sloEvaluationId = hcd_slo_evaluation_id c,
     hi_periodStart = hcd_period_start c, hi_metric = hcd_metric c, hi_displayName = hcd_display_name c,
     hi_result = normaliseResult (Some (hcd_result c)) False, hi_score = hcd_score c,
     hi_value = hcw_value c, hi_comparedValue = hcw_compared_value c,
     hi_changeRelativePct = hcw_change_relative_pct c, hi_weight = nullish (hcw_weight c) 1,
     hi_keySli = nullish (hcw_key_sli c) False, hi_passTargets = hcw_pass_targets c,
     hi_warningTargets = hcw_warning_targets c, hi_tabGroup = hcw_tab_group c,
     hi_aggregation = hcw_aggregation c, hi_changePoint = changePointToMarker (hcd_change_point c)\<rparr>"

definition scope_summary :: "HeatmapSummaryWire \<Rightarrow> HeatmapSummaryCell" where
  "scope_summary s =
    \<lparr>hs_evaluationId = hsd_evaluation_id s, hs_periodStart = hsd_period_start s,
     hs_result = normaliseResult (Some (hsd_result s)) (hsd_invalidated s), hs_score = hsd_score s,
     hs_totalScorePassThreshold = hsd_total_score_pass_threshold s,
     hs_totalScoreWarningThreshold = hsd_total_score_warning_threshold s,
     hs_sliMetadata = hsw_sli_metadata s, hs_invalidationNote = hsd_invalidation_note s\<rparr>"

definition scope_group :: "HeatmapSloGroupWire \<Rightarrow> HeatmapSloGroup" where
  "scope_group g =
    \<lparr>hg_sloName = hgw_slo_name g, hg_sloDisplayName = hgw_slo_display_name g,
     hg_metrics = hgw_metrics g, hg_cells = map scope_cell (hgw_cells g),
     hg_summary = map scope_summary (hgw_summary g)\<rparr>"

definition scopeHeatmapData :: "GroupedHeatmapWire option \<Rightarrow> GroupedMetricHeatmap option" where
  "scopeHeatmapData = map_option (\<lambda>h.
    \<lparr>gm_assetName = ghw_asset_name h, gm_columns = map scope_column (ghw_columns h),
     gm_groups = map scope_group (ghw_groups h), gm_composite = map scope_summary (ghw_composite h)\<rparr>)"

subsection \<open>The options of a column\<close>

datatype SloScopeOutcome = ScopePass | ScopeWarning | ScopeFail | ScopeInvalidated | ScopeError

record SloScopeOption =
  sop_sloName :: string
  sop_displayName :: string
  sop_sloEvaluationId :: string
  sop_currentResult :: SloScopeOutcome

datatype SloScopeFilter = FilterAll | InvalidatedOnly | NotInvalidated

datatype SloScopeInitialMode = ModeAll | SingleSlo string

record UseSloScopeArgs =
  sa_heatmapData :: "GroupedMetricHeatmap option"
  sa_columnEvalId :: "string option"
  sa_initialMode :: SloScopeInitialMode
  sa_filter :: SloScopeFilter

fun outcomeFromHeatmapResult :: "HeatmapResult \<Rightarrow> SloScopeOutcome option" where
  "outcomeFromHeatmapResult ResPass = Some ScopePass"
| "outcomeFromHeatmapResult ResWarning = Some ScopeWarning"
| "outcomeFromHeatmapResult ResFail = Some ScopeFail"
| "outcomeFromHeatmapResult ResError = Some ScopeError"
| "outcomeFromHeatmapResult ResInvalidated = Some ScopeInvalidated"
| "outcomeFromHeatmapResult ResNone = None"

fun filter_str :: "SloScopeFilter \<Rightarrow> string" where
  "filter_str FilterAll = ''all''"
| "filter_str InvalidatedOnly = ''invalidated-only''"
| "filter_str NotInvalidated = ''not-invalidated''"

text \<open>One turn of the loop over the groups; \<open>None\<close> is its \<open>continue\<close>.\<close>

definition scope_option :: "SloScopeFilter \<Rightarrow> string \<Rightarrow> HeatmapSloGroup \<Rightarrow> SloScopeOption option" where
  "scope_option flt column g =
    (case find (\<lambda>c. hs_evaluationId c = column) (hg_summary g) of
       None \<Rightarrow> None
     | Some summaryCell \<Rightarrow>
         (case outcomeFromHeatmapResult (hs_result summaryCell) of
            None \<Rightarrow> None
          | Some outcome \<Rightarrow>
              if flt = InvalidatedOnly \<and> outcome \<noteq> ScopeInvalidated then None
              else if flt = NotInvalidated \<and> outcome = ScopeInvalidated then None
              else
                (case find (\<lambda>c. hi_evaluationId c = column) (hg_cells g) of
                   None \<Rightarrow> None
                 | Some indicatorCell \<Rightarrow> Some
                     \<lparr>sop_sloName = hg_sloName g, sop_displayName = nullish (hg_sloDisplayName g) (hg_sloName g),
                      sop_sloEvaluationId = hi_sloEvaluationId indicatorCell, sop_currentResult = outcome\<rparr>)))"

definition availableSlos :: "UseSloScopeArgs \<Rightarrow> SloScopeOption list" where
  "availableSlos a =
    (case sa_heatmapData a of
       None \<Rightarrow> []
     | Some h \<Rightarrow>
         if truthy (sa_columnEvalId a)
         then List.map_filter (scope_option (sa_filter a) (the (sa_columnEvalId a))) (gm_groups h)
         else [])"

definition available_names :: "UseSloScopeArgs \<Rightarrow> string list" where
  "available_names a = map sop_sloName (availableSlos a)"

definition defaultSelection :: "UseSloScopeArgs \<Rightarrow> string list" where
  "defaultSelection a =
    (let allSloNames = uniq (available_names a) in
     case sa_initialMode a of
       ModeAll \<Rightarrow> allSloNames
     | SingleSlo n \<Rightarrow> if n \<in> set allSloNames then [n] else allSloNames)"

definition selectionKey :: "UseSloScopeArgs \<Rightarrow> string" where
  "selectionKey a =
    nullish (sa_columnEvalId a) [] @ '':'' @ filter_str (sa_filter a) @ '':'' @ join '','' (available_names a)"

definition lookupEvalId :: "UseSloScopeArgs \<Rightarrow> string \<Rightarrow> string option" where
  "lookupEvalId a n = map_option sop_sloEvaluationId (find (\<lambda>slo. sop_sloName slo = n) (availableSlos a))"

subsection \<open>The selection\<close>

record ScopeState =
  sc_selected :: "string list"
  sc_lastSelectionKey :: string

text \<open>The first render, and the later ones: a changed key re-seeds the selection.\<close>

definition scope_mount :: "UseSloScopeArgs \<Rightarrow> ScopeState" where
  "scope_mount a = \<lparr>sc_selected = defaultSelection a, sc_lastSelectionKey = selectionKey a\<rparr>"

definition scope_render :: "UseSloScopeArgs \<Rightarrow> ScopeState \<Rightarrow> ScopeState" where
  "scope_render a st =
    (if selectionKey a \<noteq> sc_lastSelectionKey st
     then \<lparr>sc_selected = defaultSelection a, sc_lastSelectionKey = selectionKey a\<rparr> else st)"

definition scope_reset :: "UseSloScopeArgs \<Rightarrow> ScopeState \<Rightarrow> ScopeState" where
  "scope_reset a st = st\<lparr>sc_selected := uniq (available_names a)\<rparr>"

text \<open>\<open>SloScopeField\<close>: the numbers shown and whether Reset is offered.\<close>

definition scope_field :: "UseSloScopeArgs \<Rightarrow> ScopeState \<Rightarrow> nat \<times> nat \<times> bool" where
  "scope_field a st = (let selectedCount = length (sc_selected st); n = length (availableSlos a)
     in (selectedCount, n, selectedCount \<noteq> n))"

subsection \<open>The picker dialog\<close>

record ModalState =
  mo_open :: bool
  mo_draft :: "string list"
  mo_query :: string

definition modal_mount :: "string list \<Rightarrow> ModalState" where
  "modal_mount initialSelected = \<lparr>mo_open = False, mo_draft = initialSelected, mo_query = []\<rparr>"

text \<open>The effect on \<open>[open, initialSelected]\<close>.\<close>

definition modal_effect :: "string list \<Rightarrow> ModalState \<Rightarrow> ModalState" where
  "modal_effect initialSelected m =
    (if mo_open m then m\<lparr>mo_draft := initialSelected, mo_query := []\<rparr> else m)"

definition modal_filtered :: "SloScopeOption list \<Rightarrow> string \<Rightarrow> SloScopeOption list" where
  "modal_filtered slos q =
    (let trimmedQuery = toLowerCase (trim_str q) in
     if trimmedQuery = [] then slos
     else filter (\<lambda>slo. includes_str (toLowerCase (sop_displayName slo)) trimmedQuery \<or>
            includes_str (toLowerCase (sop_sloName slo)) trimmedQuery) slos)"

definition modal_toggle :: "string \<Rightarrow> ModalState \<Rightarrow> ModalState" where
  "modal_toggle n m = m\<lparr>mo_draft := set_toggle n (mo_draft m)\<rparr>"

definition modal_selectAll :: "SloScopeOption list \<Rightarrow> ModalState \<Rightarrow> ModalState" where
  "modal_selectAll slos m = m\<lparr>mo_draft := uniq (map sop_sloName slos)\<rparr>"

definition modal_clearAll :: "ModalState \<Rightarrow> ModalState" where
  "modal_clearAll m = m\<lparr>mo_draft := []\<rparr>"

subsection \<open>The scope field and its dialog in a form\<close>

record Picker =
  pk_args :: UseSloScopeArgs
  pk_scope :: ScopeState
  pk_modal :: ModalState

definition picker_mount :: "UseSloScopeArgs \<Rightarrow> Picker" where
  "picker_mount a =
    \<lparr>pk_args = a, pk_scope = scope_mount a, pk_modal = modal_mount (sc_selected (scope_mount a))\<rparr>"

text \<open>Replacing the selection: a new set, which the dialog's effect sees.\<close>

definition set_selected :: "string list \<Rightarrow> Picker \<Rightarrow> Picker" where
  "set_selected s p = p\<lparr>pk_scope := (pk_scope p)\<lparr>sc_selected := s\<rparr>, pk_modal := modal_effect s (pk_modal p)\<rparr>"

definition picker_rerender :: "UseSloScopeArgs \<Rightarrow> Picker \<Rightarrow> Picker" where
  "picker_rerender a p =
    (let st = scope_render a (pk_scope p) in
     \<lparr>pk_args = a, pk_scope = st,
      pk_modal = (if selectionKey a \<noteq> sc_lastSelectionKey (pk_scope p)
                  then modal_effect (sc_selected st) (pk_modal p) else pk_modal p)\<rparr>)"

datatype picker_event =
    Rerender UseSloScopeArgs | OpenPicker | ToggleSlo string | SelectAll | ClearAll | Search string
  | ConfirmPicker | CancelPicker | ResetScope

fun picker_enabled :: "Picker \<Rightarrow> picker_event \<Rightarrow> bool" where
  "picker_enabled p (Rerender a) = True"
| "picker_enabled p OpenPicker = True"
| "picker_enabled p (ToggleSlo n) =
     (mo_open (pk_modal p) \<and>
      n \<in> sop_sloName ` set (modal_filtered (availableSlos (pk_args p)) (mo_query (pk_modal p))))"
| "picker_enabled p SelectAll = mo_open (pk_modal p)"
| "picker_enabled p ClearAll = mo_open (pk_modal p)"
| "picker_enabled p (Search q) = mo_open (pk_modal p)"
| "picker_enabled p ConfirmPicker = mo_open (pk_modal p)"
| "picker_enabled p CancelPicker = mo_open (pk_modal p)"
| "picker_enabled p ResetScope = snd (snd (scope_field (pk_args p) (pk_scope p)))"

fun picker_step :: "picker_event \<Rightarrow> Picker \<Rightarrow> Picker" where
  "picker_step (Rerender a) p = picker_rerender a p"
| "picker_step OpenPicker p =
     p\<lparr>pk_modal := modal_effect (sc_selected (pk_scope p)) ((pk_modal p)\<lparr>mo_open := True\<rparr>)\<rparr>"
| "picker_step (ToggleSlo n) p = p\<lparr>pk_modal := modal_toggle n (pk_modal p)\<rparr>"
| "picker_step SelectAll p = p\<lparr>pk_modal := modal_selectAll (availableSlos (pk_args p)) (pk_modal p)\<rparr>"
| "picker_step ClearAll p = p\<lparr>pk_modal := modal_clearAll (pk_modal p)\<rparr>"
| "picker_step (Search q) p = p\<lparr>pk_modal := (pk_modal p)\<lparr>mo_query := q\<rparr>\<rparr>"
| "picker_step ConfirmPicker p =
     set_selected (mo_draft (pk_modal p)) (p\<lparr>pk_modal := (pk_modal p)\<lparr>mo_open := False\<rparr>\<rparr>)"
| "picker_step CancelPicker p = p\<lparr>pk_modal := (pk_modal p)\<lparr>mo_open := False\<rparr>\<rparr>"
| "picker_step ResetScope p = set_selected (uniq (available_names (pk_args p))) p"

text \<open>
  The reachable states. The identifiers are taken without the separators of the selection key: a column
  is a UUID, an SLO's name is not empty and has no comma.
\<close>

definition scope_args_ok :: "UseSloScopeArgs \<Rightarrow> bool" where
  "scope_args_ok a \<longleftrightarrow> CHR '':'' \<notin> set (nullish (sa_columnEvalId a) []) \<and>
    list_all (\<lambda>n. n \<noteq> [] \<and> CHR '','' \<notin> set n) (available_names a)"

fun event_ok :: "picker_event \<Rightarrow> bool" where
  "event_ok (Rerender a) = scope_args_ok a"
| "event_ok _ = True"

inductive picker_reach :: "Picker \<Rightarrow> bool" where
  mount: "scope_args_ok a \<Longrightarrow> picker_reach (picker_mount a)"
| step: "picker_reach p \<Longrightarrow> picker_enabled p e \<Longrightarrow> event_ok e \<Longrightarrow> picker_reach (picker_step e p)"

subsection \<open>Properties of the scope\<close>

lemma scope_summary_result [simp]:
  "hs_result (scope_summary s) = canonicalSummaryResult (HeatmapSummaryCellDto.truncate s)"
  by (simp add: scope_summary_def canonicalSummaryResult_def normaliseResult_def normalizeResult_def
      HeatmapSummaryCellDto.defs)

lemma outcome_none: "outcomeFromHeatmapResult r = None \<longleftrightarrow> r = ResNone"
  by (cases r) simp_all

lemma scope_option_name: "scope_option flt c g = Some slo \<Longrightarrow> sop_sloName slo = hg_sloName g"
  by (auto simp: scope_option_def split: option.splits if_splits)

lemma join_nonempty:
  assumes "list_all (\<lambda>n. n \<noteq> []) xs" and "xs \<noteq> []"
  shows "join sep xs \<noteq> []"
proof (cases xs)
  case (Cons x ys)
  with assms show ?thesis by (cases ys) simp_all
qed (use assms in simp)

lemma join_inject:
  assumes "list_all (\<lambda>n. n \<noteq> [] \<and> d \<notin> set n) xs" and "list_all (\<lambda>n. n \<noteq> [] \<and> d \<notin> set n) ys"
    and "join [d] xs = join [d] ys"
  shows "xs = ys"
proof (cases "xs = [] \<or> ys = []")
  case True
  with assms show ?thesis
    using join_nonempty [of xs "[d]"] join_nonempty [of ys "[d]"] by (force simp: list_all_iff)
next
  case False
  have sep: "\<forall>p \<in> set xs. d \<notin> set p" "\<forall>p \<in> set ys. d \<notin> set p"
    using assms(1,2) by (simp_all only: list_all_iff) blast+
  have "xs = split_at d (join [d] xs)" using split_join [OF sep(1)] False by simp
  also have "\<dots> = split_at d (join [d] ys)" by (simp only: assms(3))
  also have "\<dots> = ys" using split_join [OF sep(2)] False by simp
  finally show ?thesis .
qed

lemma filter_str_inject: "CHR '':'' \<notin> set (filter_str f)" "filter_str f = filter_str g \<longleftrightarrow> f = g"
  by (cases f; cases g; simp)+

lemma selectionKey_inject:
  assumes "scope_args_ok a" and "scope_args_ok b" and "selectionKey a = selectionKey b"
  shows "available_names a = available_names b"
proof -
  have "nullish (sa_columnEvalId a) [] @ CHR '':'' # filter_str (sa_filter a) @ '':'' @ join '','' (available_names a)
      = nullish (sa_columnEvalId b) [] @ CHR '':'' # filter_str (sa_filter b) @ '':'' @ join '','' (available_names b)"
    using assms(3) by (simp add: selectionKey_def)
  then have "filter_str (sa_filter a) @ CHR '':'' # join '','' (available_names a)
      = filter_str (sa_filter b) @ CHR '':'' # join '','' (available_names b)"
    using assms(1,2) sep_key_inject [of "CHR '':''" "nullish (sa_columnEvalId a) []" "nullish (sa_columnEvalId b) []"]
    by (simp add: scope_args_ok_def)
  then have "join '','' (available_names a) = join '','' (available_names b)"
    using sep_key_inject [OF filter_str_inject(1) filter_str_inject(1)] by blast
  with assms(1,2) show ?thesis by (auto simp: scope_args_ok_def intro: join_inject)
qed

lemma defaultSelection_ok:
  "distinct (defaultSelection a)" "set (defaultSelection a) \<subseteq> set (available_names a)"
  by (auto simp: defaultSelection_def Let_def split: SloScopeInitialMode.splits)

definition picker_ok :: "Picker \<Rightarrow> bool" where
  "picker_ok p \<longleftrightarrow>
    (let names = set (available_names (pk_args p)); sel = sc_selected (pk_scope p); draft = mo_draft (pk_modal p)
     in scope_args_ok (pk_args p) \<and> sc_lastSelectionKey (pk_scope p) = selectionKey (pk_args p) \<and>
        distinct sel \<and> set sel \<subseteq> names \<and> distinct draft \<and> (mo_open (pk_modal p) \<longrightarrow> set draft \<subseteq> names))"

lemma modal_filtered_subset: "set (modal_filtered slos q) \<subseteq> set slos"
  by (auto simp: modal_filtered_def Let_def)

lemma picker_ok_rerender:
  assumes "picker_ok p" and "scope_args_ok a"
  shows "picker_ok (picker_rerender a p)"
proof (cases "selectionKey a = sc_lastSelectionKey (pk_scope p)")
  case True
  with assms have "available_names a = available_names (pk_args p)"
    by (auto simp: picker_ok_def Let_def intro: selectionKey_inject)
  with True assms show ?thesis by (simp add: picker_ok_def picker_rerender_def scope_render_def Let_def)
next
  case False
  with assms defaultSelection_ok show ?thesis
    by (simp add: picker_ok_def picker_rerender_def scope_render_def modal_effect_def Let_def)
qed

lemma picker_ok_set_selected:
  "picker_ok p \<Longrightarrow> distinct s \<Longrightarrow> set s \<subseteq> set (available_names (pk_args p)) \<Longrightarrow> picker_ok (set_selected s p)"
  by (simp add: picker_ok_def set_selected_def modal_effect_def Let_def)

lemma picker_ok_step:
  assumes "picker_ok p" and "picker_enabled p e" and "event_ok e"
  shows "picker_ok (picker_step e p)"
proof (cases e)
  case (ToggleSlo n)
  with assms(2) modal_filtered_subset have "n \<in> set (available_names (pk_args p))"
    by (fastforce simp: available_names_def)
  with assms(1,2) ToggleSlo show ?thesis
    by (simp add: picker_ok_def modal_toggle_def set_toggle_subset Let_def)
next
  case ConfirmPicker
  with assms(1,2) show ?thesis
    by (simp add: picker_ok_def set_selected_def modal_effect_def Let_def)
next
  case ResetScope
  with assms(1) show ?thesis by (simp add: picker_ok_set_selected)
next
  case (Rerender a)
  with assms show ?thesis by (simp add: picker_ok_rerender)
qed (use assms in \<open>simp_all add: picker_ok_def modal_effect_def modal_selectAll_def modal_clearAll_def
    available_names_def Let_def\<close>)

lemma picker_reach_ok: "picker_reach p \<Longrightarrow> picker_ok p"
proof (induction rule: picker_reach.induct)
  case (mount a)
  then show ?case using defaultSelection_ok [of a]
    by (simp add: picker_ok_def picker_mount_def scope_mount_def modal_mount_def Let_def)
qed (rule picker_ok_step)

lemma lookupEvalId_dom: "{n. lookupEvalId a n \<noteq> None} = set (available_names a)"
  by (force simp: lookupEvalId_def available_names_def find_None_iff)

lemma picker_reach_selected:
  "picker_reach p \<Longrightarrow> set (sc_selected (pk_scope p)) \<subseteq> {n. lookupEvalId (pk_args p) n \<noteq> None}"
  using picker_reach_ok [of p] unfolding lookupEvalId_dom by (simp add: picker_ok_def Let_def)


definition demo_scope_group :: "string \<Rightarrow> HeatmapResult \<Rightarrow> HeatmapSloGroup" where
  "demo_scope_group n r = \<lparr>hg_sloName = n, hg_sloDisplayName = None, hg_metrics = [],
     hg_cells = [\<lparr>hi_evaluationId = ''c'', hi_sloEvaluationId = n @ ''1'', hi_periodStart = [], hi_metric = [],
       hi_displayName = [], hi_result = r, hi_score = 0, hi_value = None, hi_comparedValue = None,
       hi_changeRelativePct = None, hi_weight = 1, hi_keySli = False, hi_passTargets = None,
       hi_warningTargets = None, hi_tabGroup = None, hi_aggregation = None, hi_changePoint = None\<rparr>],
     hg_summary = [\<lparr>hs_evaluationId = ''c'', hs_periodStart = [], hs_result = r, hs_score = 0,
       hs_totalScorePassThreshold = None, hs_totalScoreWarningThreshold = None, hs_sliMetadata = None,
       hs_invalidationNote = None\<rparr>]\<rparr>"

definition demo_scope_args :: "SloScopeInitialMode \<Rightarrow> UseSloScopeArgs" where
  "demo_scope_args m = \<lparr>sa_heatmapData = Some \<lparr>gm_assetName = ''vm'', gm_columns = [],
       gm_groups = [demo_scope_group ''a'' ResPass, demo_scope_group ''b'' ResFail, demo_scope_group ''n'' ResNone],
       gm_composite = []\<rparr>,
     sa_columnEvalId = Some ''c'', sa_initialMode = m, sa_filter = FilterAll\<rparr>"

lemmas demo_scope_defs = demo_scope_args_def demo_scope_group_def availableSlos_def available_names_def
  scope_option_def defaultSelection_def uniq_def List.map_filter_def

lemma demo_scope_names: "available_names (demo_scope_args m) = [''a'', ''b'']"
  by (simp add: demo_scope_defs)

lemma demo_picker_reach:
  "picker_reach (picker_step (ToggleSlo ''b'') (picker_step OpenPicker (picker_mount (demo_scope_args (SingleSlo ''a'')))))"
  by (intro picker_reach.intros)
    (simp_all add: scope_args_ok_def demo_scope_names picker_mount_def modal_mount_def modal_effect_def
      modal_filtered_def trim_str_def trimEnd_def trimStart_def toLowerCase_def image_iff demo_scope_defs)


end
