(* ===== verification/EvalActions.thy ===== *)
theory EvalActions
  imports SloScope
begin

text \<open>
  The forms of the bulk actions on a heatmap column (\<open>features/evaluations/components/actions\<close>): one batch
  request over the scope, its outcome per row, the invalidation of the caches, retrying the failed rows
  (\<open>run-batch.ts\<close>, \<open>OverrideForm\<close>, \<open>InvalidateForm\<close>, \<open>RestoreForm\<close>, \<open>BaselineForm\<close>), and the re-evaluation
  form with its pin conflict (\<open>ReEvaluateForm\<close>). A confirmed form leaves a submission behind, with what its
  closure captured; the response is a later event.
\<close>

subsection \<open>One batch\<close>

record BatchTarget =
  bt_sloName :: string
  bt_sloEvaluationId :: string

datatype RowStatus = RowSuccess | RowSkipped | RowFailed

record BatchRowResult =
  br_sloName :: string
  br_sloEvaluationId :: string
  br_status :: RowStatus
  br_error :: "string option"

text \<open>\<open>message\<close> is \<open>err.message\<close> for an \<open>Error\<close>, \<open>None\<close> for anything else that is thrown.\<close>

definition runBatch ::
    "('e \<Rightarrow> string option) \<Rightarrow> BatchTarget list \<Rightarrow> (string list \<Rightarrow> 'e + BulkActionOutcome) \<Rightarrow> BatchRowResult list" where
  "runBatch message targets send =
    (let ids = map bt_sloEvaluationId targets in
     case send ids of
       Inr outcome \<Rightarrow>
         (let succeeded = uniq (ba_succeeded outcome) in
          map (\<lambda>t. \<lparr>br_sloName = bt_sloName t, br_sloEvaluationId = bt_sloEvaluationId t,
               br_status = (if set_has succeeded (bt_sloEvaluationId t) then RowSuccess else RowFailed),
               br_error = (if set_has succeeded (bt_sloEvaluationId t) then None else Some ''not applied'')\<rparr>) targets)
     | Inl err \<Rightarrow>
         (let msg = nullish (message err) ''unknown error'' in
          map (\<lambda>t. \<lparr>br_sloName = bt_sloName t, br_sloEvaluationId = bt_sloEvaluationId t,
               br_status = RowFailed, br_error = Some msg\<rparr>) targets))"

text \<open>
  What the evaluation API throws: its own errors carry their text, the text of a failed fetch or of a
  malformed body is the browser's.
\<close>

definition api_message :: "(api_error \<Rightarrow> string) \<Rightarrow> api_error \<Rightarrow> string option" where
  "api_message browser e = (case e of HttpError m \<Rightarrow> Some m | _ \<Rightarrow> Some (browser e))"

subsection \<open>The forms\<close>

record ReasonAuthor =
  ra_reason :: string
  ra_author :: string

definition useReasonAuthor :: ReasonAuthor where
  "useReasonAuthor = \<lparr>ra_reason = [], ra_author = []\<rparr>"

definition reasonAuthorValid :: "ReasonAuthor \<Rightarrow> bool" where
  "reasonAuthorValid r \<longleftrightarrow> trim_str (ra_reason r) \<noteq> [] \<and> trim_str (ra_author r) \<noteq> []"

datatype FormKind = OverrideForm | InvalidateForm | RestoreForm | BaselineForm

record FormState =
  fo_reasonAuthor :: ReasonAuthor
  fo_target :: OverridableOutcome
  fo_submitting :: bool
  fo_results :: "BatchRowResult list option"

definition form_mount :: FormState where
  "form_mount = \<lparr>fo_reasonAuthor = useReasonAuthor, fo_target = OvPass, fo_submitting = False, fo_results = None\<rparr>"

definition override_canConfirm :: "Picker \<Rightarrow> FormState \<Rightarrow> bool" where
  "override_canConfirm p f \<longleftrightarrow>
    reasonAuthorValid (fo_reasonAuthor f) \<and> sc_selected (pk_scope p) \<noteq> [] \<and> \<not> fo_submitting f"

definition invalidate_canConfirm :: "Picker \<Rightarrow> FormState \<Rightarrow> bool" where
  "invalidate_canConfirm p f \<longleftrightarrow>
    reasonAuthorValid (fo_reasonAuthor f) \<and> sc_selected (pk_scope p) \<noteq> [] \<and> \<not> fo_submitting f"

definition restore_canConfirm :: "Picker \<Rightarrow> FormState \<Rightarrow> bool" where
  "restore_canConfirm p f \<longleftrightarrow> sc_selected (pk_scope p) \<noteq> [] \<and> \<not> fo_submitting f"

definition baseline_canConfirm :: "Picker \<Rightarrow> FormState \<Rightarrow> bool" where
  "baseline_canConfirm p f \<longleftrightarrow>
    reasonAuthorValid (fo_reasonAuthor f) \<and> sc_selected (pk_scope p) \<noteq> [] \<and> \<not> fo_submitting f"

fun canConfirm :: "FormKind \<Rightarrow> Picker \<Rightarrow> FormState \<Rightarrow> bool" where
  "canConfirm OverrideForm = override_canConfirm"
| "canConfirm InvalidateForm = invalidate_canConfirm"
| "canConfirm RestoreForm = restore_canConfirm"
| "canConfirm BaselineForm = baseline_canConfirm"

definition selected_target :: "UseSloScopeArgs \<Rightarrow> string \<Rightarrow> BatchTarget" where
  "selected_target a n = \<lparr>bt_sloName = n, bt_sloEvaluationId = nullish (lookupEvalId a n) []\<rparr>"

definition selected_result :: "UseSloScopeArgs \<Rightarrow> string \<Rightarrow> SloScopeOutcome option" where
  "selected_result a n = map_option sop_currentResult (find (\<lambda>slo. sop_sloName slo = n) (availableSlos a))"

fun override_outcome :: "OverridableOutcome \<Rightarrow> SloScopeOutcome" where
  "override_outcome OvPass = ScopePass"
| "override_outcome OvWarning = ScopeWarning"
| "override_outcome OvFail = ScopeFail"

text \<open>What a submission has captured: the rows it skips, the rows it sends, and the call with its inputs.\<close>

datatype BatchCall = CallOverride OverrideStatusInput | CallInvalidate string | CallRestore | CallBaseline string string

record Submission =
  sb_skipped :: "BatchRowResult list"
  sb_toApply :: "BatchTarget list"
  sb_call :: BatchCall

definition override_submission :: "Picker \<Rightarrow> FormState \<Rightarrow> Submission" where
  "override_submission p f =
    (let a = pk_args p; sel = sc_selected (pk_scope p); ra = fo_reasonAuthor f;
         at_target = (\<lambda>n. selected_result a n = Some (override_outcome (fo_target f)))
     in \<lparr>sb_skipped = map (\<lambda>n. \<lparr>br_sloName = n, br_sloEvaluationId = nullish (lookupEvalId a n) [],
           br_status = RowSkipped, br_error = None\<rparr>) (filter at_target sel),
         sb_toApply = map (selected_target a) (filter (\<lambda>n. \<not> at_target n) sel),
         sb_call = CallOverride
           \<lparr>os_outcome = fo_target f, os_reason = ra_reason ra, os_author = ra_author ra\<rparr>\<rparr>)"

definition invalidate_submission :: "Picker \<Rightarrow> FormState \<Rightarrow> Submission" where
  "invalidate_submission p f =
    \<lparr>sb_skipped = [], sb_toApply = map (selected_target (pk_args p)) (sc_selected (pk_scope p)),
     sb_call = CallInvalidate (ra_reason (fo_reasonAuthor f))\<rparr>"

definition restore_submission :: "Picker \<Rightarrow> FormState \<Rightarrow> Submission" where
  "restore_submission p f =
    \<lparr>sb_skipped = [], sb_toApply = map (selected_target (pk_args p)) (sc_selected (pk_scope p)),
     sb_call = CallRestore\<rparr>"

definition baseline_submission :: "Picker \<Rightarrow> FormState \<Rightarrow> Submission" where
  "baseline_submission p f =
    \<lparr>sb_skipped = [], sb_toApply = map (selected_target (pk_args p)) (sc_selected (pk_scope p)),
     sb_call = CallBaseline (ra_reason (fo_reasonAuthor f)) (ra_author (fo_reasonAuthor f))\<rparr>"

fun submission :: "FormKind \<Rightarrow> Picker \<Rightarrow> FormState \<Rightarrow> Submission" where
  "submission OverrideForm = override_submission"
| "submission InvalidateForm = invalidate_submission"
| "submission RestoreForm = restore_submission"
| "submission BaselineForm = baseline_submission"

fun send_call ::
    "(Request \<Rightarrow> BulkActionResponseDto reply) \<Rightarrow> BatchCall \<Rightarrow> string list \<Rightarrow> api_error + BulkActionOutcome" where
  "send_call net (CallOverride i) ids = overrideStatusMany net ids i"
| "send_call net (CallInvalidate reason) ids = invalidateEvaluations net ids reason"
| "send_call net CallRestore ids = restoreEvaluations net ids"
| "send_call net (CallBaseline reason author) ids = pinBaselineMany net ids reason author"

text \<open>
  The rows of a submission. Only the override form skips the request when nothing is left to apply; the
  other forms always have a row to send.
\<close>

definition submission_rows ::
    "(Request \<Rightarrow> BulkActionResponseDto reply) \<Rightarrow> (api_error \<Rightarrow> string) \<Rightarrow> Submission \<Rightarrow> BatchRowResult list" where
  "submission_rows net browser s =
    sb_skipped s @
    (if sb_toApply s \<noteq> [] then runBatch (api_message browser) (sb_toApply s) (send_call net (sb_call s)) else [])"

definition succeeded_ids :: "BatchRowResult list \<Rightarrow> string list" where
  "succeeded_ids rows = map br_sloEvaluationId (filter (\<lambda>r. br_status r = RowSuccess) rows)"

definition failed_names :: "BatchRowResult list \<Rightarrow> string list" where
  "failed_names rows = map br_sloName (filter (\<lambda>r. br_status r = RowFailed) rows)"

text \<open>\<open>handleConfirm\<close> up to its \<open>await\<close>, and after it: the caches it invalidates and the new state.\<close>

definition confirm_start :: "FormKind \<Rightarrow> Picker \<Rightarrow> FormState \<Rightarrow> (FormState \<times> Submission) option" where
  "confirm_start k p f =
    (if \<not> canConfirm k p f then None else Some (f\<lparr>fo_submitting := True\<rparr>, submission k p f))"

definition confirm_finish :: "BatchRowResult list \<Rightarrow> FormState \<Rightarrow> FormState \<times> key list" where
  "confirm_finish rows f =
    (f\<lparr>fo_results := Some rows, fo_submitting := False\<rparr>, invalidateColumnQueries (succeeded_ids rows))"

definition retry_failed :: "BatchRowResult list \<Rightarrow> Picker \<Rightarrow> FormState \<Rightarrow> Picker \<times> FormState" where
  "retry_failed rows p f = (set_selected (uniq (failed_names rows)) p, f\<lparr>fo_results := None\<rparr>)"

text \<open>The result page: \<open>n succeeded, n failed, n skipped\<close>; the baseline form's warning.\<close>

definition result_counts :: "BatchRowResult list \<Rightarrow> nat \<times> nat \<times> nat" where
  "result_counts rows =
    (length (filter (\<lambda>r. br_status r = RowSuccess) rows), length (filter (\<lambda>r. br_status r = RowFailed) rows),
     length (filter (\<lambda>r. br_status r = RowSkipped) rows))"

definition COUNT_WARNING_THRESHOLD :: nat where
  "COUNT_WARNING_THRESHOLD = 5"

definition baseline_warning :: "Picker \<Rightarrow> bool" where
  "baseline_warning p \<longleftrightarrow> COUNT_WARNING_THRESHOLD < length (sc_selected (pk_scope p))"

subsection \<open>A form while requests are under way\<close>

record Sheet =
  sh_picker :: Picker
  sh_form :: FormState
  sh_inflight :: "Submission list"

definition sheet_mount :: "UseSloScopeArgs \<Rightarrow> Sheet" where
  "sheet_mount a = \<lparr>sh_picker = picker_mount a, sh_form = form_mount, sh_inflight = []\<rparr>"

datatype sheet_event =
    InPicker picker_event | TypeReason string | TypeAuthor string | ChooseTarget OverridableOutcome
  | ConfirmForm | Response nat | RetryFailed

text \<open>The inputs are on the page unless the results are; an arriving response is one of those under way.\<close>

fun sheet_enabled :: "Sheet \<Rightarrow> sheet_event \<Rightarrow> bool" where
  "sheet_enabled s (InPicker (Rerender a)) = True"
| "sheet_enabled s (InPicker e) = (fo_results (sh_form s) = None \<and> picker_enabled (sh_picker s) e)"
| "sheet_enabled s (Response i) = (i < length (sh_inflight s))"
| "sheet_enabled s RetryFailed = (failed_names (nullish (fo_results (sh_form s)) []) \<noteq> [])"
| "sheet_enabled s e = (fo_results (sh_form s) = None)"

fun sheet_step ::
    "(Request \<Rightarrow> BulkActionResponseDto reply) \<Rightarrow> (api_error \<Rightarrow> string) \<Rightarrow> FormKind \<Rightarrow> sheet_event \<Rightarrow> Sheet \<Rightarrow> Sheet" where
  "sheet_step net browser k (InPicker e) s = s\<lparr>sh_picker := picker_step e (sh_picker s)\<rparr>"
| "sheet_step net browser k (TypeReason t) s = s\<lparr>sh_form := (sh_form s)
     \<lparr>fo_reasonAuthor := (fo_reasonAuthor (sh_form s))\<lparr>ra_reason := t\<rparr>\<rparr>\<rparr>"
| "sheet_step net browser k (TypeAuthor t) s = s\<lparr>sh_form := (sh_form s)
     \<lparr>fo_reasonAuthor := (fo_reasonAuthor (sh_form s))\<lparr>ra_author := t\<rparr>\<rparr>\<rparr>"
| "sheet_step net browser k (ChooseTarget t) s = s\<lparr>sh_form := (sh_form s)\<lparr>fo_target := t\<rparr>\<rparr>"
| "sheet_step net browser k ConfirmForm s =
     (case confirm_start k (sh_picker s) (sh_form s) of
        None \<Rightarrow> s
      | Some (f, sb) \<Rightarrow> s\<lparr>sh_form := f, sh_inflight := sh_inflight s @ [sb]\<rparr>)"
| "sheet_step net browser k (Response i) s =
     s\<lparr>sh_form := fst (confirm_finish (submission_rows net browser (sh_inflight s ! i)) (sh_form s)),
       sh_inflight := take i (sh_inflight s) @ drop (Suc i) (sh_inflight s)\<rparr>"
| "sheet_step net browser k RetryFailed s =
     (let (p, f) = retry_failed (nullish (fo_results (sh_form s)) []) (sh_picker s) (sh_form s)
      in s\<lparr>sh_picker := p, sh_form := f\<rparr>)"

inductive sheet_reach :: "FormKind \<Rightarrow> Sheet \<Rightarrow> bool" for k where
  mount: "sheet_reach k (sheet_mount a)"
| step: "sheet_reach k s \<Longrightarrow> sheet_enabled s e \<Longrightarrow> sheet_reach k (sheet_step net browser k e s)"

lemma confirm_start_Some:
  "confirm_start k p f = Some r \<longleftrightarrow> canConfirm k p f \<and> r = (f\<lparr>fo_submitting := True\<rparr>, submission k p f)"
  by (auto simp: confirm_start_def)

lemma canConfirm_idle: "canConfirm k p f \<Longrightarrow> \<not> fo_submitting f"
  by (cases k) (simp_all add: override_canConfirm_def invalidate_canConfirm_def restore_canConfirm_def
      baseline_canConfirm_def)

lemma canConfirm_selected: "canConfirm k p f \<Longrightarrow> sc_selected (pk_scope p) \<noteq> []"
  by (cases k) (simp_all add: override_canConfirm_def invalidate_canConfirm_def restore_canConfirm_def
      baseline_canConfirm_def)

definition sheet_ok :: "Sheet \<Rightarrow> bool" where
  "sheet_ok s \<longleftrightarrow> length (sh_inflight s) = (if fo_submitting (sh_form s) then 1 else 0) \<and>
    (fo_results (sh_form s) = None \<or> \<not> fo_submitting (sh_form s)) \<and>
    (\<forall>sb \<in> set (sh_inflight s). sb_skipped sb \<noteq> [] \<or> sb_toApply sb \<noteq> [])"

lemma submission_nonempty:
  assumes "sc_selected (pk_scope p) \<noteq> []"
  shows "sb_skipped (submission k p f) \<noteq> [] \<or> sb_toApply (submission k p f) \<noteq> []"
proof -
  from assms obtain n where "n \<in> set (sc_selected (pk_scope p))" by (cases "sc_selected (pk_scope p)") auto
  then show ?thesis by (cases k)
    (auto simp: override_submission_def invalidate_submission_def restore_submission_def
      baseline_submission_def Let_def filter_empty_conv)
qed

lemma sheet_ok_step:
  assumes "sheet_ok s" and "sheet_enabled s e"
  shows "sheet_ok (sheet_step net browser k e s)"
proof (cases e)
  case ConfirmForm
  show ?thesis
  proof (cases "canConfirm k (sh_picker s) (sh_form s)")
    case True
    with assms ConfirmForm canConfirm_idle [OF True]
      submission_nonempty [OF canConfirm_selected [OF True], of k "sh_form s"]
    show ?thesis by (simp add: sheet_ok_def confirm_start_def)
  next
    case False
    with assms ConfirmForm show ?thesis by (simp add: confirm_start_def)
  qed
next
  case (Response i)
  with assms have "fo_submitting (sh_form s)" "i = 0" "length (sh_inflight s) = 1"
    by (auto simp: sheet_ok_def split: if_splits)
  with Response show ?thesis by (simp add: sheet_ok_def confirm_finish_def)
next
  case RetryFailed
  with assms show ?thesis
    by (cases "fo_results (sh_form s)") (simp_all add: sheet_ok_def retry_failed_def failed_names_def)
qed (use assms in \<open>simp_all add: sheet_ok_def\<close>)

lemma sheet_reach_ok: "sheet_reach k s \<Longrightarrow> sheet_ok s"
proof (induction rule: sheet_reach.induct)
  case (mount a)
  show ?case by (simp add: sheet_ok_def sheet_mount_def form_mount_def)
qed (rule sheet_ok_step)

text \<open>
  C8. However often and in whatever order the user types, changes the scope, confirms and retries, and
  whenever responses arrive, a form has at most one request under way, exactly while it says so, and never
  while it shows results; a second confirmation changes nothing, and a confirmation without a selection, or
  without a reason where one is asked for, sends nothing.
\<close>

theorem sheet_single_submission:
  assumes "sheet_reach k s"
  shows "length (sh_inflight s) = (if fo_submitting (sh_form s) then 1 else 0) \<and>
    (fo_submitting (sh_form s) \<longrightarrow>
      fo_results (sh_form s) = None \<and> sheet_step net browser k ConfirmForm s = s) \<and>
    (sc_selected (pk_scope (sh_picker s)) = [] \<longrightarrow> sheet_step net browser k ConfirmForm s = s) \<and>
    (k \<noteq> RestoreForm \<and> \<not> reasonAuthorValid (fo_reasonAuthor (sh_form s)) \<longrightarrow>
      sheet_step net browser k ConfirmForm s = s)"
proof -
  have no: "sheet_step net browser k ConfirmForm s = s" if "\<not> canConfirm k (sh_picker s) (sh_form s)"
    using that by (simp add: confirm_start_def)
  have "\<not> canConfirm k (sh_picker s) (sh_form s)"
    if "k \<noteq> RestoreForm" "\<not> reasonAuthorValid (fo_reasonAuthor (sh_form s))"
    using that by (cases k) (simp_all add: override_canConfirm_def invalidate_canConfirm_def baseline_canConfirm_def)
  with no sheet_reach_ok [OF assms] canConfirm_idle canConfirm_selected show ?thesis
    unfolding sheet_ok_def by blast
qed

definition demo_sheet :: Sheet where
  "demo_sheet = sheet_step (\<lambda>_. Rejected) (\<lambda>_. ''failed'') RestoreForm ConfirmForm (sheet_mount (demo_scope_args ModeAll))"

lemma demo_selected: "sc_selected (pk_scope (picker_mount (demo_scope_args ModeAll))) = [''a'', ''b'']"
  by (simp add: picker_mount_def scope_mount_def demo_scope_defs)

lemma demo_sheet_submitting: "fo_submitting (sh_form demo_sheet)"
  by (simp add: demo_sheet_def sheet_mount_def confirm_start_def restore_canConfirm_def form_mount_def demo_selected)

lemma sheet_single_submission_witness:
  "length (sh_inflight demo_sheet) = 1 \<and>
   sheet_step (\<lambda>_. Rejected) (\<lambda>_. ''failed'') RestoreForm ConfirmForm demo_sheet = demo_sheet"
proof -
  have "sheet_reach RestoreForm demo_sheet"
    unfolding demo_sheet_def
    by (intro sheet_reach.intros) (simp add: sheet_mount_def form_mount_def)
  from sheet_single_submission [OF this, of "\<lambda>_. Rejected" "\<lambda>_. ''failed''"] demo_sheet_submitting
  show ?thesis by simp
qed

subsection \<open>The rows of a batch\<close>

text \<open>An SLO the override form skips: its result already is the chosen one.\<close>

definition skips :: "FormKind \<Rightarrow> Picker \<Rightarrow> FormState \<Rightarrow> string \<Rightarrow> bool" where
  "skips k p f n \<longleftrightarrow> k = OverrideForm \<and> selected_result (pk_args p) n = Some (override_outcome (fo_target f))"

lemma submission_toApply:
  "sb_toApply (submission k p f) =
    map (selected_target (pk_args p)) (filter (\<lambda>n. \<not> skips k p f n) (sc_selected (pk_scope p)))"
  by (cases k) (simp_all add: override_submission_def invalidate_submission_def restore_submission_def
      baseline_submission_def skips_def Let_def)

lemma submission_skipped:
  "sb_skipped (submission k p f) =
    map (\<lambda>n. \<lparr>br_sloName = n, br_sloEvaluationId = nullish (lookupEvalId (pk_args p) n) [],
      br_status = RowSkipped, br_error = None\<rparr>) (filter (skips k p f) (sc_selected (pk_scope p)))"
  by (cases k) (simp_all add: override_submission_def invalidate_submission_def restore_submission_def
      baseline_submission_def skips_def [abs_def] Let_def)

text \<open>One row of a batch, as a function of its target.\<close>

definition batch_row :: "('e \<Rightarrow> string option) \<Rightarrow> ('e + BulkActionOutcome) \<Rightarrow> BatchTarget \<Rightarrow> BatchRowResult" where
  "batch_row message reply t = \<lparr>br_sloName = bt_sloName t, br_sloEvaluationId = bt_sloEvaluationId t,
     br_status = (case reply of Inl e \<Rightarrow> RowFailed
       | Inr oc \<Rightarrow> if bt_sloEvaluationId t \<in> set (ba_succeeded oc) then RowSuccess else RowFailed),
     br_error = (case reply of Inl e \<Rightarrow> Some (nullish (message e) ''unknown error'')
       | Inr oc \<Rightarrow> if bt_sloEvaluationId t \<in> set (ba_succeeded oc) then None else Some ''not applied'')\<rparr>"

lemma runBatch_rows:
  "runBatch message targets send = map (batch_row message (send (map bt_sloEvaluationId targets))) targets"
  by (simp add: runBatch_def batch_row_def Let_def set_has_def split: sum.split)

text \<open>The ids a confirmed form sends, and the reply to them.\<close>

definition sent_ids :: "FormKind \<Rightarrow> Picker \<Rightarrow> FormState \<Rightarrow> string list" where
  "sent_ids k p f = map bt_sloEvaluationId (sb_toApply (submission k p f))"

lemma submission_rows_eq:
  "submission_rows net browser (submission k p f) =
    sb_skipped (submission k p f) @
    map (batch_row (api_message browser) (send_call net (sb_call (submission k p f)) (sent_ids k p f)))
      (sb_toApply (submission k p f))"
  by (auto simp: submission_rows_def runBatch_rows sent_ids_def)

lemma batch_row_fields [simp]:
  "br_sloName (batch_row m r t) = bt_sloName t" "br_sloEvaluationId (batch_row m r t) = bt_sloEvaluationId t"
  by (simp_all add: batch_row_def)

lemma batch_row_status:
  "br_status (batch_row m r t) =
    (if \<exists>oc. r = Inr oc \<and> bt_sloEvaluationId t \<in> set (ba_succeeded oc) then RowSuccess else RowFailed)"
  by (auto simp: batch_row_def split: sum.split)

lemma mset_filter_not: "mset (filter P xs) + mset (filter (\<lambda>x. \<not> P x) xs) = mset xs"
  by (induction xs) auto

definition row_status ::
    "FormKind \<Rightarrow> Picker \<Rightarrow> FormState \<Rightarrow> (api_error + BulkActionOutcome) \<Rightarrow> string \<Rightarrow> RowStatus" where
  "row_status k p f reply n =
    (if skips k p f n then RowSkipped
     else if \<exists>oc. reply = Inr oc \<and> nullish (lookupEvalId (pk_args p) n) [] \<in> set (ba_succeeded oc)
     then RowSuccess else RowFailed)"

lemma submission_rows_spec:
  assumes "reply = send_call net (sb_call (submission k p f)) (sent_ids k p f)"
    and "r \<in> set (submission_rows net browser (submission k p f))"
  shows "br_sloEvaluationId r = nullish (lookupEvalId (pk_args p) (br_sloName r)) [] \<and>
    br_status r = row_status k p f reply (br_sloName r)"
  using assms by (auto simp: submission_rows_eq submission_skipped submission_toApply batch_row_status
      row_status_def selected_target_def)

lemma submission_rows_names:
  "mset (map br_sloName (submission_rows net browser (submission k p f))) = mset (sc_selected (pk_scope p))"
  by (simp add: submission_rows_eq submission_skipped submission_toApply comp_def selected_target_def
      mset_filter_not)



end
