(* ===== verification/ReEvalForm.thy ===== *)
theory ReEvalForm
  imports EvalActions
begin

text \<open>
  The re-evaluation form (\<open>ReEvaluateForm.tsx\<close>): re-scoring the selected SLOs from a start date or from the
  last baseline, and the choice it offers when the start date lies before a baseline pin. \<open>tz\<close> is the
  browser's offset from UTC in minutes; a mutation that is running or has failed is the form's \<open>rf_pending\<close>
  and \<open>rf_error\<close>.
\<close>

record ReEvalFormState =
  rf_fromDate :: string
  rf_fromBaseline :: bool
  rf_result :: "ReEvaluateResponse option"
  rf_pinConflict :: "(json \<times> json option) option"
  rf_pending :: bool
  rf_error :: "reeval_error option"

definition reeval_mount :: "string option \<Rightarrow> ReEvalFormState" where
  "reeval_mount defaultFromDate =
    \<lparr>rf_fromDate = nullish defaultFromDate [], rf_fromBaseline = False, rf_result = None,
     rf_pinConflict = None, rf_pending = False, rf_error = None\<rparr>"

definition reeval_canConfirm :: "string list \<Rightarrow> ReEvalFormState \<Rightarrow> bool" where
  "reeval_canConfirm selected f \<longleftrightarrow> (rf_fromBaseline f \<or> rf_fromDate f \<noteq> []) \<and> selected \<noteq> []"

text \<open>The input of the mutation; \<open>toISOString\<close> throws on a date that is none.\<close>

definition reeval_mode :: "int \<Rightarrow> ReEvalFormState \<Rightarrow> ReEvaluateMode option" where
  "reeval_mode tz f =
    (if rf_fromBaseline f then Some FromBaseline
     else map_option FromDate (toISOString (Date_parse tz (rf_fromDate f))))"

definition reeval_input ::
    "int \<Rightarrow> string \<Rightarrow> string list \<Rightarrow> PinStrategy option \<Rightarrow> ReEvalFormState \<Rightarrow> ReEvaluateInput option" where
  "reeval_input tz assetName selected strategy f = map_option (\<lambda>mode.
     \<lparr>ri_assetName = assetName, ri_sloName = None, ri_sloNames = Some selected, ri_mode = mode,
      ri_sloVersion = None, ri_dryRun = False, ri_pinStrategy = strategy\<rparr>) (reeval_mode tz f)"

definition submitReEval ::
    "int \<Rightarrow> string \<Rightarrow> string list \<Rightarrow> PinStrategy option \<Rightarrow> ReEvalFormState \<Rightarrow> ReEvalFormState \<times> ReEvaluateInput option" where
  "submitReEval tz assetName selected strategy f =
    (let f1 = f\<lparr>rf_pinConflict := None\<rparr> in
     case reeval_input tz assetName selected strategy f of
       None \<Rightarrow> (f1, None)
     | Some i \<Rightarrow> (f1\<lparr>rf_pending := True, rf_error := None\<rparr>, Some i))"

text \<open>\<open>onSuccess\<close> and \<open>onError\<close>.\<close>

definition reeval_settle :: "reeval_error + ReEvaluateResponse \<Rightarrow> ReEvalFormState \<Rightarrow> ReEvalFormState" where
  "reeval_settle r f = (case r of
     Inr d \<Rightarrow> f\<lparr>rf_pending := False, rf_result := Some d\<rparr>
   | Inl e \<Rightarrow>
       (case e of
          PinConflictError pinDate pinEvaluationId \<Rightarrow>
            f\<lparr>rf_pending := False, rf_error := Some e, rf_pinConflict := Some (pinDate, pinEvaluationId)\<rparr>
        | _ \<Rightarrow> f\<lparr>rf_pending := False, rf_error := Some e\<rparr>))"

definition reeval_handleConfirm ::
    "int \<Rightarrow> string \<Rightarrow> string list \<Rightarrow> ReEvalFormState \<Rightarrow> ReEvalFormState \<times> ReEvaluateInput option" where
  "reeval_handleConfirm tz assetName selected f =
    (if \<not> reeval_canConfirm selected f then (f, None) else submitReEval tz assetName selected None f)"

text \<open>The Run button, the inputs, and the error line under the conflict.\<close>

definition run_enabled :: "string list \<Rightarrow> ReEvalFormState \<Rightarrow> bool" where
  "run_enabled selected f \<longleftrightarrow> reeval_canConfirm selected f \<and> rf_pinConflict f = None \<and> \<not> rf_pending f"

definition set_fromBaseline :: "bool \<Rightarrow> ReEvalFormState \<Rightarrow> ReEvalFormState" where
  "set_fromBaseline b f = f\<lparr>rf_fromBaseline := b, rf_pinConflict := None\<rparr>"

definition set_fromDate :: "string \<Rightarrow> ReEvalFormState \<Rightarrow> ReEvalFormState" where
  "set_fromDate d f = f\<lparr>rf_fromDate := d, rf_pinConflict := None\<rparr>"

definition reeval_error_line :: "(reeval_error \<Rightarrow> string) \<Rightarrow> ReEvalFormState \<Rightarrow> string option" where
  "reeval_error_line message f =
    (case rf_error f of Some e \<Rightarrow> if rf_pinConflict f = None then Some (message e) else None | None \<Rightarrow> None)"

text \<open>The result page's headline.\<close>

definition reeval_headline :: "ReEvaluateResponse \<Rightarrow> string" where
  "reeval_headline r = show_int (re_affectedEvaluations r) @ '' evaluation''
     @ (if re_affectedEvaluations r \<noteq> 1 then ''s'' else []) @ '' re-evaluated''
     @ (case re_sloVersionUsed r of Some v \<Rightarrow> '' (SLO v'' @ show_int v @ '')'' | None \<Rightarrow> [])"

text \<open>The start date the asset panel suggests: \<open>earliestPeriodStart?.slice(0, 16)\<close>.\<close>

definition earliestPeriodStart :: "(string \<Rightarrow> string \<Rightarrow> int) \<Rightarrow> Evaluation list \<Rightarrow> string option" where
  "earliestPeriodStart localeCompare evals =
    (if evals = [] then None
     else Some (dr_from (ev_period (hd
       (sort_cmp (\<lambda>a b. localeCompare (dr_from (ev_period a)) (dr_from (ev_period b))) evals)))))"

definition defaultFromDate :: "(string \<Rightarrow> string \<Rightarrow> int) \<Rightarrow> Evaluation list \<Rightarrow> string option" where
  "defaultFromDate localeCompare evals = map_option (take 16) (earliestPeriodStart localeCompare evals)"

subsection \<open>The pin conflict\<close>

text \<open>One click and its response, against a server that answers a request always the same.\<close>

definition reeval_click where
  "reeval_click tz net errorBody assetName selected strategy f =
    (case submitReEval tz assetName selected strategy f of
       (f1, None) \<Rightarrow> f1
     | (f1, Some i) \<Rightarrow> reeval_settle (reEvaluate net errorBody i) f1)"

lemma reeval_req_date:
  "ri_mode i = FromDate d \<Longrightarrow> reeval_req (i\<lparr>ri_pinStrategy := p\<rparr>) = reeval_req i"
  by (simp add: reeval_req_def reEvaluateInputToDto_def buildSelector_def Let_def split: option.splits)

lemma reEvaluate_req:
  "reeval_req i = reeval_req j \<Longrightarrow> reEvaluate net errorBody i = reEvaluate net errorBody j"
  by (simp add: reEvaluate_def)

lemma reeval_input_strategy:
  "reeval_input tz assetName selected strategy f =
    map_option (\<lambda>i. i\<lparr>ri_pinStrategy := strategy\<rparr>) (reeval_input tz assetName selected None f)"
  by (cases "reeval_mode tz f") (simp_all add: reeval_input_def)

lemma click_fields:
  "rf_fromDate (reeval_click tz net eb assetName selected strategy f) = rf_fromDate f"
  "rf_fromBaseline (reeval_click tz net eb assetName selected strategy f) = rf_fromBaseline f"
  by (auto simp: reeval_click_def submitReEval_def reeval_settle_def Let_def
      split: option.splits sum.splits reeval_error.splits)

lemma click_conflict:
  "rf_pinConflict (reeval_click tz net eb assetName selected strategy f) =
    (case reeval_input tz assetName selected strategy f of
       None \<Rightarrow> None
     | Some i \<Rightarrow> (case reEvaluate net eb i of Inl (PinConflictError d e) \<Rightarrow> Some (d, e) | _ \<Rightarrow> None))"
  by (auto simp: reeval_click_def submitReEval_def reeval_settle_def Let_def
      split: option.splits sum.splits reeval_error.splits)

lemma click_conflict_date:
  assumes "\<not> rf_fromBaseline f"
  shows "rf_pinConflict (reeval_click tz net eb assetName selected s f) =
    rf_pinConflict (reeval_click tz net eb assetName selected None f)"
proof (cases "reeval_input tz assetName selected None f")
  case None
  then show ?thesis by (simp add: click_conflict reeval_input_strategy [of tz assetName selected s])
next
  case (Some i)
  with assms obtain d where "ri_mode i = FromDate d"
    by (auto simp: reeval_input_def reeval_mode_def)
  then have "reEvaluate net eb (i\<lparr>ri_pinStrategy := s\<rparr>) = reEvaluate net eb i"
    by (intro reEvaluate_req reeval_req_date)
  with Some show ?thesis by (simp add: click_conflict reeval_input_strategy [of tz assetName selected s])
qed

lemma reeval_input_fields:
  "rf_fromDate g = rf_fromDate f \<Longrightarrow> rf_fromBaseline g = rf_fromBaseline f \<Longrightarrow>
    reeval_input tz assetName selected s g = reeval_input tz assetName selected s f"
  by (simp add: reeval_input_def reeval_mode_def)

text \<open>
  C20. With a start date, neither \<open>Start from pin\<close> nor \<open>Ignore pin\<close> resolves a pin conflict: the request does
  not carry the choice, so as long as the server answers that request with the conflict, every sequence of
  clicks ends in the same conflict.
\<close>

theorem pin_conflict_recurs:
  assumes "\<not> rf_fromBaseline f"
    and "rf_pinConflict (reeval_click tz net errorBody assetName selected None f) = Some c"
  shows "rf_pinConflict (foldl (\<lambda>g s. reeval_click tz net errorBody assetName selected (Some s) g)
    (reeval_click tz net errorBody assetName selected None f) choices) = Some c"
proof -
  let ?click = "\<lambda>s g. reeval_click tz net errorBody assetName selected s g"
  let ?run = "foldl (\<lambda>g s. ?click (Some s) g) (?click None f)"
  have "rf_pinConflict (?run choices) = Some c \<and> rf_fromDate (?run choices) = rf_fromDate f \<and>
      rf_fromBaseline (?run choices) = rf_fromBaseline f"
  proof (induction choices rule: rev_induct)
    case Nil
    with assms(2) show ?case by (simp add: click_fields)
  next
    case (snoc s choices)
    with assms(1) have "rf_pinConflict (?click (Some s) (?run choices)) = rf_pinConflict (?click None (?run choices))"
      by (intro click_conflict_date) simp
    also have "\<dots> = rf_pinConflict (?click None f)"
      using snoc reeval_input_fields [of "?run choices" f tz assetName selected None]
      by (simp add: click_conflict)
    finally show ?case using snoc assms(2) by (simp add: click_fields)
  qed
  then show ?thesis by blast
qed

definition demo_conflict_body :: json where
  "demo_conflict_body = JObj [(''detail'', JObj [(''pin_date'', JStr ''2024-02-01T00:00:00Z'')])]"

definition demo_reeval_form :: ReEvalFormState where
  "demo_reeval_form = reeval_mount (Some ''2024-01-01T00:00'')"

lemma demo_conflict:
  "rf_pinConflict (reeval_click 0 (\<lambda>_. Reply 409 None) (\<lambda>_. Some demo_conflict_body) ''vm'' [''a''] None
    demo_reeval_form) = Some (JStr ''2024-02-01T00:00:00Z'', None)"
proof -
  have "Date_parse 0 ''2024-01-01T00:00'' = Some 1704067200000" by code_simp
  then show ?thesis
    by (simp add: click_conflict reeval_input_def reeval_mode_def demo_reeval_form_def reeval_mount_def
        toISOString_def reEvaluate_def status_ok_def reeval_failure_def demo_conflict_body_def json_field_def
        Let_def)
qed

lemma pin_conflict_recurs_witness:
  "rf_pinConflict (foldl (\<lambda>g s. reeval_click 0 (\<lambda>_. Reply 409 None) (\<lambda>_. Some demo_conflict_body) ''vm'' [''a'']
      (Some s) g)
    (reeval_click 0 (\<lambda>_. Reply 409 None) (\<lambda>_. Some demo_conflict_body) ''vm'' [''a''] None demo_reeval_form)
    [SkipToPin, IgnorePin]) = Some (JStr ''2024-02-01T00:00:00Z'', None)"
  by (rule pin_conflict_recurs [OF _ demo_conflict]) (simp add: demo_reeval_form_def reeval_mount_def)

subsection \<open>The suggested start date\<close>

text \<open>The first sixteen characters of an ISO string, \<open>YYYY-MM-DDThh:mm\<close>, read as local time.\<close>

lemma take_16:
  "length d = 10 \<Longrightarrow> length h = 2 \<Longrightarrow> length m = 2 \<Longrightarrow> take 16 (d @ c # h @ c' # m @ r) = d @ c # h @ c' # m"
  by simp

lemma take_iso_string:
  assumes "0 \<le> year_of_day (t div ms_per_day)" and "year_of_day (t div ms_per_day) \<le> 9999"
  shows "take 16 (iso_string t) = iso_date (t div ms_per_day) @ ''T''
    @ pad_nat 2 (nat (t mod ms_per_day div 3600000)) @ '':'' @ pad_nat 2 (nat (t mod ms_per_day div 60000 mod 60))"
proof -
  let ?d = "t div ms_per_day" and ?n = "t mod ms_per_day"
  have n: "0 \<le> ?n" "?n < ms_per_day" by (simp_all add: ms_per_day_def)
  note f = iso_time_fields [OF n]
  have "nat (month_of_day ?d + 1) < 10 ^ 2" using month_of_day_bounds [of ?d] by auto
  then have lm: "length (pad_nat 2 (nat (month_of_day ?d + 1))) = 2" by (rule length_pad_nat) simp
  have "date_of_day ?d \<le> 31"
    using date_of_day_bounds [of ?d] days_in_month_le [of "month_of_day ?d" "year_of_day ?d"]
      month_of_day_bounds [of ?d] by linarith
  then have "nat (date_of_day ?d) < 10 ^ 2" by simp
  then have ld: "length (pad_nat 2 (nat (date_of_day ?d))) = 2" by (rule length_pad_nat) simp
  have "nat (year_of_day ?d) < 10 ^ 4" using assms by simp
  then have ly: "length (iso_year (year_of_day ?d)) = 4"
    using assms length_pad_nat [of "nat (year_of_day ?d)" 4] by (simp add: iso_year_def)
  have hb: "nat (?n div 3600000) < 10 ^ 2" and mb: "nat (?n div 60000 mod 60) < 10 ^ 2"
    using f(1,2) by simp_all
  have lt: "length (pad_nat 2 (nat (?n div 3600000))) = 2" "length (pad_nat 2 (nat (?n div 60000 mod 60))) = 2"
    by (rule length_pad_nat [OF hb], simp, rule length_pad_nat [OF mb], simp)
  have len: "length (iso_date ?d) = 10" by (simp add: iso_date_def ly lm ld)
  show ?thesis
    unfolding iso_string_def iso_time_def append_Cons append_Nil by (rule take_16 [OF len lt])
qed

lemma Date_parse_local:
  assumes "0 \<le> year_of_day (t div ms_per_day)" and "year_of_day (t div ms_per_day) \<le> 9999"
    and "t mod 60000 = 0" and "\<bar>t - tz * 60000\<bar> \<le> max_time"
  shows "Date_parse tz (take 16 (iso_string t)) = Some (t - tz * 60000)"
proof -
  let ?d = "t div ms_per_day" and ?n = "t mod ms_per_day"
  let ?y = "year_of_day ?d" and ?m = "nat (month_of_day ?d + 1)" and ?dd = "nat (date_of_day ?d)"
  let ?hh = "nat (?n div 3600000)" and ?mm = "nat (?n div 60000 mod 60)"
  note mb = month_of_day_bounds [of ?d] and db = date_of_day_bounds [of ?d]
  have dm: "date_of_day ?d \<le> 31"
    using db days_in_month_le [of "month_of_day ?d" ?y] mb by linarith
  have b: "?m < 10 ^ 2" "?dd < 10 ^ 2" using mb db dm by auto
  have y: "parse_year (iso_year ?y @ s) = Some (?y, s)" for s
    using assms(1,2) by (intro parse_year_iso) simp
  have "1 \<le> ?m" "?m \<le> 12" "1 \<le> ?dd" using mb db by linarith+
  then have v: "date_valid ?y ?m ?dd" using mb db by (simp add: date_valid_def)
  have md: "make_day ?y (int ?m - 1) (int ?dd) = ?d" using mb db make_day_of_day [of ?d] by simp
  have n: "0 \<le> ?n" "?n < ms_per_day" by (simp_all add: ms_per_day_def)
  note f = iso_time_fields [OF n]
  have nn: "0 \<le> ?n div 3600000" "0 \<le> ?n div 60000 mod 60" using n(1) by (simp_all add: pos_imp_zdiv_nonneg_iff)
  have tb: "?hh < 10 ^ 2" "?mm < 10 ^ 2" using f(1,2) by simp_all
  have whole: "?n mod 60000 = 0" using assms(3) by (simp add: ms_per_day_def mod_mod_cancel)
  then obtain q where q: "?n = 60000 * q" by (metis mod_eq_0_iff_dvd dvd_def)
  have "60000 * q div 1000 = 60 * q" by simp
  then have z: "?n div 1000 mod 60 = 0" "?n mod 1000 = 0" unfolding q by simp_all
  have sum: "int ?hh * 3600000 + int ?mm * 60000 = ?n"
    using f(4) by (simp only: int_nat_eq nn if_True z mult_zero_left add_0_right)
  have "?d * ms_per_day + int ?hh * 3600000 + int ?mm * 60000 = t"
    using sum div_mult_mod_eq [of t ms_per_day] by linarith
  then have clip: "time_clip (?d * ms_per_day + int ?hh * 3600000 + int ?mm * 60000 + int 0 * 1000 + int 0 - tz * 60000)
      = Some (t - tz * 60000)"
    using assms(4) by (simp add: time_clip_def)
  have tv: "time_valid ?hh ?mm 0 0" using f(1,2) by (simp add: time_valid_def nat_le_iff)
  have mm: "take_num 2 (pad_nat 2 ?mm) = Some (?mm, [])" using take_num_pad [OF tb(2), of "[]"] by simp
  have time: "parse_time tz ?d (pad_nat 2 ?hh @ CHR '':'' # pad_nat 2 ?mm) = Some (t - tz * 60000)"
    unfolding parse_time_def
    by (simp only: take_num_pad [OF tb(1) zero_less_numeral] mm expect_Cons Option.bind.simps prod.case
        parse_secs_def parse_zone_def list.case tv if_True clip)
  show ?thesis
    unfolding take_iso_string [OF assms(1,2)]
    using take_num_pad [OF b(1)] take_num_pad [OF b(2)] v md time
    by (simp add: Date_parse_def iso_date_def y)
qed

text \<open>
  The start date the panel suggests, the earliest period start cut to its minute, is read back as local
  time: the re-evaluation starts at that instant shifted by the browser's offset from UTC, so west of
  Greenwich after the earliest evaluation.
\<close>

lemma suggested_start_shifted:
  assumes "earliestPeriodStart cmp evals = Some s" and "take 16 s = take 16 (iso_string t)"
    and "0 \<le> year_of_day (t div ms_per_day)" and "year_of_day (t div ms_per_day) \<le> 9999"
    and "t mod 60000 = 0" and "\<bar>t - tz * 60000\<bar> \<le> max_time"
  shows "reeval_mode tz (reeval_mount (defaultFromDate cmp evals)) = Some (FromDate (iso_string (t - tz * 60000)))"
  using Date_parse_local [OF assms(3-6)] assms(1,2)
  by (simp add: reeval_mode_def reeval_mount_def defaultFromDate_def toISOString_def)

lemma suggested_start_shifted_witness:
  "reeval_mode (- 300) (reeval_mount (defaultFromDate (\<lambda>a b. 0)
     [demo_eval ''1'' Pass 100\<lparr>ev_period := makeDateRange ''2024-01-01T00:00:00Z'' ''2024-01-01T01:00:00Z''\<rparr>]))
   = Some (FromDate ''2024-01-01T05:00:00.000Z'')"
proof -
  let ?evals = "[demo_eval ''1'' Pass 100\<lparr>ev_period := makeDateRange ''2024-01-01T00:00:00Z'' ''2024-01-01T01:00:00Z''\<rparr>]"
  have s: "earliestPeriodStart (\<lambda>a b. 0) ?evals = Some ''2024-01-01T00:00:00Z''"
    by (simp add: earliestPeriodStart_def sort_cmp_def makeDateRange_def)
  have t: "take 16 ''2024-01-01T00:00:00Z'' = take 16 (iso_string 1704067200000)" by code_simp
  have y: "0 \<le> year_of_day (1704067200000 div ms_per_day)" "year_of_day (1704067200000 div ms_per_day) \<le> 9999"
    by code_simp+
  have i: "iso_string 1704085200000 = ''2024-01-01T05:00:00.000Z''" by code_simp
  from suggested_start_shifted [OF s t y, of "- 300"] i show ?thesis
    by (simp add: max_time_def)
qed

end
