(* ===== verification/AssetPanel.thy ===== *)
theory AssetPanel
  imports ReEvalForm MetricTrend
begin

text \<open>
  The asset panel of the navigator (\<open>features/navigator/components/AssetPanel.tsx\<close>): which evaluation and
  heatmap column are selected, what the header shows of them, which actions the menu offers, and how the
  heatmap view (\<open>AssetPanelHeatmapView.tsx\<close>) and the chart view (\<open>AssetPanelChartView.tsx\<close>) turn clicks into
  selections. \<open>localeCompare\<close> is the browser's. The effects of a commit are functions of the values they
  have captured and of the state they update.
\<close>

subsection \<open>State\<close>

datatype ViewMode = HeatmapMode | ChartMode

datatype ActionKind = ActInvalidate | ActOverride | ActBaseline | ActReEvaluate | ActRestore

record PanelState =
  pa_mode :: ViewMode
  pa_selectedEvalId :: "string option"
  pa_selectedSlot :: "TimeSlotSelection option"
  pa_selectedSingleSloEvalId :: "string option"
  pa_activeAction :: "ActionKind option"
  pa_selectedNames :: "string list option"
  pa_sloExpandState :: "(string, bool) jsmap"

definition panel_init :: "string option \<Rightarrow> PanelState" where
  "panel_init initialEvalId =
    \<lparr>pa_mode = HeatmapMode, pa_selectedEvalId = initialEvalId, pa_selectedSlot = None,
     pa_selectedSingleSloEvalId = None, pa_activeAction = None, pa_selectedNames = None, pa_sloExpandState = []\<rparr>"

text \<open>The effect on \<open>[assetName]\<close>, which runs after the first commit too.\<close>

definition asset_effect :: "PanelState \<Rightarrow> PanelState" where
  "asset_effect s = s\<lparr>pa_selectedEvalId := None, pa_selectedSlot := None, pa_selectedSingleSloEvalId := None,
     pa_activeAction := None, pa_selectedNames := None, pa_sloExpandState := []\<rparr>"

subsection \<open>Derived values\<close>

text \<open>The data of the queries: the evaluations (none while loading) and the heatmap.\<close>

record PanelData =
  pd_evals :: "Evaluation list"
  pd_heatmap :: "GroupedHeatmapWire option"

definition defaultEvalId :: "(string \<Rightarrow> string \<Rightarrow> int) \<Rightarrow> Evaluation list \<Rightarrow> string option" where
  "defaultEvalId localeCompare evals =
    (if evals = [] then None
     else let sorted = sort_cmp (\<lambda>a b. localeCompare (dr_from (ev_period b)) (dr_from (ev_period a))) evals
          in Some (ev_id (nullish (find (\<lambda>e. \<not> ev_invalidated e) sorted) (hd sorted))))"

definition effectiveEvalId :: "(string \<Rightarrow> string \<Rightarrow> int) \<Rightarrow> PanelData \<Rightarrow> PanelState \<Rightarrow> string option" where
  "effectiveEvalId localeCompare d s =
    (case pa_selectedEvalId s of Some i \<Rightarrow> Some i | None \<Rightarrow> defaultEvalId localeCompare (pd_evals d))"

text \<open>The first cell of the groups, in order, that belongs to an SLO evaluation.\<close>

definition cell_of_eval :: "GroupedHeatmapWire \<Rightarrow> string \<Rightarrow> HeatmapCellWire option" where
  "cell_of_eval h i = find (\<lambda>c. hcd_slo_evaluation_id c = i) (concat (map hgw_cells (ghw_groups h)))"

definition derived_cell :: "PanelData \<Rightarrow> string option \<Rightarrow> HeatmapCellWire option" where
  "derived_cell d effective = (case pd_heatmap d of None \<Rightarrow> None
     | Some h \<Rightarrow> if truthy effective then cell_of_eval h (the effective) else None)"

definition selectedColumnEvalId :: "PanelData \<Rightarrow> string option \<Rightarrow> TimeSlotSelection option \<Rightarrow> string option" where
  "selectedColumnEvalId d effective slot =
    (if truthy (Option.bind slot tss_columnEvalId) then Option.bind slot tss_columnEvalId
     else map_option hcd_evaluation_id (derived_cell d effective))"

definition selectedPeriodEnd :: "PanelData \<Rightarrow> string option \<Rightarrow> string option" where
  "selectedPeriodEnd d column = (case pd_heatmap d of None \<Rightarrow> None
     | Some h \<Rightarrow> if truthy column
         then map_option ecd_period_end (find (\<lambda>c. ecd_evaluation_id c = the column) (ghw_columns h)) else None)"

definition selectedPeriodStart :: "PanelData \<Rightarrow> string option \<Rightarrow> TimeSlotSelection option \<Rightarrow> string option" where
  "selectedPeriodStart d effective slot =
    (if truthy (map_option tss_periodStart slot) then map_option tss_periodStart slot
     else map_option hcd_period_start (derived_cell d effective))"

definition group_cell :: "string option \<Rightarrow> string \<Rightarrow> HeatmapSloGroupWire \<Rightarrow> HeatmapCellWire option" where
  "group_cell column periodStart g =
    (let byColumn = (if truthy column then find (\<lambda>c. hcd_evaluation_id c = the column) (hgw_cells g) else None)
     in case byColumn of Some c \<Rightarrow> Some c | None \<Rightarrow> find (\<lambda>c. hcd_period_start c = periodStart) (hgw_cells g))"

definition selectedColumnSloEvalIds ::
    "PanelData \<Rightarrow> string option \<Rightarrow> string option \<Rightarrow> string option \<Rightarrow> string list" where
  "selectedColumnSloEvalIds d column periodStart effective =
    (let own = (if truthy effective then [the effective] else []) in
     case pd_heatmap d of
       None \<Rightarrow> own
     | Some h \<Rightarrow>
         if truthy periodStart
         then uniq (map hcd_slo_evaluation_id
                (List.map_filter (group_cell column (the periodStart)) (ghw_groups h)) @ own)
         else own)"

definition panel_ev :: "PanelData \<Rightarrow> string option \<Rightarrow> string option \<Rightarrow> Evaluation option" where
  "panel_ev d column effective =
    (if truthy effective
     then (case find (\<lambda>e. ev_id e = the effective) (pd_evals d) of
             Some e \<Rightarrow> Some e
           | None \<Rightarrow> if truthy column then find (\<lambda>e. ev_evaluationId e = the column) (pd_evals d) else None)
     else None)"

record ColumnInfo =
  ci_result :: Outcome
  ci_score :: "int option"
  ci_invalidated :: bool
  ci_periodStart :: "string option"
  ci_passPct :: "rat option"
  ci_warningPct :: "rat option"

definition raw_outcome :: "string option \<Rightarrow> Outcome" where
  "raw_outcome raw =
    (if raw = Some ''pass'' then Pass else if raw = Some ''warning'' then Warning
     else if raw = Some ''fail'' then Fail else if raw = Some ''error'' then Error
     else if raw = Some ''invalidated'' then Invalidated else Error)"

definition column_summary :: "string \<Rightarrow> HeatmapSloGroupWire \<Rightarrow> HeatmapSummaryWire option" where
  "column_summary column g = find (\<lambda>s. hsd_evaluation_id s = column) (hgw_summary g)"

text \<open>The loop over the groups: whether a summary is invalidated, and the first thresholds.\<close>

definition column_scan ::
    "string \<Rightarrow> HeatmapSloGroupWire list \<Rightarrow> rat option \<times> rat option \<times> bool" where
  "column_scan column groups = foldl (\<lambda>(passPct, warningPct, invalidated) g.
     case column_summary column g of
       None \<Rightarrow> (passPct, warningPct, invalidated)
     | Some summary \<Rightarrow>
         (let inv = (if hsd_invalidated summary then True else invalidated) in
          if passPct = None \<and> hsd_total_score_pass_threshold summary \<noteq> None
          then (hsd_total_score_pass_threshold summary, hsd_total_score_warning_threshold summary, inv)
          else (passPct, warningPct, inv))) (None, None, False) groups"

definition columnInfo :: "PanelData \<Rightarrow> string option \<Rightarrow> ColumnInfo option" where
  "columnInfo d column = (case pd_heatmap d of None \<Rightarrow> None | Some h \<Rightarrow>
     if \<not> truthy column then None
     else
       let composite = find (\<lambda>c. hsd_evaluation_id c = the column) (ghw_composite h);
           (passPct, warningPct, invalidated) = column_scan (the column) (ghw_groups h);
           firstCell = (case ghw_groups h of [] \<Rightarrow> None
             | g # _ \<Rightarrow> find (\<lambda>c. hcd_evaluation_id c = the column) (hgw_cells g))
       in Some \<lparr>ci_result = (if invalidated then Invalidated else raw_outcome (map_option hsd_result composite)),
            ci_score = map_option (\<lambda>c. js_round (hsd_score c)) composite, ci_invalidated = invalidated,
            ci_periodStart = (case firstCell of Some c \<Rightarrow> Some (hcd_period_start c)
              | None \<Rightarrow> map_option hsd_period_start composite),
            ci_passPct = passPct, ci_warningPct = warningPct\<rparr>)"

definition notedSlots :: "PanelData \<Rightarrow> (string, string \<times> nat) jsmap" where
  "notedSlots d = (case pd_heatmap d of None \<Rightarrow> [] | Some h \<Rightarrow>
     foldl (\<lambda>m c. if ecd_has_notes c then js_set (ecd_evaluation_id c) (ecd_evaluation_id c, 0) m else m) []
       (ghw_columns h))"

subsection \<open>Effects and handlers\<close>

definition expand_effect :: "bool \<Rightarrow> PanelData \<Rightarrow> PanelState \<Rightarrow> PanelState \<Rightarrow> PanelState" where
  "expand_effect defaultExpanded d rendered s = (case pd_heatmap d of
     None \<Rightarrow> s
   | Some h \<Rightarrow> if pa_sloExpandState rendered \<noteq> [] then s
       else s\<lparr>pa_sloExpandState := foldl (\<lambda>m g. js_set (hgw_slo_name g) defaultExpanded m) [] (ghw_groups h)\<rparr>)"

definition column_slo_evals :: "GroupedHeatmapWire \<Rightarrow> string \<Rightarrow> string list" where
  "column_slo_evals h column = uniq (concat (map (\<lambda>g. map hcd_slo_evaluation_id
     (filter (\<lambda>c. hcd_evaluation_id c = column) (hgw_cells g))) (ghw_groups h)))"

text \<open>The effect that selects the column of the evaluation shown first.\<close>

definition slot_effect :: "PanelData \<Rightarrow> string option \<Rightarrow> PanelState \<Rightarrow> PanelState \<Rightarrow> PanelState" where
  "slot_effect d effective rendered s =
    (if pa_selectedSlot rendered \<noteq> None then s
     else case derived_cell d effective of
       None \<Rightarrow> s
     | Some c \<Rightarrow>
         (let evalIds = column_slo_evals (the (pd_heatmap d)) (hcd_evaluation_id c) in
          if 1 < length evalIds
          then s\<lparr>pa_selectedSlot := Some \<lparr>tss_periodStart = hcd_period_start c, tss_evalIds = evalIds,
                 tss_columnEvalId = Some (hcd_evaluation_id c), tss_specificSloEvalId = None\<rparr>\<rparr>
          else s))"

text \<open>Closing the action form when another evaluation is shown; the \<open>ref\<close> holds the previous one.\<close>

definition close_action_effect :: "string option \<Rightarrow> string option \<Rightarrow> PanelState \<Rightarrow> string option \<times> PanelState" where
  "close_action_effect effective prevEvalId s =
    (if prevEvalId \<noteq> effective then (effective, s\<lparr>pa_activeAction := None\<rparr>) else (prevEvalId, s))"

text \<open>The first commit: the effects in order, each with the values of the first render.\<close>

definition panel_mount ::
    "(string \<Rightarrow> string \<Rightarrow> int) \<Rightarrow> bool \<Rightarrow> PanelData \<Rightarrow> string option \<Rightarrow> PanelState" where
  "panel_mount localeCompare defaultExpanded d initialEvalId =
    (let rendered = panel_init initialEvalId;
         s1 = asset_effect rendered;
         s2 = expand_effect defaultExpanded d rendered s1
     in slot_effect d (effectiveEvalId localeCompare d rendered) rendered s2)"

definition handleSloToggle :: "string \<Rightarrow> PanelState \<Rightarrow> PanelState" where
  "handleSloToggle n s = s\<lparr>pa_sloExpandState :=
     js_set n (\<not> nullish (js_get (pa_sloExpandState s) n) False) (pa_sloExpandState s)\<rparr>"

definition handleSlotSelect :: "TimeSlotSelection \<Rightarrow> PanelState \<Rightarrow> PanelState" where
  "handleSlotSelect slot s =
    (let s1 = s\<lparr>pa_selectedSlot := Some slot\<rparr>;
         s2 = (case tss_evalIds slot of [] \<Rightarrow> s1 | i # _ \<Rightarrow> s1\<lparr>pa_selectedEvalId := Some i\<rparr>)
     in s2\<lparr>pa_selectedSingleSloEvalId := tss_specificSloEvalId slot\<rparr>)"

text \<open>Where a click reports an evaluation only (\<open>onEvalSelect\<close>) or a whole slot (\<open>onSlotSelect\<close>).\<close>

datatype click_report = EvalSelect string | SlotSelect TimeSlotSelection

fun report :: "click_report \<Rightarrow> PanelState \<Rightarrow> PanelState" where
  "report (EvalSelect i) s = s\<lparr>pa_selectedEvalId := Some i\<rparr>"
| "report (SlotSelect slot) s = handleSlotSelect slot s"

subsection \<open>The scope and the menu of the actions\<close>

definition resolveScopeInitialMode :: "string option \<Rightarrow> GroupedMetricHeatmap option \<Rightarrow> SloScopeInitialMode" where
  "resolveScopeInitialMode single heatmap = (case heatmap of
     None \<Rightarrow> ModeAll
   | Some h \<Rightarrow>
       if \<not> truthy single then ModeAll
       else (case find (\<lambda>g. list_ex (\<lambda>c. hi_sloEvaluationId c = the single) (hg_cells g)) (gm_groups h) of
               None \<Rightarrow> ModeAll
             | Some g \<Rightarrow> SingleSlo (hg_sloName g)))"

definition panel_scope_args :: "PanelData \<Rightarrow> string option \<Rightarrow> string option \<Rightarrow> UseSloScopeArgs" where
  "panel_scope_args d column single =
    \<lparr>sa_heatmapData = scopeHeatmapData (pd_heatmap d), sa_columnEvalId = column,
     sa_initialMode = resolveScopeInitialMode single (scopeHeatmapData (pd_heatmap d)), sa_filter = FilterAll\<rparr>"

text \<open>Re-applying the default when another cell was clicked; the \<open>ref\<close> holds the last one.\<close>

definition single_slo_effect ::
    "string option \<Rightarrow> UseSloScopeArgs \<Rightarrow> string option \<Rightarrow> Picker \<Rightarrow> string option \<times> Picker" where
  "single_slo_effect lastSingleSlo a single p =
    (if lastSingleSlo = single then (lastSingleSlo, p)
     else (single, case sa_initialMode a of
       ModeAll \<Rightarrow> set_selected (uniq (available_names a)) p
     | SingleSlo n \<Rightarrow> if n \<in> set (available_names a) then set_selected [n] p else p))"

record MenuAvailability =
  mn_allRowsInvalidated :: bool
  mn_noRowsInvalidated :: bool

definition menuAvailability :: "GroupedMetricHeatmap option \<Rightarrow> string option \<Rightarrow> MenuAvailability" where
  "menuAvailability heatmap column =
    (let none = \<lparr>mn_allRowsInvalidated = False, mn_noRowsInvalidated = True\<rparr> in
     case heatmap of None \<Rightarrow> none | Some h \<Rightarrow>
       if \<not> truthy column then none
       else
         let summaryRows = concat (map (\<lambda>g. filter (\<lambda>s. hs_evaluationId s = the column) (hg_summary g)) (gm_groups h))
         in if summaryRows = [] then none
            else \<lparr>mn_allRowsInvalidated = list_all (\<lambda>s. hs_result s = ResInvalidated) summaryRows,
                  mn_noRowsInvalidated = list_all (\<lambda>s. hs_result s \<noteq> ResInvalidated) summaryRows\<rparr>)"

text \<open>The menu: an action with the reason it is greyed out for, if it is (\<open>EvaluationActions.tsx\<close>).\<close>

record MenuAction =
  ma_kind :: ActionKind
  ma_label :: string
  ma_disabledReason :: "string option"

definition action_label :: "ActionKind \<Rightarrow> string" where
  "action_label k = (case k of ActInvalidate \<Rightarrow> ''Invalidate'' | ActOverride \<Rightarrow> ''Override result''
     | ActBaseline \<Rightarrow> ''Pin Baseline'' | ActReEvaluate \<Rightarrow> ''Run Evaluations'' | ActRestore \<Rightarrow> ''Restore'')"

definition menu_action :: "ActionKind \<Rightarrow> string option \<Rightarrow> MenuAction" where
  "menu_action k reason = \<lparr>ma_kind = k, ma_label = action_label k, ma_disabledReason = reason\<rparr>"

definition getActions :: "MenuAvailability \<Rightarrow> MenuAction list" where
  "getActions flags =
    [menu_action ActInvalidate (if mn_allRowsInvalidated flags
       then Some ''all SLOs in this column are already invalidated'' else None),
     menu_action ActOverride None, menu_action ActBaseline None, menu_action ActReEvaluate None]
    @ (if \<not> mn_noRowsInvalidated flags then [menu_action ActRestore None] else [])"

definition menu_click :: "MenuAction \<Rightarrow> PanelState \<Rightarrow> PanelState" where
  "menu_click a s = (if ma_disabledReason a \<noteq> None then s else s\<lparr>pa_activeAction := Some (ma_kind a)\<rparr>)"

definition popover_key :: "string \<Rightarrow> PanelState \<Rightarrow> PanelState" where
  "popover_key k s = (if pa_activeAction s \<noteq> None \<and> k = ''Escape'' then s\<lparr>pa_activeAction := None\<rparr> else s)"

definition note_badge :: "nat \<Rightarrow> string option" where
  "note_badge annotationCount =
    (if 0 < annotationCount then Some (if 9 < annotationCount then ''9+'' else show_nat annotationCount) else None)"

subsection \<open>The header\<close>

text \<open>The arrow and the dash of the page are written \<open>->\<close> and \<open>-\<close>.\<close>

definition header_asset :: "Evaluation option \<Rightarrow> string option \<Rightarrow> string \<Rightarrow> string" where
  "header_asset ev assetDisplayName assetName =
    (case Option.bind ev (\<lambda>e. as_displayName (ev_assetSnapshot e)) of
       Some n \<Rightarrow> n
     | None \<Rightarrow> nullish (case assetDisplayName of Some n \<Rightarrow> Some n
         | None \<Rightarrow> map_option (\<lambda>e. as_name (ev_assetSnapshot e)) ev) assetName)"

definition header_period :: "ColumnInfo \<Rightarrow> Evaluation option \<Rightarrow> string option" where
  "header_period info ev =
    (if truthy (ci_periodStart info)
     then Some (replace_T (take 16 (the (ci_periodStart info))) @
       (case ev of Some e \<Rightarrow> '' -> '' @ Prelude.slice (dr_to (ev_period e)) 11 16 | None \<Rightarrow> []))
     else None)"

definition sloDisplayNames :: "(string \<times> string option) list \<Rightarrow> (string, string) jsmap" where
  "sloDisplayNames slos = foldl (\<lambda>m (n, dn). if truthy dn then js_set n (the dn) m else m) [] slos"

definition group_label :: "HeatmapSloGroupWire \<Rightarrow> string" where
  "group_label g = nullish (hgw_slo_display_name g) (hgw_slo_name g)"

text \<open>\<open>(ev.sloName && names.get(ev.sloName)) ?? ev.sloName ?? '-'\<close>: an empty name stays empty.\<close>

definition slo_label :: "(string, string) jsmap \<Rightarrow> Evaluation \<Rightarrow> string" where
  "slo_label names e = (case ev_sloName e of
     None \<Rightarrow> ''-''
   | Some n \<Rightarrow> if n = [] then [] else nullish (js_get names n) n)"

definition header_slos :: "PanelData \<Rightarrow> Evaluation option \<Rightarrow> (string, string) jsmap \<Rightarrow> string option" where
  "header_slos d ev names =
    (let groups = (case pd_heatmap d of None \<Rightarrow> [] | Some h \<Rightarrow> ghw_groups h) in
     if 3 < length groups then Some (''SLOs: '' @ show_nat (length groups) @ '' evaluated'')
     else if 1 < length groups then Some (''SLOs: '' @ join '', '' (map group_label groups))
     else case ev of
       Some e \<Rightarrow> Some (''SLO: '' @ slo_label names e @
         (case ev_sloVersion e of Some v \<Rightarrow> '' v'' @ show_int v | None \<Rightarrow> []))
     | None \<Rightarrow> (case groups of [g] \<Rightarrow> Some (''SLO: '' @ group_label g) | _ \<Rightarrow> None))"

definition action_currentResult :: "ColumnInfo \<Rightarrow> Evaluation option \<Rightarrow> Outcome" where
  "action_currentResult info ev =
    (if ci_result info = Invalidated then nullish (map_option ev_outcome ev) Error else ci_result info)"

subsection \<open>Properties of the selection\<close>

lemma expand_effect_selection [simp]:
  "pa_selectedEvalId (expand_effect b d r s) = pa_selectedEvalId s"
  "pa_selectedSlot (expand_effect b d r s) = pa_selectedSlot s"
  by (simp_all add: expand_effect_def split: option.split)

lemma slot_effect_selection [simp]: "pa_selectedEvalId (slot_effect d eff r s) = pa_selectedEvalId s"
  by (simp add: slot_effect_def Let_def split: option.split)

text \<open>
  The evaluation a link names is dropped: the effect that resets the panel for a new asset also runs
  after the first commit, so whatever evaluation the panel is opened with, the one it shows is the default
  one; and while the heatmap is still loading the link has no effect on the state at all.
\<close>

lemma initial_eval_dropped:
  "effectiveEvalId cmp d' (panel_mount cmp expanded d initialEvalId) = defaultEvalId cmp (pd_evals d') \<and>
   panel_mount cmp expanded (d\<lparr>pd_heatmap := None\<rparr>) initialEvalId
     = panel_mount cmp expanded (d\<lparr>pd_heatmap := None\<rparr>) None"
proof
  have "pa_selectedEvalId (panel_mount cmp expanded d initialEvalId) = None"
    by (simp add: panel_mount_def Let_def asset_effect_def)
  then show "effectiveEvalId cmp d' (panel_mount cmp expanded d initialEvalId) = defaultEvalId cmp (pd_evals d')"
    by (simp add: effectiveEvalId_def)
  have "panel_mount cmp expanded (d\<lparr>pd_heatmap := None\<rparr>) i = asset_effect (panel_init i)" for i
    by (simp add: panel_mount_def Let_def expand_effect_def slot_effect_def derived_cell_def)
  moreover have "asset_effect (panel_init initialEvalId) = asset_effect (panel_init None)"
    by (simp add: asset_effect_def panel_init_def)
  ultimately show "panel_mount cmp expanded (d\<lparr>pd_heatmap := None\<rparr>) initialEvalId
     = panel_mount cmp expanded (d\<lparr>pd_heatmap := None\<rparr>) None" by simp
qed

text \<open>What the default is: the latest evaluation that is not invalidated, the latest of all if none.\<close>

lemma cmp_ok_flip: "cmp_ok cmp \<Longrightarrow> cmp_ok (\<lambda>a b. cmp (f b) (f a))"
  unfolding cmp_ok_def by blast

lemma find_sorted:
  assumes "cmp_ok cmp" and "sorted_wrt (\<lambda>a b. cmp a b \<le> 0) xs" and "find P xs = Some x" and "y \<in> set xs" and "P y"
  shows "cmp x y \<le> 0"
  using assms(2-5)
proof (induction xs)
  case (Cons z zs)
  have refl: "cmp w w \<le> 0" for w using assms(1) unfolding cmp_ok_def by blast
  show ?case
  proof (cases "P z")
    case True
    with Cons.prems refl show ?thesis by auto
  next
    case False
    with Cons show ?thesis by auto
  qed
qed simp

lemma hd_sorted: "cmp_ok cmp \<Longrightarrow> sorted_wrt (\<lambda>a b. cmp a b \<le> 0) xs \<Longrightarrow> y \<in> set xs \<Longrightarrow> cmp (hd xs) y \<le> 0"
  using find_sorted [of cmp xs "\<lambda>_. True" "hd xs" y] by (cases xs) auto

text \<open>
  The evaluation shown by default is one of the list; none that is not invalidated starts later, and it
  is invalidated only when all are.
\<close>

lemma defaultEvalId_correct:
  assumes "cmp_ok cmp" and "evals \<noteq> []"
  shows "\<exists>e \<in> set evals. defaultEvalId cmp evals = Some (ev_id e) \<and>
    (ev_invalidated e \<longrightarrow> list_all ev_invalidated evals) \<and>
    (\<forall>e' \<in> set evals. (ev_invalidated e' \<longrightarrow> ev_invalidated e) \<longrightarrow>
      cmp (dr_from (ev_period e')) (dr_from (ev_period e)) \<le> 0)"
proof -
  let ?c = "\<lambda>a b. cmp (dr_from (ev_period b)) (dr_from (ev_period a))"
  let ?s = "sort_cmp ?c evals"
  have ok: "cmp_ok ?c" using cmp_ok_flip [OF assms(1), of "\<lambda>e. dr_from (ev_period e)"] .
  have sorted: "sorted_wrt (\<lambda>a b. ?c a b \<le> 0) ?s" by (rule sorted_sort_cmp [OF ok])
  have ne: "?s \<noteq> []" using assms(2) by (metis length_0_conv length_sort_cmp)
  show ?thesis
  proof (cases "find (\<lambda>e. \<not> ev_invalidated e) ?s")
    case None
    then have inv: "ev_invalidated e" if "e \<in> set evals" for e
      using that by (auto simp: find_None_iff)
    have mem: "hd ?s \<in> set evals" using ne hd_in_set [of ?s] by simp
    have d: "defaultEvalId cmp evals = Some (ev_id (hd ?s))"
      using assms(2) None by (simp add: defaultEvalId_def Let_def)
    have "?c (hd ?s) e' \<le> 0" if "e' \<in> set evals" for e'
      using hd_sorted [OF ok sorted] that by simp
    with mem d inv show ?thesis by (intro bexI [of _ "hd ?s"]) (auto simp: list_all_iff)
  next
    case (Some e)
    then have mem: "e \<in> set evals" and val: "\<not> ev_invalidated e"
      using find_mem [of "\<lambda>e. \<not> ev_invalidated e" ?s e] by simp_all
    have d: "defaultEvalId cmp evals = Some (ev_id e)"
      using assms(2) Some by (simp add: defaultEvalId_def Let_def)
    have "?c e e' \<le> 0" if "e' \<in> set evals" "\<not> ev_invalidated e'" for e'
      using find_sorted [OF ok sorted Some] that by simp
    with mem val d show ?thesis by (intro bexI [of _ e]) auto
  qed
qed

lemma cell_of_eval_Some:
  "cell_of_eval h i = Some c \<Longrightarrow> hcd_slo_evaluation_id c = i \<and> (\<exists>g \<in> set (ghw_groups h). c \<in> set (hgw_cells g))"
  unfolding cell_of_eval_def by (drule find_mem) auto

lemma defaultEvalId_correct_witness:
  "defaultEvalId (\<lambda>a b. 0) [demo_eval ''1'' Pass 100\<lparr>ev_invalidated := True\<rparr>, demo_eval ''2'' Fail 51] = Some ''2''"
proof -
  let ?es = "[demo_eval ''1'' Pass 100\<lparr>ev_invalidated := True\<rparr>, demo_eval ''2'' Fail 51]"
  have "cmp_ok (\<lambda>a b. 0)" by (simp add: cmp_ok_def)
  then obtain e where "e \<in> set ?es" and "defaultEvalId (\<lambda>a b. 0) ?es = Some (ev_id e)"
    and "ev_invalidated e \<longrightarrow> list_all ev_invalidated ?es"
    using defaultEvalId_correct [of "\<lambda>a b. 0" ?es] by blast
  then show ?thesis by (auto simp: demo_eval_def)
qed

lemma truthy_some: "truthy s \<Longrightarrow> \<exists>x. s = Some x \<and> x \<noteq> []"
  by (cases s) simp_all

text \<open>Once a whole column is selected it stays the one derived from the evaluation.\<close>

lemma slot_effect_keeps_column:
  assumes "s' = slot_effect d effective s s"
  shows "selectedColumnEvalId d effective (pa_selectedSlot s') = selectedColumnEvalId d effective (pa_selectedSlot s)"
    and "selectedPeriodStart d effective (pa_selectedSlot s') = selectedPeriodStart d effective (pa_selectedSlot s)"
proof -
  show "selectedColumnEvalId d effective (pa_selectedSlot s') = selectedColumnEvalId d effective (pa_selectedSlot s)"
    using assms by (cases "pa_selectedSlot s"; cases "derived_cell d effective")
      (simp_all add: slot_effect_def selectedColumnEvalId_def Let_def)
  show "selectedPeriodStart d effective (pa_selectedSlot s') = selectedPeriodStart d effective (pa_selectedSlot s)"
    using assms by (cases "pa_selectedSlot s"; cases "derived_cell d effective")
      (simp_all add: slot_effect_def selectedPeriodStart_def Let_def)
qed

subsection \<open>The menu and the scope agree\<close>

lemma scope_option_result:
  assumes "scope_option FilterAll column g = Some slo"
  shows "\<exists>s \<in> set (hg_summary g). hs_evaluationId s = column \<and>
    outcomeFromHeatmapResult (hs_result s) = Some (sop_currentResult slo)"
proof -
  from assms obtain s where s: "find (\<lambda>c. hs_evaluationId c = column) (hg_summary g) = Some s"
    by (cases "find (\<lambda>c. hs_evaluationId c = column) (hg_summary g)") (simp_all add: scope_option_def)
  with assms obtain oc where oc: "outcomeFromHeatmapResult (hs_result s) = Some oc"
    by (cases "outcomeFromHeatmapResult (hs_result s)") (simp_all add: scope_option_def)
  with s assms have "sop_currentResult slo = oc"
    by (cases "find (\<lambda>c. hi_evaluationId c = column) (hg_cells g)") (auto simp: scope_option_def)
  with oc find_mem [OF s] show ?thesis by blast
qed

lemma outcome_invalidated: "outcomeFromHeatmapResult r = Some oc \<Longrightarrow> oc = ScopeInvalidated \<longleftrightarrow> r = ResInvalidated"
  by (cases r) auto

lemma available_result:
  assumes "slo \<in> set (availableSlos (panel_scope_args d column single))"
  shows "\<exists>h g s. scopeHeatmapData (pd_heatmap d) = Some h \<and> truthy column \<and> g \<in> set (gm_groups h) \<and>
    s \<in> set (hg_summary g) \<and> hs_evaluationId s = the column \<and>
    (sop_currentResult slo = ScopeInvalidated \<longleftrightarrow> hs_result s = ResInvalidated)"
proof -
  from assms obtain h where "scopeHeatmapData (pd_heatmap d) = Some h" and "truthy column"
    and "slo \<in> set (List.map_filter (scope_option FilterAll (the column)) (gm_groups h))"
    by (cases "scopeHeatmapData (pd_heatmap d)")
      (simp_all add: availableSlos_def panel_scope_args_def split: if_splits)
  moreover from this(3) obtain g where "g \<in> set (gm_groups h)" and "scope_option FilterAll (the column) g = Some slo"
    by (auto simp: List.map_filter_def)
  moreover from this(2) obtain s where "s \<in> set (hg_summary g)" "hs_evaluationId s = the column"
    and "outcomeFromHeatmapResult (hs_result s) = Some (sop_currentResult slo)"
    using scope_option_result by blast
  ultimately show ?thesis using outcome_invalidated by blast
qed

lemma menu_matches_available:
  fixes d column single
  defines "menu \<equiv> menuAvailability (scopeHeatmapData (pd_heatmap d)) column"
    and "slos \<equiv> availableSlos (panel_scope_args d column single)"
  shows "(mn_allRowsInvalidated menu \<longrightarrow> list_all (\<lambda>slo. sop_currentResult slo = ScopeInvalidated) slos) \<and>
    (mn_noRowsInvalidated menu \<longrightarrow> list_all (\<lambda>slo. sop_currentResult slo \<noteq> ScopeInvalidated) slos) \<and>
    (mn_allRowsInvalidated menu \<longrightarrow> \<not> mn_noRowsInvalidated menu) \<and>
    (\<not> truthy column \<longrightarrow> slos = [] \<and> menu = \<lparr>mn_allRowsInvalidated = False, mn_noRowsInvalidated = True\<rparr>)"
proof (cases "truthy column \<and> pd_heatmap d \<noteq> None")
  case False
  then show ?thesis
    by (auto simp: menu_def slos_def menuAvailability_def availableSlos_def panel_scope_args_def
        scopeHeatmapData_def Let_def split: option.split)
next
  case True
  then obtain h where h: "scopeHeatmapData (pd_heatmap d) = Some h" by (auto simp: scopeHeatmapData_def)
  define rows where "rows = concat (map (\<lambda>g. filter (\<lambda>s. hs_evaluationId s = the column) (hg_summary g)) (gm_groups h))"
  have menu: "menu = (if rows = [] then \<lparr>mn_allRowsInvalidated = False, mn_noRowsInvalidated = True\<rparr>
      else \<lparr>mn_allRowsInvalidated = list_all (\<lambda>s. hs_result s = ResInvalidated) rows,
            mn_noRowsInvalidated = list_all (\<lambda>s. hs_result s \<noteq> ResInvalidated) rows\<rparr>)"
    using True h by (simp add: menu_def menuAvailability_def Let_def rows_def)
  have row: "\<exists>s \<in> set rows. sop_currentResult slo = ScopeInvalidated \<longleftrightarrow> hs_result s = ResInvalidated"
    if "slo \<in> set slos" for slo
    using available_result [OF that [unfolded slos_def]] h by (auto simp: rows_def)
  then have "rows = [] \<longrightarrow> slos = []" by (cases slos) fastforce+
  with menu row True show ?thesis
    by (cases rows) (auto simp: list_all_iff)
qed


definition demo_wire_cell :: "string \<Rightarrow> string \<Rightarrow> string \<Rightarrow> HeatmapCellWire" where
  "demo_wire_cell column sloEval periodStart = \<lparr>hcd_evaluation_id = column, hcd_slo_evaluation_id = sloEval,
     hcd_period_start = periodStart, hcd_metric = ''rt'', hcd_display_name = ''rt'', hcd_result = ''pass'',
     hcd_score = 100, hcd_change_point = None, hcw_value = Some 1, hcw_compared_value = None,
     hcw_change_absolute = None, hcw_change_relative_pct = None, hcw_weight = None, hcw_key_sli = None,
     hcw_pass_targets = None, hcw_warning_targets = None, hcw_tab_group = None, hcw_aggregation = None\<rparr>"

definition demo_wire_summary :: "string \<Rightarrow> bool \<Rightarrow> HeatmapSummaryWire" where
  "demo_wire_summary column invalid = \<lparr>hsd_evaluation_id = column, hsd_period_start = ''t0'', hsd_result = ''pass'',
     hsd_score = 100, hsd_invalidated = invalid, hsd_invalidation_note = None, hsd_total_score_pass_threshold = None,
     hsd_total_score_warning_threshold = None, hsw_sli_metadata = None, hsw_slo_version = None,
     hsw_sli_version = None\<rparr>"

definition demo_wire :: GroupedHeatmapWire where
  "demo_wire = \<lparr>ghw_asset_name = ''vm'', ghw_columns = [],
     ghw_groups = [\<lparr>hgw_slo_name = ''a'', hgw_slo_display_name = None,
       hgw_metrics = [\<lparr>hm_name = ''rt'', hm_displayName = ''rt''\<rparr>],
       hgw_cells = [demo_wire_cell ''run1'' ''a1'' ''t0'', demo_wire_cell ''run2'' ''a2'' ''t0''],
       hgw_summary = [demo_wire_summary ''run1'' True, demo_wire_summary ''run2'' False]\<rparr>],
     ghw_composite = [demo_wire_summary ''run1'' False, demo_wire_summary ''run2'' False]\<rparr>"


end
