(* ===== verification/PanelViews.thy ===== *)
theory PanelViews
  imports AssetPanel
begin

text \<open>
  The two views of the asset panel and the heatmap inside (\<open>AssetHeatmap.tsx\<close>,
  \<open>AssetPanelHeatmapView.tsx\<close>, \<open>AssetPanelChartView.tsx\<close>, \<open>EvaluationNameFilter.tsx\<close>,
  \<open>MetricGroupFilter.tsx\<close>): what they show of the heatmap data, and the slot a click on a cell, on a point
  of a trend chart or on a point of the score chart selects.
\<close>

abbreviation cells_of :: "GroupedHeatmapWire \<Rightarrow> HeatmapCellWire list" where
  "cells_of h \<equiv> concat (map hgw_cells (ghw_groups h))"

subsection \<open>The heatmap\<close>

definition slots :: "GroupedHeatmapWire \<Rightarrow> string list" where
  "slots h = map ecd_evaluation_id (ghw_columns h)"

definition slotLabels :: "GroupedHeatmapWire \<Rightarrow> (string, string) jsmap" where
  "slotLabels h = foldl (\<lambda>m c. js_set (ecd_evaluation_id c) (ecd_period_start c) m) [] (ghw_columns h)"

definition formatColumnLabel :: "(string \<Rightarrow> string) \<Rightarrow> GroupedHeatmapWire \<Rightarrow> string \<Rightarrow> string" where
  "formatColumnLabel format_date h slot = format_date (nullish (js_get (slotLabels h) slot) slot)"

definition sortedGroups :: "(string \<Rightarrow> string \<Rightarrow> int) \<Rightarrow> GroupedHeatmapWire \<Rightarrow> HeatmapSloGroupWire list" where
  "sortedGroups localeCompare h =
    sort_cmp (\<lambda>a b. localeCompare (hgw_slo_name a) (hgw_slo_name b)) (ghw_groups h)"

definition view_group :: "HeatmapSloGroupWire \<Rightarrow> SloGroupDto" where
  "view_group g = \<lparr>sgd_slo_name = hgw_slo_name g, sgd_slo_display_name = hgw_slo_display_name g,
     sgd_metrics = hgw_metrics g, sgd_cells = map HeatmapCellGroupedDto.truncate (hgw_cells g),
     sgd_summary = map HeatmapSummaryCellDto.truncate (hgw_summary g)\<rparr>"

definition overallView :: "GroupedHeatmapWire \<Rightarrow> MiniHeatmapView" where
  "overallView h = overallScoreToMiniView (ghw_columns h) (map HeatmapSummaryCellDto.truncate (ghw_composite h))"

definition sloViews ::
    "(string \<Rightarrow> string \<Rightarrow> int) \<Rightarrow> GroupedHeatmapWire \<Rightarrow> (string, bool) jsmap \<Rightarrow> (string \<times> MiniHeatmapView) list" where
  "sloViews localeCompare h expandState = map (\<lambda>g. (hgw_slo_name g,
     sloGroupToMiniView (view_group g) (ghw_columns h) (nullish (js_get expandState (hgw_slo_name g)) False)))
     (sortedGroups localeCompare h)"

definition find_index :: "('a \<Rightarrow> bool) \<Rightarrow> 'a list \<Rightarrow> nat option" where
  "find_index P xs = (let i = length (takeWhile (\<lambda>x. \<not> P x) xs) in if i < length xs then Some i else None)"

definition selectedColumn :: "GroupedHeatmapWire \<Rightarrow> string option \<Rightarrow> nat option" where
  "selectedColumn h selectedEvalId =
    (if \<not> truthy selectedEvalId then None
     else find_index (\<lambda>col. list_ex (\<lambda>g. list_ex (\<lambda>c. hcd_slo_evaluation_id c = the selectedEvalId \<and>
       hcd_evaluation_id c = ecd_evaluation_id col) (hgw_cells g)) (ghw_groups h)) (ghw_columns h))"

text \<open>What a click on a cell does, in order; the panel always passes \<open>onSlotSelect\<close> and \<open>onMetricClick\<close>.\<close>

datatype cell_action = ToggleRow string | MetricClick string string | SelectSlot TimeSlotSelection

definition onCellClick :: "GroupedHeatmapWire \<Rightarrow> nat option \<Rightarrow> HeatmapEChartsCell \<Rightarrow> cell_action list" where
  "onCellClick h selColumn cell =
    (if hc_isSloHeader cell \<and> truthy (hc_sloName cell) then [ToggleRow (the (hc_sloName cell))] else []) @
    (if \<not> hc_isSloHeader cell \<and> truthy (hc_metricName cell) \<and> truthy (hc_sloName cell) \<and>
        selColumn = Some (fst (hc_value cell))
     then [MetricClick (the (hc_metricName cell)) (the (hc_sloName cell))] else []) @
    (let evalIds = (if truthy (hc_columnKey cell) then column_slo_evals h (the (hc_columnKey cell)) else []) in
     if evalIds = [] then []
     else [SelectSlot \<lparr>tss_periodStart = hc_periodStart cell, tss_evalIds = evalIds,
       tss_columnEvalId = hc_columnKey cell,
       tss_specificSloEvalId = (if \<not> hc_isSloHeader cell \<and> truthy (hc_evalId cell) then hc_evalId cell else None)\<rparr>])"

definition needsLazy :: "bool \<Rightarrow> MiniHeatmapView \<Rightarrow> bool" where
  "needsLazy isExpanded view \<longleftrightarrow> isExpanded \<and> 3 < length (mv_rows view)"

definition estimateHeight :: "nat \<Rightarrow> nat" where
  "estimateHeight rowCount = rowCount * 28"

subsection \<open>The heatmap view\<close>

record ColumnRef =
  cr_columnEvalId :: string
  cr_periodStart :: string

definition column_ref :: "HeatmapCellWire \<Rightarrow> ColumnRef" where
  "column_ref c = \<lparr>cr_columnEvalId = hcd_evaluation_id c, cr_periodStart = hcd_period_start c\<rparr>"

definition sloEvalIdToColumn :: "GroupedHeatmapWire \<Rightarrow> (string, ColumnRef) jsmap" where
  "sloEvalIdToColumn h = foldl (\<lambda>m c. if js_get m (hcd_slo_evaluation_id c) = None
     then js_set (hcd_slo_evaluation_id c) (column_ref c) m else m) [] (cells_of h)"

text \<open>The loop that collects, per key, the distinct SLO evaluations of the cells.\<close>

definition ids_by :: "(HeatmapCellWire \<Rightarrow> string) \<Rightarrow> HeatmapCellWire list \<Rightarrow> (string, string list) jsmap" where
  "ids_by k cs = foldl (\<lambda>m c. let ids = nullish (js_get m (k c)) [] in
     js_set (k c) (if hcd_slo_evaluation_id c \<in> set ids then ids else ids @ [hcd_slo_evaluation_id c]) m) [] cs"

definition columnSloEvalIdsByColumn :: "GroupedHeatmapWire \<Rightarrow> (string, string list) jsmap" where
  "columnSloEvalIdsByColumn h = ids_by hcd_evaluation_id (cells_of h)"

definition heatmap_trendClick :: "GroupedHeatmapWire \<Rightarrow> string \<Rightarrow> click_report" where
  "heatmap_trendClick h evalId = (case js_get (sloEvalIdToColumn h) evalId of
     None \<Rightarrow> EvalSelect evalId
   | Some col \<Rightarrow> SlotSelect \<lparr>tss_periodStart = cr_periodStart col,
       tss_evalIds = nullish (js_get (columnSloEvalIdsByColumn h) (cr_columnEvalId col)) [evalId],
       tss_columnEvalId = Some (cr_columnEvalId col), tss_specificSloEvalId = None\<rparr>)"

record SloBreakdownGroup =
  sbg_slo_name :: string
  sbg_slo_display_name :: "string option"
  sbg_indicators :: "Indicator list"
  sbg_score :: int
  sbg_result :: string
  sbg_achieved_points :: rat
  sbg_total_points :: rat
  sbg_slo_version :: "int option"
  sbg_sli_version :: "int option"
  sbg_sliMetadata :: "(string, SliMetadata) jsmap option"

definition breakdown_indicator :: "HeatmapCellWire \<Rightarrow> Indicator" where
  "breakdown_indicator c =
    \<lparr>in_metric = hcd_metric c, in_displayName = hcd_display_name c, in_tabGroup = hcw_tab_group c,
     in_value = Some (nullish (hcw_value c) 0), in_comparedValue = hcw_compared_value c,
     in_changeAbsolute = hcw_change_absolute c, in_changeRelativePct = hcw_change_relative_pct c,
     in_aggregation = Some (nullish (hcw_aggregation c) []), in_status = hcd_result c, in_score = hcd_score c,
     in_weight = nullish (hcw_weight c) 1, in_keySli = nullish (hcw_key_sli c) False,
     in_passTargets = map dtoToPassTarget (nullish (hcw_pass_targets c) []),
     in_warningTargets = map dtoToPassTarget (nullish (hcw_warning_targets c) []),
     in_changePoint = changePointToMarker (hcd_change_point c)\<rparr>"

definition breakdown_group :: "string \<Rightarrow> HeatmapSloGroupWire \<Rightarrow> SloBreakdownGroup" where
  "breakdown_group column g =
    (let summary = column_summary column g;
         indicators = map breakdown_indicator (filter (\<lambda>c. hcd_evaluation_id c = column) (hgw_cells g));
         sliMetadata = obj_map dtoToSliMetadata (nullish (Option.bind summary hsw_sli_metadata) [])
     in \<lparr>sbg_slo_name = hgw_slo_name g, sbg_slo_display_name = hgw_slo_display_name g,
         sbg_indicators = indicators, sbg_score = js_round (nullish (map_option hsd_score summary) 0),
         sbg_result = (case summary of None \<Rightarrow> ''none''
           | Some s \<Rightarrow> if hsd_invalidated s then ''invalidated'' else hsd_result s),
         sbg_achieved_points = foldl (\<lambda>acc i. acc + in_score i) 0 indicators,
         sbg_total_points = foldl (\<lambda>acc i. acc + in_weight i) 0 indicators,
         sbg_slo_version = Option.bind summary hsw_slo_version,
         sbg_sli_version = Option.bind summary hsw_sli_version,
         sbg_sliMetadata = (if sliMetadata \<noteq> [] then Some sliMetadata else None)\<rparr>)"

definition breakdownGroups ::
    "(string \<Rightarrow> string \<Rightarrow> int) \<Rightarrow> GroupedHeatmapWire option \<Rightarrow> string option \<Rightarrow> SloBreakdownGroup list" where
  "breakdownGroups localeCompare heatmap column = (case heatmap of None \<Rightarrow> [] | Some h \<Rightarrow>
     if truthy column then map (breakdown_group (the column)) (sortedGroups localeCompare h) else [])"

text \<open>DOM ids, and what scrolling to one does: expand the group, then look the id up.\<close>

definition rowIdPrefixFor :: "string \<Rightarrow> string" where
  "rowIdPrefixFor sloName = ''row-'' @ sloName @ ''::''"

definition trendIdFor :: "string \<Rightarrow> string \<Rightarrow> string" where
  "trendIdFor sloName metric = ''trend-'' @ sloName @ ''::'' @ metric"

definition scroll_expand :: "string \<Rightarrow> PanelState \<Rightarrow> PanelState" where
  "scroll_expand sloName s =
    (if nullish (js_get (pa_sloExpandState s) sloName) False then s else handleSloToggle sloName s)"

definition trend_fetch_enabled :: "PanelState \<Rightarrow> bool \<Rightarrow> SloBreakdownGroup \<Rightarrow> bool" where
  "trend_fetch_enabled s inView g \<longleftrightarrow>
    sbg_indicators g \<noteq> [] \<and> nullish (js_get (pa_sloExpandState s) (sbg_slo_name g)) False \<and> inView"

subsection \<open>The chart view\<close>

text \<open>A point of the score chart: the parts of the evaluation the chart and its click read.\<close>

record ScorePoint =
  sp_id :: string
  sp_from :: string
  sp_to :: string
  sp_outcome :: Outcome
  sp_score :: "rat option"
  sp_invalidated :: bool

definition eval_point :: "Evaluation \<Rightarrow> ScorePoint" where
  "eval_point e = \<lparr>sp_id = ev_id e, sp_from = dr_from (ev_period e), sp_to = dr_to (ev_period e),
     sp_outcome = ev_outcome e, sp_score = ev_score e, sp_invalidated = ev_invalidated e\<rparr>"

definition composite_point :: "Evaluation list \<Rightarrow> HeatmapSummaryWire \<Rightarrow> ScorePoint" where
  "composite_point evals cell =
    (let rep = find (\<lambda>e. dr_from (ev_period e) = hsd_period_start cell) evals in
     \<lparr>sp_id = nullish (map_option ev_id rep) (hsd_evaluation_id cell), sp_from = hsd_period_start cell,
      sp_to = nullish (map_option (\<lambda>e. dr_to (ev_period e)) rep) (hsd_period_start cell),
      sp_outcome = raw_outcome (Some (hsd_result cell)), sp_score = Some (hsd_score cell), sp_invalidated = False\<rparr>)"

definition scoreChartEvals :: "GroupedHeatmapWire option \<Rightarrow> Evaluation list \<Rightarrow> ScorePoint list" where
  "scoreChartEvals heatmap evals = (case heatmap of
     None \<Rightarrow> map eval_point evals
   | Some h \<Rightarrow> if ghw_composite h = [] then map eval_point evals else map (composite_point evals) (ghw_composite h))"

definition slotEvalIds :: "GroupedHeatmapWire \<Rightarrow> (string, string list) jsmap" where
  "slotEvalIds h = ids_by hcd_period_start (cells_of h)"

definition slotColumnEvalId :: "GroupedHeatmapWire \<Rightarrow> (string, string) jsmap" where
  "slotColumnEvalId h = foldl (\<lambda>m c. if js_get m (hcd_period_start c) = None
     then js_set (hcd_period_start c) (hcd_evaluation_id c) m else m) [] (cells_of h)"

definition handleScoreChartClick ::
    "GroupedHeatmapWire \<Rightarrow> Evaluation list \<Rightarrow> string \<Rightarrow> click_report" where
  "handleScoreChartClick h evals evalId = (case find (\<lambda>p. sp_id p = evalId) (scoreChartEvals (Some h) evals) of
     None \<Rightarrow> EvalSelect evalId
   | Some entry \<Rightarrow> SlotSelect \<lparr>tss_periodStart = sp_from entry,
       tss_evalIds = nullish (js_get (slotEvalIds h) (sp_from entry)) [evalId],
       tss_columnEvalId = js_get (slotColumnEvalId h) (sp_from entry), tss_specificSloEvalId = None\<rparr>)"

definition chart_trendClick :: "GroupedHeatmapWire \<Rightarrow> string \<Rightarrow> click_report" where
  "chart_trendClick h evalId = (case js_get (sloEvalIdToColumn h) evalId of
     None \<Rightarrow> EvalSelect evalId
   | Some col \<Rightarrow> SlotSelect \<lparr>tss_periodStart = cr_periodStart col,
       tss_evalIds = nullish (js_get (slotEvalIds h) (cr_periodStart col)) [evalId],
       tss_columnEvalId = Some (cr_columnEvalId col), tss_specificSloEvalId = None\<rparr>)"

definition metricSloMap :: "GroupedHeatmapWire \<Rightarrow> (string, string) jsmap" where
  "metricSloMap h = foldl (\<lambda>m g. foldl (\<lambda>m metric. js_set (hm_name metric) (hgw_slo_name g) m) m (hgw_metrics g))
     [] (ghw_groups h)"

definition metricSloDisplayMap :: "GroupedHeatmapWire \<Rightarrow> (string, string) jsmap" where
  "metricSloDisplayMap h = foldl (\<lambda>m g. foldl (\<lambda>m metric. js_set (hm_name metric) (group_label g) m) m (hgw_metrics g))
     [] (ghw_groups h)"

definition chart_indicator :: "HeatmapMetric \<Rightarrow> Indicator" where
  "chart_indicator m =
    \<lparr>in_metric = hm_name m, in_displayName = hm_displayName m, in_tabGroup = None, in_value = Some 0,
     in_comparedValue = None, in_changeAbsolute = None, in_changeRelativePct = None,
     in_aggregation = Some ''avg'', in_status = ''pass'', in_score = 0, in_weight = 1, in_keySli = False,
     in_passTargets = [], in_warningTargets = [], in_changePoint = None\<rparr>"

definition allIndicators :: "GroupedHeatmapWire \<Rightarrow> Indicator list" where
  "allIndicators h = map chart_indicator
     (filter (\<lambda>m. hm_name m \<noteq> ''__score__'') (concat (map hgw_metrics (ghw_groups h))))"

definition metricGroups :: "Indicator list \<Rightarrow> string list" where
  "metricGroups is = uniq (List.map_filter (\<lambda>i. if truthy (in_tabGroup i) then in_tabGroup i else None) is)"

definition chartIndicators :: "string \<Rightarrow> Indicator list \<Rightarrow> Indicator list" where
  "chartIndicators flt is = (if flt = ''all'' then is else filter (\<lambda>i. in_tabGroup i = Some flt) is)"

text \<open>The trend each indicator's block subscribes to: its SLO (by the metric's name) and its metric.\<close>

definition chart_trends :: "GroupedHeatmapWire \<Rightarrow> string \<Rightarrow> (string \<times> string) list" where
  "chart_trends h flt = map (\<lambda>i. (nullish (js_get (metricSloMap h) (in_metric i)) [], in_metric i))
     (chartIndicators flt (allIndicators h))"

subsection \<open>The filters\<close>

definition name_filter_toggle :: "string \<Rightarrow> string list option \<Rightarrow> string list option" where
  "name_filter_toggle n selected = (case selected of
     None \<Rightarrow> Some [n]
   | Some sel \<Rightarrow>
       if n \<in> set sel then (if length sel \<le> 1 then Some sel else Some (filter (\<lambda>m. m \<noteq> n) sel))
       else Some (sel @ [n]))"

definition metric_group_count :: "Indicator list \<Rightarrow> string \<Rightarrow> nat" where
  "metric_group_count is g = length (filter (\<lambda>i. in_tabGroup i = Some g) is)"

subsection \<open>Properties of the slots\<close>

lemma dedup_by_append:
  "dedup_by f seen (xs @ ys) = dedup_by f seen xs @ dedup_by f (rev (map f (dedup_by f seen xs)) @ seen) ys"
  by (induction f seen xs rule: dedup_by.induct) auto

lemma uniq_snoc: "uniq (xs @ [x]) = (if x \<in> set xs then uniq xs else uniq xs @ [x])"
proof -
  have "set (rev (uniq xs)) = set xs" by simp
  then show ?thesis by (simp add: uniq_def dedup_by_append)
qed

lemma ids_by_get:
  "js_get (ids_by k cs) x =
    (if x \<in> k ` set cs then Some (uniq (map hcd_slo_evaluation_id (filter (\<lambda>c. k c = x) cs))) else None)"
proof (induction cs arbitrary: x rule: rev_induct)
  case (snoc c cs)
  have "nullish (js_get (ids_by k cs) (k c)) [] = uniq (map hcd_slo_evaluation_id (filter (\<lambda>d. k d = k c) cs))"
  proof (cases "k c \<in> k ` set cs")
    case False
    then have "filter (\<lambda>d. k d = k c) cs = []" by (force simp: filter_empty_conv image_iff)
    with snoc False show ?thesis by (simp add: uniq_def)
  qed (use snoc in simp)
  moreover have "ids_by k (cs @ [c]) = (let ids = nullish (js_get (ids_by k cs) (k c)) [] in
      js_set (k c) (if hcd_slo_evaluation_id c \<in> set ids then ids else ids @ [hcd_slo_evaluation_id c]) (ids_by k cs))"
    by (simp add: ids_by_def)
  ultimately show ?case using snoc by (auto simp: js_get_set uniq_snoc Let_def)
qed (simp add: ids_by_def)

lemma column_slo_evals_cells:
  "column_slo_evals h column = uniq (map hcd_slo_evaluation_id (filter (\<lambda>c. hcd_evaluation_id c = column) (cells_of h)))"
  by (simp add: column_slo_evals_def filter_concat map_concat comp_def)

lemma first_fold_get:
  "js_get (foldl (\<lambda>m c. if js_get m (k c) = None then js_set (k c) (g c) m else m) [] cs) x =
    map_option g (find (\<lambda>c. k c = x) cs)"
proof -
  have "js_get (foldl (\<lambda>m c. if js_get m (k c) = None then js_set (k c) (g c) m else m) m0 cs) x =
    (case js_get m0 x of Some v \<Rightarrow> Some v | None \<Rightarrow> map_option g (find (\<lambda>c. k c = x) cs))" for m0
    by (induction cs arbitrary: m0) (auto simp: js_get_set split: option.splits)
  then show ?thesis by simp
qed

lemma sloEvalIdToColumn_get: "js_get (sloEvalIdToColumn h) i = map_option column_ref (cell_of_eval h i)"
  by (simp add: sloEvalIdToColumn_def first_fold_get cell_of_eval_def)

text \<open>The slot of a column: its period start, and its SLO evaluations in the order of the heatmap.\<close>

definition column_slot :: "GroupedHeatmapWire \<Rightarrow> HeatmapCellWire \<Rightarrow> string option \<Rightarrow> TimeSlotSelection" where
  "column_slot h c specific = \<lparr>tss_periodStart = hcd_period_start c,
     tss_evalIds = column_slo_evals h (hcd_evaluation_id c), tss_columnEvalId = Some (hcd_evaluation_id c),
     tss_specificSloEvalId = specific\<rparr>"

lemma cell_of_eval_mem: "cell_of_eval h i = Some c \<Longrightarrow> c \<in> set (cells_of h) \<and> hcd_slo_evaluation_id c = i"
  unfolding cell_of_eval_def by (drule find_mem) simp

lemma column_slo_evals_mem: "c \<in> set (cells_of h) \<Longrightarrow> hcd_slo_evaluation_id c \<in> set (column_slo_evals h (hcd_evaluation_id c))"
  by (auto simp: column_slo_evals_cells)

lemma report_column:
  assumes "hcd_evaluation_id c \<noteq> []" and "c \<in> set (cells_of h)"
  shows "selectedColumnEvalId d effective (pa_selectedSlot (report (SlotSelect (column_slot h c sp)) s))
      = Some (hcd_evaluation_id c) \<and>
    (\<exists>i \<in> set (column_slo_evals h (hcd_evaluation_id c)).
      pa_selectedEvalId (report (SlotSelect (column_slot h c sp)) s) = Some i)"
proof (cases "column_slo_evals h (hcd_evaluation_id c)")
  case Nil
  with column_slo_evals_mem [OF assms(2)] show ?thesis by simp
next
  case (Cons i ids)
  with assms(1) show ?thesis
    by (simp add: handleSlotSelect_def column_slot_def selectedColumnEvalId_def)
qed



text \<open>
  The chart view keys the evaluations of a slot by their period start, which two runs can share; it agrees
  with the heatmap view where the period start determines the run.
\<close>

definition runs_by_period :: "GroupedHeatmapWire \<Rightarrow> bool" where
  "runs_by_period h \<longleftrightarrow> (\<forall>c \<in> set (cells_of h). \<forall>c' \<in> set (cells_of h).
     hcd_period_start c = hcd_period_start c' \<longleftrightarrow> hcd_evaluation_id c = hcd_evaluation_id c')"

lemma chart_trendClick_eq:
  assumes "runs_by_period h"
  shows "chart_trendClick h i = heatmap_trendClick h i"
proof (cases "cell_of_eval h i")
  case (Some c)
  then have c: "c \<in> set (cells_of h)" using cell_of_eval_mem by blast
  with assms have "filter (\<lambda>c'. hcd_period_start c' = hcd_period_start c) (cells_of h) =
      filter (\<lambda>c'. hcd_evaluation_id c' = hcd_evaluation_id c) (cells_of h)"
    unfolding runs_by_period_def by (intro filter_cong) blast+
  with Some c show ?thesis
    by (simp add: heatmap_trendClick_def chart_trendClick_def sloEvalIdToColumn_get column_ref_def
        columnSloEvalIdsByColumn_def slotEvalIds_def ids_by_get)
qed (simp add: heatmap_trendClick_def chart_trendClick_def sloEvalIdToColumn_get)

definition period_slo_evals :: "GroupedHeatmapWire \<Rightarrow> string \<Rightarrow> string list" where
  "period_slo_evals h t = uniq (map hcd_slo_evaluation_id (filter (\<lambda>c. hcd_period_start c = t) (cells_of h)))"

text \<open>
  A click on a trend point in the chart view selects the point's column, but with the SLO evaluations
  of every run of the same period start; it selects the same slot as the heatmap view where no two runs
  share a period start.
\<close>

lemma chart_trendClick_correct:
  "chart_trendClick h i = (case cell_of_eval h i of
     None \<Rightarrow> EvalSelect i
   | Some c \<Rightarrow> SlotSelect ((column_slot h c None)\<lparr>tss_evalIds := period_slo_evals h (hcd_period_start c)\<rparr>)) \<and>
   (runs_by_period h \<longrightarrow> chart_trendClick h i = heatmap_trendClick h i)"
proof
  show "chart_trendClick h i = (case cell_of_eval h i of
     None \<Rightarrow> EvalSelect i
   | Some c \<Rightarrow> SlotSelect ((column_slot h c None)\<lparr>tss_evalIds := period_slo_evals h (hcd_period_start c)\<rparr>))"
  proof (cases "cell_of_eval h i")
    case (Some c)
    with cell_of_eval_mem have "hcd_period_start c \<in> hcd_period_start ` set (cells_of h)" by blast
    with Some show ?thesis
      by (simp add: chart_trendClick_def sloEvalIdToColumn_get column_ref_def slotEvalIds_def
          ids_by_get period_slo_evals_def column_slot_def)
  qed (simp add: chart_trendClick_def sloEvalIdToColumn_get)
  show "runs_by_period h \<longrightarrow> chart_trendClick h i = heatmap_trendClick h i"
    using chart_trendClick_eq by blast
qed

text \<open>
  Two runs of one period: the click on the second run's point leaves the panel with the first run's
  evaluation under the second run's column.
\<close>

lemma chart_trendClick_correct_witness:
  "\<not> runs_by_period demo_wire \<and>
   pa_selectedEvalId (report (chart_trendClick demo_wire ''a2'') (panel_init None)) = Some ''a1'' \<and>
   selectedColumnEvalId \<lparr>pd_evals = [], pd_heatmap = None\<rparr> None
     (pa_selectedSlot (report (chart_trendClick demo_wire ''a2'') (panel_init None))) = Some ''run2''"
proof -
  have c: "cell_of_eval demo_wire ''a2'' = Some (demo_wire_cell ''run2'' ''a2'' ''t0'')"
    by (simp add: cell_of_eval_def demo_wire_def demo_wire_cell_def)
  have e: "period_slo_evals demo_wire (hcd_period_start (demo_wire_cell ''run2'' ''a2'' ''t0'')) = [''a1'', ''a2'']"
    by (simp add: period_slo_evals_def demo_wire_def demo_wire_cell_def uniq_def)
  have r: "\<not> runs_by_period demo_wire"
    by (simp add: runs_by_period_def demo_wire_def demo_wire_cell_def)
  have "chart_trendClick demo_wire ''a2'' = SlotSelect
      ((column_slot demo_wire (demo_wire_cell ''run2'' ''a2'' ''t0'') None)\<lparr>tss_evalIds := [''a1'', ''a2'']\<rparr>)"
    using chart_trendClick_correct [of demo_wire "''a2''"] by (simp add: c e)
  with r show ?thesis
    by (simp add: handleSlotSelect_def column_slot_def selectedColumnEvalId_def demo_wire_cell_def)
qed

subsection \<open>Metrics of several SLOs\<close>

lemma metricSloMap_get:
  "js_get (metricSloMap h) m =
    map_option hgw_slo_name (find (\<lambda>g. m \<in> hm_name ` set (hgw_metrics g)) (rev (ghw_groups h)))"
proof -
  have inner: "js_get (foldl (\<lambda>m' metric. js_set (hm_name metric) v m') m0 ms) m =
      (if m \<in> hm_name ` set ms then Some v else js_get m0 m)" for v :: string and m0 ms
    by (induction ms rule: rev_induct) (auto simp: js_get_set)
  have "js_get (foldl (\<lambda>m' g. foldl (\<lambda>m' metric. js_set (hm_name metric) (hgw_slo_name g) m') m' (hgw_metrics g)) [] gs) m =
      map_option hgw_slo_name (find (\<lambda>g. m \<in> hm_name ` set (hgw_metrics g)) (rev gs))" for gs
    by (induction gs rule: rev_induct) (auto simp: inner)
  then show ?thesis by (simp add: metricSloMap_def)
qed

text \<open>
  The chart view shows one chart for each metric of each SLO, but subscribes each to the last SLO that
  has a metric of that name: when two SLOs share a metric name, both charts show the second one's trend.
\<close>

lemma chart_trends_last_slo:
  "chart_trends h ''all'' = map (\<lambda>m. (the (map_option hgw_slo_name
       (find (\<lambda>g. m \<in> hm_name ` set (hgw_metrics g)) (rev (ghw_groups h)))), m))
     (filter (\<lambda>m. m \<noteq> ''__score__'') (map hm_name (concat (map hgw_metrics (ghw_groups h)))))"
proof -
  have "nullish (js_get (metricSloMap h) (hm_name m)) [] = the (map_option hgw_slo_name
      (find (\<lambda>g. hm_name m \<in> hm_name ` set (hgw_metrics g)) (rev (ghw_groups h))))"
    if "m \<in> set (concat (map hgw_metrics (ghw_groups h)))" for m
  proof -
    from that obtain g where "g \<in> set (rev (ghw_groups h))" "hm_name m \<in> hm_name ` set (hgw_metrics g)" by auto
    then have "find (\<lambda>g. hm_name m \<in> hm_name ` set (hgw_metrics g)) (rev (ghw_groups h)) \<noteq> None"
      unfolding find_None_iff by blast
    then show ?thesis by (auto simp: metricSloMap_get)
  qed
  then show ?thesis
    by (simp add: chart_trends_def chartIndicators_def allIndicators_def chart_indicator_def filter_map comp_def)
qed

subsection \<open>Breakdown groups and the name filter\<close>

text \<open>The breakdown's points are the sums of its indicators; its headline result is the column's.\<close>

lemma foldl_sum: "foldl (\<lambda>acc x. acc + f x) a xs = a + sum_list (map f xs)" for a :: rat
  by (induction xs arbitrary: a) (simp_all add: add.assoc)

lemma breakdown_points:
  "sbg_achieved_points (breakdown_group column g) =
    sum_list (map hcd_score (filter (\<lambda>c. hcd_evaluation_id c = column) (hgw_cells g)))"
  by (simp add: breakdown_group_def foldl_sum Let_def breakdown_indicator_def comp_def)

text \<open>The filter never selects no name at all.\<close>

lemma name_filter_nonempty:
  assumes "distinct s" and "s \<noteq> []"
  shows "\<exists>t. name_filter_toggle n (Some s) = Some t \<and> t \<noteq> [] \<and> distinct t"
proof (cases "n \<in> set s \<and> 1 < length s")
  case True
  then have "filter (\<lambda>m. m \<noteq> n) s \<noteq> []"
    using assms(1) by (cases s; cases "tl s") auto
  with True assms(1) show ?thesis by (auto simp: name_filter_toggle_def)
next
  case False
  with assms show ?thesis by (auto simp: name_filter_toggle_def)
qed

end
