(* ===== verification/SloWizard.thy ===== *)
theory SloWizard
  imports Hooks
begin

text \<open>
  The wizard that creates and edits SLO definitions (\<open>features/registry/forms/SloWizard.tsx\<close> and its steps):
  how an existing SLO fills the form, how the linked SLI is merged into it, the edits of each step, when it
  may be submitted, and the request it sends. The middle dot of a title is the character \<open>0xB7\<close>.
\<close>

subsection \<open>The data of the steps\<close>

record IdentityData =
  id_name :: string
  id_display_name :: string
  id_author :: string
  id_notes :: string

record PickSliData =
  ps_sliName :: string
  ps_sliVersion :: "int option"
  ps_indicators :: str_obj

record IndicatorRow =
  ir_sli :: string
  ir_checked :: bool
  ir_weight :: rat
  ir_key_sli :: bool
  ir_passCriteria :: "CriteriaParts list"
  ir_warnCriteria :: "CriteriaParts list"

record ComparisonData =
  co_compare_count :: int
  co_aggregate_function :: string
  co_include_result_with_score :: string
  co_pass_threshold :: rat
  co_warn_criteria :: rat
  co_tags :: "TagRow list"
  co_variables :: "TagRow list"

definition buildIdentityFromEdit :: "Slo \<Rightarrow> IdentityData" where
  "buildIdentityFromEdit s = \<lparr>id_name = slo_name s, id_display_name = nullish (slo_displayName s) [],
     id_author = nullish (slo_author s) [], id_notes = nullish (slo_notes s) []\<rparr>"

definition edit_criteria :: "string list \<Rightarrow> CriteriaParts list" where
  "edit_criteria cs = (if 0 < length cs then map (\<lambda>c. nullish (parseCriteria c) DEFAULT_CRITERIA) cs
     else [DEFAULT_CRITERIA])"

definition row_from_objective :: "SloObjective \<Rightarrow> IndicatorRow" where
  "row_from_objective ob = \<lparr>ir_sli = so_sli ob, ir_checked = True, ir_weight = so_weight ob,
     ir_key_sli = so_keySli ob, ir_passCriteria = edit_criteria (so_passThreshold ob),
     ir_warnCriteria = edit_criteria (so_warningThreshold ob)\<rparr>"

definition buildIndicatorRowsFromEdit :: "Slo \<Rightarrow> IndicatorRow list" where
  "buildIndicatorRowsFromEdit s = map row_from_objective (slo_objectives s)"

definition buildComparisonFromEdit :: "Slo \<Rightarrow> ComparisonData" where
  "buildComparisonFromEdit s = (let comp = slo_comparison s in
     \<lparr>co_compare_count = nullish (sc_numberOfComparisonResults comp) 3,
      co_aggregate_function = nullish (sc_aggregateFunction comp) ''avg'',
      co_include_result_with_score = nullish (sc_includeResultWithScore comp) ''pass_or_warn'',
      co_pass_threshold = slo_totalScorePassThreshold s, co_warn_criteria = slo_totalScoreWarningThreshold s,
      co_tags = tagsToRows (slo_tags s), co_variables = tagsToRows (slo_variables s)\<rparr>)"

definition default_comparison :: ComparisonData where
  "default_comparison = \<lparr>co_compare_count = 3, co_aggregate_function = ''avg'',
     co_include_result_with_score = ''pass_or_warn'', co_pass_threshold = 90, co_warn_criteria = 75,
     co_tags = [], co_variables = []\<rparr>"

subsection \<open>State\<close>

record WizardState =
  wz_edit :: "Slo option"
  wz_defaultKind :: "string option"
  wz_identity :: IdentityData
  wz_pickSli :: PickSliData
  wz_rows :: "IndicatorRow list"
  wz_methodCriteria :: "(string, MethodCriteriaOverride) jsmap"
  wz_comparison :: ComparisonData
  wz_templateWarning :: bool
  wz_sliMerged :: bool
  wz_autoSelected :: bool

definition wizard_mount :: "Slo option \<Rightarrow> string option \<Rightarrow> WizardState" where
  "wizard_mount editSlo defaultKind =
    \<lparr>wz_edit = editSlo, wz_defaultKind = defaultKind,
     wz_identity = (case editSlo of Some s \<Rightarrow> buildIdentityFromEdit s
       | None \<Rightarrow> \<lparr>id_name = [], id_display_name = [], id_author = [], id_notes = []\<rparr>),
     wz_pickSli = (case editSlo of
         Some s \<Rightarrow> \<lparr>ps_sliName = nullish (slo_sliName s) [], ps_sliVersion = slo_sliVersion s,
           ps_indicators = foldl (\<lambda>m ob. js_set (so_sli ob) [] m) [] (slo_objectives s)\<rparr>
       | None \<Rightarrow> \<lparr>ps_sliName = [], ps_sliVersion = None, ps_indicators = []\<rparr>),
     wz_rows = (case editSlo of Some s \<Rightarrow> buildIndicatorRowsFromEdit s | None \<Rightarrow> []),
     wz_methodCriteria = (case editSlo of Some s \<Rightarrow> nullish (slo_methodCriteria s) [] | None \<Rightarrow> []),
     wz_comparison = (case editSlo of Some s \<Rightarrow> buildComparisonFromEdit s | None \<Rightarrow> default_comparison),
     wz_templateWarning = False, wz_sliMerged = False, wz_autoSelected = False\<rparr>"

definition wizard_kind :: "WizardState \<Rightarrow> string" where
  "wizard_kind w = (case wz_edit w of Some s \<Rightarrow> slo_kind s | None \<Rightarrow> nullish (wz_defaultKind w) ''standard'')"

subsection \<open>Merging the SLI\<close>

definition fresh_row :: "string \<Rightarrow> IndicatorRow" where
  "fresh_row n = \<lparr>ir_sli = n, ir_checked = False, ir_weight = 1, ir_key_sli = False,
     ir_passCriteria = [DEFAULT_CRITERIA], ir_warnCriteria = [DEFAULT_CRITERIA]\<rparr>"

definition merge_rows :: "string list \<Rightarrow> IndicatorRow list \<Rightarrow> IndicatorRow list" where
  "merge_rows names prev = map (\<lambda>n. nullish (find (\<lambda>r. ir_sli r = n) prev) (fresh_row n)) names"

definition Object_keys :: "(string, 'v) jsmap \<Rightarrow> string list" where
  "Object_keys ob = map fst (Object_entries ob)"

definition sli_query_name :: "WizardState \<Rightarrow> string" where
  "sli_query_name w = (if ps_sliName (wz_pickSli w) \<noteq> [] then ps_sliName (wz_pickSli w)
     else nullish (Option.bind (wz_edit w) slo_sliName) [])"

text \<open>The effect that runs when the SLI of an edited SLO has been fetched, once.\<close>

definition sli_merge_effect :: "Sli option \<Rightarrow> WizardState \<Rightarrow> WizardState" where
  "sli_merge_effect fullSli w = (case fullSli of
     None \<Rightarrow> w
   | Some sli \<Rightarrow>
       if wz_sliMerged w \<or> wz_edit w = None then w
       else w\<lparr>wz_sliMerged := True,
              wz_pickSli := (wz_pickSli w)\<lparr>ps_sliVersion := Some (sli_version sli), ps_indicators := sli_indicators sli\<rparr>,
              wz_rows := merge_rows (Object_keys (sli_indicators sli)) (wz_rows w)\<rparr>)"

definition handlePickSliChange :: "PickSliData \<Rightarrow> WizardState \<Rightarrow> WizardState" where
  "handlePickSliChange d w =
    (let w1 = w\<lparr>wz_pickSli := d\<rparr>; names = Object_keys (ps_indicators d) in
     if 0 < length names then w1\<lparr>wz_rows := merge_rows names (wz_rows w1)\<rparr> else w1)"

text \<open>Step 2: selecting an SLI, the effect that selects one for an edited SLO without, the tag filter.\<close>

definition handleSliSelect :: "Sli list \<Rightarrow> string \<Rightarrow> PickSliData \<Rightarrow> PickSliData" where
  "handleSliSelect sliDefs n d = (let sli = find (\<lambda>s. sli_name s = n) sliDefs in
     d\<lparr>ps_sliName := n, ps_sliVersion := map_option sli_version sli,
       ps_indicators := nullish (map_option sli_indicators sli) []\<rparr>)"

definition auto_select_effect :: "Sli list \<Rightarrow> WizardState \<Rightarrow> WizardState" where
  "auto_select_effect sliDefs w =
    (let editNames = (case wz_edit w of Some s \<Rightarrow> map so_sli (slo_objectives s) | None \<Rightarrow> []) in
     if wz_autoSelected w \<or> editNames = [] \<or> sliDefs = [] \<or> ps_sliName (wz_pickSli w) \<noteq> [] then w
     else case find (\<lambda>sli. list_ex (\<lambda>k. k \<in> set editNames) (Object_keys (sli_indicators sli))) sliDefs of
       None \<Rightarrow> w
     | Some m \<Rightarrow> handlePickSliChange
         ((wz_pickSli w)\<lparr>ps_sliName := sli_name m, ps_sliVersion := Some (sli_version m),
            ps_indicators := sli_indicators m\<rparr>) (w\<lparr>wz_autoSelected := True\<rparr>))"

definition filteredSlis :: "str_obj \<Rightarrow> Sli list \<Rightarrow> Sli list" where
  "filteredSlis selectedTags sliDefs =
    filter (\<lambda>sli. list_all (\<lambda>(k, v). js_get (sli_tags sli) k = Some v) (Object_entries selectedTags)) sliDefs"

definition obj_delete :: "string \<Rightarrow> (string, 'v) jsmap \<Rightarrow> (string, 'v) jsmap" where
  "obj_delete k ob = filter (\<lambda>(k', _). k' \<noteq> k) ob"

definition handleTagToggle :: "string \<Rightarrow> string \<Rightarrow> str_obj \<Rightarrow> str_obj" where
  "handleTagToggle k v prev = (if js_get prev k = Some v then obj_delete k prev else obj_set k v prev)"

subsection \<open>Step 3: indicators and criteria\<close>

definition updateRow :: "nat \<Rightarrow> (IndicatorRow \<Rightarrow> IndicatorRow) \<Rightarrow> IndicatorRow list \<Rightarrow> IndicatorRow list" where
  "updateRow i patch rows = map (\<lambda>(j, r). if j = i then patch r else r) (List.enumerate 0 rows)"

definition toggleCheck :: "nat \<Rightarrow> IndicatorRow list \<Rightarrow> IndicatorRow list" where
  "toggleCheck i = updateRow i (\<lambda>r. r\<lparr>ir_checked := \<not> ir_checked r\<rparr>)"

definition addCriterion :: "nat \<Rightarrow> IndicatorRow list \<Rightarrow> IndicatorRow list" where
  "addCriterion i = updateRow i (\<lambda>r. r\<lparr>ir_passCriteria := ir_passCriteria r @ [DEFAULT_CRITERIA],
     ir_warnCriteria := ir_warnCriteria r @ [DEFAULT_CRITERIA]\<rparr>)"

definition drop_nth :: "nat \<Rightarrow> 'a list \<Rightarrow> 'a list" where
  "drop_nth i xs = map snd (filter (\<lambda>(j, _). j \<noteq> i) (List.enumerate 0 xs))"

definition removeCriterion :: "nat \<Rightarrow> nat \<Rightarrow> IndicatorRow list \<Rightarrow> IndicatorRow list" where
  "removeCriterion i ci = updateRow i (\<lambda>r.
     if length (ir_passCriteria r) \<le> 1 then r
     else r\<lparr>ir_passCriteria := drop_nth ci (ir_passCriteria r), ir_warnCriteria := drop_nth ci (ir_warnCriteria r)\<rparr>)"

text \<open>Mapping over the criteria: an index beyond the list changes nothing.\<close>

definition updatePassCriteria :: "nat \<Rightarrow> nat \<Rightarrow> CriteriaParts \<Rightarrow> IndicatorRow list \<Rightarrow> IndicatorRow list" where
  "updatePassCriteria i ci parts = updateRow i (\<lambda>r. r\<lparr>ir_passCriteria := (ir_passCriteria r)[ci := parts]\<rparr>)"

definition updateWarnCriteria :: "nat \<Rightarrow> nat \<Rightarrow> CriteriaParts \<Rightarrow> IndicatorRow list \<Rightarrow> IndicatorRow list" where
  "updateWarnCriteria i ci parts = updateRow i (\<lambda>r. r\<lparr>ir_warnCriteria := (ir_warnCriteria r)[ci := parts]\<rparr>)"

definition shown_warn :: "IndicatorRow \<Rightarrow> nat \<Rightarrow> CriteriaParts" where
  "shown_warn r ci = (if ci < length (ir_warnCriteria r) then ir_warnCriteria r ! ci else DEFAULT_CRITERIA)"

text \<open>The criteria per method of an aggregated SLI (\<open>MethodCriteriaTable.tsx\<close>).\<close>

definition empty_override :: MethodCriteriaOverride where
  "empty_override = \<lparr>mco_method = None, mco_aggregation = None, mco_passThreshold = None,
     mco_warningThreshold = None, mco_weight = None, mco_keySli = None\<rparr>"

definition clean_override :: "string \<Rightarrow> rat \<Rightarrow> MethodCriteriaOverride \<Rightarrow> MethodCriteriaOverride" where
  "clean_override blueprintPass blueprintWeight merged = empty_override
    \<lparr>mco_passThreshold := (case mco_passThreshold merged of
        Some ts \<Rightarrow> if ts = [] \<or> hd ts \<noteq> blueprintPass then Some ts else None | None \<Rightarrow> None),
     mco_weight := (case mco_weight merged of Some w \<Rightarrow> if w \<noteq> blueprintWeight then Some w else None | None \<Rightarrow> None),
     mco_keySli := (if mco_keySli merged = Some True then Some True else None)\<rparr>"

definition updateMethod ::
    "string list \<Rightarrow> rat \<Rightarrow> string \<Rightarrow> (MethodCriteriaOverride \<Rightarrow> MethodCriteriaOverride)
      \<Rightarrow> (string, MethodCriteriaOverride) jsmap \<Rightarrow> (string, MethodCriteriaOverride) jsmap" where
  "updateMethod blueprintPassCriteria blueprintWeight m patch criteria =
    (let blueprintPass = (case blueprintPassCriteria of [] \<Rightarrow> [] | c # _ \<Rightarrow> c);
         merged = patch (nullish (js_get criteria m) empty_override);
         cleaned = clean_override blueprintPass blueprintWeight merged
     in if cleaned \<noteq> empty_override then obj_set m cleaned criteria else obj_delete m criteria)"

record EffectiveCriteria =
  ec_pass :: string
  ec_weight :: rat
  ec_keySli :: bool
  ec_hasPassOverride :: bool
  ec_hasWeightOverride :: bool
  ec_hasKeySliOverride :: bool

definition getEffective :: "string list \<Rightarrow> rat \<Rightarrow> (string, MethodCriteriaOverride) jsmap \<Rightarrow> string \<Rightarrow> EffectiveCriteria" where
  "getEffective blueprintPassCriteria blueprintWeight criteria m =
    (let ovr = nullish (js_get criteria m) empty_override;
         blueprintPass = (case blueprintPassCriteria of [] \<Rightarrow> [] | c # _ \<Rightarrow> c)
     in \<lparr>ec_pass = (case mco_passThreshold ovr of Some (c # _) \<Rightarrow> c | _ \<Rightarrow> blueprintPass),
         ec_weight = nullish (mco_weight ovr) blueprintWeight, ec_keySli = nullish (mco_keySli ovr) False,
         ec_hasPassOverride = (mco_passThreshold ovr \<noteq> None), ec_hasWeightOverride = (mco_weight ovr \<noteq> None),
         ec_hasKeySliOverride = (mco_keySli ovr \<noteq> None)\<rparr>)"

text \<open>The values the overrides are compared with: those of the first checked indicator, without a sign.\<close>

definition blueprint_pass :: "IndicatorRow list \<Rightarrow> string list" where
  "blueprint_pass rows = (case find ir_checked rows of None \<Rightarrow> [''<100'']
     | Some r \<Rightarrow> map (\<lambda>c. op_str (cp_operator c) @ num_string (cp_value c) @ (if cp_percent c then ''%'' else []))
         (ir_passCriteria r))"

definition blueprint_weight :: "IndicatorRow list \<Rightarrow> rat" where
  "blueprint_weight rows = nullish (map_option ir_weight (find ir_checked rows)) 1"

subsection \<open>Step 4: comparison and scoring\<close>

definition updateTag :: "nat \<Rightarrow> (TagRow \<Rightarrow> TagRow) \<Rightarrow> ComparisonData \<Rightarrow> ComparisonData" where
  "updateTag i patch c = c\<lparr>co_tags := map (\<lambda>(j, t). if j = i then patch t else t) (List.enumerate 0 (co_tags c))\<rparr>"

definition updateVariable :: "nat \<Rightarrow> (TagRow \<Rightarrow> TagRow) \<Rightarrow> ComparisonData \<Rightarrow> ComparisonData" where
  "updateVariable i patch c =
    c\<lparr>co_variables := map (\<lambda>(j, t). if j = i then patch t else t) (List.enumerate 0 (co_variables c))\<rparr>"

definition add_tag :: "ComparisonData \<Rightarrow> ComparisonData" where
  "add_tag c = c\<lparr>co_tags := co_tags c @ [\<lparr>tr_key = [], tr_value = []\<rparr>]\<rparr>"

definition remove_tag :: "nat \<Rightarrow> ComparisonData \<Rightarrow> ComparisonData" where
  "remove_tag i c = c\<lparr>co_tags := drop_nth i (co_tags c)\<rparr>"

definition add_variable :: "ComparisonData \<Rightarrow> ComparisonData" where
  "add_variable c = c\<lparr>co_variables := co_variables c @ [\<lparr>tr_key = [], tr_value = []\<rparr>]\<rparr>"

definition remove_variable :: "nat \<Rightarrow> ComparisonData \<Rightarrow> ComparisonData" where
  "remove_variable i c = c\<lparr>co_variables := drop_nth i (co_variables c)\<rparr>"

definition score_bar :: "ComparisonData \<Rightarrow> rat \<times> rat" where
  "score_bar c = (let passPct = max 0 (min 100 (co_pass_threshold c))
     in (passPct, max 0 (min passPct (co_warn_criteria c))))"

subsection \<open>Progressive disclosure and validity\<close>

definition showStep2 :: "WizardState \<Rightarrow> bool" where
  "showStep2 w \<longleftrightarrow> 0 < length (trim_str (id_name (wz_identity w)))"

definition showStep3 :: "WizardState \<Rightarrow> bool" where
  "showStep3 w \<longleftrightarrow> (if wz_edit w \<noteq> None then 0 < length (wz_rows w)
     else 0 < length (Object_keys (ps_indicators (wz_pickSli w))))"

definition showStep4 :: "Sli option \<Rightarrow> WizardState \<Rightarrow> bool" where
  "showStep4 fullSli w \<longleftrightarrow>
    (if map_option sli_mode fullSli = Some ''aggregated'' then True
     else list_ex (\<lambda>r. ir_checked r \<and> list_ex (\<lambda>c. cp_value c \<noteq> Fin 0) (ir_passCriteria r)) (wz_rows w))"

definition checkedRows :: "WizardState \<Rightarrow> IndicatorRow list" where
  "checkedRows w = filter ir_checked (wz_rows w)"

definition wizard_valid :: "WizardState \<Rightarrow> bool" where
  "wizard_valid w \<longleftrightarrow> 0 < length (trim_str (id_name (wz_identity w))) \<and> 0 < length (checkedRows w) \<and>
    list_all (\<lambda>r. 0 < length (ir_passCriteria r)) (checkedRows w)"

subsection \<open>The request\<close>

text \<open>
  The input type of the request has the backend's field names, except that the overrides of the methods
  are the domain's objects. An objective carries its position.
\<close>

record WizardObjective =
  wo_sli :: string
  wo_display_name :: string
  wo_pass_threshold :: "string list"
  wo_warning_threshold :: "string list"
  wo_weight :: rat
  wo_key_sli :: bool
  wo_sort_order :: nat

definition wizard_objective :: "nat \<Rightarrow> IndicatorRow \<Rightarrow> WizardObjective" where
  "wizard_objective i r = \<lparr>wo_sli = ir_sli r, wo_display_name = ir_sli r,
     wo_pass_threshold = map serializeCriteria (ir_passCriteria r),
     wo_warning_threshold = map serializeCriteria (ir_warnCriteria r),
     wo_weight = ir_weight r, wo_key_sli = ir_key_sli r, wo_sort_order = i\<rparr>"

definition wizard_objectives :: "WizardState \<Rightarrow> WizardObjective list" where
  "wizard_objectives w = map (\<lambda>(i, r). wizard_objective i r) (List.enumerate 0 (checkedRows w))"

definition objective_json :: "WizardObjective \<Rightarrow> json" where
  "objective_json ob = json_object
    [(''sli'', Some (JStr (wo_sli ob))), (''display_name'', Some (JStr (wo_display_name ob))),
     (''pass_threshold'', Some (json_strs (wo_pass_threshold ob))),
     (''warning_threshold'', Some (json_strs (wo_warning_threshold ob))),
     (''weight'', Some (JNum (wo_weight ob))), (''key_sli'', Some (JBool (wo_key_sli ob))),
     (''sort_order'', Some (json_int (int (wo_sort_order ob))))]"

definition override_json :: "MethodCriteriaOverride \<Rightarrow> json" where
  "override_json mo = json_object
    [(''method'', map_option JStr (mco_method mo)), (''aggregation'', map_option JStr (mco_aggregation mo)),
     (''passThreshold'', map_option json_strs (mco_passThreshold mo)),
     (''warningThreshold'', map_option json_strs (mco_warningThreshold mo)),
     (''weight'', map_option JNum (mco_weight mo)), (''keySli'', map_option JBool (mco_keySli mo))]"

definition non_empty :: "string \<Rightarrow> json option" where
  "non_empty s = (if s \<noteq> [] then Some (JStr s) else None)"

definition non_empty_obj :: "str_obj \<Rightarrow> json option" where
  "non_empty_obj ob = (if Object_keys ob \<noteq> [] then Some (json_str_obj ob) else None)"

definition wizard_payload :: "WizardState \<Rightarrow> json" where
  "wizard_payload w =
    (let idt = wz_identity w; c = wz_comparison w; mc = wz_methodCriteria w in json_object
    [(''name'', Some (JStr (id_name idt))),
     (''display_name'', non_empty (id_display_name idt)),
     (''author'', non_empty (id_author idt)),
     (''notes'', non_empty (id_notes idt)),
     (''sli_name'', non_empty (ps_sliName (wz_pickSli w))),
     (''sli_version'', map_option json_int (ps_sliVersion (wz_pickSli w))),
     (''objectives'', Some (JArr (map objective_json (wizard_objectives w)))),
     (''method_criteria'', if Object_keys mc \<noteq> []
        then Some (JObj (map (\<lambda>(k, mo). (k, override_json mo)) (Object_entries mc))) else None),
     (''total_score_pass_threshold'', Some (JNum (co_pass_threshold c))),
     (''total_score_warning_threshold'', Some (JNum (co_warn_criteria c))),
     (''comparison'', Some (json_object
        [(''number_of_comparison_results'', Some (json_int (co_compare_count c))),
         (''aggregate_function'', Some (JStr (co_aggregate_function c))),
         (''include_result_with_score'', Some (JStr (co_include_result_with_score c)))])),
     (''tags'', non_empty_obj (rowsToTags (co_tags c))),
     (''variables'', non_empty_obj (rowsToTags (co_variables c))),
     (''kind'', Some (JStr (wizard_kind w)))])"

datatype wizard_outcome = NotSubmitted | TemplateWarning | Submitted json

definition wizard_submit :: "WizardState \<Rightarrow> wizard_outcome" where
  "wizard_submit w =
    (if \<not> wizard_valid w then NotSubmitted
     else if wizard_kind w = ''template'' \<and>
        \<not> list_ex (\<lambda>v. includes_str (tr_value v) ''$__gen_'') (co_variables (wz_comparison w))
     then TemplateWarning
     else Submitted (wizard_payload w))"

definition handleSubmit :: "WizardState \<Rightarrow> WizardState" where
  "handleSubmit w = (if wizard_submit w = TemplateWarning then w\<lparr>wz_templateWarning := True\<rparr> else w)"

definition save_anyway :: "WizardState \<Rightarrow> WizardState \<times> json" where
  "save_anyway w = (w\<lparr>wz_templateWarning := False\<rparr>, wizard_payload w)"

definition wizard_title :: "WizardState \<Rightarrow> string" where
  "wizard_title w = (case wz_edit w of
     Some s \<Rightarrow> slo_name s @ '' '' @ [CHR 0xB7] @ '' New Version''
   | None \<Rightarrow> if wizard_kind w = ''template'' then ''New SLO Template'' else ''New SLO Definition'')"

definition wizard_subtitle :: "WizardState \<Rightarrow> string option" where
  "wizard_subtitle w = map_option (\<lambda>s. ''Editing creates version '' @ show_int (slo_version s + 1) @ '' ''
     @ [CHR 0xB7] @ '' All fields pre-filled from v'' @ show_int (slo_version s)) (wz_edit w)"

subsection \<open>The wizard as a state machine\<close>

text \<open>
  The events of the mounted form: edits of the four steps, the answers of the two SLI queries, the submit
  and dismiss buttons. The name of an edited SLO is read only.
\<close>

datatype WizardEvent =
    SetIdentity IdentityData
  | SelectSli "Sli list" string
  | SlisFetched "Sli list"
  | SliFetched Sli
  | ToggleRow nat
  | SetWeight nat rat
  | SetKey nat bool
  | AddCriterion nat
  | RemoveCriterion nat nat
  | SetPass nat nat CriteriaParts
  | SetWarn nat nat CriteriaParts
  | EditMethods "(string, MethodCriteriaOverride) jsmap"
  | SetComparison ComparisonData
  | Submit
  | DismissWarning

definition on_rows :: "(IndicatorRow list \<Rightarrow> IndicatorRow list) \<Rightarrow> WizardState \<Rightarrow> WizardState" where
  "on_rows f w = w\<lparr>wz_rows := f (wz_rows w)\<rparr>"

fun wizard_step :: "WizardEvent \<Rightarrow> WizardState \<Rightarrow> WizardState" where
  "wizard_step (SetIdentity d) w = w\<lparr>wz_identity :=
     (if wz_edit w = None then d else d\<lparr>id_name := id_name (wz_identity w)\<rparr>)\<rparr>"
| "wizard_step (SelectSli defs n) w = handlePickSliChange (handleSliSelect defs n (wz_pickSli w)) w"
| "wizard_step (SlisFetched defs) w = auto_select_effect defs w"
| "wizard_step (SliFetched sli) w = sli_merge_effect (Some sli) w"
| "wizard_step (ToggleRow i) w = on_rows (toggleCheck i) w"
| "wizard_step (SetWeight i x) w = on_rows (updateRow i (\<lambda>r. r\<lparr>ir_weight := x\<rparr>)) w"
| "wizard_step (SetKey i b) w = on_rows (updateRow i (\<lambda>r. r\<lparr>ir_key_sli := b\<rparr>)) w"
| "wizard_step (AddCriterion i) w = on_rows (addCriterion i) w"
| "wizard_step (RemoveCriterion i ci) w = on_rows (removeCriterion i ci) w"
| "wizard_step (SetPass i ci p) w = on_rows (updatePassCriteria i ci p) w"
| "wizard_step (SetWarn i ci p) w = on_rows (updateWarnCriteria i ci p) w"
| "wizard_step (EditMethods mc) w = w\<lparr>wz_methodCriteria := mc\<rparr>"
| "wizard_step (SetComparison c) w = w\<lparr>wz_comparison := c\<rparr>"
| "wizard_step Submit w = handleSubmit w"
| "wizard_step DismissWarning w = w\<lparr>wz_templateWarning := False\<rparr>"

inductive wizard_reach :: "WizardState \<Rightarrow> bool" where
  wz_mount: "wizard_reach (wizard_mount editSlo defaultKind)"
| wz_step: "wizard_reach w \<Longrightarrow> wizard_reach (wizard_step e w)"

subsection \<open>Lemmas on the rows\<close>

text \<open>A row has a pass criterion; a row never read from an SLO has as many warning criteria.\<close>

definition row_ok :: "bool \<Rightarrow> IndicatorRow \<Rightarrow> bool" where
  "row_ok fresh r \<longleftrightarrow> ir_passCriteria r \<noteq> [] \<and> (fresh \<longrightarrow> length (ir_warnCriteria r) = length (ir_passCriteria r))"

definition rows_ok :: "bool \<Rightarrow> IndicatorRow list \<Rightarrow> bool" where
  "rows_ok fresh rows = list_all (row_ok fresh) rows"

lemma updateRow_list: "updateRow i f rows = (if i < length rows then rows[i := f (rows ! i)] else rows)"
  unfolding updateRow_def by (rule nth_equalityI) (auto simp: nth_enumerate_eq nth_list_update)

lemma rows_ok_update:
  "rows_ok fresh rows \<Longrightarrow> (\<And>r. row_ok fresh r \<Longrightarrow> row_ok fresh (f r)) \<Longrightarrow> rows_ok fresh (updateRow i f rows)"
  by (auto simp: rows_ok_def updateRow_list list_all_length nth_list_update)

lemma updateRow_names: "(\<And>r. ir_sli (f r) = ir_sli r) \<Longrightarrow> map ir_sli (updateRow i f rows) = map ir_sli rows"
  by (auto simp: updateRow_list map_update list_update_same_conv)

lemma length_drop_nth_aux:
  "length (filter (\<lambda>(j, _). j \<noteq> i) (List.enumerate n xs)) = length xs - (if n \<le> i \<and> i < n + length xs then 1 else 0)"
  by (induction xs arbitrary: n) (auto simp: Suc_diff_le)

lemma length_drop_nth: "length (drop_nth i xs) = length xs - (if i < length xs then 1 else 0)"
  using length_drop_nth_aux [of i 0 xs] by (simp add: drop_nth_def)

lemma row_ok_fresh [simp]: "row_ok fresh (fresh_row n)"
  by (simp add: row_ok_def fresh_row_def)

lemma row_ok_remove:
  "row_ok fresh r \<Longrightarrow> \<not> length (ir_passCriteria r) \<le> 1 \<Longrightarrow>
   row_ok fresh (r\<lparr>ir_passCriteria := drop_nth ci (ir_passCriteria r), ir_warnCriteria := drop_nth ci (ir_warnCriteria r)\<rparr>)"
  by (auto simp: row_ok_def length_drop_nth simp flip: length_greater_0_conv)

lemmas row_edit_defs = toggleCheck_def addCriterion_def removeCriterion_def updatePassCriteria_def
  updateWarnCriteria_def

lemma rows_ok_edits:
  assumes "rows_ok fresh rows"
  shows "rows_ok fresh (toggleCheck i rows)" "rows_ok fresh (addCriterion i rows)"
    "rows_ok fresh (removeCriterion i ci rows)" "rows_ok fresh (updatePassCriteria i ci p rows)"
    "rows_ok fresh (updateWarnCriteria i ci p rows)"
    "rows_ok fresh (updateRow i (\<lambda>r. r\<lparr>ir_weight := x\<rparr>) rows)"
    "rows_ok fresh (updateRow i (\<lambda>r. r\<lparr>ir_key_sli := b\<rparr>) rows)"
  unfolding row_edit_defs
  by (rule rows_ok_update [OF assms]; use row_ok_remove in \<open>auto simp: row_ok_def\<close>)+

lemma names_edits:
  "map ir_sli (toggleCheck i rows) = map ir_sli rows" "map ir_sli (addCriterion i rows) = map ir_sli rows"
  "map ir_sli (removeCriterion i ci rows) = map ir_sli rows"
  "map ir_sli (updatePassCriteria i ci p rows) = map ir_sli rows"
  "map ir_sli (updateWarnCriteria i ci p rows) = map ir_sli rows"
  "map ir_sli (updateRow i (\<lambda>r. r\<lparr>ir_weight := x\<rparr>) rows) = map ir_sli rows"
  "map ir_sli (updateRow i (\<lambda>r. r\<lparr>ir_key_sli := b\<rparr>) rows) = map ir_sli rows"
  unfolding row_edit_defs by (rule updateRow_names; simp)+

lemma merge_row_props:
  "rows_ok fresh prev \<Longrightarrow>
   ir_sli (nullish (find (\<lambda>r. ir_sli r = n) prev) (fresh_row n)) = n \<and>
   row_ok fresh (nullish (find (\<lambda>r. ir_sli r = n) prev) (fresh_row n))"
  by (cases "find (\<lambda>r. ir_sli r = n) prev")
    (auto simp: rows_ok_def list_all_iff fresh_row_def nullish_def row_ok_def dest!: find_mem)

lemma merge_rows_ok: "rows_ok fresh prev \<Longrightarrow> rows_ok fresh (merge_rows names prev)"
  using merge_row_props by (auto simp: merge_rows_def rows_ok_def [of _ "map _ _"] list_all_iff)

lemma merge_rows_names: "rows_ok fresh prev \<Longrightarrow> map ir_sli (merge_rows names prev) = names"
  using merge_row_props by (auto simp: merge_rows_def intro: map_idI)

subsection \<open>The invariant of the wizard\<close>

definition wizard_ok :: "WizardState \<Rightarrow> bool" where
  "wizard_ok w \<longleftrightarrow> rows_ok (wz_edit w = None) (wz_rows w) \<and>
    (wz_edit w = None \<or> wz_sliMerged w \<longrightarrow> Object_keys (ps_indicators (wz_pickSli w)) \<noteq> [] \<longrightarrow>
      map ir_sli (wz_rows w) = Object_keys (ps_indicators (wz_pickSli w)))"

lemma edit_criteria_nonempty [simp]: "edit_criteria cs \<noteq> []"
  by (simp add: edit_criteria_def)

lemma Object_keys_Nil [simp]: "Object_keys [] = []"
  by (simp add: Object_keys_def Object_entries_def)

lemma mount_ok: "wizard_ok (wizard_mount e k)"
  by (cases e) (auto simp: wizard_ok_def wizard_mount_def rows_ok_def list_all_iff buildIndicatorRowsFromEdit_def
      row_from_objective_def row_ok_def)

lemma pick_ok: "rows_ok (wz_edit w = None) (wz_rows w) \<Longrightarrow> wizard_ok (handlePickSliChange d w)"
  by (auto simp: wizard_ok_def handlePickSliChange_def Let_def merge_rows_ok merge_rows_names)

lemma on_rows_ok:
  "wizard_ok w \<Longrightarrow> rows_ok (wz_edit w = None) (f (wz_rows w)) \<Longrightarrow>
   map ir_sli (f (wz_rows w)) = map ir_sli (wz_rows w) \<Longrightarrow> wizard_ok (on_rows f w)"
  by (simp add: wizard_ok_def on_rows_def)

lemma wizard_ok_rows: "wizard_ok w \<Longrightarrow> rows_ok (wz_edit w = None) (wz_rows w)"
  by (simp add: wizard_ok_def)

lemma sli_merge_ok: "wizard_ok w \<Longrightarrow> wizard_ok (sli_merge_effect s w)"
  by (auto simp: wizard_ok_def sli_merge_effect_def merge_rows_ok merge_rows_names split: option.splits)

lemma auto_select_ok: "wizard_ok w \<Longrightarrow> wizard_ok (auto_select_effect defs w)"
  by (auto simp: auto_select_effect_def Let_def wizard_ok_def [of w] split: option.splits intro!: pick_ok)

lemma wizard_ok_other:
  "wizard_ok (w\<lparr>wz_identity := d\<rparr>) = wizard_ok w" "wizard_ok (w\<lparr>wz_methodCriteria := mc\<rparr>) = wizard_ok w"
  "wizard_ok (w\<lparr>wz_comparison := c\<rparr>) = wizard_ok w" "wizard_ok (w\<lparr>wz_templateWarning := b\<rparr>) = wizard_ok w"
  by (simp_all add: wizard_ok_def)

lemma step_ok:
  assumes "wizard_ok w"
  shows "wizard_ok (wizard_step e w)"
proof -
  note ok = assms wizard_ok_rows [OF assms]
  note edit = on_rows_ok [OF assms] rows_ok_edits [OF ok(2)] names_edits
  show ?thesis
    by (cases e) (simp_all only: wizard_step.simps wizard_ok_other pick_ok ok sli_merge_ok auto_select_ok edit
      handleSubmit_def if_split simp_thms)
qed

lemma reach_ok: "wizard_reach w \<Longrightarrow> wizard_ok w"
  by (induction rule: wizard_reach.induct) (auto intro: mount_ok step_ok)

lemma wizard_objectives_slis: "map wo_sli (wizard_objectives w) = map ir_sli (checkedRows w)"
  unfolding wizard_objectives_def by (rule nth_equalityI) (simp_all add: nth_enumerate_eq wizard_objective_def)

lemma set_wizard_objectives:
  assumes "ob \<in> set (wizard_objectives w)"
  shows "\<exists>i. \<exists>r\<in>set (wz_rows w). ir_checked r \<and> ob = wizard_objective i r"
proof -
  obtain i r where "(i, r) \<in> set (List.enumerate 0 (checkedRows w))" and ob: "ob = wizard_objective i r"
    using assms by (auto simp: wizard_objectives_def)
  then have "r \<in> set (checkedRows w)" by (auto simp: in_set_enumerate_eq)
  then show ?thesis using ob by (auto simp: checkedRows_def)
qed


definition sample_sli :: Sli where
  "sample_sli = \<lparr>sli_id = [], sli_name = ''s'', sli_displayName = None, sli_adapterType = [], sli_version = 1,
    sli_comparableFromVersion = 1, sli_indicators = [(''cpu'', ''q''), (''mem'', ''r'')], sli_mode = ''raw'', sli_queryTemplate = None,
    sli_interval = None, sli_methods = None, sli_notes = None, sli_author = None, sli_tags = [], sli_active = True,
    sli_createdAt = None\<rparr>"

definition sample_wizard :: WizardState where
  "sample_wizard = fold wizard_step
     [SetIdentity \<lparr>id_name = ''web'', id_display_name = [], id_author = [], id_notes = []\<rparr>,
      SelectSli [sample_sli] ''s'', ToggleRow 1] (wizard_mount None None)"

lemma sample_wizard_reach: "wizard_reach sample_wizard"
  unfolding sample_wizard_def by (auto intro: wizard_reach.intros simp del: wizard_step.simps)


subsection \<open>Overrides and first picks\<close>

text \<open>Editing a field of an override drops the fields the table does not show.\<close>

lemma clean_override_keeps:
  "mco_method (clean_override bp bw mo) = None" "mco_aggregation (clean_override bp bw mo) = None"
  "mco_warningThreshold (clean_override bp bw mo) = None"
  by (simp_all add: clean_override_def empty_override_def)

lemma obj_delete_get: "js_get (obj_delete k ob) k = None"
  by (auto simp: js_get_def obj_delete_def map_of_eq_None_iff)

lemma updateMethod_drops:
  "m \<noteq> ''__proto__'' \<Longrightarrow> js_get (updateMethod bp bw m patch criteria) m = Some mo \<Longrightarrow>
   mco_method mo = None \<and> mco_aggregation mo = None \<and> mco_warningThreshold mo = None"
  by (auto simp: updateMethod_def Let_def obj_set_def js_get_set obj_delete_get clean_override_keeps split: if_splits)

text \<open>
  After the first pick nothing is checked, so nothing can be saved until an indicator is checked, which the
  table of an aggregated SLI does not offer.
\<close>

lemma first_pick_invalid: "wz_rows w = [] \<Longrightarrow> \<not> wizard_valid (wizard_step (SelectSli defs n) w)"
  by (auto simp: wizard_valid_def checkedRows_def handlePickSliChange_def Let_def merge_rows_def fresh_row_def
      filter_empty_conv)

text \<open>Picking no SLI, or one without indicators, keeps the rows of the SLI picked before.\<close>

lemma empty_pick_keeps:
  "Object_keys (ps_indicators (handleSliSelect defs n (wz_pickSli w))) = [] \<Longrightarrow>
   wz_rows (wizard_step (SelectSli defs n) w) = wz_rows w"
  by (simp add: handlePickSliChange_def Let_def)

text \<open>A warning criterion that is shown but not in the list cannot be edited.\<close>

lemma warn_edit_lost:
  "i < length rows \<Longrightarrow> length (ir_warnCriteria (rows ! i)) \<le> ci \<Longrightarrow> updateWarnCriteria i ci parts rows = rows"
  by (simp add: updateWarnCriteria_def updateRow_list list_update_beyond)

subsection \<open>Editing and sending\<close>

text \<open>The thresholds of the edited SLO are written the way the form writes them.\<close>

definition canonical_criterion :: "string \<Rightarrow> bool" where
  "canonical_criterion c \<longleftrightarrow> (case parseCriteria c of Some p \<Rightarrow> serializeCriteria p = c | None \<Rightarrow> False)"

lemma canonical_edit:
  "list_all canonical_criterion cs \<Longrightarrow>
   map serializeCriteria (edit_criteria cs) = (if cs = [] then [''<0''] else cs)"
proof -
  assume c: "list_all canonical_criterion cs"
  have "serializeCriteria DEFAULT_CRITERIA = ''<0''" by code_simp
  moreover have "serializeCriteria (nullish (parseCriteria x) DEFAULT_CRITERIA) = x" if "x \<in> set cs" for x
    using c that by (auto simp: list_all_iff canonical_criterion_def split: option.splits)
  ultimately show ?thesis by (auto simp: edit_criteria_def intro: map_idI)
qed

definition kept_objectives :: "Sli \<Rightarrow> Slo \<Rightarrow> SloObjective list" where
  "kept_objectives sli s =
    List.map_filter (\<lambda>n. find (\<lambda>ob. so_sli ob = n) (slo_objectives s)) (Object_keys (sli_indicators sli))"

lemma find_map_row:
  "find (\<lambda>r. ir_sli r = n) (map row_from_objective obs) =
   map_option row_from_objective (find (\<lambda>ob. so_sli ob = n) obs)"
  by (induction obs) (auto simp: row_from_objective_def)

lemma row_checked: "ir_checked (row_from_objective ob)" "\<not> ir_checked (fresh_row n)"
  by (simp_all add: row_from_objective_def fresh_row_def)

lemma checked_merge:
  "filter ir_checked (merge_rows names (map row_from_objective obs)) =
   map row_from_objective (List.map_filter (\<lambda>n. find (\<lambda>ob. so_sli ob = n) obs) names)"
proof (induction names)
  case (Cons n ns)
  then show ?case
    by (cases "find (\<lambda>ob. so_sli ob = n) obs")
      (simp_all add: merge_rows_def find_map_row List.map_filter_simps row_checked)
qed (simp add: merge_rows_def List.map_filter_simps)

definition edited_wizard :: "Sli \<Rightarrow> Slo \<Rightarrow> WizardState" where
  "edited_wizard sli s = wizard_step (SliFetched sli) (wizard_mount (Some s) None)"

lemma edited_checked: "checkedRows (edited_wizard sli s) = map row_from_objective (kept_objectives sli s)"
  by (simp add: edited_wizard_def sli_merge_effect_def wizard_mount_def checkedRows_def checked_merge
      kept_objectives_def buildIndicatorRowsFromEdit_def)

lemma map_wizard_objectives:
  "(\<And>i r. f (wizard_objective i r) = g r) \<Longrightarrow> map f (wizard_objectives w) = map g (checkedRows w)"
  unfolding wizard_objectives_def by (rule nth_equalityI) (simp_all add: nth_enumerate_eq)

lemma set_kept:
  assumes "distinct (map so_sli (slo_objectives s))"
  shows "set (kept_objectives sli s) =
    {ob \<in> set (slo_objectives s). so_sli ob \<in> set (Object_keys (sli_indicators sli))}"
proof -
  have "find (\<lambda>ob. so_sli ob = so_sli x) obs = Some x" if "x \<in> set obs" "distinct (map so_sli obs)" for x obs
    using that by (induction obs) (auto simp: rev_image_eqI)
  then show ?thesis
    using assms by (auto simp: kept_objectives_def List.map_filter_def image_iff dest!: find_mem) force+
qed


definition sample_slo :: Slo where
  "sample_slo = \<lparr>slo_id = [], slo_name = ''web'', slo_version = 3, slo_comparableFromVersion = 1,
    slo_displayName = None, slo_author = None, slo_notes = None, slo_tags = [], slo_variables = [],
    slo_kind = ''standard'', slo_sliDefinitionId = None, slo_sliName = Some ''s'', slo_sliVersion = Some 1,
    slo_createdAt = None, slo_active = True,
    slo_objectives = [\<lparr>so_sli = ''disk'', so_displayName = ''Disk'', so_passThreshold = [''<5''],
        so_warningThreshold = [''<9''], so_weight = 1, so_keySli = False, so_sortOrder = 0\<rparr>,
      \<lparr>so_sli = ''cpu'', so_displayName = ''CPU'', so_passThreshold = [''<80''],
        so_warningThreshold = [], so_weight = 2, so_keySli = True, so_sortOrder = 1\<rparr>],
    slo_totalScorePassThreshold = 90, slo_totalScoreWarningThreshold = 75,
    slo_comparison = \<lparr>sc_compareWith = None, sc_includeResultWithScore = None, sc_numberOfComparisonResults = None,
      sc_aggregateFunction = None, sc_scopeTags = None\<rparr>, slo_methodCriteria = None\<rparr>"


text \<open>The fields of an objective in a request, as the backend's schema lists them.\<close>

definition objective_schema_fields :: "string list" where
  "objective_schema_fields = [''change_point'', ''display_name'', ''key_sli'', ''pass_threshold'', ''sli'',
     ''warning_threshold'', ''weight'']"

definition override_schema_fields :: "string list" where
  "override_schema_fields = [''aggregation'', ''key_sli'', ''method'', ''pass_threshold'', ''warning_threshold'', ''weight'']"

definition unknown_fields :: "string list \<Rightarrow> json \<Rightarrow> string list" where
  "unknown_fields known j = (case j of JObj fs \<Rightarrow> filter (\<lambda>k. k \<notin> set known) (map fst fs) | _ \<Rightarrow> [])"

definition known_fields :: "string list \<Rightarrow> json \<Rightarrow> string list" where
  "known_fields known j = (case j of JObj fs \<Rightarrow> filter (\<lambda>k. k \<in> set known) (map fst fs) | _ \<Rightarrow> [])"

lemma objective_unknown: "unknown_fields objective_schema_fields (objective_json ob) = [''sort_order'']"
  by (simp add: unknown_fields_def objective_schema_fields_def objective_json_def json_object_def List.map_filter_simps)

lemma known_fields_object:
  "set (known_fields known (json_object fs)) \<subseteq> {k \<in> set (map fst fs). k \<in> set known}"
  by (auto simp: known_fields_def json_object_def List.map_filter_def intro: rev_image_eqI)

lemma override_known:
  "set (known_fields override_schema_fields (override_json mo)) \<subseteq> {''method'', ''aggregation'', ''weight''}"
  unfolding override_json_def by (rule subset_trans [OF known_fields_object]) (auto simp: override_schema_fields_def)

lemma payload_field:
  "json_field (wizard_payload w) ''objectives'' = Some (JArr (map objective_json (wizard_objectives w)))"
  unfolding wizard_payload_def Let_def by (rule json_field_object) simp_all

lemma payload_criteria:
  "json_field (wizard_payload w) ''method_criteria'' = (if Object_keys (wz_methodCriteria w) \<noteq> []
     then Some (JObj (map (\<lambda>(k, mo). (k, override_json mo)) (Object_entries (wz_methodCriteria w)))) else None)"
  unfolding wizard_payload_def Let_def by (rule json_field_object) simp_all

text \<open>
  Every request the form submits has objectives, each with exactly one field the backend's schema does not
  know, its position, and no override of a method carries its thresholds or key flag under a name of the
  schema.
\<close>

lemma wizard_request_fields:
  assumes "wizard_submit w = Submitted body"
  shows "\<exists>obs. json_field body ''objectives'' = Some (JArr obs) \<and> obs \<noteq> [] \<and>
      (\<forall>ob\<in>set obs. unknown_fields objective_schema_fields ob = [''sort_order'']) \<and>
    (\<forall>ms. json_field body ''method_criteria'' = Some (JObj ms) \<longrightarrow>
      (\<forall>(k, mo)\<in>set ms. set (known_fields override_schema_fields mo) \<subseteq> {''method'', ''aggregation'', ''weight''}))"
proof -
  have b: "body = wizard_payload w" and v: "checkedRows w \<noteq> []"
    using assms by (auto simp: wizard_submit_def wizard_valid_def split: if_splits)
  have "length (wizard_objectives w) = length (checkedRows w)"
    by (simp add: wizard_objectives_def)
  then have "wizard_objectives w \<noteq> []" using v by auto
  then show ?thesis
    unfolding b payload_field payload_criteria
    by (auto simp: objective_unknown split: if_splits dest!: subsetD [OF override_known])
qed

theorem wizard_request_fields_witness:
  "\<exists>obs. json_field (wizard_payload sample_wizard) ''objectives'' = Some (JArr obs) \<and> obs \<noteq> [] \<and>
    (\<forall>ob\<in>set obs. unknown_fields objective_schema_fields ob = [''sort_order''])"
proof -
  have "wizard_valid sample_wizard" "wizard_kind sample_wizard = ''standard''" by code_simp+
  then have "wizard_submit sample_wizard = Submitted (wizard_payload sample_wizard)"
    by (simp add: wizard_submit_def)
  from wizard_request_fields [OF this] show ?thesis by blast
qed

end
