(* ===== verification/HeatmapRender.thy ===== *)
theory HeatmapRender
  imports MetricTrend NavigatorView
begin

text \<open>
  Drawing a heatmap (\<open>components/charts/HeatmapChart.tsx\<close>, \<open>NoteIndicatorRow.tsx\<close>, \<open>colors.ts\<close>) and the page-wide
  watchdog that keeps at most one tooltip visible (\<open>tooltipWatchdog.ts\<close>). The chart library is a parameter: it
  reports when it shows a tooltip, obeys the actions sent to it and converts between indices and pixels.
  Pixels are exact rationals.
\<close>

subsection \<open>Colours\<close>

definition hex_digit :: "char \<Rightarrow> nat option" where
  "hex_digit c = (if is_digit c then Some (digit_val c)
     else if CHR ''a'' \<le> c \<and> c \<le> CHR ''f'' then Some (of_char c - 87)
     else if CHR ''A'' \<le> c \<and> c \<le> CHR ''F'' then Some (of_char c - 55) else None)"

text \<open>\<open>parseInt(s, 16)\<close> of at most two characters of a colour: the longest prefix of hexadecimal digits.\<close>

fun hex_prefix :: "string \<Rightarrow> nat list" where
  "hex_prefix [] = []"
| "hex_prefix (c # s) = (case hex_digit c of Some d \<Rightarrow> d # hex_prefix s | None \<Rightarrow> [])"

definition parse_hex :: "string \<Rightarrow> nat option" where
  "parse_hex s = (case hex_prefix s of [] \<Rightarrow> None | ds \<Rightarrow> Some (foldl (\<lambda>a d. a * 16 + d) 0 ds))"

definition brighten_channel :: "rat \<Rightarrow> nat option \<Rightarrow> int option" where
  "brighten_channel factor v = map_option (\<lambda>n. min 255 (js_round (of_nat n * factor))) v"

definition show_channel :: "int option \<Rightarrow> string" where
  "show_channel c = (case c of Some i \<Rightarrow> show_int i | None \<Rightarrow> ''NaN'')"

definition brighten :: "string \<Rightarrow> rat \<Rightarrow> string" where
  "brighten hex factor =
    (if take 1 hex \<noteq> ''#'' then hex
     else let ch = (\<lambda>i j. show_channel (brighten_channel factor (parse_hex (Prelude.slice hex i j))))
       in ''rgb('' @ ch 1 3 @ '','' @ ch 3 5 @ '','' @ ch 5 7 @ '')'')"

text \<open>The colours of the series of a chart, by position in the sorted list of metrics.\<close>

definition series_hue :: "nat \<Rightarrow> rat" where
  "series_hue i = (let x = of_nat i * 137508 / 1000 in x - 360 * of_int \<lfloor>x / 360\<rfloor>)"

definition series_lightness :: "nat \<Rightarrow> nat" where
  "series_lightness i = (if i mod 3 = 0 then 65 else if i mod 3 = 1 then 50 else 75)"

definition series_chroma :: "nat \<Rightarrow> rat" where
  "series_chroma i = (if i mod 3 = 0 then 15 / 100 else if i mod 3 = 1 then 2 / 10 else 12 / 100)"

definition generateSeriesColor :: "nat \<Rightarrow> string" where
  "generateSeriesColor i = ''oklch('' @ show_nat (series_lightness i) @ ''% '' @ num_string (Fin (series_chroma i))
     @ '' '' @ num_string (Fin (series_hue i)) @ '')''"

definition buildColorMap :: "(string \<Rightarrow> string \<Rightarrow> int) \<Rightarrow> string list \<Rightarrow> (string, string) jsmap" where
  "buildColorMap localeCompare metrics =
    (let sorted = sort_cmp localeCompare metrics
     in foldl (\<lambda>m (i, x). js_set x (generateSeriesColor i) m) [] (List.enumerate 0 sorted))"

subsection \<open>Cells\<close>

definition heatmap_colour :: "ChartTheme \<Rightarrow> ResultColours \<Rightarrow> HeatmapResult \<Rightarrow> string" where
  "heatmap_colour ct colours r = (case r of
     ResPass \<Rightarrow> rc_pass colours | ResWarning \<Rightarrow> rc_warning colours | ResFail \<Rightarrow> rc_fail colours
   | ResError \<Rightarrow> rc_error colours | ResInvalidated \<Rightarrow> rc_invalidated colours | ResNone \<Rightarrow> ct_bg ct)"

record RenderCell =
  rdc_cell :: HeatmapEChartsCell
  rdc_color :: string
  rdc_hoverColor :: string

definition render_cell :: "ChartTheme \<Rightarrow> ResultColours \<Rightarrow> nat list \<Rightarrow> HeatmapEChartsCell \<Rightarrow> RenderCell" where
  "render_cell ct colours headerRowIndices cell =
    (let baseColour = heatmap_colour ct colours (hc_result cell);
         colour = (if snd (hc_value cell) \<in> set headerRowIndices then brighten baseColour (7 / 10) else baseColour)
     in \<lparr>rdc_cell = cell, rdc_color = colour, rdc_hoverColor = brighten colour (14 / 10)\<rparr>)"

definition renderCells :: "Theme \<Rightarrow> nat list \<Rightarrow> HeatmapEChartsCell list \<Rightarrow> RenderCell list" where
  "renderCells theme headerRowIndices cells =
    map (render_cell (CHART_THEME theme) (RESULT_COLOUR theme) headerRowIndices) cells"

definition cell_pad :: "string list \<Rightarrow> rat" where
  "cell_pad columns = (if 40 < length columns then 1 else 2)"

definition y_label :: "nat list \<Rightarrow> string \<Rightarrow> nat \<Rightarrow> string" where
  "y_label headerRowIndices v i =
    (let label = (if 45 < length v then Prelude.slice v 0 44 @ ellipsis else v)
     in if i \<in> set headerRowIndices then ''{sloHeader|'' @ label @ ''}'' else ''{normal|'' @ label @ ''}'')"

record Rect =
  re_x :: rat
  re_y :: rat
  re_width :: rat
  re_height :: rat

datatype Shape =
    CellRect Rect "string option" bool
  | NoteSquare Rect
  | Diamond "(rat \<times> rat) list" string

text \<open>
  The shapes of the cell with data index \<open>i\<close>, centred at \<open>(cx, cy)\<close> in a band of size \<open>(w, h)\<close>; a cell rectangle
  has its fill and whether it has the selection ring.
\<close>

definition cell_rect :: "rat \<Rightarrow> rat \<times> rat \<Rightarrow> rat \<times> rat \<Rightarrow> Rect" where
  "cell_rect pad c s = \<lparr>re_x = fst c - fst s / 2 + pad, re_y = snd c - snd s / 2 + pad,
     re_width = fst s - pad * 2, re_height = snd s - pad * 2\<rparr>"

definition note_square :: "Rect \<Rightarrow> Shape" where
  "note_square r = (let s = min 10 (min (re_width r / 3) (re_height r / 3))
     in NoteSquare \<lparr>re_x = re_x r + re_width r - s, re_y = re_y r, re_width = s, re_height = s\<rparr>)"

definition diamond :: "rat \<times> rat \<Rightarrow> Rect \<Rightarrow> ChangePointMarker \<Rightarrow> Shape" where
  "diamond c r cp =
    (let d = min 12 (min (re_width r * (4 / 10)) (re_height r * (4 / 10))); cx = fst c; cy = snd c
     in Diamond [(cx, cy - d / 2), (cx + d / 2, cy), (cx, cy + d / 2), (cx - d / 2, cy)]
          (if cpm_direction cp = ''regression'' then ''var(--change-point-regression)''
           else ''var(--change-point-improvement)''))"

definition renderItem ::
    "RenderCell list \<Rightarrow> rat \<Rightarrow> bool \<Rightarrow> nat option \<Rightarrow> nat \<Rightarrow> nat \<Rightarrow> rat \<times> rat \<Rightarrow> rat \<times> rat \<Rightarrow> Shape list" where
  "renderItem cells pad annotations selectedColumn i xi c s =
    (let r = cell_rect pad c s;
         cellData = (if i < length cells then Some (cells ! i) else None)
     in CellRect r (map_option rdc_color cellData) (selectedColumn = Some xi) #
        (if annotations \<and> Option.bind cellData (hc_hasNote \<circ> rdc_cell) = Some True then [note_square r] else []) @
        (case Option.bind cellData (hc_changePoint \<circ> rdc_cell) of Some cp \<Rightarrow> [diamond c r cp] | None \<Rightarrow> []))"

definition chart_height :: "nat option \<Rightarrow> bool \<Rightarrow> bool \<Rightarrow> string list \<Rightarrow> nat" where
  "chart_height height tight showXAxis rows = (case height of
     None \<Rightarrow> if tight then length rows * 28 + (if showXAxis then 80 else 0)
       else max 200 (length rows * 28 + 100)
   | Some h \<Rightarrow> h)"

definition grid_top :: "bool \<Rightarrow> nat" where
  "grid_top tight = (if tight then 0 else 10)"

definition grid_bottom :: "bool \<Rightarrow> bool \<Rightarrow> nat" where
  "grid_bottom tight showXAxis = (if tight then if showXAxis then 95 else 0 else 80)"

subsection \<open>Note indicators\<close>

record ColumnPosition =
  cpo_x :: rat
  cpo_width :: rat

text \<open>\<open>toPixel\<close> converts the index of a column to the pixel of its centre; \<open>None\<close>: it throws.\<close>

definition computeColumnPositions :: "(nat \<Rightarrow> rat option) \<Rightarrow> string list \<Rightarrow> ColumnPosition list \<Rightarrow> ColumnPosition list" where
  "computeColumnPositions toPixel columns old =
    (if columns = [] then []
     else let n = length columns in
       case those (map toPixel ([0..<n] @ (if 1 < n then [0, 1] else []))) of
         None \<Rightarrow> old
       | Some _ \<Rightarrow>
           let cellSize = (if 1 < n then \<bar>the (toPixel 1) - the (toPixel 0)\<bar> else 50)
           in map (\<lambda>i. \<lparr>cpo_x = the (toPixel i) - cellSize / 2, cpo_width = cellSize\<rparr>) [0..<n])"

record SlotNote =
  sn_evalId :: string
  sn_count :: nat

record NoteIcon =
  ni_slot :: string
  ni_info :: SlotNote
  ni_x :: rat
  ni_width :: rat

definition NoteIndicatorRow :: "string list \<Rightarrow> (string, SlotNote) jsmap \<Rightarrow> ColumnPosition list \<Rightarrow> NoteIcon list" where
  "NoteIndicatorRow columns notedColumns positions =
    (if notedColumns = [] \<or> positions = [] then []
     else List.map_filter (\<lambda>i. case js_get notedColumns (columns ! i) of
         Some info \<Rightarrow> if i < length positions
           then Some \<lparr>ni_slot = columns ! i, ni_info = info, ni_x = cpo_x (positions ! i),
                      ni_width = cpo_width (positions ! i)\<rparr> else None
       | None \<Rightarrow> None) [0..<length columns])"

definition icon_size :: "rat \<Rightarrow> rat" where
  "icon_size width = max 8 (min 14 (width * (6 / 10)))"

text \<open>The notes of a tooltip: those of a group together, in the order the groups appear, then the others.\<close>

definition tooltip_groups :: "Annotation list \<Rightarrow> (string, Annotation list) jsmap" where
  "tooltip_groups as =
    foldl (\<lambda>m a. let g = nullish (an_noteGroupId a) [] in
      if g \<noteq> [] then js_set g (nullish (js_get m g) [] @ [a]) m else m) [] as"

definition tooltip_standalone :: "Annotation list \<Rightarrow> Annotation list" where
  "tooltip_standalone as = filter (\<lambda>a. nullish (an_noteGroupId a) [] = []) as"

definition note_count_label :: "Annotation list option \<Rightarrow> string" where
  "note_count_label as = (case as of None \<Rightarrow> ''Notes''
     | Some xs \<Rightarrow> show_nat (length xs) @ '' note'' @ (if length xs \<noteq> 1 then ''s'' else []))"

subsection \<open>The tooltip watchdog\<close>

text \<open>
  The module keeps the chart that shows a tooltip with its container, and whether its listeners on the
  document are attached. The charts of the page are part of the state: which show a tooltip, which are
  disposed. Charts and containers are numbered.
\<close>

type_synonym chart_id = nat

record Watchdog =
  wd_active :: "(chart_id \<times> nat) option"
  wd_listenersAttached :: bool
  wd_visible :: "chart_id list"
  wd_disposed :: "chart_id list"

definition dispatch_hide :: "chart_id \<Rightarrow> Watchdog \<Rightarrow> Watchdog" where
  "dispatch_hide c s = (if c \<in> set (wd_disposed s) then s else s\<lparr>wd_visible := removeAll c (wd_visible s)\<rparr>)"

definition attachListeners :: "Watchdog \<Rightarrow> Watchdog" where
  "attachListeners s = (if wd_listenersAttached s then s else s\<lparr>wd_listenersAttached := True\<rparr>)"

definition detachListeners :: "Watchdog \<Rightarrow> Watchdog" where
  "detachListeners s = (if \<not> wd_listenersAttached s then s else s\<lparr>wd_listenersAttached := False\<rparr>)"

definition hideActiveTooltip :: "Watchdog \<Rightarrow> Watchdog" where
  "hideActiveTooltip s = (case wd_active s of
     None \<Rightarrow> s
   | Some (c, _) \<Rightarrow> dispatch_hide c (detachListeners (s\<lparr>wd_active := None\<rparr>)))"

definition handlePointerMove :: "(nat \<Rightarrow> nat option \<Rightarrow> bool) \<Rightarrow> nat option \<Rightarrow> Watchdog \<Rightarrow> Watchdog" where
  "handlePointerMove contains target s = (case wd_active s of
     None \<Rightarrow> s
   | Some (_, container) \<Rightarrow> if target = None \<or> \<not> contains container target then hideActiveTooltip s else s)"

definition trackTooltip :: "chart_id \<Rightarrow> nat \<Rightarrow> Watchdog \<Rightarrow> Watchdog" where
  "trackTooltip c container s =
    (let s1 = (case wd_active s of Some (c', _) \<Rightarrow> if c' \<noteq> c then hideActiveTooltip s else s | None \<Rightarrow> s)
     in attachListeners (s1\<lparr>wd_active := Some (c, container)\<rparr>))"

definition releaseTooltip :: "chart_id \<Rightarrow> Watchdog \<Rightarrow> Watchdog" where
  "releaseTooltip c s = (case wd_active s of
     Some (c', _) \<Rightarrow> if c' = c then detachListeners (s\<lparr>wd_active := None\<rparr>) else s
   | None \<Rightarrow> s)"

text \<open>
  The events of a page of heatmaps. A live chart shows a tooltip and reports it (\<open>showtip\<close>), hides it on its own,
  has its mouse-leave handler run, is replaced by its wrapper without a report, or is unmounted. The pointer
  moves over an element of the document or leaves it; the handlers run only while they are attached.
\<close>

datatype PageEvent =
    ShowTip chart_id nat
  | ChartHides chart_id
  | MouseLeave chart_id
  | Dispose chart_id
  | Unmount chart_id
  | PointerMove "nat option"
  | PointerGone

definition remove_chart :: "chart_id \<Rightarrow> Watchdog \<Rightarrow> Watchdog" where
  "remove_chart c s = s\<lparr>wd_visible := removeAll c (wd_visible s), wd_disposed := c # wd_disposed s\<rparr>"

fun page_step :: "(nat \<Rightarrow> nat option \<Rightarrow> bool) \<Rightarrow> PageEvent \<Rightarrow> Watchdog \<Rightarrow> Watchdog" where
  "page_step contains (ShowTip c container) s =
    (if c \<in> set (wd_disposed s) then s else trackTooltip c container (s\<lparr>wd_visible := c # removeAll c (wd_visible s)\<rparr>))"
| "page_step contains (ChartHides c) s = s\<lparr>wd_visible := removeAll c (wd_visible s)\<rparr>"
| "page_step contains (MouseLeave c) s = dispatch_hide c s"
| "page_step contains (Dispose c) s = remove_chart c s"
| "page_step contains (Unmount c) s = remove_chart c (releaseTooltip c s)"
| "page_step contains (PointerMove target) s = (if wd_listenersAttached s then handlePointerMove contains target s else s)"
| "page_step contains PointerGone s = (if wd_listenersAttached s then hideActiveTooltip s else s)"

definition page_init :: Watchdog where
  "page_init = \<lparr>wd_active = None, wd_listenersAttached = False, wd_visible = [], wd_disposed = []\<rparr>"

definition page_run :: "(nat \<Rightarrow> nat option \<Rightarrow> bool) \<Rightarrow> PageEvent list \<Rightarrow> Watchdog" where
  "page_run contains es = foldl (\<lambda>s e. page_step contains e s) page_init es"

text \<open>What holds of every reachable state.\<close>

definition page_ok :: "Watchdog \<Rightarrow> bool" where
  "page_ok s \<longleftrightarrow> (wd_listenersAttached s \<longleftrightarrow> wd_active s \<noteq> None) \<and>
    (case wd_active s of
       None \<Rightarrow> wd_visible s = []
     | Some (c, _) \<Rightarrow> set (wd_visible s) \<subseteq> {c} \<and> length (wd_visible s) \<le> 1) \<and>
    set (wd_visible s) \<inter> set (wd_disposed s) = {}"

lemma removeAll_only: "set xs \<subseteq> {c} \<Longrightarrow> removeAll c xs = []"
  by (induction xs) auto

lemmas watchdog_defs = hideActiveTooltip_def trackTooltip_def releaseTooltip_def handlePointerMove_def
  dispatch_hide_def attachListeners_def detachListeners_def remove_chart_def Let_def

lemma hide_eq:
  assumes "page_ok s"
  shows "hideActiveTooltip s = s\<lparr>wd_active := None, wd_listenersAttached := False, wd_visible := []\<rparr>"
proof (cases "wd_active s")
  case None
  then show ?thesis using assms by (cases s) (simp add: page_ok_def hideActiveTooltip_def)
next
  case (Some a)
  obtain c d where a: "a = (c, d)" by (cases a)
  have v: "set (wd_visible s) \<subseteq> {c}" "set (wd_visible s) \<inter> set (wd_disposed s) = {}" "wd_listenersAttached s"
    using assms Some a by (auto simp: page_ok_def)
  then have "c \<in> set (wd_disposed s) \<Longrightarrow> wd_visible s = []" by (cases "wd_visible s") auto
  then show ?thesis using Some a v
    by (cases s) (simp add: hideActiveTooltip_def dispatch_hide_def detachListeners_def removeAll_only)
qed

lemma hide_ok: "page_ok s \<Longrightarrow> page_ok (hideActiveTooltip s)"
  by (simp add: hide_eq page_ok_def)

lemma shrink_ok: "page_ok s \<Longrightarrow> page_ok (s\<lparr>wd_visible := removeAll c (wd_visible s)\<rparr>)"
  by (cases "wd_active s") (auto simp: page_ok_def intro: le_trans [OF length_removeAll_less_eq])

lemma page_ok_simps:
  "page_ok s \<Longrightarrow> wd_active s = None \<Longrightarrow> wd_visible s = []"
  "page_ok s \<Longrightarrow> wd_listenersAttached s \<longleftrightarrow> wd_active s \<noteq> None"
  by (simp_all add: page_ok_def)

lemma show_ok:
  assumes "page_ok s" "c \<notin> set (wd_disposed s)"
  shows "page_ok (trackTooltip c d (s\<lparr>wd_visible := c # removeAll c (wd_visible s)\<rparr>))"
proof (cases "wd_active s")
  case None
  then show ?thesis using assms by (auto simp: page_ok_def watchdog_defs)
next
  case (Some a)
  obtain c' d' where a: "a = (c', d')" by (cases a)
  show ?thesis
  proof (cases "c' = c")
    case True
    then show ?thesis using assms Some a by (auto simp: page_ok_def watchdog_defs removeAll_only)
  next
    case False
    have "set (wd_visible s) \<subseteq> {c'}" "set (wd_visible s) \<inter> set (wd_disposed s) = {}"
      using assms(1) Some a by (auto simp: page_ok_def)
    then have "removeAll c (wd_visible s) = wd_visible s" "c' \<in> set (wd_disposed s) \<Longrightarrow> wd_visible s = []"
      using False by (auto intro: removeAll_id) (cases "wd_visible s", auto)
    then show ?thesis using assms Some a False
      by (auto simp: page_ok_def watchdog_defs removeAll_only)
  qed
qed

lemma remove_ok: "page_ok s \<Longrightarrow> page_ok (remove_chart c s)"
  using shrink_ok [of s c] by (auto simp: page_ok_def remove_chart_def split: option.splits)

lemma unmount_ok:
  assumes "page_ok s"
  shows "page_ok (remove_chart c (releaseTooltip c s))"
proof (cases "\<exists>d. wd_active s = Some (c, d)")
  case True
  then show ?thesis using assms by (auto simp: page_ok_def watchdog_defs removeAll_only)
next
  case False
  then have "releaseTooltip c s = s" by (auto simp: releaseTooltip_def split: option.splits)
  then show ?thesis using remove_ok [OF assms] by simp
qed

lemma page_step_ok: "page_ok s \<Longrightarrow> page_ok (page_step contains e s)"
  by (cases e) (simp_all add: show_ok shrink_ok remove_ok unmount_ok hide_ok dispatch_hide_def handlePointerMove_def
      split: option.split)

lemma page_run_ok: "page_ok (page_run contains es)"
proof (induction es rule: rev_induct)
  case Nil
  then show ?case by (simp add: page_run_def page_init_def page_ok_def)
next
  case (snoc e es)
  then show ?case using page_step_ok [of "page_run contains es"] by (simp add: page_run_def)
qed

text \<open>
  After any events on a page of heatmaps at most one tooltip is visible, it belongs to the tracked
  chart, and the watchdog listens exactly while it tracks one; a movement of the pointer outside the container
  of the tracked chart, and the pointer leaving the page, leave no tooltip and no listener behind.
\<close>

lemma tooltip_single:
  "length (wd_visible (page_run contains es)) \<le> 1 \<and>
   (\<forall>c\<in>set (wd_visible (page_run contains es)). \<exists>d. wd_active (page_run contains es) = Some (c, d)) \<and>
   (wd_listenersAttached (page_run contains es) \<longleftrightarrow> wd_active (page_run contains es) \<noteq> None) \<and>
   (let moved = page_run contains (es @ [PointerMove target]) in
     (\<forall>c d. wd_active (page_run contains es) = Some (c, d) \<and> target \<noteq> None \<longrightarrow> \<not> contains d target) \<longrightarrow>
     wd_visible moved = [] \<and> wd_active moved = None \<and> \<not> wd_listenersAttached moved) \<and>
   (let gone = page_run contains (es @ [PointerGone]) in
     wd_visible gone = [] \<and> wd_active gone = None \<and> \<not> wd_listenersAttached gone)"
proof -
  let ?s = "page_run contains es"
  note ok = page_run_ok [of contains es]
  have ends: "page_run contains (es @ [e]) = page_step contains e ?s" for e
    by (simp add: page_run_def)
  have hidden: "wd_visible (hideActiveTooltip ?s) = [] \<and> wd_active (hideActiveTooltip ?s) = None \<and>
      \<not> wd_listenersAttached (hideActiveTooltip ?s)"
    by (simp add: hide_eq [OF ok])
  have none: "wd_visible ?s = []" "\<not> wd_listenersAttached ?s" if "wd_active ?s = None"
    using ok that by (auto simp: page_ok_def)
  have vis: "length (wd_visible ?s) \<le> 1 \<and> (\<forall>c\<in>set (wd_visible ?s). \<exists>d. wd_active ?s = Some (c, d))"
    using ok by (cases "wd_active ?s") (auto simp: page_ok_def)
  have listens: "wd_listenersAttached ?s \<longleftrightarrow> wd_active ?s \<noteq> None"
    using ok by (simp add: page_ok_def)
  show ?thesis
    using vis hidden none listens
    by (cases "wd_active ?s") (auto simp: ends Let_def handlePointerMove_def)
qed

theorem tooltip_single_witness:
  "wd_visible (page_run (\<lambda>d t. t = Some d) [ShowTip 1 10, ShowTip 2 20]) = [2] \<and>
   wd_visible (page_run (\<lambda>d t. t = Some d) [ShowTip 1 10, ShowTip 2 20, PointerMove (Some 10)]) = []"
proof -
  have "wd_active (page_run (\<lambda>d t. t = Some d) [ShowTip 1 10, ShowTip 2 20]) = Some (2, 20)"
    "wd_visible (page_run (\<lambda>d t. t = Some d) [ShowTip 1 10, ShowTip 2 20]) = [2]"
    by code_simp+
  then show ?thesis
    using tooltip_single [of "\<lambda>d t. t = Some d" "[ShowTip 1 10, ShowTip 2 20]" "Some 10"] by (simp add: Let_def)
qed

subsection \<open>Shapes and icons\<close>

definition rect_inside :: "Rect \<Rightarrow> Rect \<Rightarrow> bool" where
  "rect_inside r q \<longleftrightarrow> re_x r \<le> re_x q \<and> re_y r \<le> re_y q \<and> 0 \<le> re_width q \<and> 0 \<le> re_height q \<and>
    re_x q + re_width q \<le> re_x r + re_width r \<and> re_y q + re_height q \<le> re_y r + re_height r"

definition point_inside :: "Rect \<Rightarrow> rat \<times> rat \<Rightarrow> bool" where
  "point_inside r p \<longleftrightarrow> re_x r \<le> fst p \<and> fst p \<le> re_x r + re_width r \<and>
    re_y r \<le> snd p \<and> snd p \<le> re_y r + re_height r"

fun shape_inside :: "Rect \<Rightarrow> Shape \<Rightarrow> bool" where
  "shape_inside r (CellRect q _ _) = rect_inside r q"
| "shape_inside r (NoteSquare q) = rect_inside r q"
| "shape_inside r (Diamond ps _) = list_all (point_inside r) ps"

lemma note_square_inside: "0 \<le> re_width r \<Longrightarrow> 0 \<le> re_height r \<Longrightarrow> shape_inside r (note_square r)"
  by (auto simp: note_square_def Let_def rect_inside_def min_def)

lemma diamond_inside:
  assumes "0 \<le> re_width r" "0 \<le> re_height r"
    and "fst c = re_x r + re_width r / 2" "snd c = re_y r + re_height r / 2"
  shows "shape_inside r (diamond c r cp)"
proof -
  define d where "d = min 12 (min (re_width r * (4 / 10)) (re_height r * (4 / 10)))"
  have "0 \<le> d" "d \<le> re_width r" "d \<le> re_height r"
    using assms(1,2) by (auto simp: d_def min_def)
  moreover have "diamond c r cp = Diamond [(fst c, snd c - d / 2), (fst c + d / 2, snd c), (fst c, snd c + d / 2),
      (fst c - d / 2, snd c)] (if cpm_direction cp = ''regression'' then ''var(--change-point-regression)''
      else ''var(--change-point-improvement)'')"
    by (simp add: diamond_def Let_def d_def)
  ultimately show ?thesis
    using assms(3,4) by (simp add: point_inside_def field_simps)
qed

text \<open>
  When the band of a cell is at least as large as its padding, everything drawn for the cell (its
  rectangle, the square of a note and the diamond of a change point) stays inside the padded cell, the note
  and the diamond are drawn exactly when the cell has them, and the ring exactly in the selected column.
\<close>

lemma heatmap_marks_inside:
  assumes "2 * cell_pad columns \<le> fst s" and "2 * cell_pad columns \<le> snd s" and "i < length cells"
  shows "(\<forall>sh\<in>set (renderItem cells (cell_pad columns) annotations selected i xi c s).
      shape_inside (cell_rect (cell_pad columns) c s) sh) \<and>
    ((\<exists>q. NoteSquare q \<in> set (renderItem cells (cell_pad columns) annotations selected i xi c s)) \<longleftrightarrow>
      annotations \<and> hc_hasNote (rdc_cell (cells ! i)) = Some True) \<and>
    ((\<exists>ps k. Diamond ps k \<in> set (renderItem cells (cell_pad columns) annotations selected i xi c s)) \<longleftrightarrow>
      hc_changePoint (rdc_cell (cells ! i)) \<noteq> None) \<and>
    ((\<exists>q f. CellRect q f True \<in> set (renderItem cells (cell_pad columns) annotations selected i xi c s)) \<longleftrightarrow>
      selected = Some xi)"
proof (intro conjI)
  let ?r = "cell_rect (cell_pad columns) c s"
  have r: "0 \<le> re_width ?r" "0 \<le> re_height ?r"
    using assms by (simp_all add: cell_rect_def)
  have "fst c = re_x ?r + re_width ?r / 2" "snd c = re_y ?r + re_height ?r / 2"
    by (simp_all add: cell_rect_def field_simps)
  note d = diamond_inside [OF r this]
  have "shape_inside ?r (CellRect ?r f b)" for f b using r by (simp add: rect_inside_def)
  then show "\<forall>sh\<in>set (renderItem cells (cell_pad columns) annotations selected i xi c s). shape_inside ?r sh"
    using note_square_inside [OF r] d by (auto simp: renderItem_def Let_def split: option.splits)
  show "(\<exists>q. NoteSquare q \<in> set (renderItem cells (cell_pad columns) annotations selected i xi c s)) \<longleftrightarrow>
      annotations \<and> hc_hasNote (rdc_cell (cells ! i)) = Some True"
    "(\<exists>ps k. Diamond ps k \<in> set (renderItem cells (cell_pad columns) annotations selected i xi c s)) \<longleftrightarrow>
      hc_changePoint (rdc_cell (cells ! i)) \<noteq> None"
    "(\<exists>q f. CellRect q f True \<in> set (renderItem cells (cell_pad columns) annotations selected i xi c s)) \<longleftrightarrow>
      selected = Some xi"
    using assms(3) by (cases "hc_changePoint (rdc_cell (cells ! i))";
        auto simp: renderItem_def Let_def note_square_def diamond_def)+
qed

definition sample_render_cell :: RenderCell where
  "sample_render_cell = render_cell (CHART_THEME Dark) (RESULT_COLOUR Dark) []
     \<lparr>hc_value = (0, 0), hc_result = ResPass, hc_score = 90, hc_slot = [], hc_periodStart = [], hc_rowLabel = [],
      hc_evalId = None, hc_columnKey = None, hc_evaluation_name = None, hc_hasNote = Some True, hc_noteContent = None,
      hc_isSloHeader = False, hc_sloName = None, hc_metricName = None, hc_changePoint = None\<rparr>"

theorem heatmap_marks_inside_witness:
  "\<exists>q. NoteSquare q \<in> set (renderItem [sample_render_cell] (cell_pad [''a'']) True None 0 0 (50, 14) (30, 28))"
  using heatmap_marks_inside [where columns = "[''a'']" and s = "(30, 28)" and i = 0 and cells = "[sample_render_cell]"
      and annotations = True and selected = None and xi = 0 and c = "(50, 14)"]
  by (simp add: cell_pad_def sample_render_cell_def render_cell_def Let_def)

lemma those_map_Some: "(\<And>x. x \<in> set xs \<Longrightarrow> f x = Some (g x)) \<Longrightarrow> those (map f xs) = Some (map g xs)"
  by (induction xs) auto

lemma computeColumnPositions_affine:
  assumes "\<And>i. toPixel i = Some (a + b * of_nat i)" "0 \<le> b" "2 \<le> length columns"
  shows "computeColumnPositions toPixel columns old =
    map (\<lambda>i. \<lparr>cpo_x = a + b * of_nat i - b / 2, cpo_width = b\<rparr>) [0..<length columns]"
proof -
  have "those (map toPixel xs) = Some (map (\<lambda>i. a + b * of_nat i) xs)" for xs
    by (rule those_map_Some) (simp add: assms(1))
  moreover have "columns \<noteq> []" "1 < length columns" using assms(3) by auto
  ultimately show ?thesis
    using assms(2) by (simp add: computeColumnPositions_def Let_def assms(1) del: map_append)
qed

text \<open>
  When the chart places columns at equal distances, the row above it shows one icon for each column with
  a note, in the order of the columns, and the icon's box is exactly the column's band, so boxes of
  different columns do not overlap.
\<close>

lemma note_icons_aligned:
  assumes "\<And>i. toPixel i = Some (a + b * of_nat i)" and "0 \<le> b" and "2 \<le> length columns"
  shows "NoteIndicatorRow columns noted (computeColumnPositions toPixel columns old) =
    map (\<lambda>i. \<lparr>ni_slot = columns ! i, ni_info = the (js_get noted (columns ! i)),
        ni_x = a + b * of_nat i - b / 2, ni_width = b\<rparr>)
      (filter (\<lambda>i. js_get noted (columns ! i) \<noteq> None) [0..<length columns])"
proof -
  have "List.map_filter (\<lambda>i. case js_get noted (columns ! i) of
        Some info \<Rightarrow> if i < length ps
          then Some \<lparr>ni_slot = columns ! i, ni_info = info, ni_x = cpo_x (ps ! i), ni_width = cpo_width (ps ! i)\<rparr>
          else None | None \<Rightarrow> None) [0..<n] =
      map (\<lambda>i. \<lparr>ni_slot = columns ! i, ni_info = the (js_get noted (columns ! i)),
        ni_x = a + b * of_nat i - b / 2, ni_width = b\<rparr>) (filter (\<lambda>i. js_get noted (columns ! i) \<noteq> None) [0..<n])"
    if "ps = map (\<lambda>i. \<lparr>cpo_x = a + b * of_nat i - b / 2, cpo_width = b\<rparr>) [0..<length columns]" "n \<le> length columns"
    for ps n
    unfolding List.map_filter_def using that by (auto intro!: map_cong filter_cong split: option.splits)
  moreover have "columns \<noteq> []" using assms(3) by auto
  ultimately show ?thesis
    using assms(3) unfolding computeColumnPositions_affine [OF assms]
    by (cases "noted = []") (simp_all add: NoteIndicatorRow_def)
qed

theorem note_icons_aligned_witness:
  "map ni_x (NoteIndicatorRow [''p'', ''q''] [(''q'', \<lparr>sn_evalId = ''q'', sn_count = 2\<rparr>)]
     (computeColumnPositions (\<lambda>i. Some (240 + 20 * of_nat i)) [''p'', ''q''] [])) = [250]"
  by (subst note_icons_aligned [where a = 240 and b = 20]) (simp_all add: js_get_def upt_rec)

subsection \<open>Colours of series\<close>

lemma series_hue_int: "series_hue i = of_int ((137508 * int i) mod 360000) / 1000"
proof -
  define m where "m = 137508 * int i"
  have x: "of_nat i * 137508 = (of_int m :: rat)" by (simp add: m_def)
  have "of_int m / 1000 / (360 :: rat) = of_int m / of_int 360000"
    by simp
  then have f: "\<lfloor>of_int m / 1000 / (360 :: rat)\<rfloor> = m div 360000"
    by (simp only: floor_divide_of_int_eq)
  have "(of_int m :: rat) = of_int (m div 360000 * 360000 + m mod 360000)" by (simp only: div_mult_mod_eq)
  then have "(of_int m :: rat) = of_int (m div 360000) * 360000 + of_int (m mod 360000)"
    by (simp only: of_int_add of_int_mult of_int_numeral)
  then show ?thesis
    unfolding series_hue_def Let_def x f unfolding m_def [symmetric] by (simp add: field_simps)
qed

lemma series_hue_distinct:
  assumes "i < 30000" "j < 30000" "series_hue i = series_hue j"
  shows "i = j"
proof -
  define d where "d = int i - int j"
  have "of_int ((137508 * int i) mod 360000) = (of_int ((137508 * int j) mod 360000) :: rat)"
    using assms(3) by (simp add: series_hue_int)
  then have "(137508 * int i) mod 360000 = (137508 * int j) mod 360000"
    by (simp only: of_int_eq_iff)
  then have "360000 dvd 137508 * int i - 137508 * int j" by (simp only: mod_eq_dvd_iff)
  moreover have "137508 * int i - 137508 * int j = 12 * (11459 * d)" by (simp add: d_def algebra_simps)
  ultimately have "12 * 30000 dvd 12 * (11459 * d)" by simp
  then have "30000 dvd 11459 * d" by (simp only: dvd_mult_cancel_left) (elim disjE, simp_all)
  then have "30000 dvd 20939 * (11459 * d) + 30000 * ((- 7998) * d)" by (intro dvd_add dvd_mult [OF \<open>30000 dvd 11459 * d\<close>] dvd_triv_left)
  moreover have "20939 * (11459 * d) + 30000 * ((- 7998) * d) = d" by simp
  ultimately have "30000 dvd d" by simp
  then have "d = 0 \<or> 30000 \<le> \<bar>d\<bar>" using dvd_imp_le_int [of d 30000] by auto
  then show ?thesis using assms(1,2) by (auto simp: d_def)
qed

lemma sorted_wrt_unique:
  assumes "\<And>x y. x \<in> set xs \<Longrightarrow> y \<in> set xs \<Longrightarrow> R x y \<Longrightarrow> R y x \<Longrightarrow> x = y"
    and "sorted_wrt R xs" "sorted_wrt R ys" "mset xs = mset ys"
  shows "xs = ys"
  using assms
proof (induction xs arbitrary: ys)
  case (Cons x xs)
  obtain y zs where ys: "ys = y # zs" using Cons.prems(4) by (cases ys) auto
  have sets: "set (x # xs) = set ys" using Cons.prems(4) by (metis set_mset_mset)
  have "x = y"
  proof (rule ccontr)
    assume "x \<noteq> y"
    then have "x \<in> set zs" "y \<in> set xs" using sets ys by auto
    then show False using Cons.prems(1) [of x y] Cons.prems(2,3) \<open>x \<noteq> y\<close> ys by auto
  qed
  moreover have "xs = zs"
    using Cons.prems ys \<open>x = y\<close> by (intro Cons.IH) auto
  ultimately show ?case using ys by simp
qed simp

lemma mset_insert_cmp: "mset (insert_cmp cmp x ys) = add_mset x (mset ys)"
  by (induction ys) auto

lemma mset_sort_cmp: "mset (sort_cmp cmp xs) = mset xs"
  by (induction xs) (simp_all add: sort_cmp_def mset_insert_cmp)

text \<open>
  The colours of the series do not depend on the order in which the metrics are listed, and the first
  30000 metrics have different hues.
\<close>

lemma buildColorMap_stable:
  assumes "cmp_ok localeCompare" and "mset xs = mset ys"
    and "\<And>a b. a \<in> set xs \<Longrightarrow> b \<in> set xs \<Longrightarrow> localeCompare a b \<le> 0 \<Longrightarrow> localeCompare b a \<le> 0 \<Longrightarrow> a = b"
  shows "buildColorMap localeCompare xs = buildColorMap localeCompare ys \<and>
    (\<forall>i < 30000. \<forall>j < 30000. series_hue i = series_hue j \<longrightarrow> i = j)"
proof (intro conjI allI impI)
  have "sort_cmp localeCompare xs = sort_cmp localeCompare ys"
    by (rule sorted_wrt_unique [of _ "\<lambda>a b. localeCompare a b \<le> 0"])
      (use assms sorted_sort_cmp [OF assms(1)] in \<open>auto simp: mset_sort_cmp\<close>)
  then show "buildColorMap localeCompare xs = buildColorMap localeCompare ys"
    by (simp add: buildColorMap_def)
qed (rule series_hue_distinct)

theorem buildColorMap_stable_witness:
  "buildColorMap (\<lambda>a b. int (length a) - int (length b)) [''bb'', ''a''] =
   buildColorMap (\<lambda>a b. int (length a) - int (length b)) [''a'', ''bb'']"
  by (rule conjunct1 [OF buildColorMap_stable]) (auto simp: cmp_ok_def)

end
