(* ===== verification/UiState.thy ===== *)
theory UiState
  imports Hooks HeatmapRender TimeRange
begin

text \<open>
  Small pieces of client state: the column picker of the evaluation tables (\<open>features/evaluations/hooks.ts\<close>), the
  chart preferences and their per-chart overrides (\<open>lib/chart-preferences-context.tsx\<close>, \<open>useMasterOverride.ts\<close>), the
  theme and font size (\<open>lib/theme-context.tsx\<close>), the configuration (\<open>lib/config.ts\<close>), the tabs of an evaluation
  (\<open>useTabState.ts\<close>), clicks into a chart area, the actions of the asset tree and the selection in the URL
  (\<open>pages/AssetNavigatorPage.tsx\<close>). The local storage is a map from keys to strings.
\<close>

subsection \<open>Columns of the evaluation table\<close>

record ColumnDef =
  cd_key :: string
  cd_label :: string
  cd_required :: bool

definition FIXED_COLS :: "ColumnDef list" where
  "FIXED_COLS = [\<lparr>cd_key = ''test'', cd_label = ''Evaluation'', cd_required = True\<rparr>,
     \<lparr>cd_key = ''asset'', cd_label = ''Asset'', cd_required = True\<rparr>,
     \<lparr>cd_key = ''start'', cd_label = ''Time (UTC)'', cd_required = False\<rparr>,
     \<lparr>cd_key = ''score'', cd_label = ''Score'', cd_required = True\<rparr>,
     \<lparr>cd_key = ''result'', cd_label = ''Result'', cd_required = True\<rparr>,
     \<lparr>cd_key = ''slo'', cd_label = ''SLO'', cd_required = False\<rparr>,
     \<lparr>cd_key = ''annotations'', cd_label = ''Notes'', cd_required = False\<rparr>]"

definition DEFAULT_VISIBLE_KEYS :: "string list" where
  "DEFAULT_VISIBLE_KEYS = uniq (map cd_key FIXED_COLS)"

definition FIXED_KEYS :: "string list" where
  "FIXED_KEYS = uniq (map cd_key FIXED_COLS)"

text \<open>Underscores become blanks and the first word character after another character is capitalised.\<close>

definition word_char :: "char \<Rightarrow> bool" where
  "word_char c \<longleftrightarrow> is_digit c \<or> (CHR ''a'' \<le> c \<and> c \<le> CHR ''z'') \<or> (CHR ''A'' \<le> c \<and> c \<le> CHR ''Z'') \<or> c = CHR ''_''"

definition upper_ascii :: "char \<Rightarrow> char" where
  "upper_ascii c = (if CHR ''a'' \<le> c \<and> c \<le> CHR ''z'' then char_of (of_char c - 32 :: nat) else c)"

fun capitalise_words :: "bool \<Rightarrow> string \<Rightarrow> string" where
  "capitalise_words prevWord [] = []"
| "capitalise_words prevWord (c # s) =
    (if word_char c \<and> \<not> prevWord then upper_ascii c else c) # capitalise_words (word_char c) s"

definition prettyLabel :: "string \<Rightarrow> string" where
  "prettyLabel key = capitalise_words False (map (\<lambda>c. if c = CHR ''_'' then CHR '' '' else c) key)"

definition add_column :: "string \<Rightarrow> ColumnDef list \<Rightarrow> ColumnDef list" where
  "add_column key cols = (if key \<notin> set FIXED_KEYS \<and> key \<notin> set (map cd_key cols)
     then cols @ [\<lparr>cd_key = key, cd_label = prettyLabel key, cd_required = False\<rparr>] else cols)"

definition eval_keys :: "Evaluation \<Rightarrow> string list" where
  "eval_keys ev = map fst (Object_entries (as_tags (ev_assetSnapshot ev))) @ map fst (Object_entries (ev_variables ev))"

definition useDynamicColumns :: "Evaluation list \<Rightarrow> ColumnDef list" where
  "useDynamicColumns evals = fold add_column (concat (map eval_keys evals)) []"

definition toggleColumnKey :: "string list \<Rightarrow> string \<Rightarrow> ColumnDef list \<Rightarrow> string list" where
  "toggleColumnKey prev key allCols = (case find (\<lambda>c. cd_key c = key) allCols of
     None \<Rightarrow> prev
   | Some col \<Rightarrow> if cd_required col then prev
       else if key \<in> set prev then removeAll key prev else prev @ [key])"

record ColumnPicker =
  cpk_dynamicCols :: "ColumnDef list"
  cpk_visibleKeys :: "string list"
  cpk_open :: bool

definition allCols :: "ColumnPicker \<Rightarrow> ColumnDef list" where
  "allCols p = FIXED_COLS @ cpk_dynamicCols p"

definition picker_columns_mount :: "ColumnDef list \<Rightarrow> ColumnPicker" where
  "picker_columns_mount dynamicCols = \<lparr>cpk_dynamicCols = dynamicCols,
     cpk_visibleKeys = uniq (DEFAULT_VISIBLE_KEYS @ map cd_key dynamicCols), cpk_open = False\<rparr>"

text \<open>The effect runs on mount and whenever the evaluations, and with them the list of columns, change.\<close>

definition new_columns_effect :: "ColumnPicker \<Rightarrow> ColumnPicker" where
  "new_columns_effect p =
    (let newKeys = filter (\<lambda>k. k \<notin> set (cpk_visibleKeys p)) (map cd_key (cpk_dynamicCols p))
     in if newKeys = [] then p else p\<lparr>cpk_visibleKeys := uniq (cpk_visibleKeys p @ newKeys)\<rparr>)"

datatype ColumnEvent = ToggleColumn string | SetOpen bool | ClickOutside | EvalsChanged "Evaluation list"

fun column_step :: "ColumnEvent \<Rightarrow> ColumnPicker \<Rightarrow> ColumnPicker" where
  "column_step (ToggleColumn k) p = p\<lparr>cpk_visibleKeys := toggleColumnKey (cpk_visibleKeys p) k (allCols p)\<rparr>"
| "column_step (SetOpen b) p = p\<lparr>cpk_open := b\<rparr>"
| "column_step ClickOutside p = (if cpk_open p then p\<lparr>cpk_open := False\<rparr> else p)"
| "column_step (EvalsChanged evals) p = new_columns_effect (p\<lparr>cpk_dynamicCols := useDynamicColumns evals\<rparr>)"

definition column_run :: "Evaluation list \<Rightarrow> ColumnEvent list \<Rightarrow> ColumnPicker" where
  "column_run evals es = fold column_step es (new_columns_effect (picker_columns_mount (useDynamicColumns evals)))"

subsection \<open>Chart preferences\<close>

datatype ChartType = LineChart | BarChart

definition chart_type_str :: "ChartType \<Rightarrow> string" where
  "chart_type_str t = (case t of LineChart \<Rightarrow> ''line'' | BarChart \<Rightarrow> ''bar'')"

type_synonym storage = "(string, string) jsmap"

definition COLUMNS_KEY :: string where
  "COLUMNS_KEY = ''tropek.chartColumns''"

definition NOTES_KEY :: string where
  "NOTES_KEY = ''tropek.notesMaster''"

definition CHART_TYPE_KEY :: string where
  "CHART_TYPE_KEY = ''tropek.chartType''"

definition loadColumns :: "storage \<Rightarrow> nat" where
  "loadColumns ls = (if js_get ls COLUMNS_KEY = Some ''2'' then 2 else 1)"

definition loadNotesMaster :: "storage \<Rightarrow> bool" where
  "loadNotesMaster ls \<longleftrightarrow> js_get ls NOTES_KEY \<noteq> Some ''false''"

definition loadChartType :: "storage \<Rightarrow> ChartType" where
  "loadChartType ls = (if js_get ls CHART_TYPE_KEY = Some ''bar'' then BarChart else LineChart)"

record ChartPreferences =
  cpr_columns :: nat
  cpr_notesMaster :: bool
  cpr_notesGeneration :: nat
  cpr_chartTypeMaster :: ChartType
  cpr_chartTypeGeneration :: nat
  cpr_storage :: storage

definition prefs_mount :: "storage \<Rightarrow> ChartPreferences" where
  "prefs_mount ls = \<lparr>cpr_columns = loadColumns ls, cpr_notesMaster = loadNotesMaster ls, cpr_notesGeneration = 0,
     cpr_chartTypeMaster = loadChartType ls, cpr_chartTypeGeneration = 0, cpr_storage = ls\<rparr>"

definition setColumns :: "nat \<Rightarrow> ChartPreferences \<Rightarrow> ChartPreferences" where
  "setColumns n p = p\<lparr>cpr_columns := n, cpr_storage := js_set COLUMNS_KEY (show_nat n) (cpr_storage p)\<rparr>"

definition toggleNotesMaster :: "ChartPreferences \<Rightarrow> ChartPreferences" where
  "toggleNotesMaster p = (let nxt = \<not> cpr_notesMaster p in
     p\<lparr>cpr_notesMaster := nxt, cpr_storage := js_set NOTES_KEY (if nxt then ''true'' else ''false'') (cpr_storage p),
       cpr_notesGeneration := cpr_notesGeneration p + 1\<rparr>)"

definition toggleChartType :: "ChartPreferences \<Rightarrow> ChartPreferences" where
  "toggleChartType p = (let nxt = (if cpr_chartTypeMaster p = LineChart then BarChart else LineChart) in
     p\<lparr>cpr_chartTypeMaster := nxt, cpr_storage := js_set CHART_TYPE_KEY (chart_type_str nxt) (cpr_storage p),
       cpr_chartTypeGeneration := cpr_chartTypeGeneration p + 1\<rparr>)"

text \<open>A preference of one chart: its override, reset during the render that sees a new generation.\<close>

record 'a MasterOverride =
  mo_override :: "'a option"
  mo_lastGeneration :: nat

definition override_mount :: "nat \<Rightarrow> 'a MasterOverride" where
  "override_mount generation = \<lparr>mo_override = None, mo_lastGeneration = generation\<rparr>"

definition useMasterOverride :: "'a \<Rightarrow> nat \<Rightarrow> 'a MasterOverride \<Rightarrow> 'a \<times> 'a MasterOverride" where
  "useMasterOverride master generation st =
    (let st1 = (if generation \<noteq> mo_lastGeneration st then \<lparr>mo_override = None, mo_lastGeneration = generation\<rparr> else st)
     in (nullish (mo_override st1) master, st1))"

definition setOverride :: "'a \<Rightarrow> 'a MasterOverride \<Rightarrow> 'a MasterOverride" where
  "setOverride v st = st\<lparr>mo_override := Some v\<rparr>"

subsection \<open>Theme and font size\<close>

text \<open>\<open>Number(s)\<close> of a string: blank is 0; a decimal, a signed infinity or a number in base 16, 8 or 2.\<close>

definition exponent_ok :: "string \<Rightarrow> bool" where
  "exponent_ok r = (case r of [] \<Rightarrow> True
     | c # u \<Rightarrow> (c = CHR ''e'' \<or> c = CHR ''E'') \<and> (let ds = snd (split_sign u) in ds \<noteq> [] \<and> list_all is_digit ds))"

definition radix_number :: "nat \<Rightarrow> string \<Rightarrow> jsnum" where
  "radix_number b s = (let ds = map hex_digit s in
     if s \<noteq> [] \<and> list_all (\<lambda>d. d \<noteq> None \<and> the d < b) ds then Fin (of_nat (foldl (\<lambda>a d. a * b + the d) 0 ds)) else NaN)"

definition radix_of :: "string \<Rightarrow> nat option" where
  "radix_of t = (if take 2 t = ''0x'' \<or> take 2 t = ''0X'' then Some 16 else if take 2 t = ''0o'' \<or> take 2 t = ''0O'' then Some 8
     else if take 2 t = ''0b'' \<or> take 2 t = ''0B'' then Some 2 else None)"

definition js_Number :: "string \<Rightarrow> jsnum" where
  "js_Number s = (let t = trim_str s in
     if t = [] then Fin 0
     else case radix_of t of Some b \<Rightarrow> radix_number b (drop 2 t)
     | None \<Rightarrow> (let (neg, u) = split_sign t in
         if u = ''Infinity'' then (if neg then NegInf else PosInf)
         else if exponent_ok (snd (frac_part (dropWhile is_digit u)))
         then (case parse_unsigned u of None \<Rightarrow> NaN | Some x \<Rightarrow> Fin (if neg then - x else x))
         else NaN))"

definition clampFontSize :: "jsnum \<Rightarrow> jsnum" where
  "clampFontSize n = (case n of Fin x \<Rightarrow> Fin (max 12 (min 24 x)) | PosInf \<Rightarrow> Fin 24 | NegInf \<Rightarrow> Fin 12 | NaN \<Rightarrow> NaN)"

text \<open>\<open>Number(stored) || 18\<close>: no stored value, zero and NaN give the default.\<close>

definition stored_font_size :: "string option \<Rightarrow> jsnum" where
  "stored_font_size v = (case v of None \<Rightarrow> Fin 18
     | Some s \<Rightarrow> if js_Number s = Fin 0 \<or> js_Number s = NaN then Fin 18 else js_Number s)"

definition load_theme :: "string option \<Rightarrow> Theme" where
  "load_theme v = (if v = Some ''current'' then Current else if v = Some ''light'' then Light else Dark)"

definition theme_str :: "Theme \<Rightarrow> string" where
  "theme_str t = (case t of Current \<Rightarrow> ''current'' | Dark \<Rightarrow> ''dark'' | Light \<Rightarrow> ''light'')"

record ThemeState =
  th_theme :: Theme
  th_fontSize :: jsnum
  th_storage :: storage

definition theme_effects :: "ThemeState \<Rightarrow> ThemeState" where
  "theme_effects s = s\<lparr>th_storage := js_set ''tropek-font-size'' (num_string (th_fontSize s))
     (js_set ''tropek-theme'' (theme_str (th_theme s)) (th_storage s))\<rparr>"

definition theme_mount :: "storage \<Rightarrow> ThemeState" where
  "theme_mount ls = theme_effects \<lparr>th_theme = load_theme (js_get ls ''tropek-theme''),
     th_fontSize = clampFontSize (stored_font_size (js_get ls ''tropek-font-size'')), th_storage = ls\<rparr>"

definition setTheme :: "Theme \<Rightarrow> ThemeState \<Rightarrow> ThemeState" where
  "setTheme t s = theme_effects (s\<lparr>th_theme := t\<rparr>)"

definition setFontSize :: "jsnum \<Rightarrow> ThemeState \<Rightarrow> ThemeState" where
  "setFontSize n s = theme_effects (s\<lparr>th_fontSize := clampFontSize n\<rparr>)"

definition isDark :: "ThemeState \<Rightarrow> bool" where
  "isDark s \<longleftrightarrow> th_theme s \<noteq> Light"

subsection \<open>Configuration\<close>

record UIConfig =
  cfg_maxEvaluations :: int
  cfg_pageSize :: int
  cfg_heatmapSloGroupsExpandedByDefault :: bool
  cfg_heatmapSlowThresholdDays :: int
  cfg_dataStartDate :: string
  cfg_trendPrefetchMarginPx :: int

definition config_defaults :: UIConfig where
  "config_defaults = \<lparr>cfg_maxEvaluations = 5000, cfg_pageSize = 200, cfg_heatmapSloGroupsExpandedByDefault = True,
     cfg_heatmapSlowThresholdDays = 30, cfg_dataStartDate = ''2024-01-01'', cfg_trendPrefetchMarginPx = 200\<rparr>"

text \<open>
  The object of the answer overwrites the defaults field by field; the partial object is given by its fields.
  Without an answer, or with a failed one, the configuration stays as it is.
\<close>

record PartialConfig =
  pc_maxEvaluations :: "int option"
  pc_pageSize :: "int option"
  pc_heatmapSloGroupsExpandedByDefault :: "bool option"
  pc_heatmapSlowThresholdDays :: "int option"
  pc_dataStartDate :: "string option"
  pc_trendPrefetchMarginPx :: "int option"

definition merge_config :: "PartialConfig \<Rightarrow> UIConfig" where
  "merge_config j = (let d = config_defaults in
     \<lparr>cfg_maxEvaluations = nullish (pc_maxEvaluations j) (cfg_maxEvaluations d),
      cfg_pageSize = nullish (pc_pageSize j) (cfg_pageSize d),
      cfg_heatmapSloGroupsExpandedByDefault = nullish (pc_heatmapSloGroupsExpandedByDefault j) (cfg_heatmapSloGroupsExpandedByDefault d),
      cfg_heatmapSlowThresholdDays = nullish (pc_heatmapSlowThresholdDays j) (cfg_heatmapSlowThresholdDays d),
      cfg_dataStartDate = nullish (pc_dataStartDate j) (cfg_dataStartDate d),
      cfg_trendPrefetchMarginPx = nullish (pc_trendPrefetchMarginPx j) (cfg_trendPrefetchMarginPx d)\<rparr>)"

datatype config_answer = Unreachable | BadStatus | BadJson | ConfigAnswer PartialConfig

definition loadConfig :: "config_answer \<Rightarrow> UIConfig \<Rightarrow> UIConfig" where
  "loadConfig answer config = (case answer of ConfigAnswer j \<Rightarrow> merge_config j | _ \<Rightarrow> config)"

subsection \<open>Tabs of an evaluation\<close>

definition availableGroups :: "Indicator list option \<Rightarrow> string list" where
  "availableGroups indicators = uniq (filter (\<lambda>g. g \<noteq> []) (List.map_filter in_tabGroup (nullish indicators [])))"

definition tab_counts :: "Indicator list option \<Rightarrow> (string, nat) jsmap" where
  "tab_counts indicators = foldl (\<lambda>m g. js_set g
     (length (filter (\<lambda>i. in_tabGroup i = Some g) (nullish indicators []))) m) [] (availableGroups indicators)"

definition resolvedTab :: "Indicator list option \<Rightarrow> string \<Rightarrow> string" where
  "resolvedTab indicators activeTab = (if activeTab \<in> set (''all'' # availableGroups indicators) then activeTab else ''all'')"

definition tabIndicators :: "Indicator list option \<Rightarrow> string \<Rightarrow> Indicator list" where
  "tabIndicators indicators activeTab =
    (if resolvedTab indicators activeTab = ''all'' then nullish indicators []
     else filter (\<lambda>i. in_tabGroup i = Some (resolvedTab indicators activeTab)) (nullish indicators []))"

definition tabLabel :: "string \<Rightarrow> string" where
  "tabLabel tab = (if tab = ''all'' then ''All'' else case tab of [] \<Rightarrow> []
     | c # s \<Rightarrow> upper_ascii c # map (\<lambda>x. if x = CHR ''_'' then CHR '' '' else x) s)"

definition tab_count_shown :: "Indicator list option \<Rightarrow> string \<Rightarrow> nat" where
  "tab_count_shown indicators tab = (if tab = ''all'' then length (nullish indicators [])
     else nullish (js_get (tab_counts indicators) tab) 0)"

subsection \<open>Clicks into the area of a chart\<close>

text \<open>
  The chart instance says whether a pixel lies in its grid and which category position it has; the result
  is the index passed to the handler, if it is called.
\<close>

record ChartInstance =
  ch_containPixel :: "rat \<times> rat \<Rightarrow> bool"
  ch_convertFromPixel :: "rat \<times> rat \<Rightarrow> rat"

definition onContainerClick ::
    "bool \<Rightarrow> nat \<Rightarrow> ChartInstance option \<Rightarrow> rat \<times> rat \<Rightarrow> rat \<times> rat \<Rightarrow> int option" where
  "onContainerClick hasHandler dataLength chart client rectOrigin =
    (if \<not> hasHandler \<or> dataLength = 0 then None
     else case chart of None \<Rightarrow> None
     | Some ch \<Rightarrow>
         let point = (fst client - fst rectOrigin, snd client - snd rectOrigin) in
         if \<not> ch_containPixel ch point then None
         else Some (max 0 (min (js_round (ch_convertFromPixel ch point)) (int dataLength - 1))))"

subsection \<open>Actions of the asset tree\<close>

record TreeTarget =
  tt_name :: string
  tt_groupName :: "string option"
  tt_assetId :: "string option"

datatype TreeEffect =
    StartRename string
  | EditGroup string
  | CreateGroup string
  | AddSloLink string
  | DeleteGroup string
  | SelectAsset string string
  | AddAssetToGroup string
  | EditAsset string
  | RemoveMember string string
  | DeleteAsset string

text \<open>Which of the optional callbacks the tree was given.\<close>

record ActionCallbacks =
  acb_onAddSloLink :: bool
  acb_onAddAssetToGroup :: bool
  acb_onEditAsset :: bool
  acb_onSelectAsset :: bool

definition when_given :: "bool \<Rightarrow> TreeEffect \<Rightarrow> TreeEffect option" where
  "when_given b e = (if b then Some e else None)"

definition tree_dispatch :: "ActionCallbacks \<Rightarrow> string \<Rightarrow> TreeTarget \<Rightarrow> TreeEffect option" where
  "tree_dispatch cb action target =
    (let n = tt_name target; grp = tt_groupName target; ast = tt_assetId target in
     if action = ''rename'' then Some (StartRename n)
     else if action = ''editDetails'' then Some (EditGroup n)
     else if action = ''addSubgroup'' then Some (CreateGroup n)
     else if action = ''linkSlo'' then when_given (acb_onAddSloLink cb) (AddSloLink n)
     else if action = ''deleteGroup'' then Some (DeleteGroup n)
     else if action = ''viewEvaluations'' then when_given (acb_onSelectAsset cb \<and> truthy grp) (SelectAsset n (nullish grp []))
     else if action = ''addAssetToGroup'' then when_given (acb_onAddAssetToGroup cb) (AddAssetToGroup n)
     else if action = ''editAsset'' then when_given (acb_onEditAsset cb) (EditAsset n)
     else if action = ''removeFromGroup'' then when_given (truthy grp \<and> truthy ast) (RemoveMember (nullish grp []) (nullish ast []))
     else if action = ''deleteAsset'' then Some (DeleteAsset n)
     else None)"

subsection \<open>The selection in the URL\<close>

definition selectGroup :: "string option \<Rightarrow> search_params \<Rightarrow> search_params" where
  "selectGroup name prev =
    (let nxt = sp_delete ''eval'' (sp_delete ''asset'' (sp_delete ''group'' prev));
         nxt1 = (if truthy name then sp_set ''group'' (nullish name []) nxt else nxt)
     in withTimeParamsLast nxt1)"

definition selectAsset :: "string \<Rightarrow> string option \<Rightarrow> string option \<Rightarrow> search_params \<Rightarrow> search_params" where
  "selectAsset name groupName evalId prev =
    (let nxt = sp_delete ''eval'' (sp_delete ''asset'' prev);
         grp = (case groupName of Some g \<Rightarrow> Some g | None \<Rightarrow> sp_get prev ''group'');
         nxt1 = (if truthy grp then sp_set ''group'' (nullish grp []) nxt else sp_delete ''group'' nxt);
         nxt2 = sp_set ''asset'' name nxt1;
         nxt3 = (if truthy evalId then sp_set ''eval'' (nullish evalId []) nxt2 else nxt2)
     in withTimeParamsLast nxt3)"

datatype NavigatorPanel = ShowAsset string "string option" | ShowGroup string | ShowAll

definition navigator_panel :: "search_params \<Rightarrow> NavigatorPanel" where
  "navigator_panel ps =
    (if truthy (sp_get ps ''asset'') then ShowAsset (nullish (sp_get ps ''asset'') []) (sp_get ps ''eval'')
     else if truthy (sp_get ps ''group'') then ShowGroup (nullish (sp_get ps ''group'') [])
     else ShowAll)"

subsection \<open>The columns\<close>

lemma add_column_keys:
  "set (map cd_key (add_column k cols)) = (if k \<in> set FIXED_KEYS then {} else {k}) \<union> set (map cd_key cols)"
  by (auto simp: add_column_def)

lemma fold_add_column:
  "set (map cd_key (fold add_column ks cols)) = set (map cd_key cols) \<union> (set ks - set FIXED_KEYS)"
  by (induction ks arbitrary: cols) (auto simp: add_column_keys simp del: set_map)

lemma fold_add_column_distinct:
  "distinct (map cd_key cols) \<Longrightarrow> distinct (map cd_key (fold add_column ks cols))"
  by (induction ks arbitrary: cols) (auto simp: add_column_def)

lemma dynamic_keys:
  "set (map cd_key (useDynamicColumns evals)) = (\<Union>ev\<in>set evals. set (eval_keys ev)) - set FIXED_KEYS"
  "distinct (map cd_key (useDynamicColumns evals))"
proof -
  have "set (concat (map eval_keys evals)) = (\<Union>ev\<in>set evals. set (eval_keys ev))" by simp
  then show "set (map cd_key (useDynamicColumns evals)) = (\<Union>ev\<in>set evals. set (eval_keys ev)) - set FIXED_KEYS"
    unfolding useDynamicColumns_def fold_add_column by simp
  show "distinct (map cd_key (useDynamicColumns evals))"
    unfolding useDynamicColumns_def by (rule fold_add_column_distinct) simp
qed

definition required_keys :: "string list" where
  "required_keys = map cd_key (filter cd_required FIXED_COLS)"

definition columns_ok :: "ColumnPicker \<Rightarrow> bool" where
  "columns_ok p \<longleftrightarrow> distinct (map cd_key (allCols p)) \<and> distinct (cpk_visibleKeys p) \<and>
    set required_keys \<subseteq> set (cpk_visibleKeys p) \<and> (\<exists>evals. cpk_dynamicCols p = useDynamicColumns evals)"

lemma fixed_keys: "distinct (map cd_key FIXED_COLS)" "set (map cd_key FIXED_COLS) = set FIXED_KEYS"
  "set required_keys \<subseteq> set DEFAULT_VISIBLE_KEYS"
  by code_simp+

lemma allCols_distinct: "cpk_dynamicCols p = useDynamicColumns evals \<Longrightarrow> distinct (map cd_key (allCols p))"
  using dynamic_keys [of evals] fixed_keys by (auto simp: allCols_def simp del: set_map)

lemma allCols_vis [simp]: "allCols (p\<lparr>cpk_visibleKeys := v\<rparr>) = allCols p"
  by (simp add: allCols_def)

lemma required_col: "k \<in> set required_keys \<Longrightarrow> \<exists>c. find (\<lambda>c. cd_key c = k) (allCols p) = Some c \<and> cd_required c"
  by (auto simp: required_keys_def FIXED_COLS_def allCols_def)

lemma toggle_keeps_required:
  "set required_keys \<subseteq> set vis \<Longrightarrow> set required_keys \<subseteq> set (toggleColumnKey vis k (allCols p))"
  using required_col [of k p] by (fastforce simp: toggleColumnKey_def split: option.splits)

lemma toggle_distinct: "distinct vis \<Longrightarrow> distinct (toggleColumnKey vis k cols)"
  by (auto simp: toggleColumnKey_def distinct_removeAll split: option.splits)

lemma new_columns_vis:
  "cpk_visibleKeys (new_columns_effect p) =
   (if set (map cd_key (cpk_dynamicCols p)) \<subseteq> set (cpk_visibleKeys p) then cpk_visibleKeys p
    else uniq (cpk_visibleKeys p @ filter (\<lambda>k. k \<notin> set (cpk_visibleKeys p)) (map cd_key (cpk_dynamicCols p))))"
  "cpk_dynamicCols (new_columns_effect p) = cpk_dynamicCols p"
  by (auto simp: new_columns_effect_def Let_def filter_empty_conv)

lemma new_columns_all: "set (map cd_key (cpk_dynamicCols p)) \<subseteq> set (cpk_visibleKeys (new_columns_effect p))"
  by (auto simp: new_columns_vis)

lemma new_columns_ok: "columns_ok p \<Longrightarrow> columns_ok (new_columns_effect p)"
  by (auto simp: columns_ok_def new_columns_vis allCols_def)

lemma column_step_ok:
  assumes "columns_ok p"
  shows "columns_ok (column_step e p)"
proof (cases e)
  case (ToggleColumn k)
  then show ?thesis
    using assms toggle_keeps_required [of "cpk_visibleKeys p" k p] toggle_distinct [of "cpk_visibleKeys p"]
    by (auto simp: columns_ok_def allCols_def)
next
  case (EvalsChanged evals)
  have "columns_ok (p\<lparr>cpk_dynamicCols := useDynamicColumns evals\<rparr>)"
    using assms allCols_distinct [of "p\<lparr>cpk_dynamicCols := useDynamicColumns evals\<rparr>" evals] by (auto simp: columns_ok_def)
  then show ?thesis using EvalsChanged by (simp add: new_columns_ok)
qed (use assms in \<open>auto simp: columns_ok_def allCols_def\<close>)

lemma column_mount_ok: "columns_ok (new_columns_effect (picker_columns_mount (useDynamicColumns evals)))"
  using fixed_keys(3) allCols_distinct [of "picker_columns_mount (useDynamicColumns evals)" evals]
  by (intro new_columns_ok) (auto simp: columns_ok_def picker_columns_mount_def)

lemma column_run_ok: "columns_ok (column_run evals es)"
  unfolding column_run_def by (rule fold_invariant [where P = columns_ok and Q = "\<lambda>_. True"])
    (auto intro: column_step_ok column_mount_ok)

lemma column_run_snoc: "column_run evals (es @ [e]) = column_step e (column_run evals es)"
  by (simp add: column_run_def)

text \<open>
  Whatever the user toggles and however often the evaluations are refetched, column keys are
  unique, the required columns stay visible and every other column can be toggled back and forth; but a
  refetch makes every column discovered in the evaluations visible again, also those the user has hidden.
\<close>

lemma column_picker_correct:
  "distinct (map cd_key (allCols (column_run evals es))) \<and>
   set required_keys \<subseteq> set (cpk_visibleKeys (column_run evals es)) \<and>
   (\<forall>c\<in>set (allCols (column_run evals es)). \<not> cd_required c \<longrightarrow>
     (cd_key c \<in> set (cpk_visibleKeys (column_run evals (es @ [ToggleColumn (cd_key c)]))) \<longleftrightarrow>
       cd_key c \<notin> set (cpk_visibleKeys (column_run evals es))) \<and>
     set (cpk_visibleKeys (column_run evals (es @ [ToggleColumn (cd_key c), ToggleColumn (cd_key c)]))) =
       set (cpk_visibleKeys (column_run evals es))) \<and>
   (\<Union>ev\<in>set evals'. set (eval_keys ev)) - set FIXED_KEYS
     \<subseteq> set (cpk_visibleKeys (column_run evals (es @ [EvalsChanged evals'])))"
proof -
  let ?p = "column_run evals es"
  have ok: "columns_ok ?p" by (rule column_run_ok)
  have two: "column_run evals (es @ [a, b]) = column_step b (column_step a ?p)" for a b
    by (simp add: column_run_def)
  have find_key: "find (\<lambda>c'. cd_key c' = cd_key c) (allCols ?p) = Some c" if "c \<in> set (allCols ?p)" for c
  proof -
    have "distinct (map cd_key cols) \<Longrightarrow> c \<in> set cols \<Longrightarrow> find (\<lambda>c'. cd_key c' = cd_key c) cols = Some c" for cols
      by (induction cols) (auto simp: rev_image_eqI)
    then show ?thesis using ok that by (auto simp: columns_ok_def)
  qed
  have "\<forall>c\<in>set (allCols ?p). \<not> cd_required c \<longrightarrow>
     (cd_key c \<in> set (cpk_visibleKeys (column_run evals (es @ [ToggleColumn (cd_key c)]))) \<longleftrightarrow>
       cd_key c \<notin> set (cpk_visibleKeys ?p)) \<and>
     set (cpk_visibleKeys (column_run evals (es @ [ToggleColumn (cd_key c), ToggleColumn (cd_key c)]))) =
       set (cpk_visibleKeys ?p)"
    unfolding two column_run_snoc by (auto simp: find_key toggleColumnKey_def)
  moreover have "(\<Union>ev\<in>set evals'. set (eval_keys ev)) - set FIXED_KEYS
     \<subseteq> set (cpk_visibleKeys (column_run evals (es @ [EvalsChanged evals'])))"
    using new_columns_all [of "?p\<lparr>cpk_dynamicCols := useDynamicColumns evals'\<rparr>"] dynamic_keys(1) [of evals']
    unfolding column_run_snoc by (auto simp del: set_map)
  ultimately show ?thesis using ok by (auto simp: columns_ok_def)
qed

theorem column_picker_correct_witness:
  "''slo'' \<notin> set (cpk_visibleKeys (column_run [] [ToggleColumn ''slo''])) \<and>
   set required_keys \<subseteq> set (cpk_visibleKeys (column_run [] []))"
proof -
  have vis: "''slo'' \<in> set (cpk_visibleKeys (column_run [] []))"
    "list_ex (\<lambda>c. \<not> cd_required c \<and> cd_key c = ''slo'') (allCols (column_run [] []))"
    by code_simp+
  then obtain c where "c \<in> set (allCols (column_run [] []))" "\<not> cd_required c" "cd_key c = ''slo''"
    by (auto simp: list_ex_iff)
  then show ?thesis
    using column_picker_correct [where evals = "[]" and es = "[]" and evals' = "[]"] vis(1) by fastforce
qed

subsection \<open>Preferences and overrides\<close>

datatype PrefEvent = SetColumns nat | ToggleNotes | ToggleType

fun pref_step :: "PrefEvent \<Rightarrow> ChartPreferences \<Rightarrow> ChartPreferences" where
  "pref_step (SetColumns n) p = setColumns n p"
| "pref_step ToggleNotes p = toggleNotesMaster p"
| "pref_step ToggleType p = toggleChartType p"

definition pref_run :: "storage \<Rightarrow> PrefEvent list \<Rightarrow> ChartPreferences" where
  "pref_run ls es = fold pref_step es (prefs_mount ls)"

definition stored_ok :: "ChartPreferences \<Rightarrow> bool" where
  "stored_ok p \<longleftrightarrow> loadColumns (cpr_storage p) = cpr_columns p \<and> loadNotesMaster (cpr_storage p) = cpr_notesMaster p \<and>
    loadChartType (cpr_storage p) = cpr_chartTypeMaster p"

lemma pref_keys: "COLUMNS_KEY \<noteq> NOTES_KEY" "COLUMNS_KEY \<noteq> CHART_TYPE_KEY" "NOTES_KEY \<noteq> CHART_TYPE_KEY"
  by (simp_all add: COLUMNS_KEY_def NOTES_KEY_def CHART_TYPE_KEY_def)

lemma show_nat_12: "show_nat 1 = ''1''" "show_nat 2 = ''2''"
  by code_simp+

lemma pref_step_ok:
  assumes "stored_ok p" "\<And>n. e = SetColumns n \<Longrightarrow> n \<in> {1, 2}"
  shows "stored_ok (pref_step e p)"
  using assms pref_keys show_nat_12
  by (cases e) (auto simp: stored_ok_def setColumns_def toggleNotesMaster_def toggleChartType_def loadColumns_def
      loadNotesMaster_def loadChartType_def js_get_set chart_type_str_def Let_def split: ChartType.splits)

lemma pref_run_ok:
  assumes "\<forall>n. SetColumns n \<in> set es \<longrightarrow> n \<in> {1, 2}"
  shows "stored_ok (pref_run ls es)"
  unfolding pref_run_def
proof (rule fold_invariant [where P = stored_ok and Q = "\<lambda>e. e \<in> set es"])
  show "stored_ok (prefs_mount ls)" by (simp add: stored_ok_def prefs_mount_def)
  show "stored_ok (pref_step e p)" if "e \<in> set es" "stored_ok p" for e p
    by (rule pref_step_ok [OF that(2)]) (use that(1) assms in blast)
qed

text \<open>
  After any use of the controls, loading the page again restores the columns, the master switch of
  the notes and the chart type; and whatever a chart had pinned, right after the master of the notes or of the
  type is switched it shows the master's new value, while a pinned value is kept until then.
\<close>

lemma chart_preferences_persist:
  assumes "\<forall>n. SetColumns n \<in> set es \<longrightarrow> n \<in> {1, 2}"
  shows "(let p = pref_run ls es; q = prefs_mount (cpr_storage p) in
      cpr_columns q = cpr_columns p \<and> cpr_notesMaster q = cpr_notesMaster p \<and>
      cpr_chartTypeMaster q = cpr_chartTypeMaster p) \<and>
    (let p = pref_run ls es; p1 = toggleNotesMaster p; p2 = toggleChartType p;
         st1 = snd (useMasterOverride (cpr_notesMaster p) (cpr_notesGeneration p) st);
         st2 = snd (useMasterOverride (cpr_chartTypeMaster p) (cpr_chartTypeGeneration p) st') in
      fst (useMasterOverride (cpr_notesMaster p) (cpr_notesGeneration p) (setOverride v st1)) = v \<and>
      fst (useMasterOverride (cpr_notesMaster p2) (cpr_notesGeneration p2) (setOverride v st1)) = v \<and>
      fst (useMasterOverride (cpr_notesMaster p1) (cpr_notesGeneration p1) (setOverride v st1)) = (\<not> cpr_notesMaster p) \<and>
      fst (useMasterOverride (cpr_chartTypeMaster p1) (cpr_chartTypeGeneration p1) (setOverride t st2)) = t \<and>
      fst (useMasterOverride (cpr_chartTypeMaster p2) (cpr_chartTypeGeneration p2) (setOverride t st2)) \<noteq> cpr_chartTypeMaster p)"
proof
  show "let p = pref_run ls es; q = prefs_mount (cpr_storage p) in
      cpr_columns q = cpr_columns p \<and> cpr_notesMaster q = cpr_notesMaster p \<and>
      cpr_chartTypeMaster q = cpr_chartTypeMaster p"
    using pref_run_ok [OF assms] by (simp add: stored_ok_def prefs_mount_def Let_def)
qed (auto simp: Let_def useMasterOverride_def setOverride_def toggleNotesMaster_def toggleChartType_def)

theorem chart_preferences_persist_witness:
  "cpr_columns (prefs_mount (cpr_storage (pref_run [] [SetColumns 2, ToggleType]))) = 2"
proof -
  have "cpr_columns (pref_run [] [SetColumns 2, ToggleType]) = 2" by code_simp
  then show ?thesis
    using chart_preferences_persist [of "[SetColumns 2, ToggleType]" "[]"] by (simp add: Let_def)
qed

subsection \<open>The selection in the URL\<close>

lemma truthy_nullish: "truthy v \<Longrightarrow> Some (the v) = v" "truthy v \<Longrightarrow> nullish v [] = the v"
  by (cases v, simp_all)+

lemma selectAsset_get:
  "sp_get (selectAsset name grp evl ps) k =
    (if k = ''eval'' then if truthy evl then evl else None
     else if k = ''asset'' then Some name
     else if k = ''group'' then (let g = (case grp of Some x \<Rightarrow> Some x | None \<Rightarrow> sp_get ps ''group'') in if truthy g then g else None)
     else sp_get ps k)"
  by (simp add: selectAsset_def Let_def sp_get_set sp_get_delete truthy_nullish)

lemma selectGroup_get:
  "sp_get (selectGroup g ps) k = (if k = ''group'' then if truthy g then g else None
     else if k = ''asset'' \<or> k = ''eval'' then None else sp_get ps k)"
  by (simp add: selectGroup_def Let_def sp_get_set sp_get_delete truthy_nullish)

text \<open>
  Selecting an asset shows its panel with the given evaluation below the given group (or the group
  shown before) and selecting a group shows the group, or everything; the time range and every other
  parameter of the URL are kept, with the time range last.
\<close>

lemma navigator_selection:
  assumes "name \<noteq> []"
  shows "navigator_panel (selectAsset name grp evl ps) = ShowAsset name (if truthy evl then evl else None) \<and>
    sp_get (selectAsset name grp evl ps) ''group'' =
      (let g = (case grp of Some x \<Rightarrow> Some x | None \<Rightarrow> sp_get ps ''group'') in if truthy g then g else None) \<and>
    navigator_panel (selectGroup g ps) = (if truthy g then ShowGroup (the g) else ShowAll) \<and>
    (\<forall>k. k \<notin> {''asset'', ''eval'', ''group''} \<longrightarrow> sp_get (selectAsset name grp evl ps) k = sp_get ps k \<and>
      sp_get (selectGroup g ps) k = sp_get ps k) \<and>
    withTimeParamsLast (selectAsset name grp evl ps) = selectAsset name grp evl ps"
proof (intro conjI)
  show "navigator_panel (selectAsset name grp evl ps) = ShowAsset name (if truthy evl then evl else None)"
    using assms by (simp add: navigator_panel_def selectAsset_get)
  show "navigator_panel (selectGroup g ps) = (if truthy g then ShowGroup (the g) else ShowAll)"
    by (simp add: navigator_panel_def selectGroup_get truthy_nullish)
  show "withTimeParamsLast (selectAsset name grp evl ps) = selectAsset name grp evl ps"
    unfolding selectAsset_def Let_def by (simp only: withTimeParamsLast_correct [THEN conjunct2, THEN conjunct2])
qed (simp_all add: selectAsset_get selectGroup_get)

theorem navigator_selection_witness:
  "navigator_panel (selectAsset ''web'' None (Some ''e1'') [(''from'', ''1''), (''group'', ''prod''), (''eval'', ''e0'')]) =
     ShowAsset ''web'' (Some ''e1'') \<and>
   sp_get (selectAsset ''web'' None (Some ''e1'') [(''from'', ''1''), (''group'', ''prod''), (''eval'', ''e0'')]) ''from'' = Some ''1''"
  using navigator_selection [where name = "''web''" and grp = None and evl = "Some ''e1''" and g = None and
      ps = "[(''from'', ''1''), (''group'', ''prod''), (''eval'', ''e0'')]"]
  by (simp add: sp_get_def)

subsection \<open>Font size, tabs and clicks\<close>

definition font_ok :: "jsnum \<Rightarrow> bool" where
  "font_ok v \<longleftrightarrow> (\<exists>x. v = Fin x \<and> 12 \<le> x \<and> x \<le> 24)"

lemma clamp_ok: "n \<noteq> NaN \<Longrightarrow> font_ok (clampFontSize n)"
  by (cases n) (auto simp: font_ok_def clampFontSize_def)

lemma stored_not_nan: "stored_font_size v \<noteq> NaN"
  by (auto simp: stored_font_size_def split: option.splits)

lemma whole_sizes:
  "list_all (\<lambda>k. js_Number (num_string (Fin (of_nat k))) = Fin (of_nat k)) [12..<25]"
  by code_simp

text \<open>
  Whatever the local storage holds, the font size is a number between 12 and 24 pixels, also after any
  click on the buttons beside it; a whole size and the theme are restored when the page is loaded again.
\<close>

lemma theme_settings_restored:
  "font_ok (th_fontSize (theme_mount ls)) \<and>
   (n \<noteq> NaN \<longrightarrow> font_ok (th_fontSize (setFontSize n s))) \<and>
   (let q = theme_mount (th_storage (setTheme t (setFontSize (Fin (of_nat k)) s))) in
      th_theme q = t \<and> th_fontSize q = clampFontSize (Fin (of_nat k)))"
proof (intro conjI impI)
  show "font_ok (th_fontSize (theme_mount ls))"
    by (simp add: theme_mount_def theme_effects_def clamp_ok stored_not_nan)
  show "font_ok (th_fontSize (setFontSize n s))" if "n \<noteq> NaN"
    using that by (simp add: setFontSize_def theme_effects_def clamp_ok)
  define m where "m = max 12 (min 24 k)"
  have c: "clampFontSize (Fin (of_nat k)) = Fin (of_nat m)"
    by (simp add: clampFontSize_def m_def max_def min_def)
  have m: "12 \<le> m" "m \<le> 24" by (simp_all add: m_def)
  then have "m \<in> set [12..<25]" by (simp only: set_upt atLeastLessThan_iff) simp
  then have num: "js_Number (num_string (Fin (of_nat m))) = Fin (of_nat m)"
    using whole_sizes unfolding list_all_iff by blast
  moreover have "(of_nat m :: rat) \<noteq> 0" "12 \<le> (of_nat m :: rat)" "(of_nat m :: rat) \<le> 24"
    using m of_nat_mono [OF m(1), where 'a = rat] of_nat_mono [OF m(2), where 'a = rat] by auto
  moreover have "js_get (th_storage (setTheme t (setFontSize (Fin (of_nat k)) s))) ''tropek-font-size'' =
      Some (num_string (Fin (of_nat m)))"
    "js_get (th_storage (setTheme t (setFontSize (Fin (of_nat k)) s))) ''tropek-theme'' = Some (theme_str t)"
    by (simp_all add: setTheme_def setFontSize_def theme_effects_def js_get_set c)
  moreover have "load_theme (Some (theme_str t)) = t" by (cases t) (simp_all add: load_theme_def theme_str_def)
  ultimately show "let q = theme_mount (th_storage (setTheme t (setFontSize (Fin (of_nat k)) s))) in
      th_theme q = t \<and> th_fontSize q = clampFontSize (Fin (of_nat k))"
    by (simp add: Let_def theme_mount_def theme_effects_def c stored_font_size_def) (simp add: clampFontSize_def)
qed

theorem theme_settings_restored_witness:
  "font_ok (th_fontSize (setFontSize (Fin 40) (theme_mount [])))"
  using theme_settings_restored [where n = "Fin 40" and s = "theme_mount []"] by simp

text \<open>A click calls the handler with an index of the data, the nearest one to the pixel's position.\<close>

lemma onContainerClick_nearest:
  assumes "onContainerClick h n chart c r = Some i"
  shows "0 \<le> i \<and> i < int n \<and> (\<forall>ch. chart = Some ch \<longrightarrow>
    (let x = ch_convertFromPixel ch (fst c - fst r, snd c - snd r) in 0 \<le> x \<and> x \<le> of_nat n - 1 \<longrightarrow> \<bar>of_int i - x\<bar> \<le> 1 / 2))"
proof -
  obtain ch where ch: "chart = Some ch" "0 < n"
    "i = max 0 (min (js_round (ch_convertFromPixel ch (fst c - fst r, snd c - snd r))) (int n - 1))"
    using assms by (auto simp: onContainerClick_def Let_def split: if_splits option.splits)
  define x where "x = ch_convertFromPixel ch (fst c - fst r, snd c - snd r)"
  have "\<bar>of_int i - x\<bar> \<le> 1 / 2" if "0 \<le> x" "x \<le> of_nat n - 1"
  proof -
    have fl: "of_int \<lfloor>x + 1 / 2\<rfloor> \<le> x + 1 / 2" "x + 1 / 2 < of_int \<lfloor>x + 1 / 2\<rfloor> + 1" by linarith+
    have "0 \<le> \<lfloor>x + 1 / 2\<rfloor>" using that(1) by (simp add: le_floor_iff)
    moreover have "\<lfloor>x + 1 / 2\<rfloor> < int n"
      using that(2) by (simp add: floor_less_iff)
    ultimately have i: "i = \<lfloor>x + 1 / 2\<rfloor>" using ch(3) by (simp add: js_round_def x_def)
    have "of_int i - x \<le> 1 / 2" "- (1 / 2) \<le> of_int i - x"
      unfolding i using fl by linarith+
    then show ?thesis by linarith
  qed
  then show ?thesis using ch by (auto simp: x_def Let_def)
qed

text \<open>The indicators of a tab are as many as its count says, and an unknown tab shows everything.\<close>

lemma tab_counts_get:
  "js_get (tab_counts indicators) g = (if g \<in> set (availableGroups indicators)
     then Some (length (filter (\<lambda>i. in_tabGroup i = Some g) (nullish indicators []))) else None)"
proof -
  have "js_get (foldl (\<lambda>m g. js_set g (f g) m) m0 gs) g = (if g \<in> set gs then Some (f g) else js_get m0 g)"
    for f :: "string \<Rightarrow> nat" and m0 gs
    by (induction gs arbitrary: m0) (auto simp: js_get_set)
  then show ?thesis by (simp add: tab_counts_def)
qed

lemma tab_indicators_count:
  "length (tabIndicators indicators (resolvedTab indicators tab)) =
    tab_count_shown indicators (resolvedTab indicators tab)"
  by (auto simp: tabIndicators_def resolvedTab_def tab_count_shown_def tab_counts_get)

end
