(* ===== verification/RegistryForms.thy ===== *)
theory RegistryForms
  imports SloWizard UiState
begin

text \<open>
  The forms of the registry: SLIs (\<open>registry/forms/SliForm.tsx\<close>, \<open>AggregatedModeFields.tsx\<close>), data sources
  (\<open>DatasourceForm.tsx\<close>), SLO groups (\<open>SloGroupForm.tsx\<close>), assignments (\<open>SloLinkDialogRevised.tsx\<close>,
  \<open>slos/components/SloLinkDialog.tsx\<close>), new SLOs (\<open>SloCreateForm.tsx\<close>) and objectives (\<open>SloObjectiveEditor.tsx\<close>):
  what fills them, when they validate and the requests they send. A schema check is a predicate on the values of
  the fields; an empty number field is the empty string, which the coercion \<open>Number\<close> turns into 0.
\<close>

subsection \<open>SLIs\<close>

record QueryRow =
  qr_name :: string
  qr_query :: string

record SliFormValues =
  sfv_name :: string
  sfv_display_name :: string
  sfv_adapter_type :: string
  sfv_author :: string
  sfv_notes :: string
  sfv_indicators :: "QueryRow list"

definition rawSchema :: "SliFormValues \<Rightarrow> bool" where
  "rawSchema v \<longleftrightarrow> 1 \<le> length (sfv_name v) \<and> 1 \<le> length (sfv_adapter_type v) \<and>
    list_all (\<lambda>r. 1 \<le> length (qr_name r) \<and> 1 \<le> length (qr_query r)) (sfv_indicators v) \<and> 1 \<le> length (sfv_indicators v)"

definition aggregatedSchema :: "SliFormValues \<Rightarrow> bool" where
  "aggregatedSchema v \<longleftrightarrow> 1 \<le> length (sfv_name v) \<and> 1 \<le> length (sfv_adapter_type v)"

definition indicatorsToRows :: "str_obj \<Rightarrow> QueryRow list" where
  "indicatorsToRows indicators = map (\<lambda>(n, q). \<lparr>qr_name = n, qr_query = q\<rparr>) (Object_entries indicators)"

definition rowsToIndicators :: "QueryRow list \<Rightarrow> str_obj" where
  "rowsToIndicators rows = foldl (\<lambda>res row.
     if trim_str (qr_name row) \<noteq> [] then obj_set (trim_str (qr_name row)) (qr_query row) res else res) [] rows"

record SliFormState =
  sf_editFrom :: "Sli option"
  sf_mode :: string
  sf_queryTemplate :: string
  sf_interval :: string
  sf_methods :: "string list"
  sf_values :: SliFormValues
  sf_tagRows :: "TagRow list"

definition sli_values :: "Sli \<Rightarrow> SliFormValues" where
  "sli_values e = \<lparr>sfv_name = sli_name e, sfv_display_name = nullish (sli_displayName e) [],
     sfv_adapter_type = sli_adapterType e, sfv_author = nullish (sli_author e) [],
     sfv_notes = nullish (sli_notes e) [], sfv_indicators = indicatorsToRows (sli_indicators e)\<rparr>"

definition sli_form_mount :: "Sli option \<Rightarrow> string option \<Rightarrow> SliFormState" where
  "sli_form_mount editFrom defaultAdapterType = (case editFrom of
     Some e \<Rightarrow> \<lparr>sf_editFrom = editFrom, sf_mode = sli_mode e, sf_queryTemplate = nullish (sli_queryTemplate e) [],
       sf_interval = nullish (sli_interval e) ''1m'', sf_methods = nullish (sli_methods e) [],
       sf_values = sli_values e, sf_tagRows = tagsToRows (sli_tags e)\<rparr>
   | None \<Rightarrow> \<lparr>sf_editFrom = None, sf_mode = ''raw'', sf_queryTemplate = [], sf_interval = ''1m'', sf_methods = [],
       sf_values = \<lparr>sfv_name = [], sfv_display_name = [], sfv_adapter_type = nullish defaultAdapterType [],
         sfv_author = [], sfv_notes = [], sfv_indicators = []\<rparr>, sf_tagRows = []\<rparr>)"

text \<open>The effect that fills the form again when the edited SLI changes.\<close>

definition sli_edit_effect :: "Sli option \<Rightarrow> SliFormState \<Rightarrow> SliFormState" where
  "sli_edit_effect editFrom f = (case editFrom of
     Some e \<Rightarrow> f\<lparr>sf_editFrom := Some e, sf_mode := sli_mode e, sf_queryTemplate := nullish (sli_queryTemplate e) [],
       sf_interval := nullish (sli_interval e) ''1m'', sf_methods := nullish (sli_methods e) [],
       sf_values := sli_values e, sf_tagRows := tagsToRows (sli_tags e)\<rparr>
   | None \<Rightarrow> f\<lparr>sf_editFrom := None\<rparr>)"

definition toggleMethod :: "string \<Rightarrow> string list \<Rightarrow> string list" where
  "toggleMethod m methods = (if m \<in> set methods then filter (\<lambda>x. x \<noteq> m) methods else methods @ [m])"

definition sli_form_valid :: "SliFormState \<Rightarrow> bool" where
  "sli_form_valid f \<longleftrightarrow> (if sf_mode f = ''raw'' then rawSchema (sf_values f) else aggregatedSchema (sf_values f))"

definition or_undefined :: "string \<Rightarrow> json option" where
  "or_undefined s = (if s \<noteq> [] then Some (JStr s) else None)"

definition sli_base :: "SliFormState \<Rightarrow> (string \<times> json option) list" where
  "sli_base f = (let v = sf_values f in
     [(''name'', Some (JStr (sfv_name v))), (''display_name'', or_undefined (sfv_display_name v)),
      (''adapter_type'', Some (JStr (sfv_adapter_type v))), (''notes'', or_undefined (sfv_notes v)),
      (''author'', or_undefined (sfv_author v)), (''tags'', Some (json_str_obj (rowsToTags (sf_tagRows f))))])"

definition sli_payload :: "SliFormState \<Rightarrow> json" where
  "sli_payload f =
    (if sf_mode f = ''raw'' then json_object (sli_base f @
       [(''mode'', Some (JStr ''raw'')), (''indicators'', Some (json_str_obj (rowsToIndicators (sfv_indicators (sf_values f)))))])
     else json_object (sli_base f @
       [(''mode'', Some (JStr ''aggregated'')), (''indicators'', Some (JObj [])),
        (''query_template'', Some (JStr (sf_queryTemplate f))), (''interval'', Some (JStr (sf_interval f))),
        (''methods'', Some (json_strs (sf_methods f)))]))"

definition sli_submit :: "SliFormState \<Rightarrow> json option" where
  "sli_submit f = (if sli_form_valid f then Some (sli_payload f) else None)"

definition sli_form_title :: "SliFormState \<Rightarrow> string" where
  "sli_form_title f = (case sf_editFrom f of Some e \<Rightarrow> ''New Version of: '' @ sli_name e | None \<Rightarrow> ''New SLI'')"

text \<open>The rows of tags are edited by position.\<close>

definition tag_row_add :: "TagRow list \<Rightarrow> TagRow list" where
  "tag_row_add rows = rows @ [\<lparr>tr_key = [], tr_value = []\<rparr>]"

definition tag_row_remove :: "nat \<Rightarrow> TagRow list \<Rightarrow> TagRow list" where
  "tag_row_remove i rows = drop_nth i rows"

definition tag_row_change :: "nat \<Rightarrow> (TagRow \<Rightarrow> TagRow) \<Rightarrow> TagRow list \<Rightarrow> TagRow list" where
  "tag_row_change i patch rows = map (\<lambda>(j, r). if j = i then patch r else r) (List.enumerate 0 rows)"

subsection \<open>Data sources\<close>

record DatasourceValues =
  dsv_name :: string
  dsv_display_name :: string
  dsv_adapter_type :: string
  dsv_adapter_url :: string
  dsv_token :: string

definition createSchema :: "DatasourceValues \<Rightarrow> bool" where
  "createSchema v \<longleftrightarrow> 1 \<le> length (dsv_name v) \<and> 1 \<le> length (dsv_adapter_type v) \<and> 1 \<le> length (dsv_adapter_url v)"

definition editSchema :: "DatasourceValues \<Rightarrow> bool" where
  "editSchema v \<longleftrightarrow> 1 \<le> length (dsv_adapter_url v)"

record DatasourceFormState =
  df_editFrom :: "Datasource option"
  df_values :: DatasourceValues
  df_tagRows :: "TagRow list"

definition datasource_mount :: "Datasource option \<Rightarrow> DatasourceFormState" where
  "datasource_mount editFrom = (case editFrom of
     Some e \<Rightarrow> \<lparr>df_editFrom = editFrom, df_values = \<lparr>dsv_name = [], dsv_display_name = nullish (ds_displayName e) [],
         dsv_adapter_type = [], dsv_adapter_url = ds_adapterUrl e, dsv_token = []\<rparr>, df_tagRows = tagsToRows (ds_tags e)\<rparr>
   | None \<Rightarrow> \<lparr>df_editFrom = None, df_values = \<lparr>dsv_name = [], dsv_display_name = [], dsv_adapter_type = [],
         dsv_adapter_url = [], dsv_token = []\<rparr>, df_tagRows = []\<rparr>)"

definition datasource_create_payload :: "DatasourceFormState \<Rightarrow> json" where
  "datasource_create_payload f = (let v = df_values f in json_object
     [(''name'', Some (JStr (dsv_name v))), (''display_name'', or_undefined (dsv_display_name v)),
      (''adapter_type'', Some (JStr (dsv_adapter_type v))), (''adapter_url'', Some (JStr (dsv_adapter_url v))),
      (''token'', or_undefined (dsv_token v)), (''tags'', Some (json_str_obj (rowsToTags (df_tagRows f))))])"

definition datasource_edit_payload :: "DatasourceFormState \<Rightarrow> json" where
  "datasource_edit_payload f = (let v = df_values f in json_object
     [(''adapter_url'', or_undefined (dsv_adapter_url v)), (''display_name'', or_undefined (dsv_display_name v)),
      (''tags'', non_empty_obj (rowsToTags (df_tagRows f))),
      (''token'', if trim_str (dsv_token v) \<noteq> [] then Some (JStr (dsv_token v)) else None)])"

datatype datasource_request = CreateDatasource json | UpdateDatasource string json

definition datasource_submit :: "DatasourceFormState \<Rightarrow> datasource_request option" where
  "datasource_submit f = (case df_editFrom f of
     Some e \<Rightarrow> if editSchema (df_values f) then Some (UpdateDatasource (ds_name e) (datasource_edit_payload f)) else None
   | None \<Rightarrow> if createSchema (df_values f) then Some (CreateDatasource (datasource_create_payload f)) else None)"

subsection \<open>SLO groups\<close>

definition split_on :: "char \<Rightarrow> string \<Rightarrow> string list" where
  "split_on c s = (let (u, rest) = foldr (\<lambda>x (cur, acc). if x = c then ([], cur # acc) else (x # cur, acc)) s ([], [])
     in u # rest)"

fun join_with :: "string \<Rightarrow> string list \<Rightarrow> string" where
  "join_with sep [] = []"
| "join_with sep [x] = x"
| "join_with sep (x # xs) = x @ sep @ join_with sep xs"

text \<open>One line \<open>key=a,b\<close> of the generator variables; a line without \<open>=\<close> or without a key is skipped.\<close>

definition gen_line :: "string \<Rightarrow> (string \<times> string list) option" where
  "gen_line line = (case split_on (CHR ''='') line of
     key # rest \<Rightarrow> if key \<noteq> [] \<and> 0 < length rest
       then Some (trim_str key, map trim_str (split_on (CHR '','') (join_with ''='' rest))) else None
   | [] \<Rightarrow> None)"

definition gen_variables :: "string \<Rightarrow> (string, string list) jsmap" where
  "gen_variables t = foldl (\<lambda>m line. case gen_line line of Some (k, vs) \<Rightarrow> obj_set k vs m | None \<Rightarrow> m) []
     (filter (\<lambda>l. trim_str l \<noteq> []) (split_on (CHR 0x0A) t))"

record GroupFormState =
  gf_name :: string
  gf_displayName :: string
  gf_templateSloName :: string
  gf_genVarsText :: string

definition templateSlos :: "Slo list option \<Rightarrow> Slo list" where
  "templateSlos slos = filter (\<lambda>s. slo_kind s = ''template'' \<and> slo_active s) (nullish slos [])"

definition group_payload :: "GroupFormState \<Rightarrow> Slo \<Rightarrow> json" where
  "group_payload f template = json_object
     [(''name'', Some (JStr (gf_name f))), (''display_name'', or_undefined (gf_displayName f)),
      (''template_slo_name'', Some (JStr (gf_templateSloName f))),
      (''template_slo_version'', Some (json_int (slo_version template))),
      (''gen_variables'', Some (JObj (map (\<lambda>(k, vs). (k, json_strs vs)) (Object_entries (gen_variables (gf_genVarsText f)))))),
      (''tags'', Some (JObj []))]"

definition group_submit :: "Slo list option \<Rightarrow> GroupFormState \<Rightarrow> json option" where
  "group_submit slos f =
    (case find (\<lambda>t. slo_name t = gf_templateSloName f) (templateSlos slos) of
       None \<Rightarrow> None
     | Some template \<Rightarrow> if gf_name f \<noteq> [] \<and> gf_templateSloName f \<noteq> [] then Some (group_payload f template) else None)"

subsection \<open>Assignments\<close>

record LinkState =
  lk_open :: bool
  lk_lockedSloName :: "string option"
  lk_lockedGroupName :: "string option"
  lk_datasource :: string
  lk_groupName :: string
  lk_sloName :: string

definition link_sync_effect :: "LinkState \<Rightarrow> LinkState" where
  "link_sync_effect s =
    (let s1 = (if truthy (lk_lockedGroupName s) then s\<lparr>lk_groupName := nullish (lk_lockedGroupName s) []\<rparr> else s)
     in if truthy (lk_lockedSloName s) then s1\<lparr>lk_sloName := nullish (lk_lockedSloName s) []\<rparr> else s1)"

definition link_open_effect :: "LinkState \<Rightarrow> LinkState" where
  "link_open_effect s = (if lk_open s then
     (let s1 = s\<lparr>lk_datasource := []\<rparr>;
          s2 = (if \<not> truthy (lk_lockedGroupName s) then s1\<lparr>lk_groupName := []\<rparr> else s1)
      in if \<not> truthy (lk_lockedSloName s) then s2\<lparr>lk_sloName := []\<rparr> else s2)
   else s)"

definition link_mount :: "bool \<Rightarrow> string option \<Rightarrow> string option \<Rightarrow> LinkState" where
  "link_mount op lockedSlo lockedGroup = link_open_effect (link_sync_effect
     \<lparr>lk_open = op, lk_lockedSloName = lockedSlo, lk_lockedGroupName = lockedGroup, lk_datasource = [],
      lk_groupName = nullish lockedGroup [], lk_sloName = nullish lockedSlo []\<rparr>)"

datatype LinkEvent =
    PickDatasource string
  | PickGroup string
  | PickSlo string
  | LinkProps bool "string option" "string option"

text \<open>A locked field has no selector. New props run both effects, each when a prop it reads has changed.\<close>

fun link_step :: "LinkEvent \<Rightarrow> LinkState \<Rightarrow> LinkState" where
  "link_step (PickDatasource d) s = s\<lparr>lk_datasource := d\<rparr>"
| "link_step (PickGroup g) s = (if truthy (lk_lockedGroupName s) then s else s\<lparr>lk_groupName := g\<rparr>)"
| "link_step (PickSlo n) s = (if truthy (lk_lockedSloName s) then s else s\<lparr>lk_sloName := n\<rparr>)"
| "link_step (LinkProps op lockedSlo lockedGroup) s =
    (let locks = (lockedSlo \<noteq> lk_lockedSloName s \<or> lockedGroup \<noteq> lk_lockedGroupName s);
         s1 = s\<lparr>lk_open := op, lk_lockedSloName := lockedSlo, lk_lockedGroupName := lockedGroup\<rparr>;
         s2 = (if locks then link_sync_effect s1 else s1)
     in if locks \<or> op \<noteq> lk_open s then link_open_effect s2 else s2)"

definition link_run :: "bool \<Rightarrow> string option \<Rightarrow> string option \<Rightarrow> LinkEvent list \<Rightarrow> LinkState" where
  "link_run op lockedSlo lockedGroup es = fold link_step es (link_mount op lockedSlo lockedGroup)"

definition assignments_of :: "LinkState \<Rightarrow> string" where
  "assignments_of s = (if lk_groupName s \<noteq> [] then lk_groupName s else nullish (lk_lockedGroupName s) [])"

definition isDuplicate :: "SloAssignment list option \<Rightarrow> LinkState \<Rightarrow> bool" where
  "isDuplicate existing s \<longleftrightarrow> list_ex (\<lambda>a. sa_sloName a = lk_sloName s) (nullish existing [])"

definition link_valid :: "Slo list option \<Rightarrow> SloAssignment list option \<Rightarrow> LinkState \<Rightarrow> bool" where
  "link_valid slos existing s \<longleftrightarrow> lk_datasource s \<noteq> [] \<and> lk_groupName s \<noteq> [] \<and> lk_sloName s \<noteq> [] \<and>
    find (\<lambda>x. slo_name x = lk_sloName s) (nullish slos []) \<noteq> None \<and> \<not> isDuplicate existing s"

text \<open>The group, the definition and the data source of the request.\<close>

definition handleLink :: "Slo list option \<Rightarrow> LinkState \<Rightarrow> (string \<times> string \<times> string) option" where
  "handleLink slos s = (case find (\<lambda>x. slo_name x = lk_sloName s) (nullish slos []) of
     None \<Rightarrow> None
   | Some slo \<Rightarrow> Some (nullish (lk_lockedGroupName s) (lk_groupName s), slo_id slo, lk_datasource s))"

definition link_click :: "Slo list option \<Rightarrow> SloAssignment list option \<Rightarrow> bool \<Rightarrow> LinkState \<Rightarrow> (string \<times> string \<times> string) option" where
  "link_click slos existing isPending s =
    (if lk_open s \<and> link_valid slos existing s \<and> \<not> isPending then handleLink slos s else None)"

subsection \<open>New SLOs and objectives\<close>

record ObjectiveValues =
  ov_sli :: string
  ov_display_name :: string
  ov_pass_threshold :: string
  ov_warning_threshold :: string
  ov_weight :: string
  ov_key_sli :: bool

definition number_in :: "rat option \<Rightarrow> rat option \<Rightarrow> string \<Rightarrow> bool" where
  "number_in lo hi s \<longleftrightarrow> (case js_Number s of
     Fin x \<Rightarrow> (case lo of Some l \<Rightarrow> l \<le> x | None \<Rightarrow> True) \<and> (case hi of Some h \<Rightarrow> x \<le> h | None \<Rightarrow> True)
   | PosInf \<Rightarrow> hi = None | NegInf \<Rightarrow> lo = None | NaN \<Rightarrow> False)"

definition objectiveSchema :: "ObjectiveValues \<Rightarrow> bool" where
  "objectiveSchema v \<longleftrightarrow> 1 \<le> length (ov_sli v) \<and> number_in (Some 0) None (ov_weight v)"

text \<open>An optional number: \<open>None\<close> is \<open>undefined\<close>.\<close>

definition optional_number :: "rat \<Rightarrow> string option \<Rightarrow> bool" where
  "optional_number lo v \<longleftrightarrow> (case v of None \<Rightarrow> True | Some s \<Rightarrow> number_in (Some lo) None s)"

definition number_json :: "string \<Rightarrow> json" where
  "number_json s = (case js_Number s of Fin x \<Rightarrow> JNum x | _ \<Rightarrow> JNull)"

definition optional_number_json :: "string option \<Rightarrow> json option" where
  "optional_number_json v = (case v of None \<Rightarrow> None
     | Some s \<Rightarrow> if js_Number s = Fin 0 \<or> js_Number s = NaN then None else Some (number_json s))"

definition split_thresholds :: "string \<Rightarrow> string list" where
  "split_thresholds s = (if s \<noteq> [] then filter (\<lambda>x. x \<noteq> []) (map trim_str (split_on (CHR '','') s)) else [])"

definition objective_fields :: "ObjectiveValues \<Rightarrow> (string \<times> json option) list" where
  "objective_fields v = [(''sli'', Some (JStr (ov_sli v))),
     (''display_name'', Some (JStr (if ov_display_name v \<noteq> [] then ov_display_name v else ov_sli v))),
     (''pass_threshold'', Some (json_strs (split_thresholds (ov_pass_threshold v)))),
     (''warning_threshold'', Some (json_strs (split_thresholds (ov_warning_threshold v)))),
     (''weight'', Some (number_json (ov_weight v))), (''key_sli'', Some (JBool (ov_key_sli v)))]"

record EditorValues =
  edv_pass :: string
  edv_warning :: string
  edv_comparable_from_version :: "string option"
  edv_objectives :: "ObjectiveValues list"

definition editorSchema :: "EditorValues \<Rightarrow> bool" where
  "editorSchema v \<longleftrightarrow> number_in (Some 0) (Some 100) (edv_pass v) \<and> number_in (Some 0) (Some 100) (edv_warning v) \<and>
    optional_number 1 (edv_comparable_from_version v) \<and> list_all objectiveSchema (edv_objectives v)"

definition default_objective :: "SloObjective \<Rightarrow> ObjectiveValues" where
  "default_objective ob = \<lparr>ov_sli = so_sli ob, ov_display_name = so_displayName ob,
     ov_pass_threshold = join_with '', '' (so_passThreshold ob),
     ov_warning_threshold = join_with '', '' (so_warningThreshold ob),
     ov_weight = num_string (Fin (so_weight ob)), ov_key_sli = so_keySli ob\<rparr>"

definition editor_mount :: "Slo \<Rightarrow> EditorValues" where
  "editor_mount s = \<lparr>edv_pass = num_string (Fin (slo_totalScorePassThreshold s)),
     edv_warning = num_string (Fin (slo_totalScoreWarningThreshold s)), edv_comparable_from_version = None,
     edv_objectives = map default_objective (slo_objectives s)\<rparr>"

definition availableIndicators :: "Slo \<Rightarrow> string list" where
  "availableIndicators s = map so_sli (slo_objectives s)"

definition add_objective :: "Slo \<Rightarrow> EditorValues \<Rightarrow> EditorValues" where
  "add_objective s v = v\<lparr>edv_objectives := edv_objectives v @
     [\<lparr>ov_sli = (case availableIndicators s of [] \<Rightarrow> [] | n # _ \<Rightarrow> n), ov_display_name = [], ov_pass_threshold = [],
       ov_warning_threshold = [], ov_weight = ''1'', ov_key_sli = False\<rparr>]\<rparr>"

definition remove_objective :: "nat \<Rightarrow> EditorValues \<Rightarrow> EditorValues" where
  "remove_objective i v = v\<lparr>edv_objectives := drop_nth i (edv_objectives v)\<rparr>"

definition buildObjectives :: "EditorValues \<Rightarrow> json" where
  "buildObjectives v = JArr (map (json_object \<circ> objective_fields) (edv_objectives v))"

definition editor_validate_body :: "EditorValues \<Rightarrow> json" where
  "editor_validate_body v = json_object [(''objectives'', Some (buildObjectives v)),
     (''total_score_pass_threshold'', Some (number_json (edv_pass v))),
     (''total_score_warning_threshold'', Some (number_json (edv_warning v)))]"

definition editor_create_body :: "Slo \<Rightarrow> EditorValues \<Rightarrow> json" where
  "editor_create_body s v = json_object [(''name'', Some (JStr (slo_name s))), (''kind'', Some (JStr (slo_kind s))),
     (''display_name'', map_option JStr (slo_displayName s)), (''author'', map_option JStr (slo_author s)),
     (''notes'', map_option JStr (slo_notes s)), (''objectives'', Some (buildObjectives v)),
     (''total_score_pass_threshold'', Some (number_json (edv_pass v))),
     (''total_score_warning_threshold'', Some (number_json (edv_warning v))),
     (''comparable_from_version'', optional_number_json (edv_comparable_from_version v))]"

datatype editor_result =
    FormRejected
  | ValidateFailed api_error
  | NotValid "SloValidationError list"
  | CreateFailed api_error
  | EditorSaved Slo

text \<open>The requests are validated first; the second is sent only for a valid answer.\<close>

definition editor_submit ::
    "int \<Rightarrow> (Request \<Rightarrow> SloValidationResultDto reply) \<Rightarrow> (Request \<Rightarrow> SloDto reply) \<Rightarrow> Slo \<Rightarrow> EditorValues \<Rightarrow> editor_result" where
  "editor_submit tz vnet cnet s v =
    (if \<not> editorSchema v then FormRejected
     else case validateSlo vnet (editor_validate_body v) of
       Inl e \<Rightarrow> ValidateFailed e
     | Inr result \<Rightarrow>
         if \<not> svr_valid result then NotValid (svr_errors result)
         else case createSloDefinition tz cnet (editor_create_body s v) of
           Inl e \<Rightarrow> CreateFailed e | Inr slo \<Rightarrow> EditorSaved slo)"

record LabelRow =
  lr_key :: string
  lr_value :: string

record CreateValues =
  crv_name :: string
  crv_display_name :: string
  crv_author :: string
  crv_notes :: string
  crv_compare_with :: string
  crv_number_of_comparison_results :: string
  crv_include_result_with_score :: string
  crv_aggregate_function :: string
  crv_pass :: string
  crv_warning :: string
  crv_comparable_from_version :: "string option"
  crv_objectives :: "ObjectiveValues list"
  crv_labels :: "LabelRow list"

definition slug_char :: "char \<Rightarrow> bool" where
  "slug_char c \<longleftrightarrow> (CHR ''a'' \<le> c \<and> c \<le> CHR ''z'') \<or> is_digit c \<or> c = CHR ''-''"

definition create_formSchema :: "CreateValues \<Rightarrow> bool" where
  "create_formSchema v \<longleftrightarrow> 1 \<le> length (crv_name v) \<and> list_all slug_char (crv_name v) \<and>
    number_in (Some 1) None (crv_number_of_comparison_results v) \<and>
    crv_aggregate_function v \<in> {''avg'', ''p50'', ''p90'', ''p95'', ''p99''} \<and>
    number_in (Some 0) (Some 100) (crv_pass v) \<and> number_in (Some 0) (Some 100) (crv_warning v) \<and>
    optional_number 1 (crv_comparable_from_version v) \<and> list_all objectiveSchema (crv_objectives v) \<and>
    list_all (\<lambda>l. 1 \<le> length (lr_key l)) (crv_labels v)"

definition create_defaults :: CreateValues where
  "create_defaults = \<lparr>crv_name = [], crv_display_name = [], crv_author = [], crv_notes = [],
     crv_compare_with = ''several_results'', crv_number_of_comparison_results = ''3'',
     crv_include_result_with_score = ''pass_or_warn'', crv_aggregate_function = ''avg'', crv_pass = ''90'',
     crv_warning = ''75'', crv_comparable_from_version = None, crv_objectives = [], crv_labels = []\<rparr>"

definition create_body :: "CreateValues \<Rightarrow> json" where
  "create_body v = json_object [(''name'', Some (JStr (crv_name v))), (''kind'', Some (JStr ''standard'')),
     (''display_name'', or_undefined (crv_display_name v)), (''notes'', or_undefined (crv_notes v)),
     (''author'', or_undefined (crv_author v)),
     (''objectives'', Some (JArr (map (\<lambda>(i, ob). json_object (objective_fields ob @ [(''sort_order'', Some (json_int (int i)))]))
        (List.enumerate 0 (crv_objectives v))))),
     (''total_score_pass_threshold'', Some (number_json (crv_pass v))),
     (''total_score_warning_threshold'', Some (number_json (crv_warning v))),
     (''comparison'', Some (json_object [(''compare_with'', Some (JStr (crv_compare_with v))),
        (''number_of_comparison_results'', Some (number_json (crv_number_of_comparison_results v))),
        (''include_result_with_score'', Some (JStr (crv_include_result_with_score v))),
        (''aggregate_function'', Some (JStr (crv_aggregate_function v)))])),
     (''tags'', Some (json_str_obj (foldl (\<lambda>m l. js_set (lr_key l) (lr_value l) m) []
        (filter (\<lambda>l. lr_key l \<noteq> []) (crv_labels v))))),
     (''comparable_from_version'', optional_number_json (crv_comparable_from_version v))]"

definition create_submit :: "CreateValues \<Rightarrow> json option" where
  "create_submit v = (if create_formSchema v then Some (create_body v) else None)"

subsection \<open>Objects filled from rows\<close>

lemma sort_key_sorted: "sorted (map f xs) \<Longrightarrow> sort_key f xs = xs"
  by (induction xs) (simp_all add: insort_is_Cons)

lemma sort_key_filter_idem: "sort_key f (sort_key f xs) = sort_key f xs"
  by (rule sort_key_sorted) simp

lemma Object_entries_idem: "Object_entries (Object_entries m) = Object_entries m"
proof -
  let ?P = "\<lambda>(k :: string, _). array_index k"
  let ?f = "\<lambda>(k :: string, _). nat_of_digits k"
  let ?ix = "sort_key ?f (filter ?P m)" and ?ot = "filter (\<lambda>(k, _). \<not> array_index k) m"
  have ix: "filter ?P ?ix = ?ix" "filter (\<lambda>(k, _). \<not> array_index k) ?ix = []"
    by (auto simp: filter_id_conv filter_empty_conv)
  have ot: "filter ?P ?ot = []" "filter (\<lambda>(k, _). \<not> array_index k) ?ot = ?ot"
    by (auto simp: filter_id_conv filter_empty_conv)
  show ?thesis unfolding Object_entries_def filter_append ix ot by (simp add: sort_key_filter_idem)
qed

text \<open>Keys that survive the trimming of a row.\<close>

definition plain_key :: "string \<Rightarrow> bool" where
  "plain_key k \<longleftrightarrow> k \<noteq> [] \<and> trim_str k = k \<and> k \<noteq> ''__proto__''"

lemma foldl_set_rows:
  assumes "distinct (map fst es)" "\<forall>e\<in>set es. plain_key (fst e)" "\<forall>e\<in>set es. fst e \<notin> fst ` set acc"
  shows "foldl (\<lambda>res row. if trim_str (fst row) \<noteq> [] then obj_set (trim_str (fst row)) (snd row) res else res) acc es =
    acc @ es"
  using assms
proof (induction es arbitrary: acc)
  case (Cons e es)
  obtain k v where e: "e = (k, v)" by (cases e)
  have absent: "k \<notin> fst ` set acc" "plain_key k" using Cons.prems e by auto
  have "js_set k v acc = acc @ [(k, v)]"
    using absent(1) by (induction acc) auto
  then have "obj_set k v acc = acc @ [(k, v)]" using absent by (simp add: obj_set_def plain_key_def)
  moreover have "\<forall>e\<in>set es. fst e \<noteq> k" using Cons.prems(1) e by (auto simp: rev_image_eqI)
  ultimately show ?case
    using Cons.prems absent(2) e Cons.IH [of "acc @ [(k, v)]"] by (simp add: plain_key_def)
qed simp

lemma rows_roundtrip:
  assumes "js_map_ok m" "\<forall>k\<in>set (js_keys m). plain_key k"
  shows "rowsToIndicators (indicatorsToRows m) = Object_entries m" "rowsToTags (tagsToRows m) = Object_entries m"
proof -
  have d: "distinct (map fst (Object_entries m))" and s: "set (Object_entries m) = set m"
    by (rule Object_entries_perm [OF assms(1)])+
  have "\<forall>e\<in>set (Object_entries m). plain_key (fst e)"
    using assms(2) s by (simp add: js_keys_def)
  note f = foldl_set_rows [OF d this, of "[]"]
  show "rowsToIndicators (indicatorsToRows m) = Object_entries m"
    using f by (simp add: rowsToIndicators_def indicatorsToRows_def foldl_map case_prod_unfold cong: if_cong)
  show "rowsToTags (tagsToRows m) = Object_entries m"
    using f by (simp add: rowsToTags_def tagsToRows_def foldl_map case_prod_unfold cong: if_cong)
qed

lemma json_str_obj_entries: "json_str_obj (Object_entries m) = json_str_obj m"
  by (simp add: json_str_obj_def Object_entries_idem)

subsection \<open>New versions of SLIs\<close>

lemma sli_payload_fields:
  "sf_mode f = ''raw'' \<Longrightarrow> json_field (sli_payload f) ''indicators'' =
     Some (json_str_obj (rowsToIndicators (sfv_indicators (sf_values f))))"
  "sf_mode f \<noteq> ''raw'' \<Longrightarrow> json_field (sli_payload f) ''indicators'' = Some (JObj [])"
  "sf_mode f \<noteq> ''raw'' \<Longrightarrow> json_field (sli_payload f) ''query_template'' = Some (JStr (sf_queryTemplate f))"
  "json_field (sli_payload f) ''tags'' = Some (json_str_obj (rowsToTags (sf_tagRows f)))"
  unfolding sli_payload_def sli_base_def Let_def
  by (auto intro!: json_field_object simp del: json_field_object)

text \<open>
  Saving a new version of an SLI without edits sends its tags and, in raw mode, its indicators in the order
  they are shown; in aggregated mode it always sends no indicators, so for an SLI whose queries are its
  indicators both the indicators and the query template of the request are empty.
\<close>

lemma sli_version_roundtrip:
  assumes "js_map_ok (sli_indicators e)" "\<forall>k\<in>set (js_keys (sli_indicators e)). plain_key k"
    and "js_map_ok (sli_tags e)" "\<forall>k\<in>set (js_keys (sli_tags e)). plain_key k"
    and "sli_submit (sli_form_mount (Some e) a) = Some body"
  shows "json_field body ''tags'' = Some (json_str_obj (sli_tags e)) \<and>
    (sli_mode e = ''raw'' \<longrightarrow> json_field body ''indicators'' = Some (json_str_obj (sli_indicators e))) \<and>
    (sli_mode e \<noteq> ''raw'' \<longrightarrow> json_field body ''indicators'' = Some (JObj []) \<and>
      json_field body ''query_template'' = Some (JStr (nullish (sli_queryTemplate e) [])))"
proof -
  let ?f = "sli_form_mount (Some e) a"
  have b: "body = sli_payload ?f" using assms(5) by (auto simp: sli_submit_def split: if_splits)
  have f: "sf_mode ?f = sli_mode e" "sfv_indicators (sf_values ?f) = indicatorsToRows (sli_indicators e)"
    "sf_tagRows ?f = tagsToRows (sli_tags e)" "sf_queryTemplate ?f = nullish (sli_queryTemplate e) []"
    by (simp_all add: sli_form_mount_def sli_values_def)
  show ?thesis
    using sli_payload_fields [of ?f] rows_roundtrip(1) [OF assms(1,2)] rows_roundtrip(2) [OF assms(3,4)]
    unfolding b f by (simp add: json_str_obj_entries)
qed

theorem sli_version_roundtrip_witness:
  "\<exists>body. sli_submit (sli_form_mount (Some (sample_sli\<lparr>sli_adapterType := ''p''\<rparr>)) None) = Some body \<and>
    json_field body ''indicators'' = Some (json_str_obj [(''cpu'', ''q''), (''mem'', ''r'')])"
proof -
  let ?e = "sample_sli\<lparr>sli_adapterType := ''p''\<rparr>"
  have ok: "sli_form_valid (sli_form_mount (Some ?e) None)"
    "js_map_ok (sli_indicators ?e)" "list_all plain_key (js_keys (sli_indicators ?e))"
    "js_map_ok (sli_tags ?e)" "js_keys (sli_tags ?e) = []" "sli_mode ?e = ''raw''"
    "sli_indicators ?e = [(''cpu'', ''q''), (''mem'', ''r'')]"
    by code_simp+
  then have "sli_submit (sli_form_mount (Some ?e) None) = Some (sli_payload (sli_form_mount (Some ?e) None))"
    by (simp add: sli_submit_def)
  then show ?thesis
    using sli_version_roundtrip [of ?e None] ok by (auto simp: list_all_iff)
qed

text \<open>
  The check that every indicator has a name does not trim it, while the request does: a form with one
  indicator named by a blank is valid and sends none.
\<close>

lemma blank_indicator_sent_empty:
  "rawSchema v \<and> rowsToIndicators (sfv_indicators v) = []"
  if "v = \<lparr>sfv_name = ''s'', sfv_display_name = [], sfv_adapter_type = ''p'', sfv_author = [], sfv_notes = [],
    sfv_indicators = [\<lparr>qr_name = '' '', qr_query = ''q''\<rparr>]\<rparr>"
  unfolding that by code_simp

subsection \<open>Edits of data sources\<close>

text \<open>
  A submitted edit of a data source names it, and has a display name exactly when the field is not empty, a token
  exactly when one was typed and tags exactly when some are left; so neither the last tag nor a display name
  can be removed.
\<close>

lemma datasource_edit_fields:
  assumes "datasource_submit f = Some (UpdateDatasource n body)"
  shows "(\<exists>e. df_editFrom f = Some e \<and> n = ds_name e) \<and>
    json_field body ''adapter_url'' = Some (JStr (dsv_adapter_url (df_values f))) \<and>
    json_field body ''display_name'' = (if dsv_display_name (df_values f) = [] then None
      else Some (JStr (dsv_display_name (df_values f)))) \<and>
    (json_field body ''token'' = None \<longleftrightarrow> trim_str (dsv_token (df_values f)) = []) \<and>
    (rowsToTags (df_tagRows f) = [] \<longrightarrow> json_field body ''tags'' = None)"
proof -
  have b: "body = datasource_edit_payload f" "1 \<le> length (dsv_adapter_url (df_values f))"
    "\<exists>e. df_editFrom f = Some e \<and> n = ds_name e"
    using assms by (auto simp: datasource_submit_def editSchema_def split: option.splits if_splits)
  have f: "json_field body ''adapter_url'' = or_undefined (dsv_adapter_url (df_values f))"
    "json_field body ''display_name'' = or_undefined (dsv_display_name (df_values f))"
    "json_field body ''tags'' = non_empty_obj (rowsToTags (df_tagRows f))"
    "json_field body ''token'' =
      (if trim_str (dsv_token (df_values f)) \<noteq> [] then Some (JStr (dsv_token (df_values f))) else None)"
    unfolding b datasource_edit_payload_def Let_def by (rule json_field_object; simp)+
  show ?thesis unfolding f using b(2,3) by (auto simp: or_undefined_def non_empty_obj_def)
qed

definition sample_datasource :: Datasource where
  "sample_datasource = \<lparr>ds_id = [], ds_name = ''prom'', ds_displayName = Some ''Prom'', ds_adapterType = ''p'',
     ds_adapterUrl = ''u'', ds_tags = [(''a'', ''b'')], ds_hasToken = True, ds_createdAt = None, ds_updatedAt = None\<rparr>"

theorem datasource_edit_fields_witness:
  "\<exists>body. datasource_submit ((datasource_mount (Some sample_datasource))\<lparr>df_tagRows := []\<rparr>) =
      Some (UpdateDatasource ''prom'' body) \<and> json_field body ''tags'' = None \<and>
    json_field body ''display_name'' = Some (JStr ''Prom'')"
proof -
  let ?f = "(datasource_mount (Some sample_datasource))\<lparr>df_tagRows := []\<rparr>"
  have s: "datasource_submit ?f = Some (UpdateDatasource ''prom'' (datasource_edit_payload ?f))"
    "rowsToTags (df_tagRows ?f) = []" "dsv_display_name (df_values ?f) = ''Prom''"
    by (simp_all add: datasource_submit_def datasource_mount_def sample_datasource_def editSchema_def rowsToTags_def)
  then show ?thesis using datasource_edit_fields [OF s(1)] by simp
qed

subsection \<open>Generator variables\<close>

lemma split_on_Cons: "split_on c (x # s) = (if x = c then [] # split_on c s
    else case split_on c s of u # rest \<Rightarrow> (x # u) # rest | [] \<Rightarrow> [])"
  by (auto simp: split_on_def case_prod_unfold Let_def split: prod.splits)

lemma split_on_Nil [simp]: "split_on c [] = [[]]"
  by (simp add: split_on_def)

lemma split_on_nonempty [simp]: "split_on c s \<noteq> []"
  by (simp add: split_on_def case_prod_unfold Let_def)

lemma split_on_absent: "c \<notin> set s \<Longrightarrow> split_on c s = [s]"
  by (induction s) (auto simp: split_on_Cons)

lemma split_on_append: "c \<notin> set s \<Longrightarrow> split_on c (s @ c # t) = s # split_on c t"
  by (induction s) (auto simp: split_on_Cons)

lemma split_on_join: "xs \<noteq> [] \<Longrightarrow> \<forall>x\<in>set xs. c \<notin> set x \<Longrightarrow> split_on c (join_with [c] xs) = xs"
proof (induction "[c]" xs rule: join_with.induct)
  case (3 x y zs)
  then show ?case by (simp add: split_on_append)
qed (simp_all add: split_on_absent)

lemma set_join_with: "set (join_with sep xs) \<subseteq> set sep \<union> (\<Union>x\<in>set xs. set x)"
  by (induction sep xs rule: join_with.induct) auto

lemma join_split: "join_with [c] (split_on c s) = s"
proof (induction s)
  case (Cons x s)
  obtain u r where ur: "split_on c s = u # r" by (cases "split_on c s") auto
  show ?case
  proof (cases "x = c")
    case True
    then show ?thesis using Cons ur by (cases r) (simp_all add: split_on_Cons)
  next
    case False
    then show ?thesis using Cons ur by (cases r) (simp_all add: split_on_Cons)
  qed
qed simp

definition plain_value :: "string \<Rightarrow> bool" where
  "plain_value v \<longleftrightarrow> trim_str v = v \<and> CHR '','' \<notin> set v \<and> CHR 0x0A \<notin> set v"

definition print_line :: "string \<times> string list \<Rightarrow> string" where
  "print_line e = fst e @ ''='' @ join_with '','' (snd e)"

definition gen_ok :: "string \<times> string list \<Rightarrow> bool" where
  "gen_ok e \<longleftrightarrow> plain_key (fst e) \<and> CHR ''='' \<notin> set (fst e) \<and> CHR 0x0A \<notin> set (fst e) \<and> snd e \<noteq> [] \<and>
     list_all plain_value (snd e)"

lemma gen_line_print: "gen_ok e \<Longrightarrow> gen_line (print_line e) = Some e"
proof -
  assume g: "gen_ok e"
  have "split_on (CHR '','') (join_with '','' (snd e)) = snd e"
    using g by (intro split_on_join) (auto simp: gen_ok_def list_all_iff plain_value_def)
  moreover have "map trim_str (snd e) = snd e"
    using g by (auto simp: gen_ok_def list_all_iff plain_value_def intro: map_idI)
  ultimately show ?thesis
    using g by (cases e) (simp add: gen_line_def print_line_def gen_ok_def split_on_append join_split plain_key_def)
qed

lemma print_line_nonblank: "gen_ok e \<Longrightarrow> trim_str (print_line e) \<noteq> []"
proof -
  assume g: "gen_ok e"
  have "trimStart s = [] \<longleftrightarrow> list_all is_space s" for s
    by (simp add: trimStart_def list_all_iff dropWhile_eq_Nil_conv)
  moreover have "trimEnd s = [] \<longleftrightarrow> list_all is_space s" for s
    by (simp add: trimEnd_def list_all_iff dropWhile_eq_Nil_conv)
  moreover have "\<not> is_space (CHR ''='')" by (simp add: is_space_def)
  moreover have "dropWhile is_space (a @ CHR ''='' # b) = dropWhile is_space a @ CHR ''='' # b" for a b
    using \<open>\<not> is_space (CHR ''='')\<close> by (simp add: dropWhile_append)
  ultimately show ?thesis
    by (simp add: trim_str_def print_line_def trimStart_def)
qed

lemma print_line_no_newline: "gen_ok e \<Longrightarrow> CHR 0x0A \<notin> set (print_line e)"
  using set_join_with [of "'',''" "snd e"] by (auto simp: print_line_def gen_ok_def plain_value_def list_all_iff)

lemma foldl_gen:
  "list_all gen_ok gs \<Longrightarrow> distinct (map fst gs) \<Longrightarrow> \<forall>g\<in>set gs. fst g \<notin> fst ` set acc \<Longrightarrow>
   foldl (\<lambda>m line. case gen_line line of Some (k, vs) \<Rightarrow> obj_set k vs m | None \<Rightarrow> m) acc (map print_line gs) = acc @ gs"
proof (induction gs arbitrary: acc)
  case (Cons g gs)
  have g: "gen_line (print_line g) = Some (fst g, snd g)" "fst g \<noteq> ''__proto__''" "fst g \<notin> fst ` set acc"
    using Cons.prems by (simp_all add: gen_line_print gen_ok_def plain_key_def)
  have "js_set (fst g) (snd g) acc = acc @ [g]"
    using g(3) by (induction acc) auto
  moreover have "\<forall>h\<in>set gs. fst h \<noteq> fst g" using Cons.prems(2) by (auto simp: rev_image_eqI)
  ultimately show ?case
    using Cons.prems g Cons.IH [of "acc @ [g]"] by (simp add: obj_set_def case_prod_unfold)
qed simp

text \<open>
  Generator variables written one per line, a key and its values separated by commas, are read as
  written: every key with its values, in order, for keys and values without blanks around them.
\<close>

lemma gen_variables_roundtrip:
  assumes "list_all gen_ok gs" and "distinct (map fst gs)"
  shows "gen_variables (join_with [CHR 0x0A] (map print_line gs)) = gs"
proof (cases "gs = []")
  case True
  then show ?thesis by (simp add: gen_variables_def trim_str_def trimStart_def trimEnd_def)
next
  case False
  have "split_on (CHR 0x0A) (join_with [CHR 0x0A] (map print_line gs)) = map print_line gs"
    using False assms(1) print_line_no_newline by (intro split_on_join) (auto simp: list_all_iff)
  moreover have "filter (\<lambda>l. trim_str l \<noteq> []) (map print_line gs) = map print_line gs"
    using assms(1) print_line_nonblank by (simp add: filter_id_conv list_all_iff)
  ultimately show ?thesis
    using foldl_gen [OF assms, of "[]"] by (simp add: gen_variables_def)
qed

theorem gen_variables_roundtrip_witness:
  "gen_variables (join_with [CHR 0x0A] (map print_line [(''proc'', [''auth'', ''a=b'']), (''env'', [''x''])])) =
     [(''proc'', [''auth'', ''a=b'']), (''env'', [''x''])]"
proof (rule gen_variables_roundtrip)
  show "list_all gen_ok [(''proc'', [''auth'', ''a=b'']), (''env'', [''x''])]" by code_simp
qed simp

subsection \<open>Editing objectives\<close>

definition plain_threshold :: "string \<Rightarrow> bool" where
  "plain_threshold c \<longleftrightarrow> c \<noteq> [] \<and> trim_str c = c \<and> CHR '','' \<notin> set c"

lemma trim_space: "trim_str (CHR '' '' # s) = trim_str s"
  by (simp add: trim_str_def trimStart_def is_space_def)

lemma split_comma_space:
  "xs \<noteq> [] \<Longrightarrow> \<forall>x\<in>set xs. CHR '','' \<notin> set x \<Longrightarrow>
   split_on (CHR '','') (join_with '', '' xs) = hd xs # map (\<lambda>x. CHR '' '' # x) (tl xs)"
proof (induction "'', ''" xs rule: join_with.induct)
  case (3 x y zs)
  then show ?case by (simp add: split_on_append split_on_Cons split: list.split)
qed (simp_all add: split_on_absent)

lemma join_with_nonempty: "xs \<noteq> [] \<Longrightarrow> hd xs \<noteq> [] \<Longrightarrow> join_with sep xs \<noteq> []"
  by (cases xs rule: remdups_adj.cases) auto

lemma thresholds_roundtrip: "list_all plain_threshold cs \<Longrightarrow> split_thresholds (join_with '', '' cs) = cs"
proof (cases cs)
  case (Cons c ds)
  assume p: "list_all plain_threshold cs"
  have "join_with '', '' cs \<noteq> []" using p Cons by (intro join_with_nonempty) (auto simp: plain_threshold_def)
  moreover have "split_on (CHR '','') (join_with '', '' cs) = c # map (\<lambda>x. CHR '' '' # x) ds"
    using p Cons split_comma_space [of cs] by (simp add: list_all_iff plain_threshold_def)
  moreover have "map trim_str (c # map (\<lambda>x. CHR '' '' # x) ds) = c # ds"
    using p Cons by (auto simp: trim_space list_all_iff plain_threshold_def intro: map_idI)
  moreover have "filter (\<lambda>x. x \<noteq> []) (c # ds) = c # ds"
    using p Cons by (auto simp: filter_id_conv list_all_iff plain_threshold_def)
  ultimately show ?thesis using Cons by (simp add: split_thresholds_def)
qed (simp add: split_thresholds_def)

definition objective_thresholds_ok :: "SloObjective \<Rightarrow> bool" where
  "objective_thresholds_ok ob \<longleftrightarrow> list_all plain_threshold (so_passThreshold ob @ so_warningThreshold ob) \<and> so_displayName ob \<noteq> []"

lemma unedited_fields:
  "objective_thresholds_ok ob \<Longrightarrow> objective_fields (default_objective ob) =
    [(''sli'', Some (JStr (so_sli ob))), (''display_name'', Some (JStr (so_displayName ob))),
     (''pass_threshold'', Some (json_strs (so_passThreshold ob))),
     (''warning_threshold'', Some (json_strs (so_warningThreshold ob))),
     (''weight'', Some (number_json (num_string (Fin (so_weight ob))))), (''key_sli'', Some (JBool (so_keySli ob)))]"
  by (simp add: objective_thresholds_ok_def objective_fields_def default_objective_def thresholds_roundtrip)

lemma json_field_absent: "k \<notin> fst ` set fs \<Longrightarrow> json_field (json_object fs) k = None"
  by (auto simp: json_field_def json_object_def map_of_eq_None_iff List.map_filter_def intro: rev_image_eqI)

lemma editor_body_fields:
  "k \<in> {''tags'', ''variables'', ''sli_name'', ''sli_version'', ''comparison'', ''method_criteria''} \<Longrightarrow>
   json_field (editor_create_body s v) k = None"
  unfolding editor_create_body_def by (rule json_field_absent) auto



subsection \<open>Assigning\<close>

definition link_ok :: "LinkState \<Rightarrow> bool" where
  "link_ok s \<longleftrightarrow> (truthy (lk_lockedGroupName s) \<longrightarrow> Some (lk_groupName s) = lk_lockedGroupName s) \<and>
    (truthy (lk_lockedSloName s) \<longrightarrow> Some (lk_sloName s) = lk_lockedSloName s)"

lemma link_sync_ok: "link_ok (link_sync_effect s)"
  by (cases "lk_lockedGroupName s"; cases "lk_lockedSloName s") (simp_all add: link_ok_def link_sync_effect_def)

lemma link_open_ok: "link_ok s \<Longrightarrow> link_ok (link_open_effect s)"
  by (simp add: link_ok_def link_open_effect_def Let_def)

lemma link_step_ok: "link_ok s \<Longrightarrow> link_ok (link_step e s)"
proof (cases e)
  case (LinkProps op lockedSlo lockedGroup)
  assume s: "link_ok s"
  let ?s1 = "s\<lparr>lk_open := op, lk_lockedSloName := lockedSlo, lk_lockedGroupName := lockedGroup\<rparr>"
  have "lockedSlo = lk_lockedSloName s \<Longrightarrow> lockedGroup = lk_lockedGroupName s \<Longrightarrow> link_ok ?s1"
    using s by (simp add: link_ok_def)
  then show ?thesis
    using link_sync_ok [of ?s1] s by (auto simp: LinkProps Let_def intro: link_open_ok)
qed (auto simp: link_ok_def)

lemma link_run_ok: "link_ok (link_run op a b es)"
  unfolding link_run_def
  by (rule fold_invariant [where Q = "\<lambda>_. True"]) (auto simp: link_mount_def intro: link_step_ok link_open_ok link_sync_ok)

lemma link_locks_kept: "\<forall>e\<in>set es. \<forall>o' a' b'. e = LinkProps o' a' b' \<longrightarrow> b' = None \<or> truthy b' \<Longrightarrow> b = None \<or> truthy b \<Longrightarrow>
   lk_lockedGroupName (link_run op a b es) = None \<or> truthy (lk_lockedGroupName (link_run op a b es))"
proof (induction es rule: rev_induct)
  case Nil
  then show ?case by (auto simp: link_run_def link_mount_def link_open_effect_def link_sync_effect_def Let_def)
next
  case (snoc e es)
  have "lk_lockedGroupName (link_run op a b (es @ [e])) =
    (case e of LinkProps o' a' b' \<Rightarrow> b' | _ \<Rightarrow> lk_lockedGroupName (link_run op a b es))"
    by (cases e) (auto simp: link_run_def link_open_effect_def link_sync_effect_def Let_def)
  then show ?case using snoc by (cases e) auto
qed



end
