(* ===== verification/ExplorerPages.thy ===== *)
theory ExplorerPages
  imports RegistryForms PanelViews
begin

text \<open>
  The change points page (\<open>change-points/components/ChangePointsPage.tsx\<close>) as a state machine of its filters,
  page, selection and triage requests, and the metric explorer (\<open>pages/MetricExplorerPage.tsx\<close>) with its label
  panel (\<open>charts/MetricLabelPanel.tsx\<close>) and chart (\<open>charts/MultiSeriesChart.tsx\<close>). What the query client holds
  is a parameter: a function from the filters of a query to its data.
\<close>

subsection \<open>Change points: rows\<close>

definition STATUS_OPTIONS :: "(string \<times> string) list" where
  "STATUS_OPTIONS = [('''', ''All statuses''), (''unprocessed'', ''Unprocessed''), (''acknowledged'', ''Acknowledged''),
    (''hidden'', ''Hidden'')]"

definition DIRECTION_OPTIONS :: "(string \<times> string) list" where
  "DIRECTION_OPTIONS = [('''', ''All directions''), (''regression'', ''Regression''), (''improvement'', ''Improvement'')]"

definition change_point_date :: "jsdate \<Rightarrow> string option" where
  "change_point_date d = map_option (\<lambda>s. replace_T (Prelude.slice s 0 16)) (toISOString d)"

definition status_styles :: "string \<Rightarrow> string option" where
  "status_styles status = map_of
    [(''unprocessed'', ''bg-warning/10 text-warning border-warning/20''),
     (''acknowledged'', ''bg-pass/10 text-pass border-pass/20''),
     (''hidden'', ''bg-muted text-muted-foreground border-border'')] status"

definition direction_color :: "string \<Rightarrow> string" where
  "direction_color direction = (if direction = ''regression'' then ''text-fail'' else ''text-pass'')"

definition assetNameById :: "Asset list option \<Rightarrow> (string, string) jsmap" where
  "assetNameById assets = (case assets of None \<Rightarrow> []
    | Some as \<Rightarrow> foldl (\<lambda>m a. js_set (at_id a) (nullish (at_displayName a) (at_name a)) m) [] as)"

record ChangePointCells =
  cpr_checked :: bool
  cpr_status :: string
  cpr_direction :: string
  cpr_asset :: string
  cpr_metric :: string
  cpr_slo :: string
  cpr_magnitude :: string
  cpr_magnitudeColor :: string
  cpr_detected :: string
  cpr_author :: "string option"
  cpr_note :: "string option"
  cpr_actions :: bool

definition triage_note_text :: "string \<Rightarrow> string" where
  "triage_note_text note = em_dash @ '' '' @ (if 30 < length note then Prelude.slice note 0 30 @ ''...'' else note)"

text \<open>\<open>None\<close>: the date of the row is invalid and its rendering throws.\<close>

definition ChangePointRow :: "ChangePoint \<Rightarrow> string option \<Rightarrow> bool \<Rightarrow> ChangePointCells option" where
  "ChangePointRow cp assetName selected = map_option (\<lambda>date.
    \<lparr>cpr_checked = selected, cpr_status = chp_status cp, cpr_direction = chp_direction cp,
     cpr_asset = nullish assetName (Prelude.slice (chp_assetId cp) 0 8), cpr_metric = chp_metricName cp,
     cpr_slo = chp_sloName cp,
     cpr_magnitude = formatChangePointPct (chp_changeRelativePct cp) (chp_transition cp) (Some (chp_changeAbsolute cp)),
     cpr_magnitudeColor = (if chp_direction cp = ''regression'' then ''text-red-400'' else ''text-green-400''),
     cpr_detected = date,
     cpr_author = (if truthy (chp_triageAuthor cp) then chp_triageAuthor cp else None),
     cpr_note = (if truthy (chp_triageNote cp) then map_option triage_note_text (chp_triageNote cp) else None),
     cpr_actions = (chp_status cp = ''unprocessed'')\<rparr>) (change_point_date (chp_createdAt cp))"

subsection \<open>Change points: the page\<close>

definition pageSize :: nat where
  "pageSize = 50"

record ChangePointsPage =
  cpp_status :: string
  cpp_direction :: string
  cpp_selected :: "string list"
  cpp_note :: string
  cpp_page :: int
  cpp_bulkPending :: bool
  cpp_rowPending :: bool
  cpp_bulkSent :: "BulkTriageInput list"
  cpp_rowSent :: "(string \<times> TriageInput) list"

definition change_points_mount :: ChangePointsPage where
  "change_points_mount = \<lparr>cpp_status = ''unprocessed'', cpp_direction = [], cpp_selected = [], cpp_note = [],
    cpp_page = 0, cpp_bulkPending = False, cpp_rowPending = False, cpp_bulkSent = [], cpp_rowSent = []\<rparr>"

definition str_or_undefined :: "string \<Rightarrow> string option" where
  "str_or_undefined s = (if s = [] then None else Some s)"

definition change_point_filters :: "ChangePointsPage \<Rightarrow> ChangePointFilters" where
  "change_point_filters p = \<lparr>cf_status = str_or_undefined (cpp_status p), cf_direction = str_or_undefined (cpp_direction p),
    cf_assetId = None, cf_sloName = None, cf_metric = None, cf_limit = Some (int pageSize),
    cf_offset = Some (cpp_page p * int pageSize)\<rparr>"

definition toggleSelect :: "string \<Rightarrow> ChangePointsPage \<Rightarrow> ChangePointsPage" where
  "toggleSelect i p = p\<lparr>cpp_selected :=
    (if i \<in> set (cpp_selected p) then removeAll i (cpp_selected p) else cpp_selected p @ [i])\<rparr>"

definition toggleSelectAll :: "ChangePoint list option \<Rightarrow> ChangePointsPage \<Rightarrow> ChangePointsPage" where
  "toggleSelectAll changePoints p = (case changePoints of None \<Rightarrow> p
    | Some cps \<Rightarrow> p\<lparr>cpp_selected := (if length (cpp_selected p) = length cps then [] else uniq (map chp_id cps))\<rparr>)"

definition handleTriage :: "string \<Rightarrow> string \<Rightarrow> ChangePointsPage \<Rightarrow> ChangePointsPage" where
  "handleTriage i status p = p\<lparr>cpp_rowPending := True,
    cpp_rowSent := cpp_rowSent p @ [(i, \<lparr>tri_status = status, tri_triageAuthor = None, tri_triageNote = None\<rparr>)]\<rparr>"

definition handleBulkTriage :: "string \<Rightarrow> ChangePointsPage \<Rightarrow> ChangePointsPage" where
  "handleBulkTriage status p = (if length (cpp_selected p) = 0 then p
    else p\<lparr>cpp_bulkPending := True, cpp_bulkSent := cpp_bulkSent p @
      [\<lparr>bti_ids = cpp_selected p, bti_status = status, bti_triageAuthor = None,
        bti_triageNote = str_or_undefined (cpp_note p)\<rparr>]\<rparr>)"

definition header_checked :: "ChangePoint list \<Rightarrow> ChangePointsPage \<Rightarrow> bool" where
  "header_checked cps p \<longleftrightarrow> length (cpp_selected p) = length cps"

definition showing_label :: "ChangePoint list \<Rightarrow> ChangePointsPage \<Rightarrow> string" where
  "showing_label cps p = (if length cps = 0 then ''No results''
    else ''Showing '' @ show_int (cpp_page p * int pageSize + 1) @ en_dash
      @ show_int (cpp_page p * int pageSize + int (length cps)))"

definition change_point_rows :: "Asset list option \<Rightarrow> ChangePoint list \<Rightarrow> ChangePointsPage \<Rightarrow> ChangePointCells list option" where
  "change_point_rows assets cps p = those (map (\<lambda>cp.
    ChangePointRow cp (js_get (assetNameById assets) (chp_assetId cp)) (chp_id cp \<in> set (cpp_selected p))) cps)"

text \<open>The controls; a control that is not rendered or disabled does nothing.\<close>

datatype ChangePointEvent =
    ChooseStatus string | ChooseDirection string | CheckRow string | CheckAll | TypeTriageNote string
  | BulkButton string | BulkSettled bool | RowButton string string | RowSettled | PrevPage | NextPage

definition change_point_step ::
    "(ChangePointFilters \<Rightarrow> ChangePoint list option) \<Rightarrow> ChangePointEvent \<Rightarrow> ChangePointsPage \<Rightarrow> ChangePointsPage" where
  "change_point_step held e p = (let changePoints = held (change_point_filters p); cps = nullish changePoints [] in
    case e of
      ChooseStatus v \<Rightarrow> if v \<in> fst ` set STATUS_OPTIONS then p\<lparr>cpp_status := v, cpp_page := 0\<rparr> else p
    | ChooseDirection v \<Rightarrow> if v \<in> fst ` set DIRECTION_OPTIONS then p\<lparr>cpp_direction := v, cpp_page := 0\<rparr> else p
    | CheckRow i \<Rightarrow> if i \<in> set (map chp_id cps) then toggleSelect i p else p
    | CheckAll \<Rightarrow> if 0 < length cps then toggleSelectAll changePoints p else p
    | TypeTriageNote v \<Rightarrow> if 0 < length (cpp_selected p) then p\<lparr>cpp_note := v\<rparr> else p
    | BulkButton status \<Rightarrow>
        if 0 < length (cpp_selected p) \<and> \<not> cpp_bulkPending p \<and> status \<in> {''acknowledged'', ''hidden''}
        then handleBulkTriage status p else p
    | BulkSettled ok \<Rightarrow> if \<not> cpp_bulkPending p then p
        else if ok then p\<lparr>cpp_bulkPending := False, cpp_selected := [], cpp_note := []\<rparr>
        else p\<lparr>cpp_bulkPending := False\<rparr>
    | RowButton i status \<Rightarrow>
        if (\<exists>cp \<in> set cps. chp_id cp = i \<and> chp_status cp = ''unprocessed'') \<and> \<not> cpp_rowPending p
          \<and> status \<in> {''acknowledged'', ''hidden''}
        then handleTriage i status p else p
    | RowSettled \<Rightarrow> p\<lparr>cpp_rowPending := False\<rparr>
    | PrevPage \<Rightarrow> if changePoints \<noteq> None \<and> cpp_page p \<noteq> 0 then p\<lparr>cpp_page := cpp_page p - 1\<rparr> else p
    | NextPage \<Rightarrow> if changePoints \<noteq> None \<and> \<not> length cps < pageSize then p\<lparr>cpp_page := cpp_page p + 1\<rparr> else p)"

definition change_point_run ::
    "((ChangePointFilters \<Rightarrow> ChangePoint list option) \<times> ChangePointEvent) list \<Rightarrow> ChangePointsPage" where
  "change_point_run es = fold (\<lambda>(held, e). change_point_step held e) es change_points_mount"

text \<open>The rows the page has shown in the course of a run.\<close>

definition shown_ids :: "(ChangePointFilters \<Rightarrow> ChangePoint list option) \<Rightarrow> ChangePointsPage \<Rightarrow> string set" where
  "shown_ids held p = set (map chp_id (nullish (held (change_point_filters p)) []))"

definition ever_shown ::
    "((ChangePointFilters \<Rightarrow> ChangePoint list option) \<times> ChangePointEvent) list \<Rightarrow> string set" where
  "ever_shown es = (\<Union>n < length es. shown_ids (fst (es ! n)) (change_point_run (take n es)))"


lemma change_point_run_snoc: "change_point_run (es @ [(held, e)]) = change_point_step held e (change_point_run es)"
  by (simp add: change_point_run_def)

lemma ever_shown_snoc: "ever_shown (es @ [(held, e)]) = ever_shown es \<union> shown_ids held (change_point_run es)"
proof -
  have "ever_shown (es @ [(held, e)]) =
      (\<Union>n < length es. shown_ids (fst ((es @ [(held, e)]) ! n)) (change_point_run (take n (es @ [(held, e)]))))
      \<union> shown_ids held (change_point_run es)"
    by (simp add: ever_shown_def lessThan_Suc Un_commute)
  also have "(\<Union>n < length es. shown_ids (fst ((es @ [(held, e)]) ! n)) (change_point_run (take n (es @ [(held, e)]))))
      = ever_shown es"
    by (simp add: ever_shown_def nth_append)
  finally show ?thesis .
qed

text \<open>What a page may hold and have sent, given the rows shown so far.\<close>

definition bulk_ok :: "string set \<Rightarrow> BulkTriageInput \<Rightarrow> bool" where
  "bulk_ok shown b \<longleftrightarrow> bti_ids b \<noteq> [] \<and> distinct (bti_ids b) \<and> set (bti_ids b) \<subseteq> shown \<and>
    bti_status b \<in> {''acknowledged'', ''hidden''} \<and> bti_triageNote b \<noteq> Some []"

definition page_state_ok :: "string set \<Rightarrow> ChangePointsPage \<Rightarrow> bool" where
  "page_state_ok shown p \<longleftrightarrow> distinct (cpp_selected p) \<and> set (cpp_selected p) \<subseteq> shown \<and> 0 \<le> cpp_page p \<and>
    list_all (bulk_ok shown) (cpp_bulkSent p) \<and> list_all (\<lambda>(i, t). i \<in> shown) (cpp_rowSent p)"

lemma page_state_mono: "page_state_ok A p \<Longrightarrow> A \<subseteq> B \<Longrightarrow> page_state_ok B p"
  by (fastforce simp: page_state_ok_def bulk_ok_def list_all_iff)

lemma change_point_step_ok:
  assumes "page_state_ok shown p" and "shown_ids held p \<subseteq> shown"
  shows "page_state_ok shown (change_point_step held e p)"
proof (cases e)
  case (CheckAll)
  then show ?thesis using assms
    by (cases "held (change_point_filters p)")
      (auto simp: change_point_step_def page_state_ok_def toggleSelectAll_def shown_ids_def)
next
  case (BulkButton status)
  then show ?thesis using assms
    by (auto simp: change_point_step_def page_state_ok_def handleBulkTriage_def bulk_ok_def str_or_undefined_def)
next
  case (RowButton i status)
  then show ?thesis using assms
    by (auto simp: change_point_step_def page_state_ok_def handleTriage_def shown_ids_def Let_def)
next
  case (CheckRow i)
  then show ?thesis using assms
    by (auto simp: change_point_step_def page_state_ok_def toggleSelect_def shown_ids_def Let_def distinct_removeAll)
qed (use assms in \<open>auto simp: change_point_step_def page_state_ok_def Let_def\<close>)

lemma change_point_run_ok: "page_state_ok (ever_shown es) (change_point_run es)"
proof (induction es rule: rev_induct)
  case Nil
  show ?case by (simp add: change_point_run_def change_points_mount_def page_state_ok_def ever_shown_def)
next
  case (snoc x es)
  obtain held e where x: "x = (held, e)" by (cases x)
  show ?case unfolding x change_point_run_snoc
    by (rule change_point_step_ok)
      (auto simp: ever_shown_snoc intro: page_state_mono [OF snoc])
qed

text \<open>
  C24. Whatever the order of clicks and answers, the page sends a bulk triage only for distinct change points
  that it has shown, at least one, with one of the two statuses and without an empty note; single rows likewise;
  the offset is never negative, and while a bulk request is under way no other is sent.
\<close>

theorem change_points_page_safe:
  "distinct (cpp_selected (change_point_run es)) \<and>
   set (cpp_selected (change_point_run es)) \<subseteq> ever_shown es \<and>
   (\<forall>b \<in> set (cpp_bulkSent (change_point_run es)). bti_ids b \<noteq> [] \<and> distinct (bti_ids b) \<and>
      set (bti_ids b) \<subseteq> ever_shown es \<and> bti_status b \<in> {''acknowledged'', ''hidden''} \<and> bti_triageNote b \<noteq> Some []) \<and>
   (\<forall>(i, t) \<in> set (cpp_rowSent (change_point_run es)). i \<in> ever_shown es) \<and>
   0 \<le> cpp_page (change_point_run es) \<and>
   (cpp_bulkPending (change_point_run es) \<longrightarrow>
      change_point_step held (BulkButton status) (change_point_run es) = change_point_run es)"
proof -
  have "change_point_step held (BulkButton status) p = p" if "cpp_bulkPending p" for p
    using that by (simp add: change_point_step_def)
  then show ?thesis using change_point_run_ok [of es]
    by (simp add: page_state_ok_def bulk_ok_def list_all_iff)
qed

definition demo_change_point :: "string \<Rightarrow> string \<Rightarrow> ChangePoint" where
  "demo_change_point i status = \<lparr>chp_id = i, chp_assetId = ''a'', chp_sloName = ''s'', chp_metricName = ''m'',
    chp_periodStart = Some 0, chp_direction = ''regression'', chp_changeRelativePct = None, chp_transition = None,
    chp_changeAbsolute = 1, chp_preSegmentMean = 0, chp_postSegmentMean = 1, chp_pvalue = 0, chp_status = status,
    chp_triageAuthor = None, chp_triageNote = None, chp_triageAt = None, chp_linkedTicket = None,
    chp_foundByEvaluationId = None, chp_createdAt = Some 0\<rparr>"

definition demo_held :: "ChangePointFilters \<Rightarrow> ChangePoint list option" where
  "demo_held f = (if cf_status f = Some ''hidden'' then Some [demo_change_point ''c2'' ''hidden'']
    else Some [demo_change_point ''c1'' ''unprocessed''])"

definition demo_change_point_run :: "((ChangePointFilters \<Rightarrow> ChangePoint list option) \<times> ChangePointEvent) list" where
  "demo_change_point_run = [(demo_held, CheckAll), (demo_held, ChooseStatus ''hidden'')]"

lemmas demo_change_point_defs = demo_change_point_run_def demo_held_def demo_change_point_def change_point_run_def
  change_point_step_def change_points_mount_def change_point_filters_def toggleSelectAll_def str_or_undefined_def
  STATUS_OPTIONS_def uniq_def handleBulkTriage_def

theorem change_points_page_safe_witness:
  "bti_ids (hd (cpp_bulkSent (change_point_run [(demo_held, CheckAll), (demo_held, BulkButton ''hidden'')]))) = [''c1''] \<and>
   set [''c1''] \<subseteq> ever_shown [(demo_held, CheckAll), (demo_held, BulkButton ''hidden'')]"
proof -
  have b: "cpp_bulkSent (change_point_run [(demo_held, CheckAll), (demo_held, BulkButton ''hidden'')]) =
      [\<lparr>bti_ids = [''c1''], bti_status = ''hidden'', bti_triageAuthor = None, bti_triageNote = None\<rparr>]"
    by (simp add: demo_change_point_defs)
  show ?thesis
    using change_points_page_safe [of "[(demo_held, CheckAll), (demo_held, BulkButton ''hidden'')]" demo_held "''hidden''"]
    by (simp add: b)
qed

text \<open>
  The box in the header compares sizes: it reports all rows as selected when as many others are, and then a
  click clears the selection. It is right as long as only shown rows are selected.
\<close>

lemma header_checked_correct:
  assumes "distinct (cpp_selected p)" and "distinct (map chp_id cps)" and "set (cpp_selected p) \<subseteq> set (map chp_id cps)"
  shows "header_checked cps p \<longleftrightarrow> set (cpp_selected p) = set (map chp_id cps)"
proof -
  have "length (cpp_selected p) = card (set (cpp_selected p))" "length cps = card (set (map chp_id cps))"
    using assms(1,2) by (metis distinct_card, metis distinct_card length_map)
  then show ?thesis using assms(3) unfolding header_checked_def
    by (metis List.finite_set card_subset_eq)
qed

lemma header_checked_stale:
  "cpp_selected (change_point_run demo_change_point_run) = [''c1'']"
  "header_checked [demo_change_point ''c2'' ''hidden''] (change_point_run demo_change_point_run)"
  "cpp_selected (change_point_run (demo_change_point_run @ [(demo_held, CheckAll)])) = []"
  by (simp_all add: demo_change_point_defs header_checked_def)


subsection \<open>Metric explorer: trends of the enabled metrics\<close>

definition enabled_trend_query where
  "enabled_trend_query tz net from to assetName sloMap apiMap k =
    (let sloName = nullish (Option.bind sloMap (\<lambda>m. js_get m k)) [];
         apiMetric = nullish (Option.bind apiMap (\<lambda>m. js_get m k)) k
     in (query_if (truthy assetName \<and> sloName \<noteq> [])
          (evaluationKeys_trend (nullish assetName []) sloName apiMetric (range_json from to))
          (fetchTrend tz net (nullish assetName []) sloName apiMetric (Some from) (if truthy to then to else None)))
        \<lparr>qu_stale := Infinite\<rparr>)"

definition useEnabledTrends where
  "useEnabledTrends tz net from to assetName enabledKeys sloMap apiMap =
    map (enabled_trend_query tz net from to assetName sloMap apiMap) enabledKeys"

definition enabled_trends :: "TrendPoint list option list \<Rightarrow> string list \<Rightarrow> (string, TrendPoint list) jsmap" where
  "enabled_trends results enabledKeys = foldl (\<lambda>m (d, k). case d of None \<Rightarrow> m | Some points \<Rightarrow> js_set k points m)
    [] (zip results enabledKeys)"

record ExplorerIndicator =
  xi_metric :: string
  xi_display_name :: string
  xi_tab_group :: "string option"

record ChartSeries =
  mcs_metric :: string
  mcs_displayName :: string
  mcs_color :: string
  mcs_data :: "(string \<times> rat) list"

text \<open>\<open>None\<close>: a timestamp is invalid and \<open>toISOString\<close> throws.\<close>

definition series_points :: "(TrendPoint \<Rightarrow> rat) \<Rightarrow> TrendPoint list \<Rightarrow> (string \<times> rat) list option" where
  "series_points dataKey points =
    those (map (\<lambda>p. map_option (\<lambda>t. (t, dataKey p)) (toISOString (tp_timestamp p))) points)"

definition chart_series_of ::
    "(TrendPoint \<Rightarrow> rat) \<Rightarrow> ExplorerIndicator list \<Rightarrow> (string, string) jsmap \<Rightarrow> string \<times> TrendPoint list
      \<Rightarrow> ChartSeries option option" where
  "chart_series_of dataKey indicators colors mp = (case find (\<lambda>i. xi_metric i = fst mp) indicators of
     None \<Rightarrow> Some None
   | Some ind \<Rightarrow> map_option (\<lambda>data. Some \<lparr>mcs_metric = fst mp, mcs_displayName = xi_display_name ind,
       mcs_color = nullish (js_get colors (fst mp)) ''#64748b'', mcs_data = data\<rparr>) (series_points dataKey (snd mp)))"

definition chartSeries ::
    "(TrendPoint \<Rightarrow> rat) \<Rightarrow> ExplorerIndicator list \<Rightarrow> (string, string) jsmap \<Rightarrow> (string, TrendPoint list) jsmap
      \<Rightarrow> ChartSeries list option" where
  "chartSeries dataKey indicators colors trendData =
    map_option (List.map_filter (\<lambda>x. x)) (those (map (chart_series_of dataKey indicators colors) trendData))"

text \<open>The set of enabled metrics, with the handlers of the panel.\<close>

definition toggle_enabled :: "string \<Rightarrow> string list \<Rightarrow> string list" where
  "toggle_enabled metric enabled =
    (if metric \<in> set enabled then removeAll metric enabled else enabled @ [metric])"

definition group_metrics :: "ExplorerIndicator list \<Rightarrow> string \<Rightarrow> string list" where
  "group_metrics indicators g = map xi_metric (filter (\<lambda>i. nullish (xi_tab_group i) ''Other'' = g) indicators)"

definition enable_group :: "ExplorerIndicator list \<Rightarrow> string \<Rightarrow> string list \<Rightarrow> string list" where
  "enable_group indicators g enabled = uniq (enabled @ group_metrics indicators g)"

definition disable_group :: "ExplorerIndicator list \<Rightarrow> string \<Rightarrow> string list \<Rightarrow> string list" where
  "disable_group indicators g enabled = filter (\<lambda>m. m \<notin> set (group_metrics indicators g)) enabled"

record ChartSection =
  csn_enabled :: "string list"
  csn_yMin :: string
  csn_yMax :: string
  csn_chartType :: ChartType

datatype SectionEvent =
    ToggleMetric string | GroupAll string | GroupNone string | AllMetrics | NoMetrics
  | TypeYMin string | TypeYMax string | ChooseType ChartType

definition section_mount :: ChartSection where
  "section_mount = \<lparr>csn_enabled = [], csn_yMin = [], csn_yMax = [], csn_chartType = LineChart\<rparr>"

fun section_step :: "ExplorerIndicator list \<Rightarrow> SectionEvent \<Rightarrow> ChartSection \<Rightarrow> ChartSection" where
  "section_step indicators (ToggleMetric m) s = s\<lparr>csn_enabled := toggle_enabled m (csn_enabled s)\<rparr>"
| "section_step indicators (GroupAll g) s = s\<lparr>csn_enabled := enable_group indicators g (csn_enabled s)\<rparr>"
| "section_step indicators (GroupNone g) s = s\<lparr>csn_enabled := disable_group indicators g (csn_enabled s)\<rparr>"
| "section_step indicators AllMetrics s = s\<lparr>csn_enabled := uniq (map xi_metric indicators)\<rparr>"
| "section_step indicators NoMetrics s = s\<lparr>csn_enabled := []\<rparr>"
| "section_step indicators (TypeYMin v) s = s\<lparr>csn_yMin := v\<rparr>"
| "section_step indicators (TypeYMax v) s = s\<lparr>csn_yMax := v\<rparr>"
| "section_step indicators (ChooseType t) s = s\<lparr>csn_chartType := t\<rparr>"

definition y_bounds :: "jsnum option \<Rightarrow> ChartSection \<Rightarrow> jsnum option \<times> jsnum option" where
  "y_bounds yAxisMaxProp s =
    (if csn_yMin s \<noteq> [] then Some (parseFloat (csn_yMin s)) else None,
     if csn_yMax s \<noteq> [] then Some (parseFloat (csn_yMax s)) else yAxisMaxProp)"

subsection \<open>Metric explorer: the page\<close>

definition latestEval :: "(string \<Rightarrow> string \<Rightarrow> int) \<Rightarrow> Evaluation list \<Rightarrow> Evaluation option" where
  "latestEval localeCompare evals =
    (case sort_cmp (\<lambda>a b. localeCompare (dr_from (ev_period b)) (dr_from (ev_period a)))
       (filter (\<lambda>e. \<not> ev_invalidated e) evals) of [] \<Rightarrow> None | e # _ \<Rightarrow> Some e)"

definition explorer_evals :: "string option \<Rightarrow> Evaluation list \<Rightarrow> Evaluation list \<Rightarrow> Evaluation list" where
  "explorer_evals assetName assetEvals groupEvals = (if truthy assetName then assetEvals else groupEvals)"

definition explorer_detail_id :: "string option \<Rightarrow> Evaluation option \<Rightarrow> string option" where
  "explorer_detail_id assetName latest = (if \<not> truthy assetName then map_option ev_id latest else None)"

definition multiSlo :: "GroupedHeatmapWire option \<Rightarrow> bool" where
  "multiSlo h = (nullish (map_option (\<lambda>d. length (ghw_groups d)) h) 0 > 1)"

definition composite_key :: "string \<Rightarrow> string \<Rightarrow> string" where
  "composite_key slo metric = slo @ CHR 0x00 # metric"

definition explorer_key :: "bool \<Rightarrow> HeatmapSloGroupWire \<Rightarrow> HeatmapMetric \<Rightarrow> string" where
  "explorer_key multi g m = (if multi then composite_key (hgw_slo_name g) (hm_name m) else hm_name m)"

definition heatmap_indicators :: "bool \<Rightarrow> HeatmapSloGroupWire \<Rightarrow> ExplorerIndicator list" where
  "heatmap_indicators multi g =
    (let sloLabel = nullish (hgw_slo_display_name g) (hgw_slo_name g)
     in map (\<lambda>m. \<lparr>xi_metric = explorer_key multi g m,
          xi_display_name = (if multi then sloLabel @ '' / '' @ hm_displayName m else hm_displayName m),
          xi_tab_group = (if multi then Some sloLabel else None)\<rparr>)
        (filter (\<lambda>m. hm_name m \<noteq> ''__score__'') (hgw_metrics g)))"

definition explorer_indicators :: "GroupedHeatmapWire option \<Rightarrow> EvaluationDetail option \<Rightarrow> ExplorerIndicator list" where
  "explorer_indicators heatmapData latestDetail = (case heatmapData of
     Some h \<Rightarrow> concat (map (heatmap_indicators (multiSlo heatmapData)) (ghw_groups h))
   | None \<Rightarrow> (case latestDetail of
       Some d \<Rightarrow> map (\<lambda>r. \<lparr>xi_metric = in_metric r, xi_display_name = in_displayName r, xi_tab_group = in_tabGroup r\<rparr>)
         (ed_indicators d)
     | None \<Rightarrow> []))"

definition metric_pairs :: "GroupedHeatmapWire \<Rightarrow> (HeatmapSloGroupWire \<times> HeatmapMetric) list" where
  "metric_pairs h = concat (map (\<lambda>g. map (Pair g) (hgw_metrics g)) (ghw_groups h))"

definition apiMetricMap :: "GroupedHeatmapWire option \<Rightarrow> (string, string) jsmap option" where
  "apiMetricMap heatmapData = (case heatmapData of None \<Rightarrow> None
    | Some h \<Rightarrow> if \<not> multiSlo heatmapData then None
      else Some (foldl (\<lambda>m (g, x). js_set (composite_key (hgw_slo_name g) (hm_name x)) (hm_name x) m) [] (metric_pairs h)))"

definition explorer_metricSloMap :: "GroupedHeatmapWire option \<Rightarrow> (string, string) jsmap option" where
  "explorer_metricSloMap heatmapData = (case heatmapData of None \<Rightarrow> None
    | Some h \<Rightarrow>
      (let m = foldl (\<lambda>m (g, x). js_set (explorer_key (multiSlo heatmapData) g x) (hgw_slo_name g) m) [] (metric_pairs h)
       in if 0 < length m then Some m else None))"

definition backHref :: "string option \<Rightarrow> string option \<Rightarrow> string" where
  "backHref assetName groupName =
    (if truthy assetName then ''/navigator?asset='' @ encodeURIComponent (nullish assetName [])
     else if truthy groupName then ''/navigator?group='' @ encodeURIComponent (nullish groupName [])
     else ''/navigator'')"

subsection \<open>The chart of several series\<close>

definition allTimestamps :: "ChartSeries list \<Rightarrow> string list" where
  "allTimestamps series = sort (uniq (concat (map (\<lambda>s. map fst (mcs_data s)) series)))"

definition series_values :: "string list \<Rightarrow> ChartSeries \<Rightarrow> rat option list" where
  "series_values ts s = (let lookup = foldl (\<lambda>m (t, v). js_set t v m) [] (mcs_data s) in map (js_get lookup) ts)"

record SeriesOption =
  so_name :: string
  so_type :: ChartType
  so_data :: "rat option list"
  so_color :: string
  so_stack :: "string option"

definition series_option :: "ChartType \<Rightarrow> bool \<Rightarrow> string list \<Rightarrow> ChartSeries \<Rightarrow> SeriesOption" where
  "series_option chartType stacked ts s = \<lparr>so_name = mcs_displayName s, so_type = chartType,
     so_data = series_values ts s, so_color = mcs_color s, so_stack = (if stacked then Some ''total'' else None)\<rparr>"

record MultiSeriesOption =
  mso_xAxis :: "string list"
  mso_yName :: "string option"
  mso_yMin :: "jsnum option"
  mso_yMax :: "jsnum option"
  mso_series :: "SeriesOption list"

definition MultiSeriesChart ::
    "ChartSeries list \<Rightarrow> string option \<Rightarrow> jsnum option \<Rightarrow> jsnum option \<Rightarrow> ChartType \<Rightarrow> bool \<Rightarrow> MultiSeriesOption" where
  "MultiSeriesChart series yAxisLabel yAxisMin yAxisMax chartType stacked =
    (let ts = allTimestamps series
     in \<lparr>mso_xAxis = map fmtSlot ts, mso_yName = yAxisLabel, mso_yMin = yAxisMin, mso_yMax = yAxisMax,
         mso_series = map (series_option chartType stacked ts) series\<rparr>)"

record TooltipParam =
  tpm_seriesName :: string
  tpm_value :: "rat option"
  tpm_color :: string
  tpm_axisValueLabel :: string

definition series_tooltip :: "TooltipParam list \<Rightarrow> string" where
  "series_tooltip params = (case params of [] \<Rightarrow> []
    | p # _ \<Rightarrow> (let label = tpm_axisValueLabel p; visible = filter (\<lambda>p. tpm_value p \<noteq> None) params
        in if visible = [] then ''<b>'' @ label @ ''</b><br/>No data''
           else ''<b>'' @ label @ ''</b><br/>'' @ join_with ''<br/>'' (map (\<lambda>p. ''<span style=\"color:'' @ tpm_color p
             @ ''\">'' @ bullet @ ''</span> '' @ tpm_seriesName p @ '': '' @ num_string (Fin (the (tpm_value p)))) visible)))"

subsection \<open>The label panel\<close>

definition LABELS_PER_PAGE :: nat where
  "LABELS_PER_PAGE = 50"

type_synonym grouped_indicators = "(string \<times> ExplorerIndicator list) list"

definition groupIndicators :: "ExplorerIndicator list \<Rightarrow> grouped_indicators" where
  "groupIndicators indicators =
    (let groupMap = group_by (\<lambda>i. nullish (xi_tab_group i) ''Other'') (\<lambda>i. i) indicators
     in filter (\<lambda>(g, _). g \<noteq> ''Other'') groupMap @ filter (\<lambda>(g, _). g = ''Other'') groupMap)"

definition flattenGroups :: "grouped_indicators \<Rightarrow> ExplorerIndicator list" where
  "flattenGroups gs = concat (map snd gs)"

definition regroupSlice :: "ExplorerIndicator list \<Rightarrow> grouped_indicators \<Rightarrow> grouped_indicators" where
  "regroupSlice sl gs = filter (\<lambda>(_, items). 0 < length items)
    (map (\<lambda>(g, items). (g, filter (\<lambda>i. xi_metric i \<in> set (map xi_metric sl)) items)) gs)"

definition label_pages :: "ExplorerIndicator list \<Rightarrow> nat" where
  "label_pages indicators =
    max 1 ((length (flattenGroups (groupIndicators indicators)) + LABELS_PER_PAGE - 1) div LABELS_PER_PAGE)"

definition safe_page :: "ExplorerIndicator list \<Rightarrow> int \<Rightarrow> int" where
  "safe_page indicators page = min page (int (label_pages indicators) - 1)"

definition visibleGroups :: "ExplorerIndicator list \<Rightarrow> int \<Rightarrow> grouped_indicators" where
  "visibleGroups indicators page =
    (let allGroups = groupIndicators indicators; sp = nat (safe_page indicators page)
     in regroupSlice (Prelude.slice (flattenGroups allGroups) (sp * LABELS_PER_PAGE) ((sp + 1) * LABELS_PER_PAGE)) allGroups)"

definition label_previous :: "ExplorerIndicator list \<Rightarrow> int \<Rightarrow> int" where
  "label_previous indicators page =
    (if 1 < label_pages indicators \<and> safe_page indicators page \<noteq> 0 then page - 1 else page)"

definition label_next :: "ExplorerIndicator list \<Rightarrow> int \<Rightarrow> int" where
  "label_next indicators page =
    (if 1 < label_pages indicators \<and> safe_page indicators page \<noteq> int (label_pages indicators) - 1 then page + 1 else page)"

record LabelButton =
  lb_title :: string
  lb_enabled :: bool
  lb_border :: "string option"
  lb_dot :: string

definition label_button :: "(string, string) jsmap \<Rightarrow> string list \<Rightarrow> ExplorerIndicator \<Rightarrow> LabelButton" where
  "label_button colors enabled ind =
    (let isEnabled = xi_metric ind \<in> set enabled; color = nullish (js_get colors (xi_metric ind)) ''var(--state-disabled)''
     in \<lparr>lb_title = xi_display_name ind, lb_enabled = isEnabled,
         lb_border = (if isEnabled then Some (''1px solid '' @ color) else None),
         lb_dot = (if isEnabled then color else ''var(--state-disabled)'')\<rparr>)"


lemma filter_slice:
  assumes "distinct (map f xs)"
  shows "filter (\<lambda>x. f x \<in> set (map f (Prelude.slice xs a b))) xs = Prelude.slice xs a b"
proof -
  let ?s = "Prelude.slice xs a b"
  have xs: "xs = take a xs @ ?s @ drop (b - a) (drop a xs)"
    by (metis Prelude.slice_def append_take_drop_id)
  have d: "distinct (map f (take a xs) @ map f ?s @ map f (drop (b - a) (drop a xs)))"
    using assms by (metis map_append xs)
  have 1: "filter (\<lambda>x. f x \<in> set (map f ?s)) (take a xs) = []"
    "filter (\<lambda>x. f x \<in> set (map f ?s)) (drop (b - a) (drop a xs)) = []"
    using d by (auto simp: filter_empty_conv)
  have 2: "filter (\<lambda>x. f x \<in> set (map f ?s)) ?s = ?s" by (rule filter_True) auto
  have "filter (\<lambda>x. f x \<in> set (map f ?s)) (take a xs @ ?s @ drop (b - a) (drop a xs)) = ?s"
    by (simp only: filter_append 1 2 append_Nil append_Nil2)
  then show ?thesis by (simp only: xs [symmetric])
qed

lemma concat_slices: "concat (map (\<lambda>p. Prelude.slice xs (p * k) ((p + 1) * k)) [0..<n]) = take (n * k) xs"
proof (induction n)
  case (Suc n)
  then show ?case by (simp add: Prelude.slice_def take_add [symmetric] add.commute)
qed simp

lemma flatten_regroup:
  "flattenGroups (regroupSlice sl gs) = filter (\<lambda>i. xi_metric i \<in> set (map xi_metric sl)) (flattenGroups gs)"
  by (induction gs) (auto simp: flattenGroups_def regroupSlice_def)

lemma group_entries:
  assumes "(g, items) \<in> set (groupIndicators xs)"
  shows "items = filter (\<lambda>i. nullish (xi_tab_group i) ''Other'' = g) xs"
proof -
  let ?m = "group_by (\<lambda>i. nullish (xi_tab_group i) ''Other'') (\<lambda>i. i) xs"
  have "(g, items) \<in> set ?m" using assms by (auto simp: groupIndicators_def Let_def)
  then have "js_get ?m g = Some items" by (simp add: js_get_mem)
  then show ?thesis
    using group_by_get [of "\<lambda>i. nullish (xi_tab_group i) ''Other''" "\<lambda>i. i" xs g] by simp
qed

lemma group_keys:
  "set (map fst (groupIndicators xs)) = (\<lambda>i. nullish (xi_tab_group i) ''Other'') ` set xs"
  "distinct (map fst (groupIndicators xs))"
proof -
  let ?k = "\<lambda>i. nullish (xi_tab_group i) ''Other''"
  let ?m = "group_by ?k (\<lambda>i. i) xs"
  have ok: "distinct (map fst ?m)"
    using js_map_ok_group_by [of ?k "\<lambda>i. i" xs] by (simp add: js_map_ok_def js_keys_def)
  have "set (map fst ?m) = ?k ` set xs"
    using group_by_None [of ?k "\<lambda>i. i" xs] by (auto simp: js_get_None_iff js_keys_def)
  moreover have "set (groupIndicators xs) = set ?m" by (auto simp: groupIndicators_def Let_def)
  ultimately show "set (map fst (groupIndicators xs)) = ?k ` set xs" by simp
  show "distinct (map fst (groupIndicators xs))"
    using ok by (auto simp: groupIndicators_def Let_def distinct_map inj_on_def)
qed

lemma flatten_groups_set: "set (flattenGroups (groupIndicators xs)) = set xs"
proof
  show "set (flattenGroups (groupIndicators xs)) \<subseteq> set xs"
    by (auto simp: flattenGroups_def dest: group_entries)
  show "set xs \<subseteq> set (flattenGroups (groupIndicators xs))"
  proof
    fix i
    assume i: "i \<in> set xs"
    then have "nullish (xi_tab_group i) ''Other'' \<in> set (map fst (groupIndicators xs))"
      unfolding group_keys(1) by (rule imageI)
    then obtain items where m: "(nullish (xi_tab_group i) ''Other'', items) \<in> set (groupIndicators xs)" by auto
    then have "i \<in> set items" using group_entries [OF m] i by simp
    then show "i \<in> set (flattenGroups (groupIndicators xs))"
      using m by (force simp: flattenGroups_def)
  qed
qed

lemma flatten_distinct:
  assumes "distinct (map f xs)" and "distinct (map fst gs)"
    and "\<forall>(g, items) \<in> set gs. items = filter (\<lambda>i. k i = g) xs"
  shows "distinct (map f (concat (map snd gs)))"
  using assms(2,3)
proof (induction gs)
  case (Cons e gs)
  obtain g items where e: "e = (g, items)" by (cases e)
  have items: "items = filter (\<lambda>i. k i = g) xs" using Cons.prems(2) e by auto
  have rest: "set (concat (map snd gs)) \<subseteq> {i \<in> set xs. k i \<noteq> g}"
  proof
    fix i
    assume "i \<in> set (concat (map snd gs))"
    then obtain g' its where m: "(g', its) \<in> set gs" "i \<in> set its" by auto
    moreover have "its = filter (\<lambda>i. k i = g') xs" using Cons.prems(2) m(1) by auto
    moreover have "g' \<noteq> g" using Cons.prems(1) m(1) e by force
    ultimately show "i \<in> {i \<in> set xs. k i \<noteq> g}" by simp
  qed
  have inj: "inj_on f (set xs)" using assms(1) by (simp add: distinct_map)
  have "distinct (map f items)" using assms(1) by (simp add: items distinct_map inj_on_def)
  moreover have "set items \<inter> set (concat (map snd gs)) = {}"
    using rest by (auto simp: items)
  then have "f ` set items \<inter> f ` set (concat (map snd gs)) = {}"
    using inj_on_image_Int [OF inj, of "set items" "set (concat (map snd gs))"] rest
    by (simp add: items subset_iff)
  moreover have "distinct (map f (concat (map snd gs)))" using Cons by auto
  ultimately show ?case by (simp add: e)
qed simp

lemma flatten_groups_distinct:
  "distinct (map xi_metric xs) \<Longrightarrow> distinct (map xi_metric (flattenGroups (groupIndicators xs)))"
  unfolding flattenGroups_def
  by (rule flatten_distinct [where k = "\<lambda>i. nullish (xi_tab_group i) ''Other''"])
    (auto simp: group_keys(2) dest: group_entries)

lemma visible_flat:
  assumes "distinct (map xi_metric xs)"
  shows "flattenGroups (visibleGroups xs page) =
    Prelude.slice (flattenGroups (groupIndicators xs)) (nat (safe_page xs page) * LABELS_PER_PAGE)
      ((nat (safe_page xs page) + 1) * LABELS_PER_PAGE)"
  using filter_slice [OF flatten_groups_distinct [OF assms]]
  by (simp add: visibleGroups_def Let_def flatten_regroup)

text \<open>
  For metrics with distinct names the pages of the label panel, one after the other, list every indicator
  exactly once, in the order of the groups with the ungrouped ones last; a page has at most fifty, each below the
  heading of its own group, and no heading is empty.
\<close>

lemma metric_label_pages:
  assumes "distinct (map xi_metric indicators)"
  shows "concat (map (\<lambda>p. flattenGroups (visibleGroups indicators (int p))) [0..<label_pages indicators])
      = flattenGroups (groupIndicators indicators) \<and>
    set (flattenGroups (groupIndicators indicators)) = set indicators \<and>
    distinct (map xi_metric (flattenGroups (groupIndicators indicators))) \<and>
    length (flattenGroups (visibleGroups indicators page)) \<le> LABELS_PER_PAGE \<and>
    (\<forall>(g, items) \<in> set (visibleGroups indicators page). items \<noteq> [] \<and>
       (\<forall>i \<in> set items. i \<in> set indicators \<and> nullish (xi_tab_group i) ''Other'' = g))"
proof (intro conjI)
  let ?flat = "flattenGroups (groupIndicators indicators)"
  have sp: "nat (safe_page indicators (int p)) = p" if "p < label_pages indicators" for p
    using that by (auto simp: safe_page_def)
  have "concat (map (\<lambda>p. flattenGroups (visibleGroups indicators (int p))) [0..<label_pages indicators])
      = concat (map (\<lambda>p. Prelude.slice ?flat (p * LABELS_PER_PAGE) ((p + 1) * LABELS_PER_PAGE)) [0..<label_pages indicators])"
    by (rule arg_cong [where f = concat], rule map_cong [OF refl]) (simp add: visible_flat [OF assms] sp)
  also have "\<dots> = take (label_pages indicators * LABELS_PER_PAGE) ?flat" by (rule concat_slices)
  also have "\<dots> = ?flat"
  proof (rule take_all)
    have "length ?flat \<le> (length ?flat + LABELS_PER_PAGE - 1) div LABELS_PER_PAGE * LABELS_PER_PAGE"
      unfolding LABELS_PER_PAGE_def by linarith
    also have "\<dots> \<le> label_pages indicators * LABELS_PER_PAGE"
      unfolding label_pages_def by (rule mult_le_mono1) simp
    finally show "length ?flat \<le> label_pages indicators * LABELS_PER_PAGE" .
  qed
  finally show "concat (map (\<lambda>p. flattenGroups (visibleGroups indicators (int p))) [0..<label_pages indicators]) = ?flat" .
  show "set ?flat = set indicators" by (rule flatten_groups_set)
  show "distinct (map xi_metric ?flat)" by (rule flatten_groups_distinct [OF assms])
  show "length (flattenGroups (visibleGroups indicators page)) \<le> LABELS_PER_PAGE"
    by (simp add: visible_flat [OF assms] Prelude.slice_def LABELS_PER_PAGE_def)
  show "\<forall>(g, items) \<in> set (visibleGroups indicators page). items \<noteq> [] \<and>
      (\<forall>i \<in> set items. i \<in> set indicators \<and> nullish (xi_tab_group i) ''Other'' = g)"
    by (fastforce simp: visibleGroups_def regroupSlice_def Let_def dest: group_entries)
qed

definition demo_label :: "string \<Rightarrow> string option \<Rightarrow> ExplorerIndicator" where
  "demo_label m g = \<lparr>xi_metric = m, xi_display_name = m, xi_tab_group = g\<rparr>"

theorem metric_label_pages_witness:
  "set (flattenGroups (groupIndicators [demo_label ''cpu'' None, demo_label ''p95'' (Some ''web'')])) =
   {demo_label ''cpu'' None, demo_label ''p95'' (Some ''web'')}"
  using metric_label_pages [of "[demo_label ''cpu'' None, demo_label ''p95'' (Some ''web'')]" 0]
  by (simp add: demo_label_def)

text \<open>When the indicators shrink below the remembered page, the previous button changes nothing that is shown.\<close>

lemma stale_page_previous:
  "int (label_pages indicators) \<le> page \<Longrightarrow>
    visibleGroups indicators (label_previous indicators page) = visibleGroups indicators page"
proof -
  assume "int (label_pages indicators) \<le> page"
  then have "safe_page indicators (label_previous indicators page) = safe_page indicators page"
    by (auto simp: safe_page_def label_previous_def)
  then show ?thesis by (simp add: visibleGroups_def)
qed

lemma label_page_nonneg: "0 \<le> page \<Longrightarrow> 0 \<le> label_previous indicators page \<and> 0 \<le> label_next indicators page"
  by (auto simp: label_previous_def label_next_def safe_page_def label_pages_def min_def)

text \<open>The chart: all series on one sorted axis, each value at its own time and nothing elsewhere.\<close>

lemma lookup_last: "js_get (foldl (\<lambda>m (t, v). js_set t v m) [] ps) t = map_of (rev ps) t"
  by (induction ps rule: rev_induct) (auto simp: js_get_set)

text \<open>
  The chart of several series has one axis with every timestamp of any series once, in ascending order; each
  series has exactly one entry per axis position, the series' last value for that timestamp or a gap where it has
  none, so no value is moved to another time and none is lost.
\<close>

lemma multi_series_aligned:
  assumes "n < length series"
  shows "sorted (allTimestamps series) \<and> distinct (allTimestamps series) \<and>
    set (allTimestamps series) = (\<Union>s \<in> set series. fst ` set (mcs_data s)) \<and>
    mso_xAxis (MultiSeriesChart series label lo hi chartType stacked) = map fmtSlot (allTimestamps series) \<and>
    so_name (mso_series (MultiSeriesChart series label lo hi chartType stacked) ! n) = mcs_displayName (series ! n) \<and>
    so_data (mso_series (MultiSeriesChart series label lo hi chartType stacked) ! n) =
      map (map_of (rev (mcs_data (series ! n)))) (allTimestamps series) \<and>
    (distinct (map fst (mcs_data (series ! n))) \<longrightarrow> (t, v) \<in> set (mcs_data (series ! n)) \<longrightarrow>
      (\<exists>k < length (allTimestamps series). allTimestamps series ! k = t \<and>
         so_data (mso_series (MultiSeriesChart series label lo hi chartType stacked) ! n) ! k = Some v))"
proof -
  have ts: "sorted (allTimestamps series)" "distinct (allTimestamps series)"
    "set (allTimestamps series) = (\<Union>s \<in> set series. fst ` set (mcs_data s))"
    by (auto simp: allTimestamps_def)
  have opt: "mso_series (MultiSeriesChart series label lo hi chartType stacked) ! n =
      series_option chartType stacked (allTimestamps series) (series ! n)"
    using assms by (simp add: MultiSeriesChart_def Let_def)
  have data: "so_data (series_option chartType stacked (allTimestamps series) (series ! n)) =
      map (map_of (rev (mcs_data (series ! n)))) (allTimestamps series)"
    by (simp add: series_option_def series_values_def Let_def lookup_last)
  have "\<exists>k < length (allTimestamps series). allTimestamps series ! k = t \<and>
      map (map_of (rev (mcs_data (series ! n)))) (allTimestamps series) ! k = Some v"
    if d: "distinct (map fst (mcs_data (series ! n)))" and m: "(t, v) \<in> set (mcs_data (series ! n))"
  proof -
    have "t \<in> set (allTimestamps series)" using m assms by (force simp: ts(3))
    then obtain k where "k < length (allTimestamps series)" "allTimestamps series ! k = t"
      by (auto simp: in_set_conv_nth)
    moreover have "map_of (rev (mcs_data (series ! n))) t = Some v"
      using d m by (simp add: rev_map [symmetric])
    ultimately show ?thesis by auto
  qed
  then show ?thesis using ts
    by (simp add: opt data) (simp add: MultiSeriesChart_def Let_def series_option_def)
qed

definition demo_series :: "ChartSeries list" where
  "demo_series = [\<lparr>mcs_metric = ''a'', mcs_displayName = ''A'', mcs_color = ''red'', mcs_data = [(''t2'', 2)]\<rparr>,
    \<lparr>mcs_metric = ''b'', mcs_displayName = ''B'', mcs_color = ''blue'', mcs_data = [(''t1'', 1)]\<rparr>]"

theorem multi_series_aligned_witness:
  "set (allTimestamps demo_series) = {''t1'', ''t2''}"
  using multi_series_aligned [of 0 demo_series None None None LineChart False "''t2''" 2]
  by (auto simp: demo_series_def)

text \<open>The queries of the explorer.\<close>

lemma fold_set_get:
  assumes "x \<in> set xs" and "k x = key" and "\<And>y. y \<in> set xs \<Longrightarrow> k y = key \<Longrightarrow> v y = val"
  shows "js_get (foldl (\<lambda>m y. js_set (k y) (v y) m) m0 xs) key = Some val"
  using assms
proof (induction xs rule: rev_induct)
  case (snoc y ys)
  show ?case
  proof (cases "k y = key")
    case True
    then show ?thesis using snoc.prems(3) [of y] by (simp add: js_get_set)
  next
    case False
    then have "x \<in> set ys" using snoc.prems by auto
    then show ?thesis using snoc.IH snoc.prems False by (simp add: js_get_set)
  qed
qed simp

lemma composite_key_inject:
  "CHR 0x00 \<notin> set s \<Longrightarrow> CHR 0x00 \<notin> set s' \<Longrightarrow> composite_key s m = composite_key s' m' \<longleftrightarrow> s = s' \<and> m = m'"
proof -
  assume d: "CHR 0x00 \<notin> set s" "CHR 0x00 \<notin> set s'"
  have split: "takeWhile (\<lambda>c. c \<noteq> CHR 0x00) (composite_key t n) = t \<and> dropWhile (\<lambda>c. c \<noteq> CHR 0x00) (composite_key t n) = CHR 0x00 # n"
    if "CHR 0x00 \<notin> set t" for t n
    using that unfolding composite_key_def by (induction t) auto
  show ?thesis using split [OF d(1), of m] split [OF d(2), of m'] by (metis list.inject)
qed

lemma metric_pairs_mem: "(g, m) \<in> set (metric_pairs h) \<longleftrightarrow> g \<in> set (ghw_groups h) \<and> m \<in> set (hgw_metrics g)"
  by (auto simp: metric_pairs_def)

lemma explorer_key_resolves:
  assumes "g \<in> set (ghw_groups h)" and "m \<in> set (hgw_metrics g)"
    and "\<forall>g \<in> set (ghw_groups h). CHR 0x00 \<notin> set (hgw_slo_name g)"
  shows "Option.bind (explorer_metricSloMap (Some h)) (\<lambda>mp. js_get mp (explorer_key (multiSlo (Some h)) g m)) = Some (hgw_slo_name g)"
    and "nullish (Option.bind (apiMetricMap (Some h)) (\<lambda>mp. js_get mp (explorer_key (multiSlo (Some h)) g m)))
      (explorer_key (multiSlo (Some h)) g m) = hm_name m"
proof -
  let ?k = "\<lambda>x. explorer_key (multiSlo (Some h)) (fst x) (snd x)"
  have mem: "(g, m) \<in> set (metric_pairs h)" using assms(1,2) by (simp add: metric_pairs_mem)
  have single: "ghw_groups h = [g]" if "\<not> multiSlo (Some h)"
    using that assms(1) by (cases "ghw_groups h" rule: list.exhaust) (auto simp: multiSlo_def)
  have slo: "hgw_slo_name (fst y) = hgw_slo_name g"
    if "y \<in> set (metric_pairs h)" "?k y = explorer_key (multiSlo (Some h)) g m" for y
  proof (cases "multiSlo (Some h)")
    case True
    obtain g' m' where y: "y = (g', m')" by (cases y)
    then have "g' \<in> set (ghw_groups h)" using that(1) by (simp add: metric_pairs_mem)
    then show ?thesis using that(2) True y assms by (simp add: explorer_key_def composite_key_inject)
  next
    case False
    then show ?thesis using that(1) single by (cases y) (simp add: metric_pairs_mem)
  qed
  let ?m = "foldl (\<lambda>m x. js_set (?k x) (hgw_slo_name (fst x)) m) [] (metric_pairs h)"
  have get: "js_get ?m (explorer_key (multiSlo (Some h)) g m) = Some (hgw_slo_name g)"
    by (rule fold_set_get [OF mem]) (simp_all add: slo)
  then have "?m \<noteq> []" by (metis js_get_Nil option.distinct(1))
  then have "explorer_metricSloMap (Some h) = Some ?m"
    by (simp add: explorer_metricSloMap_def Let_def case_prod_unfold)
  then show "Option.bind (explorer_metricSloMap (Some h)) (\<lambda>mp. js_get mp (explorer_key (multiSlo (Some h)) g m)) = Some (hgw_slo_name g)"
    by (simp add: get)
  show "nullish (Option.bind (apiMetricMap (Some h)) (\<lambda>mp. js_get mp (explorer_key (multiSlo (Some h)) g m)))
      (explorer_key (multiSlo (Some h)) g m) = hm_name m"
  proof (cases "multiSlo (Some h)")
    case True
    let ?a = "foldl (\<lambda>m x. js_set (composite_key (hgw_slo_name (fst x)) (hm_name (snd x))) (hm_name (snd x)) m) [] (metric_pairs h)"
    have name: "hm_name (snd y) = hm_name m"
      if "y \<in> set (metric_pairs h)" "composite_key (hgw_slo_name (fst y)) (hm_name (snd y)) = composite_key (hgw_slo_name g) (hm_name m)" for y
    proof -
      obtain g' m' where y: "y = (g', m')" by (cases y)
      then have "g' \<in> set (ghw_groups h)" using that(1) by (simp add: metric_pairs_mem)
      then show ?thesis using that(2) y assms by (simp add: composite_key_inject)
    qed
    have "js_get ?a (composite_key (hgw_slo_name g) (hm_name m)) = Some (hm_name m)"
      by (rule fold_set_get [OF mem], simp, rule name)
    then show ?thesis using True by (simp add: apiMetricMap_def explorer_key_def case_prod_unfold)
  qed (simp add: apiMetricMap_def explorer_key_def)
qed

text \<open>
  C28. For an asset the explorer asks, for every metric of its heatmap, the very query of the navigator's charts
  for the SLO and name of that metric, with one SLO or several, provided no SLO name contains the NUL character that
  joins the two; every metric but the score row has a label. For a group no query is ever enabled, whatever the
  labels chosen, so its charts stay empty.
\<close>

theorem explorer_queries_correct:
  assumes "g \<in> set (ghw_groups h)" and "m \<in> set (hgw_metrics g)"
    and "\<forall>g \<in> set (ghw_groups h). CHR 0x00 \<notin> set (hgw_slo_name g)"
    and "asset \<noteq> []" and "hgw_slo_name g \<noteq> []" and "hm_name m \<noteq> []"
  shows "enabled_trend_query tz net from to (Some asset) (explorer_metricSloMap (Some h)) (apiMetricMap (Some h))
      (explorer_key (multiSlo (Some h)) g m) = useTrend tz net from to asset (hgw_slo_name g) (hm_name m) \<and>
    (hm_name m \<noteq> ''__score__'' \<longrightarrow>
      explorer_key (multiSlo (Some h)) g m \<in> xi_metric ` set (explorer_indicators (Some h) d)) \<and>
    (\<forall>q \<in> set (useEnabledTrends tz net from to None ks sloMap apiMap). \<not> qu_enabled q)"
proof (intro conjI impI)
  note r = explorer_key_resolves [OF assms(1-3)]
  show "enabled_trend_query tz net from to (Some asset) (explorer_metricSloMap (Some h)) (apiMetricMap (Some h))
      (explorer_key (multiSlo (Some h)) g m) = useTrend tz net from to asset (hgw_slo_name g) (hm_name m)"
    using assms(4-6) by (simp add: enabled_trend_query_def useTrend_def r Let_def)
  show "explorer_key (multiSlo (Some h)) g m \<in> xi_metric ` set (explorer_indicators (Some h) d)"
    if "hm_name m \<noteq> ''__score__''"
    using that assms(1,2)
    by (force simp: explorer_indicators_def heatmap_indicators_def Let_def)
  show "\<forall>q \<in> set (useEnabledTrends tz net from to None ks sloMap apiMap). \<not> qu_enabled q"
    by (auto simp: useEnabledTrends_def enabled_trend_query_def query_if_def Let_def)
qed

definition demo_slo_group :: "string \<Rightarrow> string list \<Rightarrow> HeatmapSloGroupWire" where
  "demo_slo_group slo ms = \<lparr>hgw_slo_name = slo, hgw_slo_display_name = None,
    hgw_metrics = map (\<lambda>m. \<lparr>hm_name = m, hm_displayName = m\<rparr>) ms, hgw_cells = [], hgw_summary = []\<rparr>"

definition demo_explorer_heatmap :: GroupedHeatmapWire where
  "demo_explorer_heatmap = \<lparr>ghw_asset_name = ''web'', ghw_columns = [],
    ghw_groups = [demo_slo_group ''cpu-slo'' [''cpu''], demo_slo_group ''web-slo'' [''cpu'', ''p95'']], ghw_composite = []\<rparr>"

theorem explorer_queries_correct_witness:
  "qu_key (enabled_trend_query 0 (\<lambda>_. Rejected) ''f'' None (Some ''web'') (explorer_metricSloMap (Some demo_explorer_heatmap))
     (apiMetricMap (Some demo_explorer_heatmap)) (composite_key ''web-slo'' ''cpu'')) =
   [JStr ''trend'', JStr ''web'', JStr ''web-slo'', JStr ''cpu'', range_json ''f'' None]"
  using explorer_queries_correct [of "demo_slo_group ''web-slo'' [''cpu'', ''p95'']" demo_explorer_heatmap
      "\<lparr>hm_name = ''cpu'', hm_displayName = ''cpu''\<rparr>" "''web''" 0 "\<lambda>_. Rejected" "''f''"]
  by (simp add: demo_explorer_heatmap_def demo_slo_group_def multiSlo_def explorer_key_def useTrend_def query_if_def
      evaluationKeys_trend_def)

text \<open>What the buttons of a section do to its enabled metrics.\<close>

definition section_run :: "ExplorerIndicator list \<Rightarrow> SectionEvent list \<Rightarrow> ChartSection" where
  "section_run indicators es = fold (section_step indicators) es section_mount"

lemma section_step_distinct: "distinct (csn_enabled s) \<Longrightarrow> distinct (csn_enabled (section_step indicators e s))"
  by (cases e) (auto simp: toggle_enabled_def enable_group_def disable_group_def distinct_removeAll)

lemma section_run_distinct: "distinct (csn_enabled (section_run indicators es))"
  unfolding section_run_def
  by (rule fold_invariant [where Q = "\<lambda>_. True" and P = "\<lambda>s. distinct (csn_enabled s)"])
    (simp_all add: section_mount_def section_step_distinct)

lemma section_buttons:
  "set (csn_enabled (section_step indicators (GroupAll g) s)) = set (csn_enabled s) \<union> set (group_metrics indicators g)"
  "set (csn_enabled (section_step indicators (GroupNone g) s)) = set (csn_enabled s) - set (group_metrics indicators g)"
  "m \<in> set (csn_enabled (section_step indicators (ToggleMetric m) s)) \<longleftrightarrow> m \<notin> set (csn_enabled s)"
  "m' \<noteq> m \<Longrightarrow> m' \<in> set (csn_enabled (section_step indicators (ToggleMetric m) s)) \<longleftrightarrow> m' \<in> set (csn_enabled s)"
  by (auto simp: enable_group_def disable_group_def toggle_enabled_def)

end
