(* ===== verification/DetailViews.thy ===== *)
theory DetailViews
  imports ExplorerPages AssetPanel ReEvalForm
begin

text \<open>
  The evaluation page (\<open>pages/EvaluationDetailPage.tsx\<close>) with its one-SLO scope, summary card, indicator tabs and
  breakdown table (\<open>SLIBreakdownTable.tsx\<close>), the table of evaluations (\<open>EvaluationTable.tsx\<close>), and the time range
  picker (\<open>components/TimeRangePicker.tsx\<close>) as a state machine over the provider of \<open>TimeRange\<close>.
\<close>

subsection \<open>The breakdown table: groups\<close>

definition signed_pct :: "rat option \<Rightarrow> string" where
  "signed_pct v = (case v of None \<Rightarrow> em_dash
    | Some x \<Rightarrow> (if 0 \<le> x then ''+'' else []) @ toFixed 2 x @ ''%'')"

definition LOW_CONFIDENCE_THRESHOLD :: rat where
  "LOW_CONFIDENCE_THRESHOLD = 20"

definition hasCoverageGap :: "SliMetadata \<Rightarrow> bool" where
  "hasCoverageGap meta = (if 0 < sm_chunksFailed meta then True
    else if sm_expectedSamples meta \<le> 0 then False
    else sm_actualSamples meta < sm_expectedSamples meta)"

record SliGroup =
  sg_prefix :: string
  sg_indicators :: "Indicator list"
  sg_metadata :: "SliMetadata option"

datatype breakdown_item = OneIndicator Indicator | GroupOf SliGroup

text \<open>\<open>m.substring(0, m.lastIndexOf('.'))\<close> when the dot is neither absent nor first.\<close>

definition lastIndexOf :: "char \<Rightarrow> string \<Rightarrow> nat option" where
  "lastIndexOf c s = (if c \<in> set s then Some (length s - 1 - length (takeWhile (\<lambda>x. x \<noteq> c) (rev s))) else None)"

definition metric_prefix :: "string \<Rightarrow> string option" where
  "metric_prefix m = (case lastIndexOf (CHR ''.'') m of None \<Rightarrow> None
    | Some i \<Rightarrow> if 0 < i then Some (take i m) else None)"

definition group_prefix :: "(string, SliMetadata) jsmap \<Rightarrow> string \<Rightarrow> string option" where
  "group_prefix sliMetadata m = (case metric_prefix m of None \<Rightarrow> None
    | Some p \<Rightarrow> if js_get sliMetadata p \<noteq> None then Some p else None)"

definition prefixMap :: "(string, SliMetadata) jsmap \<Rightarrow> Indicator list \<Rightarrow> (string, Indicator list) jsmap" where
  "prefixMap sliMetadata indicators = group_by (\<lambda>i. the (group_prefix sliMetadata (in_metric i))) (\<lambda>i. i)
    (filter (\<lambda>i. group_prefix sliMetadata (in_metric i) \<noteq> None) indicators)"

fun emit_items ::
    "(string, SliMetadata) jsmap \<Rightarrow> (string, Indicator list) jsmap \<Rightarrow> string list \<Rightarrow> Indicator list \<Rightarrow> breakdown_item list" where
  "emit_items sliMetadata pm emitted [] = []"
| "emit_items sliMetadata pm emitted (ind # inds) =
    (case group_prefix sliMetadata (in_metric ind) of
       None \<Rightarrow> OneIndicator ind # emit_items sliMetadata pm emitted inds
     | Some p \<Rightarrow> if p \<in> set emitted then emit_items sliMetadata pm emitted inds
         else GroupOf \<lparr>sg_prefix = p, sg_indicators = nullish (js_get pm p) [], sg_metadata = js_get sliMetadata p\<rparr>
           # emit_items sliMetadata pm (p # emitted) inds)"

definition breakdown_items :: "Indicator list \<Rightarrow> (string, SliMetadata) jsmap option \<Rightarrow> breakdown_item list" where
  "breakdown_items indicators sliMetadata = (case sliMetadata of
     None \<Rightarrow> map OneIndicator indicators
   | Some meta \<Rightarrow> if meta = [] then map OneIndicator indicators
       else emit_items meta (prefixMap meta indicators) [] indicators)"

subsection \<open>The breakdown table: rows\<close>

definition STATUS_TEXT :: "string \<Rightarrow> string option" where
  "STATUS_TEXT s = map_of [(''pass'', ''text-pass''), (''warning'', ''text-warning''), (''fail'', ''text-fail''),
     (''error'', ''text-status-error''), (''info'', ''text-muted-foreground''), (''invalidated'', ''text-invalidated'')] s"

record IndicatorCells =
  icr_id :: "string option"
  icr_zebra :: bool
  icr_selected :: bool
  icr_key :: bool
  icr_label :: string
  icr_indented :: bool
  icr_changeTitle :: "string option"
  icr_value :: string
  icr_baseline :: string
  icr_changeAbs :: string
  icr_changePct :: string
  icr_changeColor :: string
  icr_weight :: rat
  icr_score :: string
  icr_status :: string
  icr_passCriteria :: "(string \<times> bool) list"
  icr_warnCriteria :: "string list"

definition indicator_cells :: "Indicator \<Rightarrow> nat \<Rightarrow> bool \<Rightarrow> string option \<Rightarrow> bool \<Rightarrow> string option \<Rightarrow> IndicatorCells" where
  "indicator_cells ind idx sel displayName indented rowId =
    \<lparr>icr_id = rowId, icr_zebra = (idx mod 2 = 0), icr_selected = sel, icr_key = in_keySli ind,
     icr_label = nullish displayName (if in_displayName ind \<noteq> [] then in_displayName ind else in_metric ind),
     icr_indented = indented,
     icr_changeTitle = map_option (\<lambda>cp. ''Change point: '' @ cpm_direction cp @ '' (''
       @ formatChangePointPct (cpm_changeRelativePct cp) (cpm_transition cp) (cpm_changeAbsolute cp) @ '')'')
       (in_changePoint ind),
     icr_value = fmt (in_value ind), icr_baseline = fmt (in_comparedValue ind),
     icr_changeAbs = (if in_changeAbsolute ind \<noteq> None then fmtSignedAbs (in_changeAbsolute ind) else em_dash),
     icr_changePct = (if in_changeRelativePct ind \<noteq> None then signed_pct (in_changeRelativePct ind) else em_dash),
     icr_changeColor = nullish (STATUS_TEXT (in_status ind)) ''text-foreground'',
     icr_weight = in_weight ind, icr_score = fmt (Some (in_score ind)), icr_status = in_status ind,
     icr_passCriteria = map (\<lambda>t. (pt_criteria t, pt_violated t)) (in_passTargets ind),
     icr_warnCriteria = map pt_criteria (in_warningTargets ind)\<rparr>"

definition row_id :: "string option \<Rightarrow> string \<Rightarrow> string option" where
  "row_id rowIdPrefix metric = (if truthy rowIdPrefix then Some (the rowIdPrefix @ metric) else None)"

record GroupHeader =
  ghd_prefix :: string
  ghd_collapsed :: bool
  ghd_samples :: "string option"
  ghd_lowConfidence :: bool

definition samples_label :: "SliMetadata \<Rightarrow> string" where
  "samples_label meta = show_int (sm_actualSamples meta) @ ''/'' @ show_int (sm_expectedSamples meta)
    @ '' samples ('' @ toFixed 1 (sm_missingPct meta) @ ''% missing)''"

definition group_header :: "SliGroup \<Rightarrow> bool \<Rightarrow> GroupHeader" where
  "group_header g collapsed = \<lparr>ghd_prefix = sg_prefix g, ghd_collapsed = collapsed,
     ghd_samples = (case sg_metadata g of None \<Rightarrow> None
       | Some meta \<Rightarrow> if hasCoverageGap meta then Some (samples_label meta) else None),
     ghd_lowConfidence = (case sg_metadata g of None \<Rightarrow> False
       | Some meta \<Rightarrow> LOW_CONFIDENCE_THRESHOLD < sm_missingPct meta)\<rparr>"

datatype table_row = HeaderRow GroupHeader | DataRow string IndicatorCells

record BreakdownState =
  bs_selectedMetric :: "string option"
  bs_collapsed :: "string list"

definition breakdown_mount :: BreakdownState where
  "breakdown_mount = \<lparr>bs_selectedMetric = None, bs_collapsed = []\<rparr>"

definition handleRowClick :: "string \<Rightarrow> BreakdownState \<Rightarrow> BreakdownState" where
  "handleRowClick metric s = s\<lparr>bs_selectedMetric := (if bs_selectedMetric s = Some metric then None else Some metric)\<rparr>"

definition toggleGroup :: "string \<Rightarrow> BreakdownState \<Rightarrow> BreakdownState" where
  "toggleGroup prefix s = s\<lparr>bs_collapsed :=
    (if prefix \<in> set (bs_collapsed s) then removeAll prefix (bs_collapsed s) else bs_collapsed s @ [prefix])\<rparr>"

definition group_rows :: "BreakdownState \<Rightarrow> string option \<Rightarrow> nat \<Rightarrow> SliGroup \<Rightarrow> table_row list" where
  "group_rows s rowIdPrefix startIdx g = (let collapsed = sg_prefix g \<in> set (bs_collapsed s) in
    HeaderRow (group_header g collapsed) #
    (if collapsed then [] else map (\<lambda>(i, ind). DataRow (in_metric ind)
       (indicator_cells ind (startIdx + 1 + i) (bs_selectedMetric s = Some (in_metric ind))
         (Some (drop (length (sg_prefix g) + 1) (in_metric ind))) True (row_id rowIdPrefix (in_metric ind))))
       (List.enumerate 0 (sg_indicators g))))"

definition item_rows :: "BreakdownState \<Rightarrow> string option \<Rightarrow> nat \<times> breakdown_item \<Rightarrow> table_row list" where
  "item_rows s rowIdPrefix it = (case snd it of
     GroupOf g \<Rightarrow> group_rows s rowIdPrefix (fst it) g
   | OneIndicator ind \<Rightarrow> [DataRow (in_metric ind)
       (indicator_cells ind (fst it) (bs_selectedMetric s = Some (in_metric ind)) None False
         (row_id rowIdPrefix (in_metric ind)))])"

definition SLIBreakdownTable ::
    "BreakdownState \<Rightarrow> Indicator list \<Rightarrow> (string, SliMetadata) jsmap option \<Rightarrow> string option \<Rightarrow> table_row list" where
  "SLIBreakdownTable s indicators sliMetadata rowIdPrefix =
    concat (map (item_rows s rowIdPrefix) (List.enumerate 0 (breakdown_items indicators sliMetadata)))"

definition row_metrics :: "table_row list \<Rightarrow> string list" where
  "row_metrics rows = List.map_filter (\<lambda>r. case r of DataRow m _ \<Rightarrow> Some m | HeaderRow _ \<Rightarrow> None) rows"

subsection \<open>The indicator section of the page\<close>

definition indicator_click :: "Indicator \<Rightarrow> Indicator list \<Rightarrow> string \<Rightarrow> string" where
  "indicator_click ind indicators activeTab = (if resolvedTab (Some indicators) activeTab \<noteq> ''all''
     then nullish (in_tabGroup ind) ''summary'' else activeTab)"

definition indicator_trends where
  "indicator_trends tz net from to ev activeTab = map (\<lambda>ind.
     useTrend tz net from to (as_name (ev_assetSnapshot ev)) (nullish (ev_sloName ev) []) (in_metric ind))
     (tabIndicators (Some (ed_indicators ev)) activeTab)"

subsection \<open>The table of evaluations\<close>

definition STATIC_KEYS :: "string list" where
  "STATIC_KEYS = [''test'', ''asset'', ''start'', ''score'', ''result'', ''slo'', ''annotations'']"

datatype cell_content =
    LinkTo string string | CallEval string | AssetCell string "string option" bool | TextCell string | ResultCell string
  | NotesCell "string option" "string option"

record EvalTableProps =
  etp_onAssetSelect :: bool
  etp_onEvalClick :: bool
  etp_assetNames :: "(string, string) jsmap option"
  etp_sloNames :: "(string, string) jsmap option"

text \<open>A count of zero is rendered as the text 0 by \<open>count && ...\<close>.\<close>

definition AnnotationCell :: "Annotation option \<Rightarrow> int \<Rightarrow> cell_content" where
  "AnnotationCell annotation n = (case annotation of None \<Rightarrow> NotesCell None None
    | Some a \<Rightarrow> NotesCell (Some (an_content a))
        (if n = 0 then Some ''0'' else if 1 < n then Some (''+'' @ show_int (n - 1) @ '' more'') else None))"

definition asset_label :: "EvalTableProps \<Rightarrow> Evaluation \<Rightarrow> string" where
  "asset_label ps ev = nullish (as_displayName (ev_assetSnapshot ev))
    (nullish (Option.bind (etp_assetNames ps) (\<lambda>m. js_get m (as_name (ev_assetSnapshot ev)))) (as_name (ev_assetSnapshot ev)))"

definition slo_cell_label :: "EvalTableProps \<Rightarrow> Evaluation \<Rightarrow> string option" where
  "slo_cell_label ps ev = (case ev_sloName ev of None \<Rightarrow> None
    | Some n \<Rightarrow> if n = [] then Some [] else Some (nullish (Option.bind (etp_sloNames ps) (\<lambda>m. js_get m n)) n))"

definition eval_cell :: "EvalTableProps \<Rightarrow> Evaluation \<Rightarrow> string \<Rightarrow> cell_content option" where
  "eval_cell ps ev k =
    (if k = ''test'' then Some (if etp_onEvalClick ps then CallEval (ev_evaluationName ev)
       else LinkTo (''/evaluations/'' @ ev_id ev) (ev_evaluationName ev))
     else if k = ''asset'' then Some (AssetCell (asset_label ps ev)
       (if asset_label ps ev \<noteq> as_name (ev_assetSnapshot ev) then Some (as_name (ev_assetSnapshot ev)) else None)
       (etp_onAssetSelect ps))
     else if k = ''start'' then Some (TextCell (fmtDateTime (dr_from (ev_period ev))))
     else if k = ''score'' then Some (TextCell (case ev_score ev of None \<Rightarrow> em_dash | Some x \<Rightarrow> toFixed 1 x @ ''%''))
     else if k = ''result'' then Some (ResultCell (outcome_str (ev_outcome ev)))
     else if k = ''slo'' then Some (TextCell (if truthy (slo_cell_label ps ev)
       then the (slo_cell_label ps ev) @ (case ev_sloVersion ev of None \<Rightarrow> [] | Some v \<Rightarrow> '' v'' @ show_int v) else em_dash))
     else if k = ''annotations'' then Some (AnnotationCell (ev_latestAnnotation ev) (ev_annotationCount ev))
     else None)"

definition dynamic_cell :: "Evaluation \<Rightarrow> string \<Rightarrow> string" where
  "dynamic_cell ev k = nullish (js_get (as_tags (ev_assetSnapshot ev)) k) (nullish (js_get (ev_variables ev) k) em_dash)"

definition table_cell :: "EvalTableProps \<Rightarrow> Evaluation \<Rightarrow> string \<Rightarrow> cell_content option" where
  "table_cell ps ev k = (if k \<in> set STATIC_KEYS then eval_cell ps ev k else Some (TextCell (dynamic_cell ev k)))"

definition visibleCols :: "ColumnDef list \<Rightarrow> string list \<Rightarrow> ColumnDef list" where
  "visibleCols cols visibleKeys = filter (\<lambda>c. cd_key c \<in> set visibleKeys) cols"

definition EvaluationTable ::
    "EvalTableProps \<Rightarrow> Evaluation list \<Rightarrow> string list \<Rightarrow> ColumnDef list \<Rightarrow> string list \<times> cell_content option list list" where
  "EvaluationTable ps evaluations visibleKeys cols =
    (map cd_label (visibleCols cols visibleKeys),
     map (\<lambda>ev. map (\<lambda>c. table_cell ps ev (cd_key c)) (visibleCols cols visibleKeys)) evaluations)"


subsection \<open>The summary card\<close>

record SummaryCard =
  scd_title :: string
  scd_result :: Outcome
  scd_note :: "nat option"
  scd_asset :: string
  scd_tags :: "(string \<times> string) list"
  scd_period :: string
  scd_slo :: string
  scd_invalidation :: "string option"
  scd_overridden :: "string option"
  scd_pin :: "(string \<times> string option) option"
  scd_reevaluated :: "string option"

definition iso_minutes :: "string \<Rightarrow> string" where
  "iso_minutes s = replace_T (Prelude.slice s 0 16)"

definition period_label :: "DateRange \<Rightarrow> string" where
  "period_label r = iso_minutes (dr_from r) @ '' to '' @ Prelude.slice (dr_to r) 11 16"

definition slo_line :: "EvaluationDetail \<Rightarrow> string option \<Rightarrow> string" where
  "slo_line ev sloDisplayName = ''SLO: '' @ nullish sloDisplayName (nullish (ev_sloName ev) em_dash)
    @ (case ev_sloVersion ev of None \<Rightarrow> [] | Some v \<Rightarrow> '' v'' @ show_int v)
    @ '' - mode: '' @ ev_ingestionMode ev
    @ (if truthy (ev_adapterUsed ev) then '' - adapter: '' @ the (ev_adapterUsed ev) else [])
    @ (if truthy (as_buildRef (ev_assetSnapshot ev)) then '' - build: '' @ the (as_buildRef (ev_assetSnapshot ev)) else [])"

definition override_banner :: "EvaluationDetail \<Rightarrow> string option" where
  "override_banner ev = (case ev_originalOutcome ev of None \<Rightarrow> None
    | Some o' \<Rightarrow> if truthy (ev_overrideAuthor ev)
        then Some (outcome_str o' @ '' to '' @ outcome_str (ev_outcome ev) @ '' by '' @ the (ev_overrideAuthor ev)
          @ (if truthy (ev_overrideReason ev) then '' - '' @ the (ev_overrideReason ev) else []))
        else None)"

definition reevaluated_banner :: "EvaluationDetail \<Rightarrow> string option" where
  "reevaluated_banner ev = (case ev_originalOutcome ev of None \<Rightarrow> None
    | Some o' \<Rightarrow> if truthy (ev_overrideAuthor ev) then None
        else Some (outcome_str o' @ '' to '' @ outcome_str (ev_outcome ev)
          @ (case ev_originalScore ev of None \<Rightarrow> [] | Some x \<Rightarrow> '' ('' @ toFixed 1 x @ '' to ''
              @ (case ev_score ev of None \<Rightarrow> em_dash | Some y \<Rightarrow> toFixed 1 y) @ '')'')))"

text \<open>The line of the pin and the day it was removed; \<open>None\<close> at the outside: a date is invalid and rendering throws.\<close>

definition pin_banner :: "BaselinePin option \<Rightarrow> (string \<times> string option) option option" where
  "pin_banner pin = (case pin of None \<Rightarrow> Some None
    | Some b \<Rightarrow> (case toISOString (bp_pinnedAt b) of None \<Rightarrow> None
       | Some t \<Rightarrow> (case bp_unpinnedAt b of
           None \<Rightarrow> Some (Some (bp_author b @ '' at '' @ iso_minutes t @ (if bp_reason b = [] then [] else '' - '' @ bp_reason b), None))
         | Some u \<Rightarrow> (case toISOString u of None \<Rightarrow> None
             | Some d \<Rightarrow> Some (Some (bp_author b @ '' at '' @ iso_minutes t
                 @ (if bp_reason b = [] then [] else '' - '' @ bp_reason b), Some (Prelude.slice d 0 10)))))))"

definition EvaluationSummaryCard ::
    "EvaluationDetail \<Rightarrow> bool \<Rightarrow> string option \<Rightarrow> string option \<Rightarrow> SummaryCard option" where
  "EvaluationSummaryCard ev hasAddNote assetDisplayName sloDisplayName = map_option (\<lambda>pin.
    \<lparr>scd_title = ev_evaluationName ev, scd_result = ev_outcome ev,
     scd_note = (if hasAddNote \<and> \<not> ev_invalidated ev then Some (length (ed_annotations ev)) else None),
     scd_asset = nullish (as_displayName (ev_assetSnapshot ev)) (nullish assetDisplayName (as_name (ev_assetSnapshot ev))),
     scd_tags = Object_entries (as_tags (ev_assetSnapshot ev)),
     scd_period = period_label (ev_period ev), scd_slo = slo_line ev sloDisplayName,
     scd_invalidation = (if ev_invalidated ev \<and> truthy (ed_invalidationNote ev) then ed_invalidationNote ev else None),
     scd_overridden = override_banner ev, scd_pin = pin, scd_reevaluated = reevaluated_banner ev\<rparr>)
    (pin_banner (ev_baselinePin ev))"

subsection \<open>The evaluation page\<close>

definition evaluationOutcomeToHeatmapResult :: "EvaluationDetail \<Rightarrow> HeatmapResult" where
  "evaluationOutcomeToHeatmapResult ev = (if ev_invalidated ev then ResInvalidated else case ev_outcome ev of
     Pass \<Rightarrow> ResPass | Warning \<Rightarrow> ResWarning | Fail \<Rightarrow> ResFail | Error \<Rightarrow> ResError | Invalidated \<Rightarrow> ResError)"

text \<open>The column has no \<open>hasNotes\<close>, read as false.\<close>

definition buildSingleSloScopeHeatmap :: "EvaluationDetail \<Rightarrow> GroupedMetricHeatmap" where
  "buildSingleSloScopeHeatmap ev = (let res = evaluationOutcomeToHeatmapResult ev in
    \<lparr>gm_assetName = as_name (ev_assetSnapshot ev),
     gm_columns = [\<lparr>ec_evaluationId = ev_evaluationId ev, ec_periodStart = dr_from (ev_period ev),
       ec_periodEnd = dr_to (ev_period ev), ec_evalName = ev_evaluationName ev, ec_hasNotes = False\<rparr>],
     gm_groups = [\<lparr>hg_sloName = nullish (ev_sloName ev) [], hg_sloDisplayName = None, hg_metrics = [],
       hg_cells = [\<lparr>hi_evaluationId = ev_evaluationId ev, hi_sloEvaluationId = ev_id ev,
         hi_periodStart = dr_from (ev_period ev), hi_metric = [], hi_displayName = [], hi_result = res,
         hi_score = nullish (ev_score ev) 0, hi_value = None, hi_comparedValue = None, hi_changeRelativePct = None,
         hi_weight = 1, hi_keySli = False, hi_passTargets = None, hi_warningTargets = None, hi_tabGroup = None,
         hi_aggregation = None, hi_changePoint = None\<rparr>],
       hg_summary = [\<lparr>hs_evaluationId = ev_evaluationId ev, hs_periodStart = dr_from (ev_period ev), hs_result = res,
         hs_score = nullish (ev_score ev) 0, hs_totalScorePassThreshold = None, hs_totalScoreWarningThreshold = None,
         hs_sliMetadata = None, hs_invalidationNote = ed_invalidationNote ev\<rparr>]\<rparr>],
     gm_composite = []\<rparr>)"

definition syntheticHeatmap :: "EvaluationDetail option \<Rightarrow> GroupedMetricHeatmap option" where
  "syntheticHeatmap ev = (case ev of None \<Rightarrow> None
    | Some e \<Rightarrow> if truthy (ev_sloName e) then Some (buildSingleSloScopeHeatmap e) else None)"

definition detail_scope_args :: "EvaluationDetail option \<Rightarrow> UseSloScopeArgs" where
  "detail_scope_args ev = \<lparr>sa_heatmapData = syntheticHeatmap ev, sa_columnEvalId = map_option ev_evaluationId ev,
     sa_initialMode = (case ev of None \<Rightarrow> ModeAll
       | Some e \<Rightarrow> if truthy (ev_sloName e) then SingleSlo (the (ev_sloName e)) else ModeAll),
     sa_filter = FilterAll\<rparr>"

definition detail_menu :: "EvaluationDetail \<Rightarrow> MenuAvailability" where
  "detail_menu ev = \<lparr>mn_allRowsInvalidated = ev_invalidated ev, mn_noRowsInvalidated = (\<not> ev_invalidated ev)\<rparr>"

definition assetDisplayName :: "Asset list option \<Rightarrow> EvaluationDetail option \<Rightarrow> string option" where
  "assetDisplayName assets ev = (case ev of None \<Rightarrow> None
    | Some e \<Rightarrow> if truthy (as_displayName (ev_assetSnapshot e)) then None
      else Option.bind (Option.bind assets (find (\<lambda>a. at_name a = as_name (ev_assetSnapshot e)))) at_displayName)"

definition sloDisplayName :: "Slo list option \<Rightarrow> EvaluationDetail option \<Rightarrow> string option" where
  "sloDisplayName slos ev = (case Option.bind ev ev_sloName of None \<Rightarrow> None
    | Some n \<Rightarrow> if n = [] then None
      else Option.bind (Option.bind slos (find (\<lambda>s. slo_name s = n))) slo_displayName)"

definition detail_backHref :: "search_params \<Rightarrow> string" where
  "detail_backHref ps = backHref (sp_get ps ''asset_name'') (sp_get ps ''group_name'')"

definition detail_fromDate :: "EvaluationDetail \<Rightarrow> string" where
  "detail_fromDate ev = Prelude.slice (dr_from (ev_period ev)) 0 16"

subsection \<open>The time range picker\<close>

datatype DateField = EditFrom | EditTo

record TimePicker =
  tpk_open :: bool
  tpk_editing :: "DateField option"
  tpk_fromDate :: "jsdate option"
  tpk_toDate :: "jsdate option"

definition presetFromDate :: "int \<Rightarrow> int \<Rightarrow> int \<Rightarrow> jsdate" where
  "presetFromDate tz now days = time_clip (local_midnight tz (local_day tz now - days))"

definition daysBetween :: "jsdate \<Rightarrow> jsdate \<Rightarrow> int option" where
  "daysBetween a b = (case (a, b) of
     (Some x, Some y) \<Rightarrow> Some (js_round (of_int \<bar>y - x\<bar> / of_int (1000 * 60 * 60 * 24))) | _ \<Rightarrow> None)"

text \<open>\<open>a > b\<close> on dates; an invalid date compares as NaN.\<close>

definition date_after :: "jsdate \<Rightarrow> jsdate \<Rightarrow> bool" where
  "date_after a b = (case (a, b) of (Some x, Some y) \<Rightarrow> y < x | _ \<Rightarrow> False)"

definition time_picker_mount :: "int \<Rightarrow> string \<Rightarrow> string option \<Rightarrow> TimePicker" where
  "time_picker_mount tz from to = \<lparr>tpk_open = False, tpk_editing = None, tpk_fromDate = Some (isoToCalendarDate tz from),
     tpk_toDate = (if truthy to then Some (isoToCalendarDate tz (the to)) else None)\<rparr>"

definition rangeInvalid :: "TimePicker \<Rightarrow> bool" where
  "rangeInvalid p = (case (tpk_fromDate p, tpk_toDate p) of (Some f, Some t) \<Rightarrow> date_after f t | _ \<Rightarrow> False)"

definition activeDays :: "int \<Rightarrow> StoredRange \<Rightarrow> TimePicker \<Rightarrow> int option" where
  "activeDays now r p = (if sr_mode r = Preset then Some (tp_days (ctx_preset r))
    else case tpk_fromDate p of None \<Rightarrow> Some 0 | Some f \<Rightarrow> daysBetween f (nullish (tpk_toDate p) (Some now)))"

definition exceeds :: "int option \<Rightarrow> int \<Rightarrow> bool" where
  "exceeds days slowThreshold = (case days of None \<Rightarrow> False | Some n \<Rightarrow> slowThreshold < n)"

definition showSlowWarning :: "int \<Rightarrow> int \<Rightarrow> StoredRange \<Rightarrow> TimePicker \<Rightarrow> bool" where
  "showSlowWarning slowThreshold now r p = exceeds (activeDays now r p) slowThreshold"

definition wideRangeHint :: "int \<Rightarrow> int \<Rightarrow> TimePicker \<Rightarrow> bool" where
  "wideRangeHint slowThreshold now p = (case tpk_fromDate p of None \<Rightarrow> False
    | Some f \<Rightarrow> exceeds (daysBetween f (nullish (tpk_toDate p) (Some now))) slowThreshold)"

definition handleFromSelect :: "jsdate option \<Rightarrow> TimePicker \<Rightarrow> TimePicker" where
  "handleFromSelect day p = (case day of None \<Rightarrow> p
    | Some d \<Rightarrow> p\<lparr>tpk_fromDate := Some d,
        tpk_toDate := (case tpk_toDate p of None \<Rightarrow> None | Some t \<Rightarrow> if date_after d t then Some d else Some t),
        tpk_editing := None\<rparr>)"

definition handleToSelect :: "jsdate option \<Rightarrow> TimePicker \<Rightarrow> TimePicker" where
  "handleToSelect day p = (case day of None \<Rightarrow> p
    | Some d \<Rightarrow> p\<lparr>tpk_toDate := Some d,
        tpk_fromDate := (case tpk_fromDate p of None \<Rightarrow> None | Some f \<Rightarrow> if date_after f d then Some d else Some f),
        tpk_editing := None\<rparr>)"

definition picker_editing :: "DateField \<Rightarrow> TimePicker \<Rightarrow> TimePicker" where
  "picker_editing f p = p\<lparr>tpk_editing := (if tpk_editing p = Some f then None else Some f)\<rparr>"

definition picker_openChange :: "bool \<Rightarrow> TimePicker \<Rightarrow> TimePicker" where
  "picker_openChange b p = (if b then p\<lparr>tpk_open := True\<rparr> else p\<lparr>tpk_open := False, tpk_editing := None\<rparr>)"

text \<open>\<open>None\<close> in the handlers that change the provider: serialising an invalid date throws.\<close>

definition handlePreset :: "int \<Rightarrow> int \<Rightarrow> int \<Rightarrow> TimePicker \<times> provider \<Rightarrow> (TimePicker \<times> provider) option" where
  "handlePreset tz now days s = map_option (\<lambda>pv.
    ((fst s)\<lparr>tpk_fromDate := Some (presetFromDate tz now days), tpk_toDate := None, tpk_editing := None, tpk_open := False\<rparr>, pv))
    (setDays tz now days (snd s))"

definition day_iso :: "int \<Rightarrow> jsdate \<Rightarrow> bool \<Rightarrow> string option" where
  "day_iso tz d endOfDay = Option.bind d (\<lambda>t. calendarDateToIso tz t endOfDay)"

definition handleApply :: "int \<Rightarrow> int \<Rightarrow> TimePicker \<times> provider \<Rightarrow> (TimePicker \<times> provider) option" where
  "handleApply tz now s = (let p = fst s in case tpk_fromDate p of None \<Rightarrow> Some s
    | Some f \<Rightarrow> if rangeInvalid p then Some s else
       (case day_iso tz f False of None \<Rightarrow> None
        | Some fromIso \<Rightarrow>
          (case tpk_toDate p of
             None \<Rightarrow> map_option (Pair (p\<lparr>tpk_editing := None, tpk_open := False\<rparr>)) (setAbsoluteRange tz now fromIso None (snd s))
           | Some t \<Rightarrow> (case day_iso tz t True of None \<Rightarrow> None
               | Some toIso \<Rightarrow> map_option (Pair (p\<lparr>tpk_editing := None, tpk_open := False\<rparr>))
                   (setAbsoluteRange tz now fromIso (Some toIso) (snd s))))))"

datatype PickerEvent = PickFrom "jsdate option" | PickTo "jsdate option" | EditField DateField | OpenTimePicker bool

fun picker_draft_step :: "PickerEvent \<Rightarrow> TimePicker \<Rightarrow> TimePicker" where
  "picker_draft_step (PickFrom d) p = handleFromSelect d p"
| "picker_draft_step (PickTo d) p = handleToSelect d p"
| "picker_draft_step (EditField f) p = picker_editing f p"
| "picker_draft_step (OpenTimePicker b) p = picker_openChange b p"


subsection \<open>The breakdown table lists every indicator\<close>

definition item_metrics :: "string list \<Rightarrow> breakdown_item \<Rightarrow> string list" where
  "item_metrics collapsed it = (case it of OneIndicator ind \<Rightarrow> [in_metric ind]
    | GroupOf g \<Rightarrow> if sg_prefix g \<in> set collapsed then [] else map in_metric (sg_indicators g))"

lemma row_metrics_simps [simp]:
  "row_metrics [] = []"
  "row_metrics (HeaderRow h # rows) = row_metrics rows"
  "row_metrics (DataRow m c # rows) = m # row_metrics rows"
  by (simp_all add: row_metrics_def List.map_filter_def)

lemma row_metrics_concat: "row_metrics (concat xs) = concat (map row_metrics xs)"
  by (induction xs) (simp_all add: row_metrics_def List.map_filter_def)

lemma row_metrics_enumerate:
  "row_metrics (map (\<lambda>(i, ind). DataRow (in_metric ind) (c i ind)) (List.enumerate n inds)) = map in_metric inds"
  by (induction inds arbitrary: n) simp_all

lemma row_metrics_item: "row_metrics (item_rows s rowIdPrefix (n, it)) = item_metrics (bs_collapsed s) it"
  by (cases it) (simp_all add: item_rows_def item_metrics_def group_rows_def Let_def row_metrics_enumerate)

lemma table_metrics: "row_metrics (SLIBreakdownTable s indicators sliMetadata rowIdPrefix) =
    concat (map (item_metrics (bs_collapsed s)) (breakdown_items indicators sliMetadata))"
proof -
  have "map (\<lambda>x. row_metrics (item_rows s rowIdPrefix x)) (List.enumerate n items) =
      map (item_metrics (bs_collapsed s)) items" for n items
    by (induction items arbitrary: n) (auto simp: row_metrics_item)
  then show ?thesis by (simp add: SLIBreakdownTable_def row_metrics_concat comp_def)
qed

lemma prefixMap_get:
  "nullish (js_get (prefixMap sliMeta indicators) p) [] =
    filter (\<lambda>i. group_prefix sliMeta (in_metric i) = Some p) indicators"
  unfolding prefixMap_def group_by_get map_ident filter_filter by (rule filter_cong) auto

definition groups_of :: "(string, SliMetadata) jsmap \<Rightarrow> Indicator list \<Rightarrow> string set" where
  "groups_of sliMeta inds = {p. \<exists>i \<in> set inds. group_prefix sliMeta (in_metric i) = Some p}"

lemma groups_of_Cons: "groups_of sliMeta (ind # inds) =
    (case group_prefix sliMeta (in_metric ind) of None \<Rightarrow> {} | Some p \<Rightarrow> {p}) \<union> groups_of sliMeta inds"
  by (auto simp: groups_of_def split: option.splits)

text \<open>The metrics that the rest of the loop will list.\<close>

definition to_list ::
    "(string, SliMetadata) jsmap \<Rightarrow> Indicator list \<Rightarrow> string list \<Rightarrow> string list \<Rightarrow> Indicator list \<Rightarrow> string set" where
  "to_list sliMeta indicators collapsed emitted inds =
    {m \<in> in_metric ` set inds. group_prefix sliMeta m = None} \<union>
    {m \<in> in_metric ` set indicators. \<exists>p \<in> groups_of sliMeta inds - set emitted - set collapsed. group_prefix sliMeta m = Some p}"

lemma to_list_None: "group_prefix sliMeta (in_metric ind) = None \<Longrightarrow>
    to_list sliMeta indicators collapsed emitted (ind # inds) =
      insert (in_metric ind) (to_list sliMeta indicators collapsed emitted inds)"
  unfolding to_list_def groups_of_Cons by auto

lemma to_list_emitted: "group_prefix sliMeta (in_metric ind) = Some p \<Longrightarrow> p \<in> set emitted \<Longrightarrow>
    to_list sliMeta indicators collapsed emitted (ind # inds) = to_list sliMeta indicators collapsed emitted inds"
  unfolding to_list_def groups_of_Cons by auto

lemma to_list_new: "group_prefix sliMeta (in_metric ind) = Some p \<Longrightarrow> p \<notin> set emitted \<Longrightarrow>
    to_list sliMeta indicators collapsed emitted (ind # inds) =
      {m \<in> in_metric ` set indicators. group_prefix sliMeta m = Some p \<and> p \<notin> set collapsed} \<union>
      to_list sliMeta indicators collapsed (p # emitted) inds"
  unfolding to_list_def groups_of_Cons by auto

lemma group_metrics_set:
  "set (item_metrics collapsed (GroupOf \<lparr>sg_prefix = p,
      sg_indicators = nullish (js_get (prefixMap sliMeta indicators) p) [], sg_metadata = x\<rparr>)) =
    {m \<in> in_metric ` set indicators. group_prefix sliMeta m = Some p \<and> p \<notin> set collapsed}"
  unfolding prefixMap_get item_metrics_def by auto

lemma emit_items_set:
  "set (concat (map (item_metrics collapsed) (emit_items sliMeta (prefixMap sliMeta indicators) emitted inds))) =
    to_list sliMeta indicators collapsed emitted inds"
proof (induction inds arbitrary: emitted)
  case Nil
  show ?case by (simp add: to_list_def groups_of_def)
next
  case (Cons ind inds)
  show ?case
  proof (cases "group_prefix sliMeta (in_metric ind)")
    case None
    then show ?thesis using Cons [of emitted] by (simp add: to_list_None item_metrics_def)
  next
    case (Some p)
    then show ?thesis
      using Cons [of emitted] Cons [of "p # emitted"]
      by (cases "p \<in> set emitted") (simp_all add: to_list_emitted to_list_new group_metrics_set)
  qed
qed

lemma emit_items_distinct:
  assumes "distinct (map in_metric indicators)" and "distinct (map in_metric inds)"
  shows "distinct (concat (map (item_metrics collapsed)
    (emit_items sliMeta (prefixMap sliMeta indicators) emitted inds)))"
  using assms(2)
proof (induction inds arbitrary: emitted)
  case (Cons ind inds)
  then have d: "distinct (map in_metric inds)" and new: "in_metric ind \<notin> in_metric ` set inds" by auto
  note rest = emit_items_set [of collapsed sliMeta indicators _ inds]
  show ?case
  proof (cases "group_prefix sliMeta (in_metric ind)")
    case None
    then have "in_metric ind \<notin> to_list sliMeta indicators collapsed emitted inds"
      using new by (auto simp: to_list_def)
    then have "in_metric ind \<notin> set (concat (map (item_metrics collapsed)
        (emit_items sliMeta (prefixMap sliMeta indicators) emitted inds)))"
      unfolding rest .
    then show ?thesis using None Cons.IH [OF d, of emitted] by (simp add: item_metrics_def)
  next
    case (Some p)
    show ?thesis
    proof (cases "p \<in> set emitted")
      case True
      then show ?thesis using Some Cons.IH [OF d, of emitted] by simp
    next
      case False
      let ?g = "item_metrics collapsed (GroupOf \<lparr>sg_prefix = p,
          sg_indicators = nullish (js_get (prefixMap sliMeta indicators) p) [], sg_metadata = js_get sliMeta p\<rparr>)"
      let ?rest = "concat (map (item_metrics collapsed)
          (emit_items sliMeta (prefixMap sliMeta indicators) (p # emitted) inds))"
      have "distinct ?g"
        using assms(1) unfolding prefixMap_get item_metrics_def by (simp add: distinct_map inj_on_def)
      moreover have "set ?g \<inter> set ?rest = {}"
        unfolding rest group_metrics_set to_list_def by auto
      ultimately have "distinct (?g @ ?rest)" using Cons.IH [OF d, of "p # emitted"] by simp
      then show ?thesis using Some False by simp
    qed
  qed
qed simp

text \<open>The part of a metric name before its last dot, and the dot and the rest.\<close>

lemma metric_prefix_split:
  assumes "metric_prefix m = Some p"
  shows "m = p @ ''.'' @ drop (length p + 1) m \<and> CHR ''.'' \<notin> set (drop (length p + 1) m) \<and> p \<noteq> []"
proof -
  obtain i where i: "lastIndexOf (CHR ''.'') m = Some i" "0 < i" "p = take i m"
    using assms by (auto simp: metric_prefix_def split: option.splits if_splits)
  have "CHR ''.'' \<in> set m" using i(1) by (auto simp: lastIndexOf_def split: if_splits)
  then obtain ys zs where m: "m = ys @ CHR ''.'' # zs" "CHR ''.'' \<notin> set zs"
    by (metis split_list_last)
  have "takeWhile (\<lambda>x. x \<noteq> CHR ''.'') (rev m) = rev zs"
    using m(2) takeWhile_append2 [of "rev zs" "\<lambda>x. x \<noteq> CHR ''.''" "CHR ''.'' # rev ys"] by (auto simp: m(1))
  then have "i = length ys" using i(1) by (simp add: lastIndexOf_def m(1))
  then show ?thesis using i(2,3) m(2) by (simp add: m(1))
qed

text \<open>
  C30. For indicators with distinct metrics the breakdown table shows every indicator in exactly one row, except
  those of a collapsed group; a group has a row for each indicator whose name is its prefix, a dot and the label
  shown, in the order of the indicators.
\<close>

theorem breakdown_rows_complete:
  assumes "distinct (map in_metric indicators)"
  shows "distinct (row_metrics (SLIBreakdownTable s indicators (Some sliMeta) rowIdPrefix)) \<and>
    set (row_metrics (SLIBreakdownTable s indicators (Some sliMeta) rowIdPrefix)) =
      {m \<in> in_metric ` set indicators. \<forall>p. group_prefix sliMeta m = Some p \<longrightarrow> p \<notin> set (bs_collapsed s)} \<and>
    row_metrics (SLIBreakdownTable s indicators None rowIdPrefix) = map in_metric indicators \<and>
    (group_prefix sliMeta m = Some p \<longrightarrow> m = p @ ''.'' @ drop (length p + 1) m)"
proof (intro conjI impI)
  let ?table = "row_metrics (SLIBreakdownTable s indicators (Some sliMeta) rowIdPrefix)"
  have one: "concat (map (item_metrics c) (map OneIndicator indicators)) = map in_metric indicators" for c
    by (induction indicators) (auto simp: item_metrics_def)
  have none: "group_prefix [] m = None" for m by (simp add: group_prefix_def split: option.split)
  show "distinct ?table"
    using emit_items_distinct [OF assms assms] assms one [of "bs_collapsed s"]
    by (simp add: table_metrics breakdown_items_def del: map_map)
  show "set ?table = {m \<in> in_metric ` set indicators. \<forall>p. group_prefix sliMeta m = Some p \<longrightarrow> p \<notin> set (bs_collapsed s)}"
  proof (cases "sliMeta = []")
    case True
    then show ?thesis by (auto simp: table_metrics breakdown_items_def none item_metrics_def)
  next
    case False
    then have "set ?table = to_list sliMeta indicators (bs_collapsed s) [] indicators"
      using emit_items_set [of "bs_collapsed s" sliMeta indicators "[]" indicators]
      by (simp add: table_metrics breakdown_items_def)
    also have "\<dots> = {m \<in> in_metric ` set indicators. \<forall>p. group_prefix sliMeta m = Some p \<longrightarrow> p \<notin> set (bs_collapsed s)}"
    proof (rule set_eqI)
      fix m
      have "group_prefix sliMeta m = None \<or>
          (\<exists>p \<in> groups_of sliMeta indicators - set [] - set (bs_collapsed s). group_prefix sliMeta m = Some p) \<longleftrightarrow>
          (\<forall>p. group_prefix sliMeta m = Some p \<longrightarrow> p \<notin> set (bs_collapsed s))"
        if "m \<in> in_metric ` set indicators"
        using that by (cases "group_prefix sliMeta m") (auto simp: groups_of_def)
      then show "m \<in> to_list sliMeta indicators (bs_collapsed s) [] indicators \<longleftrightarrow>
          m \<in> {m \<in> in_metric ` set indicators. \<forall>p. group_prefix sliMeta m = Some p \<longrightarrow> p \<notin> set (bs_collapsed s)}"
        unfolding to_list_def Un_iff mem_Collect_eq by argo
    qed
    finally show ?thesis .
  qed
  show "row_metrics (SLIBreakdownTable s indicators None rowIdPrefix) = map in_metric indicators"
    by (simp add: table_metrics breakdown_items_def one del: map_map)
  show "m = p @ ''.'' @ drop (length p + 1) m" if "group_prefix sliMeta m = Some p"
    using that metric_prefix_split [of m p] by (auto simp: group_prefix_def split: option.splits if_splits)
qed

definition demo_indicator :: "string \<Rightarrow> Indicator" where
  "demo_indicator m = \<lparr>in_metric = m, in_displayName = m, in_tabGroup = None, in_value = None, in_comparedValue = None,
    in_changeAbsolute = None, in_changeRelativePct = None, in_aggregation = None, in_status = ''pass'', in_score = 0,
    in_weight = 1, in_keySli = False, in_passTargets = [], in_warningTargets = [], in_changePoint = None\<rparr>"

definition demo_metadata :: "(string, SliMetadata) jsmap" where
  "demo_metadata = [(''lat'', \<lparr>sm_mode = ''aggregated'', sm_expectedSamples = 10, sm_actualSamples = 10,
    sm_missingPct = 0, sm_chunksFailed = 0\<rparr>)]"

theorem breakdown_rows_complete_witness:
  "set (row_metrics (SLIBreakdownTable breakdown_mount (map demo_indicator [''lat.p95'', ''cpu'', ''lat.avg''])
     (Some demo_metadata) None)) = {''lat.p95'', ''cpu'', ''lat.avg''}"
  using breakdown_rows_complete [of "map demo_indicator [''lat.p95'', ''cpu'', ''lat.avg'']" breakdown_mount demo_metadata
      None "''cpu''" "''lat''"]
  by (auto simp: demo_indicator_def breakdown_mount_def)

text \<open>A click on an indicator of a tab leaves the shown indicators as they are.\<close>

lemma indicator_click_keeps_tab:
  assumes "ind \<in> set (tabIndicators (Some indicators) tab)"
  shows "tabIndicators (Some indicators) (indicator_click ind indicators tab) = tabIndicators (Some indicators) tab"
proof (cases "resolvedTab (Some indicators) tab = ''all''")
  case True
  then show ?thesis by (simp add: indicator_click_def)
next
  case False
  then have "in_tabGroup ind = Some (resolvedTab (Some indicators) tab)"
    using assms by (simp add: tabIndicators_def)
  moreover have "resolvedTab (Some indicators) (resolvedTab (Some indicators) tab) = resolvedTab (Some indicators) tab"
    by (auto simp: resolvedTab_def)
  ultimately show ?thesis using False by (simp add: indicator_click_def tabIndicators_def)
qed

lemma table_cell_defined: "table_cell ps ev k \<noteq> None"
  by (auto simp: table_cell_def eval_cell_def STATIC_KEYS_def)

lemma evaluation_table_shape:
  "\<forall>row \<in> set (snd (EvaluationTable ps evs visible cols)).
     length row = length (fst (EvaluationTable ps evs visible cols)) \<and> None \<notin> set row"
  by (auto simp: EvaluationTable_def) (metis table_cell_defined)

lemma summary_banners_exclusive: "override_banner ev = None \<or> reevaluated_banner ev = None"
  by (auto simp: override_banner_def reevaluated_banner_def split: option.splits)

subsection \<open>The page acts on its own evaluation\<close>

text \<open>
  C26. The evaluation page reuses the forms of the asset panel through a heatmap of one column and one SLO: for an
  evaluation with an SLO the scope of every form is exactly that SLO, selected, with the page's evaluation id, the
  menu greys out Invalidate and offers Restore exactly when the form will find an invalidated evaluation, and this
  is what the panel's own rule computes from that heatmap; without an SLO the scope is empty.
\<close>

theorem detail_page_scope:
  assumes "ev_sloName ev = Some n" and "n \<noteq> []" and "ev_evaluationId ev \<noteq> []"
  shows "map sop_sloName (availableSlos (detail_scope_args (Some ev))) = [n] \<and>
    defaultSelection (detail_scope_args (Some ev)) = [n] \<and>
    lookupEvalId (detail_scope_args (Some ev)) n = Some (ev_id ev) \<and>
    (map sop_currentResult (availableSlos (detail_scope_args (Some ev))) = [ScopeInvalidated] \<longleftrightarrow> ev_invalidated ev) \<and>
    (ActRestore \<in> set (map ma_kind (getActions (detail_menu ev))) \<longleftrightarrow> ev_invalidated ev) \<and>
    menuAvailability (syntheticHeatmap (Some ev)) (Some (ev_evaluationId ev)) = detail_menu ev \<and>
    availableSlos (detail_scope_args (Some (ev\<lparr>ev_sloName := None\<rparr>))) = []"
proof -
  have h: "syntheticHeatmap (Some ev) = Some (buildSingleSloScopeHeatmap ev)"
    using assms by (simp add: syntheticHeatmap_def)
  obtain out where out: "outcomeFromHeatmapResult (evaluationOutcomeToHeatmapResult ev) = Some out"
    and inv: "out = ScopeInvalidated \<longleftrightarrow> ev_invalidated ev"
    by (cases "ev_invalidated ev"; cases "ev_outcome ev")
      (simp_all add: evaluationOutcomeToHeatmapResult_def)
  have res: "evaluationOutcomeToHeatmapResult ev = ResInvalidated \<longleftrightarrow> ev_invalidated ev"
    by (cases "ev_outcome ev") (simp_all add: evaluationOutcomeToHeatmapResult_def)
  have slos: "availableSlos (detail_scope_args (Some ev)) =
      [\<lparr>sop_sloName = n, sop_displayName = n, sop_sloEvaluationId = ev_id ev, sop_currentResult = out\<rparr>]"
    using assms out
    by (simp add: availableSlos_def detail_scope_args_def h buildSingleSloScopeHeatmap_def Let_def
        List.map_filter_def scope_option_def)
  have "map ma_kind (getActions (detail_menu ev)) =
      [ActInvalidate, ActOverride, ActBaseline, ActReEvaluate] @ (if ev_invalidated ev then [ActRestore] else [])"
    by (simp add: getActions_def detail_menu_def menu_action_def)
  moreover have "menuAvailability (syntheticHeatmap (Some ev)) (Some (ev_evaluationId ev)) = detail_menu ev"
    using assms(3) res
    by (simp add: menuAvailability_def h buildSingleSloScopeHeatmap_def Let_def detail_menu_def)
  ultimately show ?thesis
    using slos inv assms(1,2)
    by (simp add: defaultSelection_def lookupEvalId_def available_names_def uniq_def detail_scope_args_def
        availableSlos_def syntheticHeatmap_def)
qed

definition demo_detail :: "bool \<Rightarrow> EvaluationDetail" where
  "demo_detail invalidated = \<lparr>ev_id = ''s1'', ev_evaluationId = ''e1'', ev_evaluationName = ''nightly'', ev_status = ''completed'',
    ev_outcome = Pass, ev_score = Some 90, ev_period = makeDateRange ''2024-01-01T00:00:00Z'' ''2024-01-01T01:00:00Z'',
    ev_sloName = Some ''web-slo'', ev_sloVersion = None, ev_sliName = None, ev_sliVersion = None,
    ev_dataSourceName = None, ev_ingestionMode = ''pull'', ev_adapterUsed = None, ev_invalidated = invalidated,
    ev_originalOutcome = None, ev_originalScore = None, ev_overrideReason = None, ev_overrideAuthor = None,
    ev_assetSnapshot = \<lparr>as_assetId = None, as_name = ''web'', as_displayName = None, as_tags = [],
      as_primaryVersion = None, as_buildRef = None\<rparr>,
    ev_variables = [], ev_baselinePin = None, ev_latestAnnotation = None, ev_annotationCount = 0,
    ev_createdAt = Some 0, ev_topFailures = [], ed_invalidationNote = None, ed_comparedEvaluationIds = [],
    ed_annotations = [], ed_indicators = [], ed_totalScorePassThreshold = None, ed_totalScoreWarningThreshold = None,
    ed_sliMetadata = []\<rparr>"

theorem detail_page_scope_witness:
  "map sop_currentResult (availableSlos (detail_scope_args (Some (demo_detail True)))) = [ScopeInvalidated] \<and>
   lookupEvalId (detail_scope_args (Some (demo_detail False))) ''web-slo'' = Some ''s1''"
  using detail_page_scope [of "demo_detail True" "''web-slo''"] detail_page_scope [of "demo_detail False" "''web-slo''"]
  by (simp add: demo_detail_def)

subsection \<open>The picker applies ordered ranges\<close>

lemma draft_step_valid: "\<not> rangeInvalid p \<Longrightarrow> \<not> rangeInvalid (picker_draft_step e p)"
proof (cases e)
  case (PickFrom d)
  assume "\<not> rangeInvalid p"
  then show ?thesis using PickFrom
    by (auto simp: handleFromSelect_def rangeInvalid_def date_after_def split: option.splits if_splits)
next
  case (PickTo d)
  assume "\<not> rangeInvalid p"
  then show ?thesis using PickTo
    by (auto simp: handleToSelect_def rangeInvalid_def date_after_def split: option.splits if_splits)
qed (auto simp: picker_editing_def picker_openChange_def rangeInvalid_def split: option.splits)

lemma draft_run_valid: "\<not> rangeInvalid p \<Longrightarrow> \<not> rangeInvalid (fold picker_draft_step es p)"
  by (induction es arbitrary: p) (simp_all add: draft_step_valid)

lemma calendar_day_iso:
  assumes "100 \<le> year_of_day d" and "url_safe_time (d * ms_per_day)" and "url_safe_time (d * ms_per_day + 86399999)"
  shows "day_iso tz (Some (local_midnight tz d)) False = Some (iso_string (d * ms_per_day))"
    and "day_iso tz (Some (local_midnight tz d)) True = Some (iso_string (d * ms_per_day + 86399999))"
proof -
  have "full_year (year_of_day d) = year_of_day d" using assms(1) by (simp add: full_year_def)
  then show "day_iso tz (Some (local_midnight tz d)) False = Some (iso_string (d * ms_per_day))"
    and "day_iso tz (Some (local_midnight tz d)) True = Some (iso_string (d * ms_per_day + 86399999))"
    using assms(2,3)
    by (simp_all add: day_iso_def calendarDateToIso_def date_utc_def make_day_of_day time_clip_def toISOString_def
        url_safe_time_def)
qed

text \<open>
  C29. Once the two dates of the picker are in order no sequence of edits puts them out of order, and Apply makes
  the provider's active range run from the first millisecond of the chosen first UTC day to the last one of the
  chosen last day, in every local zone, and closes the picker; while they are out of order it does nothing.
\<close>

theorem time_picker_apply:
  assumes "\<not> rangeInvalid p0"
    and "p = fold picker_draft_step es p0"
    and "tpk_fromDate p = Some (Some (local_midnight tz d1))" and "tpk_toDate p = Some (Some (local_midnight tz d2))"
    and "100 \<le> year_of_day d1" and "100 \<le> year_of_day d2"
    and "url_safe_time (d1 * ms_per_day)" and "url_safe_time (d1 * ms_per_day + 86399999)"
    and "url_safe_time (d2 * ms_per_day)" and "url_safe_time (d2 * ms_per_day + 86399999)"
  shows "d1 \<le> d2 \<and>
    (\<exists>pv'. handleApply tz now (p, pv) = Some (p\<lparr>tpk_editing := None, tpk_open := False\<rparr>, pv') \<and>
      active_range tz pv' = absolute_range (iso_string (d1 * ms_per_day)) (Some (iso_string (d2 * ms_per_day + 86399999))) \<and>
      other_params (pv_url pv') = other_params (pv_url pv)) \<and>
    (rangeInvalid q \<longrightarrow> handleApply tz now (q, pv) = Some (q, pv))"
proof (intro conjI impI)
  have valid: "\<not> rangeInvalid p" using draft_run_valid [OF assms(1)] assms(2) by simp
  show "d1 \<le> d2"
    using valid assms(3,4) by (simp add: rangeInvalid_def date_after_def local_midnight_def ms_per_day_def)
  obtain pv' where pv': "setAbsoluteRange tz now (iso_string (d1 * ms_per_day)) (Some (iso_string (d2 * ms_per_day + 86399999))) pv
      = Some pv'"
    "active_range tz pv' = absolute_range (iso_string (d1 * ms_per_day)) (Some (iso_string (d2 * ms_per_day + 86399999)))"
    "other_params (pv_url pv') = other_params (pv_url pv)"
    using chosen_range_active [of 0 "d1 * ms_per_day" "d2 * ms_per_day + 86399999" tz now pv] assms(7,10) by auto
  have "handleApply tz now (p, pv) = Some (p\<lparr>tpk_editing := None, tpk_open := False\<rparr>, pv')"
    using valid by (simp add: handleApply_def Let_def assms(3,4) calendar_day_iso [OF assms(5,7,8)]
        calendar_day_iso [OF assms(6,9,10)] pv'(1))
  then show "\<exists>pv'. handleApply tz now (p, pv) = Some (p\<lparr>tpk_editing := None, tpk_open := False\<rparr>, pv') \<and>
      active_range tz pv' = absolute_range (iso_string (d1 * ms_per_day)) (Some (iso_string (d2 * ms_per_day + 86399999))) \<and>
      other_params (pv_url pv') = other_params (pv_url pv)"
    using pv'(2,3) by blast
  show "handleApply tz now (q, pv) = Some (q, pv)" if "rangeInvalid q"
    using that by (auto simp: handleApply_def Let_def rangeInvalid_def split: option.split)
qed

definition demo_picker :: TimePicker where
  "demo_picker = \<lparr>tpk_open = True, tpk_editing = Some EditFrom, tpk_fromDate = Some (Some (local_midnight 60 19730)),
    tpk_toDate = Some (Some (local_midnight 60 19731))\<rparr>"

theorem time_picker_apply_witness:
  "\<exists>p' pv'. handleApply 60 0 (fold picker_draft_step [PickFrom (Some (Some (local_midnight 60 19740)))] demo_picker,
      \<lparr>pv_url = [], pv_storage = None\<rparr>) = Some (p', pv') \<and>
    active_range 60 pv' = absolute_range (iso_string (19740 * ms_per_day)) (Some (iso_string (19740 * ms_per_day + 86399999)))"
proof -
  have y: "year_of_day 19740 = 2024" by (simp add: year_of_day_def day_from_year_def)
  show ?thesis
    using time_picker_apply [of demo_picker "fold picker_draft_step [PickFrom (Some (Some (local_midnight 60 19740)))] demo_picker"
        "[PickFrom (Some (Some (local_midnight 60 19740)))]" 60 19740 19740 0 "\<lparr>pv_url = [], pv_storage = None\<rparr>" demo_picker]
    by (auto simp: demo_picker_def rangeInvalid_def date_after_def handleFromSelect_def local_midnight_def local_ms_def
        ms_per_day_def url_safe_time_def max_time_def y)
qed

text \<open>A preset gives the dates of the range it sets; the warning of an absolute range follows the unapplied dates.\<close>

lemma preset_dates_match: "toISOString (presetFromDate tz now days) = computeFromDate tz now days"
  by (simp add: presetFromDate_def computeFromDate_def)

lemma slow_warning_of_draft:
  fixes r :: StoredRange
  assumes "r = absolute_range (iso_string 1704067200000) (Some (iso_string (1704067200000 + 86399999)))"
  shows "\<not> showSlowWarning 30 0 r demo_picker"
    and "showSlowWarning 30 0 r (picker_draft_step (PickFrom (Some (Some (local_midnight 60 19000)))) demo_picker)"
  using assms
  by (simp_all add: showSlowWarning_def exceeds_def activeDays_def absolute_range_def demo_picker_def daysBetween_def
      handleFromSelect_def date_after_def local_midnight_def local_ms_def ms_per_day_def js_round_def)

end
