(* ===== verification/RegistryPages.thy ===== *)
theory RegistryPages
  imports RegistryForms RegistryTree Hooks
begin

text \<open>
  The registry page (\<open>pages/SloRegistryPage.tsx\<close>) as a state machine of its URL, dialogs and wizard; its sidebar
  (\<open>registry/RegistrySidebar.tsx\<close>, \<open>shared/TagFilterBar.tsx\<close>); the detail views
  (\<open>registry/RegistryDetailPanel.tsx\<close>, \<open>registry/details/\<close>) with the editor of an SLO group's variables; and the
  table of objectives (\<open>slos/components/SloObjectiveTable.tsx\<close>). A component keeps its state as long as the same
  component is rendered in the same place, whatever its properties become.
\<close>

subsection \<open>The tag filter bar\<close>

datatype AddFlowStep = FlowIdle | PickKey | PickValue

record TagBar =
  tb_tags :: "TagFilter list"
  tb_addStep :: AddFlowStep
  tb_selectedKey :: string
  tb_pendingTagKey :: string

definition tag_bar_mount :: TagBar where
  "tag_bar_mount = \<lparr>tb_tags = [], tb_addStep = FlowIdle, tb_selectedKey = [], tb_pendingTagKey = []\<rparr>"

definition handleRemoveTag :: "nat \<Rightarrow> TagBar \<Rightarrow> TagBar" where
  "handleRemoveTag i b = b\<lparr>tb_tags := take i (tb_tags b) @ drop (Suc i) (tb_tags b)\<rparr>"

definition handleKeySelect :: "string \<Rightarrow> TagBar \<Rightarrow> TagBar" where
  "handleKeySelect k b = b\<lparr>tb_selectedKey := k, tb_pendingTagKey := k, tb_addStep := PickValue\<rparr>"

definition handleValueSelect :: "string \<Rightarrow> TagBar \<Rightarrow> TagBar" where
  "handleValueSelect v b = (let already = list_ex (\<lambda>t. tf_key t = tb_selectedKey b \<and> tf_value t = v) (tb_tags b) in
    b\<lparr>tb_tags := (if already then tb_tags b else tb_tags b @ [\<lparr>tf_key = tb_selectedKey b, tf_value = v\<rparr>]),
      tb_addStep := FlowIdle, tb_selectedKey := []\<rparr>)"

definition handleCancel :: "TagBar \<Rightarrow> TagBar" where
  "handleCancel b = b\<lparr>tb_addStep := FlowIdle, tb_selectedKey := []\<rparr>"

text \<open>A click on a suggestion is possible in its step and for the suggestions that are loaded.\<close>

datatype TagBarEvent =
    StartAdd | ChooseKey "string list" string | ChooseValue "string list" string | CancelAdd | RemoveTagAt nat

definition tag_bar_step :: "TagBarEvent \<Rightarrow> TagBar \<Rightarrow> TagBar" where
  "tag_bar_step e b = (case e of
     StartAdd \<Rightarrow> if tb_addStep b = FlowIdle then b\<lparr>tb_addStep := PickKey\<rparr> else b
   | ChooseKey suggestions k \<Rightarrow> if tb_addStep b = PickKey \<and> k \<in> set suggestions then handleKeySelect k b else b
   | ChooseValue suggestions v \<Rightarrow> if tb_addStep b = PickValue \<and> v \<in> set suggestions then handleValueSelect v b else b
   | CancelAdd \<Rightarrow> handleCancel b
   | RemoveTagAt i \<Rightarrow> if i < length (tb_tags b) then handleRemoveTag i b else b)"

subsection \<open>The sidebar\<close>

record SidebarData =
  sbd_slos :: "MinSlo list option"
  sbd_slis :: "MinSli list option"
  sbd_datasources :: "MinDs list option"
  sbd_topLevel :: "MinGroup list"
  sbd_allGroups :: "MinGroup list"
  sbd_sloGroups :: "SloGroup list option"

definition sidebar_groupNames :: "SidebarData \<Rightarrow> string list" where
  "sidebar_groupNames d = filter (\<lambda>n. n \<noteq> ''__ungrouped__'') (map mg_name (sbd_allGroups d))"

definition sidebar_assetNames :: "SidebarData \<Rightarrow> string list" where
  "sidebar_assetNames d = uniq (concat (map (\<lambda>g. map mm_assetName (nullish (mg_members g) [])) (sbd_allGroups d)))"

text \<open>The assignment queries hold one answer per name, none while loading.\<close>

record SidebarQueries =
  sbq_group :: "MinBinding list option list"
  sbq_asset :: "MinBinding list option list"
  sbq_assetGroup :: "MinGroupAssignment list option list"

definition sidebar_bindings :: "SidebarData \<Rightarrow> SidebarQueries \<Rightarrow> MergedBindings" where
  "sidebar_bindings d q = mergeBindings (sidebar_groupNames d) (sidebar_assetNames d)
     (map (\<lambda>x. nullish x []) (sbq_group q)) (map (\<lambda>x. nullish x []) (sbq_asset q))
     (map (\<lambda>x. nullish x []) (sbq_assetGroup q)) (buildSloGroupMap (nullish (sbd_slos d) []))"

definition sidebar_treeNodes :: "nat \<Rightarrow> SidebarData \<Rightarrow> SidebarQueries \<Rightarrow> string \<Rightarrow> TreeNode list option" where
  "sidebar_treeNodes fuel d q mode = (let b = sidebar_bindings d q in
     if mode = ''slo'' then Some (buildSloTree (nullish (sbd_slos d) []) (nullish (sbd_slis d) [])
       (nullish (sbd_datasources d) []) (mrg_allBindings b))
     else if mode = ''datasource'' then Some (buildDatasourceTree (nullish (sbd_datasources d) []) (nullish (sbd_slis d) [])
       (nullish (sbd_slos d) []) (mrg_allBindings b))
     else buildAssetTree \<lparr>ati_allGroups = sbd_allGroups d, ati_groupBindings = mrg_groupBindingsMap b,
       ati_assetBindings = mrg_assetBindingsMap b, ati_slos = Some (nullish (sbd_slos d) []),
       ati_slis = Some (nullish (sbd_slis d) [])\<rparr> fuel (sbd_topLevel d))"

definition sidebar_sections :: "SidebarData \<Rightarrow> SidebarQueries \<Rightarrow> SloSections" where
  "sidebar_sections d q = buildSloSections (nullish (sbd_slos d) []) (nullish (sbd_slis d) [])
     (nullish (sbd_datasources d) []) (mrg_allBindings (sidebar_bindings d q)) (nullish (sbd_sloGroups d) [])"

datatype sidebar_view = SectionsShown SloSections "nat option" | TreeShown bool "TreeNode list" "nat option"

record SidebarState =
  sbs_search :: string
  sbs_bar :: TagBar

definition result_count :: "string \<Rightarrow> TreeNode list \<Rightarrow> nat option" where
  "result_count search nodes = (if search \<noteq> [] then Some (length nodes) else None)"

definition RegistrySidebar :: "nat \<Rightarrow> SidebarData \<Rightarrow> SidebarQueries \<Rightarrow> string \<Rightarrow> SidebarState \<Rightarrow> sidebar_view option" where
  "RegistrySidebar fuel d q mode s = map_option (\<lambda>nodes.
     let filteredNodes = filterTree nodes (sbs_search s) in
     if mode = ''slo'' then (let sec = sidebar_sections d q in SectionsShown
       \<lparr>ss_standard = filterTree (ss_standard sec) (sbs_search s), ss_templates = filterTree (ss_templates sec) (sbs_search s),
        ss_groupNodes = filterTree (ss_groupNodes sec) (sbs_search s)\<rparr> (result_count (sbs_search s) filteredNodes))
     else TreeShown (mode = ''asset'') filteredNodes (result_count (sbs_search s) filteredNodes))
     (sidebar_treeNodes fuel d q mode)"

definition mode_choice :: "string \<Rightarrow> 'a option \<Rightarrow> 'a option \<Rightarrow> 'a option \<Rightarrow> 'a option" where
  "mode_choice mode slo ds ast = (if mode = ''slo'' then slo else if mode = ''datasource'' then ds else ast)"

definition tagKeySuggestions ::
    "string \<Rightarrow> TagKeyCount list option \<Rightarrow> TagKeyCount list option \<Rightarrow> TagKeyCount list option \<Rightarrow> TagKeyCount list" where
  "tagKeySuggestions mode slo ds ast = nullish (mode_choice mode slo ds ast) []"

definition tagValueSuggestions ::
    "string \<Rightarrow> TagValueCount list option \<Rightarrow> TagValueCount list option \<Rightarrow> TagValueCount list option \<Rightarrow> TagValueCount list" where
  "tagValueSuggestions mode slo ds ast = nullish (mode_choice mode slo ds ast) []"

definition create_items :: "(string \<times> string) list" where
  "create_items = [(''slo'', ''SLO Definition''), (''slo-template'', ''SLO Template''), (''slo-group'', ''SLO Group''),
     (''sli'', ''SLI Definition''), (''datasource'', ''Datasource''), (''group'', ''Asset Group'')]"

subsection \<open>The page\<close>

record UrlSelection =
  us_type :: string
  us_name :: string
  us_groupName :: "string option"

fun node_type_str :: "NodeType \<Rightarrow> string" where
  "node_type_str NGroup = ''group''"
| "node_type_str NAsset = ''asset''"
| "node_type_str NSlo = ''slo''"
| "node_type_str NSli = ''sli''"
| "node_type_str NDatasource = ''datasource''"
| "node_type_str NBinding = ''binding''"
| "node_type_str NTemplate = ''template''"
| "node_type_str NSloGroup = ''slo-group''"

definition page_mode :: "search_params \<Rightarrow> string" where
  "page_mode url = (if truthy (sp_get url ''mode'') then the (sp_get url ''mode'') else ''asset'')"

definition page_selected :: "search_params \<Rightarrow> UrlSelection option" where
  "page_selected url = (if truthy (sp_get url ''selected'') \<and> truthy (sp_get url ''type'')
     then Some \<lparr>us_type = the (sp_get url ''type''), us_name = the (sp_get url ''selected''),
       us_groupName = sp_get url ''group''\<rparr> else None)"

definition updateParams :: "(string \<times> string option) list \<Rightarrow> search_params \<Rightarrow> search_params" where
  "updateParams updates prev = fold (\<lambda>(k, v) p. case v of None \<Rightarrow> sp_delete k p | Some x \<Rightarrow> sp_set k x p) updates prev"

record RegistryPage =
  rp_url :: search_params
  rp_dsFormOpen :: bool
  rp_dsEditName :: "string option"
  rp_sliFormOpen :: bool
  rp_sliDefaultAdapter :: "string option"
  rp_sliEditFrom :: "Sli option"
  rp_linkDialogOpen :: bool
  rp_linkLockedGroup :: "string option"
  rp_groupDialogOpen :: bool
  rp_groupName :: string
  rp_wizardOpen :: bool
  rp_wizardEditSlo :: "Slo option"
  rp_wizardDefaultKind :: string
  rp_sloGroupFormOpen :: bool
  rp_wizard :: "WizardState option"
  rp_created :: "string list"

text \<open>The wizard is mounted when it appears, keeps its state while shown, and reads its properties anew each time.\<close>

definition render_wizard :: "RegistryPage \<Rightarrow> RegistryPage" where
  "render_wizard p = p\<lparr>rp_wizard := (if rp_wizardOpen p then Some (case rp_wizard p of
       None \<Rightarrow> wizard_mount (rp_wizardEditSlo p) (Some (rp_wizardDefaultKind p))
     | Some w \<Rightarrow> w\<lparr>wz_edit := rp_wizardEditSlo p, wz_defaultKind := Some (rp_wizardDefaultKind p)\<rparr>)
     else None)\<rparr>"

definition registry_mount :: "search_params \<Rightarrow> RegistryPage" where
  "registry_mount url = \<lparr>rp_url = url, rp_dsFormOpen = False, rp_dsEditName = None, rp_sliFormOpen = False,
     rp_sliDefaultAdapter = None, rp_sliEditFrom = None, rp_linkDialogOpen = False, rp_linkLockedGroup = None,
     rp_groupDialogOpen = False, rp_groupName = [], rp_wizardOpen = False, rp_wizardEditSlo = None,
     rp_wizardDefaultKind = ''standard'', rp_sloGroupFormOpen = False, rp_wizard = None, rp_created = []\<rparr>"

definition handleModeChange :: "string \<Rightarrow> RegistryPage \<Rightarrow> RegistryPage" where
  "handleModeChange newMode p = p\<lparr>rp_url := updateParams
     [(''mode'', Some newMode), (''selected'', None), (''type'', None), (''group'', None)] (rp_url p), rp_wizardOpen := False\<rparr>"

definition handleSelect :: "SelectedNode option \<Rightarrow> RegistryPage \<Rightarrow> RegistryPage" where
  "handleSelect node p = p\<lparr>rp_url := updateParams (case node of
      Some n \<Rightarrow> [(''selected'', Some (sn_name n)), (''type'', Some (node_type_str (sn_type n))), (''group'', sn_groupName n)]
    | None \<Rightarrow> [(''selected'', None), (''type'', None), (''group'', None)]) (rp_url p),
    rp_wizardOpen := False, rp_sloGroupFormOpen := False\<rparr>"

definition targetMode :: "NodeType \<Rightarrow> string" where
  "targetMode t = (if t = NSlo \<or> t = NSli then ''slo'' else if t = NDatasource then ''datasource'' else ''asset'')"

definition handleNavigate :: "SelectedNode \<Rightarrow> RegistryPage \<Rightarrow> RegistryPage" where
  "handleNavigate n p = p\<lparr>rp_url := updateParams [(''mode'', Some (targetMode (sn_type n))), (''selected'', Some (sn_name n)),
     (''type'', Some (node_type_str (sn_type n))), (''group'', sn_groupName n)] (rp_url p), rp_wizardOpen := False\<rparr>"

definition handleCreateAction :: "string \<Rightarrow> string option \<Rightarrow> RegistryPage \<Rightarrow> RegistryPage" where
  "handleCreateAction kind adapterType p =
    (if kind = ''slo'' then p\<lparr>rp_wizardEditSlo := None, rp_wizardDefaultKind := ''standard'', rp_wizardOpen := True,
       rp_sloGroupFormOpen := False\<rparr>
     else if kind = ''slo-template'' then p\<lparr>rp_wizardEditSlo := None, rp_wizardDefaultKind := ''template'', rp_wizardOpen := True,
       rp_sloGroupFormOpen := False\<rparr>
     else if kind = ''slo-group'' then p\<lparr>rp_sloGroupFormOpen := True, rp_wizardOpen := False\<rparr>
     else if kind = ''sli'' then p\<lparr>rp_sliDefaultAdapter := adapterType, rp_sliFormOpen := True\<rparr>
     else if kind = ''datasource'' then p\<lparr>rp_dsEditName := None, rp_dsFormOpen := True\<rparr>
     else if kind = ''group'' then p\<lparr>rp_groupName := [], rp_groupDialogOpen := True\<rparr>
     else p)"

definition handleNewSloVersion :: "Slo \<Rightarrow> RegistryPage \<Rightarrow> RegistryPage" where
  "handleNewSloVersion slo p = p\<lparr>rp_wizardEditSlo := Some slo, rp_wizardOpen := True\<rparr>"

definition handleWizardClose :: "RegistryPage \<Rightarrow> RegistryPage" where
  "handleWizardClose p = p\<lparr>rp_wizardOpen := False, rp_wizardEditSlo := None\<rparr>"

definition handleGroupCreate :: "RegistryPage \<Rightarrow> RegistryPage" where
  "handleGroupCreate p = (let trimmed = trim_str (rp_groupName p) in
     if trimmed = [] then p else p\<lparr>rp_created := rp_created p @ [trimmed]\<rparr>)"

datatype RegistryEvent =
    ModeChange string | SelectNode "SelectedNode option" | NavigateTo SelectedNode | CreateAction string "string option"
  | EditDatasource string | NewSloVersion Slo | NewSliVersion Sli | LinkSlo string | WizardClosed | WizardEdit WizardEvent
  | DsFormOpenChange bool | SliFormOpenChange bool | LinkOpenChange bool | GroupOpenChange bool | TypeGroupName string
  | CreateGroupClick | GroupCreated | SloGroupFormClosed

text \<open>\<open>handleNavigate\<close> and the callbacks of the detail panel are called from the panel, so only while it is shown.\<close>

definition panel_shown :: "RegistryPage \<Rightarrow> bool" where
  "panel_shown p \<longleftrightarrow> \<not> rp_wizardOpen p \<and> \<not> rp_sloGroupFormOpen p"

definition registry_step :: "RegistryEvent \<Rightarrow> RegistryPage \<Rightarrow> RegistryPage" where
  "registry_step e p = render_wizard (case e of
     ModeChange m \<Rightarrow> handleModeChange m p
   | SelectNode n \<Rightarrow> handleSelect n p
   | NavigateTo n \<Rightarrow> if panel_shown p then handleNavigate n p else p
   | CreateAction k ctx \<Rightarrow> handleCreateAction k ctx p
   | EditDatasource n \<Rightarrow> if panel_shown p then p\<lparr>rp_dsEditName := Some n, rp_dsFormOpen := True\<rparr> else p
   | NewSloVersion s \<Rightarrow> if panel_shown p then handleNewSloVersion s p else p
   | NewSliVersion s \<Rightarrow> if panel_shown p then p\<lparr>rp_sliEditFrom := Some s, rp_sliFormOpen := True\<rparr> else p
   | LinkSlo g \<Rightarrow> if panel_shown p then p\<lparr>rp_linkLockedGroup := Some g, rp_linkDialogOpen := True\<rparr> else p
   | WizardClosed \<Rightarrow> if rp_wizardOpen p then handleWizardClose p else p
   | WizardEdit we \<Rightarrow> p\<lparr>rp_wizard := map_option (wizard_step we) (rp_wizard p)\<rparr>
   | DsFormOpenChange b \<Rightarrow> p\<lparr>rp_dsFormOpen := b, rp_dsEditName := (if b then rp_dsEditName p else None)\<rparr>
   | SliFormOpenChange b \<Rightarrow> p\<lparr>rp_sliFormOpen := b, rp_sliEditFrom := (if b then rp_sliEditFrom p else None)\<rparr>
   | LinkOpenChange b \<Rightarrow> p\<lparr>rp_linkDialogOpen := b\<rparr>
   | GroupOpenChange b \<Rightarrow> p\<lparr>rp_groupDialogOpen := b\<rparr>
   | TypeGroupName v \<Rightarrow> p\<lparr>rp_groupName := v\<rparr>
   | CreateGroupClick \<Rightarrow> handleGroupCreate p
   | GroupCreated \<Rightarrow> p\<lparr>rp_groupDialogOpen := False, rp_groupName := []\<rparr>
   | SloGroupFormClosed \<Rightarrow> p\<lparr>rp_sloGroupFormOpen := False\<rparr>)"

datatype page_content = WizardShown WizardState | GroupFormShown | DetailShown "UrlSelection option"

definition registry_content :: "RegistryPage \<Rightarrow> page_content option" where
  "registry_content p = (if rp_wizardOpen p then map_option WizardShown (rp_wizard p)
     else if rp_sloGroupFormOpen p then Some GroupFormShown else Some (DetailShown (page_selected (rp_url p))))"


subsection \<open>Queries of indicators\<close>

definition resolveIndicatorQuery :: "string \<Rightarrow> str_obj option \<Rightarrow> string option" where
  "resolveIndicatorQuery objectiveSli indicators = (case indicators of None \<Rightarrow> None
    | Some inds \<Rightarrow> if js_get inds objectiveSli \<noteq> None then js_get inds objectiveSli
        else if CHR ''.'' \<notin> set objectiveSli then None
        else js_get inds (rev (tl (dropWhile (\<lambda>c. c \<noteq> CHR ''.'') (rev objectiveSli)))))"

text \<open>\<open>query.split(/(\$[a-zA-Z_][a-zA-Z0-9_]*)/)\<close>: the texts and, between them, the captured tokens.\<close>

definition ident_start :: "char \<Rightarrow> bool" where
  "ident_start c \<longleftrightarrow> (CHR ''a'' \<le> c \<and> c \<le> CHR ''z'') \<or> (CHR ''A'' \<le> c \<and> c \<le> CHR ''Z'') \<or> c = CHR ''_''"

definition ident_char :: "char \<Rightarrow> bool" where
  "ident_char c \<longleftrightarrow> ident_start c \<or> is_digit c"

function split_vars :: "string \<Rightarrow> string \<Rightarrow> string list" where
  "split_vars acc [] = [rev acc]"
| "split_vars acc (c # s) =
    (if c = CHR ''$'' \<and> s \<noteq> [] \<and> ident_start (hd s)
     then rev acc # (c # takeWhile ident_char s) # split_vars [] (dropWhile ident_char s)
     else split_vars (c # acc) s)"
  by pat_completeness auto

termination
  by (relation "measure (\<lambda>(acc, s). length s)") (auto simp: less_Suc_eq_le length_dropWhile_le)

definition is_variable :: "string \<Rightarrow> bool" where
  "is_variable p \<longleftrightarrow> (case p of c # d # s \<Rightarrow> c = CHR ''$'' \<and> ident_start d \<and> list_all ident_char s | _ \<Rightarrow> False)"

definition highlightVariables :: "string \<Rightarrow> (bool \<times> string) list" where
  "highlightVariables q = map (\<lambda>p. (is_variable p, p)) (split_vars [] q)"

subsection \<open>The table of objectives\<close>

record ObjectiveCells =
  obr_key :: bool
  obr_expandable :: bool
  obr_sli :: string
  obr_displayName :: "string option"
  obr_query :: "(bool \<times> string) list option"
  obr_pass :: string
  obr_warning :: string
  obr_weight :: rat

definition or_dash :: "string \<Rightarrow> string" where
  "or_dash s = (if s = [] then em_dash else s)"

definition objective_row :: "str_obj option \<Rightarrow> string list \<Rightarrow> SloObjective \<Rightarrow> ObjectiveCells" where
  "objective_row indicators expanded ob = (let qry = resolveIndicatorQuery (so_sli ob) indicators in
    \<lparr>obr_key = so_keySli ob, obr_expandable = truthy qry, obr_sli = so_sli ob,
     obr_displayName = (if so_displayName ob \<noteq> [] \<and> so_displayName ob \<noteq> so_sli ob then Some (so_displayName ob) else None),
     obr_query = (if truthy qry \<and> so_sli ob \<in> set expanded then Some (highlightVariables (the qry)) else None),
     obr_pass = or_dash (join_with '', '' (so_passThreshold ob)), obr_warning = or_dash (join_with '', '' (so_warningThreshold ob)),
     obr_weight = so_weight ob\<rparr>)"

definition toggleExpand :: "string \<Rightarrow> string list \<Rightarrow> string list" where
  "toggleExpand sli expanded = (if sli \<in> set expanded then removeAll sli expanded else expanded @ [sli])"

definition SloObjectiveTable :: "Slo \<Rightarrow> str_obj option \<Rightarrow> string list \<Rightarrow> ObjectiveCells list" where
  "SloObjectiveTable slo indicators expanded = map (objective_row indicators expanded) (slo_objectives slo)"

subsection \<open>Detail views\<close>

datatype detail_view = SloView string | SliView string | DatasourceView string | TemplateView string | SloGroupView string
  | BindingView string string bool | NoSelection

definition RegistryDetailPanel :: "UrlSelection option \<Rightarrow> detail_view" where
  "RegistryDetailPanel sel = (case sel of None \<Rightarrow> NoSelection
    | Some s \<Rightarrow>
       if us_type s = ''slo'' then SloView (us_name s)
       else if us_type s = ''sli'' then SliView (us_name s)
       else if us_type s = ''datasource'' then DatasourceView (us_name s)
       else if us_type s = ''template'' then TemplateView (us_name s)
       else if us_type s = ''slo-group'' then SloGroupView (us_name s)
       else BindingView (us_name s) (if us_type s = ''group'' then us_name s else nullish (us_groupName s) [])
         (us_type s = ''group''))"

definition linkedGroups :: "string list \<Rightarrow> SloAssignment list option list \<Rightarrow> string \<Rightarrow> string list" where
  "linkedGroups groupNames answers name = map snd (filter
     (\<lambda>(i, g). list_ex (\<lambda>a. sa_sloName a = name) (if i < length answers then nullish (answers ! i) [] else []))
     (List.enumerate 0 groupNames))"

definition override_cells :: "string \<times> MethodCriteriaOverride \<Rightarrow> string \<times> string \<times> string \<times> string" where
  "override_cells mo = (fst mo,
     (case mco_passThreshold (snd mo) of None \<Rightarrow> em_dash | Some ts \<Rightarrow> join_with '', '' ts),
     (case mco_weight (snd mo) of None \<Rightarrow> em_dash | Some w \<Rightarrow> num_string (Fin w)),
     (if mco_keySli (snd mo) = Some True then ''key'' else em_dash))"

definition comparison_summary :: "SloComparisonConfig \<Rightarrow> string" where
  "comparison_summary c = join_with '' - '' (filter (\<lambda>s. s \<noteq> [])
     [nullish (sc_compareWith c) [],
      (case sc_numberOfComparisonResults c of None \<Rightarrow> [] | Some n \<Rightarrow> ''('' @ show_int n @ '')''),
      (if truthy (sc_includeResultWithScore c) then ''include: '' @ the (sc_includeResultWithScore c) else []),
      (if truthy (sc_aggregateFunction c) then ''aggregate: '' @ the (sc_aggregateFunction c) else [])])"

definition usedBySlos :: "Slo list option \<Rightarrow> Sli \<Rightarrow> string list" where
  "usedBySlos slos sli = map slo_name (filter (\<lambda>s. slo_sliName s = Some (sli_name sli)) (nullish slos []))"

record SliContent =
  slc_raw :: bool
  slc_indicators :: "(string \<times> (bool \<times> string) list) list option"
  slc_template :: "(bool \<times> string) list option"
  slc_interval :: string
  slc_methods :: "string list"

definition sli_content :: "Sli \<Rightarrow> SliContent" where
  "sli_content sli = (let isRawMode = (sli_mode sli = ''raw''); hasIndicators = (sli_indicators sli \<noteq> []) in
    \<lparr>slc_raw = isRawMode,
     slc_indicators = (if isRawMode \<or> hasIndicators
       then Some (map (\<lambda>(n, q). (n, highlightVariables q)) (Object_entries (sli_indicators sli))) else None),
     slc_template = (if isRawMode \<or> hasIndicators then None
       else Some (if truthy (sli_queryTemplate sli) then highlightVariables (the (sli_queryTemplate sli)) else [(False, em_dash)])),
     slc_interval = nullish (sli_interval sli) em_dash, slc_methods = nullish (sli_methods sli) []\<rparr>)"

definition referencingGroups :: "SloGroup list option \<Rightarrow> Slo \<Rightarrow> SloGroup list" where
  "referencingGroups groups slo = filter (\<lambda>g. sg_templateSloName g = slo_name slo \<and> sg_active g) (nullish groups [])"

definition is_generated :: "string \<Rightarrow> bool" where
  "is_generated v = includes_str v ''$__gen_''"

definition usedBySlis :: "Sli list option \<Rightarrow> Datasource \<Rightarrow> Sli list" where
  "usedBySlis slis ds = filter (\<lambda>s. sli_adapterType s = ds_adapterType ds) (nullish slis [])"

record ConfirmForm =
  cnf_reason :: string
  cnf_author :: string

definition delete_canConfirm :: "bool \<Rightarrow> bool \<Rightarrow> ConfirmForm \<Rightarrow> bool" where
  "delete_canConfirm requireReason requireAuthor f \<longleftrightarrow>
    (\<not> requireReason \<or> 0 < length (trim_str (cnf_reason f))) \<and> (\<not> requireAuthor \<or> 0 < length (trim_str (cnf_author f)))"

definition handleConfirm :: "bool \<Rightarrow> bool \<Rightarrow> bool \<Rightarrow> ConfirmForm \<Rightarrow> (string \<times> string) option" where
  "handleConfirm requireReason requireAuthor isPending f =
    (if \<not> delete_canConfirm requireReason requireAuthor f \<or> isPending then None else Some (cnf_reason f, cnf_author f))"

subsection \<open>Bindings of an asset or group\<close>

definition binding_items :: "bool \<Rightarrow> SloAssignment list option \<Rightarrow> SloAssignment list option \<Rightarrow> SloAssignment list" where
  "binding_items isGroup groupAssignments assetAssignments = nullish (if isGroup then groupAssignments else assetAssignments) []"

definition statsLine :: "bool \<Rightarrow> nat \<Rightarrow> Asset option \<Rightarrow> string" where
  "statsLine isGroup n asset = (if isGroup then ''group - '' @ show_nat n @ '' assignments''
    else let varCount = length (nullish (map_option at_variables asset) []); tagCount = length (nullish (map_option at_tags asset) [])
      in join_with '' - '' (filter (\<lambda>s. s \<noteq> []) [nullish (map_option at_typeName asset) ''asset'',
        (if 0 < varCount then show_nat varCount @ '' variables'' else []),
        (if 0 < tagCount then show_nat tagCount @ '' tags'' else [])]))"

text \<open>The request of the Unlink button of an assignment.\<close>

definition unlink_assignment :: "(Request \<Rightarrow> unit reply) \<Rightarrow> string \<Rightarrow> SloAssignment \<Rightarrow> api_error + unit" where
  "unlink_assignment net groupName a = mu_fn (useDeleteGroupSloAssignment net) (groupName, sa_sloDefinitionId a)"

definition variable_sections :: "str_obj \<Rightarrow> str_obj \<Rightarrow> str_obj \<Rightarrow> (string \<times> (string \<times> string) list) list" where
  "variable_sections assetVariables sloVariables reserved = filter (\<lambda>(_, vs). vs \<noteq> [])
    [(''asset.variables:'', Object_entries assetVariables), (''slo.variables:'', Object_entries sloVariables),
     (''reserved:'', Object_entries reserved)]"

definition breadcrumb_badges :: "string \<Rightarrow> string option \<Rightarrow> string option \<Rightarrow> bool \<Rightarrow> string \<Rightarrow> (string \<times> string option) list" where
  "breadcrumb_badges sloName sloVersion sliName sliClickable dsName =
    [(sloName, if truthy sloVersion then map_option (\<lambda>v. ''v'' @ v) sloVersion else None)]
    @ (if truthy sliName \<and> sliClickable then [(the sliName, None)] else []) @ [(dsName, None)]"

subsection \<open>The variables of an SLO group\<close>

text \<open>
  A cell of the edited table: a string, a hole left by an assignment past the end of a column, or the
  \<open>undefined\<close> that spreading makes of a hole.
\<close>

datatype var_cell = Cell string | Hole | Undef

type_synonym edit_vars = "(string, var_cell list) jsmap"

fun spread_cell :: "var_cell \<Rightarrow> var_cell" where
  "spread_cell Hole = Undef"
| "spread_cell (Cell v) = Cell v"
| "spread_cell Undef = Undef"

definition spread_cells :: "var_cell list \<Rightarrow> var_cell list" where
  "spread_cells cs = map spread_cell cs"

definition set_cell :: "nat \<Rightarrow> string \<Rightarrow> var_cell list \<Rightarrow> var_cell list" where
  "set_cell i v cs = (if i < length cs then cs[i := Cell v] else cs @ replicate (i - length cs) Hole @ [Cell v])"

definition edit_of :: "(string, string list) jsmap \<Rightarrow> edit_vars" where
  "edit_of vars = map (\<lambda>(k, vs). (k, map Cell vs)) vars"

definition editRowCount :: "edit_vars \<Rightarrow> nat" where
  "editRowCount vars = foldl max 0 (map (\<lambda>(k, cs). length cs) vars)"

definition updateCell :: "string \<Rightarrow> nat \<Rightarrow> string \<Rightarrow> edit_vars \<Rightarrow> edit_vars" where
  "updateCell k i v vars = map (\<lambda>(k', cs). (k', if k' = k then set_cell i v (spread_cells cs) else cs)) vars"

definition addRow :: "edit_vars \<Rightarrow> edit_vars" where
  "addRow vars = map (\<lambda>(k, cs). (k, spread_cells cs @ [Cell []])) vars"

definition removeRow :: "nat \<Rightarrow> edit_vars \<Rightarrow> edit_vars" where
  "removeRow i vars = map (\<lambda>(k, cs). (k, map snd (filter (\<lambda>(j, c). c \<noteq> Hole \<and> j \<noteq> i) (List.enumerate 0 cs)))) vars"

text \<open>\<open>some(v => v.trim() === '')\<close>: holes are skipped, \<open>undefined\<close> throws (\<open>None\<close>).\<close>

fun some_blank :: "var_cell list \<Rightarrow> bool option" where
  "some_blank [] = Some False"
| "some_blank (Hole # cs) = some_blank cs"
| "some_blank (Undef # cs) = None"
| "some_blank (Cell v # cs) = (if trim_str v = [] then Some True else some_blank cs)"

fun hasEmptyCells :: "edit_vars \<Rightarrow> bool option" where
  "hasEmptyCells [] = Some False"
| "hasEmptyCells ((k, cs) # vars) = (case some_blank cs of None \<Rightarrow> None
     | Some True \<Rightarrow> Some True | Some False \<Rightarrow> hasEmptyCells vars)"

fun cell_json :: "var_cell \<Rightarrow> json" where
  "cell_json (Cell v) = JStr v"
| "cell_json Hole = JNull"
| "cell_json Undef = JNull"

definition vars_json :: "edit_vars \<Rightarrow> json" where
  "vars_json vars = JObj (map (\<lambda>(k, cs). (k, JArr (map cell_json cs))) vars)"

record GroupEditor =
  ged_showDelete :: bool
  ged_showRegenerate :: bool
  ged_selectedVersion :: "int option"
  ged_editVars :: "edit_vars option"
  ged_pending :: bool
  ged_sent :: "(string \<times> json) list"

definition group_editor_mount :: GroupEditor where
  "group_editor_mount = \<lparr>ged_showDelete = False, ged_showRegenerate = False, ged_selectedVersion = None,
     ged_editVars = None, ged_pending = False, ged_sent = []\<rparr>"

definition regenerate_body :: "SloGroup \<Rightarrow> GroupEditor \<Rightarrow> json" where
  "regenerate_body grp e =
    (let vars = nullish (ged_editVars e) [];
         varsChanged = (vars_json vars \<noteq> vars_json (edit_of (sg_genVariables grp)));
         versionChanged = (ged_selectedVersion e \<noteq> None \<and> ged_selectedVersion e \<noteq> Some (sg_templateSloVersion grp))
     in json_object
       [(''template_slo_version'', if versionChanged \<and> ged_selectedVersion e \<noteq> Some 0
          then map_option json_int (ged_selectedVersion e) else None),
        (''gen_variables'', if varsChanged then Some (vars_json vars) else None)])"

definition close_editor :: "GroupEditor \<Rightarrow> GroupEditor" where
  "close_editor e = e\<lparr>ged_showRegenerate := False, ged_selectedVersion := None, ged_editVars := None\<rparr>"

datatype GroupEditorEvent =
    NewVersionClick | DeleteGroupClick | CancelDelete | PickVersion int | EditCell string nat string | AddRowClick
  | RemoveRowClick nat | Regenerate | Regenerated bool | CancelEdit

text \<open>
  The editor is shown with \<open>showRegenerate\<close> and \<open>editVars\<close>; its inputs exist for the rows below \<open>editRowCount\<close>,
  the remove buttons when there is more than one. \<open>None\<close>: the check for empty cells throws in rendering.
\<close>

definition editor_shown :: "GroupEditor \<Rightarrow> bool" where
  "editor_shown e \<longleftrightarrow> ged_showRegenerate e \<and> ged_editVars e \<noteq> None"

definition editor_vars :: "GroupEditor \<Rightarrow> edit_vars" where
  "editor_vars e = nullish (ged_editVars e) []"

definition group_editor_step :: "SloGroup \<Rightarrow> GroupEditorEvent \<Rightarrow> GroupEditor \<Rightarrow> GroupEditor option" where
  "group_editor_step grp ev e =
    (if editor_shown e \<and> hasEmptyCells (editor_vars e) = None then None
     else Some (case ev of
       NewVersionClick \<Rightarrow> e\<lparr>ged_showRegenerate := True, ged_showDelete := False, ged_editVars := Some (edit_of (sg_genVariables grp))\<rparr>
     | DeleteGroupClick \<Rightarrow> e\<lparr>ged_showDelete := True, ged_showRegenerate := False\<rparr>
     | CancelDelete \<Rightarrow> e\<lparr>ged_showDelete := False\<rparr>
     | PickVersion n \<Rightarrow> if editor_shown e then e\<lparr>ged_selectedVersion := Some n\<rparr> else e
     | EditCell k i v \<Rightarrow> if editor_shown e \<and> i < editRowCount (editor_vars e)
         then e\<lparr>ged_editVars := map_option (updateCell k i v) (ged_editVars e)\<rparr> else e
     | AddRowClick \<Rightarrow> if editor_shown e \<and> editor_vars e \<noteq> []
         then e\<lparr>ged_editVars := map_option addRow (ged_editVars e)\<rparr> else e
     | RemoveRowClick i \<Rightarrow> if editor_shown e \<and> 1 < editRowCount (editor_vars e) \<and> i < editRowCount (editor_vars e)
         then e\<lparr>ged_editVars := map_option (removeRow i) (ged_editVars e)\<rparr> else e
     | Regenerate \<Rightarrow> if editor_shown e \<and> hasEmptyCells (editor_vars e) = Some False \<and> \<not> ged_pending e
         then e\<lparr>ged_pending := True, ged_sent := ged_sent e @ [(sg_name grp, regenerate_body grp e)]\<rparr> else e
     | Regenerated ok \<Rightarrow> if \<not> ged_pending e then e
         else if ok then close_editor (e\<lparr>ged_pending := False\<rparr>) else e\<lparr>ged_pending := False\<rparr>
     | CancelEdit \<Rightarrow> if editor_shown e then close_editor e else e))"


subsection \<open>Tag filters\<close>

definition tag_bar_ok :: "TagBar \<Rightarrow> bool" where
  "tag_bar_ok b \<longleftrightarrow> distinct (tb_tags b) \<and> (tb_addStep b = PickValue \<longrightarrow> tb_pendingTagKey b = tb_selectedKey b) \<and>
    (tb_addStep b \<noteq> PickValue \<longrightarrow> tb_selectedKey b = [])"

lemma distinct_remove_nth: "distinct xs \<Longrightarrow> distinct (take i xs @ drop (Suc i) xs)"
  by (metis distinct_append distinct_drop distinct_take set_take_disj_set_drop_if_distinct le_Suc_eq order_refl)

lemma new_tag: "distinct ts \<Longrightarrow> \<not> list_ex (\<lambda>t. tf_key t = k \<and> tf_value t = v) ts \<Longrightarrow>
    distinct (ts @ [\<lparr>tf_key = k, tf_value = v\<rparr>])"
  by (auto simp: list_ex_iff)

lemma tag_bar_step_ok: "tag_bar_ok b \<Longrightarrow> tag_bar_ok (tag_bar_step e b)"
  by (cases e) (auto simp: tag_bar_ok_def tag_bar_step_def handleRemoveTag_def handleKeySelect_def handleValueSelect_def
      handleCancel_def Let_def distinct_remove_nth new_tag simp del: distinct_append)

text \<open>
  The tag filter bar never holds a filter twice, asks for the values of the key that was picked, and forgets
  the key when a filter is added or cancelled; but no filter chosen in it changes what the sidebar shows: the tree
  depends on the mode, the data and the search text only.
\<close>

lemma tag_filters_inert:
  "tag_bar_ok (fold tag_bar_step es tag_bar_mount) \<and>
   RegistrySidebar fuel d q mode \<lparr>sbs_search = text, sbs_bar = fold tag_bar_step es tag_bar_mount\<rparr> =
   RegistrySidebar fuel d q mode \<lparr>sbs_search = text, sbs_bar = tag_bar_mount\<rparr>"
proof
  show "tag_bar_ok (fold tag_bar_step es tag_bar_mount)"
    by (rule fold_invariant [where Q = "\<lambda>_. True" and P = tag_bar_ok])
      (simp_all add: tag_bar_step_ok, simp add: tag_bar_ok_def tag_bar_mount_def)
qed (simp add: RegistrySidebar_def cong: if_cong)

subsection \<open>The selection of the page\<close>

lemma render_wizard_simps [simp]:
  "rp_url (render_wizard p) = rp_url p" "rp_wizardOpen (render_wizard p) = rp_wizardOpen p"
  "rp_sloGroupFormOpen (render_wizard p) = rp_sloGroupFormOpen p"
  by (simp_all add: render_wizard_def)

lemma wizard_mounted: "rp_wizard (registry_step e p) \<noteq> None \<longleftrightarrow> rp_wizardOpen (registry_step e p)"
  by (simp add: registry_step_def render_wizard_def)

lemma updateParams_simps [simp]:
  "updateParams [] url = url"
  "updateParams ((k, None) # us) url = updateParams us (sp_delete k url)"
  "updateParams ((k, Some v) # us) url = updateParams us (sp_set k v url)"
  by (simp_all add: updateParams_def)

lemma updateParams_option: "updateParams ((k, v) # us) url =
    updateParams us (case v of None \<Rightarrow> sp_delete k url | Some x \<Rightarrow> sp_set k x url)"
  by (cases v) simp_all

lemma node_type_nonempty [simp]: "node_type_str t \<noteq> []"
  by (cases t) simp_all

lemma select_url:
  assumes "sn_name n \<noteq> []"
  shows "page_selected (updateParams [(''selected'', Some (sn_name n)), (''type'', Some (node_type_str (sn_type n))),
      (''group'', sn_groupName n)] url) =
    Some \<lparr>us_type = node_type_str (sn_type n), us_name = sn_name n, us_groupName = sn_groupName n\<rparr>"
    "sp_get (updateParams [(''selected'', Some (sn_name n)), (''type'', Some (node_type_str (sn_type n))),
      (''group'', sn_groupName n)] url) ''mode'' = sp_get url ''mode''"
  using assms by (cases "sn_groupName n"; simp add: page_selected_def sp_get_set sp_get_delete)+



text \<open>Templates and SLO groups are listed in the SLO mode only, but a link to one switches to the asset mode.\<close>

lemma template_link_mode: "targetMode NTemplate = ''asset''" "targetMode NSloGroup = ''asset''"
  by (simp_all add: targetMode_def)

text \<open>
  Choosing to create an SLO while the wizard edits another does not start anew: the wizard stays mounted with the
  fields of the edited SLO, now as a creation; closed in between, it opens empty.
\<close>

lemma create_keeps_edited_fields:
  assumes "panel_shown p" and "rp_wizard p = None"
  shows "\<exists>w. registry_content (registry_step (CreateAction ''slo'' None) (registry_step (NewSloVersion slo) p)) = Some (WizardShown w) \<and>
      wz_edit w = None \<and> wz_identity w = buildIdentityFromEdit slo \<and> wz_rows w = buildIndicatorRowsFromEdit slo"
    and "registry_content (registry_step (CreateAction ''slo'' None) (registry_step WizardClosed (registry_step (NewSloVersion slo) p))) =
      Some (WizardShown (wizard_mount None (Some ''standard'')))"
  using assms
  by (simp_all add: registry_step_def handleNewSloVersion_def handleCreateAction_def handleWizardClose_def render_wizard_def
      registry_content_def wizard_mount_def panel_shown_def)


subsection \<open>Highlighted queries\<close>

definition no_variable :: "string \<Rightarrow> bool" where
  "no_variable s \<longleftrightarrow> (\<forall>i. Suc i < length s \<longrightarrow> \<not> (s ! i = CHR ''$'' \<and> ident_start (s ! Suc i)))"

lemma no_variable_snoc2:
  "no_variable (xs @ [c]) \<Longrightarrow> \<not> (c = CHR ''$'' \<and> ident_start d) \<Longrightarrow> no_variable (xs @ [c, d])"
  unfolding no_variable_def by (auto simp: nth_append less_Suc_eq split: if_splits)

lemma no_variable_take:
  assumes "no_variable (xs @ ys)"
  shows "no_variable xs"
  unfolding no_variable_def
proof (intro allI impI)
  fix i
  assume "Suc i < length xs"
  then have "(xs @ ys) ! i = xs ! i" "(xs @ ys) ! Suc i = xs ! Suc i" "Suc i < length (xs @ ys)"
    by (simp_all add: nth_append)
  then show "\<not> (xs ! i = CHR ''$'' \<and> ident_start (xs ! Suc i))"
    using assms unfolding no_variable_def by metis
qed

lemma no_variable_short: "length s \<le> 1 \<Longrightarrow> no_variable s"
  by (auto simp: no_variable_def)

lemma token_variable:
  "s \<noteq> [] \<Longrightarrow> ident_start (hd s) \<Longrightarrow> is_variable (CHR ''$'' # takeWhile ident_char s)"
  by (cases s) (auto simp: is_variable_def ident_char_def list_all_iff dest: set_takeWhileD)

lemma split_vars_concat: "concat (split_vars acc s) = rev acc @ s"
  by (induction acc s rule: split_vars.induct) auto

lemma split_vars_parts:
  "no_variable (rev acc @ take 1 s) \<Longrightarrow> p \<in> set (split_vars acc s) \<Longrightarrow> is_variable p \<or> no_variable p"
proof (induction acc s rule: split_vars.induct)
  case (1 acc)
  then show ?case by simp
next
  case (2 acc c s)
  show ?case
  proof (cases "c = CHR ''$'' \<and> s \<noteq> [] \<and> ident_start (hd s)")
    case True
    have "no_variable (rev [] @ take 1 (dropWhile ident_char s))" by (rule no_variable_short) simp
    then show ?thesis using 2 True token_variable [of s] no_variable_take [of "rev acc" "[c]"] by auto
  next
    case False
    have "no_variable (rev (c # acc) @ take 1 s)"
      using 2(3) False no_variable_snoc2 [of "rev acc" c "hd s"] by (cases s) auto
    then show ?thesis using 2(2) [OF False] 2(4) False by auto
  qed
qed

text \<open>
  Highlighting a query loses nothing: the parts in order are the query; a part is coloured exactly when it is a
  whole variable, a dollar sign and an identifier, and no variable begins inside a part that is not coloured.
\<close>

lemma highlight_correct:
  "concat (map snd (highlightVariables q)) = q \<and>
   (\<forall>(coloured, p) \<in> set (highlightVariables q). coloured = is_variable p \<and> (coloured \<or> no_variable p))"
proof
  show "concat (map snd (highlightVariables q)) = q"
    by (simp add: highlightVariables_def comp_def split_vars_concat)
  have "no_variable (rev [] @ take 1 q)" by (rule no_variable_short) simp
  then show "\<forall>(coloured, p) \<in> set (highlightVariables q). coloured = is_variable p \<and> (coloured \<or> no_variable p)"
    using split_vars_parts [of "[]" q] by (auto simp: highlightVariables_def)
qed

theorem highlight_correct_witness:
  "concat (map snd (highlightVariables ''rate($host)'')) = ''rate($host)''"
  using highlight_correct [of "''rate($host)''"] by simp

text \<open>An objective of an indicator, with or without a method, resolves to the query of that indicator.\<close>

lemma resolve_indicator:
  "resolveIndicatorQuery i (Some inds) = (if CHR ''.'' \<in> set i then resolveIndicatorQuery i (Some inds) else js_get inds i)"
  "CHR ''.'' \<notin> set m \<Longrightarrow> js_get inds (i @ CHR ''.'' # m) = None \<Longrightarrow>
    resolveIndicatorQuery (i @ CHR ''.'' # m) (Some inds) = js_get inds i"
proof -
  show "resolveIndicatorQuery i (Some inds) = (if CHR ''.'' \<in> set i then resolveIndicatorQuery i (Some inds) else js_get inds i)"
    by (auto simp: resolveIndicatorQuery_def)
  assume m: "CHR ''.'' \<notin> set m" "js_get inds (i @ CHR ''.'' # m) = None"
  have "dropWhile (\<lambda>c. c \<noteq> CHR ''.'') (rev (i @ CHR ''.'' # m)) = CHR ''.'' # rev i"
    using m(1) dropWhile_append2 [of "rev m" "\<lambda>c. c \<noteq> CHR ''.''" "CHR ''.'' # rev i"] by auto
  then show "resolveIndicatorQuery (i @ CHR ''.'' # m) (Some inds) = js_get inds i"
    using m(2) by (simp add: resolveIndicatorQuery_def)
qed

subsection \<open>The editor of an SLO group\<close>

definition rect :: "nat \<Rightarrow> edit_vars \<Rightarrow> bool" where
  "rect n vars \<longleftrightarrow> (\<forall>(k, cs) \<in> set vars. length cs = n \<and> set cs \<subseteq> range Cell)"

lemma rect_edit_of: "\<forall>(k, vs) \<in> set vars. length vs = n \<Longrightarrow> rect n (edit_of vars)"
  by (fastforce simp: rect_def edit_of_def)

lemma spread_rect: "set cs \<subseteq> range Cell \<Longrightarrow> spread_cells cs = cs"
  by (induction cs) (auto simp: spread_cells_def)

lemma rect_rows: "rect n vars \<Longrightarrow> editRowCount vars = (if vars = [] then 0 else n)"
proof -
  have "rect n vars \<Longrightarrow> foldl max m (map (\<lambda>(k, cs). length cs) vars) = (if vars = [] then m else max m n)" for m
    by (induction vars arbitrary: m) (auto simp: rect_def)
  then show "rect n vars \<Longrightarrow> editRowCount vars = (if vars = [] then 0 else n)"
    by (simp add: editRowCount_def)
qed

lemma set_cell_rect:
  assumes "set cs \<subseteq> range Cell" and "i < length cs"
  shows "length (set_cell i v (spread_cells cs)) = length cs \<and> set (set_cell i v (spread_cells cs)) \<subseteq> range Cell"
  using assms set_update_subset_insert [of cs i "Cell v"] by (auto simp: set_cell_def spread_rect)

lemma rect_updateCell:
  assumes "rect n vars" and "i < n"
  shows "rect n (updateCell k i v vars)"
proof -
  have "length (if k' = k then set_cell i v (spread_cells cs) else cs) = n \<and>
      set (if k' = k then set_cell i v (spread_cells cs) else cs) \<subseteq> range Cell" if "(k', cs) \<in> set vars" for k' cs
  proof -
    have "length cs = n" "set cs \<subseteq> range Cell" using that assms(1) by (auto simp: rect_def)
    then show ?thesis using assms(2) set_cell_rect [of cs i v] by simp
  qed
  then show ?thesis by (force simp: rect_def updateCell_def)
qed

lemma rect_addRow: "rect n vars \<Longrightarrow> rect (Suc n) (addRow vars)"
  unfolding rect_def addRow_def by (fastforce simp: spread_rect)

lemma filter_enumerate_length:
  "length (filter (\<lambda>(j, c). j \<noteq> i) (List.enumerate m cs)) =
    (if m \<le> i \<and> i < m + length cs then length cs - 1 else length cs)"
  by (induction cs arbitrary: m) auto

lemma rect_removeRow: "rect n vars \<Longrightarrow> i < n \<Longrightarrow> rect (n - 1) (removeRow i vars)"
proof -
  assume r: "rect n vars" "i < n"
  have "length (filter (\<lambda>(j, c). c \<noteq> Hole \<and> j \<noteq> i) (List.enumerate 0 cs)) = n - 1 \<and>
      set (map snd (filter (\<lambda>(j, c). c \<noteq> Hole \<and> j \<noteq> i) (List.enumerate 0 cs))) \<subseteq> range Cell"
    if "(k, cs) \<in> set vars" for k cs
  proof -
    have cs: "length cs = n" "set cs \<subseteq> range Cell" using r(1) that by (auto simp: rect_def)
    have "filter (\<lambda>(j, c). c \<noteq> Hole \<and> j \<noteq> i) (List.enumerate 0 cs) = filter (\<lambda>(j, c). j \<noteq> i) (List.enumerate 0 cs)"
    proof (rule filter_cong [OF refl])
      fix x
      assume "x \<in> set (List.enumerate 0 cs)"
      then have "snd x \<in> set cs" by (metis (no_types) enumerate_eq_zip in_set_zipE prod.collapse)
      then have "snd x \<noteq> Hole" using cs(2) by auto
      then show "(case x of (j, c) \<Rightarrow> c \<noteq> Hole \<and> j \<noteq> i) \<longleftrightarrow> (case x of (j, c) \<Rightarrow> j \<noteq> i)"
        by (cases x) simp
    qed
    moreover have "set (map snd (filter (\<lambda>(j, c). j \<noteq> i) (List.enumerate 0 cs))) \<subseteq> set cs"
      by (auto simp: in_set_enumerate_eq)
    ultimately show ?thesis using cs r(2) by (auto simp: filter_enumerate_length)
  qed
  then show ?thesis by (force simp: rect_def removeRow_def)
qed

lemma rect_some_blank: "set cs \<subseteq> range Cell \<Longrightarrow> some_blank cs \<noteq> None"
  by (induction cs) auto

lemma rect_hasEmptyCells: "rect n vars \<Longrightarrow> hasEmptyCells vars \<noteq> None"
proof (induction vars)
  case (Cons e vars)
  obtain k cs where e: "e = (k, cs)" by (cases e)
  have "some_blank cs \<noteq> None" "hasEmptyCells vars \<noteq> None"
    using Cons e rect_some_blank [of cs] by (auto simp: rect_def)
  then show ?case by (cases "some_blank cs") (auto simp: e split: bool.split)
qed simp

text \<open>No cell of the requested variables is blank.\<close>

definition filled :: "edit_vars \<Rightarrow> bool" where
  "filled vars \<longleftrightarrow> (\<forall>(k, cs) \<in> set vars. \<forall>c \<in> set cs. \<exists>v. c = Cell v \<and> trim_str v \<noteq> [])"

definition body_ok :: "SloGroup \<Rightarrow> json \<Rightarrow> bool" where
  "body_ok grp body \<longleftrightarrow> (\<forall>j. json_field body ''gen_variables'' = Some j \<longrightarrow>
    (\<exists>n vars. j = vars_json vars \<and> rect n vars \<and> filled vars \<and> map fst vars = map fst (sg_genVariables grp) \<and>
       vars \<noteq> edit_of (sg_genVariables grp)))"

definition editor_ok :: "SloGroup \<Rightarrow> GroupEditor \<Rightarrow> bool" where
  "editor_ok grp e \<longleftrightarrow> (\<forall>vars. ged_editVars e = Some vars \<longrightarrow>
      (\<exists>n. rect n vars) \<and> map fst vars = map fst (sg_genVariables grp)) \<and>
    (\<forall>(name, body) \<in> set (ged_sent e). name = sg_name grp \<and> body_ok grp body)"

lemma some_blank_filled: "some_blank cs = Some False \<Longrightarrow> set cs \<subseteq> range Cell \<Longrightarrow> c \<in> set cs \<Longrightarrow>
    \<exists>v. c = Cell v \<and> trim_str v \<noteq> []"
  by (induction cs) (auto split: if_splits)

lemma hasEmptyCells_filled: "hasEmptyCells vars = Some False \<Longrightarrow> rect n vars \<Longrightarrow> filled vars"
proof (induction vars)
  case (Cons e vars)
  obtain k cs where e: "e = (k, cs)" by (cases e)
  have b: "some_blank cs = Some False" "hasEmptyCells vars = Some False"
    using Cons.prems(1) by (auto simp: e split: option.splits bool.splits)
  moreover have "rect n vars" "set cs \<subseteq> range Cell" using Cons.prems(2) by (auto simp: rect_def e)
  ultimately show ?case using Cons.IH some_blank_filled [of cs] by (simp add: filled_def e)
qed (simp add: filled_def)

lemma body_of_editor:
  assumes "rect n vars" and "filled vars" and "map fst vars = map fst (sg_genVariables grp)" and "ged_editVars e = Some vars"
  shows "body_ok grp (regenerate_body grp e)"
proof -
  have "json_field (regenerate_body grp e) ''gen_variables'' =
      (if vars_json vars \<noteq> vars_json (edit_of (sg_genVariables grp)) then Some (vars_json vars) else None)"
    using assms(4)
    by (cases "ged_selectedVersion e") (simp_all add: regenerate_body_def Let_def json_object_def json_field_def List.map_filter_def)
  then show ?thesis using assms(1-3) by (auto simp: body_ok_def)
qed

lemma map_fst_keys [simp]:
  "map fst (updateCell k i v vars) = map fst vars" "map fst (addRow vars) = map fst vars"
  "map fst (removeRow i vars) = map fst vars" "map fst (edit_of vs) = map fst vs"
  by (simp_all add: updateCell_def addRow_def removeRow_def edit_of_def comp_def case_prod_unfold)

lemma editor_step_ok:
  assumes "editor_ok grp e" and "\<forall>(k, vs) \<in> set (sg_genVariables grp). length vs = m"
  shows "\<exists>e'. group_editor_step grp ev e = Some e' \<and> editor_ok grp e'"
proof -
  have empty: "hasEmptyCells (editor_vars e) \<noteq> None" if "editor_shown e"
    using that assms(1) rect_hasEmptyCells by (auto simp: editor_shown_def editor_vars_def editor_ok_def)
  have fresh: "rect m (edit_of (sg_genVariables grp))" by (rule rect_edit_of [OF assms(2)])
  show ?thesis
  proof (cases "ged_editVars e")
    case None
    then have "\<not> editor_shown e" by (simp add: editor_shown_def)
    then show ?thesis using assms(1) fresh None
      by (cases ev) (auto simp: group_editor_step_def editor_ok_def close_editor_def)
  next
    case (Some vars)
    then obtain n where n: "rect n vars" and keys: "map fst vars = map fst (sg_genVariables grp)"
      and sent: "\<forall>(name, body) \<in> set (ged_sent e). name = sg_name grp \<and> body_ok grp body"
      using assms(1) by (auto simp: editor_ok_def)
    have rows: "i < editRowCount vars \<Longrightarrow> i < n" for i using rect_rows [OF n] by (auto split: if_splits)
    have e': "editor_vars e = vars" using Some by (simp add: editor_vars_def)
    show ?thesis
    proof (cases ev)
      case (EditCell k i v)
      then show ?thesis using n keys sent rows [of i] empty rect_updateCell [OF n, of i k v] Some e'
        by (auto simp: group_editor_step_def editor_ok_def)
    next
      case AddRowClick
      then show ?thesis using n keys sent empty rect_addRow [OF n] Some e'
        by (auto simp: group_editor_step_def editor_ok_def)
    next
      case (RemoveRowClick i)
      then show ?thesis using n keys sent rows [of i] empty rect_removeRow [OF n, of i] Some e'
        by (auto simp: group_editor_step_def editor_ok_def)
    next
      case Regenerate
      have "body_ok grp (regenerate_body grp e)" if "hasEmptyCells vars = Some False"
        using body_of_editor [OF n hasEmptyCells_filled [OF that n] keys Some] .
      then show ?thesis using Regenerate n keys sent empty Some e'
        by (auto simp: group_editor_step_def editor_ok_def)
    qed (use n keys sent empty fresh Some e' in \<open>auto simp: group_editor_step_def editor_ok_def close_editor_def\<close>)
  qed
qed

text \<open>Runs of the editor; each event happens while the view shows some group. \<open>None\<close>: rendering has thrown.\<close>

definition editor_run :: "(SloGroup \<times> GroupEditorEvent) list \<Rightarrow> GroupEditor option" where
  "editor_run es = foldl (\<lambda>e (grp, ev). Option.bind e (group_editor_step grp ev)) (Some group_editor_mount) es"

lemma editor_run_ok:
  assumes "\<forall>(k, vs) \<in> set (sg_genVariables grp). length vs = m"
  shows "\<exists>e. editor_run (map (Pair grp) es) = Some e \<and> editor_ok grp e"
proof (induction es rule: rev_induct)
  case Nil
  show ?case by (simp add: editor_run_def group_editor_mount_def editor_ok_def)
next
  case (snoc ev es)
  then obtain e where "editor_run (map (Pair grp) es) = Some e" "editor_ok grp e" by blast
  then show ?case using editor_step_ok [OF _ assms, of e ev] by (auto simp: editor_run_def)
qed


definition demo_group :: "string \<Rightarrow> string list \<Rightarrow> SloGroup" where
  "demo_group n hosts = \<lparr>sg_id = n, sg_name = n, sg_displayName = None, sg_templateSloName = ''t'', sg_templateSloVersion = 1,
    sg_genVariables = [(''host'', hosts)], sg_tags = [], sg_author = None, sg_version = 1, sg_active = True,
    sg_createdAt = Some 0, sg_updatedAt = Some 0, sg_generatedSloCount = 1\<rparr>"


text \<open>
  The view of another group is the same component in the same place: edits begun on one group are sent for the
  other when its view is opened in between.
\<close>

lemma group_edits_leak:
  assumes "hasEmptyCells (edit_of (sg_genVariables a)) = Some False"
    and "vars_json (edit_of (sg_genVariables a)) \<noteq> vars_json (edit_of (sg_genVariables b))"
  shows "\<exists>e. editor_run [(a, NewVersionClick), (b, Regenerate)] = Some e \<and>
    ged_sent e = [(sg_name b, json_object [(''template_slo_version'', None),
      (''gen_variables'', Some (vars_json (edit_of (sg_genVariables a))))])]"
  using assms
  by (simp add: editor_run_def group_editor_step_def group_editor_mount_def editor_shown_def editor_vars_def
      regenerate_body_def)

text \<open>Unlinking an assignment of the asset itself deletes the assignment of the group it was reached through.\<close>

lemma unlink_targets_group:
  "unlink_assignment net g a = unlink_assignment net g (a\<lparr>sa_assetId := None, sa_assetGroupId := Some i\<rparr>)"
  "unlink_assignment net g a = deleteGroupSloAssignment net g (sa_sloDefinitionId a)"
  by (simp_all add: unlink_assignment_def useDeleteGroupSloAssignment_def mutation_def)

end
