(* ===== verification/AssetTreeView.thy ===== *)
theory AssetTreeView
  imports UiState RegistryForms
begin

text \<open>
  The tree of asset groups (\<open>components/AssetTree/\<close>): its rows under a filter, the context menu, the inline rename and
  the state of the tree with its dialogs, and the group selector of the asset dialogs
  (\<open>assets/components/GroupTreeSelector.tsx\<close>). Following subgroups has fuel, as in \<open>NavigatorView\<close>; \<open>None\<close> is
  a recursion that has not ended.
\<close>

subsection \<open>Filtering\<close>

datatype TreeMode = NavigatorMode | SloMode | AssetsMode

definition shows_members :: "TreeMode \<Rightarrow> bool" where
  "shows_members m \<longleftrightarrow> m = NavigatorMode \<or> m = AssetsMode"

definition member_matches :: "string \<Rightarrow> AssetGroupMember \<Rightarrow> bool" where
  "member_matches q m \<longleftrightarrow> includes_str (toLowerCase (gm_assetName m)) q \<or>
    (case gm_assetDisplayName m of None \<Rightarrow> False | Some d \<Rightarrow> includes_str (toLowerCase d) q)"

definition tree_group_label :: "AssetGroup \<Rightarrow> string" where
  "tree_group_label g = nullish (ag_displayName g) (ag_name g)"

definition own_match :: "string \<Rightarrow> TreeMode \<Rightarrow> AssetGroup \<Rightarrow> bool" where
  "own_match q m g \<longleftrightarrow> includes_str (toLowerCase (tree_group_label g)) q \<or>
    (shows_members m \<and> list_ex (member_matches q) (ag_members g))"

text \<open>\<open>some\<close> stops at the first match.\<close>

fun some_lazy :: "('a \<Rightarrow> bool option) \<Rightarrow> 'a list \<Rightarrow> bool option" where
  "some_lazy p [] = Some False"
| "some_lazy p (x # xs) = (case p x of None \<Rightarrow> None | Some True \<Rightarrow> Some True | Some False \<Rightarrow> some_lazy p xs)"

fun matchesFilter :: "AssetGroupTree \<Rightarrow> string \<Rightarrow> TreeMode \<Rightarrow> nat \<Rightarrow> AssetGroup \<Rightarrow> bool option" where
  "matchesFilter tree flt m 0 g = None"
| "matchesFilter tree flt m (Suc n) g =
    (if flt = [] then Some True
     else if own_match (toLowerCase flt) m g then Some True
     else some_lazy (matchesFilter tree flt m n) (resolved_subgroups tree g))"

definition filteredMembers :: "TreeMode \<Rightarrow> string \<Rightarrow> AssetGroup \<Rightarrow> AssetGroupMember list" where
  "filteredMembers m flt g = (if shows_members m
     then (if flt \<noteq> [] then filter (member_matches (toLowerCase flt)) (ag_members g) else ag_members g) else [])"

subsection \<open>Rows\<close>

record TreeProps =
  tv_mode :: TreeMode
  tv_filter :: string
  tv_selectedGroup :: "string option"
  tv_selectedAsset :: "string option"
  tv_expanded :: "string list"
  tv_renaming :: "string option"

record GroupTreeRow =
  gtr_label :: string
  gtr_color :: string
  gtr_depth :: nat
  gtr_expandable :: bool
  gtr_expanded :: bool
  gtr_selected :: bool
  gtr_count :: "nat option"

record AssetTreeRow =
  atr_name :: string
  atr_assetId :: string
  atr_label :: string
  atr_type :: string
  atr_depth :: nat
  atr_selected :: bool

text \<open>A row with the group it belongs to; the group being renamed shows an input in place of its row.\<close>

datatype tree_row = GroupNodeRow string GroupTreeRow | RenameRow string nat string | MemberRow string AssetTreeRow

definition useSloLinkCounts :: "(string, nat) jsmap" where
  "useSloLinkCounts = []"

definition node_count :: "TreeMode \<Rightarrow> AssetGroupTree \<Rightarrow> nat \<Rightarrow> AssetGroup \<Rightarrow> nat option" where
  "node_count m tree n g = (if m = NavigatorMode then countLeafMembers tree n g
     else Some (nullish (js_get useSloLinkCounts (ag_name g)) 0))"

definition is_expanded :: "TreeProps \<Rightarrow> AssetGroup \<Rightarrow> bool" where
  "is_expanded v g \<longleftrightarrow> ag_name g \<in> set (tv_expanded v) \<or> tv_filter v \<noteq> []"

definition group_row :: "TreeProps \<Rightarrow> AssetGroupTree \<Rightarrow> nat \<Rightarrow> AssetGroup \<Rightarrow> nat \<Rightarrow> tree_row" where
  "group_row v tree depth g n =
    (if tv_renaming v = Some (ag_name g) then RenameRow (ag_name g) depth (tree_group_label g)
     else GroupNodeRow (ag_name g)
       \<lparr>gtr_label = tree_group_label g, gtr_color = nullish (ag_color g) ''var(--entity-group)'', gtr_depth = depth,
        gtr_expandable = (resolved_subgroups tree g \<noteq> [] \<or> filteredMembers (tv_mode v) (tv_filter v) g \<noteq> []),
        gtr_expanded = is_expanded v g, gtr_selected = (tv_selectedGroup v = Some (ag_name g)),
        gtr_count = (if 0 < n then Some n else None)\<rparr>)"

definition member_row :: "TreeProps \<Rightarrow> nat \<Rightarrow> AssetGroup \<Rightarrow> AssetGroupMember \<Rightarrow> tree_row" where
  "member_row v depth g m = MemberRow (ag_name g)
    \<lparr>atr_name = gm_assetName m, atr_assetId = gm_assetId m, atr_label = nullish (gm_assetDisplayName m) (gm_assetName m),
     atr_type = gm_assetTypeName m, atr_depth = depth + 1,
     atr_selected = (tv_selectedAsset v = Some (gm_assetName m) \<and> tv_selectedGroup v = Some (ag_name g))\<rparr>"

text \<open>The match is \<open>Some True\<close> where \<open>is_expanded\<close> is read.\<close>

fun AssetTreeNode :: "TreeProps \<Rightarrow> AssetGroupTree \<Rightarrow> nat \<Rightarrow> nat \<Rightarrow> AssetGroup \<Rightarrow> tree_row list option" where
  "AssetTreeNode v tree 0 depth g = None"
| "AssetTreeNode v tree (Suc n) depth g =
    (case matchesFilter tree (tv_filter v) (tv_mode v) (Suc n) g of
       None \<Rightarrow> None
     | Some False \<Rightarrow> Some []
     | Some True \<Rightarrow> (case node_count (tv_mode v) tree (Suc n) g of
         None \<Rightarrow> None
       | Some c \<Rightarrow>
           if is_expanded v g
           then map_option (\<lambda>subs. group_row v tree depth g c # concat subs
                  @ map (member_row v depth g) (filteredMembers (tv_mode v) (tv_filter v) g))
                (those (map (AssetTreeNode v tree n (depth + 1)) (resolved_subgroups tree g)))
           else Some [group_row v tree depth g c]))"

definition totalCount :: "TreeMode \<Rightarrow> nat \<Rightarrow> AssetGroupTree option \<Rightarrow> nat option" where
  "totalCount m n tree = (case tree of None \<Rightarrow> Some 0
    | Some t \<Rightarrow> if m = NavigatorMode
        then map_option (\<lambda>cs. foldl (+) 0 cs) (those (map (countLeafMembers t n) (agt_topLevel t)))
        else Some (foldl (+) 0 (map snd useSloLinkCounts)))"

subsection \<open>The context menu\<close>

datatype TargetType = GroupTarget | AssetTarget

record ContextMenuState =
  cms_x :: int
  cms_y :: int
  cms_type :: TargetType
  cms_target :: TreeTarget

record MenuItemDef =
  mid_label :: string
  mid_action :: string
  mid_disabled :: bool
  mid_modes :: "TreeMode list option"

definition menu_item :: "string \<Rightarrow> string \<Rightarrow> MenuItemDef" where
  "menu_item label action = \<lparr>mid_label = label, mid_action = action, mid_disabled = False, mid_modes = None\<rparr>"

definition GROUP_MENU_ITEMS :: "MenuItemDef list" where
  "GROUP_MENU_ITEMS = [menu_item ''Rename'' ''rename'', menu_item (''Edit details'' @ ellipsis) ''editDetails'',
    menu_item ''Add subgroup'' ''addSubgroup'',
    (menu_item ''Add asset to group'' ''addAssetToGroup'')\<lparr>mid_modes := Some [NavigatorMode, AssetsMode]\<rparr>,
    (menu_item (''Link SLO'' @ ellipsis) ''linkSlo'')\<lparr>mid_modes := Some [SloMode]\<rparr>,
    (menu_item (''Move to'' @ ellipsis @ '' (coming soon)'') ''moveGroup'')\<lparr>mid_disabled := True\<rparr>,
    (menu_item ''Duplicate group (coming soon)'' ''duplicateGroup'')\<lparr>mid_disabled := True\<rparr>,
    menu_item ''Delete group'' ''deleteGroup'']"

definition ASSET_MENU_ITEMS :: "MenuItemDef list" where
  "ASSET_MENU_ITEMS = [menu_item ''View evaluations'' ''viewEvaluations'',
    (menu_item (''Move to group'' @ ellipsis @ '' (coming soon)'') ''moveGroup'')\<lparr>mid_disabled := True\<rparr>,
    menu_item ''Remove from group'' ''removeFromGroup'', menu_item (''Edit asset'' @ ellipsis) ''editAsset'',
    menu_item ''Delete asset'' ''deleteAsset'']"

definition menu_visible :: "TreeMode \<Rightarrow> ContextMenuState \<Rightarrow> MenuItemDef list" where
  "menu_visible m st = filter (\<lambda>i. case mid_modes i of None \<Rightarrow> True | Some ms \<Rightarrow> m \<in> set ms)
    (if cms_type st = GroupTarget then GROUP_MENU_ITEMS else ASSET_MENU_ITEMS)"

definition menu_position :: "int \<Rightarrow> int \<Rightarrow> TreeMode \<Rightarrow> ContextMenuState \<Rightarrow> int \<times> int" where
  "menu_position innerWidth innerHeight m st =
    (min (cms_x st) (innerWidth - 240 - 8),
     min (cms_y st) (innerHeight - (int (length (menu_visible m st)) * 34 + 16) - 8))"

text \<open>The menus of a group's row and of a member's row.\<close>

definition openGroupMenu :: "int \<Rightarrow> int \<Rightarrow> AssetGroup \<Rightarrow> ContextMenuState" where
  "openGroupMenu x y g = \<lparr>cms_x = x, cms_y = y, cms_type = GroupTarget,
    cms_target = \<lparr>tt_name = ag_name g, tt_groupName = None, tt_assetId = None\<rparr>\<rparr>"

definition openAssetMenu :: "int \<Rightarrow> int \<Rightarrow> AssetGroup \<Rightarrow> AssetGroupMember \<Rightarrow> ContextMenuState" where
  "openAssetMenu x y g m = \<lparr>cms_x = x, cms_y = y, cms_type = AssetTarget,
    cms_target = \<lparr>tt_name = gm_assetName m, tt_groupName = Some (ag_name g), tt_assetId = Some (gm_assetId m)\<rparr>\<rparr>"

definition rename_save :: "string \<Rightarrow> string \<Rightarrow> string option" where
  "rename_save currentName value = (let trimmed = trim_str value in
    if trimmed \<noteq> [] \<and> trimmed \<noteq> currentName then Some trimmed else None)"

subsection \<open>The state of the tree\<close>

record DialogState =
  dst_createDialogOpen :: bool
  dst_editingGroupName :: "string option"
  dst_deletingGroupName :: "string option"
  dst_linkingGroupName :: "string option"
  dst_typesDialogOpen :: bool
  dst_addAssetGroupName :: "string option"
  dst_editingAssetName :: "string option"

definition useDialogState :: DialogState where
  "useDialogState = \<lparr>dst_createDialogOpen = False, dst_editingGroupName = None, dst_deletingGroupName = None,
    dst_linkingGroupName = None, dst_typesDialogOpen = False, dst_addAssetGroupName = None, dst_editingAssetName = None\<rparr>"

record TreeState =
  ats_filter :: string
  ats_expanded :: "string list"
  ats_contextMenu :: "ContextMenuState option"
  ats_renaming :: "string option"
  ats_bulkMenuOpen :: bool
  ats_dialogs :: DialogState

definition tree_mount :: TreeState where
  "tree_mount = \<lparr>ats_filter = [], ats_expanded = [], ats_contextMenu = None, ats_renaming = None,
    ats_bulkMenuOpen = False, ats_dialogs = useDialogState\<rparr>"

text \<open>Which callbacks the parent gave, and the calls of the parent and the requests a step makes.\<close>

record TreeExternals =
  ext_createGroup :: bool
  ext_editGroup :: bool
  ext_deleteGroup :: bool
  ext_addSloLink :: bool
  ext_selectAsset :: bool

datatype tree_call =
    CallCreateGroup | CallEditGroup string | CallDeleteGroup string | CallAddSloLink string
  | CallSelectGroup "string option" | CallSelectAsset string string
  | RequestRename string string | RequestRemoveMember string string | RequestDeleteAsset string

definition update_dialog :: "(DialogState \<Rightarrow> DialogState) \<Rightarrow> TreeState \<Rightarrow> TreeState" where
  "update_dialog f s = s\<lparr>ats_dialogs := f (ats_dialogs s)\<rparr>"

definition handleCreateGroup :: "TreeExternals \<Rightarrow> string option \<Rightarrow> TreeState \<Rightarrow> TreeState \<times> tree_call list" where
  "handleCreateGroup x parentName s = (if ext_createGroup x then (s, [CallCreateGroup])
    else (update_dialog (\<lambda>d. d\<lparr>dst_createDialogOpen := True\<rparr>) s, []))"

definition apply_effect :: "TreeExternals \<Rightarrow> TreeEffect \<Rightarrow> TreeState \<Rightarrow> TreeState \<times> tree_call list" where
  "apply_effect x e s = (case e of
      StartRename n \<Rightarrow> (s\<lparr>ats_renaming := Some n\<rparr>, [])
    | EditGroup n \<Rightarrow> if ext_editGroup x then (s, [CallEditGroup n])
        else (update_dialog (\<lambda>d. d\<lparr>dst_editingGroupName := Some n\<rparr>) s, [])
    | CreateGroup n \<Rightarrow> handleCreateGroup x (Some n) s
    | AddSloLink n \<Rightarrow> if ext_addSloLink x then (s, [CallAddSloLink n])
        else (update_dialog (\<lambda>d. d\<lparr>dst_linkingGroupName := Some n\<rparr>) s, [])
    | DeleteGroup n \<Rightarrow> if ext_deleteGroup x then (s, [CallDeleteGroup n])
        else (update_dialog (\<lambda>d. d\<lparr>dst_deletingGroupName := Some n\<rparr>) s, [])
    | SelectAsset n g \<Rightarrow> (s, [CallSelectAsset n g])
    | AddAssetToGroup n \<Rightarrow> (update_dialog (\<lambda>d. d\<lparr>dst_addAssetGroupName := Some n\<rparr>) s, [])
    | EditAsset n \<Rightarrow> (update_dialog (\<lambda>d. d\<lparr>dst_editingAssetName := Some n\<rparr>) s, [])
    | RemoveMember g a \<Rightarrow> (s, [RequestRemoveMember g a])
    | DeleteAsset n \<Rightarrow> (s, [RequestDeleteAsset n]))"

definition tree_callbacks :: "TreeExternals \<Rightarrow> ActionCallbacks" where
  "tree_callbacks x = \<lparr>acb_onAddSloLink = True, acb_onAddAssetToGroup = True, acb_onEditAsset = True,
    acb_onSelectAsset = ext_selectAsset x\<rparr>"

definition tree_menu_click :: "TreeExternals \<Rightarrow> ContextMenuState \<Rightarrow> MenuItemDef \<Rightarrow> TreeState \<Rightarrow> TreeState \<times> tree_call list" where
  "tree_menu_click x st i s = (if mid_disabled i then (s, [])
    else (let (s1, cs) = (case tree_dispatch (tree_callbacks x) (mid_action i) (cms_target st) of
              None \<Rightarrow> (s, []) | Some e \<Rightarrow> apply_effect x e s)
          in (s1\<lparr>ats_contextMenu := None\<rparr>, cs)))"

definition toggle_name :: "string \<Rightarrow> string list \<Rightarrow> string list" where
  "toggle_name n xs = (if n \<in> set xs then removeAll n xs else xs @ [n])"

datatype TreeEvent =
    TypeFilter string | ToggleExpand string | ClickGroup string | ClickMember string string | ClickAll | ClickUngrouped
  | OpenContextMenu ContextMenuState | ClickMenuItem MenuItemDef | CloseContextMenu
  | DoubleClickGroup string | SaveRename string string string | CancelRename
  | NewGroupButton | ToggleBulkMenu | ExpandAll | CollapseAll | ManageTypes
  | CloseCreate | CloseEdit | CloseDelete | CloseLink | CloseTypes | CloseAddAsset | CloseEditAsset | GroupDeleted

text \<open>\<open>SaveRename\<close> carries the group of the input, the name it was opened with and its text.\<close>

definition tree_step ::
    "TreeMode \<Rightarrow> TreeExternals \<Rightarrow> AssetGroupTree option \<Rightarrow> string option \<Rightarrow> TreeEvent \<Rightarrow> TreeState \<Rightarrow> TreeState \<times> tree_call list" where
  "tree_step m x tree selectedGroup ev s = (case ev of
      TypeFilter v \<Rightarrow> (s\<lparr>ats_filter := v\<rparr>, [])
    | ToggleExpand n \<Rightarrow> (s\<lparr>ats_expanded := toggle_name n (ats_expanded s)\<rparr>, [])
    | ClickGroup n \<Rightarrow> (s\<lparr>ats_expanded := toggle_name n (ats_expanded s)\<rparr>, [CallSelectGroup (Some n)])
    | ClickMember n g \<Rightarrow> (s, if ext_selectAsset x then [CallSelectAsset n g] else [])
    | ClickAll \<Rightarrow> (s, [CallSelectGroup None])
    | ClickUngrouped \<Rightarrow> (s, [CallSelectGroup (Some ''__ungrouped__'')])
    | OpenContextMenu st \<Rightarrow> (s\<lparr>ats_contextMenu := Some st\<rparr>, [])
    | ClickMenuItem i \<Rightarrow> (case ats_contextMenu s of None \<Rightarrow> (s, [])
        | Some st \<Rightarrow> if i \<in> set (menu_visible m st) then tree_menu_click x st i s else (s, []))
    | CloseContextMenu \<Rightarrow> (s\<lparr>ats_contextMenu := None\<rparr>, [])
    | DoubleClickGroup n \<Rightarrow> (s\<lparr>ats_renaming := Some n\<rparr>, [])
    | SaveRename n current v \<Rightarrow> if ats_renaming s \<noteq> Some n then (s, [])
        else (s\<lparr>ats_renaming := None\<rparr>, case rename_save current v of None \<Rightarrow> [] | Some t \<Rightarrow> [RequestRename n t])
    | CancelRename \<Rightarrow> (s\<lparr>ats_renaming := None\<rparr>, [])
    | NewGroupButton \<Rightarrow> handleCreateGroup x None s
    | ToggleBulkMenu \<Rightarrow> (s\<lparr>ats_bulkMenuOpen := \<not> ats_bulkMenuOpen s\<rparr>, [])
    | ExpandAll \<Rightarrow> (case tree of None \<Rightarrow> (s, [])
        | Some t \<Rightarrow> (s\<lparr>ats_expanded := uniq (map ag_name (agt_allGroups t)), ats_bulkMenuOpen := False\<rparr>, []))
    | CollapseAll \<Rightarrow> (s\<lparr>ats_expanded := [], ats_bulkMenuOpen := False\<rparr>, [])
    | ManageTypes \<Rightarrow> if shows_members m
        then ((update_dialog (\<lambda>d. d\<lparr>dst_typesDialogOpen := True\<rparr>) s)\<lparr>ats_bulkMenuOpen := False\<rparr>, []) else (s, [])
    | CloseCreate \<Rightarrow> (update_dialog (\<lambda>d. d\<lparr>dst_createDialogOpen := False\<rparr>) s, [])
    | CloseEdit \<Rightarrow> (update_dialog (\<lambda>d. d\<lparr>dst_editingGroupName := None\<rparr>) s, [])
    | CloseDelete \<Rightarrow> (update_dialog (\<lambda>d. d\<lparr>dst_deletingGroupName := None\<rparr>) s, [])
    | CloseLink \<Rightarrow> (update_dialog (\<lambda>d. d\<lparr>dst_linkingGroupName := None\<rparr>) s, [])
    | CloseTypes \<Rightarrow> (update_dialog (\<lambda>d. d\<lparr>dst_typesDialogOpen := False\<rparr>) s, [])
    | CloseAddAsset \<Rightarrow> (update_dialog (\<lambda>d. d\<lparr>dst_addAssetGroupName := None\<rparr>) s, [])
    | CloseEditAsset \<Rightarrow> (update_dialog (\<lambda>d. d\<lparr>dst_editingAssetName := None\<rparr>) s, [])
    | GroupDeleted \<Rightarrow> (update_dialog (\<lambda>d. d\<lparr>dst_deletingGroupName := None\<rparr>) s,
        if dst_deletingGroupName (ats_dialogs s) = selectedGroup then [CallSelectGroup None] else []))"

subsection \<open>The group selector\<close>

record SelectorRow =
  slr_name :: string
  slr_label :: string
  slr_depth :: nat
  slr_hasChildren :: bool
  slr_expanded :: bool
  slr_selected :: bool

definition selector_row :: "AssetGroupTree \<Rightarrow> string option \<Rightarrow> string list \<Rightarrow> nat \<Rightarrow> AssetGroup \<Rightarrow> SelectorRow" where
  "selector_row tree value expandedSet depth g = \<lparr>slr_name = ag_name g, slr_label = tree_group_label g, slr_depth = depth,
    slr_hasChildren = (resolved_subgroups tree g \<noteq> []), slr_expanded = (ag_name g \<in> set expandedSet),
    slr_selected = (value = Some (ag_name g))\<rparr>"

fun GroupNode ::
    "AssetGroupTree \<Rightarrow> string option \<Rightarrow> string list \<Rightarrow> string option \<Rightarrow> nat \<Rightarrow> nat \<Rightarrow> AssetGroup \<Rightarrow> SelectorRow list option" where
  "GroupNode tree value expandedSet excludeName 0 depth g = None"
| "GroupNode tree value expandedSet excludeName (Suc n) depth g =
    (if excludeName = Some (ag_name g) then Some []
     else if ag_name g \<in> set expandedSet
     then map_option (\<lambda>subs. selector_row tree value expandedSet depth g # concat subs)
       (those (map (GroupNode tree value expandedSet excludeName n (depth + 1)) (resolved_subgroups tree g)))
     else Some [selector_row tree value expandedSet depth g])"

definition selector_mount :: "AssetGroupTree \<Rightarrow> string list" where
  "selector_mount tree = uniq (map ag_name (agt_allGroups tree))"

definition GroupTreeSelector ::
    "nat \<Rightarrow> AssetGroupTree \<Rightarrow> string option \<Rightarrow> string list \<Rightarrow> string option \<Rightarrow> SelectorRow list option" where
  "GroupTreeSelector n tree value expandedSet excludeName =
    map_option concat (those (map (GroupNode tree value expandedSet excludeName n 0) (agt_topLevel tree)))"

subsection \<open>Matching\<close>

lemma some_lazy_sound:
  "some_lazy p xs = Some b \<Longrightarrow>
    (b \<longrightarrow> (\<exists>x \<in> set xs. p x = Some True)) \<and> (\<not> b \<longrightarrow> (\<forall>x \<in> set xs. p x = Some False))"
proof (induction xs)
  case (Cons x xs)
  show ?case
  proof (cases "p x")
    case (Some c)
    then show ?thesis using Cons by (cases c) auto
  qed (use Cons.prems in simp)
qed simp

lemma some_lazy_returns: "\<forall>x \<in> set xs. p x \<noteq> None \<Longrightarrow> some_lazy p xs \<noteq> None"
  by (induction xs) (auto split: option.splits bool.splits)

lemma some_lazy_mono:
  "some_lazy p xs = Some b \<Longrightarrow> (\<And>x c. x \<in> set xs \<Longrightarrow> p x = Some c \<Longrightarrow> q x = Some c) \<Longrightarrow> some_lazy q xs = Some b"
  by (induction xs) (auto split: option.splits bool.splits)

definition some_match :: "AssetGroupTree \<Rightarrow> string \<Rightarrow> TreeMode \<Rightarrow> AssetGroup \<Rightarrow> bool" where
  "some_match tree flt m g \<longleftrightarrow> flt = [] \<or> (\<exists>h. reaches (resolved_subgroups tree) g h \<and> own_match (toLowerCase flt) m h)"

lemma some_match_unfold:
  "flt \<noteq> [] \<Longrightarrow> some_match tree flt m g \<longleftrightarrow> own_match (toLowerCase flt) m g
    \<or> (\<exists>s \<in> set (resolved_subgroups tree g). some_match tree flt m s)"
  unfolding some_match_def by (subst reaches_unfold) auto

lemma matchesFilter_sound: "matchesFilter tree flt m n g = Some b \<Longrightarrow> some_match tree flt m g = b"
proof (induction n arbitrary: g b)
  case (Suc n)
  show ?case
  proof (cases "flt = [] \<or> own_match (toLowerCase flt) m g")
    case True
    then show ?thesis using Suc.prems some_match_unfold [of flt tree m g] by (auto simp: some_match_def split: if_splits)
  next
    case False
    then have "some_lazy (matchesFilter tree flt m n) (resolved_subgroups tree g) = Some b" using Suc.prems by simp
    note lazy = some_lazy_sound [OF this]
    have "(\<exists>s \<in> set (resolved_subgroups tree g). some_match tree flt m s) = b"
    proof (cases b)
      case True
      then obtain s where "s \<in> set (resolved_subgroups tree g)" "matchesFilter tree flt m n s = Some True" using lazy by auto
      then show ?thesis using True Suc.IH [of s True] by auto
    next
      case b: False
      then have "\<not> some_match tree flt m s" if "s \<in> set (resolved_subgroups tree g)" for s
        using lazy that Suc.IH [of s False] by simp
      then show ?thesis using b by simp
    qed
    then show ?thesis using False some_match_unfold [of flt tree m g] by simp
  qed
qed simp

lemma matchesFilter_mono: "matchesFilter tree flt m n g = Some b \<Longrightarrow> n \<le> k \<Longrightarrow> matchesFilter tree flt m k g = Some b"
proof (induction n arbitrary: g b k)
  case (Suc n)
  obtain j where j: "k = Suc j" "n \<le> j" using Suc.prems(2) by (cases k) auto
  show ?case
  proof (cases "flt = [] \<or> own_match (toLowerCase flt) m g")
    case False
    then have "some_lazy (matchesFilter tree flt m n) (resolved_subgroups tree g) = Some b" using Suc.prems(1) by simp
    then have "some_lazy (matchesFilter tree flt m j) (resolved_subgroups tree g) = Some b"
      by (rule some_lazy_mono) (rule Suc.IH [OF _ j(2)])
    then show ?thesis using False j(1) by simp
  qed (use Suc.prems(1) j(1) in \<open>auto split: if_splits\<close>)
qed simp

text \<open>Fuel that is enough for each of finitely many nodes is enough for all.\<close>

lemma common_fuel_list:
  assumes "\<forall>s \<in> set ss. \<exists>n. P n s" and "\<And>n k s. P n s \<Longrightarrow> n \<le> k \<Longrightarrow> P k s"
  shows "\<exists>n :: nat. \<forall>s \<in> set ss. P n s"
  using assms(1)
proof (induction ss)
  case (Cons s ss)
  then obtain n j where "P n s" "\<forall>s \<in> set ss. P j s" by auto
  then have "P (max n j) s" "\<forall>t \<in> set ss. P (max n j) t"
    using assms(2) [of n s "max n j"] assms(2) [of j _ "max n j"] by simp_all
  then have "\<forall>t \<in> set (s # ss). P (max n j) t" by simp
  then show ?case by blast
qed simp

lemma matchesFilter_returns:
  "unfolds (resolved_subgroups tree) g \<Longrightarrow> \<exists>n. matchesFilter tree flt m n g \<noteq> None"
proof (induction rule: unfolds.induct)
  case (unfolds_step g)
  then have "\<exists>n. \<forall>s \<in> set (resolved_subgroups tree g). matchesFilter tree flt m n s \<noteq> None"
    by (intro common_fuel_list) (auto dest: matchesFilter_mono)
  then obtain n where n: "\<forall>s \<in> set (resolved_subgroups tree g). matchesFilter tree flt m n s \<noteq> None" by blast
  have "matchesFilter tree flt m (Suc n) g \<noteq> None"
    using some_lazy_returns [OF n] by (cases "flt = []"; cases "own_match (toLowerCase flt) m g") simp_all
  then show ?case by blast
qed

subsection \<open>The rows of the tree\<close>

fun row_group :: "tree_row \<Rightarrow> string set" where
  "row_group (GroupNodeRow g _) = {g}"
| "row_group (RenameRow g _ _) = {g}"
| "row_group (MemberRow _ _) = {}"

fun row_member :: "tree_row \<Rightarrow> (string \<times> string) set" where
  "row_member (MemberRow g r) = {(g, atr_name r)}"
| "row_member _ = {}"

definition shown_groups :: "tree_row list \<Rightarrow> string set" where
  "shown_groups rs = (\<Union>r \<in> set rs. row_group r)"

definition shown_members :: "tree_row list \<Rightarrow> (string \<times> string) set" where
  "shown_members rs = (\<Union>r \<in> set rs. row_member r)"

lemma row_group_rows: "row_group (group_row v tree d g c) = {ag_name g}" "row_group (member_row v d g m) = {}"
  by (simp_all add: group_row_def member_row_def)

lemma row_member_rows: "row_member (group_row v tree d g c) = {}"
  "row_member (member_row v d g m) = {(ag_name g, gm_assetName m)}"
  by (simp_all add: group_row_def member_row_def)

lemma shown_node:
  "shown_groups (group_row v tree d g c # concat subs @ map (member_row v d g) ms) =
     insert (ag_name g) (\<Union>s \<in> set subs. shown_groups s)"
  "shown_members (group_row v tree d g c # concat subs @ map (member_row v d g) ms) =
     (\<Union>s \<in> set subs. shown_members s) \<union> (\<lambda>m. (ag_name g, gm_assetName m)) ` set ms"
  by (auto simp: shown_groups_def shown_members_def row_group_rows row_member_rows)

definition filtered_groups :: "TreeProps \<Rightarrow> AssetGroupTree \<Rightarrow> AssetGroup \<Rightarrow> string set" where
  "filtered_groups v tree g =
    ag_name ` {h. reaches (resolved_subgroups tree) g h \<and> some_match tree (tv_filter v) (tv_mode v) h}"

definition filtered_members :: "TreeProps \<Rightarrow> AssetGroupTree \<Rightarrow> AssetGroup \<Rightarrow> (string \<times> string) set" where
  "filtered_members v tree g = {(ag_name h, gm_assetName m) | h m. reaches (resolved_subgroups tree) g h \<and>
     m \<in> set (ag_members h) \<and> shows_members (tv_mode v) \<and> member_matches (toLowerCase (tv_filter v)) m}"

lemma filtered_groups_unfold:
  "filtered_groups v tree g = (if some_match tree (tv_filter v) (tv_mode v) g then {ag_name g} else {})
    \<union> (\<Union>s \<in> set (resolved_subgroups tree g). filtered_groups v tree s)"
  unfolding filtered_groups_def by (subst reaches_unfold) auto

lemma filtered_members_unfold:
  "tv_filter v \<noteq> [] \<Longrightarrow> filtered_members v tree g =
    (\<Union>s \<in> set (resolved_subgroups tree g). filtered_members v tree s)
    \<union> (\<lambda>m. (ag_name g, gm_assetName m)) ` set (filteredMembers (tv_mode v) (tv_filter v) g)"
  unfolding filtered_members_def filteredMembers_def by (subst reaches_unfold) auto

lemma no_match_nothing:
  assumes "tv_filter v \<noteq> []" and "\<not> some_match tree (tv_filter v) (tv_mode v) g"
  shows "filtered_groups v tree g = {}" and "filtered_members v tree g = {}"
proof -
  have none: "\<not> own_match (toLowerCase (tv_filter v)) (tv_mode v) h" if "reaches (resolved_subgroups tree) g h" for h
    using assms that by (auto simp: some_match_def)
  have trans: "reaches (resolved_subgroups tree) g k"
    if "reaches (resolved_subgroups tree) g h" "reaches (resolved_subgroups tree) h k" for h k
    using that by (induction rule: reaches.induct) (auto intro: reaches.intros)
  show "filtered_groups v tree g = {}"
    using assms(1) none trans by (fastforce simp: filtered_groups_def some_match_def)
  show "filtered_members v tree g = {}"
    using none by (force simp: filtered_members_def own_match_def list_ex_iff)
qed

lemma UN_nth_cong:
  assumes "length ts = length ss" and "\<And>i. i < length ts \<Longrightarrow> f (ts ! i) = h (ss ! i)"
  shows "(\<Union>t \<in> set ts. f t) = (\<Union>s \<in> set ss. h s)"
  using assms by (force simp: set_conv_nth)

lemma AssetTreeNode_filtered:
  assumes "tv_filter v \<noteq> []"
  shows "AssetTreeNode v tree n d g = Some rows \<Longrightarrow>
    shown_groups rows = filtered_groups v tree g \<and> shown_members rows = filtered_members v tree g"
proof (induction n arbitrary: d g rows)
  case (Suc n)
  obtain b where b: "matchesFilter tree (tv_filter v) (tv_mode v) (Suc n) g = Some b"
    using Suc.prems by (auto split: option.splits simp del: matchesFilter.simps)
  note match = matchesFilter_sound [OF b]
  show ?case
  proof (cases b)
    case False
    then have "rows = []" using Suc.prems b by (simp del: matchesFilter.simps)
    then show ?thesis using no_match_nothing [OF assms] match False by (simp add: shown_groups_def shown_members_def)
  next
    case True
    let ?ss = "resolved_subgroups tree g"
    obtain c ts where ts: "those (map (AssetTreeNode v tree n (d + 1)) ?ss) = Some ts"
      and rows: "rows = group_row v tree d g c # concat ts
        @ map (member_row v d g) (filteredMembers (tv_mode v) (tv_filter v) g)"
      using Suc.prems b True assms
      by (auto simp: is_expanded_def simp del: matchesFilter.simps split: option.splits)
    have mp: "map (AssetTreeNode v tree n (d + 1)) ?ss = map Some ts" using ts by (simp add: those_Some_iff)
    have len: "length ts = length ?ss" using arg_cong [OF mp, of length] by simp
    have sub: "AssetTreeNode v tree n (d + 1) (?ss ! i) = Some (ts ! i)" if "i < length ts" for i
      using arg_cong [OF mp, of "\<lambda>xs. xs ! i"] that len by simp
    have gs: "(\<Union>t \<in> set ts. shown_groups t) = (\<Union>s \<in> set ?ss. filtered_groups v tree s)"
      and ms: "(\<Union>t \<in> set ts. shown_members t) = (\<Union>s \<in> set ?ss. filtered_members v tree s)"
      by (rule UN_nth_cong [OF len], use Suc.IH [OF sub] in blast)+
    show ?thesis unfolding rows shown_node gs ms
      using match True filtered_groups_unfold [of v tree g] filtered_members_unfold [OF assms, of tree g] by simp
  qed
qed simp

lemma AssetTreeNode_mono:
  "AssetTreeNode v tree n d g = Some rows \<Longrightarrow> n \<le> k \<Longrightarrow> AssetTreeNode v tree k d g = Some rows"
proof (induction n arbitrary: d g rows k)
  case (Suc n)
  obtain j where j: "k = Suc j" "n \<le> j" using Suc.prems(2) by (cases k) auto
  obtain b where b: "matchesFilter tree (tv_filter v) (tv_mode v) (Suc n) g = Some b"
    using Suc.prems by (auto split: option.splits simp del: matchesFilter.simps)
  have b': "matchesFilter tree (tv_filter v) (tv_mode v) (Suc j) g = Some b"
    by (rule matchesFilter_mono [OF b]) (simp add: j)
  show ?case
  proof (cases b)
    case True
    obtain c where c: "node_count (tv_mode v) tree (Suc n) g = Some c"
      using Suc.prems(1) b True by (auto simp del: matchesFilter.simps split: option.splits)
    have c': "node_count (tv_mode v) tree (Suc j) g = Some c"
      using c leaf_count.run_mono [of tree "Suc n" g c "Suc j"] j(2) by (auto simp: node_count_def split: if_splits)
    show ?thesis
    proof (cases "is_expanded v g")
      case ex: True
      obtain ts where ts: "those (map (AssetTreeNode v tree n (d + 1)) (resolved_subgroups tree g)) = Some ts"
        using Suc.prems(1) b True c ex by (auto simp del: matchesFilter.simps)
      have "AssetTreeNode v tree j (d + 1) s = AssetTreeNode v tree n (d + 1) s"
        if "s \<in> set (resolved_subgroups tree g)" for s
      proof -
        have "AssetTreeNode v tree n (d + 1) s \<noteq> None"
          using ts that those_map_None [of "AssetTreeNode v tree n (d + 1)" "resolved_subgroups tree g"] by auto
        then obtain r where "AssetTreeNode v tree n (d + 1) s = Some r" by blast
        then show ?thesis using Suc.IH [OF _ j(2)] by simp
      qed
      then have "those (map (AssetTreeNode v tree j (d + 1)) (resolved_subgroups tree g)) = Some ts"
        using ts those_map_cong [of "resolved_subgroups tree g"] by metis
      then show ?thesis using Suc.prems(1) ts b b' True c c' ex unfolding j(1) by (simp del: matchesFilter.simps)
    qed (use Suc.prems(1) b b' True c c' in \<open>simp add: j(1) del: matchesFilter.simps\<close>)
  qed (use Suc.prems(1) b b' in \<open>simp add: j(1) del: matchesFilter.simps\<close>)
qed simp

lemma AssetTreeNode_returns:
  "unfolds (resolved_subgroups tree) g \<Longrightarrow> \<exists>n. \<forall>d. AssetTreeNode v tree n d g \<noteq> None"
proof (induction rule: unfolds.induct)
  case (unfolds_step g)
  let ?ss = "resolved_subgroups tree g"
  have unf: "unfolds (resolved_subgroups tree) g" using unfolds_step by (auto intro: unfolds.unfolds_step)
  have "\<exists>n. \<forall>s \<in> set ?ss. \<forall>d. AssetTreeNode v tree n d s \<noteq> None"
    using unfolds_step 
  proof (intro common_fuel_list allI)
    show "AssetTreeNode v tree k d s \<noteq> None" if "\<forall>d. AssetTreeNode v tree n d s \<noteq> None" "n \<le> k" for n k s d
    proof -
      have "AssetTreeNode v tree n d s \<noteq> None" using that(1) ..
      then obtain r where "AssetTreeNode v tree n d s = Some r" by blast
      then show ?thesis using AssetTreeNode_mono [OF _ that(2)] by simp
    qed
  qed blast
  then obtain n1 where n1: "\<forall>s \<in> set ?ss. \<forall>d. AssetTreeNode v tree n1 d s \<noteq> None" by blast
  obtain n2 b where n2: "matchesFilter tree (tv_filter v) (tv_mode v) n2 g = Some b"
    using matchesFilter_returns [OF unf] by blast
  obtain n3 c where n3: "countLeafMembers tree n3 g = Some c"
    using leaf_count.unfolds_run [OF unf] by blast
  let ?n = "n1 + n2 + n3"
  have m: "matchesFilter tree (tv_filter v) (tv_mode v) (Suc ?n) g = Some b" by (rule matchesFilter_mono [OF n2]) simp
  have "countLeafMembers tree (Suc ?n) g = Some c" by (rule leaf_count.run_mono [OF n3]) simp
  then have c: "\<exists>c. node_count (tv_mode v) tree (Suc ?n) g = Some c" by (simp add: node_count_def del: countLeafMembers.simps)
  have "AssetTreeNode v tree ?n (d + 1) s \<noteq> None" if "s \<in> set ?ss" for s d
    using n1 that AssetTreeNode_mono [of v tree n1 "d + 1" s _ ?n] by fastforce
  then have "those (map (AssetTreeNode v tree ?n (d + 1)) ?ss) \<noteq> None" for d
    by (simp add: those_map_None)
  then have "AssetTreeNode v tree (Suc ?n) d g \<noteq> None" for d
    using m c by (cases b) (auto simp del: matchesFilter.simps)
  then show ?case by blast
qed

text \<open>
  C32. Under a filter the rows below a group without cyclic subgroups are, with every larger fuel, exactly the groups
  reached from it that match or lead to a match, and exactly the members of reached groups that match
  themselves, whatever is expanded; so the members of a group that matches by its own name only are hidden.
\<close>

theorem asset_tree_filtered:
  assumes "tv_filter v \<noteq> []" and "unfolds (resolved_subgroups tree) g"
  shows "\<exists>rows n. (\<forall>k \<ge> n. AssetTreeNode v tree k d g = Some rows) \<and>
    shown_groups rows = ag_name ` {h. reaches (resolved_subgroups tree) g h \<and>
      (\<exists>k. reaches (resolved_subgroups tree) h k \<and> own_match (toLowerCase (tv_filter v)) (tv_mode v) k)} \<and>
    shown_members rows = {(ag_name h, gm_assetName m) | h m. reaches (resolved_subgroups tree) g h \<and>
      m \<in> set (ag_members h) \<and> shows_members (tv_mode v) \<and> member_matches (toLowerCase (tv_filter v)) m}"
proof -
  obtain n where "AssetTreeNode v tree n d g \<noteq> None" using AssetTreeNode_returns [OF assms(2)] by blast
  then obtain rows where rows: "AssetTreeNode v tree n d g = Some rows" by blast
  then have "\<forall>k \<ge> n. AssetTreeNode v tree k d g = Some rows" by (blast intro: AssetTreeNode_mono)
  moreover have "shown_groups rows = filtered_groups v tree g \<and> shown_members rows = filtered_members v tree g"
    by (rule AssetTreeNode_filtered [OF assms(1) rows])
  moreover have "filtered_groups v tree g = ag_name ` {h. reaches (resolved_subgroups tree) g h \<and>
      (\<exists>k. reaches (resolved_subgroups tree) h k \<and> own_match (toLowerCase (tv_filter v)) (tv_mode v) k)}"
    using assms(1) by (simp add: filtered_groups_def some_match_def)
  ultimately show ?thesis unfolding filtered_members_def
    by (intro exI [of _ rows] exI [of _ n]) (rule conjI, assumption, rule conjI, argo, argo)
qed

definition demo_member :: "string \<Rightarrow> AssetGroupMember" where
  "demo_member n = \<lparr>gm_assetId = n, gm_assetName = n, gm_assetDisplayName = None, gm_assetTypeName = ''vm'', gm_weight = 1\<rparr>"

definition demo_asset_group :: "string \<Rightarrow> string list \<Rightarrow> string list \<Rightarrow> AssetGroup" where
  "demo_asset_group n ms ss = \<lparr>ag_id = n, ag_name = n, ag_displayName = None, ag_description = None, ag_color = None,
    ag_members = map demo_member ms,
    ag_subgroups = map (\<lambda>s. \<lparr>gs_groupId = s, gs_groupName = s, gs_weight = 1\<rparr>) ss, ag_createdAt = Some 0, ag_updatedAt = Some 0\<rparr>"

definition demo_tree_props :: "string \<Rightarrow> TreeProps" where
  "demo_tree_props flt = \<lparr>tv_mode = AssetsMode, tv_filter = flt, tv_selectedGroup = None, tv_selectedAsset = None,
    tv_expanded = [], tv_renaming = None\<rparr>"

definition demo_flat_tree :: AssetGroupTree where
  "demo_flat_tree = \<lparr>agt_topLevel = [demo_asset_group ''web'' [''a''] []], agt_allGroups = [demo_asset_group ''web'' [''a''] []]\<rparr>"

lemma demo_flat_unfolds: "unfolds (resolved_subgroups demo_flat_tree) (demo_asset_group n ms [])"
  by (rule unfolds_step) (simp add: resolved_subgroups_def demo_asset_group_def List.map_filter_def)

theorem asset_tree_filtered_witness:
  "\<exists>rows n. AssetTreeNode (demo_tree_props ''we'') demo_flat_tree n 0 (demo_asset_group ''web'' [''a''] []) = Some rows \<and>
    (''web'', ''a'') \<notin> shown_members rows"
proof -
  have "tv_filter (demo_tree_props ''we'') \<noteq> []" by (simp add: demo_tree_props_def)
  from asset_tree_filtered [OF this demo_flat_unfolds, of 0 "''web''" "[''a'']"]
  obtain rows n where r: "\<forall>k \<ge> n. AssetTreeNode (demo_tree_props ''we'') demo_flat_tree k 0 (demo_asset_group ''web'' [''a''] []) = Some rows"
    and m: "shown_members rows = {(ag_name h, gm_assetName m) | h m.
      reaches (resolved_subgroups demo_flat_tree) (demo_asset_group ''web'' [''a''] []) h \<and> m \<in> set (ag_members h) \<and>
      shows_members (tv_mode (demo_tree_props ''we'')) \<and> member_matches (toLowerCase (tv_filter (demo_tree_props ''we''))) m}"
    by (elim exE conjE) (rule that)
  have h: "h = demo_asset_group ''web'' [''a''] []"
    if "reaches (resolved_subgroups demo_flat_tree) (demo_asset_group ''web'' [''a''] []) h" for h
    using that by (subst (asm) reaches_unfold) (simp add: resolved_subgroups_def demo_asset_group_def List.map_filter_def)
  have "\<not> member_matches (toLowerCase (tv_filter (demo_tree_props ''we''))) (demo_member ''a'')" by code_simp
  moreover have "g = demo_member ''a''" if "g \<in> set (ag_members (demo_asset_group ''web'' [''a''] []))" for g
    using that by (simp add: demo_asset_group_def)
  ultimately have "(''web'', ''a'') \<notin> shown_members rows" unfolding m using h by blast
  then show ?thesis using r by blast
qed

subsection \<open>Menus and requests\<close>

text \<open>
  Every enabled item of a menu opened on a row does something, an SLO is linked in the SLO mode only, where the
  dialog is rendered, and the menu ends inside the window.
\<close>

lemma menu_visible_items:
  "i \<in> set (menu_visible m st) \<Longrightarrow> (case mid_modes i of None \<Rightarrow> True | Some ms \<Rightarrow> m \<in> set ms) \<and>
    i \<in> set (if cms_type st = GroupTarget then GROUP_MENU_ITEMS else ASSET_MENU_ITEMS)"
  by (auto simp: menu_visible_def)

lemma group_menu_actions:
  "i \<in> set GROUP_MENU_ITEMS \<Longrightarrow> mid_disabled i \<or> mid_action i \<in>
    {''rename'', ''editDetails'', ''addSubgroup'', ''addAssetToGroup'', ''linkSlo'', ''deleteGroup''}"
  "i \<in> set GROUP_MENU_ITEMS \<Longrightarrow> mid_action i = ''linkSlo'' \<Longrightarrow> mid_modes i = Some [SloMode]"
  "i \<in> set GROUP_MENU_ITEMS \<Longrightarrow> mid_action i \<notin> {''removeFromGroup'', ''deleteAsset''}"
  by (auto simp: GROUP_MENU_ITEMS_def menu_item_def)

lemma asset_menu_actions:
  "i \<in> set ASSET_MENU_ITEMS \<Longrightarrow> mid_disabled i \<or> mid_action i \<in>
    {''viewEvaluations'', ''removeFromGroup'', ''editAsset'', ''deleteAsset''}"
  "i \<in> set ASSET_MENU_ITEMS \<Longrightarrow> mid_action i \<noteq> ''deleteGroup''"
  by (auto simp: ASSET_MENU_ITEMS_def menu_item_def)

lemma group_menu_acts:
  assumes "i \<in> set (menu_visible m (openGroupMenu x y g))" and "\<not> mid_disabled i"
  shows "tree_dispatch (tree_callbacks ex) (mid_action i) (cms_target (openGroupMenu x y g)) \<noteq> None \<and>
    (mid_action i = ''linkSlo'' \<longrightarrow> m = SloMode)"
proof -
  have i: "i \<in> set GROUP_MENU_ITEMS" "case mid_modes i of None \<Rightarrow> True | Some ms \<Rightarrow> m \<in> set ms"
    using menu_visible_items [OF assms(1)] by (simp_all add: openGroupMenu_def)
  have "mid_action i \<in> {''rename'', ''editDetails'', ''addSubgroup'', ''addAssetToGroup'', ''linkSlo'', ''deleteGroup''}"
    using group_menu_actions(1) [OF i(1)] assms(2) by blast
  then have "tree_dispatch (tree_callbacks ex) (mid_action i) (cms_target (openGroupMenu x y g)) \<noteq> None"
    by (elim insertE emptyE) (simp_all add: tree_dispatch_def when_given_def tree_callbacks_def Let_def)
  then show ?thesis using group_menu_actions(2) [OF i(1)] i(2) by auto
qed

lemma asset_menu_acts:
  assumes "i \<in> set (menu_visible m (openAssetMenu x y g k))" and "\<not> mid_disabled i"
    and "ext_selectAsset ex" and "ag_name g \<noteq> []" and "gm_assetId k \<noteq> []"
  shows "tree_dispatch (tree_callbacks ex) (mid_action i) (cms_target (openAssetMenu x y g k)) \<noteq> None"
proof -
  have "i \<in> set ASSET_MENU_ITEMS" using menu_visible_items [OF assms(1)] by (simp add: openAssetMenu_def)
  then have "mid_action i \<in> {''viewEvaluations'', ''removeFromGroup'', ''editAsset'', ''deleteAsset''}"
    using asset_menu_actions(1) [of i] assms(2) by blast
  then show ?thesis using assms(3-5)
    by (elim insertE emptyE)
      (simp_all add: tree_dispatch_def when_given_def tree_callbacks_def openAssetMenu_def truthy_def Let_def)
qed

lemma menu_inside: "fst (menu_position w h m st) + 240 + 8 \<le> w" "snd (menu_position w h m st) + 8 \<le> h"
  by (simp_all add: menu_position_def)

text \<open>Runs of the tree: each event with the tree loaded and the group selected at that time.\<close>

definition tree_run ::
    "TreeMode \<Rightarrow> TreeExternals \<Rightarrow> (AssetGroupTree option \<times> string option \<times> TreeEvent) list \<Rightarrow> TreeState \<times> tree_call list" where
  "tree_run m x es = foldl (\<lambda>(s, cs) (tree, sel, e). let (s1, c) = tree_step m x tree sel e s in (s1, cs @ c)) (tree_mount, []) es"

lemma tree_run_snoc:
  "tree_run m x (es @ [(tree, sel, e)]) = (let (s, cs) = tree_run m x es; (s1, c) = tree_step m x tree sel e s in (s1, cs @ c))"
  by (simp add: tree_run_def case_prod_unfold Let_def)

definition opened :: "TreeEvent set \<Rightarrow> TargetType \<Rightarrow> (TreeTarget \<Rightarrow> bool) \<Rightarrow> bool" where
  "opened E ty P \<longleftrightarrow> (\<exists>st. OpenContextMenu st \<in> E \<and> cms_type st = ty \<and> P (cms_target st))"

fun call_ok :: "TreeEvent set \<Rightarrow> tree_call \<Rightarrow> bool" where
  "call_ok E (RequestDeleteAsset n) = opened E AssetTarget (\<lambda>t. tt_name t = n)"
| "call_ok E (RequestRemoveMember g a) = opened E AssetTarget (\<lambda>t. tt_groupName t = Some g \<and> tt_assetId t = Some a)"
| "call_ok E (RequestRename n t) = (\<exists>c v. SaveRename n c v \<in> E \<and> t = trim_str v \<and> t \<noteq> [] \<and> t \<noteq> c)"
| "call_ok E (CallDeleteGroup n) = opened E GroupTarget (\<lambda>t. tt_name t = n)"
| "call_ok E _ = True"

definition tree_state_ok :: "TreeEvent set \<Rightarrow> TreeState \<Rightarrow> bool" where
  "tree_state_ok E s \<longleftrightarrow> (\<forall>st. ats_contextMenu s = Some st \<longrightarrow> OpenContextMenu st \<in> E) \<and>
    (\<forall>n. dst_deletingGroupName (ats_dialogs s) = Some n \<longrightarrow> opened E GroupTarget (\<lambda>t. tt_name t = n))"

lemma call_ok_mono: "call_ok E c \<Longrightarrow> E \<subseteq> F \<Longrightarrow> call_ok F c"
  by (cases c) (auto simp: opened_def)

lemma tree_state_mono: "tree_state_ok E s \<Longrightarrow> E \<subseteq> F \<Longrightarrow> tree_state_ok F s"
  by (fastforce simp: tree_state_ok_def opened_def)

lemma apply_effect_menu: "ats_contextMenu (fst (apply_effect x e s)) = ats_contextMenu s"
  by (cases e) (simp_all add: apply_effect_def update_dialog_def handleCreateGroup_def)

lemma menu_item_type:
  "i \<in> set (menu_visible m st) \<Longrightarrow> cms_type st = GroupTarget \<Longrightarrow> mid_action i \<notin> {''removeFromGroup'', ''deleteAsset''}"
  "i \<in> set (menu_visible m st) \<Longrightarrow> cms_type st = AssetTarget \<Longrightarrow> mid_action i \<noteq> ''deleteGroup''"
  using menu_visible_items [of i m st] group_menu_actions(3) [of i] asset_menu_actions(2) [of i] by auto

lemma menu_click_ok:
  assumes "tree_state_ok E s" and "ats_contextMenu s = Some st" and "i \<in> set (menu_visible m st)"
  shows "tree_state_ok E (fst (tree_menu_click x st i s)) \<and> list_all (call_ok E) (snd (tree_menu_click x st i s))"
proof -
  have st: "OpenContextMenu st \<in> E" using assms(1,2) by (simp add: tree_state_ok_def)
  show ?thesis
  proof (cases "tree_dispatch (tree_callbacks x) (mid_action i) (cms_target st)")
    case None
    then show ?thesis using assms(1) by (simp add: tree_menu_click_def tree_state_ok_def)
  next
    case (Some e)
    have d: "e = DeleteAsset n \<Longrightarrow> mid_action i = ''deleteAsset'' \<and> tt_name (cms_target st) = n"
      "e = DeleteGroup n \<Longrightarrow> mid_action i = ''deleteGroup'' \<and> tt_name (cms_target st) = n"
      "e = RemoveMember n k \<Longrightarrow> mid_action i = ''removeFromGroup'' \<and> tt_groupName (cms_target st) = Some n
        \<and> tt_assetId (cms_target st) = Some k" for n k
      using Some by (auto simp: tree_dispatch_def when_given_def Let_def truthy_def split: if_splits option.splits)
    have ty: "mid_action i \<in> {''removeFromGroup'', ''deleteAsset''} \<Longrightarrow> cms_type st = AssetTarget"
      "mid_action i = ''deleteGroup'' \<Longrightarrow> cms_type st = GroupTarget"
      using menu_item_type [OF assms(3)] by (cases "cms_type st"; blast)+
    have op: "e = DeleteAsset n \<Longrightarrow> opened E AssetTarget (\<lambda>t. tt_name t = n)"
      "e = DeleteGroup n \<Longrightarrow> opened E GroupTarget (\<lambda>t. tt_name t = n)"
      "e = RemoveMember n k \<Longrightarrow> opened E AssetTarget (\<lambda>t. tt_groupName t = Some n \<and> tt_assetId t = Some k)" for n k
      unfolding opened_def using st d(1) [of n] d(2) [of n] d(3) [of n k] ty by auto
    show ?thesis
    proof (cases "mid_disabled i")
      case False
      then show ?thesis using Some assms(1) st
        by (cases e) (auto simp: tree_menu_click_def apply_effect_def update_dialog_def handleCreateGroup_def tree_state_ok_def intro: op)
    qed (use assms(1) in \<open>simp add: tree_menu_click_def\<close>)
  qed
qed


lemma tree_step_ok:
  assumes "tree_state_ok E s" and "e \<in> E"
  shows "tree_state_ok E (fst (tree_step m x tree sel e s)) \<and> list_all (call_ok E) (snd (tree_step m x tree sel e s))"
proof (cases e)
  case (ClickMenuItem i)
  then show ?thesis using assms(1) menu_click_ok [OF assms(1)]
    by (auto simp: tree_step_def split: option.splits)
next
  case (SaveRename n c v)
  then show ?thesis using assms
    by (auto simp: tree_step_def tree_state_ok_def rename_save_def Let_def split: option.splits if_splits)
next
  case ExpandAll
  then show ?thesis using assms(1) by (cases tree) (simp_all add: tree_step_def tree_state_ok_def)
qed (use assms in \<open>auto simp: tree_step_def tree_state_ok_def update_dialog_def handleCreateGroup_def\<close>)

lemma tree_run_ok:
  "tree_state_ok (snd ` snd ` set es) (fst (tree_run m x es)) \<and> list_all (call_ok (snd ` snd ` set es)) (snd (tree_run m x es))"
proof (induction es rule: rev_induct)
  case Nil
  show ?case by (simp add: tree_run_def tree_mount_def tree_state_ok_def useDialogState_def)
next
  case (snoc y es)
  obtain tree sel e where y: "y = (tree, sel, e)" by (cases y)
  let ?E = "snd ` snd ` set (es @ [y])"
  obtain s cs where r: "tree_run m x es = (s, cs)" by (cases "tree_run m x es")
  have sub: "snd ` snd ` set es \<subseteq> ?E" by auto
  have "tree_state_ok ?E s" "list_all (call_ok ?E) cs"
    using snoc r tree_state_mono [OF _ sub] call_ok_mono [OF _ sub] by (auto simp: list_all_iff)
  moreover have "e \<in> ?E" by (simp add: y)
  ultimately show ?case
    using tree_step_ok [of ?E s e m x tree sel] unfolding y tree_run_snoc r by (simp add: case_prod_unfold Let_def)
qed


definition demo_externals :: TreeExternals where
  "demo_externals = \<lparr>ext_createGroup = False, ext_editGroup = False, ext_deleteGroup = False, ext_addSloLink = False,
    ext_selectAsset = True\<rparr>"

definition demo_tree_events :: "(AssetGroupTree option \<times> string option \<times> TreeEvent) list" where
  "demo_tree_events = map (\<lambda>e. (Some demo_flat_tree, None, e))
    [OpenContextMenu (openAssetMenu 0 0 (demo_asset_group ''web'' [''a''] []) (demo_member ''a'')),
     ClickMenuItem (menu_item ''Delete asset'' ''deleteAsset'')]"


text \<open>The group dialog is opened without the group whose menu asked for a subgroup.\<close>

lemma subgroup_parent_dropped:
  "apply_effect x (CreateGroup p) s = apply_effect x (CreateGroup q) s"
  by (simp add: apply_effect_def handleCreateGroup_def)

subsection \<open>The groups offered as parents\<close>

lemma reaches_snoc_induct [consumes 1, case_names refl step]:
  assumes "reaches succ g h" and "P g"
    and "\<And>y x. reaches succ g y \<Longrightarrow> P y \<Longrightarrow> x \<in> set (succ y) \<Longrightarrow> P x"
  shows "P h"
  using assms
proof (induction rule: reaches.induct)
  case (reaches_step s g h)
  show ?case
  proof (rule reaches_step.IH)
    show "P s" using reaches_step.prems reaches_step.hyps(1) by (blast intro: reaches_refl)
    show "P x" if "reaches succ s y" "P y" "x \<in> set (succ y)" for y x
      using reaches_step.prems(2) that reaches_step.hyps(1) by (blast intro: reaches.reaches_step)
  qed
qed

lemma GroupNode_offered:
  "GroupNode tree value ex excl n d g = Some rows \<Longrightarrow> r \<in> set rows \<Longrightarrow>
    \<exists>h. slr_name r = ag_name h \<and> Some (ag_name g) \<noteq> excl \<and>
      reaches (\<lambda>g. filter (\<lambda>s. Some (ag_name s) \<noteq> excl) (resolved_subgroups tree g)) g h"
proof (induction n arbitrary: d g rows)
  case (Suc n)
  let ?ss = "resolved_subgroups tree g"
  have g: "Some (ag_name g) \<noteq> excl" using Suc.prems by auto
  show ?case
  proof (cases "r = selector_row tree value ex d g")
    case True
    then show ?thesis using g by (auto simp: selector_row_def intro: reaches_refl)
  next
    case False
    then obtain ts where ts: "map (GroupNode tree value ex excl n (d + 1)) ?ss = map Some ts" "r \<in> set (concat ts)"
      using Suc.prems g by (auto simp: those_Some_iff split: if_splits)
    then obtain t where t: "t \<in> set ts" "r \<in> set t" by auto
    then have "Some t \<in> GroupNode tree value ex excl n (d + 1) ` set ?ss"
      using arg_cong [OF ts(1), of set] by auto
    then obtain s where s: "s \<in> set ?ss" "GroupNode tree value ex excl n (d + 1) s = Some t" by auto
    from Suc.IH [OF s(2) t(2)] show ?thesis using s(1) g by (fastforce intro: reaches_step)
  qed
qed simp

text \<open>
  C34. In a tree of groups with distinct names and one parent at most, the parents offered for a group are
  existing groups, and never the group itself or one below it, so choosing one makes no cycle.
\<close>

theorem selector_no_cycle:
  assumes "GroupTreeSelector n tree value expandedSet (Some (ag_name e)) = Some rows" and "r \<in> set rows"
    and "e \<in> set (agt_allGroups tree)" and "inj_on ag_name (set (agt_allGroups tree))"
    and "set (agt_topLevel tree) \<subseteq> set (agt_allGroups tree)"
    and "\<forall>t \<in> set (agt_topLevel tree). \<forall>p \<in> set (agt_allGroups tree). t \<notin> set (resolved_subgroups tree p)"
    and "\<forall>p \<in> set (agt_allGroups tree). \<forall>q \<in> set (agt_allGroups tree). \<forall>s.
      s \<in> set (resolved_subgroups tree p) \<longrightarrow> s \<in> set (resolved_subgroups tree q) \<longrightarrow> p = q"
  shows "\<exists>h \<in> set (agt_allGroups tree). slr_name r = ag_name h \<and> \<not> reaches (resolved_subgroups tree) e h"
proof -
  let ?succ = "resolved_subgroups tree"
  let ?avoid = "\<lambda>g. filter (\<lambda>s. Some (ag_name s) \<noteq> Some (ag_name e)) (?succ g)"
  let ?A = "{h. \<exists>t \<in> set (agt_topLevel tree). ag_name t \<noteq> ag_name e \<and> reaches ?avoid t h}"
  have sub: "set (?succ g) \<subseteq> set (agt_allGroups tree)" for g
    by (fastforce simp: resolved_subgroups_def List.map_filter_def dest: find_mem)
  obtain ts where ts: "map (GroupNode tree value expandedSet (Some (ag_name e)) n 0) (agt_topLevel tree) = map Some ts"
    "rows = concat ts" using assms(1) by (auto simp: GroupTreeSelector_def those_Some_iff)
  then obtain t where t: "t \<in> set ts" "r \<in> set t" using assms(2) by auto
  then have "Some t \<in> GroupNode tree value expandedSet (Some (ag_name e)) n 0 ` set (agt_topLevel tree)"
    using arg_cong [OF ts(1), of set] by auto
  then obtain top where top: "top \<in> set (agt_topLevel tree)"
    "GroupNode tree value expandedSet (Some (ag_name e)) n 0 top = Some t" by auto
  obtain h where h: "slr_name r = ag_name h" "ag_name top \<noteq> ag_name e" "reaches ?avoid top h"
    using GroupNode_offered [OF top(2) t(2)] by auto
  then have hA: "h \<in> ?A" using top(1) by blast
  have A: "x \<in> set (agt_allGroups tree) \<and> x \<noteq> e \<and> (x \<in> set (agt_topLevel tree) \<or> (\<exists>p \<in> ?A. x \<in> set (?succ p)))"
    if "x \<in> ?A" for x
  proof -
    from that obtain t0 where t0: "t0 \<in> set (agt_topLevel tree)" "ag_name t0 \<noteq> ag_name e" "reaches ?avoid t0 x" by blast
    from t0(3) show ?thesis
    proof (induction rule: reaches_snoc_induct)
      case refl
      show ?case using t0 assms(5) by auto
    next
      case (step y x)
      then show ?case using t0 sub [of y] by auto
    qed
  qed
  have "x \<notin> ?A" if "reaches ?succ e x" for x
    using that
  proof (induction rule: reaches_snoc_induct)
    case refl
    show ?case using A [of e] by blast
  next
    case (step y x)
    have y: "y \<in> set (agt_allGroups tree)"
      using step.hyps(1) assms(3) sub by (induction rule: reaches_snoc_induct) auto
    show ?case
    proof
      assume "x \<in> ?A"
      from A [OF this] consider "x \<in> set (agt_topLevel tree)" | p where "p \<in> ?A" "x \<in> set (?succ p)" by blast
      then show False
      proof cases
        case 1
        then show False using assms(6) y step.hyps(2) by blast
      next
        case 2
        then have "p = y" using assms(7) y step.hyps(2) A [OF 2(1)] by blast
        then show False using step.IH 2(1) by blast
      qed
    qed
  qed
  then have "\<not> reaches ?succ e h" using hA by blast
  then show ?thesis using A [OF hA] h(1) by blast
qed

definition demo_nested_tree :: AssetGroupTree where
  "demo_nested_tree = (let a = demo_asset_group ''a'' [] [''b'']; b = demo_asset_group ''b'' [] []; c = demo_asset_group ''c'' [] [] in
    \<lparr>agt_topLevel = [a, c], agt_allGroups = [a, b, c]\<rparr>)"

lemma demo_nested_groups:
  "agt_topLevel demo_nested_tree = [demo_asset_group ''a'' [] [''b''], demo_asset_group ''c'' [] []]"
  "agt_allGroups demo_nested_tree = [demo_asset_group ''a'' [] [''b''], demo_asset_group ''b'' [] [], demo_asset_group ''c'' [] []]"
  "resolved_subgroups demo_nested_tree (demo_asset_group ''a'' [] [''b'']) = [demo_asset_group ''b'' [] []]"
  "resolved_subgroups demo_nested_tree (demo_asset_group n [] []) = []"
  by (simp_all add: demo_nested_tree_def demo_asset_group_def resolved_subgroups_def List.map_filter_def Let_def)

lemma demo_group_name: "ag_name (demo_asset_group n ms ss) = n"
  "demo_asset_group n ms ss = demo_asset_group n' ms' ss' \<Longrightarrow> n = n'"
  by (simp_all add: demo_asset_group_def)

theorem selector_no_cycle_witness:
  "\<exists>h \<in> set (agt_allGroups demo_nested_tree). ''c'' = ag_name h \<and>
    \<not> reaches (resolved_subgroups demo_nested_tree) (demo_asset_group ''a'' [] [''b'']) h"
proof -
  let ?a = "demo_asset_group ''a'' [] [''b'']" and ?t = demo_nested_tree
  let ?row = "selector_row ?t None (selector_mount ?t) 0 (demo_asset_group ''c'' [] [])"
  have rows: "GroupTreeSelector 3 ?t None (selector_mount ?t) (Some (ag_name ?a)) = Some [?row]" by code_simp
  have a: "?a \<in> set (agt_allGroups ?t)" "set (agt_topLevel ?t) \<subseteq> set (agt_allGroups ?t)"
    by (simp_all add: demo_nested_groups)
  have inj: "inj_on ag_name (set (agt_allGroups ?t))" by (simp add: demo_nested_groups demo_group_name inj_on_def)
  have top: "\<forall>t \<in> set (agt_topLevel ?t). \<forall>p \<in> set (agt_allGroups ?t). t \<notin> set (resolved_subgroups ?t p)"
    by (auto simp: demo_nested_groups dest: demo_group_name(2))
  have parent: "\<forall>p \<in> set (agt_allGroups ?t). \<forall>q \<in> set (agt_allGroups ?t). \<forall>s.
      s \<in> set (resolved_subgroups ?t p) \<longrightarrow> s \<in> set (resolved_subgroups ?t q) \<longrightarrow> p = q"
    by (auto simp: demo_nested_groups)
  from selector_no_cycle [OF rows _ a(1) inj a(2) top parent, of ?row] show ?thesis
    by (simp add: selector_row_def demo_group_name)
qed

text \<open>With two parents the exclusion stops at the group itself: a group below it is offered through the other parent.\<close>

definition demo_shared_tree :: AssetGroupTree where
  "demo_shared_tree = (let a = demo_asset_group ''a'' [] [''b'']; b = demo_asset_group ''b'' [] []; c = demo_asset_group ''c'' [] [''b''] in
    \<lparr>agt_topLevel = [a, c], agt_allGroups = [a, b, c]\<rparr>)"

lemma selector_offers_descendant:
  "map_option (map slr_name) (GroupTreeSelector 3 demo_shared_tree None (selector_mount demo_shared_tree) (Some ''a''))
     = Some [''c'', ''b''] \<and>
   map ag_name (resolved_subgroups demo_shared_tree (demo_asset_group ''a'' [] [''b''])) = [''b'']"
  by code_simp

end
