(* ===== verification/AssetDialogs.thy ===== *)
theory AssetDialogs
  imports AssetTreeView
begin

text \<open>
  The dialogs and panels of assets and groups (\<open>features/assets/components/\<close>, \<open>components/labels/\<close>,
  \<open>pages/AssetsPage.tsx\<close>, \<open>slos/components/SloLinkDialog.tsx\<close>). A dialog that sends requests is a function of the
  networks of the requests it may send; its result is the state it is left in and the requests in order. A dialog
  whose order of clicks matters is a step function over events.
\<close>

subsection \<open>Labels\<close>

record LabelsEditor =
  lbe_labels :: str_obj
  lbe_newKey :: string
  lbe_newValue :: string

definition labels_open_effect :: "bool \<Rightarrow> str_obj \<Rightarrow> LabelsEditor \<Rightarrow> LabelsEditor" where
  "labels_open_effect op initialLabels e = (if op
    then \<lparr>lbe_labels = initialLabels, lbe_newKey = [], lbe_newValue = []\<rparr> else e)"

definition labels_add :: "LabelsEditor \<Rightarrow> LabelsEditor" where
  "labels_add e = (if lbe_newKey e \<noteq> [] \<and> lbe_newValue e \<noteq> []
    then \<lparr>lbe_labels = js_set (lbe_newKey e) (lbe_newValue e) (lbe_labels e), lbe_newKey = [], lbe_newValue = []\<rparr> else e)"

definition labels_remove :: "string \<Rightarrow> LabelsEditor \<Rightarrow> LabelsEditor" where
  "labels_remove k e = e\<lparr>lbe_labels := obj_delete k (lbe_labels e)\<rparr>"

text \<open>Done hands the labels over and closes the dialog.\<close>

definition labels_done :: "LabelsEditor \<Rightarrow> str_obj \<times> bool" where
  "labels_done e = (lbe_labels e, False)"

datatype LabelsEvent = TypeKey string | TypeValue string | AddLabel | RemoveLabel string

fun labels_step :: "LabelsEvent \<Rightarrow> LabelsEditor \<Rightarrow> LabelsEditor" where
  "labels_step (TypeKey v) e = e\<lparr>lbe_newKey := v\<rparr>"
| "labels_step (TypeValue v) e = e\<lparr>lbe_newValue := v\<rparr>"
| "labels_step AddLabel e = labels_add e"
| "labels_step (RemoveLabel k) e = labels_remove k e"

definition labels_run :: "str_obj \<Rightarrow> LabelsEvent list \<Rightarrow> LabelsEditor" where
  "labels_run initialLabels es =
    fold labels_step es \<lparr>lbe_labels = initialLabels, lbe_newKey = [], lbe_newValue = []\<rparr>"

definition combo_filtered :: "string \<Rightarrow> string list \<Rightarrow> string list" where
  "combo_filtered v suggestions = filter (\<lambda>s. includes_str (toLowerCase s) (toLowerCase v)) suggestions"

definition combo_offers_new :: "bool \<Rightarrow> string \<Rightarrow> string list \<Rightarrow> bool" where
  "combo_offers_new isLoading v suggestions \<longleftrightarrow> \<not> isLoading \<and> v \<noteq> [] \<and> v \<notin> set suggestions"

record LabelChips =
  lch_chips :: "(string \<times> string) list"
  lch_more :: "nat option"
  lch_less :: bool

definition LabelChips :: "nat \<Rightarrow> bool \<Rightarrow> str_obj \<Rightarrow> LabelChips" where
  "LabelChips maxVisible expanded labels = (let entries = Object_entries labels in
    \<lparr>lch_chips = (if expanded then entries else take maxVisible entries),
     lch_more = (if \<not> expanded \<and> maxVisible < length entries then Some (length entries - maxVisible) else None),
     lch_less = (expanded \<and> maxVisible < length entries)\<rparr>)"

subsection \<open>Creating and editing assets\<close>

record AssetCreateState =
  acd_name :: string
  acd_typeName :: string
  acd_labels :: str_obj
  acd_groupName :: "string option"
  acd_weight :: string

definition asset_create_mount :: AssetCreateState where
  "asset_create_mount = \<lparr>acd_name = [], acd_typeName = [], acd_labels = [], acd_groupName = None, acd_weight = ''1.0''\<rparr>"

definition effectiveType :: "AssetType list \<Rightarrow> AssetCreateState \<Rightarrow> string" where
  "effectiveType types s = (if acd_typeName s \<noteq> [] then acd_typeName s
    else case find aty_isDefault types of
        Some t \<Rightarrow> (if aty_name t \<noteq> [] then aty_name t else case types of [] \<Rightarrow> [] | u # _ \<Rightarrow> aty_name u)
      | None \<Rightarrow> (case types of [] \<Rightarrow> [] | u # _ \<Rightarrow> aty_name u))"

definition asset_create_valid :: "AssetType list \<Rightarrow> AssetCreateState \<Rightarrow> bool" where
  "asset_create_valid types s \<longleftrightarrow> isValidEntityName (acd_name s) \<and> effectiveType types s \<noteq> []"

text \<open>\<open>parseFloat(weight) || 1.0\<close>; a number input holds no infinite value.\<close>

definition member_weight :: "string \<Rightarrow> rat" where
  "member_weight w = (case parseFloat w of Fin q \<Rightarrow> (if q = 0 then 1 else q) | _ \<Rightarrow> 1)"

definition asset_create_body :: "AssetType list \<Rightarrow> AssetCreateState \<Rightarrow> json" where
  "asset_create_body types s = json_object [(''name'', Some (JStr (acd_name s))),
    (''type_name'', Some (JStr (effectiveType types s))), (''tags'', non_empty_obj (acd_labels s))]"

datatype dialog_request =
    PostAsset json | AddMember string string rat | PatchAsset string json | PostGroup json | AddSubgroup string string
  | PatchGroup string json | UnlinkSlo string string

text \<open>A submission: the state afterwards, whether the dialog is closed, and the requests; an error is unhandled.\<close>

definition asset_create_submit ::
    "int \<Rightarrow> (Request \<Rightarrow> AssetDto reply) \<Rightarrow> (Request \<Rightarrow> AssetGroupDto reply) \<Rightarrow> AssetType list \<Rightarrow> AssetCreateState
     \<Rightarrow> AssetCreateState \<times> bool \<times> dialog_request list" where
  "asset_create_submit tz anet gnet types s = (let body = asset_create_body types s in
    case mu_fn (useCreateAsset tz anet) body of
      Inl _ \<Rightarrow> (s, False, [PostAsset body])
    | Inr a \<Rightarrow> if truthy (acd_groupName s)
        then (let g = nullish (acd_groupName s) []; w = member_weight (acd_weight s) in
          case mu_fn (useAddGroupMember tz gnet) (g, at_id a, Some w) of
            Inl _ \<Rightarrow> (s, False, [PostAsset body, AddMember g (at_id a) w])
          | Inr _ \<Rightarrow> (asset_create_mount, True, [PostAsset body, AddMember g (at_id a) w]))
        else (asset_create_mount, True, [PostAsset body]))"

record AssetEditState =
  aed_displayName :: string
  aed_typeName :: string
  aed_labels :: str_obj

definition asset_edit_effect :: "Asset option \<Rightarrow> AssetEditState \<Rightarrow> AssetEditState" where
  "asset_edit_effect ast s = (case ast of None \<Rightarrow> s
    | Some a \<Rightarrow> \<lparr>aed_displayName = nullish (at_displayName a) [], aed_typeName = at_typeName a, aed_labels = at_tags a\<rparr>)"

definition asset_edit_body :: "AssetEditState \<Rightarrow> json" where
  "asset_edit_body s = json_object [(''display_name'', or_undefined (aed_displayName s)),
    (''type_name'', Some (JStr (aed_typeName s))), (''tags'', Some (json_str_obj (aed_labels s)))]"

definition asset_edit_save :: "string option \<Rightarrow> AssetEditState \<Rightarrow> dialog_request list" where
  "asset_edit_save assetName s = (if truthy assetName then [PatchAsset (nullish assetName []) (asset_edit_body s)] else [])"

subsection \<open>Creating and editing groups\<close>

record GroupFields =
  gcd_name :: string
  gcd_displayName :: string
  gcd_description :: string
  gcd_parentGroup :: string

definition group_create_mount :: GroupFields where
  "group_create_mount = \<lparr>gcd_name = [], gcd_displayName = [], gcd_description = [], gcd_parentGroup = []\<rparr>"

definition group_create_valid :: "GroupFields \<Rightarrow> bool" where
  "group_create_valid s \<longleftrightarrow> isValidEntityName (gcd_name s)"

definition group_create_body :: "GroupFields \<Rightarrow> json" where
  "group_create_body s = json_object [(''name'', Some (JStr (gcd_name s))),
    (''display_name'', or_undefined (gcd_displayName s)), (''description'', or_undefined (gcd_description s))]"

definition group_create_submit ::
    "int \<Rightarrow> (Request \<Rightarrow> AssetGroupDto reply) \<Rightarrow> AssetGroupTree option \<Rightarrow> GroupFields
     \<Rightarrow> GroupFields \<times> bool \<times> dialog_request list" where
  "group_create_submit tz net tree s = (let body = group_create_body s in
    case mu_fn (useCreateGroup tz net) body of
      Inl _ \<Rightarrow> (s, False, [PostGroup body])
    | Inr g \<Rightarrow> if gcd_parentGroup s \<noteq> [] \<and> tree \<noteq> None
        then (let p = gcd_parentGroup s in
          case mu_fn (useAddSubgroup tz net) (p, ag_id g) of
            Inl _ \<Rightarrow> (s, False, [PostGroup body, AddSubgroup p (ag_id g)])
          | Inr _ \<Rightarrow> (group_create_mount, True, [PostGroup body, AddSubgroup p (ag_id g)]))
        else (group_create_mount, True, [PostGroup body]))"

definition edited_group :: "AssetGroupTree option \<Rightarrow> string option \<Rightarrow> AssetGroup option" where
  "edited_group tree groupName =
    Option.bind tree (\<lambda>t. find (\<lambda>g. Some (ag_name g) = groupName) (agt_allGroups t))"

definition currentParent :: "AssetGroupTree option \<Rightarrow> AssetGroup option \<Rightarrow> AssetGroup option" where
  "currentParent tree grp = Option.bind tree (\<lambda>t.
    find (\<lambda>g. list_ex (\<lambda>sg. Some (gs_groupId sg) = map_option ag_id grp) (ag_subgroups g)) (agt_allGroups t))"

definition group_edit_effect :: "AssetGroupTree option \<Rightarrow> AssetGroup option \<Rightarrow> GroupFields \<Rightarrow> GroupFields" where
  "group_edit_effect tree grp s = (case grp of None \<Rightarrow> s
    | Some g \<Rightarrow> s\<lparr>gcd_displayName := nullish (ag_displayName g) [], gcd_description := nullish (ag_description g) [],
        gcd_parentGroup := (case currentParent tree grp of None \<Rightarrow> [] | Some p \<Rightarrow> ag_name p)\<rparr>)"

definition group_edit_body :: "GroupFields \<Rightarrow> json" where
  "group_edit_body s = json_object [(''display_name'', or_undefined (gcd_displayName s)),
    (''description'', or_undefined (gcd_description s))]"

definition group_edit_save ::
    "int \<Rightarrow> (Request \<Rightarrow> AssetGroupDto reply) \<Rightarrow> AssetGroupTree option \<Rightarrow> AssetGroup \<Rightarrow> GroupFields
     \<Rightarrow> bool \<times> dialog_request list" where
  "group_edit_save tz net tree grp s = (let patch = PatchGroup (ag_name grp) (group_edit_body s);
      newParent = gcd_parentGroup s;
      oldParent = (case currentParent tree (Some grp) of None \<Rightarrow> None | Some p \<Rightarrow> Some (ag_name p)) in
    case mu_fn (useUpdateGroup tz net) (ag_name grp, group_edit_body s) of
      Inl _ \<Rightarrow> (False, [patch])
    | Inr _ \<Rightarrow> if newParent \<noteq> [] \<and> Some newParent \<noteq> oldParent
        then (case mu_fn (useAddSubgroup tz net) (newParent, ag_id grp) of
            Inl _ \<Rightarrow> (False, [patch, AddSubgroup newParent (ag_id grp)])
          | Inr _ \<Rightarrow> (True, [patch, AddSubgroup newParent (ag_id grp)]))
        else (True, [patch]))"

text \<open>The unlink button of the i-th assignment listed.\<close>

definition group_edit_unlink :: "string \<Rightarrow> SloAssignment list option \<Rightarrow> nat \<Rightarrow> dialog_request option" where
  "group_edit_unlink groupName assignments i = (let rows = nullish assignments [] in
    if i < length rows then Some (UnlinkSlo groupName (sa_sloDefinitionId (rows ! i))) else None)"

subsection \<open>Deleting a group\<close>

datatype DeleteChoice = KeepSlos | DeactivateSlos

record GroupDelete =
  gdd_open :: bool
  gdd_groupName :: "string option"
  gdd_choice :: "DeleteChoice option"
  gdd_confirmOpen :: bool
  gdd_pending :: bool
  gdd_sent :: "(string \<times> bool) list"

definition group_delete_mount :: GroupDelete where
  "group_delete_mount = \<lparr>gdd_open = False, gdd_groupName = None, gdd_choice = None, gdd_confirmOpen = False,
    gdd_pending = False, gdd_sent = []\<rparr>"

text \<open>\<open>ConfirmDelete\<close> sends the request; the dialog shows nothing when its group is not in the loaded tree.\<close>

datatype GroupDeleteEvent =
    DeleteProps bool "string option" | DismissDelete | ChooseDelete DeleteChoice | DeleteButton
  | DismissConfirm | ConfirmDelete | DeleteSettled bool

definition delete_shown :: "AssetGroupTree option \<Rightarrow> GroupDelete \<Rightarrow> bool" where
  "delete_shown tree d \<longleftrightarrow> truthy (gdd_groupName d) \<and> edited_group tree (gdd_groupName d) \<noteq> None"

definition group_delete_step :: "AssetGroupTree option \<Rightarrow> GroupDeleteEvent \<Rightarrow> GroupDelete \<Rightarrow> GroupDelete" where
  "group_delete_step tree ev d =
    (let base = delete_shown tree d \<and> gdd_open d \<and> \<not> gdd_confirmOpen d; confirm = delete_shown tree d \<and> gdd_confirmOpen d in
     case ev of
      DeleteProps op n \<Rightarrow> d\<lparr>gdd_open := op, gdd_groupName := n\<rparr>
    | DismissDelete \<Rightarrow> if base then d\<lparr>gdd_open := False\<rparr> else d
    | ChooseDelete c \<Rightarrow> if base then d\<lparr>gdd_choice := Some c\<rparr> else d
    | DeleteButton \<Rightarrow> if base \<and> gdd_choice d \<noteq> None then d\<lparr>gdd_confirmOpen := True\<rparr> else d
    | DismissConfirm \<Rightarrow> if confirm then d\<lparr>gdd_confirmOpen := False\<rparr> else d
    | ConfirmDelete \<Rightarrow> if confirm \<and> \<not> gdd_pending d
        then d\<lparr>gdd_pending := True, gdd_sent := gdd_sent d @ [(nullish (gdd_groupName d) [], gdd_choice d = Some DeactivateSlos)]\<rparr>
        else d
    | DeleteSettled ok \<Rightarrow> if \<not> gdd_pending d then d
        else if ok then d\<lparr>gdd_pending := False, gdd_choice := None, gdd_confirmOpen := False, gdd_open := False\<rparr>
        else d\<lparr>gdd_pending := False\<rparr>)"

definition confirm_message :: "string \<Rightarrow> nat \<Rightarrow> DeleteChoice option \<Rightarrow> string" where
  "confirm_message label linkCount choice = (if choice = Some KeepSlos
    then ''Delete \"'' @ label @ ''\" and keep '' @ show_nat linkCount @ '' SLO(s) active?''
    else ''Delete \"'' @ label @ ''\" and deactivate '' @ show_nat linkCount @ '' SLO(s)?'')"

subsection \<open>Adding assets to a group\<close>

definition currentMemberIds :: "AssetGroupTree option \<Rightarrow> string option \<Rightarrow> string list" where
  "currentMemberIds tree groupName = (case edited_group tree groupName of
      Some g \<Rightarrow> if truthy groupName then uniq (map gm_assetId (ag_members g)) else []
    | None \<Rightarrow> [])"

definition available_assets :: "Asset list option \<Rightarrow> AssetGroupTree option \<Rightarrow> string option \<Rightarrow> string \<Rightarrow> Asset list" where
  "available_assets assets tree groupName flt =
    filter (\<lambda>a. flt = [] \<or> includes_str (toLowerCase (at_name a)) (toLowerCase flt)
        \<or> includes_str (toLowerCase (nullish (at_displayName a) [])) (toLowerCase flt))
      (filter (\<lambda>a. at_id a \<notin> set (currentMemberIds tree groupName)) (nullish assets []))"

definition add_asset_click :: "Asset list option \<Rightarrow> AssetGroupTree option \<Rightarrow> string option \<Rightarrow> string \<Rightarrow> nat
    \<Rightarrow> (string \<times> string) option" where
  "add_asset_click assets tree groupName flt i =
    (if truthy groupName \<and> i < length (available_assets assets tree groupName flt)
     then Some (nullish groupName [], at_id (available_assets assets tree groupName flt ! i)) else None)"

text \<open>Whether the dialog stays open and its filter, after the answer.\<close>

definition add_asset_settled :: "bool \<Rightarrow> bool \<times> string \<Rightarrow> bool \<times> string" where
  "add_asset_settled ok s = (if ok then (False, []) else s)"

subsection \<open>Asset types\<close>

record TypesDialog =
  atd_renamingName :: "string option"
  atd_renameValue :: string
  atd_deletingName :: "string option"
  atd_addingNew :: bool
  atd_newName :: string

definition types_mount :: TypesDialog where
  "types_mount = \<lparr>atd_renamingName = None, atd_renameValue = [], atd_deletingName = None, atd_addingNew = False, atd_newName = []\<rparr>"

datatype types_request = RenameType string string | DeleteType string | CreateType string | SetDefaultType string

datatype TypesEvent =
    StartTypeRename string | TypeRenameValue string | ConfirmTypeRename | CancelTypeRename | RenameSettled
  | StartTypeDelete string | CancelTypeDelete | ConfirmTypeDelete | DeleteTypeSettled
  | StartAddType | TypeNewName string | SaveType | CancelAddType | EscapeAddType | AddTypeSettled | MakeDefault string

definition can_delete :: "AssetType \<Rightarrow> bool" where
  "can_delete t \<longleftrightarrow> aty_assetCount t = 0 \<and> \<not> aty_isDefault t"

text \<open>A row shows the question in place of its buttons while its type is the one being deleted.\<close>

definition type_row :: "AssetType list \<Rightarrow> TypesDialog \<Rightarrow> string \<Rightarrow> AssetType option" where
  "type_row types d n = (if atd_deletingName d = Some n then None else find (\<lambda>t. aty_name t = n) types)"

definition types_step :: "AssetType list \<Rightarrow> TypesEvent \<Rightarrow> TypesDialog \<Rightarrow> TypesDialog \<times> types_request list" where
  "types_step types ev d = (case ev of
      StartTypeRename n \<Rightarrow> if type_row types d n = None then (d, [])
        else (d\<lparr>atd_renamingName := Some n, atd_renameValue := n, atd_deletingName := None, atd_addingNew := False\<rparr>, [])
    | TypeRenameValue v \<Rightarrow> if atd_renamingName d = None then (d, []) else (d\<lparr>atd_renameValue := v\<rparr>, [])
    | ConfirmTypeRename \<Rightarrow> if truthy (atd_renamingName d) \<and> atd_renameValue d \<noteq> []
          \<and> Some (atd_renameValue d) \<noteq> atd_renamingName d
        then (d, [RenameType (nullish (atd_renamingName d) []) (atd_renameValue d)])
        else (d\<lparr>atd_renamingName := None\<rparr>, [])
    | RenameSettled \<Rightarrow> (d\<lparr>atd_renamingName := None\<rparr>, [])
    | CancelTypeRename \<Rightarrow> (d\<lparr>atd_renamingName := None\<rparr>, [])
    | StartTypeDelete n \<Rightarrow> (case type_row types d n of None \<Rightarrow> (d, [])
        | Some t \<Rightarrow> if can_delete t then (d\<lparr>atd_deletingName := Some n\<rparr>, []) else (d, []))
    | CancelTypeDelete \<Rightarrow> (d\<lparr>atd_deletingName := None\<rparr>, [])
    | ConfirmTypeDelete \<Rightarrow> if truthy (atd_deletingName d) \<and> nullish (atd_deletingName d) [] \<in> set (map aty_name types)
        then (d, [DeleteType (nullish (atd_deletingName d) [])]) else (d, [])
    | DeleteTypeSettled \<Rightarrow> (d\<lparr>atd_deletingName := None\<rparr>, [])
    | StartAddType \<Rightarrow> (d\<lparr>atd_addingNew := True, atd_renamingName := None, atd_deletingName := None\<rparr>, [])
    | TypeNewName v \<Rightarrow> if atd_addingNew d then (d\<lparr>atd_newName := v\<rparr>, []) else (d, [])
    | SaveType \<Rightarrow> if atd_addingNew d \<and> atd_newName d \<noteq> [] then (d, [CreateType (atd_newName d)]) else (d, [])
    | AddTypeSettled \<Rightarrow> (d\<lparr>atd_newName := [], atd_addingNew := False\<rparr>, [])
    | CancelAddType \<Rightarrow> (d\<lparr>atd_addingNew := False, atd_newName := []\<rparr>, [])
    | EscapeAddType \<Rightarrow> (d\<lparr>atd_addingNew := False\<rparr>, [])
    | MakeDefault n \<Rightarrow> (case type_row types d n of None \<Rightarrow> (d, [])
        | Some t \<Rightarrow> if aty_isDefault t then (d, []) else (d, [SetDefaultType n])))"

subsection \<open>Label edits\<close>

lemma js_set_pairs: "set (js_set k v m) \<subseteq> insert (k, v) (set m)"
  by (induction k v m rule: js_set.induct) auto

text \<open>What a sequence of events leaves in the editor, over the labels it was opened with.\<close>

definition labels_inv :: "str_obj \<Rightarrow> LabelsEvent list \<Rightarrow> LabelsEditor \<Rightarrow> bool" where
  "labels_inv m es e \<longleftrightarrow> js_map_ok (lbe_labels e) \<and>
    (\<forall>p\<in>set (lbe_labels e). p \<in> set m \<or>
      fst p \<noteq> [] \<and> snd p \<noteq> [] \<and> TypeKey (fst p) \<in> set es \<and> TypeValue (snd p) \<in> set es) \<and>
    (lbe_newKey e = [] \<or> TypeKey (lbe_newKey e) \<in> set es) \<and>
    (lbe_newValue e = [] \<or> TypeValue (lbe_newValue e) \<in> set es)"

lemma labels_inv_add:
  assumes "labels_inv m es e"
  shows "labels_inv m es (labels_add e)"
proof (cases "lbe_newKey e \<noteq> [] \<and> lbe_newValue e \<noteq> []")
  case True
  then have "labels_add e = \<lparr>lbe_labels = js_set (lbe_newKey e) (lbe_newValue e) (lbe_labels e), lbe_newKey = [], lbe_newValue = []\<rparr>"
    by (simp add: labels_add_def)
  then show ?thesis
    using assms True js_set_pairs [of "lbe_newKey e" "lbe_newValue e" "lbe_labels e"]
    by (simp add: labels_inv_def) (metis (no_types, lifting) fst_conv insertE snd_conv subsetD)
next
  case False
  then show ?thesis using assms by (auto simp: labels_add_def)
qed

lemma labels_inv_mono: "labels_inv m es e \<Longrightarrow> labels_inv m (es @ fs) e"
  by (auto simp: labels_inv_def)

lemma labels_inv_step:
  assumes "labels_inv m es e"
  shows "labels_inv m (es @ [ev]) (labels_step ev e)"
proof (cases ev)
  case AddLabel
  then show ?thesis by (simp add: labels_inv_mono labels_inv_add assms)
next
  case (RemoveLabel k)
  have "js_map_ok (obj_delete k (lbe_labels e))"
    using assms by (auto simp: labels_inv_def obj_delete_def js_map_ok_def js_keys_def intro: distinct_map_filter)
  then show ?thesis
    using assms by (auto simp: RemoveLabel labels_remove_def labels_inv_def obj_delete_def)
qed (use assms in \<open>auto simp: labels_inv_def\<close>)

lemma labels_run_inv: "js_map_ok m \<Longrightarrow> labels_inv m es (labels_run m es)"
proof (induction es rule: rev_induct)
  case Nil
  then show ?case by (simp add: labels_run_def labels_inv_def)
next
  case (snoc ev es)
  then show ?case using labels_inv_step by (simp add: labels_run_def)
qed

text \<open>
  The labels editor keeps one entry per key, and every entry is one of the edited labels or was typed, with
  neither its key nor its value empty; Add enters what is typed, and a removed label is gone.
\<close>

lemma labels_editor_entries:
  assumes "js_map_ok m"
  shows "let e = labels_run m es in
    js_map_ok (lbe_labels e) \<and>
    (\<forall>p\<in>set (lbe_labels e). p \<in> set m \<or>
      fst p \<noteq> [] \<and> snd p \<noteq> [] \<and> TypeKey (fst p) \<in> set es \<and> TypeValue (snd p) \<in> set es) \<and>
    js_get (lbe_labels (labels_run m (es @ [RemoveLabel k]))) k = None \<and>
    js_get (lbe_labels (labels_run m (es @ [TypeKey (c # k), TypeValue (d # v), AddLabel]))) (c # k) = Some (d # v)"
  using labels_run_inv [OF assms, of es]
  by (simp add: labels_inv_def Let_def labels_run_def labels_remove_def labels_add_def obj_delete_get js_get_set)

theorem labels_editor_entries_witness:
  "let e = labels_run [(''env'', ''prod'')] [TypeKey ''os'', TypeValue ''linux'', AddLabel] in
    js_map_ok (lbe_labels e) \<and> lbe_labels e = [(''env'', ''prod''), (''os'', ''linux'')]"
  using labels_editor_entries [of "[(''env'', ''prod'')]" "[TypeKey ''os'', TypeValue ''linux'', AddLabel]"]
  by (simp add: js_map_ok_def js_keys_def labels_run_def labels_add_def)

subsection \<open>Deleting a group only after a choice and a confirmation\<close>

definition group_delete_run :: "(AssetGroupTree option \<times> GroupDeleteEvent) list \<Rightarrow> GroupDelete" where
  "group_delete_run es = fold (\<lambda>(tree, ev). group_delete_step tree ev) es group_delete_mount"

lemma group_delete_run_snoc:
  "group_delete_run (es @ [(tree, ev)]) = group_delete_step tree ev (group_delete_run es)"
  by (simp add: group_delete_run_def)

lemma group_delete_choice:
  "gdd_choice (group_delete_step tree ev d) =
     (if delete_shown tree d \<and> gdd_open d \<and> \<not> gdd_confirmOpen d \<and> (\<exists>c. ev = ChooseDelete c) then Some (case ev of ChooseDelete c \<Rightarrow> c)
      else if ev = DeleteSettled True \<and> gdd_pending d then None else gdd_choice d)"
  by (cases ev) (simp_all add: group_delete_step_def Let_def)

lemma group_delete_confirmOpen:
  "gdd_confirmOpen (group_delete_step tree ev d) \<Longrightarrow> ev \<noteq> DeleteSettled True \<or> \<not> gdd_pending d"
  "gdd_confirmOpen (group_delete_step tree ev d) \<Longrightarrow> gdd_confirmOpen d \<or> ev = DeleteButton \<and> gdd_choice d \<noteq> None"
  by (cases ev; simp add: group_delete_step_def Let_def split: if_splits)+

text \<open>The confirmation is asked only with a choice, and a choice was made by a click.\<close>

lemma group_delete_inv:
  "(gdd_confirmOpen (group_delete_run es) \<longrightarrow> gdd_choice (group_delete_run es) \<noteq> None) \<and>
   (\<forall>c. gdd_choice (group_delete_run es) = Some c \<longrightarrow> (\<exists>tree. (tree, ChooseDelete c) \<in> set es))"
proof (induction es rule: rev_induct)
  case Nil
  then show ?case by (simp add: group_delete_run_def group_delete_mount_def)
next
  case (snoc e es)
  obtain tree ev where e: "e = (tree, ev)" by (cases e)
  show ?case
    using snoc group_delete_confirmOpen [of tree ev "group_delete_run es"]
    unfolding e group_delete_run_snoc group_delete_choice by (auto split: if_splits)
qed

lemma group_delete_sent:
  "gdd_sent (group_delete_step tree ev d) = gdd_sent d @
     (if ev = ConfirmDelete \<and> delete_shown tree d \<and> gdd_confirmOpen d \<and> \<not> gdd_pending d
      then [(nullish (gdd_groupName d) [], gdd_choice d = Some DeactivateSlos)] else [])"
  by (cases ev) (simp_all add: group_delete_step_def Let_def)

text \<open>
  C35. A group is deleted only by the click that confirms it, for the group the dialog shows and that is in the
  loaded tree, while no deletion is running, and the SLOs are deactivated exactly when that was chosen by an
  earlier click.
\<close>

theorem group_delete_confirmed:
  assumes "gdd_sent (group_delete_run (es @ [(tree, ev)])) \<noteq> gdd_sent (group_delete_run es)"
  shows "let d = group_delete_run es in \<exists>n g c tree'.
    ev = ConfirmDelete \<and> gdd_groupName d = Some n \<and> edited_group tree (Some n) = Some g \<and> ag_name g = n \<and>
    gdd_choice d = Some c \<and> (tree', ChooseDelete c) \<in> set es \<and> \<not> gdd_pending d \<and>
    gdd_sent (group_delete_run (es @ [(tree, ev)])) = gdd_sent d @ [(n, c = DeactivateSlos)]"
proof -
  let ?d = "group_delete_run es"
  have s: "ev = ConfirmDelete" "delete_shown tree ?d" "gdd_confirmOpen ?d" "\<not> gdd_pending ?d"
    using assms unfolding group_delete_run_snoc group_delete_sent by (auto split: if_splits)
  obtain n g where n: "gdd_groupName ?d = Some n" and g: "edited_group tree (Some n) = Some g"
    using s(2) by (cases "gdd_groupName ?d") (auto simp: delete_shown_def)
  have "ag_name g = n" using g by (auto simp: edited_group_def find_Some_iff bind_eq_Some_conv)
  moreover obtain c tree' where "gdd_choice ?d = Some c" "(tree', ChooseDelete c) \<in> set es"
    using s(3) group_delete_inv [of es] by blast
  ultimately show ?thesis
    using s n g unfolding Let_def group_delete_run_snoc group_delete_sent by auto
qed

text \<open>A dismissed dialog keeps its choice: another group is offered its deletion with the choice made for the first.\<close>

lemma group_delete_choice_kept:
  assumes "edited_group tree (Some a) \<noteq> None" and "edited_group tree (Some b) \<noteq> None" and "a \<noteq> []" and "b \<noteq> []"
  shows "gdd_sent (group_delete_run (map (Pair tree) [DeleteProps True (Some a), ChooseDelete DeactivateSlos, DismissDelete,
      DeleteProps True (Some b), DeleteButton, ConfirmDelete])) = [(b, True)]"
  using assms by (simp add: group_delete_run_def group_delete_mount_def group_delete_step_def delete_shown_def)

text \<open>A group with nothing but its name, for the examples.\<close>

definition plain_group :: "string \<Rightarrow> string \<Rightarrow> AssetGroup" where
  "plain_group i n = \<lparr>ag_id = i, ag_name = n, ag_displayName = None, ag_description = None, ag_color = None,
    ag_members = [], ag_subgroups = [], ag_createdAt = None, ag_updatedAt = None\<rparr>"

theorem group_delete_confirmed_witness:
  "let t = Some \<lparr>agt_topLevel = [], agt_allGroups = [plain_group ''1'' ''prod'']\<rparr>;
       es = map (Pair t) [DeleteProps True (Some ''prod''), ChooseDelete KeepSlos, DeleteButton] in
   gdd_sent (group_delete_run es) = [] \<and>
   gdd_sent (group_delete_run (es @ [(t, ConfirmDelete)])) = [(''prod'', False)]"
proof -
  let ?t = "Some \<lparr>agt_topLevel = [], agt_allGroups = [plain_group ''1'' ''prod'']\<rparr>"
  let ?es = "map (Pair ?t) [DeleteProps True (Some ''prod''), ChooseDelete KeepSlos, DeleteButton]"
  have f: "edited_group ?t (Some ''prod'') = Some (plain_group ''1'' ''prod'')"
    by (simp add: edited_group_def plain_group_def)
  have "gdd_sent (group_delete_run ?es) = []" "gdd_choice (group_delete_run ?es) = Some KeepSlos"
    "gdd_sent (group_delete_run (?es @ [(?t, ConfirmDelete)])) \<noteq> gdd_sent (group_delete_run ?es)"
    "gdd_groupName (group_delete_run ?es) = Some ''prod''"
    by (simp_all add: group_delete_run_def group_delete_mount_def group_delete_step_def delete_shown_def f)
  with group_delete_confirmed [of ?es ?t ConfirmDelete] show ?thesis
    unfolding Let_def by auto
qed

subsection \<open>Deleting an asset type\<close>

definition types_run :: "(AssetType list \<times> TypesEvent) list \<Rightarrow> TypesDialog" where
  "types_run es = fold (\<lambda>(types, ev) d. fst (types_step types ev d)) es types_mount"

lemma types_run_snoc: "types_run (es @ [(types, ev)]) = fst (types_step types ev (types_run es))"
  by (simp add: types_run_def)

lemma type_row_find: "type_row types d n = Some t \<Longrightarrow> t \<in> set types \<and> aty_name t = n"
  by (auto simp: type_row_def find_Some_iff split: if_splits)

lemma types_deleting:
  "atd_deletingName (types_run es) = Some n \<Longrightarrow>
   \<exists>types t. (types, StartTypeDelete n) \<in> set es \<and> t \<in> set types \<and> aty_name t = n \<and> can_delete t"
proof (induction es rule: rev_induct)
  case Nil
  then show ?case by (simp add: types_run_def types_mount_def)
next
  case (snoc e es)
  obtain types ev where e: "e = (types, ev)" by (cases e)
  have *: "atd_deletingName (fst (types_step types ev d)) = Some n \<Longrightarrow> atd_deletingName d = Some n \<or>
      ev = StartTypeDelete n \<and> (\<exists>t. type_row types d n = Some t \<and> can_delete t)" for d
    by (cases ev) (auto simp: types_step_def split: if_splits option.splits)
  show ?case
    using snoc.prems * [of "types_run es"] snoc.IH type_row_find unfolding e types_run_snoc by fastforce
qed

lemma types_run_mem: "r \<in> set (snd (types_step types ev d)) \<Longrightarrow>
  (case r of
     DeleteType n \<Rightarrow> ev = ConfirmTypeDelete \<and> atd_deletingName d = Some n \<and> n \<noteq> [] \<and> n \<in> aty_name ` set types
   | RenameType a b \<Rightarrow> ev = ConfirmTypeRename \<and> atd_renamingName d = Some a \<and> b = atd_renameValue d \<and> b \<noteq> [] \<and> b \<noteq> a
   | CreateType n \<Rightarrow> ev = SaveType \<and> atd_addingNew d \<and> n = atd_newName d \<and> n \<noteq> []
   | SetDefaultType n \<Rightarrow> ev = MakeDefault n \<and> (\<exists>t\<in>set types. aty_name t = n \<and> \<not> aty_isDefault t))"
  by (cases ev; cases "atd_renamingName d"; cases "atd_deletingName d")
    (auto simp: types_step_def dest: type_row_find split: if_splits option.splits)

text \<open>
  C36. The asset types dialog asks to delete a type only when the confirmation is clicked while the type is listed,
  and after its delete button was clicked when it was listed as neither the default nor in use; a rename never
  sends an empty or unchanged name, a creation never an empty one, and the default type is never made the default.
\<close>

theorem asset_types_requests:
  assumes "r \<in> set (snd (types_step types ev (types_run es)))"
  shows "case r of
      DeleteType n \<Rightarrow> ev = ConfirmTypeDelete \<and> n \<in> aty_name ` set types \<and>
        (\<exists>types' t. (types', StartTypeDelete n) \<in> set es \<and> t \<in> set types' \<and> aty_name t = n \<and>
          aty_assetCount t = 0 \<and> \<not> aty_isDefault t)
    | RenameType a b \<Rightarrow> ev = ConfirmTypeRename \<and> b \<noteq> [] \<and> b \<noteq> a
    | CreateType n \<Rightarrow> ev = SaveType \<and> n \<noteq> []
    | SetDefaultType n \<Rightarrow> ev = MakeDefault n \<and> (\<exists>t\<in>set types. aty_name t = n \<and> \<not> aty_isDefault t)"
  using types_run_mem [OF assms] types_deleting [of es] unfolding can_delete_def
  by (cases r) auto

theorem asset_types_requests_witness:
  "snd (types_step [\<lparr>aty_id = ''1'', aty_name = ''db'', aty_isDefault = False, aty_assetCount = 0\<rparr>] ConfirmTypeDelete
     (types_run [([\<lparr>aty_id = ''1'', aty_name = ''db'', aty_isDefault = False, aty_assetCount = 0\<rparr>], StartTypeDelete ''db'')])) =
   [DeleteType ''db''] \<and> (\<exists>t::AssetType. aty_name t = ''db'' \<and> aty_assetCount t = 0)"
proof -
  let ?t = "\<lparr>aty_id = ''1'', aty_name = ''db'', aty_isDefault = False, aty_assetCount = 0\<rparr>"
  have r: "snd (types_step [?t] ConfirmTypeDelete (types_run [([?t], StartTypeDelete ''db'')])) = [DeleteType ''db'']"
    by (simp add: types_run_def types_mount_def types_step_def type_row_def can_delete_def)
  then have "DeleteType ''db'' \<in> set (snd (types_step [?t] ConfirmTypeDelete (types_run [([?t], StartTypeDelete ''db'')])))"
    by simp
  from asset_types_requests [OF this] have "\<exists>t::AssetType. aty_name t = ''db'' \<and> aty_assetCount t = 0"
    by (simp only: types_request.case) blast
  with r show ?thesis by (rule conjI)
qed

subsection \<open>Creating assets and groups\<close>

text \<open>The type sent is one the server listed, when it was not chosen from the list; it is the default one, if named.\<close>

lemma effectiveType_listed:
  assumes "acd_typeName s = []" and "effectiveType types s \<noteq> []"
  shows "\<exists>t\<in>set types. aty_name t = effectiveType types s \<and>
    (aty_isDefault t \<or> t = hd types \<and> (\<forall>u. find aty_isDefault types = Some u \<longrightarrow> aty_name u = []))"
proof (cases "find aty_isDefault types")
  case None
  then show ?thesis using assms by (cases types) (auto simp: effectiveType_def)
next
  case (Some u)
  then have "u \<in> set types" "aty_isDefault u" by (auto simp: find_Some_iff)
  with Some show ?thesis using assms
    by (cases "aty_name u = []"; cases types) (auto simp: effectiveType_def)
qed

lemma member_weight_cases: "member_weight w = (if parseFloat w = Fin 0 then 1 else case parseFloat w of Fin q \<Rightarrow> q | _ \<Rightarrow> 1)"
  by (cases "parseFloat w") (simp_all add: member_weight_def)

lemma member_weight_never_zero: "member_weight w \<noteq> 0"
  by (cases "parseFloat w") (simp_all add: member_weight_def)

text \<open>
  Creating an asset sends the asset first, and its membership only when the asset was created and a group
  was chosen, with the identifier the server gave and a weight that is never 0; the dialog closes and is reset
  exactly when every request succeeded, and otherwise keeps what was typed.
\<close>

lemma asset_create_correct:
  "case asset_create_submit tz anet gnet types s of (s', shut, rs) \<Rightarrow>
    hd rs = PostAsset (asset_create_body types s) \<and>
    (shut \<longrightarrow> s' = asset_create_mount) \<and> (\<not> shut \<longrightarrow> s' = s) \<and>
    (shut \<longleftrightarrow> (\<exists>a. mu_fn (useCreateAsset tz anet) (asset_create_body types s) = Inr a \<and>
      (\<forall>g. acd_groupName s = Some g \<longrightarrow> g \<noteq> [] \<longrightarrow>
        (\<exists>y. mu_fn (useAddGroupMember tz gnet) (g, at_id a, Some (member_weight (acd_weight s))) = Inr y)))) \<and>
    (\<forall>r\<in>set (tl rs). \<exists>a g. mu_fn (useCreateAsset tz anet) (asset_create_body types s) = Inr a \<and>
      acd_groupName s = Some g \<and> g \<noteq> [] \<and> r = AddMember g (at_id a) (member_weight (acd_weight s))) \<and>
    member_weight (acd_weight s) \<noteq> 0 \<and> length rs \<le> 2"
  by (cases "acd_groupName s"; cases "mu_fn (useCreateAsset tz anet) (asset_create_body types s)")
    (auto simp: asset_create_submit_def Let_def member_weight_never_zero truthy_def split: sum.split list.splits)

text \<open>
  Opening the edit dialog of a group and saving it at once sends its own names back and moves it nowhere; a group
  is moved only below a group that is chosen, and choosing no parent sends nothing about the parent.
\<close>

lemma group_edit_unchanged:
  "snd (group_edit_save tz net tree g (group_edit_effect tree (Some g) s)) =
     [PatchGroup (ag_name g) (json_object [(''display_name'', or_undefined (nullish (ag_displayName g) [])),
        (''description'', or_undefined (nullish (ag_description g) []))])]"
  by (cases "currentParent tree (Some g)")
    (simp_all add: group_edit_save_def group_edit_effect_def group_edit_body_def Let_def split: sum.split)

lemma group_edit_parent_kept:
  "gcd_parentGroup s = [] \<Longrightarrow> snd (group_edit_save tz net tree g s) = [PatchGroup (ag_name g) (group_edit_body s)]"
  by (simp add: group_edit_save_def Let_def split: sum.split)

lemma group_edit_no_clear: "gcd_displayName s = [] \<Longrightarrow> gcd_description s = [] \<Longrightarrow> group_edit_body s = json_object []"
  by (simp add: group_edit_body_def or_undefined_def json_object_def)

text \<open>While the next asset is being loaded the edit dialog holds the previous one's fields, and Save sends them.\<close>

lemma asset_edit_stale:
  assumes "b \<noteq> []"
  shows "asset_edit_save (Some b) (asset_edit_effect None (asset_edit_effect (Some a) s)) =
    [PatchAsset b (json_object [(''display_name'', or_undefined (nullish (at_displayName a) [])),
      (''type_name'', Some (JStr (at_typeName a))), (''tags'', Some (json_str_obj (at_tags a)))])]"
  using assms by (simp add: asset_edit_save_def asset_edit_effect_def asset_edit_body_def)

text \<open>An asset offered for a group, and so one a click adds, is none of its members in the loaded tree.\<close>

lemma available_assets_iff:
  "a \<in> set (available_assets assets tree grp flt) \<longleftrightarrow> a \<in> set (nullish assets []) \<and>
     at_id a \<notin> set (currentMemberIds tree grp) \<and>
     (flt = [] \<or> includes_str (toLowerCase (at_name a)) (toLowerCase flt)
       \<or> includes_str (toLowerCase (nullish (at_displayName a) [])) (toLowerCase flt))"
  by (auto simp: available_assets_def)

lemma add_asset_click_new:
  assumes "add_asset_click assets tree grp flt i = Some (n, x)" and "edited_group tree grp = Some g"
  shows "grp = Some n \<and> x \<notin> gm_assetId ` set (ag_members g) \<and> x \<in> at_id ` set (nullish assets [])"
proof -
  let ?a = "available_assets assets tree grp flt"
  have i: "i < length ?a" "x = at_id (?a ! i)" "grp = Some n" "n \<noteq> []"
    using assms(1) by (cases grp; auto simp: add_asset_click_def split: if_splits)+
  then have "?a ! i \<in> set ?a" by simp
  then show ?thesis using i assms(2) by (auto simp: available_assets_iff currentMemberIds_def)
qed

text \<open>The combo box offers a value of its own exactly when it is not a suggestion; every suggestion contains it.\<close>

lemma combo_offers:
  "s \<in> set (combo_filtered v ss) \<longleftrightarrow> s \<in> set ss \<and> includes_str (toLowerCase s) (toLowerCase v)"
  "combo_offers_new False v ss \<Longrightarrow> v \<notin> set (combo_filtered v ss)"
  by (auto simp: combo_filtered_def combo_offers_new_def)

lemma LabelChips_all:
  "lch_chips (LabelChips n e m) @ drop (if e then length (Object_entries m) else n) (Object_entries m) = Object_entries m"
  by (cases e) (simp_all add: LabelChips_def Let_def)

end
