(* ===== verification/AssetPages.thy ===== *)
theory AssetPages
  imports AssetDialogs
begin

text \<open>
  The assets page (\<open>pages/AssetsPage.tsx\<close>), its two panels (\<open>features/assets/components/AllAssetsPanel.tsx\<close>,
  \<open>GroupDetailPanel.tsx\<close>) and the dialog that links an SLO to a group with an indicator
  (\<open>features/slos/components/SloLinkDialog.tsx\<close>). A panel is a step function over the clicks on what it shows; a
  click on something it does not show does nothing.
\<close>

subsection \<open>All assets\<close>

record AssetRow =
  arw_label :: string
  arw_name :: "string option"
  arw_type :: string
  arw_chips :: LabelChips
  arw_asking :: bool

definition asset_row :: "string option \<Rightarrow> (string \<Rightarrow> bool) \<Rightarrow> Asset \<Rightarrow> AssetRow" where
  "asset_row confirmDelete expanded a = \<lparr>arw_label = nullish (at_displayName a) (at_name a),
    arw_name = (if truthy (at_displayName a) then Some (at_name a) else None), arw_type = at_typeName a,
    arw_chips = LabelChips 3 (expanded (at_id a)) (at_tags a), arw_asking = (confirmDelete = Some (at_name a))\<rparr>"

datatype AllAssetsEvent = AskDelete nat | ConfirmAssetDelete nat | CancelAssetDelete nat

text \<open>The asset whose deletion is asked for, and the name of the asset the click asks to delete.\<close>

definition all_assets_step :: "Asset list \<Rightarrow> AllAssetsEvent \<Rightarrow> string option \<Rightarrow> string option \<times> string option" where
  "all_assets_step assets ev confirmDelete = (case ev of
      AskDelete i \<Rightarrow> if i < length assets \<and> confirmDelete \<noteq> Some (at_name (assets ! i))
        then (Some (at_name (assets ! i)), None) else (confirmDelete, None)
    | ConfirmAssetDelete i \<Rightarrow> if i < length assets \<and> confirmDelete = Some (at_name (assets ! i))
        then (None, Some (at_name (assets ! i))) else (confirmDelete, None)
    | CancelAssetDelete i \<Rightarrow> if i < length assets \<and> confirmDelete = Some (at_name (assets ! i))
        then (None, None) else (confirmDelete, None))"

definition all_assets_run :: "(Asset list \<times> AllAssetsEvent) list \<Rightarrow> string option" where
  "all_assets_run es = fold (\<lambda>(assets, ev) d. fst (all_assets_step assets ev d)) es None"

definition all_assets_line :: "Asset list \<Rightarrow> AssetType list \<Rightarrow> string" where
  "all_assets_line assets types = show_nat (length assets) @ '' assets '' @ middle_dot @ '' '' @ show_nat (length types) @ '' types''"

subsection \<open>One group\<close>

definition panel_subgroups :: "AssetGroupTree option \<Rightarrow> AssetGroup \<Rightarrow> AssetGroup list" where
  "panel_subgroups tree grp = (case tree of None \<Rightarrow> []
    | Some t \<Rightarrow> List.map_filter (\<lambda>sg. find (\<lambda>g. ag_id g = gs_groupId sg) (agt_allGroups t)) (ag_subgroups grp))"

definition memberAssets :: "Asset list \<Rightarrow> AssetGroup \<Rightarrow> (AssetGroupMember \<times> Asset option) list" where
  "memberAssets assets grp = map (\<lambda>m. (m, find (\<lambda>a. at_id a = gm_assetId m) assets)) (ag_members grp)"

definition panel_statsLine :: "AssetGroup \<Rightarrow> AssetGroup list \<Rightarrow> SloAssignment list \<Rightarrow> string" where
  "panel_statsLine grp subgroups assignments = join ('' '' @ middle_dot @ '' '')
    [show_nat (length (ag_members grp)) @ '' assets'', show_nat (length subgroups) @ '' subgroups'',
     show_nat (length assignments) @ '' linked SLOs'']"

record MemberRow =
  mrw_label :: string
  mrw_name :: "string option"
  mrw_type :: string
  mrw_labels :: str_obj
  mrw_weight :: rat
  mrw_highlighted :: bool

definition panel_member_row :: "string option \<Rightarrow> AssetGroupMember \<times> Asset option \<Rightarrow> MemberRow" where
  "panel_member_row selectedAsset = (\<lambda>(m, ast). let dn = Option.bind ast at_displayName in
    \<lparr>mrw_label = nullish dn (gm_assetName m),
     mrw_name = (if truthy dn then Some (gm_assetName m) else None),
     mrw_type = (case ast of None \<Rightarrow> em_dash | Some a \<Rightarrow> at_typeName a),
     mrw_labels = (case ast of None \<Rightarrow> [] | Some a \<Rightarrow> at_tags a),
     mrw_weight = gm_weight m, mrw_highlighted = (selectedAsset = Some (gm_assetName m))\<rparr>)"

record PanelDialogs =
  pdl_editDialogOpen :: bool
  pdl_deleteDialogOpen :: bool
  pdl_createSubgroupOpen :: bool
  pdl_linkSloOpen :: bool
  pdl_addAssetOpen :: bool
  pdl_editingAssetName :: "string option"
  pdl_labelEditAsset :: "(string \<times> str_obj) option"

definition group_panel_mount :: PanelDialogs where
  "group_panel_mount = \<lparr>pdl_editDialogOpen = False, pdl_deleteDialogOpen = False, pdl_createSubgroupOpen = False,
    pdl_linkSloOpen = False, pdl_addAssetOpen = False, pdl_editingAssetName = None, pdl_labelEditAsset = None\<rparr>"

datatype PanelEvent =
    EditButton | LinkButton | DeleteGroupButton | AddSubgroupButton | AddAssetButton
  | SubgroupCard nat | EditMemberButton nat | EditLabelsButton nat | RemoveMemberButton nat | UnlinkButton nat
  | SaveLabels str_obj | CloseEdit | CloseDelete | GroupDeleted | CloseCreate | CloseLink | CloseAddAsset | CloseEditAsset
  | CloseLabels

datatype PanelRequest =
    RemoveFromGroup string string | UnlinkFromGroup string string | PatchTags string json | SelectGroup string

text \<open>
  What a click does: to the dialogs, and the request it sends or the group it selects. \<open>members\<close> and
  \<open>assignments\<close> are the rows shown.
\<close>

definition panel_step ::
    "string \<Rightarrow> AssetGroup list \<Rightarrow> (AssetGroupMember \<times> Asset option) list \<Rightarrow> SloAssignment list \<Rightarrow> PanelEvent
     \<Rightarrow> PanelDialogs \<Rightarrow> PanelDialogs \<times> PanelRequest option" where
  "panel_step groupName subgroups rows assignments ev d = (case ev of
      EditButton \<Rightarrow> (d\<lparr>pdl_editDialogOpen := True\<rparr>, None)
    | LinkButton \<Rightarrow> (d\<lparr>pdl_linkSloOpen := True\<rparr>, None)
    | DeleteGroupButton \<Rightarrow> (d\<lparr>pdl_deleteDialogOpen := True\<rparr>, None)
    | AddSubgroupButton \<Rightarrow> (d\<lparr>pdl_createSubgroupOpen := True\<rparr>, None)
    | AddAssetButton \<Rightarrow> (d\<lparr>pdl_addAssetOpen := True\<rparr>, None)
    | SubgroupCard i \<Rightarrow> (d, if i < length subgroups then Some (SelectGroup (ag_name (subgroups ! i))) else None)
    | EditMemberButton i \<Rightarrow> if i < length rows
        then (d\<lparr>pdl_editingAssetName := Some (gm_assetName (fst (rows ! i)))\<rparr>, None) else (d, None)
    | EditLabelsButton i \<Rightarrow> if i < length rows
        then (d\<lparr>pdl_labelEditAsset := Some (gm_assetName (fst (rows ! i)),
          case snd (rows ! i) of None \<Rightarrow> [] | Some a \<Rightarrow> at_tags a)\<rparr>, None) else (d, None)
    | RemoveMemberButton i \<Rightarrow> (d, if i < length rows then Some (RemoveFromGroup groupName (gm_assetId (fst (rows ! i)))) else None)
    | UnlinkButton i \<Rightarrow> (d, if i < length assignments
        then Some (UnlinkFromGroup groupName (sa_sloDefinitionId (assignments ! i))) else None)
    | SaveLabels tags \<Rightarrow> (d\<lparr>pdl_labelEditAsset := None\<rparr>,
        map_option (\<lambda>(n, _). PatchTags n (json_object [(''tags'', Some (json_str_obj tags))])) (pdl_labelEditAsset d))
    | CloseEdit \<Rightarrow> (d\<lparr>pdl_editDialogOpen := False\<rparr>, None)
    | CloseDelete \<Rightarrow> (d\<lparr>pdl_deleteDialogOpen := False\<rparr>, None)
    | GroupDeleted \<Rightarrow> (d\<lparr>pdl_deleteDialogOpen := False\<rparr>, Some (SelectGroup ''__ungrouped__''))
    | CloseCreate \<Rightarrow> (d\<lparr>pdl_createSubgroupOpen := False\<rparr>, None)
    | CloseLink \<Rightarrow> (d\<lparr>pdl_linkSloOpen := False\<rparr>, None)
    | CloseAddAsset \<Rightarrow> (d\<lparr>pdl_addAssetOpen := False\<rparr>, None)
    | CloseEditAsset \<Rightarrow> (d\<lparr>pdl_editingAssetName := None\<rparr>, None)
    | CloseLabels \<Rightarrow> (d\<lparr>pdl_labelEditAsset := None\<rparr>, None))"

subsection \<open>The selection in the URL\<close>

definition page_selectGroup :: "string option \<Rightarrow> search_params \<Rightarrow> search_params" where
  "page_selectGroup name prev = (let nxt = sp_delete ''asset'' (sp_delete ''group'' prev) in
    withTimeParamsLast (if truthy name then sp_set ''group'' (nullish name []) nxt else nxt))"

definition page_selectAsset :: "string \<Rightarrow> string option \<Rightarrow> search_params \<Rightarrow> search_params" where
  "page_selectAsset name groupName prev = (let nxt = sp_delete ''asset'' (sp_delete ''group'' prev);
      nxt1 = (if truthy groupName then sp_set ''group'' (nullish groupName []) nxt else nxt) in
    withTimeParamsLast (sp_set ''asset'' name nxt1))"

definition panel_selectGroup :: "string \<Rightarrow> search_params \<Rightarrow> search_params" where
  "panel_selectGroup name prev = withTimeParamsLast (sp_set ''group'' name (sp_delete ''asset'' prev))"

datatype AssetsPanel = GroupPanel string "string option" | AllPanel

definition page_panel :: "search_params \<Rightarrow> AssetsPanel" where
  "page_panel ps = (case sp_get ps ''group'' of
      Some g \<Rightarrow> if g \<noteq> [] \<and> g \<noteq> ''__ungrouped__'' then GroupPanel g (sp_get ps ''asset'') else AllPanel
    | None \<Rightarrow> AllPanel)"

subsection \<open>Linking an SLO with an indicator\<close>

text \<open>
  The dialog has the fields and effects of the registry's link dialog and one more field, the SLI, which a new data
  source clears.
\<close>

record SloLinkState =
  slk_link :: LinkState
  slk_sliName :: string

definition slo_link_mount :: "bool \<Rightarrow> string option \<Rightarrow> string option \<Rightarrow> SloLinkState" where
  "slo_link_mount op lockedSlo lockedGroup = \<lparr>slk_link = link_mount op lockedSlo lockedGroup, slk_sliName = []\<rparr>"

datatype SloLinkEvent = LinkField LinkEvent | PickSli string

definition slo_link_step :: "SloLinkEvent \<Rightarrow> SloLinkState \<Rightarrow> SloLinkState" where
  "slo_link_step ev s = (case ev of
      PickSli n \<Rightarrow> if lk_datasource (slk_link s) \<noteq> [] then s\<lparr>slk_sliName := n\<rparr> else s
    | LinkField e \<Rightarrow> let l = link_step e (slk_link s);
        reopened = (case e of LinkProps op a b \<Rightarrow> op \<and> (op \<noteq> lk_open (slk_link s) \<or> a \<noteq> lk_lockedSloName (slk_link s)
            \<or> b \<noteq> lk_lockedGroupName (slk_link s)) | _ \<Rightarrow> False) in
        \<lparr>slk_link = l, slk_sliName = (if reopened \<or> lk_datasource l \<noteq> lk_datasource (slk_link s) then [] else slk_sliName s)\<rparr>)"

definition slo_link_run :: "bool \<Rightarrow> string option \<Rightarrow> string option \<Rightarrow> SloLinkEvent list \<Rightarrow> SloLinkState" where
  "slo_link_run op lockedSlo lockedGroup es = fold slo_link_step es (slo_link_mount op lockedSlo lockedGroup)"

definition slo_link_valid :: "Slo list option \<Rightarrow> SloAssignment list option \<Rightarrow> SloLinkState \<Rightarrow> bool" where
  "slo_link_valid slos existing s \<longleftrightarrow> lk_datasource (slk_link s) \<noteq> [] \<and> slk_sliName s \<noteq> [] \<and>
    lk_groupName (slk_link s) \<noteq> [] \<and> lk_sloName (slk_link s) \<noteq> [] \<and>
    find (\<lambda>x. slo_name x = lk_sloName (slk_link s)) (nullish slos []) \<noteq> None \<and> \<not> isDuplicate existing (slk_link s)"

definition slo_link_click ::
    "Slo list option \<Rightarrow> SloAssignment list option \<Rightarrow> bool \<Rightarrow> SloLinkState \<Rightarrow> (string \<times> string \<times> string) option" where
  "slo_link_click slos existing isPending s =
    (if lk_open (slk_link s) \<and> slo_link_valid slos existing s \<and> \<not> isPending then handleLink slos (slk_link s) else None)"

text \<open>The SLIs offered: the active ones of the adapter of the chosen data source, with their labels.\<close>

definition sli_options :: "(string option \<Rightarrow> Sli list option) \<Rightarrow> Datasource list option \<Rightarrow> string \<Rightarrow> (string \<times> string) list" where
  "sli_options slis datasources ds = (let selectedDs = find (\<lambda>d. ds_name d = ds) (nullish datasources []) in
    map (\<lambda>s. (sli_name s, nullish (sli_displayName s) (sli_name s)))
      (filter sli_active (nullish (slis (map_option ds_adapterType selectedDs)) [])))"

subsection \<open>Deleting an asset\<close>

lemma all_assets_asking:
  "all_assets_run es = Some n \<Longrightarrow> \<exists>assets i. (assets, AskDelete i) \<in> set es \<and> i < length assets \<and> at_name (assets ! i) = n"
proof (induction es rule: rev_induct)
  case Nil
  then show ?case by (simp add: all_assets_run_def)
next
  case (snoc e es)
  obtain assets ev where e: "e = (assets, ev)" by (cases e)
  have "all_assets_run es = Some n \<or> (\<exists>i. ev = AskDelete i \<and> i < length assets \<and> at_name (assets ! i) = n)"
    using snoc.prems by (cases ev) (auto simp: e all_assets_run_def all_assets_step_def split: if_splits)
  then show ?case using snoc.IH e by auto
qed

text \<open>
  An asset is deleted only by the Delete button of its own row while the row asks for it, after its bin was
  clicked; the question is then gone, so that the next click deletes nothing.
\<close>

lemma asset_delete_confirmed:
  assumes "snd (all_assets_step assets ev (all_assets_run es)) = Some n"
  shows "(\<exists>i. ev = ConfirmAssetDelete i \<and> i < length assets \<and> at_name (assets ! i) = n) \<and>
    (\<exists>assets' i. (assets', AskDelete i) \<in> set es \<and> i < length assets' \<and> at_name (assets' ! i) = n) \<and>
    snd (all_assets_step assets' ev' (all_assets_run (es @ [(assets, ev)]))) = None"
proof -
  obtain i where i: "ev = ConfirmAssetDelete i" "i < length assets" "at_name (assets ! i) = n" "all_assets_run es = Some n"
    using assms by (cases ev) (auto simp: all_assets_step_def split: if_splits)
  then have "all_assets_run (es @ [(assets, ev)]) = None"
    by (simp add: all_assets_run_def all_assets_step_def)
  moreover have "snd (all_assets_step assets' ev' None) = None"
    by (cases ev') (simp_all add: all_assets_step_def)
  ultimately show ?thesis using i all_assets_asking [of es n] by simp
qed

definition plain_asset :: "string \<Rightarrow> string \<Rightarrow> Asset" where
  "plain_asset i n = \<lparr>at_id = i, at_name = n, at_displayName = None, at_typeName = ''vm'', at_color = None, at_tags = [],
    at_variables = [], at_heatmapConfig = None, at_createdAt = None, at_updatedAt = None\<rparr>"

theorem asset_delete_confirmed_witness:
  "snd (all_assets_step [plain_asset ''1'' ''web''] (ConfirmAssetDelete 0)
     (all_assets_run [([plain_asset ''1'' ''web''], AskDelete 0)])) = Some ''web'' \<and>
   snd (all_assets_step [] (AskDelete 0) (all_assets_run [([plain_asset ''1'' ''web''], AskDelete 0),
     ([plain_asset ''1'' ''web''], ConfirmAssetDelete 0)])) = None"
proof -
  have "snd (all_assets_step [plain_asset ''1'' ''web''] (ConfirmAssetDelete 0)
     (all_assets_run [([plain_asset ''1'' ''web''], AskDelete 0)])) = Some ''web''"
    by (simp add: all_assets_run_def all_assets_step_def plain_asset_def)
  with asset_delete_confirmed [OF this, of "[]" "AskDelete 0"] show ?thesis by simp
qed

subsection \<open>The panel of a group\<close>

lemma find_Some_mem: "find P xs = Some x \<Longrightarrow> x \<in> set xs"
  by (auto simp: find_Some_iff)

lemma find_Some_holds: "find P xs = Some x \<Longrightarrow> P x"
  by (auto simp: find_Some_iff)

lemma panel_subgroups_mem:
  "g \<in> set (panel_subgroups (Some t) grp) \<Longrightarrow> g \<in> set (agt_allGroups t) \<and> ag_id g \<in> gs_groupId ` set (ag_subgroups grp)"
proof -
  assume "g \<in> set (panel_subgroups (Some t) grp)"
  then obtain sg where "sg \<in> set (ag_subgroups grp)" "find (\<lambda>g. ag_id g = gs_groupId sg) (agt_allGroups t) = Some g"
    by (auto simp: panel_subgroups_def List.map_filter_def)
  then show ?thesis using find_Some_mem find_Some_holds by fastforce
qed

lemma memberAssets_found: "(m, Some a) \<in> set (memberAssets assets grp) \<Longrightarrow> a \<in> set assets \<and> at_id a = gm_assetId m"
  by (auto simp: memberAssets_def dest: sym intro: find_Some_mem find_Some_holds)

text \<open>
  The panel of a group acts only on what the group has: a removal names the group and one of its members, an
  unlinking the group and one of the assignments shown, a subgroup card selects a subgroup of the group, and labels
  are saved for the asset whose editor is open.
\<close>

lemma panel_requests:
  assumes "snd (panel_step (ag_name grp) (panel_subgroups (Some t) grp) (memberAssets assets grp) assignments ev d) = Some r"
  shows "case r of
      RemoveFromGroup g a \<Rightarrow> g = ag_name grp \<and> a \<in> gm_assetId ` set (ag_members grp)
    | UnlinkFromGroup g s \<Rightarrow> g = ag_name grp \<and> s \<in> sa_sloDefinitionId ` set assignments
    | SelectGroup n \<Rightarrow> ev = GroupDeleted \<and> n = ''__ungrouped__'' \<or>
        (\<exists>g\<in>set (agt_allGroups t). ag_name g = n \<and> ag_id g \<in> gs_groupId ` set (ag_subgroups grp))
    | PatchTags n _ \<Rightarrow> (\<exists>tags. pdl_labelEditAsset d = Some (n, tags))"
proof (cases ev)
  case (SubgroupCard i)
  then have "i < length (panel_subgroups (Some t) grp)" "r = SelectGroup (ag_name (panel_subgroups (Some t) grp ! i))"
    using assms by (auto simp: panel_step_def split: if_splits)
  then show ?thesis using panel_subgroups_mem [OF nth_mem] by fastforce
next
  case (RemoveMemberButton i)
  then show ?thesis
    using assms by (auto simp: panel_step_def memberAssets_def split: if_splits)
next
  case (UnlinkButton i)
  then show ?thesis using assms by (auto simp: panel_step_def split: if_splits)
qed (use assms in \<open>auto simp: panel_step_def split: if_splits\<close>)

text \<open>
  While the assets are not loaded a row has no labels, and saving the labels editor opened from it replaces the
  asset's labels by what was typed there.
\<close>

lemma panel_labels_lost:
  assumes "m \<in> set (ag_members grp)"
  shows "\<exists>i. let d = fst (panel_step n sgs (memberAssets [] grp) asg (EditLabelsButton i) group_panel_mount) in
    pdl_labelEditAsset d = Some (gm_assetName m, []) \<and>
    snd (panel_step n sgs rows asg (SaveLabels tags) d) =
      Some (PatchTags (gm_assetName m) (json_object [(''tags'', Some (json_str_obj tags))]))"
proof -
  obtain i where "i < length (ag_members grp)" "ag_members grp ! i = m"
    using assms by (auto simp: in_set_conv_nth)
  then have "let d = fst (panel_step n sgs (memberAssets [] grp) asg (EditLabelsButton i) group_panel_mount) in
    pdl_labelEditAsset d = Some (gm_assetName m, []) \<and>
    snd (panel_step n sgs rows asg (SaveLabels tags) d) =
      Some (PatchTags (gm_assetName m) (json_object [(''tags'', Some (json_str_obj tags))]))"
    by (simp add: panel_step_def memberAssets_def group_panel_mount_def Let_def)
  then show ?thesis by (rule exI [of _ i])
qed

subsection \<open>The selection in the URL\<close>

text \<open>
  The page shows the panel of the group that was selected, in the tree or by a card, with the selected asset
  marked; the time range and every other parameter of the URL are kept.
\<close>

lemma page_selection:
  "page_panel (page_selectGroup g ps) =
     (if truthy g \<and> g \<noteq> Some ''__ungrouped__'' then GroupPanel (nullish g []) None else AllPanel)"
  "page_panel (page_selectAsset a g ps) =
     (if truthy g \<and> g \<noteq> Some ''__ungrouped__'' then GroupPanel (nullish g []) (Some a) else AllPanel)"
  "page_panel (panel_selectGroup n ps) = (if n \<noteq> [] \<and> n \<noteq> ''__ungrouped__'' then GroupPanel n None else AllPanel)"
  "k \<noteq> ''group'' \<Longrightarrow> k \<noteq> ''asset'' \<Longrightarrow> sp_get (page_selectGroup g ps) k = sp_get ps k \<and>
     sp_get (page_selectAsset a g ps) k = sp_get ps k \<and> sp_get (panel_selectGroup n ps) k = sp_get ps k"
  by (cases g; simp add: page_panel_def page_selectGroup_def page_selectAsset_def panel_selectGroup_def Let_def
      sp_get_set sp_get_delete)+

subsection \<open>Linking an SLO with an indicator\<close>

text \<open>A run of the dialog is a run of the registry's link dialog on the events of its fields.\<close>

definition link_fields :: "SloLinkEvent list \<Rightarrow> LinkEvent list" where
  "link_fields es = List.map_filter (\<lambda>e. case e of LinkField l \<Rightarrow> Some l | PickSli _ \<Rightarrow> None) es"

lemma slo_link_refines: "slk_link (slo_link_run op a b es) = link_run op a b (link_fields es)"
proof (induction es rule: rev_induct)
  case Nil
  then show ?case by (simp add: slo_link_run_def link_run_def slo_link_mount_def link_fields_def)
next
  case (snoc e es)
  then show ?case
    by (cases e) (auto simp: slo_link_run_def link_run_def link_fields_def slo_link_step_def Let_def List.map_filter_def)
qed

lemma slo_link_click_registry:
  "slo_link_click slos existing p s = Some r \<Longrightarrow> link_click slos existing p (slk_link s) = Some r \<and> slk_sliName s \<noteq> []"
  by (auto simp: slo_link_click_def slo_link_valid_def link_click_def link_valid_def split: if_splits)

text \<open>The SLI of the dialog belongs to the chosen data source: without one it is empty, and a new one clears it.\<close>

lemma slo_link_sli:
  "slk_sliName (slo_link_run op a b es) \<noteq> [] \<Longrightarrow> lk_datasource (slk_link (slo_link_run op a b es)) \<noteq> []"
proof (induction es rule: rev_induct)
  case Nil
  then show ?case by (simp add: slo_link_run_def slo_link_mount_def)
next
  case (snoc e es)
  then show ?case
    by (cases e) (auto simp: slo_link_run_def slo_link_step_def Let_def split: if_splits)
qed

text \<open>The SLI is asked for and then not sent: with any of two the request is the same.\<close>

lemma slo_link_sli_unused:
  "i \<noteq> [] \<Longrightarrow> j \<noteq> [] \<Longrightarrow> slo_link_click slos existing p (s\<lparr>slk_sliName := i\<rparr>) = slo_link_click slos existing p (s\<lparr>slk_sliName := j\<rparr>)"
  by (auto simp: slo_link_click_def slo_link_valid_def)

end
