(* ===== verification/EvalPages.thy ===== *)
theory EvalPages
  imports UiState PanelViews
begin

text \<open>
  The pages that list evaluations: the heatmap of assets by slot
  (\<open>features/evaluations/components/EvaluationHeatmap.tsx\<close>), the panels of a group and of all evaluations
  (\<open>features/navigator/components/GroupPanel.tsx\<close>, \<open>AllEvaluationsPanel.tsx\<close>), the score charts
  (\<open>GroupScoreChart.tsx\<close>, \<open>AssetScoreChart.tsx\<close>) and the click on a chart area (\<open>lib/useChartAreaClick.ts\<close>). The
  list of options a chart is drawn from is modelled, not the drawing.
\<close>

subsection \<open>The heatmap of evaluations\<close>

record CellAccum =
  cac_result :: Outcome
  cac_score :: rat
  cac_count :: nat
  cac_hasNote :: bool
  cac_noteContent :: string
  cac_evalName :: string

fun RESULT_RANK :: "Outcome \<Rightarrow> nat" where
  "RESULT_RANK Pass = 0"
| "RESULT_RANK Warning = 1"
| "RESULT_RANK Fail = 2"
| "RESULT_RANK Error = 3"
| "RESULT_RANK Invalidated = 4"

definition accum_cell :: "Evaluation \<Rightarrow> CellAccum option \<Rightarrow> CellAccum" where
  "accum_cell e existing = (let hasNote = (0 < ev_annotationCount e); note = (case ev_latestAnnotation e of None \<Rightarrow> [] | Some a \<Rightarrow> an_content a) in
    case existing of
      None \<Rightarrow> \<lparr>cac_result = ev_outcome e, cac_score = nullish (ev_score e) 0, cac_count = 1, cac_hasNote = hasNote,
        cac_noteContent = note, cac_evalName = ev_evaluationName e\<rparr>
    | Some x \<Rightarrow> let newIsWorse = (RESULT_RANK (cac_result x) < RESULT_RANK (ev_outcome e)) in
        \<lparr>cac_result = (if newIsWorse then ev_outcome e else cac_result x),
         cac_score = (cac_score x * of_nat (cac_count x) + nullish (ev_score e) 0) / (of_nat (cac_count x) + 1),
         cac_count = cac_count x + 1, cac_hasNote = (cac_hasNote x \<or> hasNote),
         cac_noteContent = (if cac_noteContent x \<noteq> [] then cac_noteContent x else note),
         cac_evalName = (if newIsWorse then ev_evaluationName e else cac_evalName x)\<rparr>)"

definition accum_map :: "Evaluation list \<Rightarrow> (string, CellAccum) jsmap" where
  "accum_map evals = foldl (\<lambda>m e. js_set (cell_key e) (accum_cell e (js_get m (cell_key e))) m) [] evals"

definition grid_cells ::
    "(string, CellAccum) jsmap \<Rightarrow> nat \<Rightarrow> string \<Rightarrow> nat \<Rightarrow> string \<Rightarrow> string \<Rightarrow> HeatmapEChartsCell list" where
  "grid_cells cellMap xi slot yi asset row =
    (let matchingKeys = filter (\<lambda>k. startsWith k (cell_prefix asset slot)) (js_keys cellMap)
     in if matchingKeys = []
        then [(base_cell (xi, yi) ResNone 0 slot slot row)\<lparr>hc_hasNote := Some False, hc_noteContent := Some []\<rparr>]
        else map (\<lambda>mk. let c = the (js_get cellMap mk) in
          (base_cell (xi, yi) (outcome_result (cac_result c)) (js_round (cac_score c)) slot slot row)
            \<lparr>hc_hasNote := Some (cac_hasNote c), hc_noteContent := Some (cac_noteContent c),
             hc_evaluation_name := Some (cac_evalName c)\<rparr>) matchingKeys)"

definition label_slot :: "string \<Rightarrow> string \<Rightarrow> string" where
  "label_slot row slot = row @ ''::'' @ slot"

record EvaluationHeatmapData =
  ehd_slots :: "string list"
  ehd_rows :: "string list"
  ehd_cells :: "HeatmapEChartsCell list"
  ehd_evalNameMap :: "(string, string) jsmap"
  ehd_assetNames :: "string list"

definition buildData :: "Evaluation list \<Rightarrow> (string, string) jsmap option \<Rightarrow> EvaluationHeatmapData" where
  "buildData evals fallbackNames =
    (let slots = slots_of evals; assetNames = assets_of evals;
         displayNameMap = display_names evals fallbackNames;
         rows = map (\<lambda>n. nullish (js_get displayNameMap n) n) assetNames;
         cellMap = accum_map evals;
         cells = concat (map (\<lambda>(xi, slot). concat (map (\<lambda>(yi, asset). grid_cells cellMap xi slot yi asset (rows ! yi))
           (List.enumerate 0 assetNames))) (List.enumerate 0 slots))
     in \<lparr>ehd_slots = slots, ehd_rows = rows, ehd_cells = cells,
         ehd_evalNameMap = foldl (\<lambda>m c. case hc_evaluation_name c of None \<Rightarrow> m | Some n \<Rightarrow> js_set (label_slot (hc_rowLabel c) (hc_slot c)) n m) [] cells,
         ehd_assetNames = assetNames\<rparr>)"

fun result_upper :: "HeatmapResult \<Rightarrow> string" where
  "result_upper ResPass = ''PASS''"
| "result_upper ResWarning = ''WARNING''"
| "result_upper ResFail = ''FAIL''"
| "result_upper ResError = ''ERROR''"
| "result_upper ResInvalidated = ''INVALIDATED''"
| "result_upper ResNone = ''NONE''"

text \<open>\<open>replace(/</g, '&lt;').replace(/>/g, '&gt;')\<close>.\<close>

definition escape_angles :: "string \<Rightarrow> string" where
  "escape_angles s = concat (map (\<lambda>c. if c = CHR ''<'' then ''&lt;'' else if c = CHR ''>'' then ''&gt;'' else [c]) s)"

definition heatmap_tooltip :: "ResultColours \<Rightarrow> (string, string) jsmap \<Rightarrow> HeatmapEChartsCell \<Rightarrow> string" where
  "heatmap_tooltip colours evalNameMap cell =
    (if hc_result cell = ResNone
     then hc_rowLabel cell @ ''<br/>'' @ fmtDateTime (hc_slot cell) @ ''<br/><em>no data</em>''
     else let rc = heatmap_colour (CHART_THEME Current) colours (hc_result cell);
         evalName = (case hc_evaluation_name cell of Some n \<Rightarrow> Some n
           | None \<Rightarrow> js_get evalNameMap (label_slot (hc_rowLabel cell) (hc_slot cell)));
         lines = filter (\<lambda>l. l \<noteq> []) [''<b>'' @ hc_rowLabel cell @ ''</b>'',
           (if truthy evalName then ''<span style=\"color:var(--heatmap-text)\">'' @ nullish evalName [] @ ''</span>'' else []),
           fmtDateTime (hc_slot cell),
           ''Score: <b style=\"color:'' @ rc @ ''\">'' @ show_int (hc_score cell) @ ''%</b> '' @ middle_dot @ '' <b style=\"color:'' @ rc
             @ ''\">'' @ result_upper (hc_result cell) @ ''</b>'']
       in join ''<br/>'' (lines @ (if hc_hasNote cell = Some True \<and> truthy (hc_noteContent cell)
            then [''<em style=\"color:var(--indicator-note)\">Note: '' @ escape_angles (nullish (hc_noteContent cell) []) @ ''</em>''] else [])))"

datatype heatmap_click = DateSelect "string option" | AssetSelect string

definition heatmap_onCellClick ::
    "EvaluationHeatmapData \<Rightarrow> string option \<Rightarrow> bool \<Rightarrow> HeatmapEChartsCell \<Rightarrow> heatmap_click option" where
  "heatmap_onCellClick d selectedDate hasAssetSelect cell =
    (if Some (hc_slot cell) \<noteq> selectedDate then Some (DateSelect (Some (hc_slot cell)))
     else if hasAssetSelect then
       (let assetName = (case find_index (\<lambda>r. r = hc_rowLabel cell) (ehd_rows d) of Some i \<Rightarrow> ehd_assetNames d ! i | None \<Rightarrow> hc_rowLabel cell)
        in if trim_str assetName \<noteq> [] then Some (AssetSelect assetName) else None)
     else Some (DateSelect None))"

text \<open>The column marked, if any; a selected slot that has no column marks none.\<close>

definition heatmap_selectedColumn :: "EvaluationHeatmapData \<Rightarrow> string option \<Rightarrow> nat option" where
  "heatmap_selectedColumn d selectedDate =
    (if truthy selectedDate then find_index (\<lambda>s. Some s = selectedDate) (ehd_slots d) else None)"

subsection \<open>The panels\<close>

definition prettyGroupName :: "string \<Rightarrow> string" where
  "prettyGroupName name = capitalise_words False (map (\<lambda>c. if c = CHR ''-'' then CHR '' '' else c) name)"

definition groupLabel :: "AssetGroupTree option \<Rightarrow> string \<Rightarrow> string" where
  "groupLabel tree groupName = nullish (Option.bind (Option.bind tree (\<lambda>t. find (\<lambda>g. ag_name g = groupName) (agt_allGroups t))) ag_displayName)
    (prettyGroupName groupName)"

record EvalPanel =
  evp_mode :: ViewMode
  evp_selectedDate :: "string option"
  evp_selectedNames :: "string list option"

definition eval_panel_mount :: EvalPanel where
  "eval_panel_mount = \<lparr>evp_mode = HeatmapMode, evp_selectedDate = None, evp_selectedNames = None\<rparr>"

definition tableEvals :: "Evaluation list \<Rightarrow> string option \<Rightarrow> Evaluation list" where
  "tableEvals evals selectedDate = (if truthy selectedDate then filter (\<lambda>e. Some (ev_slot e) = selectedDate) evals else evals)"

datatype EvalPanelEvent =
    CellClick HeatmapEChartsCell | SetMode ViewMode | NameChip string | AllNames | TableAsset string | TableEval Evaluation

text \<open>
  A click on a panel: its state, and the asset and evaluation it selects. \<open>ofGroup\<close> tells the panel of a group,
  which looks for the evaluation of the asset in the selected slot, from the panel of all evaluations.
\<close>

definition panel_click ::
    "bool \<Rightarrow> Evaluation list \<Rightarrow> (string, string) jsmap \<Rightarrow> EvalPanelEvent \<Rightarrow> EvalPanel \<Rightarrow> EvalPanel \<times> (string \<times> string option) option" where
  "panel_click ofGroup evals names ev p = (case ev of
      CellClick c \<Rightarrow> (case heatmap_onCellClick (buildData evals (Some names)) (evp_selectedDate p) True c of
          None \<Rightarrow> (p, None)
        | Some (DateSelect d) \<Rightarrow> (p\<lparr>evp_selectedDate := d\<rparr>, None)
        | Some (AssetSelect a) \<Rightarrow> (p, Some (a, if ofGroup \<and> truthy (evp_selectedDate p)
            then map_option ev_id (find (\<lambda>e. ev_asset e = a \<and> Some (ev_slot e) = evp_selectedDate p) evals) else None)))
    | SetMode m \<Rightarrow> (if ofGroup then p\<lparr>evp_mode := m\<rparr> else p, None)
    | NameChip n \<Rightarrow> (p\<lparr>evp_selectedNames := name_filter_toggle n (evp_selectedNames p)\<rparr>, None)
    | AllNames \<Rightarrow> (p\<lparr>evp_selectedNames := None\<rparr>, None)
    | TableAsset a \<Rightarrow> (p, Some (a, None))
    | TableEval e \<Rightarrow> (p, Some (ev_asset e, Some (ev_id e))))"

definition panel_clicks ::
    "bool \<Rightarrow> (Evaluation list \<times> (string, string) jsmap \<times> EvalPanelEvent) list \<Rightarrow> EvalPanel" where
  "panel_clicks ofGroup es = fold (\<lambda>(evals, names, ev) p. fst (panel_click ofGroup evals names ev p)) es eval_panel_mount"

definition group_subtitle :: "Evaluation list \<Rightarrow> string option" where
  "group_subtitle evals = (if evals \<noteq> [] then Some (show_nat (length evals) @ '' evaluations'') else None)"

text \<open>The days from the first to the last slot, as \<open>Date\<close> reads the slots; no number if it cannot.\<close>

definition dateRange :: "int \<Rightarrow> Evaluation list \<Rightarrow> int option option" where
  "dateRange tz evals = (if evals = [] then None
    else let dates = sort (map ev_slot evals) in
      Some (case (Date_parse tz (last dates), Date_parse tz (hd dates)) of
          (Some b, Some a) \<Rightarrow> Some (js_round (of_int (b - a) / (1000 * 60 * 60 * 24)) + 1)
        | _ \<Rightarrow> None))"

definition all_subtitle :: "int \<Rightarrow> Evaluation list \<Rightarrow> string option" where
  "all_subtitle tz evals = (case dateRange tz evals of None \<Rightarrow> None
    | Some n \<Rightarrow> Some (show_nat (length evals) @ '' runs '' @ middle_dot @ '' '' @ (case n of None \<Rightarrow> ''NaN'' | Some k \<Rightarrow> show_int k) @ '' days''))"

subsection \<open>The score charts\<close>

text \<open>A bar of a slot and asset; \<open>scp_point\<close> is the point the tooltip shows, absent when the asset has none.\<close>

record ScoreBar =
  scp_value :: rat
  scp_color :: string
  scp_point :: "AssetScorePoint option"

definition stack_bar :: "Theme \<Rightarrow> bool \<Rightarrow> nat \<Rightarrow> SlotScoreData \<Rightarrow> string \<Rightarrow> ScoreBar" where
  "stack_bar theme normalized n slotRow assetName = (case find (\<lambda>a. asp_assetName a = assetName) (ssd_assets slotRow) of
      None \<Rightarrow> \<lparr>scp_value = 0, scp_color = ct_bg (CHART_THEME theme), scp_point = None\<rparr>
    | Some ap \<Rightarrow> let v = (if normalized then (asp_score ap / 100) * (100 / of_nat n) else asp_score ap) in
        \<lparr>scp_value = fixed_value 1 v, scp_color = heatmap_colour (CHART_THEME theme) (RESULT_COLOUR theme) (asp_result ap),
         scp_point = Some ap\<rparr>)"

record ScoreSeries =
  scs_name :: string
  scs_data :: "ScoreBar list"

record GroupScoreOption =
  gso_slots :: "string list"
  gso_yMax :: nat
  gso_series :: "ScoreSeries list"

definition GroupScoreChart :: "Theme \<Rightarrow> bool \<Rightarrow> Evaluation list \<Rightarrow> (string, string) jsmap option \<Rightarrow> GroupScoreOption" where
  "GroupScoreChart theme normalized evals assetDisplayNames =
    (let slotData = buildGroupScoreData evals; assetNames = assets_of evals; names = display_names evals assetDisplayNames
     in \<lparr>gso_slots = map (\<lambda>d. fmtSlot (ssd_slot d)) slotData,
         gso_yMax = (if normalized then 100 else length assetNames * 100),
         gso_series = map (\<lambda>a. \<lparr>scs_name = nullish (js_get names a) a,
           scs_data = map (\<lambda>d. stack_bar theme normalized (length assetNames) d a) slotData\<rparr>) assetNames\<rparr>)"

definition group_score_tooltip :: "Theme \<Rightarrow> (string \<times> ScoreBar) list \<Rightarrow> string" where
  "group_score_tooltip theme params = join ''<br/>'' (map (\<lambda>(n, b).
      ''<span style=\"color:'' @ (case scp_point b of None \<Rightarrow> rc_pass (RESULT_COLOUR theme)
          | Some ap \<Rightarrow> if asp_result ap = ResNone then ''#ccc'' else heatmap_colour (CHART_THEME theme) (RESULT_COLOUR theme) (asp_result ap))
        @ ''\">'' @ bullet @ '' '' @ n @ '': '' @ num_string (Fin (case scp_point b of None \<Rightarrow> scp_value b | Some ap \<Rightarrow> asp_score ap)) @ ''%</span>'')
    (filter (\<lambda>(n, b). 0 < (case scp_point b of None \<Rightarrow> scp_value b | Some ap \<Rightarrow> asp_score ap)) params))"

definition score_sorted :: "(string \<Rightarrow> string \<Rightarrow> int) \<Rightarrow> Evaluation list \<Rightarrow> Evaluation list" where
  "score_sorted localeCompare evals = sort_cmp (\<lambda>a b. localeCompare (ev_slot a) (ev_slot b)) evals"

record AssetScoreData =
  asd_value :: int
  asd_diamond :: bool
  asd_symbolSize :: nat
  asd_color :: string
  asd_ring :: bool

definition asset_score_point :: "Theme \<Rightarrow> string option \<Rightarrow> Evaluation \<Rightarrow> AssetScoreData" where
  "asset_score_point theme selectedEvalId e = (let chosen = (Some (ev_id e) = selectedEvalId) in
    \<lparr>asd_value = (case ev_score e of None \<Rightarrow> 0 | Some x \<Rightarrow> js_round x), asd_diamond = ev_invalidated e,
     asd_symbolSize = (if chosen then 10 else 6),
     asd_color = heatmap_colour (CHART_THEME theme) (RESULT_COLOUR theme) (effective_result e), asd_ring = chosen\<rparr>)"

definition asset_score_data :: "(string \<Rightarrow> string \<Rightarrow> int) \<Rightarrow> Theme \<Rightarrow> string option \<Rightarrow> Evaluation list \<Rightarrow> AssetScoreData list" where
  "asset_score_data localeCompare theme selectedEvalId evals =
    map (asset_score_point theme selectedEvalId) (score_sorted localeCompare evals)"

definition asset_score_axis :: "(string \<Rightarrow> string \<Rightarrow> int) \<Rightarrow> Evaluation list \<Rightarrow> string list" where
  "asset_score_axis localeCompare evals = map (\<lambda>e. fmtSlot (ev_slot e)) (score_sorted localeCompare evals)"

text \<open>
  The index a click on the chart area selects. The chart library says whether the point is inside the grid and
  which position \<open>xVal\<close> of the axis it has.
\<close>

definition useChartAreaClick :: "bool \<Rightarrow> nat \<Rightarrow> bool \<Rightarrow> rat \<Rightarrow> nat option" where
  "useChartAreaClick hasHandler dataLength inGrid xVal =
    (if \<not> hasHandler \<or> dataLength = 0 \<or> \<not> inGrid then None
     else Some (nat (max 0 (min (js_round xVal) (int dataLength - 1)))))"

definition asset_score_click ::
    "(string \<Rightarrow> string \<Rightarrow> int) \<Rightarrow> Evaluation list \<Rightarrow> bool \<Rightarrow> rat \<Rightarrow> string option" where
  "asset_score_click localeCompare evals inGrid xVal = map_option (\<lambda>i. ev_id (score_sorted localeCompare evals ! i))
    (useChartAreaClick True (length (score_sorted localeCompare evals)) inGrid xVal)"

subsection \<open>The heatmap against the view model of the navigator\<close>

text \<open>A cell without its note, and what an accumulated cell is for the navigator.\<close>

definition forget_note :: "HeatmapEChartsCell \<Rightarrow> HeatmapEChartsCell" where
  "forget_note c = c\<lparr>hc_hasNote := None, hc_noteContent := None\<rparr>"

definition accum_info :: "CellAccum \<Rightarrow> CellInfo" where
  "accum_info c = \<lparr>cin_result = outcome_result (cac_result c), cin_score = cac_score c, cin_count = cac_count c,
    cin_evalName = cac_evalName c\<rparr>"

lemma result_rank_outcome: "result_rank (outcome_result x) = int (RESULT_RANK x)"
  by (cases x) simp_all

lemma map_js_set: "map (apsnd f) (js_set k v m) = js_set k (f v) (map (apsnd f) m)"
  by (induction k v m rule: js_set.induct) auto

lemma js_get_map_apsnd: "js_get (map (apsnd f) m) k = map_option f (js_get m k)"
  by (induction m) (auto simp: js_get_def)

lemma js_keys_map: "js_keys (map (apsnd f) m) = js_keys m"
  by (simp add: js_keys_def)

lemma same_key_name:
  assumes "nul_free evals" and "e \<in> set evals" and "e' \<in> set evals" and "cell_key e' = cell_key e"
  shows "ev_evaluationName e' = ev_evaluationName e"
proof -
  have "CHR 0x00 \<notin> set (ev_asset e)" "CHR 0x00 \<notin> set (ev_slot e)" using assms(1,2) by (simp_all add: nul_free_def)
  then show ?thesis using cell_key_split(2) [OF assms(1,3)] assms(4) by (simp add: cell_key_def)
qed

lemma accum_cell_info:
  assumes "outcome_result (ev_outcome e) = effective_result e" and "\<And>c. x = Some c \<Longrightarrow> cac_evalName c = ev_evaluationName e"
  shows "accum_info (accum_cell e x) = merge_cell e (map_option accum_info x)"
proof (cases x)
  case None
  then show ?thesis using assms(1) by (simp add: accum_cell_def merge_cell_def accum_info_def score_or_0_def)
next
  case (Some c)
  then show ?thesis using assms
    by (simp add: accum_cell_def merge_cell_def accum_info_def score_or_0_def Let_def result_rank_outcome flip: assms(1))
qed

lemma accum_map_names:
  assumes "nul_free evals" and "set es \<subseteq> set evals"
  shows "js_get (accum_map es) k = Some c \<Longrightarrow> \<exists>e\<in>set es. cell_key e = k \<and> cac_evalName c = ev_evaluationName e"
  using assms(2)
proof (induction es arbitrary: c rule: rev_induct)
  case Nil
  then show ?case by (simp add: accum_map_def js_get_def)
next
  case (snoc e es)
  let ?m = "accum_map es"
  have m: "accum_map (es @ [e]) = js_set (cell_key e) (accum_cell e (js_get ?m (cell_key e))) ?m"
    by (simp add: accum_map_def)
  show ?case
  proof (cases "k = cell_key e")
    case True
    then have "c = accum_cell e (js_get ?m (cell_key e))" using snoc.prems(1) by (simp add: m js_get_set)
    moreover have "cac_evalName d = ev_evaluationName e" if d: "js_get ?m (cell_key e) = Some d" for d
    proof -
      obtain e' where "e' \<in> set es" "cell_key e' = cell_key e" "cac_evalName d = ev_evaluationName e'"
        using snoc.IH [of d] snoc.prems(2) d True by auto
      then show ?thesis using same_key_name [OF assms(1), of e e'] snoc.prems(2) by auto
    qed
    ultimately have "cac_evalName c = ev_evaluationName e"
      by (cases "js_get ?m (cell_key e)") (auto simp: accum_cell_def Let_def)
    then show ?thesis using True by auto
  next
    case False
    then show ?thesis using snoc.IH [of c] snoc.prems by (auto simp: m js_get_set)
  qed
qed

lemma accum_map_info:
  assumes "nul_free evals" and "\<forall>e\<in>set evals. outcome_result (ev_outcome e) = effective_result e" and "set es \<subseteq> set evals"
  shows "map (apsnd accum_info) (accum_map es) = cell_map es"
  using assms(3)
proof (induction es rule: rev_induct)
  case Nil
  then show ?case by (simp add: accum_map_def cell_map_def)
next
  case (snoc e es)
  let ?m = "accum_map es"
  have "accum_info (accum_cell e (js_get ?m (cell_key e))) = merge_cell e (map_option accum_info (js_get ?m (cell_key e)))"
  proof (rule accum_cell_info)
    show "outcome_result (ev_outcome e) = effective_result e" using assms(2) snoc.prems by auto
    fix c assume "js_get ?m (cell_key e) = Some c"
    then obtain e' where "e' \<in> set es" "cell_key e' = cell_key e" "cac_evalName c = ev_evaluationName e'"
      using accum_map_names [OF assms(1), of es "cell_key e" c] snoc.prems by auto
    then show "cac_evalName c = ev_evaluationName e" using same_key_name [OF assms(1), of e e'] snoc.prems by auto
  qed
  moreover have "map (apsnd accum_info) ?m = cell_map es" using snoc by simp
  ultimately have "map (apsnd accum_info) (js_set (cell_key e) (accum_cell e (js_get ?m (cell_key e))) ?m) =
      js_set (cell_key e) (merge_cell e (js_get (cell_map es) (cell_key e))) (cell_map es)"
    by (simp add: map_js_set flip: js_get_map_apsnd)
  then show ?case by (simp add: accum_map_def cell_map_def)
qed

lemma grid_cells_group:
  assumes "map (apsnd accum_info) m = m'"
  shows "map forget_note (grid_cells m xi s yi a row) = group_cells m' xi s yi a row"
proof -
  have k: "js_keys m' = js_keys m" and g: "\<And>k. js_get m' k = map_option accum_info (js_get m k)"
    using assms by (auto simp: js_keys_map js_get_map_apsnd)
  have "forget_note ((base_cell (xi, yi) (outcome_result (cac_result c)) (js_round (cac_score c)) s s row)
      \<lparr>hc_hasNote := Some (cac_hasNote c), hc_noteContent := Some (cac_noteContent c), hc_evaluation_name := Some (cac_evalName c)\<rparr>) =
    (base_cell (xi, yi) (cin_result (accum_info c)) (js_round (cin_score (accum_info c))) s s row)
      \<lparr>hc_evaluation_name := Some (cin_evalName (accum_info c))\<rparr>" for c
    by (simp add: forget_note_def base_cell_def accum_info_def)
  moreover have "the (js_get m' k) = accum_info (the (js_get m k))" if "k \<in> set (js_keys m)" for k
    using that g by (cases "js_get m k") (auto simp: js_get_None_iff)
  ultimately show ?thesis
    by (auto simp: grid_cells_def group_cells_def Let_def k forget_note_def base_cell_def)
qed

text \<open>
  C39. The heatmap of evaluations and the navigator's group heatmap agree, although they are computed by two
  separate routines: the same slots and rows, and the same cells in the same order but for the notes, when an
  invalidated evaluation has that outcome, as every evaluation read from the server has.
\<close>

theorem evaluation_heatmap_equiv:
  assumes "nul_free evals" and "\<forall>e\<in>set evals. ev_invalidated e \<longrightarrow> ev_outcome e = Invalidated"
  shows "ehd_slots (buildData evals fb) = gh_slots (buildGroupHeatmapData evals fb) \<and>
    ehd_rows (buildData evals fb) = gh_rows (buildGroupHeatmapData evals fb) \<and>
    map forget_note (ehd_cells (buildData evals fb)) = gh_cells (buildGroupHeatmapData evals fb) \<and>
    (\<forall>dto. ev_invalidated (dtoToEvaluationSummary tz dto) \<longrightarrow> ev_outcome (dtoToEvaluationSummary tz dto) = Invalidated)"
proof -
  have "\<forall>e\<in>set evals. outcome_result (ev_outcome e) = effective_result e"
    using assms(2) by (auto simp: effective_result_def)
  from accum_map_info [OF assms(1) this order_refl]
  have "map (apsnd accum_info) (accum_map evals) = cell_map evals" .
  note cells = grid_cells_group [OF this]
  show ?thesis
    by (simp add: buildData_def buildGroupHeatmapData_def Let_def map_concat comp_def case_prod_unfold cells
        dtoToEvaluationSummary_def collapseOutcome_def)
qed

theorem evaluation_heatmap_equiv_witness:
  "map forget_note (ehd_cells (buildData [demo_eval ''1'' Pass 100, demo_eval ''2'' Fail 51] None)) =
   gh_cells (buildGroupHeatmapData [demo_eval ''1'' Pass 100, demo_eval ''2'' Fail 51] None)"
proof -
  let ?es = "[demo_eval ''1'' Pass 100, demo_eval ''2'' Fail 51]"
  have "nul_free ?es" by (simp add: nul_free_def demo_eval_def ev_asset_def ev_slot_def makeDateRange_def)
  moreover have "\<forall>e\<in>set ?es. ev_invalidated e \<longrightarrow> ev_outcome e = Invalidated" by (simp add: demo_eval_def)
  ultimately show ?thesis using evaluation_heatmap_equiv [of ?es None] by blast
qed

subsection \<open>Clicks on the heatmap\<close>

lemma find_index_nth: "distinct xs \<Longrightarrow> i < length xs \<Longrightarrow> find_index (\<lambda>x. x = xs ! i) xs = Some i"
proof -
  assume d: "distinct xs" and i: "i < length xs"
  have "takeWhile (\<lambda>x. x \<noteq> xs ! i) xs = take i xs"
    using d i by (intro takeWhile_eq_take_P_nth) (auto simp: nth_eq_iff_index_eq)
  then show ?thesis using i by (simp add: find_index_def Let_def)
qed

lemma ehd_cells_mem:
  assumes "c \<in> set (ehd_cells (buildData evals fb))"
  shows "\<exists>xi yi. xi < length (slots_of evals) \<and> yi < length (assets_of evals) \<and> hc_value c = (xi, yi) \<and>
    hc_slot c = slots_of evals ! xi \<and> hc_rowLabel c = ehd_rows (buildData evals fb) ! yi"
proof -
  obtain xi yi where "xi < length (slots_of evals)" "yi < length (assets_of evals)"
    "c \<in> set (grid_cells (accum_map evals) xi (slots_of evals ! xi) yi (assets_of evals ! yi) (ehd_rows (buildData evals fb) ! yi))"
    using assms unfolding buildData_def Let_def EvaluationHeatmapData.simps set_concat_enumerate by blast
  then show ?thesis
    by (intro exI [of _ xi] exI [of _ yi]) (auto simp: grid_cells_def base_cell_def Let_def split: if_splits)
qed

text \<open>
  When no two rows have the same label, the first click on a cell selects its slot and a further one the asset
  the cell stands for; the selected column is the cell's.
\<close>

lemma heatmap_click_selects:
  assumes "c \<in> set (ehd_cells (buildData evals fb))" and "distinct (ehd_rows (buildData evals fb))"
    and "hc_slot c \<noteq> []" and "trim_str (assets_of evals ! snd (hc_value c)) \<noteq> []"
  shows "let d = buildData evals fb in
    (sel \<noteq> Some (hc_slot c) \<longrightarrow> heatmap_onCellClick d sel h c = Some (DateSelect (Some (hc_slot c)))) \<and>
    heatmap_onCellClick d (Some (hc_slot c)) True c = Some (AssetSelect (assets_of evals ! snd (hc_value c))) \<and>
    heatmap_selectedColumn d (Some (hc_slot c)) = Some (fst (hc_value c))"
proof -
  obtain xi yi where xy: "xi < length (slots_of evals)" "yi < length (assets_of evals)" "hc_value c = (xi, yi)"
    "hc_slot c = slots_of evals ! xi" "hc_rowLabel c = ehd_rows (buildData evals fb) ! yi"
    using ehd_cells_mem [OF assms(1)] by blast
  have len: "length (ehd_rows (buildData evals fb)) = length (assets_of evals)" "ehd_slots (buildData evals fb) = slots_of evals"
    "ehd_assetNames (buildData evals fb) = assets_of evals"
    by (simp_all add: buildData_def Let_def)
  have "find_index (\<lambda>r. r = hc_rowLabel c) (ehd_rows (buildData evals fb)) = Some yi"
    unfolding xy(5) using assms(2) xy(2) len by (intro find_index_nth) simp_all
  moreover have "find_index (\<lambda>s. Some s = Some (hc_slot c)) (slots_of evals) = Some xi"
    unfolding xy(4) option.inject using xy(1) by (intro find_index_nth) (simp_all add: slots_of_def)
  ultimately show ?thesis using assms(3,4) xy(3) len
    by (auto simp: heatmap_onCellClick_def heatmap_selectedColumn_def Let_def)
qed

text \<open>Of two assets with the same label the first is selected, whichever row is clicked.\<close>

lemma same_label_click:
  assumes "i < j" and "j < length (ehd_rows d)" and "ehd_rows d ! i = hc_rowLabel c" and "ehd_rows d ! j = hc_rowLabel c"
    and "\<forall>k<i. ehd_rows d ! k \<noteq> hc_rowLabel c" and "trim_str (ehd_assetNames d ! i) \<noteq> []"
  shows "heatmap_onCellClick d (Some (hc_slot c)) True c = Some (AssetSelect (ehd_assetNames d ! i))"
proof -
  have "takeWhile (\<lambda>r. r \<noteq> hc_rowLabel c) (ehd_rows d) = take i (ehd_rows d)"
    using assms by (intro takeWhile_eq_take_P_nth) auto
  then have "find_index (\<lambda>r. r = hc_rowLabel c) (ehd_rows d) = Some i" using assms(1,2) by (simp add: find_index_def Let_def)
  then show ?thesis using assms(6) by (simp add: heatmap_onCellClick_def Let_def)
qed

subsection \<open>The panels: properties\<close>

lemma panel_clicks_snoc:
  "panel_clicks g (es @ [(evals, names, ev)]) = fst (panel_click g evals names ev (panel_clicks g es))"
  by (simp add: panel_clicks_def)

lemma panel_click_date: "evp_selectedDate p \<noteq> None \<Longrightarrow> evp_selectedDate (fst (panel_click g evals names ev p)) \<noteq> None"
  by (cases ev) (auto simp: panel_click_def heatmap_onCellClick_def Let_def split: option.splits heatmap_click.splits if_splits)

definition names_ok :: "string list option \<Rightarrow> bool" where
  "names_ok n \<longleftrightarrow> (case n of None \<Rightarrow> True | Some s \<Rightarrow> s \<noteq> [] \<and> distinct s)"

lemma toggle_names_ok: "names_ok s \<Longrightarrow> names_ok (name_filter_toggle n s)"
  using name_filter_nonempty [of "the s" n] by (cases s) (auto simp: names_ok_def name_filter_toggle_def)

lemma panel_click_names: "names_ok (evp_selectedNames p) \<Longrightarrow> names_ok (evp_selectedNames (fst (panel_click g evals names ev p)))"
  by (cases ev) (auto simp: panel_click_def toggle_names_ok names_ok_def [of None] split: option.splits heatmap_click.splits)

text \<open>
  The name filter of a panel never selects no name at all; and once a slot is selected no click on the panel selects
  none, so the table stays filtered, and is empty when the panel shows a group with no evaluation in that slot.
\<close>

lemma eval_panel_filters:
  "names_ok (evp_selectedNames (panel_clicks g es))"
  "evp_selectedDate (panel_clicks g es) \<noteq> None \<Longrightarrow> evp_selectedDate (panel_clicks g (es @ fs)) \<noteq> None"
  "truthy d \<Longrightarrow> nullish d [] \<notin> ev_slot ` set evals \<Longrightarrow> tableEvals evals d = []"
proof -
  show "names_ok (evp_selectedNames (panel_clicks g es))"
    by (induction es rule: rev_induct)
      (auto simp: panel_clicks_def eval_panel_mount_def names_ok_def [of None] case_prod_unfold panel_click_names)
  show "evp_selectedDate (panel_clicks g es) \<noteq> None \<Longrightarrow> evp_selectedDate (panel_clicks g (es @ fs)) \<noteq> None"
  proof (induction fs rule: rev_induct)
    case (snoc f fs)
    obtain evals names ev where "f = (evals, names, ev)" by (cases f)
    then show ?case using panel_click_date snoc by (simp add: panel_clicks_snoc del: not_None_eq append_assoc flip: append_assoc)
  qed simp
  show "truthy d \<Longrightarrow> nullish d [] \<notin> ev_slot ` set evals \<Longrightarrow> tableEvals evals d = []"
    by (cases d) (auto simp: tableEvals_def filter_empty_conv)
qed

subsection \<open>The score charts: properties\<close>

text \<open>The score of an asset in a slot as the chart takes it: that of its first evaluation there.\<close>

definition slot_score :: "SlotScoreData \<Rightarrow> string \<Rightarrow> rat" where
  "slot_score d a = (case find (\<lambda>p. asp_assetName p = a) (ssd_assets d) of None \<Rightarrow> 0 | Some p \<Rightarrow> asp_score p)"

lemma stack_bar_error:
  "\<bar>scp_value (stack_bar theme True n d a) - slot_score d a / of_nat n\<bar> \<le> 1 / 20"
proof (cases "find (\<lambda>p. asp_assetName p = a) (ssd_assets d)")
  case (Some p)
  then show ?thesis using fixed_value_error [of 1 "slot_score d a / of_nat n"] by (simp add: stack_bar_def slot_score_def Let_def)
qed (simp add: stack_bar_def slot_score_def)

lemma sum_error:
  fixes f g :: "'a \<Rightarrow> rat"
  assumes "\<And>x. x \<in> set xs \<Longrightarrow> \<bar>f x - g x\<bar> \<le> e"
  shows "\<bar>(\<Sum>x\<leftarrow>xs. f x) - (\<Sum>x\<leftarrow>xs. g x)\<bar> \<le> of_nat (length xs) * e"
  using assms
proof (induction xs)
  case (Cons x xs)
  have "\<bar>(f x - g x) + ((\<Sum>x\<leftarrow>xs. f x) - (\<Sum>x\<leftarrow>xs. g x))\<bar> \<le> \<bar>f x - g x\<bar> + \<bar>(\<Sum>x\<leftarrow>xs. f x) - (\<Sum>x\<leftarrow>xs. g x)\<bar>"
    by (rule abs_triangle_ineq)
  also have "\<dots> \<le> e + of_nat (length xs) * e" using Cons by (intro add_mono) simp_all
  finally show ?case by (simp add: algebra_simps)
qed simp

lemma sum_divide: "(\<Sum>x\<leftarrow>xs. f x / (n :: rat)) = (\<Sum>x\<leftarrow>xs. f x) / n"
  by (induction xs) (simp_all add: add_divide_distrib)

text \<open>
  On the 0 to 100 % scale the bars stacked in a slot add up to the mean of the scores of the group's assets, an
  asset without evaluation counting 0, up to a twentieth per asset; so with scores of at most 100 the stack ends at
  most that much above the axis.
\<close>

lemma normalized_stack:
  fixes evals :: "Evaluation list"
  assumes "d \<in> set (buildGroupScoreData evals)"
  shows "let n = length (assets_of evals); stack = (\<Sum>a\<leftarrow>assets_of evals. scp_value (stack_bar theme True n d a));
      mean = (\<Sum>a\<leftarrow>assets_of evals. slot_score d a) / of_nat n in
    gso_yMax (GroupScoreChart theme True evals names) = 100 \<and> \<bar>stack - mean\<bar> \<le> of_nat n / 20 \<and>
    ((\<forall>e\<in>set evals. score_or_0 e \<le> 100) \<longrightarrow> stack \<le> 100 + of_nat n / 20)"
proof -
  let ?as = "assets_of evals" let ?n = "length ?as"
  let ?stack = "\<Sum>a\<leftarrow>?as. scp_value (stack_bar theme True ?n d a)"
  have "\<bar>?stack - (\<Sum>a\<leftarrow>?as. slot_score d a / of_nat ?n)\<bar> \<le> of_nat ?n * (1 / 20)"
    by (rule sum_error) (rule stack_bar_error)
  then have e: "\<bar>?stack - (\<Sum>a\<leftarrow>?as. slot_score d a) / of_nat ?n\<bar> \<le> of_nat ?n / 20"
    by (simp add: sum_divide)
  have m: "(\<Sum>a\<leftarrow>?as. slot_score d a) / of_nat ?n \<le> 100" if "\<forall>e\<in>set evals. score_or_0 e \<le> 100"
  proof -
    have "slot_score d a \<le> 100" for a
    proof (cases "find (\<lambda>p. asp_assetName p = a) (ssd_assets d)")
      case (Some p)
      then have "p \<in> set (ssd_assets d)" by (auto simp: find_Some_iff)
      then obtain e where "e \<in> set evals" "p = score_point e"
        using assms by (auto simp: buildGroupScoreData_def Let_def)
      then show ?thesis using that Some by (simp add: slot_score_def score_point_def)
    qed (simp add: slot_score_def)
    then have "(\<Sum>a\<leftarrow>?as. slot_score d a) \<le> (\<Sum>a\<leftarrow>?as. 100)" by (intro sum_list_mono)
    then show ?thesis by (cases "?n = 0") (simp_all add: sum_list_triv divide_le_eq mult.commute)
  qed
  have "?stack \<le> 100 + of_nat ?n / 20" if "\<forall>e\<in>set evals. score_or_0 e \<le> 100"
    using m [OF that] e unfolding abs_le_iff by linarith
  then show ?thesis using e unfolding Let_def by (simp add: GroupScoreChart_def Let_def)
qed

text \<open>The stack does pass the end of the axis: six assets with 100 % each end at 100.2 %.\<close>

lemma normalized_overflow: "6 * fixed_value 1 ((100 / 100) * (100 / of_nat 6)) = 501 / 5"
  proof -
  have "\<lfloor>1003 / 6 :: rat\<rfloor> = 167" by (simp add: floor_eq_iff)
  then show ?thesis by (simp add: fixed_value_eq fixed_units_def)
qed

lemma chart_click_bounds: "useChartAreaClick h n g x = Some i \<Longrightarrow> i < n"
  by (auto simp: useChartAreaClick_def split: if_splits)

lemma asset_score_click_shown:
  assumes "asset_score_click cmp evals g x = Some i"
  shows "\<exists>k < length evals. i = ev_id (score_sorted cmp evals ! k) \<and> i \<in> ev_id ` set evals \<and>
    length (asset_score_data cmp theme sel evals) = length evals"
proof -
  obtain k where k: "useChartAreaClick True (length (score_sorted cmp evals)) g x = Some k" "i = ev_id (score_sorted cmp evals ! k)"
    using assms by (auto simp: asset_score_click_def)
  then have l: "k < length (score_sorted cmp evals)" using chart_click_bounds by blast
  then have "score_sorted cmp evals ! k \<in> set evals" using nth_mem [OF l] by (simp add: score_sorted_def)
  then show ?thesis using k l by (auto simp: asset_score_data_def score_sorted_def)
qed

end
