(* ===== verification/NotesView.thy ===== *)
theory NotesView
  imports RegistryPages EvalPages
begin

text \<open>
  The notes of an evaluation run (\<open>features/evaluations/components/AnnotationForm.tsx\<close>, \<open>NoteEntry.tsx\<close>,
  \<open>NoteGroup.tsx\<close>, \<open>AddNoteForm.tsx\<close>), the categories of notes (\<open>features/note-categories/components/\<close>), and the
  blocks around a metric's chart and an SLO's breakdown. A form that sends requests is a step function over
  events; an answer of the server is an event.
\<close>

subsection \<open>The list of notes\<close>

datatype NoteListEntry =
    GroupedEntry (ge_groupId: string) (ge_groupName: string) (ge_annotations: "Annotation list") (ge_firstCreatedAt: jsdate)
  | StandaloneEntry Annotation

type_synonym note_groups = "(string, string \<times> Annotation list) jsmap"

definition collect_group :: "Annotation \<Rightarrow> note_groups \<times> string list \<Rightarrow> note_groups \<times> string list" where
  "collect_group a = (\<lambda>(groups, order). if truthy (an_noteGroupId a) then
     (let i = the (an_noteGroupId a) in
      case js_get groups i of
        Some (n, items) \<Rightarrow> (js_set i (n, items @ [a]) groups, order)
      | None \<Rightarrow> (js_set i (nullish (an_noteGroupName a) ''re-evaluation'', [a]) groups, order @ [i]))
     else (groups, order))"

definition place_entry :: "note_groups \<Rightarrow> string list \<Rightarrow> Annotation \<Rightarrow> nat \<times> NoteListEntry list \<Rightarrow> nat \<times> NoteListEntry list" where
  "place_entry groups order a = (\<lambda>(groupIndex, entries). if truthy (an_noteGroupId a) then
     (let i = the (an_noteGroupId a) in
      if groupIndex < length order \<and> order ! groupIndex = i
      then (let (n, items) = the (js_get groups i) in
        (groupIndex + 1, entries @ [GroupedEntry i n items (an_createdAt (hd items))]))
      else (groupIndex, entries))
     else (groupIndex, entries @ [StandaloneEntry a]))"

definition buildNoteList :: "Annotation list \<Rightarrow> NoteListEntry list" where
  "buildNoteList annotations = (let (groups, order) = fold collect_group annotations ([], [])
     in snd (fold (place_entry groups order) annotations (0, [])))"

text \<open>The section: whether the form is open and how the notes are shown.\<close>

record AnnotationSection =
  ase_showForm :: bool
  ase_compact :: bool

definition annotation_section_mount :: AnnotationSection where
  "annotation_section_mount = \<lparr>ase_showForm = False, ase_compact = True\<rparr>"

datatype NoteSectionEvent = OpenNoteForm | CloseNoteForm | ToggleNoteForm | ShowCompact | ShowExpanded

definition note_section_step :: "Annotation list \<Rightarrow> NoteSectionEvent \<Rightarrow> AnnotationSection \<Rightarrow> AnnotationSection" where
  "note_section_step annotations ev s = (case ev of
      OpenNoteForm \<Rightarrow> s\<lparr>ase_showForm := True\<rparr>
    | CloseNoteForm \<Rightarrow> s\<lparr>ase_showForm := False\<rparr>
    | ToggleNoteForm \<Rightarrow> s\<lparr>ase_showForm := \<not> ase_showForm s\<rparr>
    | ShowCompact \<Rightarrow> if annotations \<noteq> [] then s\<lparr>ase_compact := True\<rparr> else s
    | ShowExpanded \<Rightarrow> if annotations \<noteq> [] then s\<lparr>ase_compact := False\<rparr> else s)"

subsection \<open>Links in a note\<close>

text \<open>The match of \<open>https?:[/][/][^\s]+\<close> at the start of a string.\<close>

definition url_with :: "string \<Rightarrow> string \<Rightarrow> string option" where
  "url_with p s = (let body = takeWhile (\<lambda>c. \<not> is_space c) (drop (length p) s)
     in if startsWith s p \<and> body \<noteq> [] then Some (p @ body) else None)"

definition url_at :: "string \<Rightarrow> string option" where
  "url_at s = (case url_with ''https://'' s of Some u \<Rightarrow> Some u | None \<Rightarrow> url_with ''http://'' s)"

datatype text_part = Text string | Link string

definition flush_text :: "string \<Rightarrow> text_part list" where
  "flush_text t = (if t = [] then [] else [Text t])"

lemma url_with_prefix: "url_with p s = Some u \<Longrightarrow> u \<noteq> [] \<and> s = u @ drop (length u) s"
proof -
  assume "url_with p s = Some u"
  then have u: "startsWith s p" "u = p @ takeWhile (\<lambda>c. \<not> is_space c) (drop (length p) s)" "u \<noteq> []"
    by (auto simp: url_with_def Let_def split: if_splits)
  have "s = p @ takeWhile (\<lambda>c. \<not> is_space c) (drop (length p) s) @ dropWhile (\<lambda>c. \<not> is_space c) (drop (length p) s)"
    using u(1) unfolding startsWith_def takeWhile_dropWhile_id by (metis append_take_drop_id)
  then have "s = u @ dropWhile (\<lambda>c. \<not> is_space c) (drop (length p) s)" by (simp add: u(2))
  then show ?thesis using u(3) by (metis append_eq_conv_conj)
qed

lemma url_at_prefix: "url_at s = Some u \<Longrightarrow> u \<noteq> [] \<and> s = u @ drop (length u) s"
  unfolding url_at_def by (auto split: option.splits dest: url_with_prefix)

text \<open>\<open>t\<close> is the text since the last match.\<close>

function linkify_from :: "string \<Rightarrow> string \<Rightarrow> text_part list" where
  "linkify_from t [] = flush_text t"
| "linkify_from t (c # s) = (case url_at (c # s) of
      None \<Rightarrow> linkify_from (t @ [c]) s
    | Some u \<Rightarrow> flush_text t @ Link u # linkify_from [] (drop (length u) (c # s)))"
  by pat_completeness auto
termination
  by (relation "measure (\<lambda>(t, s). length s)") (auto dest: url_at_prefix)

definition LinkifiedText :: "string \<Rightarrow> text_part list" where
  "LinkifiedText text = linkify_from [] text"

subsection \<open>One note, and a group of notes\<close>

definition note_time :: "nat \<Rightarrow> jsdate \<Rightarrow> string option" where
  "note_time start t = map_option (\<lambda>s. replace_T (Prelude.slice s start 16)) (toISOString t)"

definition note_tags_line :: "(string \<times> string) list \<Rightarrow> string" where
  "note_tags_line tags = join ('' '' @ middle_dot @ '' '') (map (\<lambda>(k, v). k @ '': '' @ v) tags)"

text \<open>
  The question before a note is hidden: the note asked about, what is typed, and the requests sent. A single note
  has no delete button while it asks; a group keeps the buttons of all its notes.
\<close>

record HideForm =
  hdf_target :: "string option"
  hdf_form :: ConfirmForm
  hdf_pending :: bool
  hdf_sent :: "(string \<times> string \<times> string option) list"

definition hide_mount :: HideForm where
  "hide_mount = \<lparr>hdf_target = None, hdf_form = \<lparr>cnf_reason = [], cnf_author = []\<rparr>, hdf_pending = False, hdf_sent = []\<rparr>"

datatype HideEvent = AskHide string | TypeReason string | TypeAuthor string | CancelHide | ConfirmHide | HideSettled bool

definition ask_hide :: "string \<Rightarrow> HideForm \<Rightarrow> HideForm" where
  "ask_hide i s = (if truthy (hdf_target s) then s\<lparr>hdf_target := Some i\<rparr>
     else s\<lparr>hdf_target := Some i, hdf_form := \<lparr>cnf_reason = [], cnf_author = []\<rparr>\<rparr>)"

definition confirm_hide :: "HideForm \<Rightarrow> HideForm" where
  "confirm_hide s = (case (hdf_target s, handleConfirm True True (hdf_pending s) (hdf_form s)) of
      (Some i, Some (reason, author)) \<Rightarrow> if i = [] then s
        else s\<lparr>hdf_pending := True, hdf_sent := hdf_sent s @ [(i, reason, if author = [] then None else Some author)]\<rparr>
    | _ \<Rightarrow> s)"

definition hide_settled :: "bool \<Rightarrow> HideForm \<Rightarrow> HideForm" where
  "hide_settled ok s = (if \<not> hdf_pending s then s else if ok then s\<lparr>hdf_pending := False, hdf_target := None\<rparr> else s\<lparr>hdf_pending := False\<rparr>)"

definition note_group_step :: "string list \<Rightarrow> HideEvent \<Rightarrow> HideForm \<Rightarrow> HideForm" where
  "note_group_step ids ev s = (case ev of
      AskHide i \<Rightarrow> if i \<in> set ids then ask_hide i s else s
    | TypeReason v \<Rightarrow> if truthy (hdf_target s) then s\<lparr>hdf_form := (hdf_form s)\<lparr>cnf_reason := v\<rparr>\<rparr> else s
    | TypeAuthor v \<Rightarrow> if truthy (hdf_target s) then s\<lparr>hdf_form := (hdf_form s)\<lparr>cnf_author := v\<rparr>\<rparr> else s
    | CancelHide \<Rightarrow> s\<lparr>hdf_target := None\<rparr>
    | ConfirmHide \<Rightarrow> if truthy (hdf_target s) then confirm_hide s else s
    | HideSettled ok \<Rightarrow> hide_settled ok s)"

definition note_entry_step :: "string \<Rightarrow> HideEvent \<Rightarrow> HideForm \<Rightarrow> HideForm" where
  "note_entry_step i ev s = (if (\<exists>j. ev = AskHide j) \<and> hdf_target s \<noteq> None then s else note_group_step [i] ev s)"

subsection \<open>Adding a note\<close>

record AddNote =
  adn_content :: string
  adn_author :: string
  adn_categoryId :: string

definition add_note_mount :: AddNote where
  "add_note_mount = \<lparr>adn_content = [], adn_author = [], adn_categoryId = []\<rparr>"

definition note_defaultId :: "NoteCategory list \<Rightarrow> string" where
  "note_defaultId categories = (case find (\<lambda>c. nc_name c = ''info'') categories of
      Some c \<Rightarrow> nc_id c | None \<Rightarrow> (case categories of [] \<Rightarrow> [] | c # _ \<Rightarrow> nc_id c))"

definition note_effectiveId :: "NoteCategory list \<Rightarrow> AddNote \<Rightarrow> string" where
  "note_effectiveId categories s = (if adn_categoryId s \<noteq> [] then adn_categoryId s else note_defaultId categories)"

definition note_palette :: "NoteCategory list \<Rightarrow> AddNote \<Rightarrow> Palette option" where
  "note_palette categories s = map_option (\<lambda>c. paletteOf (nc_color c)) (find (\<lambda>c. nc_id c = note_effectiveId categories s) categories)"

definition add_note_save :: "NoteCategory list \<Rightarrow> bool \<Rightarrow> AddNote \<Rightarrow> AnnotationCreateInput option" where
  "add_note_save categories isPending s =
    (if trim_str (adn_content s) = [] \<or> note_effectiveId categories s = [] \<or> isPending then None
     else Some \<lparr>ac_content = adn_content s, ac_categoryId = note_effectiveId categories s,
       ac_author = (if adn_author s = [] then None else Some (adn_author s))\<rparr>)"

text \<open>After the answer: the form and whether it stays open.\<close>

definition add_note_settled :: "bool \<Rightarrow> AddNote \<Rightarrow> AddNote \<times> bool" where
  "add_note_settled ok s = (if ok then (s\<lparr>adn_content := [], adn_author := []\<rparr>, False) else (s, True))"

subsection \<open>Categories of notes\<close>

record CategoryForm =
  ctf_name :: string
  ctf_label :: string
  ctf_color :: CategoryColor
  ctf_showOnGraph :: bool
  ctf_error :: "string option"

definition category_form_mount :: "NoteCategory option \<Rightarrow> CategoryForm" where
  "category_form_mount initial = (case initial of
      None \<Rightarrow> \<lparr>ctf_name = [], ctf_label = [], ctf_color = Sky, ctf_showOnGraph = True, ctf_error = None\<rparr>
    | Some c \<Rightarrow> \<lparr>ctf_name = nc_name c, ctf_label = nc_label c, ctf_color = nc_color c, ctf_showOnGraph = nc_showOnGraph c,
        ctf_error = None\<rparr>)"

definition lower_letter :: "char \<Rightarrow> bool" where
  "lower_letter c \<longleftrightarrow> (let n = of_char c :: nat in 97 \<le> n \<and> n \<le> 122)"

definition category_name_ok :: "string \<Rightarrow> bool" where
  "category_name_ok n = (case n of [] \<Rightarrow> False
     | c # s \<Rightarrow> lower_letter c \<and> list_all (\<lambda>d. lower_letter d \<or> is_digit d \<or> d = CHR ''-'') s)"

definition category_submit :: "CategoryForm \<Rightarrow> CategoryForm \<times> NoteCategoryInput option" where
  "category_submit f =
    (if \<not> category_name_ok (ctf_name f) then (f\<lparr>ctf_error := Some ''name must be lowercase-hyphenated''\<rparr>, None)
     else if length (ctf_label f) = 0 \<or> 12 < length (ctf_label f) then (f\<lparr>ctf_error := Some (''label must be 1'' @ en_dash @ ''12 chars'')\<rparr>, None)
     else (f\<lparr>ctf_error := None\<rparr>, Some \<lparr>nci_name = ctf_name f, nci_label = ctf_label f, nci_color = ctf_color f,
       nci_showOnGraph = ctf_showOnGraph f\<rparr>))"

datatype CategoryField = CategoryName string | CategoryLabel string | CategoryColour CategoryColor | CategoryShown bool

fun category_type :: "bool \<Rightarrow> bool \<Rightarrow> CategoryField \<Rightarrow> CategoryForm \<Rightarrow> CategoryForm" where
  "category_type disableName busy (CategoryName v) f = (if disableName \<or> busy then f else f\<lparr>ctf_name := v\<rparr>)"
| "category_type disableName busy (CategoryLabel v) f = f\<lparr>ctf_label := take 12 v\<rparr>"
| "category_type disableName busy (CategoryColour c) f = f\<lparr>ctf_color := c\<rparr>"
| "category_type disableName busy (CategoryShown b) f = f\<lparr>ctf_showOnGraph := b\<rparr>"

text \<open>
  The page. A form is mounted while it is shown; the form of the edited category is one component, so another
  category clicked meanwhile does not mount a new one.
\<close>

record CategoryPage =
  cgp_editing :: "NoteCategory option"
  cgp_creating :: bool
  cgp_createForm :: CategoryForm
  cgp_editForm :: CategoryForm
  cgp_createPending :: bool
  cgp_updatePending :: nat
  cgp_deletePending :: nat

definition category_page_mount :: CategoryPage where
  "category_page_mount = \<lparr>cgp_editing = None, cgp_creating = False, cgp_createForm = category_form_mount None,
    cgp_editForm = category_form_mount None, cgp_createPending = False, cgp_updatePending = 0, cgp_deletePending = 0\<rparr>"

datatype category_request =
    CreateCategory NoteCategoryInput | UpdateCategory string NoteCategoryPatch | DeleteCategory string

definition input_patch :: "NoteCategoryInput \<Rightarrow> NoteCategoryPatch" where
  "input_patch i = \<lparr>ncp_name = Some (nci_name i), ncp_label = Some (nci_label i), ncp_color = Some (nci_color i),
    ncp_showOnGraph = Some (nci_showOnGraph i)\<rparr>"

definition shown_patch :: "bool \<Rightarrow> NoteCategoryPatch" where
  "shown_patch v = \<lparr>ncp_name = None, ncp_label = None, ncp_color = None, ncp_showOnGraph = Some v\<rparr>"

datatype CategoryEvent =
    AddCategory | EditCategory NoteCategory | CancelCreate | CancelEdit
  | CreateField CategoryField | EditField CategoryField | SubmitCreate | SubmitEdit
  | ToggleShow NoteCategory bool | ConfirmedDelete NoteCategory | CreateSettled bool | UpdateSettled bool bool | CategoryDeleted

text \<open>
  \<open>ConfirmedDelete\<close> is a click on the bin of a row that is confirmed; \<open>UpdateSettled ofForm ok\<close> an answer to the edit
  form or to a checkbox. The buttons of the rows are disabled while an update or a deletion runs, those of a form
  while its own request does.
\<close>

definition category_step :: "CategoryEvent \<Rightarrow> CategoryPage \<Rightarrow> CategoryPage \<times> category_request option" where
  "category_step ev p = (let busy = (0 < cgp_updatePending p \<or> 0 < cgp_deletePending p) in case ev of
      AddCategory \<Rightarrow> (if cgp_creating p then p else p\<lparr>cgp_creating := True, cgp_createForm := category_form_mount None\<rparr>, None)
    | EditCategory c \<Rightarrow> (if busy then p
        else if cgp_editing p \<noteq> None then p\<lparr>cgp_editing := Some c\<rparr>
        else p\<lparr>cgp_editing := Some c, cgp_editForm := category_form_mount (Some c)\<rparr>, None)
    | CancelCreate \<Rightarrow> (if cgp_createPending p then p else p\<lparr>cgp_creating := False\<rparr>, None)
    | CancelEdit \<Rightarrow> (if 0 < cgp_updatePending p then p else p\<lparr>cgp_editing := None\<rparr>, None)
    | CreateField x \<Rightarrow> (if cgp_creating p then p\<lparr>cgp_createForm := category_type False (cgp_createPending p) x (cgp_createForm p)\<rparr> else p, None)
    | EditField x \<Rightarrow> (case cgp_editing p of None \<Rightarrow> p
        | Some c \<Rightarrow> p\<lparr>cgp_editForm := category_type (nc_isSystem c) (0 < cgp_updatePending p) x (cgp_editForm p)\<rparr>, None)
    | SubmitCreate \<Rightarrow> if \<not> cgp_creating p \<or> cgp_createPending p then (p, None)
        else (case category_submit (cgp_createForm p) of
            (f, None) \<Rightarrow> (p\<lparr>cgp_createForm := f\<rparr>, None)
          | (f, Some i) \<Rightarrow> (p\<lparr>cgp_createForm := f, cgp_createPending := True\<rparr>, Some (CreateCategory i)))
    | SubmitEdit \<Rightarrow> (case cgp_editing p of None \<Rightarrow> (p, None)
        | Some c \<Rightarrow> if 0 < cgp_updatePending p then (p, None)
          else (case category_submit (cgp_editForm p) of
              (f, None) \<Rightarrow> (p\<lparr>cgp_editForm := f\<rparr>, None)
            | (f, Some i) \<Rightarrow> (p\<lparr>cgp_editForm := f, cgp_updatePending := cgp_updatePending p + 1\<rparr>, Some (UpdateCategory (nc_id c) (input_patch i)))))
    | ToggleShow c v \<Rightarrow> if busy then (p, None)
        else (p\<lparr>cgp_updatePending := cgp_updatePending p + 1\<rparr>, Some (UpdateCategory (nc_id c) (shown_patch v)))
    | ConfirmedDelete c \<Rightarrow> if busy \<or> nc_isSystem c then (p, None)
        else (p\<lparr>cgp_deletePending := cgp_deletePending p + 1\<rparr>, Some (DeleteCategory (nc_id c)))
    | CreateSettled ok \<Rightarrow> (if \<not> cgp_createPending p then p
        else if ok then p\<lparr>cgp_createPending := False, cgp_creating := False\<rparr> else p\<lparr>cgp_createPending := False\<rparr>, None)
    | UpdateSettled ofForm ok \<Rightarrow> (if cgp_updatePending p = 0 then p
        else let q = p\<lparr>cgp_updatePending := cgp_updatePending p - 1\<rparr> in if ofForm \<and> ok then q\<lparr>cgp_editing := None\<rparr> else q, None)
    | CategoryDeleted \<Rightarrow> (p\<lparr>cgp_deletePending := cgp_deletePending p - 1\<rparr>, None))"

definition category_run :: "CategoryEvent list \<Rightarrow> CategoryPage" where
  "category_run es = fold (\<lambda>ev p. fst (category_step ev p)) es category_page_mount"

subsection \<open>The list of notes: properties\<close>

definition group_ids :: "Annotation list \<Rightarrow> string list" where
  "group_ids as = map (\<lambda>a. the (an_noteGroupId a)) (filter (\<lambda>a. truthy (an_noteGroupId a)) as)"

definition group_notes :: "Annotation list \<Rightarrow> string \<Rightarrow> Annotation list" where
  "group_notes as i = filter (\<lambda>a. an_noteGroupId a = Some i) as"

definition group_entry :: "Annotation list \<Rightarrow> string \<Rightarrow> NoteListEntry" where
  "group_entry as i = (let items = group_notes as i in
    GroupedEntry i (nullish (an_noteGroupName (hd items)) ''re-evaluation'') items (an_createdAt (hd items)))"

text \<open>The reference: a note alone stands for itself, the first note of a group for the group, a later one for nothing.\<close>

fun note_list_spec :: "Annotation list \<Rightarrow> string list \<Rightarrow> Annotation list \<Rightarrow> NoteListEntry list" where
  "note_list_spec all seen [] = []"
| "note_list_spec all seen (a # as) = (case an_noteGroupId a of
      None \<Rightarrow> StandaloneEntry a # note_list_spec all seen as
    | Some i \<Rightarrow> if i = [] then StandaloneEntry a # note_list_spec all seen as
        else if i \<in> set seen then note_list_spec all seen as
        else group_entry all i # note_list_spec all (i # seen) as)"

lemma collect_order:
  "set (js_keys G) = set seen \<Longrightarrow>
   snd (fold collect_group as (G, ord)) = ord @ dedup_by (\<lambda>x. x) seen (group_ids as)"
proof (induction as arbitrary: G ord seen)
  case (Cons a as)
  show ?case
  proof (cases "truthy (an_noteGroupId a)")
    case True
    then obtain i where i: "an_noteGroupId a = Some i" "i \<noteq> []" by (auto elim: truthyE)
    show ?thesis
    proof (cases "js_get G i")
      case None
      then have "i \<notin> set seen" using Cons.prems by (simp add: js_get_None_iff)
      moreover have "set (js_keys (js_set i v G)) = set (i # seen)" for v using Cons.prems by (simp add: set_js_keys_set)
      ultimately show ?thesis using Cons.IH [of _ "i # seen" "ord @ [i]"] i None
        by (simp add: collect_group_def group_ids_def)
    next
      case (Some v)
      then have m: "i \<in> set seen" using Cons.prems js_get_None_iff [of G i] by auto
      then have "set (js_keys (js_set i w G)) = set seen" for w using Cons.prems by (auto simp: set_js_keys_set)
      then show ?thesis using Cons.IH [of _ seen ord] i Some m
        by (cases v) (simp add: collect_group_def group_ids_def)
    qed
  next
    case False
    then show ?thesis using Cons.IH [of G seen ord] Cons.prems by (simp add: collect_group_def group_ids_def)
  qed
qed (simp add: group_ids_def)

lemma collect_groups:
  assumes "i \<noteq> []"
  shows "js_get (fst (fold collect_group as (G, ord))) i = (case js_get G i of
      Some (n, xs) \<Rightarrow> Some (n, xs @ group_notes as i)
    | None \<Rightarrow> if group_notes as i = [] then None
        else Some (nullish (an_noteGroupName (hd (group_notes as i))) ''re-evaluation'', group_notes as i))"
proof (induction as arbitrary: G ord)
  case Nil
  then show ?case by (simp add: group_notes_def split: option.split)
next
  case (Cons a as)
  show ?case
  proof (cases "an_noteGroupId a = Some i")
    case True
    then have g: "group_notes (a # as) i = a # group_notes as i" by (simp add: group_notes_def)
    show ?thesis
    proof (cases "js_get G i")
      case None
      then show ?thesis using True assms Cons.IH by (simp add: collect_group_def js_get_set g)
    next
      case (Some v)
      then show ?thesis using True assms Cons.IH by (cases v) (simp add: collect_group_def js_get_set g)
    qed
  next
    case False
    then have g: "group_notes (a # as) i = group_notes as i" by (simp add: group_notes_def)
    show ?thesis
    proof (cases "truthy (an_noteGroupId a)")
      case True
      then obtain j where j: "an_noteGroupId a = Some j" "j \<noteq> []" "j \<noteq> i" using False by (auto elim: truthyE)
      obtain G' ord' where "collect_group a (G, ord) = (G', ord')" "js_get G' i = js_get G i"
        using j by (cases "js_get G j") (auto simp: collect_group_def js_get_set Let_def)
      then show ?thesis using Cons.IH g by (simp split: option.split)
    next
      case f: False
      then show ?thesis using Cons.IH g by (simp add: collect_group_def split: option.split)
    qed
  qed
qed

lemma place_entries:
  assumes "\<forall>i\<in>set (group_ids as). js_get G i = Some (nullish (an_noteGroupName (hd (group_notes all i))) ''re-evaluation'', group_notes all i)"
    and "ord = pre @ dedup_by (\<lambda>x. x) seen (group_ids as)"
  shows "snd (fold (place_entry G ord) as (length pre, es)) = es @ note_list_spec all seen as"
  using assms
proof (induction as arbitrary: pre seen es)
  case (Cons a as)
  show ?case
  proof (cases "truthy (an_noteGroupId a)")
    case True
    then obtain i where i: "an_noteGroupId a = Some i" "i \<noteq> []" by (auto elim: truthyE)
    then have ids: "group_ids (a # as) = i # group_ids as" by (simp add: group_ids_def)
    show ?thesis
    proof (cases "i \<in> set seen")
      case True
      then have o: "ord = pre @ dedup_by (\<lambda>x. x) seen (group_ids as)" using Cons.prems(2) ids by simp
      have "ord ! length pre \<noteq> i" if "length pre < length ord"
      proof -
        have "ord ! length pre \<in> set (dedup_by (\<lambda>x. x) seen (group_ids as))" using that o by (simp add: nth_append)
        then show ?thesis using True dedup_by_unseen [of "ord ! length pre" "\<lambda>x. x" seen "group_ids as"] by auto
      qed
      then show ?thesis using Cons.IH [OF _ o, of es] Cons.prems(1) i True ids by (auto simp: place_entry_def)
    next
      case False
      then have o: "ord = (pre @ [i]) @ dedup_by (\<lambda>x. x) (i # seen) (group_ids as)" using Cons.prems(2) ids by simp
      then have "length pre < length ord" "ord ! length pre = i" by (simp_all add: nth_append)
      then show ?thesis using Cons.IH [OF _ o, of "es @ [group_entry all i]"] Cons.prems(1) i False ids
        by (simp add: place_entry_def group_entry_def Let_def)
    qed
  next
    case False
    then have "group_ids (a # as) = group_ids as" by (simp add: group_ids_def)
    moreover have "note_list_spec all seen (a # as) = StandaloneEntry a # note_list_spec all seen as"
      using False by (auto split: option.split)
    ultimately show ?thesis using Cons.IH [of pre seen "es @ [StandaloneEntry a]"] Cons.prems False by (simp add: place_entry_def)
  qed
qed simp

lemma buildNoteList_spec: "buildNoteList as = note_list_spec as [] as"
proof -
  obtain G ord where f: "fold collect_group as ([], []) = (G, ord)" by (cases "fold collect_group as ([], [])")
  have o: "ord = [] @ dedup_by (\<lambda>x. x) [] (group_ids as)"
    using collect_order [of "[]" "[]" as "[]"] f by (simp add: js_keys_def)
  have "js_get G i = Some (nullish (an_noteGroupName (hd (group_notes as i))) ''re-evaluation'', group_notes as i)"
    if "i \<in> set (group_ids as)" for i
  proof -
    have i: "i \<noteq> []" "group_notes as i \<noteq> []"
      using that by (auto simp: group_ids_def group_notes_def filter_empty_conv truthy_def split: option.splits)
    then show ?thesis using collect_groups [OF i(1), of as "[]" "[]"] f by (simp add: js_get_def)
  qed
  then show ?thesis using place_entries [OF _ o, of G as "[]"] f by (simp add: buildNoteList_def)
qed

fun entry_notes :: "NoteListEntry \<Rightarrow> Annotation list" where
  "entry_notes (GroupedEntry i n items t) = items"
| "entry_notes (StandaloneEntry a) = [a]"

lemma note_list_notes:
  "mset (concat (map entry_notes (note_list_spec all seen as))) =
    mset (filter (\<lambda>a. \<not> truthy (an_noteGroupId a)) as) +
    (\<Sum>i\<leftarrow>dedup_by (\<lambda>x. x) seen (group_ids as). mset (group_notes all i))"
  by (induction all seen as rule: note_list_spec.induct)
    (auto simp: group_ids_def group_entry_def Let_def split: option.splits)

lemma mset_filter_disjoint:
  "(\<And>x. P x \<Longrightarrow> \<not> Q x) \<Longrightarrow> mset (filter P xs) + mset (filter Q xs) = mset (filter (\<lambda>x. P x \<or> Q x) xs)"
  by (induction xs) auto

lemma sum_group_notes:
  "distinct ids \<Longrightarrow> (\<Sum>i\<leftarrow>ids. mset (group_notes as i)) = mset (filter (\<lambda>a. \<exists>i\<in>set ids. an_noteGroupId a = Some i) as)"
proof (induction ids)
  case (Cons i ids)
  then have "(\<Sum>j\<leftarrow>i # ids. mset (group_notes as j)) = mset (filter (\<lambda>a. an_noteGroupId a = Some i) as) +
      mset (filter (\<lambda>a. \<exists>j\<in>set ids. an_noteGroupId a = Some j) as)"
    by (simp add: group_notes_def)
  also have "\<dots> = mset (filter (\<lambda>a. an_noteGroupId a = Some i \<or> (\<exists>j\<in>set ids. an_noteGroupId a = Some j)) as)"
    using Cons.prems by (intro mset_filter_disjoint) auto
  also have "filter (\<lambda>a. an_noteGroupId a = Some i \<or> (\<exists>j\<in>set ids. an_noteGroupId a = Some j)) as =
      filter (\<lambda>a. \<exists>j\<in>set (i # ids). an_noteGroupId a = Some j) as"
    by (rule filter_cong) auto
  finally show ?case .
qed simp

text \<open>
  C38. The list of notes shows every note exactly once: a note alone in its place, and the notes of a group together,
  in their order, in the place of the group's first note.
\<close>

theorem note_list_complete:
  "buildNoteList as = note_list_spec as [] as \<and> mset (concat (map entry_notes (buildNoteList as))) = mset as"
proof -
  have "(\<exists>i\<in>set (group_ids as). an_noteGroupId a = Some i) = truthy (an_noteGroupId a)" if "a \<in> set as" for a
    using that by (force simp: group_ids_def truthy_def split: option.splits)
  then have "filter (\<lambda>a. \<exists>i\<in>set (group_ids as). an_noteGroupId a = Some i) as = filter (\<lambda>a. truthy (an_noteGroupId a)) as"
    by (intro filter_cong) auto
  moreover have "distinct (dedup_by (\<lambda>x. x) [] (group_ids as))" "set (dedup_by (\<lambda>x. x) [] (group_ids as)) = set (group_ids as)"
    using distinct_uniq [of "group_ids as"] set_uniq [of "group_ids as"] by (simp_all add: uniq_def)
  ultimately have "mset (concat (map entry_notes (note_list_spec as [] as))) =
      mset (filter (\<lambda>a. \<not> truthy (an_noteGroupId a)) as) + mset (filter (\<lambda>a. truthy (an_noteGroupId a)) as)"
    unfolding note_list_notes by (simp add: sum_group_notes)
  also have "\<dots> = mset as" by (induction as) auto
  finally show ?thesis by (simp add: buildNoteList_spec)
qed

subsection \<open>Links in a note: properties\<close>

fun part_text :: "text_part \<Rightarrow> string" where
  "part_text (Text t) = t"
| "part_text (Link u) = u"

lemma linkify_from_text: "concat (map part_text (linkify_from t s)) = t @ s"
proof (induction t s rule: linkify_from.induct)
  case (2 t c s)
  show ?case
  proof (cases "url_at (c # s)")
    case None
    then show ?thesis using 2(1) by simp
  next
    case (Some u)
    have "c # s = u @ drop (length u) (c # s)" using url_at_prefix [OF Some] by blast
    then show ?thesis using 2(2) [OF Some] Some by (simp add: flush_text_def)
  qed
qed (simp add: flush_text_def)

definition web_address :: "string \<Rightarrow> bool" where
  "web_address u \<longleftrightarrow> (\<exists>p\<in>{''http://'', ''https://''}. startsWith u p \<and> length p < length u) \<and> (\<forall>c\<in>set u. \<not> is_space c)"

lemma url_with_address:
  assumes "url_with p s = Some u" and "p \<in> {''http://'', ''https://''}"
  shows "web_address u"
proof -
  let ?w = "takeWhile (\<lambda>c. \<not> is_space c) (drop (length p) s)"
  have u: "u = p @ ?w" "?w \<noteq> []" using assms(1) by (auto simp: url_with_def Let_def split: if_splits)
  have "\<forall>c\<in>set ?w. \<not> is_space c" by (auto dest: set_takeWhileD)
  moreover have "\<forall>c\<in>set p. \<not> is_space c" using assms(2) by (auto simp: is_space_def)
  ultimately have "\<forall>c\<in>set u. \<not> is_space c" unfolding u(1) by auto
  moreover have "startsWith u p" "length p < length u" using u by simp_all
  ultimately show ?thesis using assms(2) unfolding web_address_def by blast
qed

lemma url_at_address: "url_at s = Some u \<Longrightarrow> web_address u"
  unfolding url_at_def using url_with_address by (auto split: option.splits)

lemma linkify_from_links: "Link u \<in> set (linkify_from t s) \<Longrightarrow> web_address u"
  by (induction t s rule: linkify_from.induct) (auto simp: flush_text_def dest: url_at_address split: option.splits if_splits)

text \<open>
  Linking the addresses in a note loses no character: its parts put together are the note. Only \<open>http\<close> and
  \<open>https\<close> addresses without blanks become links.
\<close>

lemma linkified_text:
  "concat (map part_text (LinkifiedText s)) = s \<and> {u. Link u \<in> set (LinkifiedText s)} \<subseteq> Collect web_address"
  using linkify_from_text [of "[]" s] linkify_from_links by (auto simp: LinkifiedText_def)

subsection \<open>Hiding notes\<close>

lemma note_group_sent:
  assumes "hdf_sent (note_group_step ids ev s) \<noteq> hdf_sent s"
  shows "\<exists>i. ev = ConfirmHide \<and> hdf_target s = Some i \<and> i \<noteq> [] \<and> \<not> hdf_pending s \<and>
    trim_str (cnf_reason (hdf_form s)) \<noteq> [] \<and> trim_str (cnf_author (hdf_form s)) \<noteq> [] \<and>
    hdf_sent (note_group_step ids ev s) = hdf_sent s @ [(i, cnf_reason (hdf_form s), Some (cnf_author (hdf_form s)))]"
proof (cases ev)
  case ConfirmHide
  then show ?thesis
    using assms by (cases "hdf_target s")
      (auto simp: note_group_step_def confirm_hide_def handleConfirm_def delete_canConfirm_def trim_str_def trimStart_def
        trimEnd_def split: if_splits)
qed (use assms in \<open>auto simp: note_group_step_def ask_hide_def hide_settled_def split: if_splits\<close>)

text \<open>In a group the reason typed for one note stays when another note's button is clicked, and is sent for that one.\<close>

lemma hide_reason_kept:
  assumes "a \<noteq> []" and "b \<noteq> []" and "trim_str r \<noteq> []" and "trim_str u \<noteq> []" and "a \<in> set ids" and "b \<in> set ids"
  shows "hdf_sent (fold (note_group_step ids) [AskHide a, TypeReason r, TypeAuthor u, AskHide b, ConfirmHide] hide_mount) =
    [(b, r, Some u)]"
proof -
  have "u \<noteq> []" using assms(4) by (auto simp: trim_str_def trimStart_def trimEnd_def)
  then show ?thesis using assms
    by (simp add: note_group_step_def ask_hide_def hide_mount_def confirm_hide_def handleConfirm_def delete_canConfirm_def)
qed

lemma add_note_valid:
  assumes "add_note_save categories isPending s = Some i"
  shows "\<not> isPending \<and> trim_str (ac_content i) \<noteq> [] \<and> ac_categoryId i \<noteq> [] \<and> ac_author i \<noteq> Some [] \<and>
    (adn_categoryId s = [] \<longrightarrow> ac_categoryId i \<in> nc_id ` set categories)"
proof -
  have "note_defaultId categories \<noteq> [] \<Longrightarrow> note_defaultId categories \<in> nc_id ` set categories"
  proof (cases "find (\<lambda>c. nc_name c = ''info'') categories")
    case None
    then show "note_defaultId categories \<noteq> [] \<Longrightarrow> note_defaultId categories \<in> nc_id ` set categories"
      by (cases categories) (auto simp: note_defaultId_def)
  next
    case (Some c)
    then show "note_defaultId categories \<in> nc_id ` set categories"
      using find_mem [OF Some] by (simp add: note_defaultId_def)
  qed
  then show ?thesis using assms by (auto simp: add_note_save_def note_effectiveId_def split: if_splits)
qed

subsection \<open>Categories: properties\<close>

lemma category_submit_valid:
  "category_submit f = (f', Some i) \<Longrightarrow> category_name_ok (nci_name i) \<and> 0 < length (nci_label i) \<and> length (nci_label i) \<le> 12 \<and>
    nci_name i = ctf_name f \<and> nci_label i = ctf_label f"
  by (auto simp: category_submit_def split: if_splits)


definition demo_category :: "string \<Rightarrow> string \<Rightarrow> NoteCategory" where
  "demo_category i n = \<lparr>nc_id = i, nc_name = n, nc_label = n, nc_color = Sky, nc_showOnGraph = True, nc_isSystem = False,
    nc_createdAt = None, nc_updatedAt = None\<rparr>"


text \<open>A category clicked while another is edited keeps the fields of that one, and saving writes them to the new one.\<close>

lemma category_edit_leak:
  assumes "category_name_ok (nc_name a)" and "nc_label a \<noteq> []" and "length (nc_label a) \<le> 12"
  shows "snd (category_step SubmitEdit (category_run [EditCategory a, EditCategory b])) =
    Some (UpdateCategory (nc_id b) \<lparr>ncp_name = Some (nc_name a), ncp_label = Some (nc_label a), ncp_color = Some (nc_color a),
      ncp_showOnGraph = Some (nc_showOnGraph a)\<rparr>)"
  using assms by (simp add: category_run_def category_step_def category_page_mount_def category_form_mount_def category_submit_def
      input_patch_def)

end
