(* ===== verification/BlockViews.thy ===== *)
theory BlockViews
  imports RegistryTree DetailViews EvalPages
begin

text \<open>
  Views that several pages share: the rows of the registry's trees (\<open>features/registry/RegistryTree.tsx\<close>,
  \<open>components/tree/TreeNode.tsx\<close>), the box with a search field (\<open>components/shared/SearchableComboBox.tsx\<close>), the block
  of a metric's chart (\<open>features/evaluations/components/MetricTrendBlock.tsx\<close>), the breakdown by SLO
  (\<open>SLIBreakdownGrouped.tsx\<close>) and the header card (\<open>EvaluationHeader.tsx\<close>).
\<close>

subsection \<open>The rows of a registry tree\<close>

fun NODE_TYPE_COLORS :: "NodeType \<Rightarrow> string" where
  "NODE_TYPE_COLORS NSlo = ''var(--entity-slo)''"
| "NODE_TYPE_COLORS NSli = ''var(--entity-sli)''"
| "NODE_TYPE_COLORS NDatasource = ''var(--entity-datasource)''"
| "NODE_TYPE_COLORS NGroup = ''var(--entity-group)''"
| "NODE_TYPE_COLORS NAsset = ''var(--entity-asset)''"
| "NODE_TYPE_COLORS NBinding = ''var(--entity-slo)''"
| "NODE_TYPE_COLORS NTemplate = ''#F0B429''"
| "NODE_TYPE_COLORS NSloGroup = ''#8B949E''"

datatype NodeBadge = CountBadge string | VersionBadge string

definition getBadgeForNode :: "TreeNode \<Rightarrow> NodeBadge option" where
  "getBadgeForNode n = (case tn_badge n of None \<Rightarrow> None
     | Some b \<Rightarrow> if b = [] then None else if startsWith b ''v'' then Some (VersionBadge b) else Some (CountBadge b))"

record RegistryRow =
  rrw_id :: string
  rrw_label :: string
  rrw_subtitle :: "string option"
  rrw_color :: string
  rrw_paddingLeft :: int
  rrw_expandable :: bool
  rrw_expanded :: bool
  rrw_selected :: bool
  rrw_isGroup :: bool
  rrw_badge :: "NodeBadge option"
  rrw_click :: SelectedNode

definition group_context :: "string option \<Rightarrow> TreeNode \<Rightarrow> string option" where
  "group_context parentGroupName n = (if tn_type n = NGroup then Some (tn_name n) else parentGroupName)"

definition registry_row :: "string list \<Rightarrow> SelectedNode option \<Rightarrow> nat \<Rightarrow> string option \<Rightarrow> TreeNode \<Rightarrow> RegistryRow" where
  "registry_row expanded selected depth parentGroupName n =
    (let chosen = (case selected of None \<Rightarrow> False | Some s \<Rightarrow> sn_type s = tn_type n \<and> sn_name s = tn_name n) in
     \<lparr>rrw_id = tn_id n, rrw_label = nullish (tn_displayName n) (tn_name n), rrw_subtitle = tn_subtitle n,
      rrw_color = NODE_TYPE_COLORS (tn_type n), rrw_paddingLeft = int depth * 24 - (if chosen then 2 else 0),
      rrw_expandable = (nullish (tn_children n) [] \<noteq> []), rrw_expanded = (tn_id n \<in> set expanded), rrw_selected = chosen,
      rrw_isGroup = (tn_type n = NGroup), rrw_badge = getBadgeForNode n,
      rrw_click = \<lparr>sn_type = tn_type n, sn_name = tn_name n, sn_groupName = group_context parentGroupName n\<rparr>\<rparr>)"

fun registry_rows :: "string list \<Rightarrow> SelectedNode option \<Rightarrow> nat \<Rightarrow> string option \<Rightarrow> TreeNode \<Rightarrow> RegistryRow list" where
  "registry_rows expanded selected depth parentGroupName (TreeNode i nm dn ty bd st children bch gn atn) =
    (let n = TreeNode i nm dn ty bd st children bch gn atn
     in registry_row expanded selected depth parentGroupName n #
       (if i \<in> set expanded then (case children of None \<Rightarrow> []
          | Some cs \<Rightarrow> concat (map (registry_rows expanded selected (depth + 1) (group_context parentGroupName n)) cs)) else []))"

definition RegistryTree_rows :: "string list \<Rightarrow> SelectedNode option \<Rightarrow> TreeNode list \<Rightarrow> RegistryRow list" where
  "RegistryTree_rows expanded selected nodes = concat (map (registry_rows expanded selected 0 None) nodes)"

definition registry_toggle :: "string \<Rightarrow> string list \<Rightarrow> string list" where
  "registry_toggle i expanded = (if i \<in> set expanded then filter (\<lambda>j. j \<noteq> i) expanded else expanded @ [i])"

text \<open>
  Events are about the k-th row shown. A key pressed on the chevron reaches the row, which prevents the click on the
  chevron and selects.
\<close>

datatype RowEvent = RowClick nat | RowKey nat | ChevronClick nat | ChevronKey nat

definition registry_tree_step ::
    "SelectedNode option \<Rightarrow> TreeNode list \<Rightarrow> RowEvent \<Rightarrow> string list \<Rightarrow> string list \<times> SelectedNode option" where
  "registry_tree_step selected nodes ev expanded =
    (let rows = RegistryTree_rows expanded selected nodes in case ev of
      RowClick k \<Rightarrow> (expanded, if k < length rows then Some (rrw_click (rows ! k)) else None)
    | RowKey k \<Rightarrow> (expanded, if k < length rows then Some (rrw_click (rows ! k)) else None)
    | ChevronClick k \<Rightarrow> (if k < length rows \<and> rrw_expandable (rows ! k) then registry_toggle (rrw_id (rows ! k)) expanded else expanded, None)
    | ChevronKey k \<Rightarrow> (expanded, if k < length rows \<and> rrw_expandable (rows ! k) then Some (rrw_click (rows ! k)) else None))"

subsection \<open>A box with a search field\<close>

record ComboItem =
  cbi_value :: string
  cbi_label :: string
  cbi_badge :: "string option"

record ComboBox =
  cbx_open :: bool
  cbx_search :: string

definition combo_mount :: ComboBox where
  "combo_mount = \<lparr>cbx_open = False, cbx_search = []\<rparr>"

definition combo_text :: "string \<Rightarrow> string \<Rightarrow> ComboItem list \<Rightarrow> string" where
  "combo_text placeholder v items = (case find (\<lambda>i. cbi_value i = v) items of Some i \<Rightarrow> cbi_label i | None \<Rightarrow> placeholder)"

definition filteredItems :: "string \<Rightarrow> ComboItem list \<Rightarrow> ComboItem list" where
  "filteredItems search items = filter (\<lambda>i. search = [] \<or> includes_str (toLowerCase (cbi_label i)) (toLowerCase search)
     \<or> includes_str (toLowerCase (cbi_value i)) (toLowerCase search)) items"

text \<open>
  \<open>ComboEscape inList\<close>: the key pressed in the list of items, or elsewhere, such as in the search field that has the
  focus when the box opens. \<open>ComboPick k\<close> is a click on the k-th item shown.
\<close>

datatype ComboEvent = ComboToggle | ComboOutside | ComboSearch string | ComboEscape bool | ComboPick nat

definition combo_step :: "ComboItem list \<Rightarrow> ComboEvent \<Rightarrow> ComboBox \<Rightarrow> ComboBox \<times> string option" where
  "combo_step items ev s = (let shown = filteredItems (cbx_search s) items in case ev of
      ComboToggle \<Rightarrow> (\<lparr>cbx_open = \<not> cbx_open s, cbx_search = (if cbx_open s then [] else cbx_search s)\<rparr>, None)
    | ComboOutside \<Rightarrow> (if cbx_open s then combo_mount else s, None)
    | ComboSearch q \<Rightarrow> (if cbx_open s then s\<lparr>cbx_search := q\<rparr> else s, None)
    | ComboEscape inList \<Rightarrow> (if cbx_open s \<and> inList \<and> shown \<noteq> [] then combo_mount else s, None)
    | ComboPick k \<Rightarrow> if cbx_open s \<and> k < length shown then (combo_mount, Some (cbi_value (shown ! k))) else (s, None))"

subsection \<open>The block of a metric's chart\<close>

record TrendBlock =
  tbk_notes :: "bool MasterOverride"
  tbk_chartType :: "ChartType MasterOverride"
  tbk_containerWidth :: rat
  tbk_hook :: TrendHook
  tbk_targetsOpen :: bool

definition trend_block_mount :: "ChartPreferences \<Rightarrow> TrendBlock" where
  "trend_block_mount prefs = \<lparr>tbk_notes = override_mount (cpr_notesGeneration prefs),
    tbk_chartType = override_mount (cpr_chartTypeGeneration prefs), tbk_containerWidth = 0, tbk_hook = initial_hook,
    tbk_targetsOpen = False\<rparr>"

definition notesVisible :: "ChartPreferences \<Rightarrow> TrendBlock \<Rightarrow> bool" where
  "notesVisible prefs b = fst (useMasterOverride (cpr_notesMaster prefs) (cpr_notesGeneration prefs) (tbk_notes b))"

definition chartType :: "ChartPreferences \<Rightarrow> TrendBlock \<Rightarrow> ChartType" where
  "chartType prefs b = fst (useMasterOverride (cpr_chartTypeMaster prefs) (cpr_chartTypeGeneration prefs) (tbk_chartType b))"

text \<open>The part of a render that changes the state: overrides of an older generation go, the list of lines closes while loading.\<close>

definition trend_block_render :: "ChartPreferences \<Rightarrow> bool \<Rightarrow> TrendBlock \<Rightarrow> TrendBlock" where
  "trend_block_render prefs isLoading b =
    b\<lparr>tbk_notes := snd (useMasterOverride (cpr_notesMaster prefs) (cpr_notesGeneration prefs) (tbk_notes b)),
      tbk_chartType := snd (useMasterOverride (cpr_chartTypeMaster prefs) (cpr_chartTypeGeneration prefs) (tbk_chartType b)),
      tbk_targetsOpen := (tbk_targetsOpen b \<and> \<not> isLoading)\<rparr>"

text \<open>The input of the chart, and the chart; the fields that the hook itself fills in are left as they are.\<close>

definition trend_block_input ::
    "ChartPreferences \<Rightarrow> TrendPoint list option \<Rightarrow> string option \<Rightarrow> ChartOptionInput \<Rightarrow> TrendBlock \<Rightarrow> ChartOptionInput" where
  "trend_block_input prefs trend selectedEvalId args b =
    args\<lparr>ci_trend := nullish trend [], ci_evalId := nullish selectedEvalId [], ci_chartWidth := Some (tbk_containerWidth b),
      ci_notesVisible := notesVisible prefs b, ci_barChart := (chartType prefs b = BarChart)\<rparr>"

definition trend_block_view ::
    "browser \<Rightarrow> Theme \<Rightarrow> rat \<Rightarrow> ChartPreferences \<Rightarrow> TrendPoint list option \<Rightarrow> string option \<Rightarrow> ChartOptionInput \<Rightarrow> TrendBlock \<Rightarrow> TrendView option" where
  "trend_block_view br theme fontSize prefs trend selectedEvalId args b =
    useMetricTrendState br theme fontSize (trend_block_input prefs trend selectedEvalId args b) (tbk_hook b)"

datatype TrendBlockEvent =
    BlockNotes | BlockChartType | BlockYMin string | BlockYMax string | BlockTargets | BlockTargetsOutside
  | BlockTarget nat | ChartMounted rat | ChartResized rat

definition block_targets :: "browser \<Rightarrow> TrendPoint list option \<Rightarrow> TrendBlock \<Rightarrow> ChartTarget list" where
  "block_targets br trend b = hook_targets (br_localeCompare br) (nullish trend []) (th_visibility (tbk_hook b))"

definition activeCount :: "ChartTarget list \<Rightarrow> nat" where
  "activeCount targets = length (filter cht_visible targets)"

definition dropdown_open :: "ChartTarget list \<Rightarrow> bool \<Rightarrow> bool \<Rightarrow> bool" where
  "dropdown_open targets onButton isOpen = (if targets = [] then isOpen else onButton \<and> \<not> isOpen)"

fun level_dot :: "TargetLevel \<Rightarrow> string" where
  "level_dot PassLevel = ''bg-pass''"
| "level_dot WarnLevel = ''bg-warning''"
| "level_dot BaselineLevel = ''bg-[#58a6ff]''"

text \<open>The lines offered: whether each is checked, its colour and its criteria.\<close>

definition dropdown_rows :: "ChartTarget list \<Rightarrow> bool \<Rightarrow> (bool \<times> string \<times> string) list" where
  "dropdown_rows targets isOpen = (if isOpen then map (\<lambda>t. (cht_visible t, level_dot (cht_level t), cht_criteria t)) targets else [])"

definition measured_width :: "bool \<Rightarrow> rat \<Rightarrow> rat \<Rightarrow> rat" where
  "measured_width mounted w old = (if mounted \<or> 0 < w then w else old)"

definition trend_block_step ::
    "browser \<Rightarrow> ChartPreferences \<Rightarrow> bool \<Rightarrow> TrendPoint list option \<Rightarrow> TrendBlockEvent \<Rightarrow> TrendBlock \<Rightarrow> TrendBlock" where
  "trend_block_step br prefs isLoading trend ev b0 =
    (let b = trend_block_render prefs isLoading b0; targets = block_targets br trend b in
     if isLoading then b else case ev of
      BlockNotes \<Rightarrow> b\<lparr>tbk_notes := setOverride (\<not> notesVisible prefs b) (tbk_notes b)\<rparr>
    | BlockChartType \<Rightarrow> b\<lparr>tbk_chartType := setOverride (if chartType prefs b = LineChart then BarChart else LineChart) (tbk_chartType b)\<rparr>
    | BlockYMin v \<Rightarrow> b\<lparr>tbk_hook := setYMin v (tbk_hook b)\<rparr>
    | BlockYMax v \<Rightarrow> b\<lparr>tbk_hook := setYMax v (tbk_hook b)\<rparr>
    | BlockTargets \<Rightarrow> b\<lparr>tbk_targetsOpen := dropdown_open targets True (tbk_targetsOpen b)\<rparr>
    | BlockTargetsOutside \<Rightarrow> b\<lparr>tbk_targetsOpen := dropdown_open targets False (tbk_targetsOpen b)\<rparr>
    | BlockTarget k \<Rightarrow> if k < length (dropdown_rows targets (tbk_targetsOpen b)) then b\<lparr>tbk_hook := toggle_target (targets ! k) (tbk_hook b)\<rparr> else b
    | ChartMounted w \<Rightarrow> b\<lparr>tbk_containerWidth := measured_width True w (tbk_containerWidth b)\<rparr>
    | ChartResized w \<Rightarrow> b\<lparr>tbk_containerWidth := measured_width False w (tbk_containerWidth b)\<rparr>)"

definition trend_area_click :: "bool \<Rightarrow> TrendPoint list option \<Rightarrow> bool \<Rightarrow> rat \<Rightarrow> string option" where
  "trend_area_click hasSelect trend inGrid xVal =
    map_option (\<lambda>i. tp_evalId (nullish trend [] ! i)) (useChartAreaClick hasSelect (length (nullish trend [])) inGrid xVal)"

definition trend_pill_click :: "bool \<Rightarrow> string option \<Rightarrow> string option \<Rightarrow> string option" where
  "trend_pill_click hasSelect componentType evalId =
    (if componentType = Some ''markPoint'' \<and> truthy evalId \<and> hasSelect then evalId else None)"

record TrendBlockLabels =
  tbl_blockId :: string
  tbl_status :: string
  tbl_statusColor :: string
  tbl_sloLabel :: "string option"
  tbl_sloTitle :: "string option"
  tbl_title :: string
  tbl_height :: "rat option"

definition trend_block_labels ::
    "string option \<Rightarrow> string \<Rightarrow> string option \<Rightarrow> Indicator \<Rightarrow> bool \<Rightarrow> TrendView \<Rightarrow> TrendBlockLabels" where
  "trend_block_labels blockId sloName dname indicator isLoading v =
    (let sloLabel = (case dname of Some d \<Rightarrow> Some d | None \<Rightarrow> if sloName \<noteq> [] then Some sloName else None) in
     \<lparr>tbl_blockId = nullish blockId (''trend-'' @ in_metric indicator), tbl_status = in_status indicator,
      tbl_statusColor = nullish (STATUS_TEXT (in_status indicator)) ''text-muted-foreground'',
      tbl_sloLabel = (if truthy sloLabel then sloLabel else None),
      tbl_sloTitle = (if sloName \<noteq> [] then Some (''SLO: '' @ sloName) else None),
      tbl_title = (if isLoading then in_displayName indicator
        else if in_displayName indicator \<noteq> [] then in_displayName indicator else in_metric indicator),
      tbl_height = (if isLoading then None else Some (200 + tv_labelBandPx v))\<rparr>)"

subsection \<open>The breakdown by SLO and the header card\<close>

text \<open>The one-character string \<open>greater_equal\<close> stands for U+2265.\<close>

definition greater_equal :: string where
  "greater_equal = [CHR 0xB3]"

record BreakdownSection =
  bks_slo :: string
  bks_expanded :: bool
  bks_label :: string
  bks_versions :: "string option"
  bks_points :: "string option"
  bks_result :: "(string \<times> string) option"
  bks_table :: "table_row list option"

definition group_versions :: "SloBreakdownGroup \<Rightarrow> string option" where
  "group_versions g = (if sbg_slo_version g \<noteq> None \<or> sbg_sli_version g \<noteq> None then
     Some (''['' @ (case sbg_slo_version g of None \<Rightarrow> [] | Some v \<Rightarrow> ''SLO v'' @ show_int v)
       @ (if sbg_slo_version g \<noteq> None \<and> sbg_sli_version g \<noteq> None then '' '' else [])
       @ (case sbg_sli_version g of None \<Rightarrow> [] | Some v \<Rightarrow> ''SLI v'' @ show_int v) @ '']'') else None)"

definition group_colour :: "string \<Rightarrow> string" where
  "group_colour r = (if r = ''pass'' then ''text-pass'' else if r = ''warning'' then ''text-warning''
     else if r = ''fail'' then ''text-fail'' else ''text-muted-foreground'')"

text \<open>The table of a closed group is hidden, not removed: its state, one for each SLO, is kept.\<close>

definition SLIBreakdownGrouped ::
    "(string, bool) jsmap \<Rightarrow> (string \<Rightarrow> BreakdownState) \<Rightarrow> (string \<Rightarrow> string) option \<Rightarrow> SloBreakdownGroup list \<Rightarrow> BreakdownSection list" where
  "SLIBreakdownGrouped expandState tables rowIdPrefixBuilder groups = map (\<lambda>g.
     \<lparr>bks_slo = sbg_slo_name g, bks_expanded = nullish (js_get expandState (sbg_slo_name g)) False,
      bks_label = nullish (sbg_slo_display_name g) (sbg_slo_name g), bks_versions = group_versions g,
      bks_points = (if 0 < sbg_total_points g then Some (num_string (Fin (sbg_achieved_points g)) @ ''/''
        @ num_string (Fin (sbg_total_points g)) @ ''pts'') else None),
      bks_result = (if sbg_result g \<noteq> ''none'' then Some (sbg_result g, group_colour (sbg_result g)) else None),
      bks_table = (if sbg_indicators g \<noteq> [] then Some (SLIBreakdownTable (tables (sbg_slo_name g)) (sbg_indicators g) (sbg_sliMetadata g)
        (map_option (\<lambda>f. f (sbg_slo_name g)) rowIdPrefixBuilder)) else None)\<rparr>) groups"

record HeaderCard =
  ehr_badge :: "Outcome option"
  ehr_subtitle :: "string option"
  ehr_score :: "(string \<times> string option) option"
  ehr_thresholds :: "string list"

definition EvaluationHeader ::
    "Theme \<Rightarrow> string option \<Rightarrow> Outcome option \<Rightarrow> rat option \<Rightarrow> bool \<Rightarrow> rat option \<Rightarrow> rat option \<Rightarrow> HeaderCard" where
  "EvaluationHeader theme subtitle result score scoreColored passPct warningPct =
    \<lparr>ehr_badge = result, ehr_subtitle = (if truthy subtitle then subtitle else None),
     ehr_score = map_option (\<lambda>x. ((if x = of_int \<lfloor>x\<rfloor> then num_string (Fin x) else toFixed 1 x) @ ''%'',
       if scoreColored then map_option (\<lambda>r. heatmap_colour (CHART_THEME theme) (RESULT_COLOUR theme) (outcome_result r)) result else None)) score,
     ehr_thresholds = (case score of None \<Rightarrow> [] | Some _ \<Rightarrow>
       if passPct = None \<and> warningPct = None then [''total score'']
       else (case passPct of None \<Rightarrow> [] | Some p \<Rightarrow> [''pass '' @ greater_equal @ num_string (Fin p) @ ''%''])
         @ (case warningPct of None \<Rightarrow> [] | Some p \<Rightarrow> [''warn '' @ greater_equal @ num_string (Fin p) @ ''%'']))\<rparr>"

subsection \<open>The rows of a registry tree: properties\<close>

text \<open>The nodes a tree shows, with their depth and the name of the nearest group around them, for the open ids.\<close>

inductive tree_shows :: "(string \<Rightarrow> bool) \<Rightarrow> TreeNode list \<Rightarrow> nat \<Rightarrow> string option \<Rightarrow> TreeNode \<Rightarrow> bool" for is_open nodes where
  top: "n \<in> set nodes \<Longrightarrow> tree_shows is_open nodes 0 None n"
| child: "tree_shows is_open nodes d g n \<Longrightarrow> is_open (tn_id n) \<Longrightarrow> c \<in> set (nullish (tn_children n) []) \<Longrightarrow>
    tree_shows is_open nodes (d + 1) (group_context g n) c"

lemma registry_rows_unfold:
  "registry_rows X sel d g n = registry_row X sel d g n # (if tn_id n \<in> set X
     then concat (map (registry_rows X sel (d + 1) (group_context g n)) (nullish (tn_children n) [])) else [])"
  by (cases n) (simp add: Let_def split: option.split)

lemma rows_shown:
  "r \<in> set (registry_rows X sel d g n) \<Longrightarrow> tree_shows (\<lambda>i. i \<in> set X) nodes d g n \<Longrightarrow>
    \<exists>d' g' m. tree_shows (\<lambda>i. i \<in> set X) nodes d' g' m \<and> r = registry_row X sel d' g' m"
proof (induction X sel d g n rule: registry_rows.induct)
  case (1 X sel d g i nm dn ty bd st children bch gn atn)
  let ?n = "TreeNode i nm dn ty bd st children bch gn atn"
  note prems = "1.prems"(1) [unfolded registry_rows.simps Let_def]
  show ?case
  proof (cases "r = registry_row X sel d g ?n")
    case True
    then show ?thesis using "1.prems"(2) by blast
  next
    case False
    then have i: "i \<in> set X" using prems by (cases "i \<in> set X") simp_all
    then obtain cs where cs: "children = Some cs" using False prems by (cases children) simp_all
    then obtain c where c: "c \<in> set cs" "r \<in> set (registry_rows X sel (d + 1) (group_context g ?n) c)"
      using False prems i by auto
    have "tree_shows (\<lambda>i. i \<in> set X) nodes (d + 1) (group_context g ?n) c"
      by (rule tree_shows.child [OF "1.prems"(2)]) (use i cs c in simp_all)
    then show ?thesis using "1.IH" [OF refl i cs c] by blast
  qed
qed

lemma shown_rows:
  "tree_shows (\<lambda>i. i \<in> set X) nodes d g n \<Longrightarrow> set (registry_rows X sel d g n) \<subseteq> set (RegistryTree_rows X sel nodes)"
proof (induction rule: tree_shows.induct)
  case (top n)
  then show ?case by (auto simp: RegistryTree_rows_def)
next
  case (child d g n c)
  then have "set (registry_rows X sel (d + 1) (group_context g n) c) \<subseteq> set (registry_rows X sel d g n)"
    by (subst (2) registry_rows_unfold) auto
  then show ?case using child.IH by blast
qed

lemma toggled_ids: "i \<in> set (fold registry_toggle ts []) \<longleftrightarrow> odd (count_list ts i)"
  by (induction ts rule: rev_induct) (auto simp: registry_toggle_def)

lemma tree_rows_set:
  "set (RegistryTree_rows X sel nodes) = {registry_row X sel d g n | d g n. tree_shows (\<lambda>i. i \<in> set X) nodes d g n}"
proof (intro equalityI subsetI)
  fix r assume "r \<in> set (RegistryTree_rows X sel nodes)"
  then obtain n where "n \<in> set nodes" "r \<in> set (registry_rows X sel 0 None n)" by (auto simp: RegistryTree_rows_def)
  then show "r \<in> {registry_row X sel d g n | d g n. tree_shows (\<lambda>i. i \<in> set X) nodes d g n}"
    using rows_shown [OF _ tree_shows.top] by blast
next
  fix r assume "r \<in> {registry_row X sel d g n | d g n. tree_shows (\<lambda>i. i \<in> set X) nodes d g n}"
  then obtain d g n where s: "tree_shows (\<lambda>i. i \<in> set X) nodes d g n" and r: "r = registry_row X sel d g n" by blast
  have "r \<in> set (registry_rows X sel d g n)" by (subst registry_rows_unfold) (simp add: r)
  then show "r \<in> set (RegistryTree_rows X sel nodes)" using shown_rows [OF s] by blast
qed


text \<open>No key opens or closes a node: pressed on a chevron it selects the node.\<close>

lemma chevron_key_selects:
  "fst (registry_tree_step sel nodes (ChevronKey k) X) = X \<and> fst (registry_tree_step sel nodes (RowKey k) X) = X \<and>
   snd (registry_tree_step sel nodes (ChevronKey k) X) \<in> {None, snd (registry_tree_step sel nodes (RowClick k) X)}"
  by (simp add: registry_tree_step_def Let_def)

subsection \<open>The search box: properties\<close>

text \<open>A closed box holds no search text, and what it passes on is the value of an item it shows.\<close>

lemma combo_box_safe:
  "cbx_open (fold (\<lambda>(items, ev) s. fst (combo_step items ev s)) es combo_mount) \<or>
     cbx_search (fold (\<lambda>(items, ev) s. fst (combo_step items ev s)) es combo_mount) = []"
  "snd (combo_step items ev s) = Some v \<Longrightarrow> cbx_open s \<and> v \<in> cbi_value ` set (filteredItems (cbx_search s) items) \<and>
     fst (combo_step items ev s) = combo_mount"
proof -
  have "cbx_open s \<or> cbx_search s = [] \<Longrightarrow> cbx_open (fst (combo_step items ev s)) \<or> cbx_search (fst (combo_step items ev s)) = []"
    for items ev s
    by (cases ev) (auto simp: combo_step_def Let_def combo_mount_def)
  then show "cbx_open (fold (\<lambda>(items, ev) s. fst (combo_step items ev s)) es combo_mount) \<or>
      cbx_search (fold (\<lambda>(items, ev) s. fst (combo_step items ev s)) es combo_mount) = []"
    by (induction es rule: rev_induct) (auto simp: combo_mount_def case_prod_unfold)
  show "snd (combo_step items ev s) = Some v \<Longrightarrow> cbx_open s \<and> v \<in> cbi_value ` set (filteredItems (cbx_search s) items) \<and>
      fst (combo_step items ev s) = combo_mount"
    by (cases ev) (auto simp: combo_step_def Let_def split: if_splits)
qed

lemma combo_escape_ignored: "combo_step items (ComboEscape False) s = (s, None)"
  by (simp add: combo_step_def Let_def)

subsection \<open>The block of a metric's chart: properties\<close>

text \<open>The index a click selects is that of a position nearest to it.\<close>

lemma chart_click_nearest:
  assumes "useChartAreaClick h n g x = Some i" and "j < n"
  shows "i < n \<and> \<bar>of_nat i - x\<bar> \<le> \<bar>of_nat j - x\<bar>"
proof -
  define k where "k = js_round x"
  have k: "of_int k \<le> x + 1 / 2" "x + 1 / 2 < of_int k + 1"
    unfolding k_def js_round_def by (rule of_int_floor_le, rule floor_less_cancel) simp
  have i: "i = nat (max 0 (min k (int n - 1)))"
    using assms(1) by (auto simp: useChartAreaClick_def k_def split: if_splits)
  have j: "(of_nat j :: rat) \<le> of_int (int n - 1)" using assms(2) by (simp add: of_nat_le_iff flip: of_nat_Suc)
  consider "k < 0" | "int n - 1 < k" "0 \<le> k" | "0 \<le> k" "k \<le> int n - 1" by linarith
  then show ?thesis
  proof cases
    case 1
    then have "i = 0" "(of_int k :: rat) \<le> -1" using i assms(2) by auto
    then show ?thesis using k assms(2) by (simp add: abs_if)
  next
    case 2
    then have "(of_int (int n) :: rat) \<le> of_int k" by (simp only: of_int_le_iff)
    moreover have "(of_nat i :: rat) = of_int (int n - 1)" using 2 i assms(2) by (simp add: max_def min_def of_nat_diff)
    ultimately show ?thesis using k j 2 i assms(2) by (auto simp: abs_if max_def min_def)
  next
    case 3
    then have ik: "(of_nat i :: rat) = of_int k" "int i = k" using i by (simp_all add: max_def min_def)
    show ?thesis
    proof (cases "int j = k")
      case True
      then have "i = j" using ik by simp
      then show ?thesis using assms(2) by simp
    next
      case False
      have "i < n" using ik 3 by linarith
      from False have "1 \<le> \<bar>(of_int (int j - k) :: rat)\<bar>" by (subst of_int_abs [symmetric], subst of_int_1_le_iff) linarith
      then show ?thesis using k ik 3 by (auto simp: abs_if split: if_splits)
    qed
  qed
qed

text \<open>
  A click inside the grid of a metric's chart selects the evaluation of a trend point nearest to it, and one
  inside the grid of the score chart that of an evaluation nearest to it; outside the grid nothing is selected.
\<close>

lemma chart_clicks_nearest:
  assumes "trend \<noteq> []" and "evals \<noteq> []"
  shows "(\<exists>i<length trend. trend_area_click True (Some trend) True x = Some (tp_evalId (trend ! i)) \<and>
      (\<forall>j<length trend. \<bar>of_nat i - x\<bar> \<le> \<bar>of_nat j - x\<bar>)) \<and>
    (\<exists>i<length evals. asset_score_click cmp evals True x = Some (ev_id (score_sorted cmp evals ! i)) \<and>
      (\<forall>j<length evals. \<bar>of_nat i - x\<bar> \<le> \<bar>of_nat j - x\<bar>)) \<and>
    trend_area_click True (Some trend) False x = None \<and> asset_score_click cmp evals False x = None"
proof -
  have ex: "\<exists>i<n. useChartAreaClick True n True x = Some i \<and> (\<forall>j<n. \<bar>of_nat i - x\<bar> \<le> \<bar>of_nat j - x\<bar>)" if "0 < n" for n
  proof -
    have i: "useChartAreaClick True n True x = Some (nat (max 0 (min (js_round x) (int n - 1))))"
      using that by (simp add: useChartAreaClick_def)
    then show ?thesis using chart_click_nearest [OF i] that by blast
  qed
  have out: "useChartAreaClick True n False x = None" for n by (simp add: useChartAreaClick_def)
  have len: "length (score_sorted cmp evals) = length evals" by (simp add: score_sorted_def)
  obtain i where i: "i < length trend" "useChartAreaClick True (length trend) True x = Some i"
      "\<forall>j<length trend. \<bar>of_nat i - x\<bar> \<le> \<bar>of_nat j - x\<bar>"
    using ex [of "length trend"] assms(1) by blast
  obtain k where k: "k < length evals" "useChartAreaClick True (length evals) True x = Some k"
      "\<forall>j<length evals. \<bar>of_nat k - x\<bar> \<le> \<bar>of_nat j - x\<bar>"
    using ex [of "length evals"] assms(2) by blast
  have "trend_area_click True (Some trend) True x = Some (tp_evalId (trend ! i))"
    and "asset_score_click cmp evals True x = Some (ev_id (score_sorted cmp evals ! k))"
    and "trend_area_click True (Some trend) False x = None" and "asset_score_click cmp evals False x = None"
    by (simp_all add: trend_area_click_def asset_score_click_def len i(2) k(2) out)
  then show ?thesis using i(1,3) k(1,3) by blast
qed

text \<open>A button of a block changes what the block shows; the master switch takes over from whatever the block showed.\<close>

lemma trend_block_switches:
  "notesVisible prefs (trend_block_step br prefs False trend BlockNotes b) = (\<not> notesVisible prefs b)"
  "chartType prefs (trend_block_step br prefs False trend BlockNotes b) = chartType prefs b"
  "chartType prefs (trend_block_step br prefs False trend BlockChartType b) \<noteq> chartType prefs b"
  "notesVisible (toggleNotesMaster prefs) (trend_block_step br prefs l trend ev b) = (\<not> cpr_notesMaster prefs)"
  "chartType (UiState.toggleChartType prefs) (trend_block_step br prefs l trend ev b) \<noteq> cpr_chartTypeMaster prefs"
  subgoal by (simp add: trend_block_step_def trend_block_render_def notesVisible_def useMasterOverride_def setOverride_def Let_def)
  subgoal by (simp add: trend_block_step_def trend_block_render_def notesVisible_def chartType_def useMasterOverride_def setOverride_def Let_def)
  subgoal by (auto simp: trend_block_step_def trend_block_render_def chartType_def useMasterOverride_def setOverride_def Let_def)
  subgoal by (cases ev) (auto simp: trend_block_step_def trend_block_render_def notesVisible_def useMasterOverride_def setOverride_def
        toggleNotesMaster_def Let_def)
  subgoal by (cases ev) (auto simp: trend_block_step_def trend_block_render_def chartType_def useMasterOverride_def setOverride_def
        toggleChartType_def Let_def)
  done

end
