(* ===== verification/Spec2Isabelle.thy ===== *)
theory Spec2Isabelle
  imports TimeRange Format Domain ChartAnnotations MetricTrend RegistryTree NavigatorView EvalMappers RegistryMappers Coverage Hooks PanelViews SloWizard UiState ExplorerPages DetailViews RegistryPages AssetPages NotesView BlockViews
begin

text \<open>
  A model of the web client of TROPEK (\<open>src/ui/src\<close>, TypeScript and React), which shows the results of
  quality-gate evaluations and edits the definitions (SLOs, SLIs, data sources, groups) they are made from. The
  backend (Python), the data adapters and third-party libraries are not modelled; where the client relies on
  them they are arguments of the definitions.

  \<^bold>\<open>Parts and theories.\<close> Each theory models the files its own header names.

  \<^item> \<open>Prelude\<close>: options, strings, digits, the JavaScript \<open>Map\<close> and dictionaries (locales \<open>dict\<close>, \<open>list_dict\<close>,
    interpreted on maps, partial functions and URL parameters), sorting with a comparator, deduplication.
    \<open>Dates\<close>: the calendar, ISO strings and time values. \<open>Unfold\<close>: the fuel of recursive descents.
  \<^item> \<open>TimeRange\<close>: the time range of the page, its URL parameters and the local storage
    (\<open>lib/time-range-context.tsx\<close>, \<open>lib/search-params.ts\<close>, \<open>lib/dateRange.ts\<close>).
  \<^item> \<open>Format\<close>: numbers, dates, criteria, tags, escaping, validation (\<open>lib/format.ts\<close>, \<open>registry/forms/criteriaUtils.ts\<close>).
  \<^item> \<open>Domain\<close>, \<open>Dtos\<close>: the domain types of the features and the backend schemas (\<open>features/*/domain.ts\<close>,
    \<open>generated/api.ts\<close>); \<open>EvalMappers\<close>, \<open>RegistryMappers\<close>: the mappers between them; \<open>Coverage\<close>: their
    compile-time exhaustiveness frames.
  \<^item> \<open>Http\<close>, \<open>Api\<close>, \<open>RegistryApi\<close>: requests as functions of the network, from the method, URL and body sent to
    the value or error returned (\<open>features/*/api.ts\<close>).
  \<^item> \<open>QueryCache\<close>, \<open>Hooks\<close>: query keys, the cache with its staleness, and which cached queries each mutation
    invalidates (\<open>lib/queryKeys.ts\<close>, \<open>features/*/hooks.ts\<close>).
  \<^item> \<open>ChartAnnotations\<close>, \<open>MetricTrend\<close>: the note layer and the chart of a metric's trend.
  \<^item> \<open>RegistryTree\<close>, \<open>NavigatorView\<close>: the trees of the registry and the view models of the navigator.
  \<^item> \<open>SloScope\<close>, \<open>EvalActions\<close>, \<open>ReEvalForm\<close>, \<open>AssetPanel\<close>, \<open>PanelViews\<close>: the panel of an asset. A click selects a
    column; \<open>SloScope\<close> keeps the SLOs chosen for a bulk action, \<open>EvalActions\<close> and \<open>ReEvalForm\<close> the forms that send
    it through \<open>Api\<close> and invalidate through \<open>Hooks\<close>.
  \<^item> \<open>SloWizard\<close>: the wizard that edits an SLO and the request it sends.
  \<^item> \<open>HeatmapRender\<close>: shapes and colours of a heatmap and the page-wide tooltip watchdog.
  \<^item> \<open>UiState\<close>: columns, chart preferences, theme, configuration, tabs and the selection in the URL.
  \<^item> \<open>RegistryForms\<close>, \<open>RegistryPages\<close>: the forms of the registry (\<open>registry/forms/\<close>, \<open>slos/components/\<close>), its page, sidebar and
    detail views (\<open>pages/SloRegistryPage.tsx\<close>, \<open>registry/RegistrySidebar.tsx\<close>, \<open>registry/details/\<close>).
  \<^item> \<open>ExplorerPages\<close>, \<open>DetailViews\<close>: the change points page, the metric explorer, the page of one evaluation with its
    tables, and the time range picker.
  \<^item> \<open>AssetTreeView\<close>, \<open>AssetDialogs\<close>, \<open>AssetPages\<close>: the tree of groups and assets with its menus, the dialogs of assets, groups,
    labels and types, and the assets page (\<open>components/AssetTree/\<close>, \<open>components/labels/\<close>, \<open>features/assets/components/\<close>,
    \<open>pages/AssetsPage.tsx\<close>, \<open>slos/components/SloLinkDialog.tsx\<close>).
  \<^item> \<open>EvalPages\<close>, \<open>NotesView\<close>, \<open>BlockViews\<close>: the panels, heatmap and score charts of many evaluations, the notes and their
    categories (\<open>features/note-categories/components/\<close>), and the views that pages share: tree rows, search box, the block of
    a metric's chart, the breakdown by SLO and the header card.

  \<^bold>\<open>How state and operations correspond.\<close> A component's hooks of state are the fields of a record, a handler or an
  effect is a function from the state to the state (with the requests it sends, where it sends any), and a render that
  computes from props and state is a function of both. Where the order of events matters the mounted component is a state
  machine: a datatype of events, a step function and an inductive set of reachable states (\<open>picker_reach\<close>,
  \<open>sheet_reach\<close>, \<open>wizard_reach\<close>) or a run over a list of events. Errors are values of a sum
  type. A cache entry, a storage entry or an object with string keys is an association list in insertion order;
  enumerating an object lists array indices first, as the language does.

  \<^bold>\<open>What the lemmas show.\<close> Round trips (URL parameters, query strings, criteria, calendar days, storage), functional
  correctness of view models against declarative descriptions, invariants of the state machines, equivalence of
  different routes to the same selection, refinement of summaries by details, termination of descents
  and paging, bounds of drawn shapes and axes, and error behaviour of requests. Several state limits of the code that
  modelling found; they are listed as findings beside the development.

  \<^bold>\<open>Numbers, bounds and fuel.\<close> Numbers are exact rationals, so rounding of binary floating point is not modelled;
  formatting and rounding functions of the language are. A descent through groups is a partial function with
  fuel, and it is proved that it returns exactly when the groups are not cyclic, with the same result for every larger
  fuel; paging is a partial function proved to end. The thirty decimal places used to print a number
  suffice for every decimal the code can parse with that many digits.

  \<^bold>\<open>Not modelled.\<close> Markup, styles, focus, scrolling and timers; the chart library beyond the options it is given; the
  mock service of the development server; the generated path and operation tables; locale-dependent comparison and time
  zone data, which are arguments. Pages and forms listed as not modelled in the manifest hold their state in the
  hooks modelled here or are markup around them.
\<close>

end
